(* ===== verification/Capk_Prelude.thy ===== *)
theory Capk_Prelude
  imports Main
begin

text \<open>
  What every component of the development shares: Go's slices, errors and panics as values, the
  collections of rewrite rules the component proofs draw on, and the generic facts on lists that
  are declared for the simplifier once.

  Conventions: a Go pointer that may be nil is an \<open>option\<close>; a Go slice whose nil value the code
  tests is a \<open>slice\<close> (\<open>None\<close> is nil), any other slice is a \<open>list\<close>; a Go pair
  \<open>(T, error)\<close> of which the caller uses exactly one half is \<open>go_error + T\<close>; a Go function
  that only returns an \<open>error\<close> returns a \<open>go_error option\<close>.
\<close>

named_theorems capk_defs \<open>definitions that component proofs unfold\<close>
named_theorems capk_simps \<open>facts on components other components rewrite with\<close>

subsection \<open>Slices\<close>

type_synonym 'a slice = "'a list option"

fun elems :: "'a slice \<Rightarrow> 'a list" where
  "elems None = []"
| "elems (Some xs) = xs"

lemma elems_Nil_iff [simp]: "elems xs = [] \<longleftrightarrow> xs = None \<or> xs = Some []"
  by (cases xs) auto

subsection \<open>Errors\<close>

text \<open>
  The errors the code tells apart: the two reasons of an API server's answer it asks for
  (\<open>k8serrors.IsNotFound\<close>, \<open>k8serrors.IsAlreadyExists\<close>), any other error with its text, an
  error wrapped with a message by \<open>errors.Wrap\<close>, and an aggregate of several errors. Both
  questions look at the outermost error only, as the apimachinery of the pinned version does.
\<close>

datatype go_error =
    StatusNotFound string
  | StatusAlreadyExists string
  | GoError string
  | Wrapped string go_error
  | Aggregate "go_error list"

fun IsNotFound :: "go_error \<Rightarrow> bool" where
  "IsNotFound (StatusNotFound _) = True"
| "IsNotFound _ = False"

fun IsAlreadyExists :: "go_error \<Rightarrow> bool" where
  "IsAlreadyExists (StatusAlreadyExists _) = True"
| "IsAlreadyExists _ = False"

subsection \<open>Returning or panicking\<close>

text \<open>A Go call either returns or panics; a panic unwinds every caller up to its deferred calls.\<close>

datatype 'a outcome = Returned 'a | Panicked string

fun panics :: "'a outcome \<Rightarrow> bool" where
  "panics (Returned _) = False"
| "panics (Panicked _) = True"

text \<open>Go's \<open>if err != nil { return ..., err }\<close> after a call that may also panic.\<close>

fun andThen :: "('e + 'a) outcome \<Rightarrow> ('a \<Rightarrow> ('e + 'b) outcome) \<Rightarrow> ('e + 'b) outcome" where
  "andThen (Panicked p) f = Panicked p"
| "andThen (Returned (Inl e)) f = Returned (Inl e)"
| "andThen (Returned (Inr x)) f = f x"

lemma result_cases:
  fixes r :: "('e + 'a) outcome"
  obtains p where "r = Panicked p" | e where "r = Returned (Inl e)" | x where "r = Returned (Inr x)"
  by (metis outcome.exhaust sum.exhaust)

lemma andThen_ok_iff:
  "andThen r f = Returned (Inr y) \<longleftrightarrow> (\<exists>x. r = Returned (Inr x) \<and> f x = Returned (Inr y))"
  by (cases r rule: result_cases) auto

text \<open>A loop that calls a function on every element and stops at the first error or panic.\<close>

fun eachOf :: "('a \<Rightarrow> ('e + 'b) outcome) \<Rightarrow> 'a list \<Rightarrow> ('e + 'b list) outcome" where
  "eachOf f [] = Returned (Inr [])"
| "eachOf f (x # xs) = andThen (f x) (\<lambda>y. andThen (eachOf f xs) (\<lambda>ys. Returned (Inr (y # ys))))"

lemma andThen_assoc: "andThen (andThen r f) g = andThen r (\<lambda>x. andThen (f x) g)"
  by (cases r rule: result_cases) auto

lemma andThen_return [simp]: "andThen r (\<lambda>x. Returned (Inr x)) = r"
  by (cases r rule: result_cases) auto

lemma eachOf_append:
  "eachOf f (xs @ ys) =
     andThen (eachOf f xs) (\<lambda>as. andThen (eachOf f ys) (\<lambda>bs. Returned (Inr (as @ bs))))"
  by (induction xs) (simp_all add: andThen_assoc)

lemma eachOf_ok_iff:
  "eachOf f xs = Returned (Inr ys) \<longleftrightarrow> list_all2 (\<lambda>x y. f x = Returned (Inr y)) xs ys"
  by (induction xs arbitrary: ys) (auto simp: andThen_ok_iff list_all2_Cons1)

subsection \<open>Generic facts on lists\<close>

text \<open>\<open>find_last P xs\<close>: what a Go loop over \<open>xs\<close> that overwrites a variable at every match of
  \<open>P\<close> leaves in it.\<close>

fun find_last :: "('a \<Rightarrow> bool) \<Rightarrow> 'a list \<Rightarrow> 'a option" where
  "find_last P [] = None"
| "find_last P (x # xs) =
     (case find_last P xs of Some y \<Rightarrow> Some y | None \<Rightarrow> if P x then Some x else None)"

lemma find_last_None_iff: "find_last P xs = None \<longleftrightarrow> (\<forall>x \<in> set xs. \<not> P x)"
  by (induction xs) (auto split: option.splits)

lemma find_last_SomeD: "find_last P xs = Some x \<Longrightarrow> x \<in> set xs \<and> P x"
  by (induction xs) (auto split: option.splits if_splits)

lemma map_of_append_last:
  "k \<notin> fst ` set xs \<Longrightarrow> map_of (xs @ [(k, v)]) k = Some v"
  by (induction xs) auto

subsection \<open>Adding a named element when it is missing\<close>

text \<open>
  The controllers keep several lists in which an element is added only when none with its key is
  there yet (the volumes of a Pod, the mounts and the ports of a container, the finalizers of an
  object). The contract of such an addition is stated once; the components interpret it with their
  own functions.
\<close>

locale adds_missing =
  fixes key :: "'a \<Rightarrow> 'k"
    and add :: "'a \<Rightarrow> 'a list \<Rightarrow> 'a list"
  assumes add_present: "key x \<in> key ` set xs \<Longrightarrow> add x xs = xs"
    and add_absent: "key x \<notin> key ` set xs \<Longrightarrow> add x xs = xs @ [x]"
begin

lemma add_cases: "add x xs = xs \<or> add x xs = xs @ [x]"
  using add_present add_absent by blast

lemma keys_add: "key ` set (add x xs) = insert (key x) (key ` set xs)"
  by (cases "key x \<in> key ` set xs") (auto simp: add_present add_absent)

lemma distinct_add: "distinct (map key xs) \<Longrightarrow> distinct (map key (add x xs))"
  by (cases "key x \<in> key ` set xs") (auto simp: add_present add_absent)

lemma set_add: "y \<in> set (add x xs) \<Longrightarrow> y \<in> set xs \<or> y = x"
  using add_cases [of x xs] by auto

lemma add_mono: "y \<in> set xs \<Longrightarrow> y \<in> set (add x xs)"
  using add_cases [of x xs] by auto

lemma add_idem: "add x (add x xs) = add x xs"
  by (simp add: add_present keys_add)

lemma add_prefix: "\<exists>ys. add x xs = xs @ ys"
  using add_cases [of x xs] by auto

lemma keys_fold: "key ` set (fold add ns xs) = key ` set xs \<union> key ` set ns"
  by (induction ns arbitrary: xs) (auto simp: keys_add)

lemma distinct_fold: "distinct (map key xs) \<Longrightarrow> distinct (map key (fold add ns xs))"
  by (induction ns arbitrary: xs) (auto simp: distinct_add)

lemma set_fold: "y \<in> set (fold add ns xs) \<Longrightarrow> y \<in> set xs \<or> y \<in> set ns"
  by (induction ns arbitrary: xs) (auto dest: set_add)

lemma fold_mono: "y \<in> set xs \<Longrightarrow> y \<in> set (fold add ns xs)"
  by (induction ns arbitrary: xs) (auto intro: add_mono)

lemma fold_prefix: "\<exists>ys. fold add ns xs = xs @ ys"
proof (induction ns arbitrary: xs)
  case Nil
  show ?case by simp
next
  case (Cons n ns)
  obtain as where "add n xs = xs @ as" using add_prefix by blast
  moreover obtain bs where "fold add ns (add n xs) = add n xs @ bs" using Cons.IH by blast
  ultimately show ?case by simp
qed

lemma fold_idem: "fold add ns (fold add ns xs) = fold add ns xs"
proof -
  have noop: "key ` set ms \<subseteq> key ` set ys \<Longrightarrow> fold add ms ys = ys" for ms ys
    by (induction ms) (auto simp: add_present)
  show ?thesis by (rule noop) (simp add: keys_fold)
qed

end

end
