(* ===== verification/Kube_Objects.thy ===== *)
theory Kube_Objects
  imports Capk_Prelude "HOL-Library.Word"
begin

text \<open>
  The API objects the controllers read and write, as records: the part of \<open>k8s.io/api/core/v1\<close>,
  \<open>k8s.io/apimachinery\<close> and \<open>sigs.k8s.io/cluster-api/api/v1alpha3\<close> that the source names. Each
  record has the fields the source touches; a field \<open>_Rest\<close> stands for the remaining ones, which
  the code copies and never looks into. This theory has data only: what the libraries compute on it
  is a parameter of the components (see \<open>Kube_Client\<close>).
\<close>

type_synonym int32 = "32 word"

text \<open>A \<open>resource.Quantity\<close>, in thousandths of its unit, the precision its documentation fixes.\<close>

type_synonym quantity = int

text \<open>A Go map that the code iterates over: its entries, in some order, with distinct keys.\<close>

type_synonym ResourceList = "(string \<times> quantity) list"

subsection \<open>Metadata\<close>

record NamespacedName =
  nn_Namespace :: string
  nn_Name :: string

record OwnerReference =
  or_APIVersion :: string
  or_Kind :: string
  or_Name :: string
  or_UID :: string
  or_Controller :: "bool option"

record ObjectMeta =
  om_Name :: string
  om_Namespace :: string
  om_UID :: string
  om_Labels :: "(string \<rightharpoonup> string) option"
  om_Annotations :: "string \<rightharpoonup> string"
  om_Finalizers :: "string list"
  om_OwnerReferences :: "OwnerReference list"
  om_DeletionTimestamp :: "nat option"
  om_Rest :: string

text \<open>\<open>metav1.Time.IsZero\<close> of a possibly nil timestamp: nil and the zero time are zero.\<close>

definition timeIsZero :: "nat option \<Rightarrow> bool" where
  "timeIsZero t = (case t of None \<Rightarrow> True | Some n \<Rightarrow> n = 0)"

definition emptyObjectMeta :: ObjectMeta where
  "emptyObjectMeta = \<lparr>om_Name = [], om_Namespace = [], om_UID = [], om_Labels = None,
     om_Annotations = Map.empty, om_Finalizers = [], om_OwnerReferences = [],
     om_DeletionTimestamp = None, om_Rest = []\<rparr>"

subsection \<open>Pods\<close>

record ResourceRequirements =
  rr_Requests :: ResourceList
  rr_Limits :: ResourceList

record SecurityContext =
  sc_Privileged :: "bool option"
  sc_Rest :: string

record VolumeMount =
  vm_Name :: string
  vm_MountPath :: string
  vm_ReadOnly :: bool
  vm_SubPath :: string
  vm_Rest :: string

record ContainerPort =
  cp_Name :: string
  cp_Protocol :: string
  cp_ContainerPort :: int32
  cp_Rest :: string

datatype IntOrString = IntVal int32 | StrVal string

record Probe =
  pr_PeriodSeconds :: int32
  pr_FailureThreshold :: int32
  pr_TCPSocketPort :: "IntOrString option"
  pr_Rest :: string

record Container =
  c_Name :: string
  c_Image :: string
  c_Resources :: ResourceRequirements
  c_SecurityContext :: "SecurityContext option"
  c_TTY :: bool
  c_VolumeMounts :: "VolumeMount list"
  c_Ports :: "ContainerPort list"
  c_ReadinessProbe :: "Probe option"
  c_Rest :: string

definition emptyContainer :: Container where
  "emptyContainer = \<lparr>c_Name = [], c_Image = [], c_Resources = \<lparr>rr_Requests = [], rr_Limits = []\<rparr>,
     c_SecurityContext = None, c_TTY = False, c_VolumeMounts = [], c_Ports = [],
     c_ReadinessProbe = None, c_Rest = []\<rparr>"

record KeyToPath =
  kp_Key :: string
  kp_Path :: string

datatype VolumeSource =
    EmptyDir string                             \<comment> \<open>its medium\<close>
  | HostPath string string                      \<comment> \<open>path and type\<close>
  | SecretSource string "KeyToPath list" "int32 option"  \<comment> \<open>name, items, default mode\<close>
  | ClaimSource string bool                     \<comment> \<open>claim name, read only\<close>
  | OtherSource string

record Volume =
  v_Name :: string
  v_Source :: VolumeSource

record PodSpec =
  ps_Containers :: "Container slice"
  ps_InitContainers :: "Container list"
  ps_Volumes :: "Volume list"
  ps_RestartPolicy :: string
  ps_Hostname :: string
  ps_Rest :: string

record ContainerStateTerminated =
  ct_Reason :: string

record ContainerState =
  st_Running :: "string option"
  st_Terminated :: "ContainerStateTerminated option"

record ContainerStatus =
  cs_Name :: string
  cs_State :: ContainerState
  cs_Ready :: bool

definition emptyContainerStatus :: ContainerStatus where
  "emptyContainerStatus =
     \<lparr>cs_Name = [], cs_State = \<lparr>st_Running = None, st_Terminated = None\<rparr>, cs_Ready = False\<rparr>"

record PodCondition =
  pc_Type :: string
  pc_Status :: string

record PodStatus =
  pst_Conditions :: "PodCondition slice"
  pst_ContainerStatuses :: "ContainerStatus list"

definition emptyPodStatus :: PodStatus where
  "emptyPodStatus = \<lparr>pst_Conditions = None, pst_ContainerStatuses = []\<rparr>"

record Pod =
  pod_Meta :: ObjectMeta
  pod_Spec :: PodSpec
  pod_Status :: PodStatus

subsection \<open>Secrets, claims and Services\<close>

record Secret =
  sec_Meta :: ObjectMeta
  sec_Data :: "string \<rightharpoonup> string"
  sec_StringData :: "string \<rightharpoonup> string"

record PersistentVolumeClaim =
  pvc_Meta :: ObjectMeta
  pvc_Rest :: string

record ServicePort =
  sp_Name :: string
  sp_Protocol :: string
  sp_Port :: int32
  sp_TargetPort :: IntOrString

record LoadBalancerIngress =
  in_Hostname :: string
  in_IP :: string

record Service =
  svc_Meta :: ObjectMeta
  svc_Type :: string
  svc_Selector :: "string \<rightharpoonup> string"
  svc_Ports :: "ServicePort list"
  svc_ClusterIP :: string
  svc_LoadBalancerIP :: string
  svc_Ingress :: "LoadBalancerIngress list"

abbreviation ServiceTypeClusterIP :: string where "ServiceTypeClusterIP \<equiv> ''ClusterIP''"
abbreviation ServiceTypeLoadBalancer :: string where "ServiceTypeLoadBalancer \<equiv> ''LoadBalancer''"

subsection \<open>Cluster API objects\<close>

record ObjectReference =
  ref_Name :: string
  ref_Rest :: string

record ClusterNetwork =
  cn_APIServerPort :: "int32 option"
  cn_Rest :: string

record Cluster =
  cl_Meta :: ObjectMeta
  cl_Paused :: bool
  cl_ClusterNetwork :: "ClusterNetwork option"
  cl_InfrastructureRef :: "ObjectReference option"
  cl_InfrastructureReady :: bool
  cl_Rest :: string

record Machine =
  mc_Meta :: ObjectMeta
  mc_Version :: "string option"
  mc_DataSecretName :: "string option"
  mc_InfrastructureRef :: ObjectReference
  mc_Rest :: string

text \<open>The constants of these packages that the source refers to by name.\<close>

definition ClusterLabelName :: string where
  "ClusterLabelName = ''cluster.x-k8s.io/cluster-name''"

definition MachineControlPlaneLabelName :: string where
  "MachineControlPlaneLabelName = ''cluster.x-k8s.io/control-plane''"

definition FinalizerDeleteDependents :: string where
  "FinalizerDeleteDependents = ''foregroundDeletion''"

definition UnsupportedChange :: string where
  "UnsupportedChange = ''UnsupportedChange''"

lemma label_names_differ [simp]:
  "ClusterLabelName \<noteq> MachineControlPlaneLabelName"
  "MachineControlPlaneLabelName \<noteq> ClusterLabelName"
  by (simp_all add: ClusterLabelName_def MachineControlPlaneLabelName_def)

text \<open>A label selector matches an object whose labels extend it.\<close>

definition selectorMatches :: "(string \<rightharpoonup> string) \<Rightarrow> ObjectMeta \<Rightarrow> bool" where
  "selectorMatches sel m \<longleftrightarrow> sel \<subseteq>\<^sub>m (case om_Labels m of None \<Rightarrow> Map.empty | Some l \<Rightarrow> l)"

end
