(* ===== verification/Capk_Types.thy ===== *)
theory Capk_Types
  imports Kube_Objects
begin

text \<open>
  The custom resources of the provider: \<open>src/api/v1alpha3\<close> (the hub and storage version, which the
  controllers use) and \<open>src/api/v1alpha2\<close>, with their methods: the failure setters, \<open>IsZero\<close> of an
  endpoint, and the defaulting webhooks. The older version's names carry the suffix \<open>_v1alpha2\<close>.
  A phase is a string type in Go and stays one here.
\<close>

subsection \<open>Group versions\<close>

definition GroupName :: string where
  "GroupName = ''infrastructure.dippynark.co.uk''"

definition GroupVersion :: string where
  "GroupVersion = GroupName @ ''/'' @ ''v1alpha3''"

definition GroupVersion_v1alpha2 :: string where
  "GroupVersion_v1alpha2 = GroupName @ ''/'' @ ''v1alpha2''"

subsection \<open>KubernetesCluster\<close>

record APIEndpoint =
  ep_Host :: string
  ep_Port :: int32

definition APIEndpoint_IsZero :: "APIEndpoint \<Rightarrow> bool" where
  "APIEndpoint_IsZero v \<longleftrightarrow> ep_Host v = [] \<or> ep_Port v = 0"

definition KubernetesClusterFinalizer :: string where
  "KubernetesClusterFinalizer = ''kubernetescluster.infrastructure.dippynark.co.uk''"

record KubernetesClusterSpec =
  kcs_ControlPlaneServiceType :: string
  kcs_ControlPlaneEndpoint :: APIEndpoint

record KubernetesClusterStatus =
  kcst_FailureReason :: "string option"
  kcst_FailureMessage :: "string option"
  kcst_Phase :: string
  kcst_Ready :: bool

record KubernetesCluster =
  kc_TypeMeta :: string
  kc_Meta :: ObjectMeta
  kc_Spec :: KubernetesClusterSpec
  kc_Status :: KubernetesClusterStatus

abbreviation KubernetesClusterPhaseProvisioning :: string where
  "KubernetesClusterPhaseProvisioning \<equiv> ''Provisioning''"
abbreviation KubernetesClusterPhaseProvisioned :: string where
  "KubernetesClusterPhaseProvisioned \<equiv> ''Provisioned''"
abbreviation KubernetesClusterPhaseFailed :: string where
  "KubernetesClusterPhaseFailed \<equiv> ''Failed''"
abbreviation KubernetesClusterPhaseDeleting :: string where
  "KubernetesClusterPhaseDeleting \<equiv> ''Deleting''"

definition cluster_SetFailureReason ::
  "string \<Rightarrow> KubernetesClusterStatus \<Rightarrow> KubernetesClusterStatus" where
  "cluster_SetFailureReason v s = s\<lparr>kcst_FailureReason := Some v\<rparr>"

text \<open>The setter takes an error and stores its text; the errors the controllers pass have their
  message as text.\<close>

definition cluster_SetFailureMessage ::
  "string \<Rightarrow> KubernetesClusterStatus \<Rightarrow> KubernetesClusterStatus" where
  "cluster_SetFailureMessage v s = s\<lparr>kcst_FailureMessage := Some v\<rparr>"

subsection \<open>KubernetesMachine\<close>

definition KubernetesMachineFinalizer :: string where
  "KubernetesMachineFinalizer = ''kubernetesmachine.infrastructure.dippynark.co.uk''"

record KubernetesMachineSpec =
  kms_ProviderID :: "string option"
  kms_AllowRecreation :: bool
  kms_PodSpec :: PodSpec
  kms_VolumeClaimTemplates :: "PersistentVolumeClaim list"

record KubernetesMachineStatus =
  kmst_Version :: "string option"
  kmst_FailureReason :: "string option"
  kmst_FailureMessage :: "string option"
  kmst_Phase :: string
  kmst_Ready :: bool

record KubernetesMachine =
  km_TypeMeta :: string
  km_Meta :: ObjectMeta
  km_Spec :: KubernetesMachineSpec
  km_Status :: KubernetesMachineStatus

abbreviation KubernetesMachinePhasePending :: string where
  "KubernetesMachinePhasePending \<equiv> ''Pending''"
abbreviation KubernetesMachinePhaseProvisioning :: string where
  "KubernetesMachinePhaseProvisioning \<equiv> ''Provisioning''"
abbreviation KubernetesMachinePhaseRunning :: string where
  "KubernetesMachinePhaseRunning \<equiv> ''Running''"
abbreviation KubernetesMachinePhaseFailed :: string where
  "KubernetesMachinePhaseFailed \<equiv> ''Failed''"
abbreviation KubernetesMachinePhaseDeleting :: string where
  "KubernetesMachinePhaseDeleting \<equiv> ''Deleting''"

definition machine_SetFailureReason ::
  "string \<Rightarrow> KubernetesMachineStatus \<Rightarrow> KubernetesMachineStatus" where
  "machine_SetFailureReason v s = s\<lparr>kmst_FailureReason := Some v\<rparr>"

definition machine_SetFailureMessage ::
  "string \<Rightarrow> KubernetesMachineStatus \<Rightarrow> KubernetesMachineStatus" where
  "machine_SetFailureMessage v s = s\<lparr>kmst_FailureMessage := Some v\<rparr>"

text \<open>\<open>Default\<close> of the mutating webhook: a nil container list becomes an empty one.\<close>

definition machine_Default :: "KubernetesMachine \<Rightarrow> KubernetesMachine" where
  "machine_Default r =
     (if ps_Containers (kms_PodSpec (km_Spec r)) = None
      then r\<lparr>km_Spec := (km_Spec r)\<lparr>kms_PodSpec :=
             (kms_PodSpec (km_Spec r))\<lparr>ps_Containers := Some []\<rparr>\<rparr>\<rparr>
      else r)"

subsection \<open>KubernetesMachineTemplate\<close>

record KubernetesMachineTemplateResource =
  kmtr_Spec :: KubernetesMachineSpec

record KubernetesMachineTemplateSpec =
  kmts_Template :: KubernetesMachineTemplateResource

record KubernetesMachineTemplate =
  kmt_TypeMeta :: string
  kmt_Meta :: ObjectMeta
  kmt_Spec :: KubernetesMachineTemplateSpec

subsection \<open>Version v1alpha2\<close>

record APIEndpoint_v1alpha2 =
  ep2_Host :: string
  ep2_Port :: int32

record KubernetesClusterSpec_v1alpha2 =
  kcs2_ControlPlaneServiceType :: string
  kcs2_ControlPlaneEndpoint :: APIEndpoint_v1alpha2

record KubernetesClusterStatus_v1alpha2 =
  kcst2_ErrorReason :: "string option"
  kcst2_ErrorMessage :: "string option"
  kcst2_Phase :: string
  kcst2_Ready :: bool
  kcst2_APIEndpoints :: "APIEndpoint_v1alpha2 list"

record KubernetesCluster_v1alpha2 =
  kc2_TypeMeta :: string
  kc2_Meta :: ObjectMeta
  kc2_Spec :: KubernetesClusterSpec_v1alpha2
  kc2_Status :: KubernetesClusterStatus_v1alpha2

definition KubernetesClusterFinalizer_v1alpha2 :: string where
  "KubernetesClusterFinalizer_v1alpha2 = ''kubernetescluster.infrastructure.dippynark.co.uk''"

abbreviation KubernetesClusterPhaseProvisioning_v1alpha2 :: string where
  "KubernetesClusterPhaseProvisioning_v1alpha2 \<equiv> ''Provisioning''"
abbreviation KubernetesClusterPhaseProvisioned_v1alpha2 :: string where
  "KubernetesClusterPhaseProvisioned_v1alpha2 \<equiv> ''Provisioned''"
abbreviation KubernetesClusterPhaseFailed_v1alpha2 :: string where
  "KubernetesClusterPhaseFailed_v1alpha2 \<equiv> ''Failed''"
abbreviation KubernetesClusterPhaseDeleting_v1alpha2 :: string where
  "KubernetesClusterPhaseDeleting_v1alpha2 \<equiv> ''Deleting''"

definition cluster_SetErrorReason_v1alpha2 ::
  "string \<Rightarrow> KubernetesClusterStatus_v1alpha2 \<Rightarrow> KubernetesClusterStatus_v1alpha2" where
  "cluster_SetErrorReason_v1alpha2 v s = s\<lparr>kcst2_ErrorReason := Some v\<rparr>"

definition cluster_SetErrorMessage_v1alpha2 ::
  "string \<Rightarrow> KubernetesClusterStatus_v1alpha2 \<Rightarrow> KubernetesClusterStatus_v1alpha2" where
  "cluster_SetErrorMessage_v1alpha2 v s = s\<lparr>kcst2_ErrorMessage := Some v\<rparr>"

definition APIEndpoint_IsZero_v1alpha2 :: "APIEndpoint_v1alpha2 \<Rightarrow> bool" where
  "APIEndpoint_IsZero_v1alpha2 v \<longleftrightarrow> ep2_Host v = [] \<or> ep2_Port v = 0"

record KubernetesMachineSpec_v1alpha2 =
  kms2_ProviderID :: "string option"
  kms2_AllowRecreation :: bool
  kms2_PodSpec :: PodSpec
  kms2_VolumeClaimTemplates :: "PersistentVolumeClaim list"

record KubernetesMachineStatus_v1alpha2 =
  kmst2_Version :: "string option"
  kmst2_ErrorReason :: "string option"
  kmst2_ErrorMessage :: "string option"
  kmst2_Phase :: string
  kmst2_Ready :: bool

record KubernetesMachine_v1alpha2 =
  km2_TypeMeta :: string
  km2_Meta :: ObjectMeta
  km2_Spec :: KubernetesMachineSpec_v1alpha2
  km2_Status :: KubernetesMachineStatus_v1alpha2

definition KubernetesMachineFinalizer_v1alpha2 :: string where
  "KubernetesMachineFinalizer_v1alpha2 = ''kubernetesmachine.infrastructure.dippynark.co.uk''"

abbreviation KubernetesMachinePhasePending_v1alpha2 :: string where
  "KubernetesMachinePhasePending_v1alpha2 \<equiv> ''Pending''"
abbreviation KubernetesMachinePhaseProvisioning_v1alpha2 :: string where
  "KubernetesMachinePhaseProvisioning_v1alpha2 \<equiv> ''Provisioning''"
abbreviation KubernetesMachinePhaseRunning_v1alpha2 :: string where
  "KubernetesMachinePhaseRunning_v1alpha2 \<equiv> ''Running''"
abbreviation KubernetesMachinePhaseFailed_v1alpha2 :: string where
  "KubernetesMachinePhaseFailed_v1alpha2 \<equiv> ''Failed''"
abbreviation KubernetesMachinePhaseDeleting_v1alpha2 :: string where
  "KubernetesMachinePhaseDeleting_v1alpha2 \<equiv> ''Deleting''"

definition machine_SetErrorReason_v1alpha2 ::
  "string \<Rightarrow> KubernetesMachineStatus_v1alpha2 \<Rightarrow> KubernetesMachineStatus_v1alpha2" where
  "machine_SetErrorReason_v1alpha2 v s = s\<lparr>kmst2_ErrorReason := Some v\<rparr>"

definition machine_SetErrorMessage_v1alpha2 ::
  "string \<Rightarrow> KubernetesMachineStatus_v1alpha2 \<Rightarrow> KubernetesMachineStatus_v1alpha2" where
  "machine_SetErrorMessage_v1alpha2 v s = s\<lparr>kmst2_ErrorMessage := Some v\<rparr>"

definition machine_Default_v1alpha2 :: "KubernetesMachine_v1alpha2 \<Rightarrow> KubernetesMachine_v1alpha2"
  where
  "machine_Default_v1alpha2 r =
     (if ps_Containers (kms2_PodSpec (km2_Spec r)) = None
      then r\<lparr>km2_Spec := (km2_Spec r)\<lparr>kms2_PodSpec :=
             (kms2_PodSpec (km2_Spec r))\<lparr>ps_Containers := Some []\<rparr>\<rparr>\<rparr>
      else r)"

record KubernetesMachineTemplateResource_v1alpha2 =
  kmtr2_Spec :: KubernetesMachineSpec_v1alpha2

record KubernetesMachineTemplateSpec_v1alpha2 =
  kmts2_Template :: KubernetesMachineTemplateResource_v1alpha2

record KubernetesMachineTemplate_v1alpha2 =
  kmt2_TypeMeta :: string
  kmt2_Meta :: ObjectMeta
  kmt2_Spec :: KubernetesMachineTemplateSpec_v1alpha2

subsection \<open>Facts\<close>

lemma groupVersions_differ [simp]: "GroupVersion \<noteq> GroupVersion_v1alpha2"
  by (simp add: GroupVersion_def GroupVersion_v1alpha2_def)

lemma finalizers_differ [simp]:
  "KubernetesMachineFinalizer \<noteq> FinalizerDeleteDependents"
  "KubernetesClusterFinalizer \<noteq> FinalizerDeleteDependents"
  by (simp_all add: KubernetesMachineFinalizer_def KubernetesClusterFinalizer_def
      FinalizerDeleteDependents_def)

text \<open>The failure state of an object: either half of the pair is set.\<close>

definition machineFailed :: "KubernetesMachine \<Rightarrow> bool" where
  "machineFailed k \<longleftrightarrow>
     kmst_FailureReason (km_Status k) \<noteq> None \<or> kmst_FailureMessage (km_Status k) \<noteq> None"

definition clusterFailed :: "KubernetesCluster \<Rightarrow> bool" where
  "clusterFailed k \<longleftrightarrow>
     kcst_FailureReason (kc_Status k) \<noteq> None \<or> kcst_FailureMessage (kc_Status k) \<noteq> None"

text \<open>The defaulting webhook never leaves the container list nil, changes nothing else, and is
  idempotent.\<close>

lemma machine_Default_spec:
  "ps_Containers (kms_PodSpec (km_Spec (machine_Default k))) =
     Some (elems (ps_Containers (kms_PodSpec (km_Spec k))))"
  "machine_Default (machine_Default k) = machine_Default k"
  by (auto simp: machine_Default_def)

end
