(* ===== verification/Capk_Convert.thy ===== *)
theory Capk_Convert
  imports Capk_Types
begin

text \<open>
  The conversion webhooks between the two API versions: \<open>ConvertTo\<close> and \<open>ConvertFrom\<close> of
  \<open>src/api/v1alpha2/*_conversion.go\<close>. Each method writes into a destination object the framework
  passes; the fields it does not assign (the \<open>TypeMeta\<close>, and \<open>status.apiEndpoints\<close> when the
  endpoint is zero) keep the destination's value. The destination is an interface value whose type
  assertion may fail, which panics.
\<close>

datatype Hub =
    HubCluster KubernetesCluster
  | HubMachine KubernetesMachine
  | HubTemplate KubernetesMachineTemplate

subsection \<open>KubernetesCluster\<close>

definition cluster_toHub :: "KubernetesCluster_v1alpha2 \<Rightarrow> KubernetesCluster \<Rightarrow> KubernetesCluster"
  where
  "cluster_toHub src dst = dst\<lparr>
     kc_Meta := kc2_Meta src,
     kc_Spec := (kc_Spec dst)\<lparr>
       kcs_ControlPlaneServiceType := kcs2_ControlPlaneServiceType (kc2_Spec src),
       kcs_ControlPlaneEndpoint :=
         \<lparr>ep_Host = ep2_Host (kcs2_ControlPlaneEndpoint (kc2_Spec src)),
          ep_Port = ep2_Port (kcs2_ControlPlaneEndpoint (kc2_Spec src))\<rparr>\<rparr>,
     kc_Status := (kc_Status dst)\<lparr>
       kcst_FailureReason := kcst2_ErrorReason (kc2_Status src),
       kcst_FailureMessage := kcst2_ErrorMessage (kc2_Status src),
       kcst_Phase := kcst2_Phase (kc2_Status src),
       kcst_Ready := kcst2_Ready (kc2_Status src)\<rparr>\<rparr>"

definition cluster_ConvertTo :: "KubernetesCluster_v1alpha2 \<Rightarrow> Hub \<Rightarrow> Hub outcome" where
  "cluster_ConvertTo src dstRaw =
     (case dstRaw of
        HubCluster dst \<Rightarrow> Returned (HubCluster (cluster_toHub src dst))
      | _ \<Rightarrow> Panicked ''interface conversion'')"

definition cluster_fromHub ::
  "KubernetesCluster_v1alpha2 \<Rightarrow> KubernetesCluster \<Rightarrow> KubernetesCluster_v1alpha2" where
  "cluster_fromHub dst src =
     (let dst1 = dst\<lparr>
            kc2_Meta := kc_Meta src,
            kc2_Spec := (kc2_Spec dst)\<lparr>
              kcs2_ControlPlaneServiceType := kcs_ControlPlaneServiceType (kc_Spec src),
              kcs2_ControlPlaneEndpoint :=
                \<lparr>ep2_Host = ep_Host (kcs_ControlPlaneEndpoint (kc_Spec src)),
                 ep2_Port = ep_Port (kcs_ControlPlaneEndpoint (kc_Spec src))\<rparr>\<rparr>,
            kc2_Status := (kc2_Status dst)\<lparr>
              kcst2_ErrorReason := kcst_FailureReason (kc_Status src),
              kcst2_ErrorMessage := kcst_FailureMessage (kc_Status src),
              kcst2_Phase := kcst_Phase (kc_Status src),
              kcst2_Ready := kcst_Ready (kc_Status src)\<rparr>\<rparr>
      in if \<not> APIEndpoint_IsZero (kcs_ControlPlaneEndpoint (kc_Spec src)) then
           dst1\<lparr>kc2_Status := (kc2_Status dst1)\<lparr>kcst2_APIEndpoints :=
             [\<lparr>ep2_Host = ep_Host (kcs_ControlPlaneEndpoint (kc_Spec src)),
               ep2_Port = ep_Port (kcs_ControlPlaneEndpoint (kc_Spec src))\<rparr>]\<rparr>\<rparr>
         else dst1)"

definition cluster_ConvertFrom ::
  "KubernetesCluster_v1alpha2 \<Rightarrow> Hub \<Rightarrow> KubernetesCluster_v1alpha2 outcome" where
  "cluster_ConvertFrom dst srcRaw =
     (case srcRaw of
        HubCluster src \<Rightarrow> Returned (cluster_fromHub dst src)
      | _ \<Rightarrow> Panicked ''interface conversion'')"

subsection \<open>KubernetesMachine\<close>

definition machine_toHub :: "KubernetesMachine_v1alpha2 \<Rightarrow> KubernetesMachine \<Rightarrow> KubernetesMachine"
  where
  "machine_toHub src dst = dst\<lparr>
     km_Meta := km2_Meta src,
     km_Spec := (km_Spec dst)\<lparr>
       kms_ProviderID := kms2_ProviderID (km2_Spec src),
       kms_AllowRecreation := kms2_AllowRecreation (km2_Spec src),
       kms_PodSpec := kms2_PodSpec (km2_Spec src),
       kms_VolumeClaimTemplates := kms2_VolumeClaimTemplates (km2_Spec src)\<rparr>,
     km_Status := (km_Status dst)\<lparr>
       kmst_Version := kmst2_Version (km2_Status src),
       kmst_FailureReason := kmst2_ErrorReason (km2_Status src),
       kmst_FailureMessage := kmst2_ErrorMessage (km2_Status src),
       kmst_Phase := kmst2_Phase (km2_Status src),
       kmst_Ready := kmst2_Ready (km2_Status src)\<rparr>\<rparr>"

definition machine_ConvertTo :: "KubernetesMachine_v1alpha2 \<Rightarrow> Hub \<Rightarrow> Hub outcome" where
  "machine_ConvertTo src dstRaw =
     (case dstRaw of
        HubMachine dst \<Rightarrow> Returned (HubMachine (machine_toHub src dst))
      | _ \<Rightarrow> Panicked ''interface conversion'')"

definition machine_fromHub ::
  "KubernetesMachine_v1alpha2 \<Rightarrow> KubernetesMachine \<Rightarrow> KubernetesMachine_v1alpha2" where
  "machine_fromHub dst src = dst\<lparr>
     km2_Meta := km_Meta src,
     km2_Spec := (km2_Spec dst)\<lparr>
       kms2_ProviderID := kms_ProviderID (km_Spec src),
       kms2_AllowRecreation := kms_AllowRecreation (km_Spec src),
       kms2_PodSpec := kms_PodSpec (km_Spec src),
       kms2_VolumeClaimTemplates := kms_VolumeClaimTemplates (km_Spec src)\<rparr>,
     km2_Status := (km2_Status dst)\<lparr>
       kmst2_Version := kmst_Version (km_Status src),
       kmst2_ErrorReason := kmst_FailureReason (km_Status src),
       kmst2_ErrorMessage := kmst_FailureMessage (km_Status src),
       kmst2_Phase := kmst_Phase (km_Status src),
       kmst2_Ready := kmst_Ready (km_Status src)\<rparr>\<rparr>"

definition machine_ConvertFrom ::
  "KubernetesMachine_v1alpha2 \<Rightarrow> Hub \<Rightarrow> KubernetesMachine_v1alpha2 outcome" where
  "machine_ConvertFrom dst srcRaw =
     (case srcRaw of
        HubMachine src \<Rightarrow> Returned (machine_fromHub dst src)
      | _ \<Rightarrow> Panicked ''interface conversion'')"

subsection \<open>KubernetesMachineTemplate\<close>

definition template_toHub ::
  "KubernetesMachineTemplate_v1alpha2 \<Rightarrow> KubernetesMachineTemplate \<Rightarrow> KubernetesMachineTemplate" where
  "template_toHub src dst =
     (let s2 = kmtr2_Spec (kmts2_Template (kmt2_Spec src));
          s3 = kmtr_Spec (kmts_Template (kmt_Spec dst));
          spec = s3\<lparr>kms_ProviderID := kms2_ProviderID s2,
                   kms_AllowRecreation := kms2_AllowRecreation s2,
                   kms_PodSpec := kms2_PodSpec s2,
                   kms_VolumeClaimTemplates := kms2_VolumeClaimTemplates s2\<rparr>
      in dst\<lparr>kmt_Meta := kmt2_Meta src,
             kmt_Spec := (kmt_Spec dst)\<lparr>kmts_Template :=
               (kmts_Template (kmt_Spec dst))\<lparr>kmtr_Spec := spec\<rparr>\<rparr>\<rparr>)"

definition template_ConvertTo :: "KubernetesMachineTemplate_v1alpha2 \<Rightarrow> Hub \<Rightarrow> Hub outcome" where
  "template_ConvertTo src dstRaw =
     (case dstRaw of
        HubTemplate dst \<Rightarrow> Returned (HubTemplate (template_toHub src dst))
      | _ \<Rightarrow> Panicked ''interface conversion'')"

definition template_fromHub ::
  "KubernetesMachineTemplate_v1alpha2 \<Rightarrow> KubernetesMachineTemplate \<Rightarrow>
   KubernetesMachineTemplate_v1alpha2" where
  "template_fromHub dst src =
     (let s3 = kmtr_Spec (kmts_Template (kmt_Spec src));
          s2 = kmtr2_Spec (kmts2_Template (kmt2_Spec dst));
          spec = s2\<lparr>kms2_ProviderID := kms_ProviderID s3,
                   kms2_AllowRecreation := kms_AllowRecreation s3,
                   kms2_PodSpec := kms_PodSpec s3,
                   kms2_VolumeClaimTemplates := kms_VolumeClaimTemplates s3\<rparr>
      in dst\<lparr>kmt2_Meta := kmt_Meta src,
             kmt2_Spec := (kmt2_Spec dst)\<lparr>kmts2_Template :=
               (kmts2_Template (kmt2_Spec dst))\<lparr>kmtr2_Spec := spec\<rparr>\<rparr>\<rparr>)"

definition template_ConvertFrom ::
  "KubernetesMachineTemplate_v1alpha2 \<Rightarrow> Hub \<Rightarrow> KubernetesMachineTemplate_v1alpha2 outcome" where
  "template_ConvertFrom dst srcRaw =
     (case srcRaw of
        HubTemplate src \<Rightarrow> Returned (template_fromHub dst src)
      | _ \<Rightarrow> Panicked ''interface conversion'')"

subsection \<open>The contract of a lossless hub\<close>

text \<open>
  What the storage version relies on: an object read back after it has been served in the older
  version is the stored one. \<open>tag\<close> copies the one field conversion leaves alone, the destination's
  \<open>TypeMeta\<close>.
\<close>

locale lossless_hub =
  fixes to_hub :: "'s \<Rightarrow> 'h \<Rightarrow> 'h"
    and from_hub :: "'s \<Rightarrow> 'h \<Rightarrow> 's"
    and tag :: "'h \<Rightarrow> 'h \<Rightarrow> 'h"
  assumes to_from: "to_hub (from_hub d h) h0 = tag h0 h"
    and tag_tag: "tag a (tag b h) = tag a h"
    and tag_self: "tag h h = h"
    and from_tag: "from_hub d (tag a h) = from_hub d h"
begin

lemma stored_unchanged: "to_hub (from_hub d h) h = h"
  by (simp add: to_from tag_self)

text \<open>Any number of round trips through the older version gives the object once more.\<close>

lemma round_trips:
  "fold (\<lambda>(d, h0) x. to_hub (from_hub d x) h0) (steps @ [(d, h0)]) h = tag h0 h"
  by (induction steps arbitrary: h) (auto simp: to_from tag_tag)

lemma served_again: "from_hub d (to_hub (from_hub e h) h0) = from_hub d h"
  by (simp add: to_from from_tag)

end

interpretation mhub: lossless_hub machine_toHub machine_fromHub
  "\<lambda>a h. h\<lparr>km_TypeMeta := km_TypeMeta a\<rparr>"
  by unfold_locales (simp_all add: machine_toHub_def machine_fromHub_def)

interpretation thub: lossless_hub template_toHub template_fromHub
  "\<lambda>a h. h\<lparr>kmt_TypeMeta := kmt_TypeMeta a\<rparr>"
  by unfold_locales (simp_all add: template_toHub_def template_fromHub_def Let_def)

interpretation chub: lossless_hub cluster_toHub cluster_fromHub
  "\<lambda>a h. h\<lparr>kc_TypeMeta := kc_TypeMeta a\<rparr>"
  by unfold_locales (auto simp: cluster_toHub_def cluster_fromHub_def Let_def)

subsection \<open>The other direction\<close>

lemma machine_spoke_roundtrip:
  "machine_fromHub d (machine_toHub s h) = s\<lparr>km2_TypeMeta := km2_TypeMeta d\<rparr>"
  by (simp add: machine_toHub_def machine_fromHub_def)

lemma template_spoke_roundtrip:
  "template_fromHub d (template_toHub s h) = s\<lparr>kmt2_TypeMeta := kmt2_TypeMeta d\<rparr>"
  by (simp add: template_toHub_def template_fromHub_def Let_def)

text \<open>A cluster's \<open>status.apiEndpoints\<close> is not carried by the hub: it comes back as the control
  plane endpoint alone, or as the destination has it.\<close>

lemma cluster_spoke_roundtrip:
  "cluster_fromHub d (cluster_toHub s h) =
     s\<lparr>kc2_TypeMeta := kc2_TypeMeta d,
       kc2_Status := (kc2_Status s)\<lparr>kcst2_APIEndpoints :=
         (if APIEndpoint_IsZero_v1alpha2 (kcs2_ControlPlaneEndpoint (kc2_Spec s))
          then kcst2_APIEndpoints (kc2_Status d)
          else [kcs2_ControlPlaneEndpoint (kc2_Spec s)])\<rparr>\<rparr>"
  by (simp add: cluster_toHub_def cluster_fromHub_def Let_def APIEndpoint_IsZero_def
      APIEndpoint_IsZero_v1alpha2_def)

subsection \<open>The conversion webhooks\<close>

text \<open>An object of the hub version served in the older version and written back into a hub object.\<close>

definition thenConvert :: "'s outcome \<Rightarrow> ('s \<Rightarrow> Hub outcome) \<Rightarrow> Hub outcome" where
  "thenConvert r f = (case r of Returned s \<Rightarrow> f s | Panicked p \<Rightarrow> Panicked p)"

text \<open>
  C33. Nothing that is stored gets lost through the older API version: an object of any of the three
  kinds that is converted from the hub version to \<open>v1alpha2\<close> and back is the object it was, up to the
  type metadata, which stays that of the destination; neither conversion panics.
\<close>

theorem hub_roundtrip:
  "thenConvert (machine_ConvertFrom d1 (HubMachine m)) (\<lambda>s. machine_ConvertTo s (HubMachine m0)) =
     Returned (HubMachine (m\<lparr>km_TypeMeta := km_TypeMeta m0\<rparr>)) \<and>
   thenConvert (template_ConvertFrom d2 (HubTemplate t)) (\<lambda>s. template_ConvertTo s (HubTemplate t0)) =
     Returned (HubTemplate (t\<lparr>kmt_TypeMeta := kmt_TypeMeta t0\<rparr>)) \<and>
   thenConvert (cluster_ConvertFrom d3 (HubCluster c)) (\<lambda>s. cluster_ConvertTo s (HubCluster c0)) =
     Returned (HubCluster (c\<lparr>kc_TypeMeta := kc_TypeMeta c0\<rparr>))"
  by (simp add: thenConvert_def machine_ConvertFrom_def machine_ConvertTo_def template_ConvertFrom_def
      template_ConvertTo_def cluster_ConvertFrom_def cluster_ConvertTo_def
      mhub.to_from thub.to_from chub.to_from)

text \<open>
  An object written in \<open>v1alpha2\<close> and read back in \<open>v1alpha2\<close> is the object that was written, with
  one exception: \<open>status.apiEndpoints\<close> of a cluster is replaced by the control plane endpoint when
  that is complete, and otherwise by what the destination held.
\<close>

theorem spoke_roundtrip:
  "machine_fromHub d1 (machine_toHub m h1) = m\<lparr>km2_TypeMeta := km2_TypeMeta d1\<rparr> \<and>
   template_fromHub d2 (template_toHub t h2) = t\<lparr>kmt2_TypeMeta := kmt2_TypeMeta d2\<rparr> \<and>
   cluster_fromHub d3 (cluster_toHub c h3) =
     c\<lparr>kc2_TypeMeta := kc2_TypeMeta d3,
       kc2_Status := (kc2_Status c)\<lparr>kcst2_APIEndpoints :=
         (if APIEndpoint_IsZero_v1alpha2 (kcs2_ControlPlaneEndpoint (kc2_Spec c))
          then kcst2_APIEndpoints (kc2_Status d3)
          else [kcs2_ControlPlaneEndpoint (kc2_Spec c)])\<rparr>\<rparr>"
  by (intro conjI machine_spoke_roundtrip template_spoke_roundtrip cluster_spoke_roundtrip)

end
