(* ===== verification/Go_Heap.thy ===== *)
theory Go_Heap
  imports Capk_Types
begin

text \<open>
  The heap of the process, as far as copies of API objects need it: addresses of strings, of backing
  arrays and of the parts of structs that belong to Kubernetes. A pointer that may be nil is an
  \<open>addr option\<close>, a slice is the address of its elements. The structs here have the fields of the types
  of \<open>src/api\<close>, but with the pointers and slices the code has, so that two structs can share a cell.

  A struct of Kubernetes that the repository only copies (\<open>ObjectMeta\<close>, \<open>ListMeta\<close>, \<open>PodSpec\<close>,
  \<open>PersistentVolumeClaim\<close>) is opaque: some plain data and addresses of further data of that kind.

  The locale \<open>copyable\<close> is the contract of a deep copy. It carries over from the parts of a struct to the
  struct, from elements to slices, and is what the generated functions are proved to meet.
\<close>

type_synonym addr = nat

record opaque =
  op_data :: string
  op_refs :: "addr list"

subsection \<open>Structs with pointers\<close>

record goMachineSpec =
  gms_ProviderID :: "addr option"
  gms_AllowRecreation :: bool
  gms_PodSpec :: opaque
  gms_VolumeClaimTemplates :: "addr option"

record goMachineStatus =
  gmst_Version :: "addr option"
  gmst_FailureReason :: "addr option"
  gmst_FailureMessage :: "addr option"
  gmst_Phase :: string
  gmst_Ready :: bool

record goMachineStatus_v1alpha2 =
  gmst2_Version :: "addr option"
  gmst2_ErrorReason :: "addr option"
  gmst2_ErrorMessage :: "addr option"
  gmst2_Phase :: string
  gmst2_Ready :: bool

record 'st goMachine =
  gm_TypeMeta :: string
  gm_ObjectMeta :: opaque
  gm_Spec :: goMachineSpec
  gm_Status :: 'st

record goClusterStatus =
  gcst_FailureReason :: "addr option"
  gcst_FailureMessage :: "addr option"
  gcst_Phase :: string
  gcst_Ready :: bool

record goClusterStatus_v1alpha2 =
  gcst2_ErrorReason :: "addr option"
  gcst2_ErrorMessage :: "addr option"
  gcst2_Phase :: string
  gcst2_Ready :: bool
  gcst2_APIEndpoints :: "addr option"

record ('sp, 'st) goCluster =
  gc_TypeMeta :: string
  gc_ObjectMeta :: opaque
  gc_Spec :: 'sp
  gc_Status :: 'st

record goTemplateResource =
  gtr_Spec :: goMachineSpec

record goTemplateSpec =
  gts_Template :: goTemplateResource

record goTemplate =
  gt_TypeMeta :: string
  gt_ObjectMeta :: opaque
  gt_Spec :: goTemplateSpec

record goList =
  gl_TypeMeta :: string
  gl_ListMeta :: opaque
  gl_Items :: "addr option"

type_synonym goMachine_v1alpha3 = "goMachineStatus goMachine"
type_synonym goMachine_v1alpha2 = "goMachineStatus_v1alpha2 goMachine"
type_synonym goCluster_v1alpha3 = "(KubernetesClusterSpec, goClusterStatus) goCluster"
type_synonym goCluster_v1alpha2 = "(KubernetesClusterSpec_v1alpha2, goClusterStatus_v1alpha2) goCluster"

subsection \<open>The heap\<close>

datatype cell =
    StringCell string
  | OpaqueCell opaque
  | ClaimsCell "opaque list"
  | EndpointsCell "APIEndpoint_v1alpha2 list"
  | MachinesCell "goMachine_v1alpha3 list"
  | MachinesCell2 "goMachine_v1alpha2 list"
  | ClustersCell "goCluster_v1alpha3 list"
  | ClustersCell2 "goCluster_v1alpha2 list"
  | TemplatesCell "goTemplate list"

record heap =
  hp_next :: addr
  hp_cells :: "addr \<Rightarrow> cell option"

definition alloc :: "cell \<Rightarrow> heap \<Rightarrow> addr \<times> heap" where
  "alloc c h = (hp_next h, \<lparr>hp_next = Suc (hp_next h), hp_cells = (hp_cells h)(hp_next h \<mapsto> c)\<rparr>)"

text \<open>\<open>agree S h g\<close>: in \<open>g\<close> no address of \<open>S\<close> has been written since \<open>h\<close>.\<close>

definition agree :: "addr set \<Rightarrow> heap \<Rightarrow> heap \<Rightarrow> bool" where
  "agree S h g \<longleftrightarrow> hp_next h \<le> hp_next g \<and> (\<forall>a \<in> S. hp_cells g a = hp_cells h a)"

abbreviation extends :: "heap \<Rightarrow> heap \<Rightarrow> bool" where
  "extends h g \<equiv> agree {..<hp_next h} h g"

lemma agree_mono: "agree S h g \<Longrightarrow> T \<subseteq> S \<Longrightarrow> agree T h g"
  by (auto simp: agree_def)

lemma extends_refl [simp]: "extends h h"
  by (simp add: agree_def)

lemma extends_trans: "extends h g \<Longrightarrow> extends g k \<Longrightarrow> extends h k"
  by (auto simp: agree_def)

lemma alloc_simps [simp]:
  "fst (alloc c h) = hp_next h" "hp_next (snd (alloc c h)) = Suc (hp_next h)"
  "hp_cells (snd (alloc c h)) = (hp_cells h)(hp_next h \<mapsto> c)" "extends h (snd (alloc c h))"
  by (simp_all add: alloc_def agree_def)

type_synonym 'r copier = "'r \<Rightarrow> heap \<Rightarrow> 'r \<times> heap"

subsection \<open>The contract of a deep copy\<close>

text \<open>\<open>refs h r\<close> are the addresses the value \<open>r\<close> reaches in \<open>h\<close>; \<open>alike h r g q\<close>: \<open>r\<close> in \<open>h\<close> and \<open>q\<close> in \<open>g\<close>
  hold the same data.\<close>

locale copyable =
  fixes copy :: "'r copier"
    and valid :: "heap \<Rightarrow> 'r \<Rightarrow> bool"
    and refs :: "heap \<Rightarrow> 'r \<Rightarrow> addr set"
    and alike :: "heap \<Rightarrow> 'r \<Rightarrow> heap \<Rightarrow> 'r \<Rightarrow> bool"
  assumes valid_refs: "valid h r \<Longrightarrow> refs h r \<subseteq> {..<hp_next h}"
    and frame: "valid h r \<Longrightarrow> agree (refs h r) h g \<Longrightarrow> valid g r \<and> refs g r = refs h r \<and> alike h r g r"
    and alike_trans: "alike h r g q \<Longrightarrow> alike g q k p \<Longrightarrow> alike h r k p"
    and copy: "valid h r \<Longrightarrow> copy r h = (q, g) \<Longrightarrow>
      extends h g \<and> valid g q \<and> alike h r g q \<and> refs g q \<inter> {..<hp_next h} = {}"
begin

lemma frame_extends:
  assumes "valid h r" and "extends h g"
  shows "valid g r" and "refs g r = refs h r" and "alike h r g r"
  using frame [OF assms(1) agree_mono [OF assms(2) valid_refs [OF assms(1)]]] by blast+

text \<open>A copy outlives what is allocated after it, and a copy that is made later is one of the value as it
  was before.\<close>

lemma copy_outlives:
  assumes "valid h r" and "copy r h = (q, g)" and "extends g k"
  shows "extends h k \<and> valid k q \<and> alike h r k q \<and> refs k q \<inter> {..<hp_next h} = {}"
proof -
  note c = copy [OF assms(1,2)]
  have v: "valid g q" using c by blast
  have "alike h r k q" using alike_trans [OF _ frame_extends(3) [OF v assms(3)]] c by blast
  then show ?thesis using c extends_trans [OF _ assms(3)] frame_extends(1,2) [OF v assms(3)] by auto
qed

lemma copy_later:
  assumes "valid h r" and "extends h g" and "copy r g = (q, k)"
  shows "extends h k \<and> valid k q \<and> alike h r k q \<and> refs k q \<inter> {..<hp_next h} = {}"
proof -
  note f = frame_extends [OF assms(1,2)]
  note c = copy [OF f(1) assms(3)]
  have "hp_next h \<le> hp_next g" using assms(2) by (simp add: agree_def)
  then have "refs k q \<inter> {..<hp_next h} = {}" using c by auto
  then show ?thesis using c extends_trans [OF assms(2)] alike_trans [OF f(3)] by blast
qed

text \<open>The copy holds the same data and shares nothing with the original; writing to either leaves the
  other as it is.\<close>

lemma independent:
  assumes "valid h r" and "copy r h = (q, g)"
  shows "alike h r g q" and "refs g q \<inter> refs g r = {}"
    and "agree (refs g r) g k \<Longrightarrow> alike h r k r" and "agree (refs g q) g k \<Longrightarrow> alike h r k q"
proof -
  note c = copy [OF assms]
  note f = frame_extends [OF assms(1) c [THEN conjunct1]]
  show "alike h r g q" using c by blast
  show "refs g q \<inter> refs g r = {}" using c f(2) valid_refs [OF assms(1)] by auto
  show "agree (refs g r) g k \<Longrightarrow> alike h r k r" using frame [OF f(1)] f(3) alike_trans by blast
  show "agree (refs g q) g k \<Longrightarrow> alike h r k q" using frame [of g q k] c alike_trans by blast
qed

end

subsection \<open>Copies of structs\<close>

definition copyPair :: "'a copier \<Rightarrow> 'b copier \<Rightarrow> ('a \<times> 'b) copier" where
  "copyPair c d p h = (case c (fst p) h of (x, h1) \<Rightarrow> case d (snd p) h1 of (y, h2) \<Rightarrow> ((x, y), h2))"

definition pairValid where "pairValid v w h p \<longleftrightarrow> v h (fst p) \<and> w h (snd p)"
definition pairRefs where "pairRefs r s h p = r h (fst p) \<union> s h (snd p)"
definition pairAlike where "pairAlike a b h p g q \<longleftrightarrow> a h (fst p) g (fst q) \<and> b h (snd p) g (snd q)"

lemmas pair_defs = copyPair_def pairValid_def pairRefs_def pairAlike_def

lemma copyable_pair:
  assumes "copyable c v r a" and "copyable d w s b"
  shows "copyable (copyPair c d) (pairValid v w) (pairRefs r s) (pairAlike a b)"
proof
  fix h g k :: heap and p q t :: "'a \<times> 'b"
  note C = assms(1) and D = assms(2)
  show "pairValid v w h p \<Longrightarrow> pairRefs r s h p \<subseteq> {..<hp_next h}"
    using copyable.valid_refs [OF C] copyable.valid_refs [OF D] by (simp add: pair_defs)
  show "pairValid v w g p \<and> pairRefs r s g p = pairRefs r s h p \<and> pairAlike a b h p g p"
    if "pairValid v w h p" "agree (pairRefs r s h p) h g"
    using that copyable.frame [OF C, of h "fst p" g] copyable.frame [OF D, of h "snd p" g]
      agree_mono [OF that(2), of "r h (fst p)"] agree_mono [OF that(2), of "s h (snd p)"]
    by (simp add: pair_defs)
  show "pairAlike a b h p g q \<Longrightarrow> pairAlike a b g q k t \<Longrightarrow> pairAlike a b h p k t"
    using copyable.alike_trans [OF C] copyable.alike_trans [OF D] unfolding pairAlike_def by blast
  show "extends h g \<and> pairValid v w g q \<and> pairAlike a b h p g q \<and> pairRefs r s g q \<inter> {..<hp_next h} = {}"
    if ok: "pairValid v w h p" and run: "copyPair c d p h = (q, g)"
  proof -
    obtain x h1 y where x: "c (fst p) h = (x, h1)" and y: "d (snd p) h1 = (y, g)" and q: "q = (x, y)"
      using run by (auto simp: copyPair_def split: prod.splits)
    have vp: "v h (fst p)" "w h (snd p)" using ok by (simp_all add: pairValid_def)
    note cx = copyable.copy [OF C vp(1) x]
    note cy = copyable.copy_later [OF D vp(2) _ y]
    have "extends h1 g" using copyable.frame_extends(1) [OF D vp(2), of h1] copyable.copy [OF D _ y] cx by blast
    then show ?thesis
      using copyable.copy_outlives [OF C vp(1) x, of g] cy cx q by (auto simp: pair_defs)
  qed
qed

text \<open>A struct is copied through the tuple of those of its fields that hold addresses; \<open>plain\<close> compares
  the others.\<close>

lemma copyable_struct:
  assumes "copyable c v r a"
    and "\<And>x h. copy x h = (case c (parts x) h of (y, h') \<Rightarrow> (build x y, h'))"
    and "\<And>x y. parts (build x y) = y" and "\<And>x y. plain (build x y) = plain x"
  shows "copyable copy (\<lambda>h x. v h (parts x)) (\<lambda>h x. r h (parts x))
    (\<lambda>h x g y. a h (parts x) g (parts y) \<and> plain x = plain y)"
proof
  fix h g :: heap and x y
  show "v h (parts x) \<Longrightarrow> r h (parts x) \<subseteq> {..<hp_next h}" by (rule copyable.valid_refs [OF assms(1)])
  show "extends h g \<and> v g (parts y) \<and> (a h (parts x) g (parts y) \<and> plain x = plain y) \<and>
      r g (parts y) \<inter> {..<hp_next h} = {}" if "v h (parts x)" "copy x h = (y, g)"
    using that(2) copyable.copy [OF assms(1) that(1)] by (auto simp: assms(2,3,4) split: prod.splits)
qed (use copyable.frame [OF assms(1)] copyable.alike_trans [OF assms(1)] in \<open>(blast | fastforce)+\<close>)

text \<open>Data without addresses.\<close>

lemma copyable_plain: "copyable (\<lambda>x h. (x, h)) (\<lambda>h x. True) (\<lambda>h x. {}) (\<lambda>h x g y. x = y)"
  by unfold_locales auto

subsection \<open>Copies of pointers to strings\<close>

definition copyString :: "addr option copier" where
  "copyString p h =
     (case p of
        None \<Rightarrow> (None, h)
      | Some a \<Rightarrow>
          (case hp_cells h a of
             Some (StringCell s) \<Rightarrow> (case alloc (StringCell s) h of (b, h') \<Rightarrow> (Some b, h'))
           | _ \<Rightarrow> (p, h)))"

definition stringValid :: "heap \<Rightarrow> addr option \<Rightarrow> bool" where
  "stringValid h p \<longleftrightarrow> (case p of None \<Rightarrow> True | Some a \<Rightarrow> a < hp_next h \<and> (\<exists>s. hp_cells h a = Some (StringCell s)))"

definition stringRefs :: "heap \<Rightarrow> addr option \<Rightarrow> addr set" where
  "stringRefs h p = set_option p"

definition stringAlike :: "heap \<Rightarrow> addr option \<Rightarrow> heap \<Rightarrow> addr option \<Rightarrow> bool" where
  "stringAlike h p g q \<longleftrightarrow> map_option (hp_cells h) p = map_option (hp_cells g) q"

lemma copyable_string: "copyable copyString stringValid stringRefs stringAlike"
proof
  fix h g :: heap and p q :: "addr option"
  show "stringValid h p \<Longrightarrow> stringRefs h p \<subseteq> {..<hp_next h}"
    by (cases p) (auto simp: stringValid_def stringRefs_def)
  show "stringValid g p \<and> stringRefs g p = stringRefs h p \<and> stringAlike h p g p"
    if "stringValid h p" "agree (stringRefs h p) h g"
    using that by (cases p) (auto simp: stringValid_def stringRefs_def stringAlike_def agree_def)
  show "extends h g \<and> stringValid g q \<and> stringAlike h p g q \<and> stringRefs g q \<inter> {..<hp_next h} = {}"
    if v: "stringValid h p" and c: "copyString p h = (q, g)"
  proof (cases p)
    case None
    then show ?thesis using c by (simp add: copyString_def stringValid_def stringRefs_def stringAlike_def)
  next
    case (Some a)
    then obtain s where s: "hp_cells h a = Some (StringCell s)" using v by (auto simp: stringValid_def)
    then have "q = Some (hp_next h)" "g = snd (alloc (StringCell s) h)"
      using c Some by (auto simp: copyString_def alloc_def)
    then show ?thesis using Some s by (simp add: stringValid_def stringRefs_def stringAlike_def)
  qed
qed (simp add: stringAlike_def)

subsection \<open>Copies of slices\<close>

fun copyAll :: "'a copier \<Rightarrow> 'a list copier" where
  "copyAll c [] h = ([], h)"
| "copyAll c (x # xs) h = (case c x h of (y, h1) \<Rightarrow> case copyAll c xs h1 of (ys, h2) \<Rightarrow> (y # ys, h2))"

definition listRefs where "listRefs r h xs = (\<Union>x \<in> set xs. r h x)"
definition listValid where "listValid v h xs \<longleftrightarrow> list_all (v h) xs"
definition listAlike where "listAlike a h xs g ys \<longleftrightarrow> list_all2 (\<lambda>x y. a h x g y) xs ys"

lemmas list_defs = listRefs_def listValid_def listAlike_def

lemma listAlike_trans:
  assumes "copyable c v r a" and "listAlike a h xs g ys" and "listAlike a g ys k zs"
  shows "listAlike a h xs k zs"
  using assms(2,3) unfolding listAlike_def
  by (rule list_all2_trans [rotated]) (rule copyable.alike_trans [OF assms(1)])

lemma copyAll_copies:
  assumes "copyable c v r a" and "listValid v h xs" and "copyAll c xs h = (ys, g)"
  shows "extends h g \<and> listValid v g ys \<and> listAlike a h xs g ys \<and> listRefs r g ys \<inter> {..<hp_next h} = {}"
  using assms(2,3)
proof (induction xs arbitrary: h ys)
  case (Cons x xs)
  obtain y h1 zs where y: "c x h = (y, h1)" and zs: "copyAll c xs h1 = (zs, g)" and ys: "ys = y # zs"
    using Cons.prems(2) by (auto split: prod.splits)
  have v: "v h x" "listValid v h xs" using Cons.prems(1) by (simp_all add: listValid_def)
  have e: "extends h h1" using copyable.copy [OF assms(1) v(1) y] by blast
  have "v h1 z" if "z \<in> set xs" for z
    using that v(2) copyable.frame_extends(1) [OF assms(1) _ e] by (simp add: listValid_def list_all_iff)
  then have "listValid v h1 xs" by (simp add: listValid_def list_all_iff)
  note rest = Cons.IH [OF this zs]
  have "listAlike a h xs h1 xs"
    using v(2) copyable.frame_extends(3) [OF assms(1) _ e] by (auto simp: list_defs list_all_iff list.rel_refl_strong)
  then have "listAlike a h xs g zs"
    using rest listAlike_trans [OF assms(1)] by blast
  moreover have "listRefs r g zs \<inter> {..<hp_next h} = {}" using rest e by (auto simp: agree_def)
  ultimately show ?case
    using copyable.copy_outlives [OF assms(1) v(1) y] rest ys by (auto simp: list_defs)
qed (simp add: list_defs)

text \<open>A slice with elements of one type: \<open>mk\<close> makes the cell of its array, \<open>dest\<close> reads it.\<close>

definition elements :: "(cell \<Rightarrow> 'a list option) \<Rightarrow> heap \<Rightarrow> addr \<Rightarrow> 'a list option" where
  "elements dest h a = Option.bind (hp_cells h a) dest"

definition copySlice :: "('a list \<Rightarrow> cell) \<Rightarrow> (cell \<Rightarrow> 'a list option) \<Rightarrow> 'a copier \<Rightarrow> addr option copier" where
  "copySlice mk dest c p h =
     (case p of
        None \<Rightarrow> (None, h)
      | Some a \<Rightarrow>
          (case elements dest h a of
             None \<Rightarrow> (p, h)
           | Some xs \<Rightarrow> (case copyAll c xs h of (ys, h1) \<Rightarrow> case alloc (mk ys) h1 of (b, h2) \<Rightarrow> (Some b, h2))))"

definition sliceValid where
  "sliceValid dest v h p \<longleftrightarrow> (case p of None \<Rightarrow> True | Some a \<Rightarrow> a < hp_next h \<and>
     (\<exists>xs. elements dest h a = Some xs \<and> listValid v h xs))"

definition sliceRefs where
  "sliceRefs dest r h p = (case p of None \<Rightarrow> {} | Some a \<Rightarrow> insert a
     (case elements dest h a of None \<Rightarrow> {} | Some xs \<Rightarrow> listRefs r h xs))"

definition sliceAlike where
  "sliceAlike dest al h p g q \<longleftrightarrow> (case p of None \<Rightarrow> q = None | Some a \<Rightarrow>
     (\<exists>b xs ys. q = Some b \<and> elements dest h a = Some xs \<and> elements dest g b = Some ys \<and> listAlike al h xs g ys))"

lemmas slice_defs = sliceValid_def sliceRefs_def sliceAlike_def

lemma list_frame:
  assumes "copyable c v r a" and "listValid v h xs" and "agree (listRefs r h xs) h g"
  shows "listValid v g xs \<and> listRefs r g xs = listRefs r h xs \<and> listAlike a h xs g xs"
proof -
  have "v g x \<and> r g x = r h x \<and> a h x g x" if "x \<in> set xs" for x
    using copyable.frame [OF assms(1), of h x g] assms(2) that agree_mono [OF assms(3), of "r h x"]
    by (auto simp: list_defs list_all_iff)
  then show ?thesis by (auto simp: list_defs list_all_iff list.rel_refl_strong)
qed

lemma copyable_slice:
  assumes "copyable c v r al" and "\<And>xs. dest (mk xs) = Some xs"
  shows "copyable (copySlice mk dest c) (sliceValid dest v) (sliceRefs dest r) (sliceAlike dest al)"
proof
  fix h g k :: heap and p q t :: "addr option"
  show "sliceValid dest v h p \<Longrightarrow> sliceRefs dest r h p \<subseteq> {..<hp_next h}"
    using copyable.valid_refs [OF assms(1)]
    by (cases p) (fastforce simp: slice_defs listRefs_def listValid_def list_all_iff)+
  show "sliceValid dest v g p \<and> sliceRefs dest r g p = sliceRefs dest r h p \<and> sliceAlike dest al h p g p"
    if ok: "sliceValid dest v h p" and ag: "agree (sliceRefs dest r h p) h g"
  proof (cases p)
    case (Some a)
    then obtain xs where xs: "a < hp_next h" "elements dest h a = Some xs" "listValid v h xs"
      using ok by (auto simp: sliceValid_def)
    have "agree (listRefs r h xs) h g" by (rule agree_mono [OF ag]) (simp add: sliceRefs_def Some xs subset_insertI)
    note f = list_frame [OF assms(1) xs(3) this]
    have "hp_cells g a = hp_cells h a" "hp_next h \<le> hp_next g" using ag Some by (simp_all add: agree_def sliceRefs_def)
    then have "elements dest g a = Some xs" "a < hp_next g" using xs by (simp_all add: elements_def)
    then show ?thesis using Some xs f by (simp add: slice_defs)
  qed (simp add: slice_defs)
  show "sliceAlike dest al h p g q \<Longrightarrow> sliceAlike dest al g q k t \<Longrightarrow> sliceAlike dest al h p k t"
    unfolding sliceAlike_def by (cases p; cases q) (auto dest: listAlike_trans [OF assms(1)])
  show "extends h g \<and> sliceValid dest v g q \<and> sliceAlike dest al h p g q \<and> sliceRefs dest r g q \<inter> {..<hp_next h} = {}"
    if ok: "sliceValid dest v h p" and run: "copySlice mk dest c p h = (q, g)"
  proof (cases p)
    case None
    then show ?thesis using run by (simp add: copySlice_def slice_defs)
  next
    case (Some a)
    then obtain xs where xs: "elements dest h a = Some xs" "listValid v h xs"
      using ok by (auto simp: sliceValid_def)
    obtain ys h1 where ys: "copyAll c xs h = (ys, h1)" by (cases "copyAll c xs h")
    have q: "q = Some (hp_next h1)" and g: "g = snd (alloc (mk ys) h1)"
      using run Some xs(1) ys by (auto simp: copySlice_def alloc_def)
    note c = copyAll_copies [OF assms(1) xs(2) ys]
    have e: "extends h1 g" using g by simp
    have "agree (listRefs r h1 ys) h1 g"
      using e c copyable.valid_refs [OF assms(1)]
      by (rule_tac agree_mono [OF e]) (fastforce simp: listRefs_def listValid_def list_all_iff)
    note f = list_frame [OF assms(1) _ this]
    have "elements dest g (hp_next h1) = Some ys" using g assms(2) by (simp add: elements_def)
    moreover have "listAlike al h xs g ys"
      using f c listAlike_trans [OF assms(1)] by blast
    moreover have "hp_next h \<le> hp_next h1" using c by (simp add: agree_def)
    ultimately show ?thesis
      using Some q g f c xs(1) extends_trans [OF _ e] by (auto simp: slice_defs)
  qed
qed

subsection \<open>Structs of Kubernetes\<close>

text \<open>What an opaque struct reaches, and its data up to a depth.\<close>

inductive_set reach :: "heap \<Rightarrow> opaque \<Rightarrow> addr set" for h e where
  reach_ref: "a \<in> set (op_refs e) \<Longrightarrow> a \<in> reach h e"
| reach_cell: "a \<in> reach h e \<Longrightarrow> hp_cells h a = Some (OpaqueCell x) \<Longrightarrow> b \<in> set (op_refs x) \<Longrightarrow> b \<in> reach h e"

datatype tree = Cut | Node string "tree list"

fun unfold_at :: "nat \<Rightarrow> heap \<Rightarrow> opaque \<Rightarrow> tree" where
  "unfold_at 0 h e = Cut"
| "unfold_at (Suc n) h e = Node (op_data e) (map (\<lambda>a. case hp_cells h a of
     Some (OpaqueCell x) \<Rightarrow> unfold_at n h x | _ \<Rightarrow> Cut) (op_refs e))"

definition opaqueValid :: "heap \<Rightarrow> opaque \<Rightarrow> bool" where
  "opaqueValid h e \<longleftrightarrow> reach h e \<subseteq> {..<hp_next h}"

definition opaqueAlike :: "heap \<Rightarrow> opaque \<Rightarrow> heap \<Rightarrow> opaque \<Rightarrow> bool" where
  "opaqueAlike h e g f \<longleftrightarrow> (\<forall>n. unfold_at n h e = unfold_at n g f)"

lemma reach_frame:
  assumes "\<And>a. a \<in> reach h e \<Longrightarrow> hp_cells g a = hp_cells h a"
  shows "reach g e = reach h e"
proof
  show "reach g e \<subseteq> reach h e"
  proof
    fix a assume "a \<in> reach g e"
    then show "a \<in> reach h e"
      by induction (use assms in \<open>auto intro: reach.intros\<close>)
  qed
  show "reach h e \<subseteq> reach g e"
  proof
    fix a assume "a \<in> reach h e"
    then show "a \<in> reach g e"
    proof induction
      case (reach_cell a x b)
      then show ?case using assms [of a] reach.reach_cell [of a g e x b] by simp
    qed (rule reach_ref)
  qed
qed

lemma unfold_frame:
  assumes "\<And>a. a \<in> reach h e \<Longrightarrow> hp_cells g a = hp_cells h a"
  shows "unfold_at n g e = unfold_at n h e"
proof -
  have "unfold_at n g x = unfold_at n h x" if "set (op_refs x) \<subseteq> reach h e" for x
    using that
  proof (induction n arbitrary: x)
    case (Suc n)
    have "(case hp_cells g a of Some (OpaqueCell y) \<Rightarrow> unfold_at n g y | _ \<Rightarrow> Cut) =
        (case hp_cells h a of Some (OpaqueCell y) \<Rightarrow> unfold_at n h y | _ \<Rightarrow> Cut)" if "a \<in> set (op_refs x)" for a
    proof -
      have r: "a \<in> reach h e" using that Suc.prems by blast
      have "unfold_at n g y = unfold_at n h y" if "hp_cells h a = Some (OpaqueCell y)" for y
        by (rule Suc.IH) (use r that in \<open>auto intro: reach.intros\<close>)
      then show ?thesis using assms [OF r] by (auto split: option.split cell.split)
    qed
    then show ?case by simp
  qed simp
  moreover have "set (op_refs e) \<subseteq> reach h e" by (auto intro: reach.intros)
  ultimately show ?thesis by blast
qed

text \<open>For an opaque struct all of the contract holds but the copy itself, which is code of Kubernetes.\<close>

lemma opaque_copyable:
  assumes "\<And>h e f g. opaqueValid h e \<Longrightarrow> copy e h = (f, g) \<Longrightarrow>
      extends h g \<and> opaqueValid g f \<and> opaqueAlike h e g f \<and> reach g f \<inter> {..<hp_next h} = {}"
  shows "copyable copy opaqueValid reach opaqueAlike"
proof
  fix h g k :: heap and e f t
  show "opaqueValid g e \<and> reach g e = reach h e \<and> opaqueAlike h e g e"
    if "opaqueValid h e" and ag: "agree (reach h e) h g"
  proof -
    have s: "hp_cells g a = hp_cells h a" if "a \<in> reach h e" for a using that ag by (simp add: agree_def)
    have "hp_next h \<le> hp_next g" using ag by (simp add: agree_def)
    then show ?thesis
      using that(1) reach_frame [OF s] unfold_frame [OF s] by (auto simp: opaqueValid_def opaqueAlike_def)
  qed
qed (use assms in \<open>auto simp: opaqueValid_def opaqueAlike_def\<close>)

subsection \<open>Shapes\<close>

text \<open>The shape of a type: what a valid value, the addresses of a value and values with the same data are.\<close>

record 'r shape =
  sh_valid :: "heap \<Rightarrow> 'r \<Rightarrow> bool"
  sh_refs :: "heap \<Rightarrow> 'r \<Rightarrow> addr set"
  sh_alike :: "heap \<Rightarrow> 'r \<Rightarrow> heap \<Rightarrow> 'r \<Rightarrow> bool"

definition copies :: "'r copier \<Rightarrow> 'r shape \<Rightarrow> bool" where
  "copies c k \<longleftrightarrow> copyable c (sh_valid k) (sh_refs k) (sh_alike k)"

definition plainShape :: "'r shape" where
  "plainShape = \<lparr>sh_valid = (\<lambda>h x. True), sh_refs = (\<lambda>h x. {}), sh_alike = (\<lambda>h x g y. x = y)\<rparr>"

definition stringShape :: "addr option shape" where
  "stringShape = \<lparr>sh_valid = stringValid, sh_refs = stringRefs, sh_alike = stringAlike\<rparr>"

definition opaqueShape :: "opaque shape" where
  "opaqueShape = \<lparr>sh_valid = opaqueValid, sh_refs = reach, sh_alike = opaqueAlike\<rparr>"

definition pairShape :: "'a shape \<Rightarrow> 'b shape \<Rightarrow> ('a \<times> 'b) shape" where
  "pairShape k l = \<lparr>sh_valid = pairValid (sh_valid k) (sh_valid l), sh_refs = pairRefs (sh_refs k) (sh_refs l),
     sh_alike = pairAlike (sh_alike k) (sh_alike l)\<rparr>"

definition sliceShape :: "(cell \<Rightarrow> 'a list option) \<Rightarrow> 'a shape \<Rightarrow> addr option shape" where
  "sliceShape dest k = \<lparr>sh_valid = sliceValid dest (sh_valid k), sh_refs = sliceRefs dest (sh_refs k),
     sh_alike = sliceAlike dest (sh_alike k)\<rparr>"

definition structShape :: "('r \<Rightarrow> 'a) \<Rightarrow> ('r \<Rightarrow> 'p) \<Rightarrow> 'a shape \<Rightarrow> 'r shape" where
  "structShape parts plain k = \<lparr>sh_valid = (\<lambda>h x. sh_valid k h (parts x)), sh_refs = (\<lambda>h x. sh_refs k h (parts x)),
     sh_alike = (\<lambda>h x g y. sh_alike k h (parts x) g (parts y) \<and> plain x = plain y)\<rparr>"

lemma copies_basic:
  "copies (\<lambda>x h. (x, h)) plainShape" "copies copyString stringShape"
  by (simp_all add: copies_def plainShape_def stringShape_def copyable_plain copyable_string)

lemma copies_pair: "copies c k \<Longrightarrow> copies d l \<Longrightarrow> copies (copyPair c d) (pairShape k l)"
  by (simp add: copies_def pairShape_def copyable_pair)

lemma copies_slice: "copies c k \<Longrightarrow> (\<And>xs. dest (mk xs) = Some xs) \<Longrightarrow> copies (copySlice mk dest c) (sliceShape dest k)"
  by (simp add: copies_def sliceShape_def copyable_slice)

lemma copies_struct:
  assumes "copies c k" and "\<And>x h. copy x h = (case c (parts x) h of (y, h') \<Rightarrow> (build x y, h'))"
    and "\<And>x y. parts (build x y) = y" and "\<And>x y. plain (build x y) = plain x"
  shows "copies copy (structShape parts plain k)"
  unfolding copies_def structShape_def shape.simps
  by (rule copyable_struct [where c = c and parts = parts and plain = plain and build = build])
    (rule assms(1) [unfolded copies_def] assms(2) assms(3) assms(4))+

text \<open>What the contract means for the owner of a value and of its copy.\<close>

definition independentCopy :: "'r shape \<Rightarrow> heap \<Rightarrow> 'r \<Rightarrow> heap \<Rightarrow> 'r \<Rightarrow> bool" where
  "independentCopy k h x g y \<longleftrightarrow>
     sh_alike k h x g y \<and> sh_refs k g y \<inter> sh_refs k g x = {} \<and>
     (\<forall>g'. agree (sh_refs k g x) g g' \<longrightarrow> sh_alike k h x g' x) \<and>
     (\<forall>g'. agree (sh_refs k g y) g g' \<longrightarrow> sh_alike k h x g' y)"

lemma copies_independent:
  assumes "copies c k" and "sh_valid k h x" and "c x h = (y, g)"
  shows "independentCopy k h x g y"
  unfolding independentCopy_def
  using copyable.independent [OF assms(1) [unfolded copies_def] assms(2,3)] by blast

end
