(* ===== verification/Deep_Copy.thy ===== *)
theory Deep_Copy
  imports Go_Heap
begin

text \<open>
  The generated deep copies, \<open>src/api/v1alpha3/zz_generated.deepcopy.go\<close> and
  \<open>src/api/v1alpha2/zz_generated.deepcopy.go\<close>, over the heap of \<open>Go_Heap\<close>. \<open>DeepCopyInto\<close> returns what it
  leaves in \<open>out\<close>: the assignment of the whole struct first, then the fields that hold addresses one
  after the other. The array of a copied slice is allocated with its elements already copied. The copies
  of the structs of Kubernetes are the parameter \<open>deep_lib\<close>, with the contract \<open>deep_contract\<close>.
\<close>

record deep_lib =
  dl_ObjectMeta :: "opaque copier"
  dl_ListMeta :: "opaque copier"
  dl_PodSpec :: "opaque copier"
  dl_PersistentVolumeClaim :: "opaque copier"

locale deep_contract =
  fixes dl :: deep_lib
  assumes object_meta: "copies (dl_ObjectMeta dl) opaqueShape"
    and list_meta: "copies (dl_ListMeta dl) opaqueShape"
    and pod_spec: "copies (dl_PodSpec dl) opaqueShape"
    and claim: "copies (dl_PersistentVolumeClaim dl) opaqueShape"

text \<open>\<open>DeepCopy\<close> of a pointer: nil stays nil, and otherwise a new struct is filled; \<open>DeepCopyObject\<close> hands the
  result on as an interface, a nil pointer as a nil interface.\<close>

definition deepCopyOf :: "'r copier \<Rightarrow> 'r option \<Rightarrow> heap \<Rightarrow> 'r option \<times> heap" where
  "deepCopyOf into p h =
     (case p of None \<Rightarrow> (None, h) | Some x \<Rightarrow> (case into x h of (y, h') \<Rightarrow> (Some y, h')))"

definition objectOf :: "'r option \<times> heap \<Rightarrow> 'r option \<times> heap" where
  "objectOf r = (case r of (Some c, h) \<Rightarrow> (Some c, h) | (None, h) \<Rightarrow> (None, h))"

fun claimsIn :: "cell \<Rightarrow> opaque list option" where
  "claimsIn (ClaimsCell xs) = Some xs" | "claimsIn _ = None"
fun endpointsIn :: "cell \<Rightarrow> APIEndpoint_v1alpha2 list option" where
  "endpointsIn (EndpointsCell xs) = Some xs" | "endpointsIn _ = None"
fun machinesIn :: "cell \<Rightarrow> goMachine_v1alpha3 list option" where
  "machinesIn (MachinesCell xs) = Some xs" | "machinesIn _ = None"
fun machinesIn2 :: "cell \<Rightarrow> goMachine_v1alpha2 list option" where
  "machinesIn2 (MachinesCell2 xs) = Some xs" | "machinesIn2 _ = None"
fun clustersIn :: "cell \<Rightarrow> goCluster_v1alpha3 list option" where
  "clustersIn (ClustersCell xs) = Some xs" | "clustersIn _ = None"
fun clustersIn2 :: "cell \<Rightarrow> goCluster_v1alpha2 list option" where
  "clustersIn2 (ClustersCell2 xs) = Some xs" | "clustersIn2 _ = None"
fun templatesIn :: "cell \<Rightarrow> goTemplate list option" where
  "templatesIn (TemplatesCell xs) = Some xs" | "templatesIn _ = None"

subsection \<open>Version v1alpha3\<close>

definition APIEndpoint_DeepCopyInto :: "APIEndpoint copier" where
  "APIEndpoint_DeepCopyInto x h = (x, h)"

definition APIEndpoint_DeepCopy :: "APIEndpoint option \<Rightarrow> heap \<Rightarrow> APIEndpoint option \<times> heap" where
  "APIEndpoint_DeepCopy p h = deepCopyOf APIEndpoint_DeepCopyInto p h"

definition KubernetesClusterSpec_DeepCopyInto :: "KubernetesClusterSpec copier" where
  "KubernetesClusterSpec_DeepCopyInto x h = (x, h)"

definition KubernetesClusterSpec_DeepCopy :: "KubernetesClusterSpec option \<Rightarrow> heap \<Rightarrow> KubernetesClusterSpec option \<times> heap" where
  "KubernetesClusterSpec_DeepCopy p h = deepCopyOf KubernetesClusterSpec_DeepCopyInto p h"

definition KubernetesClusterStatus_DeepCopyInto :: "goClusterStatus copier" where
  "KubernetesClusterStatus_DeepCopyInto x h =
     (case copyString (gcst_FailureReason x) h of (reason, h1) \<Rightarrow>
      case copyString (gcst_FailureMessage x) h1 of (msg, h2) \<Rightarrow>
        (x\<lparr>gcst_FailureReason := reason, gcst_FailureMessage := msg\<rparr>, h2))"

definition KubernetesClusterStatus_DeepCopy :: "goClusterStatus option \<Rightarrow> heap \<Rightarrow> goClusterStatus option \<times> heap" where
  "KubernetesClusterStatus_DeepCopy p h = deepCopyOf KubernetesClusterStatus_DeepCopyInto p h"

definition KubernetesCluster_DeepCopyInto :: "deep_lib \<Rightarrow> goCluster_v1alpha3 copier" where
  "KubernetesCluster_DeepCopyInto dl x h =
     (case dl_ObjectMeta dl (gc_ObjectMeta x) h of (meta, h1) \<Rightarrow>
      case KubernetesClusterStatus_DeepCopyInto (gc_Status x) h1 of (status, h2) \<Rightarrow>
        (x\<lparr>gc_ObjectMeta := meta, gc_Status := status\<rparr>, h2))"

definition KubernetesCluster_DeepCopy :: "deep_lib \<Rightarrow> goCluster_v1alpha3 option \<Rightarrow> heap \<Rightarrow> goCluster_v1alpha3 option \<times> heap" where
  "KubernetesCluster_DeepCopy dl p h = deepCopyOf (KubernetesCluster_DeepCopyInto dl) p h"

definition KubernetesCluster_DeepCopyObject :: "deep_lib \<Rightarrow> goCluster_v1alpha3 option \<Rightarrow> heap \<Rightarrow> goCluster_v1alpha3 option \<times> heap" where
  "KubernetesCluster_DeepCopyObject dl p h = objectOf (KubernetesCluster_DeepCopy dl p h)"

definition KubernetesClusterList_DeepCopyInto :: "deep_lib \<Rightarrow> goList copier" where
  "KubernetesClusterList_DeepCopyInto dl x h =
     (case dl_ListMeta dl (gl_ListMeta x) h of (meta, h1) \<Rightarrow>
      case copySlice ClustersCell clustersIn (KubernetesCluster_DeepCopyInto dl) (gl_Items x) h1 of (items, h2) \<Rightarrow>
        (x\<lparr>gl_ListMeta := meta, gl_Items := items\<rparr>, h2))"

definition KubernetesClusterList_DeepCopy :: "deep_lib \<Rightarrow> goList option \<Rightarrow> heap \<Rightarrow> goList option \<times> heap" where
  "KubernetesClusterList_DeepCopy dl p h = deepCopyOf (KubernetesClusterList_DeepCopyInto dl) p h"

definition KubernetesClusterList_DeepCopyObject :: "deep_lib \<Rightarrow> goList option \<Rightarrow> heap \<Rightarrow> goList option \<times> heap" where
  "KubernetesClusterList_DeepCopyObject dl p h = objectOf (KubernetesClusterList_DeepCopy dl p h)"

definition KubernetesMachineSpec_DeepCopyInto :: "deep_lib \<Rightarrow> goMachineSpec copier" where
  "KubernetesMachineSpec_DeepCopyInto dl x h =
     (case copyString (gms_ProviderID x) h of (pid, h1) \<Rightarrow>
      case dl_PodSpec dl (gms_PodSpec x) h1 of (spec, h2) \<Rightarrow>
      case copySlice ClaimsCell claimsIn (dl_PersistentVolumeClaim dl) (gms_VolumeClaimTemplates x) h2 of (claims, h3) \<Rightarrow>
        (x\<lparr>gms_ProviderID := pid, gms_PodSpec := spec, gms_VolumeClaimTemplates := claims\<rparr>, h3))"

definition KubernetesMachineSpec_DeepCopy :: "deep_lib \<Rightarrow> goMachineSpec option \<Rightarrow> heap \<Rightarrow> goMachineSpec option \<times> heap" where
  "KubernetesMachineSpec_DeepCopy dl p h = deepCopyOf (KubernetesMachineSpec_DeepCopyInto dl) p h"

definition KubernetesMachineStatus_DeepCopyInto :: "goMachineStatus copier" where
  "KubernetesMachineStatus_DeepCopyInto x h =
     (case copyString (gmst_Version x) h of (version, h1) \<Rightarrow>
      case copyString (gmst_FailureReason x) h1 of (reason, h2) \<Rightarrow>
      case copyString (gmst_FailureMessage x) h2 of (msg, h3) \<Rightarrow>
        (x\<lparr>gmst_Version := version, gmst_FailureReason := reason, gmst_FailureMessage := msg\<rparr>, h3))"

definition KubernetesMachineStatus_DeepCopy :: "goMachineStatus option \<Rightarrow> heap \<Rightarrow> goMachineStatus option \<times> heap" where
  "KubernetesMachineStatus_DeepCopy p h = deepCopyOf KubernetesMachineStatus_DeepCopyInto p h"

definition KubernetesMachine_DeepCopyInto :: "deep_lib \<Rightarrow> goMachine_v1alpha3 copier" where
  "KubernetesMachine_DeepCopyInto dl x h =
     (case dl_ObjectMeta dl (gm_ObjectMeta x) h of (meta, h1) \<Rightarrow>
      case KubernetesMachineSpec_DeepCopyInto dl (gm_Spec x) h1 of (spec, h2) \<Rightarrow>
      case KubernetesMachineStatus_DeepCopyInto (gm_Status x) h2 of (status, h3) \<Rightarrow>
        (x\<lparr>gm_ObjectMeta := meta, gm_Spec := spec, gm_Status := status\<rparr>, h3))"

definition KubernetesMachine_DeepCopy :: "deep_lib \<Rightarrow> goMachine_v1alpha3 option \<Rightarrow> heap \<Rightarrow> goMachine_v1alpha3 option \<times> heap" where
  "KubernetesMachine_DeepCopy dl p h = deepCopyOf (KubernetesMachine_DeepCopyInto dl) p h"

definition KubernetesMachine_DeepCopyObject :: "deep_lib \<Rightarrow> goMachine_v1alpha3 option \<Rightarrow> heap \<Rightarrow> goMachine_v1alpha3 option \<times> heap" where
  "KubernetesMachine_DeepCopyObject dl p h = objectOf (KubernetesMachine_DeepCopy dl p h)"

definition KubernetesMachineList_DeepCopyInto :: "deep_lib \<Rightarrow> goList copier" where
  "KubernetesMachineList_DeepCopyInto dl x h =
     (case dl_ListMeta dl (gl_ListMeta x) h of (meta, h1) \<Rightarrow>
      case copySlice MachinesCell machinesIn (KubernetesMachine_DeepCopyInto dl) (gl_Items x) h1 of (items, h2) \<Rightarrow>
        (x\<lparr>gl_ListMeta := meta, gl_Items := items\<rparr>, h2))"

definition KubernetesMachineList_DeepCopy :: "deep_lib \<Rightarrow> goList option \<Rightarrow> heap \<Rightarrow> goList option \<times> heap" where
  "KubernetesMachineList_DeepCopy dl p h = deepCopyOf (KubernetesMachineList_DeepCopyInto dl) p h"

definition KubernetesMachineList_DeepCopyObject :: "deep_lib \<Rightarrow> goList option \<Rightarrow> heap \<Rightarrow> goList option \<times> heap" where
  "KubernetesMachineList_DeepCopyObject dl p h = objectOf (KubernetesMachineList_DeepCopy dl p h)"

definition KubernetesMachineTemplateResource_DeepCopyInto :: "deep_lib \<Rightarrow> goTemplateResource copier" where
  "KubernetesMachineTemplateResource_DeepCopyInto dl x h =
     (case KubernetesMachineSpec_DeepCopyInto dl (gtr_Spec x) h of (spec, h1) \<Rightarrow> (x\<lparr>gtr_Spec := spec\<rparr>, h1))"

definition KubernetesMachineTemplateResource_DeepCopy :: "deep_lib \<Rightarrow> goTemplateResource option \<Rightarrow> heap \<Rightarrow> goTemplateResource option \<times> heap" where
  "KubernetesMachineTemplateResource_DeepCopy dl p h = deepCopyOf (KubernetesMachineTemplateResource_DeepCopyInto dl) p h"

definition KubernetesMachineTemplateSpec_DeepCopyInto :: "deep_lib \<Rightarrow> goTemplateSpec copier" where
  "KubernetesMachineTemplateSpec_DeepCopyInto dl x h =
     (case KubernetesMachineTemplateResource_DeepCopyInto dl (gts_Template x) h of (t, h1) \<Rightarrow> (x\<lparr>gts_Template := t\<rparr>, h1))"

definition KubernetesMachineTemplateSpec_DeepCopy :: "deep_lib \<Rightarrow> goTemplateSpec option \<Rightarrow> heap \<Rightarrow> goTemplateSpec option \<times> heap" where
  "KubernetesMachineTemplateSpec_DeepCopy dl p h = deepCopyOf (KubernetesMachineTemplateSpec_DeepCopyInto dl) p h"

definition KubernetesMachineTemplate_DeepCopyInto :: "deep_lib \<Rightarrow> goTemplate copier" where
  "KubernetesMachineTemplate_DeepCopyInto dl x h =
     (case dl_ObjectMeta dl (gt_ObjectMeta x) h of (meta, h1) \<Rightarrow>
      case KubernetesMachineTemplateSpec_DeepCopyInto dl (gt_Spec x) h1 of (spec, h2) \<Rightarrow>
        (x\<lparr>gt_ObjectMeta := meta, gt_Spec := spec\<rparr>, h2))"

definition KubernetesMachineTemplate_DeepCopy :: "deep_lib \<Rightarrow> goTemplate option \<Rightarrow> heap \<Rightarrow> goTemplate option \<times> heap" where
  "KubernetesMachineTemplate_DeepCopy dl p h = deepCopyOf (KubernetesMachineTemplate_DeepCopyInto dl) p h"

definition KubernetesMachineTemplate_DeepCopyObject :: "deep_lib \<Rightarrow> goTemplate option \<Rightarrow> heap \<Rightarrow> goTemplate option \<times> heap" where
  "KubernetesMachineTemplate_DeepCopyObject dl p h = objectOf (KubernetesMachineTemplate_DeepCopy dl p h)"

definition KubernetesMachineTemplateList_DeepCopyInto :: "deep_lib \<Rightarrow> goList copier" where
  "KubernetesMachineTemplateList_DeepCopyInto dl x h =
     (case dl_ListMeta dl (gl_ListMeta x) h of (meta, h1) \<Rightarrow>
      case copySlice TemplatesCell templatesIn (KubernetesMachineTemplate_DeepCopyInto dl) (gl_Items x) h1 of (items, h2) \<Rightarrow>
        (x\<lparr>gl_ListMeta := meta, gl_Items := items\<rparr>, h2))"

definition KubernetesMachineTemplateList_DeepCopy :: "deep_lib \<Rightarrow> goList option \<Rightarrow> heap \<Rightarrow> goList option \<times> heap" where
  "KubernetesMachineTemplateList_DeepCopy dl p h = deepCopyOf (KubernetesMachineTemplateList_DeepCopyInto dl) p h"

definition KubernetesMachineTemplateList_DeepCopyObject :: "deep_lib \<Rightarrow> goList option \<Rightarrow> heap \<Rightarrow> goList option \<times> heap" where
  "KubernetesMachineTemplateList_DeepCopyObject dl p h = objectOf (KubernetesMachineTemplateList_DeepCopy dl p h)"

subsection \<open>Version v1alpha2\<close>

definition APIEndpoint_DeepCopyInto_v1alpha2 :: "APIEndpoint_v1alpha2 copier" where
  "APIEndpoint_DeepCopyInto_v1alpha2 x h = (x, h)"

definition APIEndpoint_DeepCopy_v1alpha2 :: "APIEndpoint_v1alpha2 option \<Rightarrow> heap \<Rightarrow> APIEndpoint_v1alpha2 option \<times> heap" where
  "APIEndpoint_DeepCopy_v1alpha2 p h = deepCopyOf APIEndpoint_DeepCopyInto_v1alpha2 p h"

definition KubernetesClusterSpec_DeepCopyInto_v1alpha2 :: "KubernetesClusterSpec_v1alpha2 copier" where
  "KubernetesClusterSpec_DeepCopyInto_v1alpha2 x h = (x, h)"

definition KubernetesClusterSpec_DeepCopy_v1alpha2 :: "KubernetesClusterSpec_v1alpha2 option \<Rightarrow> heap \<Rightarrow> KubernetesClusterSpec_v1alpha2 option \<times> heap" where
  "KubernetesClusterSpec_DeepCopy_v1alpha2 p h = deepCopyOf KubernetesClusterSpec_DeepCopyInto_v1alpha2 p h"

definition KubernetesClusterStatus_DeepCopyInto_v1alpha2 :: "goClusterStatus_v1alpha2 copier" where
  "KubernetesClusterStatus_DeepCopyInto_v1alpha2 x h =
     (case copyString (gcst2_ErrorReason x) h of (reason, h1) \<Rightarrow>
      case copyString (gcst2_ErrorMessage x) h1 of (msg, h2) \<Rightarrow>
      case copySlice EndpointsCell endpointsIn (\<lambda>e k. (e, k)) (gcst2_APIEndpoints x) h2 of (eps, h3) \<Rightarrow>
        (x\<lparr>gcst2_ErrorReason := reason, gcst2_ErrorMessage := msg, gcst2_APIEndpoints := eps\<rparr>, h3))"

definition KubernetesClusterStatus_DeepCopy_v1alpha2 :: "goClusterStatus_v1alpha2 option \<Rightarrow> heap \<Rightarrow> goClusterStatus_v1alpha2 option \<times> heap" where
  "KubernetesClusterStatus_DeepCopy_v1alpha2 p h = deepCopyOf KubernetesClusterStatus_DeepCopyInto_v1alpha2 p h"

definition KubernetesCluster_DeepCopyInto_v1alpha2 :: "deep_lib \<Rightarrow> goCluster_v1alpha2 copier" where
  "KubernetesCluster_DeepCopyInto_v1alpha2 dl x h =
     (case dl_ObjectMeta dl (gc_ObjectMeta x) h of (meta, h1) \<Rightarrow>
      case KubernetesClusterStatus_DeepCopyInto_v1alpha2 (gc_Status x) h1 of (status, h2) \<Rightarrow>
        (x\<lparr>gc_ObjectMeta := meta, gc_Status := status\<rparr>, h2))"

definition KubernetesCluster_DeepCopy_v1alpha2 :: "deep_lib \<Rightarrow> goCluster_v1alpha2 option \<Rightarrow> heap \<Rightarrow> goCluster_v1alpha2 option \<times> heap" where
  "KubernetesCluster_DeepCopy_v1alpha2 dl p h = deepCopyOf (KubernetesCluster_DeepCopyInto_v1alpha2 dl) p h"

definition KubernetesCluster_DeepCopyObject_v1alpha2 :: "deep_lib \<Rightarrow> goCluster_v1alpha2 option \<Rightarrow> heap \<Rightarrow> goCluster_v1alpha2 option \<times> heap" where
  "KubernetesCluster_DeepCopyObject_v1alpha2 dl p h = objectOf (KubernetesCluster_DeepCopy_v1alpha2 dl p h)"

definition KubernetesClusterList_DeepCopyInto_v1alpha2 :: "deep_lib \<Rightarrow> goList copier" where
  "KubernetesClusterList_DeepCopyInto_v1alpha2 dl x h =
     (case dl_ListMeta dl (gl_ListMeta x) h of (meta, h1) \<Rightarrow>
      case copySlice ClustersCell2 clustersIn2 (KubernetesCluster_DeepCopyInto_v1alpha2 dl) (gl_Items x) h1 of (items, h2) \<Rightarrow>
        (x\<lparr>gl_ListMeta := meta, gl_Items := items\<rparr>, h2))"

definition KubernetesClusterList_DeepCopy_v1alpha2 :: "deep_lib \<Rightarrow> goList option \<Rightarrow> heap \<Rightarrow> goList option \<times> heap" where
  "KubernetesClusterList_DeepCopy_v1alpha2 dl p h = deepCopyOf (KubernetesClusterList_DeepCopyInto_v1alpha2 dl) p h"

definition KubernetesClusterList_DeepCopyObject_v1alpha2 :: "deep_lib \<Rightarrow> goList option \<Rightarrow> heap \<Rightarrow> goList option \<times> heap" where
  "KubernetesClusterList_DeepCopyObject_v1alpha2 dl p h = objectOf (KubernetesClusterList_DeepCopy_v1alpha2 dl p h)"

definition KubernetesMachineSpec_DeepCopyInto_v1alpha2 :: "deep_lib \<Rightarrow> goMachineSpec copier" where
  "KubernetesMachineSpec_DeepCopyInto_v1alpha2 dl x h =
     (case copyString (gms_ProviderID x) h of (pid, h1) \<Rightarrow>
      case dl_PodSpec dl (gms_PodSpec x) h1 of (spec, h2) \<Rightarrow>
      case copySlice ClaimsCell claimsIn (dl_PersistentVolumeClaim dl) (gms_VolumeClaimTemplates x) h2 of (claims, h3) \<Rightarrow>
        (x\<lparr>gms_ProviderID := pid, gms_PodSpec := spec, gms_VolumeClaimTemplates := claims\<rparr>, h3))"

definition KubernetesMachineSpec_DeepCopy_v1alpha2 :: "deep_lib \<Rightarrow> goMachineSpec option \<Rightarrow> heap \<Rightarrow> goMachineSpec option \<times> heap" where
  "KubernetesMachineSpec_DeepCopy_v1alpha2 dl p h = deepCopyOf (KubernetesMachineSpec_DeepCopyInto_v1alpha2 dl) p h"

definition KubernetesMachineStatus_DeepCopyInto_v1alpha2 :: "goMachineStatus_v1alpha2 copier" where
  "KubernetesMachineStatus_DeepCopyInto_v1alpha2 x h =
     (case copyString (gmst2_Version x) h of (version, h1) \<Rightarrow>
      case copyString (gmst2_ErrorReason x) h1 of (reason, h2) \<Rightarrow>
      case copyString (gmst2_ErrorMessage x) h2 of (msg, h3) \<Rightarrow>
        (x\<lparr>gmst2_Version := version, gmst2_ErrorReason := reason, gmst2_ErrorMessage := msg\<rparr>, h3))"

definition KubernetesMachineStatus_DeepCopy_v1alpha2 :: "goMachineStatus_v1alpha2 option \<Rightarrow> heap \<Rightarrow> goMachineStatus_v1alpha2 option \<times> heap" where
  "KubernetesMachineStatus_DeepCopy_v1alpha2 p h = deepCopyOf KubernetesMachineStatus_DeepCopyInto_v1alpha2 p h"

definition KubernetesMachine_DeepCopyInto_v1alpha2 :: "deep_lib \<Rightarrow> goMachine_v1alpha2 copier" where
  "KubernetesMachine_DeepCopyInto_v1alpha2 dl x h =
     (case dl_ObjectMeta dl (gm_ObjectMeta x) h of (meta, h1) \<Rightarrow>
      case KubernetesMachineSpec_DeepCopyInto_v1alpha2 dl (gm_Spec x) h1 of (spec, h2) \<Rightarrow>
      case KubernetesMachineStatus_DeepCopyInto_v1alpha2 (gm_Status x) h2 of (status, h3) \<Rightarrow>
        (x\<lparr>gm_ObjectMeta := meta, gm_Spec := spec, gm_Status := status\<rparr>, h3))"

definition KubernetesMachine_DeepCopy_v1alpha2 :: "deep_lib \<Rightarrow> goMachine_v1alpha2 option \<Rightarrow> heap \<Rightarrow> goMachine_v1alpha2 option \<times> heap" where
  "KubernetesMachine_DeepCopy_v1alpha2 dl p h = deepCopyOf (KubernetesMachine_DeepCopyInto_v1alpha2 dl) p h"

definition KubernetesMachine_DeepCopyObject_v1alpha2 :: "deep_lib \<Rightarrow> goMachine_v1alpha2 option \<Rightarrow> heap \<Rightarrow> goMachine_v1alpha2 option \<times> heap" where
  "KubernetesMachine_DeepCopyObject_v1alpha2 dl p h = objectOf (KubernetesMachine_DeepCopy_v1alpha2 dl p h)"

definition KubernetesMachineList_DeepCopyInto_v1alpha2 :: "deep_lib \<Rightarrow> goList copier" where
  "KubernetesMachineList_DeepCopyInto_v1alpha2 dl x h =
     (case dl_ListMeta dl (gl_ListMeta x) h of (meta, h1) \<Rightarrow>
      case copySlice MachinesCell2 machinesIn2 (KubernetesMachine_DeepCopyInto_v1alpha2 dl) (gl_Items x) h1 of (items, h2) \<Rightarrow>
        (x\<lparr>gl_ListMeta := meta, gl_Items := items\<rparr>, h2))"

definition KubernetesMachineList_DeepCopy_v1alpha2 :: "deep_lib \<Rightarrow> goList option \<Rightarrow> heap \<Rightarrow> goList option \<times> heap" where
  "KubernetesMachineList_DeepCopy_v1alpha2 dl p h = deepCopyOf (KubernetesMachineList_DeepCopyInto_v1alpha2 dl) p h"

definition KubernetesMachineList_DeepCopyObject_v1alpha2 :: "deep_lib \<Rightarrow> goList option \<Rightarrow> heap \<Rightarrow> goList option \<times> heap" where
  "KubernetesMachineList_DeepCopyObject_v1alpha2 dl p h = objectOf (KubernetesMachineList_DeepCopy_v1alpha2 dl p h)"

definition KubernetesMachineTemplateResource_DeepCopyInto_v1alpha2 :: "deep_lib \<Rightarrow> goTemplateResource copier" where
  "KubernetesMachineTemplateResource_DeepCopyInto_v1alpha2 dl x h =
     (case KubernetesMachineSpec_DeepCopyInto_v1alpha2 dl (gtr_Spec x) h of (spec, h1) \<Rightarrow> (x\<lparr>gtr_Spec := spec\<rparr>, h1))"

definition KubernetesMachineTemplateResource_DeepCopy_v1alpha2 :: "deep_lib \<Rightarrow> goTemplateResource option \<Rightarrow> heap \<Rightarrow> goTemplateResource option \<times> heap" where
  "KubernetesMachineTemplateResource_DeepCopy_v1alpha2 dl p h = deepCopyOf (KubernetesMachineTemplateResource_DeepCopyInto_v1alpha2 dl) p h"

definition KubernetesMachineTemplateSpec_DeepCopyInto_v1alpha2 :: "deep_lib \<Rightarrow> goTemplateSpec copier" where
  "KubernetesMachineTemplateSpec_DeepCopyInto_v1alpha2 dl x h =
     (case KubernetesMachineTemplateResource_DeepCopyInto_v1alpha2 dl (gts_Template x) h of (t, h1) \<Rightarrow> (x\<lparr>gts_Template := t\<rparr>, h1))"

definition KubernetesMachineTemplateSpec_DeepCopy_v1alpha2 :: "deep_lib \<Rightarrow> goTemplateSpec option \<Rightarrow> heap \<Rightarrow> goTemplateSpec option \<times> heap" where
  "KubernetesMachineTemplateSpec_DeepCopy_v1alpha2 dl p h = deepCopyOf (KubernetesMachineTemplateSpec_DeepCopyInto_v1alpha2 dl) p h"

definition KubernetesMachineTemplate_DeepCopyInto_v1alpha2 :: "deep_lib \<Rightarrow> goTemplate copier" where
  "KubernetesMachineTemplate_DeepCopyInto_v1alpha2 dl x h =
     (case dl_ObjectMeta dl (gt_ObjectMeta x) h of (meta, h1) \<Rightarrow>
      case KubernetesMachineTemplateSpec_DeepCopyInto_v1alpha2 dl (gt_Spec x) h1 of (spec, h2) \<Rightarrow>
        (x\<lparr>gt_ObjectMeta := meta, gt_Spec := spec\<rparr>, h2))"

definition KubernetesMachineTemplate_DeepCopy_v1alpha2 :: "deep_lib \<Rightarrow> goTemplate option \<Rightarrow> heap \<Rightarrow> goTemplate option \<times> heap" where
  "KubernetesMachineTemplate_DeepCopy_v1alpha2 dl p h = deepCopyOf (KubernetesMachineTemplate_DeepCopyInto_v1alpha2 dl) p h"

definition KubernetesMachineTemplate_DeepCopyObject_v1alpha2 :: "deep_lib \<Rightarrow> goTemplate option \<Rightarrow> heap \<Rightarrow> goTemplate option \<times> heap" where
  "KubernetesMachineTemplate_DeepCopyObject_v1alpha2 dl p h = objectOf (KubernetesMachineTemplate_DeepCopy_v1alpha2 dl p h)"

definition KubernetesMachineTemplateList_DeepCopyInto_v1alpha2 :: "deep_lib \<Rightarrow> goList copier" where
  "KubernetesMachineTemplateList_DeepCopyInto_v1alpha2 dl x h =
     (case dl_ListMeta dl (gl_ListMeta x) h of (meta, h1) \<Rightarrow>
      case copySlice TemplatesCell templatesIn (KubernetesMachineTemplate_DeepCopyInto_v1alpha2 dl) (gl_Items x) h1 of (items, h2) \<Rightarrow>
        (x\<lparr>gl_ListMeta := meta, gl_Items := items\<rparr>, h2))"

definition KubernetesMachineTemplateList_DeepCopy_v1alpha2 :: "deep_lib \<Rightarrow> goList option \<Rightarrow> heap \<Rightarrow> goList option \<times> heap" where
  "KubernetesMachineTemplateList_DeepCopy_v1alpha2 dl p h = deepCopyOf (KubernetesMachineTemplateList_DeepCopyInto_v1alpha2 dl) p h"

definition KubernetesMachineTemplateList_DeepCopyObject_v1alpha2 :: "deep_lib \<Rightarrow> goList option \<Rightarrow> heap \<Rightarrow> goList option \<times> heap" where
  "KubernetesMachineTemplateList_DeepCopyObject_v1alpha2 dl p h = objectOf (KubernetesMachineTemplateList_DeepCopy_v1alpha2 dl p h)"

end
