(* ===== verification/Deep_Copy_Correct.thy ===== *)
theory Deep_Copy_Correct
  imports Deep_Copy
begin

text \<open>
  The generated deep copies meet the contract of a deep copy, for every type of both API versions: a
  copy holds the data of the original and shares no address with it. The proofs follow the types: a
  struct is copied through the tuple of its fields with addresses, so the contract of a type follows from
  those of its fields.
\<close>

subsection \<open>The shapes of the types\<close>

definition machineSpecShape :: "goMachineSpec shape" where
  "machineSpecShape = structShape (\<lambda>x. (gms_ProviderID x, gms_PodSpec x, gms_VolumeClaimTemplates x)) gms_AllowRecreation
     (pairShape stringShape (pairShape opaqueShape (sliceShape claimsIn opaqueShape)))"

definition machineStatusShape :: "goMachineStatus shape" where
  "machineStatusShape = structShape (\<lambda>x. (gmst_Version x, gmst_FailureReason x, gmst_FailureMessage x))
     (\<lambda>x. (gmst_Phase x, gmst_Ready x)) (pairShape stringShape (pairShape stringShape stringShape))"

definition machineStatusShape_v1alpha2 :: "goMachineStatus_v1alpha2 shape" where
  "machineStatusShape_v1alpha2 = structShape (\<lambda>x. (gmst2_Version x, gmst2_ErrorReason x, gmst2_ErrorMessage x))
     (\<lambda>x. (gmst2_Phase x, gmst2_Ready x)) (pairShape stringShape (pairShape stringShape stringShape))"

definition machineShape :: "'st shape \<Rightarrow> 'st goMachine shape" where
  "machineShape st = structShape (\<lambda>x. (gm_ObjectMeta x, gm_Spec x, gm_Status x)) gm_TypeMeta
     (pairShape opaqueShape (pairShape machineSpecShape st))"

definition clusterStatusShape :: "goClusterStatus shape" where
  "clusterStatusShape = structShape (\<lambda>x. (gcst_FailureReason x, gcst_FailureMessage x))
     (\<lambda>x. (gcst_Phase x, gcst_Ready x)) (pairShape stringShape stringShape)"

definition clusterStatusShape_v1alpha2 :: "goClusterStatus_v1alpha2 shape" where
  "clusterStatusShape_v1alpha2 = structShape (\<lambda>x. (gcst2_ErrorReason x, gcst2_ErrorMessage x, gcst2_APIEndpoints x))
     (\<lambda>x. (gcst2_Phase x, gcst2_Ready x)) (pairShape stringShape (pairShape stringShape (sliceShape endpointsIn plainShape)))"

definition clusterShape :: "'st shape \<Rightarrow> ('sp, 'st) goCluster shape" where
  "clusterShape st = structShape (\<lambda>x. (gc_ObjectMeta x, gc_Status x)) (\<lambda>x. (gc_TypeMeta x, gc_Spec x))
     (pairShape opaqueShape st)"

definition templateResourceShape :: "goTemplateResource shape" where
  "templateResourceShape = structShape gtr_Spec (\<lambda>x. ()) machineSpecShape"

definition templateSpecShape :: "goTemplateSpec shape" where
  "templateSpecShape = structShape gts_Template (\<lambda>x. ()) templateResourceShape"

definition templateShape :: "goTemplate shape" where
  "templateShape = structShape (\<lambda>x. (gt_ObjectMeta x, gt_Spec x)) gt_TypeMeta (pairShape opaqueShape templateSpecShape)"

definition listShape :: "(cell \<Rightarrow> 'a list option) \<Rightarrow> 'a shape \<Rightarrow> goList shape" where
  "listShape dest k = structShape (\<lambda>x. (gl_ListMeta x, gl_Items x)) gl_TypeMeta (pairShape opaqueShape (sliceShape dest k))"

subsection \<open>The copies of the structs\<close>

interpretation strings: copyable copyString stringValid stringRefs stringAlike
  by (rule copyable_string)

lemmas three_strings = copies_pair [OF copies_basic(2) copies_pair [OF copies_basic(2) copies_basic(2)]]

lemma machineStatus_copies:
  "copies KubernetesMachineStatus_DeepCopyInto machineStatusShape"
  "copies KubernetesMachineStatus_DeepCopyInto_v1alpha2 machineStatusShape_v1alpha2"
proof -
  show "copies KubernetesMachineStatus_DeepCopyInto machineStatusShape"
    unfolding machineStatusShape_def
    by (rule copies_struct [OF three_strings, where build = "\<lambda>x (v, r, m). x\<lparr>gmst_Version := v,
        gmst_FailureReason := r, gmst_FailureMessage := m\<rparr>"])
      (auto simp: KubernetesMachineStatus_DeepCopyInto_def copyPair_def split: prod.splits)
  show "copies KubernetesMachineStatus_DeepCopyInto_v1alpha2 machineStatusShape_v1alpha2"
    unfolding machineStatusShape_v1alpha2_def
    by (rule copies_struct [OF three_strings, where build = "\<lambda>x (v, r, m). x\<lparr>gmst2_Version := v,
        gmst2_ErrorReason := r, gmst2_ErrorMessage := m\<rparr>"])
      (auto simp: KubernetesMachineStatus_DeepCopyInto_v1alpha2_def copyPair_def split: prod.splits)
qed

lemma clusterStatus_copies:
  "copies KubernetesClusterStatus_DeepCopyInto clusterStatusShape"
  "copies KubernetesClusterStatus_DeepCopyInto_v1alpha2 clusterStatusShape_v1alpha2"
proof -
  show "copies KubernetesClusterStatus_DeepCopyInto clusterStatusShape"
    unfolding clusterStatusShape_def
    by (rule copies_struct [OF copies_pair [OF copies_basic(2) copies_basic(2)], where build = "\<lambda>x (r, m).
        x\<lparr>gcst_FailureReason := r, gcst_FailureMessage := m\<rparr>"])
      (auto simp: KubernetesClusterStatus_DeepCopyInto_def copyPair_def split: prod.splits)
  have "copies (copySlice EndpointsCell endpointsIn (\<lambda>e k. (e, k))) (sliceShape endpointsIn plainShape)"
    by (rule copies_slice [OF copies_basic(1)]) simp
  note all = copies_pair [OF copies_basic(2) copies_pair [OF copies_basic(2) this]]
  show "copies KubernetesClusterStatus_DeepCopyInto_v1alpha2 clusterStatusShape_v1alpha2"
    unfolding clusterStatusShape_v1alpha2_def
    by (rule copies_struct [OF all, where build = "\<lambda>x (r, m, e). x\<lparr>gcst2_ErrorReason := r, gcst2_ErrorMessage := m,
        gcst2_APIEndpoints := e\<rparr>"])
      (auto simp: KubernetesClusterStatus_DeepCopyInto_v1alpha2_def copyPair_def split: prod.splits)
qed

context deep_contract
begin

lemma machineSpec_copies:
  "copies (KubernetesMachineSpec_DeepCopyInto dl) machineSpecShape"
  "copies (KubernetesMachineSpec_DeepCopyInto_v1alpha2 dl) machineSpecShape"
proof -
  have "copies (copySlice ClaimsCell claimsIn (dl_PersistentVolumeClaim dl)) (sliceShape claimsIn opaqueShape)"
    by (rule copies_slice [OF claim]) simp
  note all = copies_pair [OF copies_basic(2) copies_pair [OF pod_spec this]]
  show "copies (KubernetesMachineSpec_DeepCopyInto dl) machineSpecShape"
    unfolding machineSpecShape_def
    by (rule copies_struct [OF all, where build = "\<lambda>x (p, s, c). x\<lparr>gms_ProviderID := p, gms_PodSpec := s,
        gms_VolumeClaimTemplates := c\<rparr>"])
      (auto simp: KubernetesMachineSpec_DeepCopyInto_def copyPair_def split: prod.splits)
  then show "copies (KubernetesMachineSpec_DeepCopyInto_v1alpha2 dl) machineSpecShape"
    unfolding KubernetesMachineSpec_DeepCopyInto_def KubernetesMachineSpec_DeepCopyInto_v1alpha2_def .
qed

lemma machine_copies:
  "copies (KubernetesMachine_DeepCopyInto dl) (machineShape machineStatusShape)"
  "copies (KubernetesMachine_DeepCopyInto_v1alpha2 dl) (machineShape machineStatusShape_v1alpha2)"
  unfolding machineShape_def
  by (rule copies_struct [OF copies_pair [OF object_meta copies_pair [OF machineSpec_copies(1) machineStatus_copies(1)]],
        where build = "\<lambda>x (m, s, t). x\<lparr>gm_ObjectMeta := m, gm_Spec := s, gm_Status := t\<rparr>"],
      auto simp: KubernetesMachine_DeepCopyInto_def copyPair_def split: prod.splits)
    (rule copies_struct [OF copies_pair [OF object_meta copies_pair [OF machineSpec_copies(2) machineStatus_copies(2)]],
        where build = "\<lambda>x (m, s, t). x\<lparr>gm_ObjectMeta := m, gm_Spec := s, gm_Status := t\<rparr>"],
      auto simp: KubernetesMachine_DeepCopyInto_v1alpha2_def copyPair_def split: prod.splits)

lemma cluster_copies:
  "copies (KubernetesCluster_DeepCopyInto dl) (clusterShape clusterStatusShape)"
  "copies (KubernetesCluster_DeepCopyInto_v1alpha2 dl) (clusterShape clusterStatusShape_v1alpha2)"
  unfolding clusterShape_def
  by (rule copies_struct [OF copies_pair [OF object_meta clusterStatus_copies(1)],
        where build = "\<lambda>x (m, t). x\<lparr>gc_ObjectMeta := m, gc_Status := t\<rparr>"],
      auto simp: KubernetesCluster_DeepCopyInto_def copyPair_def split: prod.splits)
    (rule copies_struct [OF copies_pair [OF object_meta clusterStatus_copies(2)],
        where build = "\<lambda>x (m, t). x\<lparr>gc_ObjectMeta := m, gc_Status := t\<rparr>"],
      auto simp: KubernetesCluster_DeepCopyInto_v1alpha2_def copyPair_def split: prod.splits)

lemma templateResource_copies:
  "copies (KubernetesMachineTemplateResource_DeepCopyInto dl) templateResourceShape"
  "copies (KubernetesMachineTemplateResource_DeepCopyInto_v1alpha2 dl) templateResourceShape"
  unfolding templateResourceShape_def
  by (rule copies_struct [OF machineSpec_copies(1), where build = "\<lambda>x s. x\<lparr>gtr_Spec := s\<rparr>"],
      auto simp: KubernetesMachineTemplateResource_DeepCopyInto_def split: prod.splits)
    (rule copies_struct [OF machineSpec_copies(2), where build = "\<lambda>x s. x\<lparr>gtr_Spec := s\<rparr>"],
      auto simp: KubernetesMachineTemplateResource_DeepCopyInto_v1alpha2_def split: prod.splits)

lemma templateSpec_copies:
  "copies (KubernetesMachineTemplateSpec_DeepCopyInto dl) templateSpecShape"
  "copies (KubernetesMachineTemplateSpec_DeepCopyInto_v1alpha2 dl) templateSpecShape"
  unfolding templateSpecShape_def
  by (rule copies_struct [OF templateResource_copies(1), where build = "\<lambda>x t. x\<lparr>gts_Template := t\<rparr>"],
      auto simp: KubernetesMachineTemplateSpec_DeepCopyInto_def split: prod.splits)
    (rule copies_struct [OF templateResource_copies(2), where build = "\<lambda>x t. x\<lparr>gts_Template := t\<rparr>"],
      auto simp: KubernetesMachineTemplateSpec_DeepCopyInto_v1alpha2_def split: prod.splits)

lemma template_copies:
  "copies (KubernetesMachineTemplate_DeepCopyInto dl) templateShape"
  "copies (KubernetesMachineTemplate_DeepCopyInto_v1alpha2 dl) templateShape"
  unfolding templateShape_def
  by (rule copies_struct [OF copies_pair [OF object_meta templateSpec_copies(1)],
        where build = "\<lambda>x (m, s). x\<lparr>gt_ObjectMeta := m, gt_Spec := s\<rparr>"],
      auto simp: KubernetesMachineTemplate_DeepCopyInto_def copyPair_def split: prod.splits)
    (rule copies_struct [OF copies_pair [OF object_meta templateSpec_copies(2)],
        where build = "\<lambda>x (m, s). x\<lparr>gt_ObjectMeta := m, gt_Spec := s\<rparr>"],
      auto simp: KubernetesMachineTemplate_DeepCopyInto_v1alpha2_def copyPair_def split: prod.splits)

lemma list_copies:
  assumes "copies c k" and "\<And>xs. dest (mk xs) = Some xs"
    and "\<And>x h. into x h = (case dl_ListMeta dl (gl_ListMeta x) h of (meta, h1) \<Rightarrow>
      case copySlice mk dest c (gl_Items x) h1 of (items, h2) \<Rightarrow> (x\<lparr>gl_ListMeta := meta, gl_Items := items\<rparr>, h2))"
  shows "copies into (listShape dest k)"
  unfolding listShape_def
  by (rule copies_struct [OF copies_pair [OF list_meta copies_slice [OF assms(1,2)]],
        where build = "\<lambda>x (m, i). x\<lparr>gl_ListMeta := m, gl_Items := i\<rparr>"])
    (auto simp: assms(3) copyPair_def split: prod.splits)

end

subsection \<open>Pointers to structs\<close>

definition deepCopies :: "('r option \<Rightarrow> heap \<Rightarrow> 'r option \<times> heap) \<Rightarrow> 'r shape \<Rightarrow> bool" where
  "deepCopies f k \<longleftrightarrow> (\<forall>h. f None h = (None, h)) \<and>
     (\<forall>h x. sh_valid k h x \<longrightarrow>
        (\<exists>y g. f (Some x) h = (Some y, g) \<and> extends h g \<and> sh_valid k g y \<and> independentCopy k h x g y))"

lemma objectOf_id [simp]: "objectOf r = r"
  by (auto simp: objectOf_def split: prod.split option.split)

lemma deepCopies_of:
  assumes "copies into k" and "\<And>p h. f p h = deepCopyOf into p h"
  shows "deepCopies f k"
proof -
  have "\<exists>y g. f (Some x) h = (Some y, g) \<and> extends h g \<and> sh_valid k g y \<and> independentCopy k h x g y"
    if v: "sh_valid k h x" for h x
  proof -
    obtain y g where r: "into x h = (y, g)" by (cases "into x h")
    then show ?thesis
      using copies_independent [OF assms(1) v r] copyable.copy [OF assms(1) [unfolded copies_def] v r] assms(2)
      by (auto simp: deepCopyOf_def)
  qed
  then show ?thesis by (simp add: deepCopies_def assms(2) deepCopyOf_def)
qed

lemma deepCopies_machine:
  assumes "deep_contract dl"
  shows "deepCopies (KubernetesMachine_DeepCopyObject dl) (machineShape machineStatusShape)"
    and "deepCopies (KubernetesMachine_DeepCopyObject_v1alpha2 dl) (machineShape machineStatusShape_v1alpha2)"
    and "deepCopies (KubernetesMachineList_DeepCopyObject dl) (listShape machinesIn (machineShape machineStatusShape))"
    and "deepCopies (KubernetesMachineList_DeepCopyObject_v1alpha2 dl)
      (listShape machinesIn2 (machineShape machineStatusShape_v1alpha2))"
proof -
  note m = deep_contract.machine_copies [OF assms]
  show "deepCopies (KubernetesMachine_DeepCopyObject dl) (machineShape machineStatusShape)"
    by (rule deepCopies_of [OF m(1)]) (simp add: KubernetesMachine_DeepCopyObject_def KubernetesMachine_DeepCopy_def)
  show "deepCopies (KubernetesMachine_DeepCopyObject_v1alpha2 dl) (machineShape machineStatusShape_v1alpha2)"
    by (rule deepCopies_of [OF m(2)])
      (simp add: KubernetesMachine_DeepCopyObject_v1alpha2_def KubernetesMachine_DeepCopy_v1alpha2_def)
  show "deepCopies (KubernetesMachineList_DeepCopyObject dl) (listShape machinesIn (machineShape machineStatusShape))"
    by (rule deepCopies_of [OF deep_contract.list_copies [OF assms m(1) machinesIn.simps(1)
          KubernetesMachineList_DeepCopyInto_def]])
      (simp add: KubernetesMachineList_DeepCopyObject_def KubernetesMachineList_DeepCopy_def)
  show "deepCopies (KubernetesMachineList_DeepCopyObject_v1alpha2 dl)
      (listShape machinesIn2 (machineShape machineStatusShape_v1alpha2))"
    by (rule deepCopies_of [OF deep_contract.list_copies [OF assms m(2) machinesIn2.simps(1)
          KubernetesMachineList_DeepCopyInto_v1alpha2_def]])
      (simp add: KubernetesMachineList_DeepCopyObject_v1alpha2_def KubernetesMachineList_DeepCopy_v1alpha2_def)
qed

lemma deepCopies_cluster:
  assumes "deep_contract dl"
  shows "deepCopies (KubernetesCluster_DeepCopyObject dl) (clusterShape clusterStatusShape)"
    and "deepCopies (KubernetesCluster_DeepCopyObject_v1alpha2 dl) (clusterShape clusterStatusShape_v1alpha2)"
    and "deepCopies (KubernetesClusterList_DeepCopyObject dl) (listShape clustersIn (clusterShape clusterStatusShape))"
    and "deepCopies (KubernetesClusterList_DeepCopyObject_v1alpha2 dl)
      (listShape clustersIn2 (clusterShape clusterStatusShape_v1alpha2))"
proof -
  note m = deep_contract.cluster_copies [OF assms]
  show "deepCopies (KubernetesCluster_DeepCopyObject dl) (clusterShape clusterStatusShape)"
    by (rule deepCopies_of [OF m(1)]) (simp add: KubernetesCluster_DeepCopyObject_def KubernetesCluster_DeepCopy_def)
  show "deepCopies (KubernetesCluster_DeepCopyObject_v1alpha2 dl) (clusterShape clusterStatusShape_v1alpha2)"
    by (rule deepCopies_of [OF m(2)])
      (simp add: KubernetesCluster_DeepCopyObject_v1alpha2_def KubernetesCluster_DeepCopy_v1alpha2_def)
  show "deepCopies (KubernetesClusterList_DeepCopyObject dl) (listShape clustersIn (clusterShape clusterStatusShape))"
    by (rule deepCopies_of [OF deep_contract.list_copies [OF assms m(1) clustersIn.simps(1)
          KubernetesClusterList_DeepCopyInto_def]])
      (simp add: KubernetesClusterList_DeepCopyObject_def KubernetesClusterList_DeepCopy_def)
  show "deepCopies (KubernetesClusterList_DeepCopyObject_v1alpha2 dl)
      (listShape clustersIn2 (clusterShape clusterStatusShape_v1alpha2))"
    by (rule deepCopies_of [OF deep_contract.list_copies [OF assms m(2) clustersIn2.simps(1)
          KubernetesClusterList_DeepCopyInto_v1alpha2_def]])
      (simp add: KubernetesClusterList_DeepCopyObject_v1alpha2_def KubernetesClusterList_DeepCopy_v1alpha2_def)
qed

lemma deepCopies_template:
  assumes "deep_contract dl"
  shows "deepCopies (KubernetesMachineTemplate_DeepCopyObject dl) templateShape"
    and "deepCopies (KubernetesMachineTemplate_DeepCopyObject_v1alpha2 dl) templateShape"
    and "deepCopies (KubernetesMachineTemplateList_DeepCopyObject dl) (listShape templatesIn templateShape)"
    and "deepCopies (KubernetesMachineTemplateList_DeepCopyObject_v1alpha2 dl)
      (listShape templatesIn templateShape)"
proof -
  note m = deep_contract.template_copies [OF assms]
  show "deepCopies (KubernetesMachineTemplate_DeepCopyObject dl) templateShape"
    by (rule deepCopies_of [OF m(1)]) (simp add: KubernetesMachineTemplate_DeepCopyObject_def KubernetesMachineTemplate_DeepCopy_def)
  show "deepCopies (KubernetesMachineTemplate_DeepCopyObject_v1alpha2 dl) templateShape"
    by (rule deepCopies_of [OF m(2)])
      (simp add: KubernetesMachineTemplate_DeepCopyObject_v1alpha2_def KubernetesMachineTemplate_DeepCopy_v1alpha2_def)
  show "deepCopies (KubernetesMachineTemplateList_DeepCopyObject dl) (listShape templatesIn templateShape)"
    by (rule deepCopies_of [OF deep_contract.list_copies [OF assms m(1) templatesIn.simps(1)
          KubernetesMachineTemplateList_DeepCopyInto_def]])
      (simp add: KubernetesMachineTemplateList_DeepCopyObject_def KubernetesMachineTemplateList_DeepCopy_def)
  show "deepCopies (KubernetesMachineTemplateList_DeepCopyObject_v1alpha2 dl)
      (listShape templatesIn templateShape)"
    by (rule deepCopies_of [OF deep_contract.list_copies [OF assms m(2) templatesIn.simps(1)
          KubernetesMachineTemplateList_DeepCopyInto_v1alpha2_def]])
      (simp add: KubernetesMachineTemplateList_DeepCopyObject_v1alpha2_def KubernetesMachineTemplateList_DeepCopy_v1alpha2_def)
qed

subsection \<open>The contract of the library can be met\<close>

text \<open>A reference copy of an opaque struct: it allocates a second copy of everything there is, with all
  addresses moved.\<close>

definition movedOpaque :: "nat \<Rightarrow> opaque \<Rightarrow> opaque" where
  "movedOpaque d e = e\<lparr>op_refs := map (\<lambda>a. a + d) (op_refs e)\<rparr>"

fun movedCell :: "nat \<Rightarrow> cell \<Rightarrow> cell" where
  "movedCell d (OpaqueCell x) = OpaqueCell (movedOpaque d x)"
| "movedCell d c = c"

definition moveAll :: "opaque copier" where
  "moveAll e h = (let d = hp_next h in (movedOpaque d e,
     \<lparr>hp_next = d + d, hp_cells = (\<lambda>a. if a < d then hp_cells h a else map_option (movedCell d) (hp_cells h (a - d)))\<rparr>))"

definition refDeepLib :: deep_lib where
  "refDeepLib = \<lparr>dl_ObjectMeta = moveAll, dl_ListMeta = moveAll, dl_PodSpec = moveAll, dl_PersistentVolumeClaim = moveAll\<rparr>"

lemma moveAll_reach:
  assumes "moveAll e h = (f, g)" and "b \<in> reach g f"
  shows "\<exists>a \<in> reach h e. b = a + hp_next h"
  using assms(2)
proof induction
  case (reach_ref a)
  then obtain a' where "a' \<in> set (op_refs e)" "a = a' + hp_next h"
    using assms(1) by (auto simp: moveAll_def movedOpaque_def Let_def)
  then show ?case using reach.reach_ref [of a' e h] by blast
next
  case (reach_cell a x b)
  then obtain a' where a': "a' \<in> reach h e" "a = a' + hp_next h" by blast
  then have "map_option (movedCell (hp_next h)) (hp_cells h a') = Some (OpaqueCell x)"
    using reach_cell(2) assms(1) by (auto simp: moveAll_def Let_def)
  then obtain y where y: "hp_cells h a' = Some (OpaqueCell y)" "x = movedOpaque (hp_next h) y"
    by (auto elim!: movedCell.elims)
  then show ?case using reach_cell(3) a' by (auto simp: movedOpaque_def intro: reach.intros)
qed

lemma moveAll_unfold:
  assumes "moveAll e h = (f, g)"
  shows "unfold_at n g (movedOpaque (hp_next h) x) = unfold_at n h x"
proof (induction n arbitrary: x)
  case (Suc n)
  have cell: "hp_cells g (a + hp_next h) = map_option (movedCell (hp_next h)) (hp_cells h a)" for a
    using assms by (auto simp: moveAll_def Let_def)
  have "(case hp_cells g (a + hp_next h) of Some (OpaqueCell y) \<Rightarrow> unfold_at n g y | _ \<Rightarrow> Cut) =
      (case hp_cells h a of Some (OpaqueCell y) \<Rightarrow> unfold_at n h y | _ \<Rightarrow> Cut)" for a
    using Suc.IH by (simp add: cell split: option.split cell.split)
  then show ?case by (simp add: movedOpaque_def comp_def)
qed simp

lemma moveAll_copies: "copies moveAll opaqueShape"
proof -
  have "extends h g \<and> opaqueValid g f \<and> opaqueAlike h e g f \<and> reach g f \<inter> {..<hp_next h} = {}"
    if v: "opaqueValid h e" and c: "moveAll e h = (f, g)" for h e f g
  proof -
    have g: "hp_next g = hp_next h + hp_next h" "extends h g" "f = movedOpaque (hp_next h) e"
      using c by (auto simp: moveAll_def Let_def agree_def)
    have "opaqueValid g f" "reach g f \<inter> {..<hp_next h} = {}"
      using moveAll_reach [OF c] v g(1) by (fastforce simp: opaqueValid_def)+
    then show ?thesis using g moveAll_unfold [OF c] by (simp add: opaqueAlike_def)
  qed
  then show ?thesis unfolding copies_def opaqueShape_def shape.simps by (rule opaque_copyable)
qed

interpretation ref_deep: deep_contract refDeepLib
  by unfold_locales (simp_all add: refDeepLib_def moveAll_copies)

subsection \<open>All kinds\<close>

text \<open>
  C34. \<open>DeepCopyObject\<close> of every kind and list of kinds of both API versions is a deep copy: nil stays nil;
  otherwise the result holds the same data, the original is untouched, the two share no address, and no
  write to what one of them reaches changes what the other one holds.
\<close>

theorem deep_copies_are_independent:
  assumes "deep_contract dl"
  shows "deepCopies (KubernetesMachine_DeepCopyObject dl) (machineShape machineStatusShape) \<and>
    deepCopies (KubernetesMachineList_DeepCopyObject dl) (listShape machinesIn (machineShape machineStatusShape)) \<and>
    deepCopies (KubernetesCluster_DeepCopyObject dl) (clusterShape clusterStatusShape) \<and>
    deepCopies (KubernetesClusterList_DeepCopyObject dl) (listShape clustersIn (clusterShape clusterStatusShape)) \<and>
    deepCopies (KubernetesMachineTemplate_DeepCopyObject dl) templateShape \<and>
    deepCopies (KubernetesMachineTemplateList_DeepCopyObject dl) (listShape templatesIn templateShape) \<and>
    deepCopies (KubernetesMachine_DeepCopyObject_v1alpha2 dl) (machineShape machineStatusShape_v1alpha2) \<and>
    deepCopies (KubernetesMachineList_DeepCopyObject_v1alpha2 dl)
      (listShape machinesIn2 (machineShape machineStatusShape_v1alpha2)) \<and>
    deepCopies (KubernetesCluster_DeepCopyObject_v1alpha2 dl) (clusterShape clusterStatusShape_v1alpha2) \<and>
    deepCopies (KubernetesClusterList_DeepCopyObject_v1alpha2 dl)
      (listShape clustersIn2 (clusterShape clusterStatusShape_v1alpha2)) \<and>
    deepCopies (KubernetesMachineTemplate_DeepCopyObject_v1alpha2 dl) templateShape \<and>
    deepCopies (KubernetesMachineTemplateList_DeepCopyObject_v1alpha2 dl) (listShape templatesIn templateShape)"
  by (intro conjI deepCopies_machine [OF assms] deepCopies_cluster [OF assms] deepCopies_template [OF assms])

text \<open>A failed cluster whose message lies at address 0.\<close>

definition sampleGoCluster :: goCluster_v1alpha3 where
  "sampleGoCluster = \<lparr>gc_TypeMeta = [], gc_ObjectMeta = \<lparr>op_data = ''kc'', op_refs = []\<rparr>,
     gc_Spec = \<lparr>kcs_ControlPlaneServiceType = [], kcs_ControlPlaneEndpoint = \<lparr>ep_Host = [], ep_Port = 0\<rparr>\<rparr>,
     gc_Status = \<lparr>gcst_FailureReason = None, gcst_FailureMessage = Some 0, gcst_Phase = ''Failed'', gcst_Ready = False\<rparr>\<rparr>"

definition sampleHeap :: heap where
  "sampleHeap = \<lparr>hp_next = 1, hp_cells = [0 \<mapsto> StringCell ''Service endpoint has changed'']\<rparr>"

lemma no_refs_reach: "op_refs e = [] \<Longrightarrow> reach h e = {}"
proof -
  assume e: "op_refs e = []"
  have False if "a \<in> reach h e" for a using that by induction (simp_all add: e)
  then show "reach h e = {}" by blast
qed

lemmas shape_defs = clusterShape_def clusterStatusShape_def structShape_def pairShape_def stringShape_def opaqueShape_def

theorem deep_copies_are_independent_witness:
  "\<exists>y g. KubernetesCluster_DeepCopyObject refDeepLib (Some sampleGoCluster) sampleHeap = (Some y, g) \<and>
     independentCopy (clusterShape clusterStatusShape) sampleHeap sampleGoCluster g y"
proof -
  have "sh_valid (clusterShape clusterStatusShape) sampleHeap sampleGoCluster"
    by (simp add: shape_defs pairValid_def stringValid_def opaqueValid_def sampleGoCluster_def sampleHeap_def no_refs_reach)
  moreover have "deepCopies (KubernetesCluster_DeepCopyObject refDeepLib) (clusterShape clusterStatusShape)"
    using deep_copies_are_independent [OF ref_deep.deep_contract_axioms] by blast
  ultimately show ?thesis unfolding deepCopies_def by blast
qed

end
