(* ===== verification/Kube_Client.thy ===== *)
theory Kube_Client
  imports Capk_Types "HOL-Library.Multiset"
begin

text \<open>
  The code the controllers call and that is not part of the repository, as parameters:
  \<^item> \<open>kube_lib\<close>: the pure helpers of controller-runtime, cluster-api and apimachinery, with the
    contract \<open>kube_contract\<close> that states what their documentation promises;
  \<^item> \<open>kube_client\<close>: the operations of the API clients and of the exec stream. They work on a world
    of an arbitrary type \<open>'w\<close>; a call may answer anything and change the world in any way, so
    whatever other actors do to the cluster between two calls is covered.
  Every call is logged with its answer (\<open>event\<close>): the log is what the theorems say about the
  order and the number of the requests a controller makes.
\<close>

subsection \<open>Pure helpers\<close>

record kube_lib =
  lib_AddFinalizer :: "ObjectMeta \<Rightarrow> string \<Rightarrow> ObjectMeta"
  lib_RemoveFinalizer :: "ObjectMeta \<Rightarrow> string \<Rightarrow> ObjectMeta"
  lib_SetControllerReference :: "string \<Rightarrow> ObjectMeta \<Rightarrow> ObjectMeta \<Rightarrow> go_error + ObjectMeta"
    \<comment> \<open>kind and metadata of the owner, metadata of the controlled object\<close>
  lib_GetControllerOf :: "ObjectMeta \<Rightarrow> OwnerReference option"
  lib_IsPaused :: "Cluster \<Rightarrow> ObjectMeta \<Rightarrow> bool"
  lib_IsControlPlaneMachine :: "Machine \<Rightarrow> bool"
  lib_NewAggregate :: "go_error list \<Rightarrow> go_error option"
  lib_RangeOrder :: "(string \<times> PersistentVolumeClaim) list \<Rightarrow> (string \<times> PersistentVolumeClaim) list"
    \<comment> \<open>the order in which Go's \<open>range\<close> visits the entries of a map\<close>

locale kube_contract =
  fixes lib :: kube_lib
  assumes add_finalizer: "\<exists>fs. lib_AddFinalizer lib m f = m\<lparr>om_Finalizers := fs\<rparr> \<and>
      set fs = insert f (set (om_Finalizers m))"
    and add_finalizer_present: "f \<in> set (om_Finalizers m) \<Longrightarrow> lib_AddFinalizer lib m f = m"
    and remove_finalizer: "\<exists>fs. lib_RemoveFinalizer lib m f = m\<lparr>om_Finalizers := fs\<rparr> \<and>
      set fs = set (om_Finalizers m) - {f}"
    and set_controller: "lib_SetControllerReference lib kind owner m = Inr m' \<Longrightarrow>
      \<exists>refs. m' = m\<lparr>om_OwnerReferences := refs\<rparr> \<and>
        lib_GetControllerOf lib m' =
          Some \<lparr>or_APIVersion = GroupVersion, or_Kind = kind, or_Name = om_Name owner,
                or_UID = om_UID owner, or_Controller = Some True\<rparr>"
    and controller_of: "om_OwnerReferences m = om_OwnerReferences m' \<Longrightarrow>
      lib_GetControllerOf lib m = lib_GetControllerOf lib m'"
    and paused_annotations: "om_Annotations m = om_Annotations m' \<Longrightarrow> lib_IsPaused lib c m = lib_IsPaused lib c m'"
    and aggregate_none: "lib_NewAggregate lib errs = None \<longleftrightarrow> errs = []"
    and range_order: "mset (lib_RangeOrder lib es) = mset es"
begin

lemma add_finalizer_frame [simp]:
  "om_Name (lib_AddFinalizer lib m f) = om_Name m"
  "om_Namespace (lib_AddFinalizer lib m f) = om_Namespace m"
  "om_UID (lib_AddFinalizer lib m f) = om_UID m"
  "om_DeletionTimestamp (lib_AddFinalizer lib m f) = om_DeletionTimestamp m"
  "om_OwnerReferences (lib_AddFinalizer lib m f) = om_OwnerReferences m"
  "om_Labels (lib_AddFinalizer lib m f) = om_Labels m"
  "set (om_Finalizers (lib_AddFinalizer lib m f)) = insert f (set (om_Finalizers m))"
proof -
  obtain fs where e: "lib_AddFinalizer lib m f = m\<lparr>om_Finalizers := fs\<rparr>" "set fs = insert f (set (om_Finalizers m))"
    using add_finalizer [of m f] by blast
  show "om_Name (lib_AddFinalizer lib m f) = om_Name m"
    "om_Namespace (lib_AddFinalizer lib m f) = om_Namespace m"
    "om_UID (lib_AddFinalizer lib m f) = om_UID m"
    "om_DeletionTimestamp (lib_AddFinalizer lib m f) = om_DeletionTimestamp m"
    "om_OwnerReferences (lib_AddFinalizer lib m f) = om_OwnerReferences m"
    "om_Labels (lib_AddFinalizer lib m f) = om_Labels m"
    "set (om_Finalizers (lib_AddFinalizer lib m f)) = insert f (set (om_Finalizers m))"
    by (simp_all add: e)
qed

lemma remove_finalizer_frame [simp]:
  "om_Name (lib_RemoveFinalizer lib m f) = om_Name m"
  "om_Namespace (lib_RemoveFinalizer lib m f) = om_Namespace m"
  "om_UID (lib_RemoveFinalizer lib m f) = om_UID m"
  "om_DeletionTimestamp (lib_RemoveFinalizer lib m f) = om_DeletionTimestamp m"
  "om_OwnerReferences (lib_RemoveFinalizer lib m f) = om_OwnerReferences m"
  "om_Labels (lib_RemoveFinalizer lib m f) = om_Labels m"
  "set (om_Finalizers (lib_RemoveFinalizer lib m f)) = set (om_Finalizers m) - {f}"
proof -
  obtain fs where e: "lib_RemoveFinalizer lib m f = m\<lparr>om_Finalizers := fs\<rparr>" "set fs = set (om_Finalizers m) - {f}"
    using remove_finalizer [of m f] by blast
  show "om_Name (lib_RemoveFinalizer lib m f) = om_Name m"
    "om_Namespace (lib_RemoveFinalizer lib m f) = om_Namespace m"
    "om_UID (lib_RemoveFinalizer lib m f) = om_UID m"
    "om_DeletionTimestamp (lib_RemoveFinalizer lib m f) = om_DeletionTimestamp m"
    "om_OwnerReferences (lib_RemoveFinalizer lib m f) = om_OwnerReferences m"
    "om_Labels (lib_RemoveFinalizer lib m f) = om_Labels m"
    "set (om_Finalizers (lib_RemoveFinalizer lib m f)) = set (om_Finalizers m) - {f}"
    by (simp_all add: e)
qed

lemma set_controller_frame:
  assumes "lib_SetControllerReference lib kind owner m = Inr m'"
  shows "om_Name m' = om_Name m" "om_Namespace m' = om_Namespace m" "om_Labels m' = om_Labels m"
proof -
  obtain refs where "m' = m\<lparr>om_OwnerReferences := refs\<rparr>"
    using set_controller [OF assms] by blast
  then show "om_Name m' = om_Name m" "om_Namespace m' = om_Namespace m" "om_Labels m' = om_Labels m"
    by simp_all
qed

lemma set_controller_uid:
  assumes "lib_SetControllerReference lib kind owner m = Inr m'"
  shows "\<exists>ref. lib_GetControllerOf lib m' = Some ref \<and> or_UID ref = om_UID owner \<and>
    or_Kind ref = kind \<and> or_Name ref = om_Name owner \<and> or_APIVersion ref = GroupVersion"
  using set_controller [OF assms] by auto

lemma range_set [simp]: "set (lib_RangeOrder lib es) = set es"
  using range_order [of es] by (metis set_mset_mset)

lemma range_distinct [simp]:
  "distinct (map f (lib_RangeOrder lib es)) \<longleftrightarrow> distinct (map f es)"
  using range_order [of es] by (metis mset_eq_imp_distinct_iff mset_map)

lemma range_length [simp]: "length (lib_RangeOrder lib es) = length es"
  using range_order [of es] by (metis size_mset)

end

text \<open>\<open>controlledBy lib m uid\<close>: the object with metadata \<open>m\<close> has a controller, and it has that UID.\<close>

definition controlledBy :: "kube_lib \<Rightarrow> ObjectMeta \<Rightarrow> string \<Rightarrow> bool" where
  "controlledBy lib m uid =
     (case lib_GetControllerOf lib m of None \<Rightarrow> False | Some ref \<Rightarrow> or_UID ref = uid)"

text \<open>The reference that \<open>SetControllerReference\<close> leaves behind.\<close>

definition ownerOf :: "string \<Rightarrow> ObjectMeta \<Rightarrow> OwnerReference" where
  "ownerOf kind owner = \<lparr>or_APIVersion = GroupVersion, or_Kind = kind, or_Name = om_Name owner,
     or_UID = om_UID owner, or_Controller = Some True\<rparr>"

lemma controller_is_owner:
  assumes "kube_contract lib" and "lib_SetControllerReference lib kind owner m = Inr m'"
  shows "lib_GetControllerOf lib m' = Some (ownerOf kind owner)"
  using kube_contract.set_controller [OF assms] by (auto simp: ownerOf_def)

subsection \<open>A reference instance of the helpers\<close>

text \<open>The helpers as their documentation describes them; the contract can be met.\<close>

definition isController :: "OwnerReference \<Rightarrow> bool" where
  "isController r \<longleftrightarrow> or_Controller r = Some True"

definition refSetController :: "string \<Rightarrow> ObjectMeta \<Rightarrow> ObjectMeta \<Rightarrow> go_error + ObjectMeta" where
  "refSetController kind owner m =
     (case find isController (om_OwnerReferences m) of
        Some r \<Rightarrow>
          if or_UID r = om_UID owner \<and> or_Kind r = kind \<and> or_Name r = om_Name owner \<and>
             or_APIVersion r = GroupVersion
          then Inr m else Inl (GoError ''already owned by another controller'')
      | None \<Rightarrow> Inr (m\<lparr>om_OwnerReferences := om_OwnerReferences m @
          [\<lparr>or_APIVersion = GroupVersion, or_Kind = kind, or_Name = om_Name owner,
            or_UID = om_UID owner, or_Controller = Some True\<rparr>]\<rparr>))"

definition refLib :: kube_lib where
  "refLib = \<lparr>
     lib_AddFinalizer = (\<lambda>m f. if f \<in> set (om_Finalizers m) then m
                               else m\<lparr>om_Finalizers := om_Finalizers m @ [f]\<rparr>),
     lib_RemoveFinalizer = (\<lambda>m f. m\<lparr>om_Finalizers := filter (\<lambda>g. g \<noteq> f) (om_Finalizers m)\<rparr>),
     lib_SetControllerReference = refSetController,
     lib_GetControllerOf = (\<lambda>m. find isController (om_OwnerReferences m)),
     lib_IsPaused = (\<lambda>c m. cl_Paused c \<or> om_Annotations m ''cluster.x-k8s.io/paused'' \<noteq> None),
     lib_IsControlPlaneMachine =
       (\<lambda>mc. case om_Labels (mc_Meta mc) of None \<Rightarrow> False
             | Some l \<Rightarrow> l MachineControlPlaneLabelName \<noteq> None),
     lib_NewAggregate = (\<lambda>errs. if errs = [] then None else Some (Aggregate errs)),
     lib_RangeOrder = rev\<rparr>"

lemma refLib_simps [simp]:
  "lib_SetControllerReference refLib = refSetController"
  "lib_GetControllerOf refLib m = find isController (om_OwnerReferences m)"
  "lib_IsPaused refLib c m \<longleftrightarrow> cl_Paused c \<or> om_Annotations m ''cluster.x-k8s.io/paused'' \<noteq> None"
  "lib_RangeOrder refLib = rev"
  "lib_NewAggregate refLib errs = (if errs = [] then None else Some (Aggregate errs))"
  by (simp_all add: refLib_def)

lemma find_append_None: "find P xs = None \<Longrightarrow> find P (xs @ ys) = find P ys"
  by (induction xs) (auto split: if_splits)

lemma refSetController_ok:
  assumes "refSetController kind owner m = Inr m'"
  shows "\<exists>refs. m' = m\<lparr>om_OwnerReferences := refs\<rparr> \<and>
    find isController refs =
      Some \<lparr>or_APIVersion = GroupVersion, or_Kind = kind, or_Name = om_Name owner,
            or_UID = om_UID owner, or_Controller = Some True\<rparr>"
proof (cases "find isController (om_OwnerReferences m)")
  case None
  then show ?thesis
    using assms by (auto simp: refSetController_def find_append_None isController_def)
next
  case (Some r)
  have "isController r" using Some by (auto simp: find_Some_iff)
  then show ?thesis
    using assms Some
    by (intro exI [of _ "om_OwnerReferences m"])
      (auto simp: refSetController_def isController_def split: if_splits)
qed

interpretation ref: kube_contract refLib
proof (unfold_locales, goal_cases)
  case (1 m f)
  show ?case
    by (rule exI [of _ "om_Finalizers (lib_AddFinalizer refLib m f)"]) (auto simp: refLib_def)
next
  case (3 m f)
  show ?case
    by (rule exI [of _ "filter (\<lambda>g. g \<noteq> f) (om_Finalizers m)"]) (auto simp: refLib_def)
next
  case (4 kind owner m m')
  then show ?case using refSetController_ok by (fastforce simp: refLib_def)
qed (auto simp: refLib_def)

subsection \<open>The clients\<close>

record PodExecOptions =
  peo_Container :: string
  peo_Command :: "string list"
  peo_Stdin :: bool
  peo_Stdout :: bool
  peo_Stderr :: bool
  peo_TTY :: bool

record ExecRequest =
  er_PodName :: string
  er_Namespace :: string
  er_Options :: PodExecOptions
  er_Stdin :: "string option"  \<comment> \<open>what the stream reads its input from\<close>

text \<open>What a stream leaves: the executor could not be built, or it ran, with the error it ended
  with and what it wrote to the two output streams.\<close>

datatype ExecAnswer = NoExecutor go_error | Streamed "go_error option" string string

record 'w kube_client =
  cli_GetKubernetesMachine :: "NamespacedName \<Rightarrow> 'w \<Rightarrow> (go_error + KubernetesMachine) \<times> 'w"
  cli_GetKubernetesCluster :: "NamespacedName \<Rightarrow> 'w \<Rightarrow> (go_error + KubernetesCluster) \<times> 'w"
  cli_NewPatchHelper :: "'w \<Rightarrow> go_error option \<times> 'w"
  cli_PatchMachine :: "KubernetesMachine \<Rightarrow> KubernetesMachine \<Rightarrow> 'w \<Rightarrow> go_error option \<times> 'w"
  cli_PatchCluster :: "KubernetesCluster \<Rightarrow> KubernetesCluster \<Rightarrow> 'w \<Rightarrow> go_error option \<times> 'w"
  cli_GetOwnerMachine :: "ObjectMeta \<Rightarrow> 'w \<Rightarrow> (go_error + Machine option) \<times> 'w"
  cli_GetClusterFromMetadata :: "ObjectMeta \<Rightarrow> 'w \<Rightarrow> (go_error + Cluster option) \<times> 'w"
  cli_GetOwnerCluster :: "ObjectMeta \<Rightarrow> 'w \<Rightarrow> (go_error + Cluster option) \<times> 'w"
  cli_GetPod :: "NamespacedName \<Rightarrow> 'w \<Rightarrow> (go_error + Pod) \<times> 'w"
  cli_CreatePod :: "Pod \<Rightarrow> 'w \<Rightarrow> go_error option \<times> 'w"
  cli_DeletePod :: "Pod \<Rightarrow> 'w \<Rightarrow> go_error option \<times> 'w"
  cli_ListPods :: "string \<Rightarrow> (string \<rightharpoonup> string) \<Rightarrow> 'w \<Rightarrow> (go_error + Pod list) \<times> 'w"
  cli_GetSecret :: "NamespacedName \<Rightarrow> 'w \<Rightarrow> (go_error + Secret) \<times> 'w"
  cli_CreateSecret :: "Secret \<Rightarrow> 'w \<Rightarrow> (go_error + Secret) \<times> 'w"
  cli_GetClaim :: "NamespacedName \<Rightarrow> 'w \<Rightarrow> go_error option \<times> 'w"
  cli_CreateClaim :: "string \<Rightarrow> PersistentVolumeClaim \<Rightarrow> 'w \<Rightarrow> go_error option \<times> 'w"
  cli_GetService :: "NamespacedName \<Rightarrow> 'w \<Rightarrow> (go_error + Service) \<times> 'w"
  cli_CreateService :: "Service \<Rightarrow> 'w \<Rightarrow> go_error option \<times> 'w"
  cli_ListMachines :: "string \<Rightarrow> (string \<rightharpoonup> string) \<Rightarrow> 'w \<Rightarrow> (go_error + Machine list) \<times> 'w"
  cli_Exec :: "ExecRequest \<Rightarrow> 'w \<Rightarrow> ExecAnswer \<times> 'w"

datatype event =
    EvGetKubernetesMachine NamespacedName "go_error + KubernetesMachine"
  | EvGetKubernetesCluster NamespacedName "go_error + KubernetesCluster"
  | EvNewPatchHelper "go_error option"
  | EvPatchMachine KubernetesMachine KubernetesMachine "go_error option"
  | EvPatchCluster KubernetesCluster KubernetesCluster "go_error option"
  | EvGetOwnerMachine ObjectMeta "go_error + Machine option"
  | EvGetClusterFromMetadata ObjectMeta "go_error + Cluster option"
  | EvGetOwnerCluster ObjectMeta "go_error + Cluster option"
  | EvGetPod NamespacedName "go_error + Pod"
  | EvCreatePod Pod "go_error option"
  | EvDeletePod Pod "go_error option"
  | EvListPods string "string \<rightharpoonup> string" "go_error + Pod list"
  | EvGetSecret NamespacedName "go_error + Secret"
  | EvCreateSecret Secret "go_error + Secret"
  | EvGetClaim NamespacedName "go_error option"
  | EvCreateClaim string PersistentVolumeClaim "go_error option"
  | EvGetService NamespacedName "go_error + Service"
  | EvCreateService Service "go_error option"
  | EvListMachines string "string \<rightharpoonup> string" "go_error + Machine list"
  | EvExec ExecRequest ExecAnswer

text \<open>The state a handler runs in: the world and the log of the calls made so far.\<close>

type_synonym 'w st = "'w \<times> event list"

definition perform :: "('r \<Rightarrow> event) \<Rightarrow> ('w \<Rightarrow> 'r \<times> 'w) \<Rightarrow> 'w st \<Rightarrow> 'r \<times> 'w st" where
  "perform ev call s = (case call (fst s) of (r, w) \<Rightarrow> (r, (w, snd s @ [ev r])))"

lemma perform_log: "perform ev call s = (r, s') \<Longrightarrow> snd s' = snd s @ [ev r]"
  by (auto simp: perform_def split: prod.splits)

lemma perform_answer: "perform ev call s = (r, s') \<Longrightarrow> r = fst (call (fst s))"
  by (auto simp: perform_def split: prod.splits)

text \<open>A client of an empty cluster: nothing is found, every request to write succeeds.\<close>

definition emptyClient :: "'w kube_client" where
  "emptyClient = \<lparr>
     cli_GetKubernetesMachine = (\<lambda>k w. (Inl (StatusNotFound (nn_Name k)), w)),
     cli_GetKubernetesCluster = (\<lambda>k w. (Inl (StatusNotFound (nn_Name k)), w)),
     cli_NewPatchHelper = (\<lambda>w. (None, w)),
     cli_PatchMachine = (\<lambda>a b w. (None, w)),
     cli_PatchCluster = (\<lambda>a b w. (None, w)),
     cli_GetOwnerMachine = (\<lambda>m w. (Inr None, w)),
     cli_GetClusterFromMetadata = (\<lambda>m w. (Inr None, w)),
     cli_GetOwnerCluster = (\<lambda>m w. (Inr None, w)),
     cli_GetPod = (\<lambda>k w. (Inl (StatusNotFound (nn_Name k)), w)),
     cli_CreatePod = (\<lambda>p w. (None, w)),
     cli_DeletePod = (\<lambda>p w. (None, w)),
     cli_ListPods = (\<lambda>ns sel w. (Inr [], w)),
     cli_GetSecret = (\<lambda>k w. (Inl (StatusNotFound (nn_Name k)), w)),
     cli_CreateSecret = (\<lambda>x w. (Inr x, w)),
     cli_GetClaim = (\<lambda>k w. (Some (StatusNotFound (nn_Name k)), w)),
     cli_CreateClaim = (\<lambda>ns c w. (None, w)),
     cli_GetService = (\<lambda>k w. (Inl (StatusNotFound (nn_Name k)), w)),
     cli_CreateService = (\<lambda>x w. (None, w)),
     cli_ListMachines = (\<lambda>ns sel w. (Inr [], w)),
     cli_Exec = (\<lambda>x w. (Streamed None [] [], w))\<rparr>"

text \<open>Calls that change the cluster, and those that only read it.\<close>

fun mutates :: "event \<Rightarrow> bool" where
  "mutates (EvPatchMachine _ _ _) = True"
| "mutates (EvPatchCluster _ _ _) = True"
| "mutates (EvCreatePod _ _) = True"
| "mutates (EvDeletePod _ _) = True"
| "mutates (EvCreateSecret _ _) = True"
| "mutates (EvCreateClaim _ _ _) = True"
| "mutates (EvCreateService _ _) = True"
| "mutates (EvExec _ _) = True"
| "mutates _ = False"

text \<open>What a reconcile returns: the requeue delay in nanoseconds, and an error.\<close>

record CtrlResult =
  res_RequeueAfter :: nat

definition noRequeue :: CtrlResult where
  "noRequeue = \<lparr>res_RequeueAfter = 0\<rparr>"

definition requeueSeconds :: "nat \<Rightarrow> CtrlResult" where
  "requeueSeconds n = \<lparr>res_RequeueAfter = n * 1000000000\<rparr>"

type_synonym ReconcileReturn = "CtrlResult \<times> go_error option"

end
