(* ===== verification/Machine_Storage.thy ===== *)
theory Machine_Storage
  imports Kube_Client "HOL-Library.AList"
begin

text \<open>
  The persistent storage of a machine, from \<open>src/controllers/kubernetesmachine_utils.go\<close>: the
  claims made from the templates of a KubernetesMachine, their creation, and the volumes of the
  machine Pod that refer to them. The Go map from template name to claim is an association list with
  distinct keys; \<open>range\<close> visits it in the order \<open>lib_RangeOrder\<close> gives.
\<close>

abbreviation KubernetesMachineKind :: string where "KubernetesMachineKind \<equiv> ''KubernetesMachine''"
abbreviation KubernetesClusterKind :: string where "KubernetesClusterKind \<equiv> ''KubernetesCluster''"

definition getPersistentVolumeClaimName :: "KubernetesMachine \<Rightarrow> PersistentVolumeClaim \<Rightarrow> string"
  where
  "getPersistentVolumeClaimName kubernetesMachine claim =
     om_Name (pvc_Meta claim) @ ''-'' @ om_Name (km_Meta kubernetesMachine)"

text \<open>The claim of one template: renamed, put into the machine's namespace and owned by it.\<close>

definition claimOfTemplate ::
  "kube_lib \<Rightarrow> KubernetesMachine \<Rightarrow> PersistentVolumeClaim \<Rightarrow> go_error + PersistentVolumeClaim" where
  "claimOfTemplate lib km template =
     (let meta = (pvc_Meta template)\<lparr>
            om_Name := getPersistentVolumeClaimName km template,
            om_Namespace := om_Namespace (km_Meta km)\<rparr>
      in case lib_SetControllerReference lib KubernetesMachineKind (km_Meta km) meta of
           Inl err \<Rightarrow> Inl err
         | Inr meta' \<Rightarrow> Inr (template\<lparr>pvc_Meta := meta'\<rparr>))"

fun claimsLoop ::
  "kube_lib \<Rightarrow> KubernetesMachine \<Rightarrow> PersistentVolumeClaim list \<Rightarrow>
   (string \<times> PersistentVolumeClaim) list \<Rightarrow> go_error + (string \<times> PersistentVolumeClaim) list" where
  "claimsLoop lib km [] claims = Inr claims"
| "claimsLoop lib km (t # ts) claims =
     (case claimOfTemplate lib km t of
        Inl err \<Rightarrow> Inl err
      | Inr claim \<Rightarrow> claimsLoop lib km ts (AList.update (om_Name (pvc_Meta t)) claim claims))"

definition getPersistentVolumeClaims ::
  "kube_lib \<Rightarrow> KubernetesMachine \<Rightarrow> go_error + (string \<times> PersistentVolumeClaim) list" where
  "getPersistentVolumeClaims lib km = claimsLoop lib km (kms_VolumeClaimTemplates (km_Spec km)) []"

text \<open>One claim: asked for, and created when it is not found. The errors are collected.\<close>

definition createClaim ::
  "'w kube_client \<Rightarrow> KubernetesMachine \<Rightarrow> PersistentVolumeClaim \<Rightarrow> 'w st \<Rightarrow> go_error list \<times> 'w st"
  where
  "createClaim cli km claim s =
     (let name = om_Name (pvc_Meta claim);
          key = \<lparr>nn_Namespace = om_Namespace (km_Meta km), nn_Name = name\<rparr>
      in case perform (EvGetClaim key) (cli_GetClaim cli key) s of
           (None, s1) \<Rightarrow> ([], s1)
         | (Some err, s1) \<Rightarrow>
             if IsNotFound err then
               (case perform (EvCreateClaim (om_Namespace (pvc_Meta claim)) claim)
                       (cli_CreateClaim cli (om_Namespace (pvc_Meta claim)) claim) s1 of
                  (None, s2) \<Rightarrow> ([], s2)
                | (Some err2, s2) \<Rightarrow> ([Wrapped (''failed to create PVC '' @ name) err2], s2))
             else ([Wrapped (''failed to retrieve PVC '' @ name) err], s1))"

fun createClaimsLoop ::
  "'w kube_client \<Rightarrow> KubernetesMachine \<Rightarrow> (string \<times> PersistentVolumeClaim) list \<Rightarrow>
   go_error list \<Rightarrow> 'w st \<Rightarrow> go_error list \<times> 'w st" where
  "createClaimsLoop cli km [] errs s = (errs, s)"
| "createClaimsLoop cli km ((_, claim) # cs) errs s =
     (case createClaim cli km claim s of (errs1, s1) \<Rightarrow> createClaimsLoop cli km cs (errs @ errs1) s1)"

definition createPersistentVolumeClaims ::
  "kube_lib \<Rightarrow> 'w kube_client \<Rightarrow> KubernetesMachine \<Rightarrow> 'w st \<Rightarrow> go_error option \<times> 'w st" where
  "createPersistentVolumeClaims lib cli km s =
     (case getPersistentVolumeClaims lib km of
        Inl err \<Rightarrow> (Some err, s)
      | Inr claims \<Rightarrow>
          (case createClaimsLoop cli km (lib_RangeOrder lib claims) [] s of
             (errs, s1) \<Rightarrow> (lib_NewAggregate lib errs, s1)))"

definition claimVolume :: "string \<times> PersistentVolumeClaim \<Rightarrow> Volume" where
  "claimVolume nc = \<lparr>v_Name = fst nc, v_Source = ClaimSource (om_Name (pvc_Meta (snd nc))) False\<rparr>"

definition updateStorage :: "kube_lib \<Rightarrow> KubernetesMachine \<Rightarrow> Pod \<Rightarrow> go_error + Pod" where
  "updateStorage lib km pod =
     (let currentVolumes = ps_Volumes (pod_Spec pod)
      in case getPersistentVolumeClaims lib km of
           Inl err \<Rightarrow> Inl err
         | Inr claims \<Rightarrow>
             let newVolumes = map claimVolume (lib_RangeOrder lib claims) @
                   filter (\<lambda>v. map_of claims (v_Name v) = None) currentVolumes
             in Inr (pod\<lparr>pod_Spec := (pod_Spec pod)\<lparr>ps_Volumes := newVolumes\<rparr>\<rparr>))"

subsection \<open>The claims\<close>

lemma claimOfTemplate_meta:
  assumes "kube_contract lib" and "claimOfTemplate lib km t = Inr claim"
  shows "om_Name (pvc_Meta claim) = getPersistentVolumeClaimName km t"
    "om_Namespace (pvc_Meta claim) = om_Namespace (km_Meta km)"
    "controlledBy lib (pvc_Meta claim) (om_UID (km_Meta km))"
    "pvc_Rest claim = pvc_Rest t"
proof -
  let ?meta = "(pvc_Meta t)\<lparr>om_Name := getPersistentVolumeClaimName km t,
            om_Namespace := om_Namespace (km_Meta km)\<rparr>"
  obtain m' where set: "lib_SetControllerReference lib KubernetesMachineKind (km_Meta km) ?meta = Inr m'"
    and claim: "claim = t\<lparr>pvc_Meta := m'\<rparr>"
    using assms(2) by (auto simp: claimOfTemplate_def Let_def split: sum.splits)
  note frame = kube_contract.set_controller_frame [OF assms(1) set]
  show "om_Name (pvc_Meta claim) = getPersistentVolumeClaimName km t"
    "om_Namespace (pvc_Meta claim) = om_Namespace (km_Meta km)" "pvc_Rest claim = pvc_Rest t"
    using frame by (simp_all add: claim)
  show "controlledBy lib (pvc_Meta claim) (om_UID (km_Meta km))"
    using kube_contract.set_controller_uid [OF assms(1) set] by (auto simp: claim controlledBy_def)
qed

lemma claimsLoop_spec:
  assumes "claimsLoop lib km ts claims = Inr claims'"
  shows "distinct (map fst claims) \<Longrightarrow> distinct (map fst claims')"
    and "fst ` set claims' = fst ` set claims \<union> (om_Name \<circ> pvc_Meta) ` set ts"
    and "(n, c) \<in> set claims' \<Longrightarrow> (n, c) \<in> set claims \<or>
      (\<exists>t \<in> set ts. n = om_Name (pvc_Meta t) \<and> claimOfTemplate lib km t = Inr c)"
proof (atomize (full), use assms in \<open>induction ts arbitrary: claims\<close>)
  case Nil
  then show ?case by auto
next
  case (Cons t ts)
  obtain claim where c: "claimOfTemplate lib km t = Inr claim"
    and rest: "claimsLoop lib km ts (AList.update (om_Name (pvc_Meta t)) claim claims) = Inr claims'"
    using Cons.prems by (auto split: sum.splits)
  have upd: "set (AList.update k v al) \<subseteq> insert (k, v) (set al)" for k :: string and v :: PersistentVolumeClaim and al
    by (induction al) auto
  have keys: "fst ` set (AList.update (om_Name (pvc_Meta t)) claim claims) =
      insert (om_Name (pvc_Meta t)) (fst ` set claims)"
    by (simp add: dom_update)
  show ?case
    using Cons.IH [OF rest] upd [of "om_Name (pvc_Meta t)" claim claims] c keys
    by (auto simp: distinct_update)
qed

lemma getPersistentVolumeClaims_spec:
  assumes "getPersistentVolumeClaims lib km = Inr claims"
  shows "distinct (map fst claims)"
    and "fst ` set claims = (om_Name \<circ> pvc_Meta) ` set (kms_VolumeClaimTemplates (km_Spec km))"
    and "(n, c) \<in> set claims \<Longrightarrow>
      \<exists>t \<in> set (kms_VolumeClaimTemplates (km_Spec km)).
        n = om_Name (pvc_Meta t) \<and> claimOfTemplate lib km t = Inr c"
  using claimsLoop_spec [OF assms [unfolded getPersistentVolumeClaims_def]] by auto

text \<open>For one machine, templates with different names give claims with different names.\<close>

lemma claimName_inj:
  "getPersistentVolumeClaimName km a = getPersistentVolumeClaimName km b \<longleftrightarrow>
     om_Name (pvc_Meta a) = om_Name (pvc_Meta b)"
  by (simp add: getPersistentVolumeClaimName_def)

subsection \<open>Creating the claims\<close>

lemma createClaim_log:
  assumes "createClaim cli km claim s = (errs, s')"
  shows "\<exists>evs. snd s' = snd s @ evs \<and>
    (\<forall>e \<in> set evs. (\<exists>r. e = EvGetClaim \<lparr>nn_Namespace = om_Namespace (km_Meta km),
                                   nn_Name = om_Name (pvc_Meta claim)\<rparr> r) \<or>
       (\<exists>r. e = EvCreateClaim (om_Namespace (pvc_Meta claim)) claim r))"
  using assms unfolding createClaim_def Let_def
  by (auto split: prod.splits option.splits if_splits dest!: perform_log)

lemma createClaim_ok:
  assumes "createClaim cli km claim s = ([], s')" and "snd s' = snd s @ evs"
  shows "EvGetClaim \<lparr>nn_Namespace = om_Namespace (km_Meta km), nn_Name = om_Name (pvc_Meta claim)\<rparr> None
        \<in> set evs \<or>
      EvCreateClaim (om_Namespace (pvc_Meta claim)) claim None \<in> set evs"
  using assms unfolding createClaim_def Let_def
  by (auto split: prod.splits option.splits if_splits dest!: perform_log)

lemma createClaimsLoop_log:
  assumes "createClaimsLoop cli km cs errs s = (errs', s')"
  shows "\<exists>evs. snd s' = snd s @ evs \<and>
    (\<forall>e \<in> set evs. \<exists>c \<in> snd ` set cs.
       (\<exists>r. e = EvGetClaim \<lparr>nn_Namespace = om_Namespace (km_Meta km),
                        nn_Name = om_Name (pvc_Meta c)\<rparr> r) \<or>
       (\<exists>r. e = EvCreateClaim (om_Namespace (pvc_Meta c)) c r))"
  using assms
proof (induction cs arbitrary: errs s)
  case Nil
  then show ?case by simp
next
  case (Cons nc cs)
  obtain n c where nc: "nc = (n, c)" by (cases nc)
  obtain errs1 s1 where one: "createClaim cli km c s = (errs1, s1)"
    by (cases "createClaim cli km c s")
  have rest: "createClaimsLoop cli km cs (errs @ errs1) s1 = (errs', s')"
    using Cons.prems by (simp add: nc one)
  show ?case
    using createClaim_log [OF one] Cons.IH [OF rest] by (force simp: nc)
qed

lemma createClaimsLoop_errs: "\<exists>es. fst (createClaimsLoop cli km cs errs s) = errs @ es"
proof (induction cs arbitrary: errs s)
  case Nil
  show ?case by simp
next
  case (Cons nc cs)
  obtain n c errs1 s1 where "nc = (n, c)" and "createClaim cli km c s = (errs1, s1)"
    by (metis surj_pair)
  moreover obtain es where "fst (createClaimsLoop cli km cs (errs @ errs1) s1) = (errs @ errs1) @ es"
    using Cons.IH by blast
  ultimately show ?case by simp
qed

lemma createClaimsLoop_ok:
  assumes "createClaimsLoop cli km cs errs s = ([], s')" and "(n, c) \<in> set cs" and "snd s' = snd s @ evs"
  shows "EvGetClaim \<lparr>nn_Namespace = om_Namespace (km_Meta km), nn_Name = om_Name (pvc_Meta c)\<rparr> None
        \<in> set evs \<or>
      EvCreateClaim (om_Namespace (pvc_Meta c)) c None \<in> set evs"
  using assms
proof (induction cs arbitrary: errs s evs)
  case Nil
  then show ?case by simp
next
  case (Cons nd cs)
  obtain m d where nd: "nd = (m, d)" by (cases nd)
  obtain errs1 s1 where one: "createClaim cli km d s = (errs1, s1)"
    by (cases "createClaim cli km d s")
  have rest: "createClaimsLoop cli km cs (errs @ errs1) s1 = ([], s')"
    using Cons.prems by (simp add: nd one)
  have none: "errs1 = []"
    using createClaimsLoop_errs [of cli km cs "errs @ errs1" s1] rest by simp
  obtain evs1 where evs1: "snd s1 = snd s @ evs1" using createClaim_log [OF one] by blast
  obtain evs2 where evs2: "snd s' = snd s1 @ evs2" using createClaimsLoop_log [OF rest] by blast
  have evs: "evs = evs1 @ evs2" using Cons.prems(3) evs1 evs2 by simp
  show ?case
  proof (cases "c = d")
    case True
    then show ?thesis using createClaim_ok [OF one [unfolded none] evs1] evs by auto
  next
    case False
    then have "(n, c) \<in> set cs" using Cons.prems(2) nd by auto
    then show ?thesis using Cons.IH [OF rest _ evs2] evs by auto
  qed
qed

lemma createClaimsLoop_length:
  assumes "createClaimsLoop cli km cs errs s = (errs', s')"
  shows "length (snd s') \<le> length (snd s) + 2 * length cs"
  using assms
proof (induction cs arbitrary: errs s)
  case (Cons nc cs)
  obtain n c errs1 s1 where one: "nc = (n, c)" "createClaim cli km c s = (errs1, s1)" by (metis surj_pair)
  have "length (snd s1) \<le> length (snd s) + 2"
    using one(2) by (auto simp: createClaim_def Let_def split: prod.splits option.splits if_splits dest!: perform_log)
  then show ?case using Cons.IH [of "errs @ errs1" s1] Cons.prems one by simp
qed simp

text \<open>The calls of \<open>createPersistentVolumeClaims\<close>: only on the machine's own claims, and without
  an error every one of them is there at the end.\<close>

definition claimKey :: "KubernetesMachine \<Rightarrow> PersistentVolumeClaim \<Rightarrow> NamespacedName" where
  "claimKey km c = \<lparr>nn_Namespace = om_Namespace (km_Meta km), nn_Name = om_Name (pvc_Meta c)\<rparr>"

definition claimRun :: "kube_lib \<Rightarrow> KubernetesMachine \<Rightarrow> event list \<Rightarrow> go_error option \<Rightarrow> bool" where
  "claimRun lib km evs err \<longleftrightarrow>
     (case getPersistentVolumeClaims lib km of
        Inl e \<Rightarrow> evs = [] \<and> err = Some e
      | Inr claims \<Rightarrow> length evs \<le> 2 * length claims \<and>
          (\<forall>ev \<in> set evs. \<exists>c \<in> snd ` set claims. (\<exists>r. ev = EvGetClaim (claimKey km c) r) \<or>
             (\<exists>r. ev = EvCreateClaim (om_Namespace (pvc_Meta c)) c r)) \<and>
          (err = None \<longrightarrow> (\<forall>c \<in> snd ` set claims. EvGetClaim (claimKey km c) None \<in> set evs \<or>
             EvCreateClaim (om_Namespace (pvc_Meta c)) c None \<in> set evs)))"

lemma createPersistentVolumeClaims_run:
  assumes "kube_contract lib" and "createPersistentVolumeClaims lib cli km s = (err, s')"
  shows "\<exists>evs. snd s' = snd s @ evs \<and> claimRun lib km evs err"
proof (cases "getPersistentVolumeClaims lib km")
  case (Inl e)
  then show ?thesis using assms(2) by (simp add: createPersistentVolumeClaims_def claimRun_def)
next
  case (Inr claims)
  obtain errs where loop: "createClaimsLoop cli km (lib_RangeOrder lib claims) [] s = (errs, s')"
    and err: "err = lib_NewAggregate lib errs"
    using assms(2) Inr by (auto simp: createPersistentVolumeClaims_def split: prod.splits)
  have set: "set (lib_RangeOrder lib claims) = set claims" by (rule kube_contract.range_set [OF assms(1)])
  obtain evs where evs: "snd s' = snd s @ evs"
    and only: "\<forall>e \<in> set evs. \<exists>c \<in> snd ` set claims. (\<exists>r. e = EvGetClaim (claimKey km c) r) \<or>
       (\<exists>r. e = EvCreateClaim (om_Namespace (pvc_Meta c)) c r)"
    using createClaimsLoop_log [OF loop] unfolding set claimKey_def by blast
  have "EvGetClaim (claimKey km c) None \<in> set evs \<or> EvCreateClaim (om_Namespace (pvc_Meta c)) c None \<in> set evs"
    if none: "err = None" and mem: "c \<in> snd ` set claims" for c
  proof -
    have "errs = []" using none err kube_contract.aggregate_none [OF assms(1)] by simp
    moreover obtain n where "(n, c) \<in> set (lib_RangeOrder lib claims)" using mem set by auto
    ultimately show ?thesis
      using createClaimsLoop_ok [OF loop [unfolded \<open>errs = []\<close>] _ evs] unfolding claimKey_def by blast
  qed
  moreover have "length evs \<le> 2 * length claims"
    using createClaimsLoop_length [OF loop] evs kube_contract.range_order [OF assms(1), THEN mset_eq_length] by simp
  ultimately show ?thesis using evs only Inr by (auto simp: claimRun_def)
qed

subsection \<open>The volumes\<close>

lemma updateStorage_volumes:
  assumes "updateStorage lib km pod = Inr pod'"
  obtains claims where "getPersistentVolumeClaims lib km = Inr claims"
    and "pod' = pod\<lparr>pod_Spec := (pod_Spec pod)\<lparr>ps_Volumes :=
          map claimVolume (lib_RangeOrder lib claims) @
          filter (\<lambda>v. v_Name v \<notin> fst ` set claims) (ps_Volumes (pod_Spec pod))\<rparr>\<rparr>"
  using assms by (auto simp: updateStorage_def Let_def map_of_eq_None_iff split: sum.splits)

lemma updateStorage_names:
  assumes "kube_contract lib" and "updateStorage lib km pod = Inr pod'"
  shows "v_Name ` set (ps_Volumes (pod_Spec pod')) =
      v_Name ` set (ps_Volumes (pod_Spec pod)) \<union>
      (om_Name \<circ> pvc_Meta) ` set (kms_VolumeClaimTemplates (km_Spec km))"
proof -
  obtain claims where c: "getPersistentVolumeClaims lib km = Inr claims"
    and p: "pod' = pod\<lparr>pod_Spec := (pod_Spec pod)\<lparr>ps_Volumes :=
          map claimVolume (lib_RangeOrder lib claims) @
          filter (\<lambda>v. v_Name v \<notin> fst ` set claims) (ps_Volumes (pod_Spec pod))\<rparr>\<rparr>"
    using assms(2) by (rule updateStorage_volumes)
  have claimed: "v_Name ` set (map claimVolume (lib_RangeOrder lib claims)) = fst ` set claims"
    using kube_contract.range_set [OF assms(1)] by (simp add: claimVolume_def image_image)
  have "v_Name ` set (ps_Volumes (pod_Spec pod')) = fst ` set claims \<union>
      v_Name ` {v \<in> set (ps_Volumes (pod_Spec pod)). v_Name v \<notin> fst ` set claims}"
    using claimed by (simp add: p image_Un)
  also have "\<dots> = v_Name ` set (ps_Volumes (pod_Spec pod)) \<union> fst ` set claims"
    by blast
  finally show ?thesis
    by (simp add: getPersistentVolumeClaims_spec(2) [OF c])
qed

lemma updateStorage_distinct:
  assumes "kube_contract lib" and "updateStorage lib km pod = Inr pod'"
    and "distinct (map v_Name (ps_Volumes (pod_Spec pod)))"
  shows "distinct (map v_Name (ps_Volumes (pod_Spec pod')))"
proof -
  obtain claims where c: "getPersistentVolumeClaims lib km = Inr claims"
    and p: "pod' = pod\<lparr>pod_Spec := (pod_Spec pod)\<lparr>ps_Volumes :=
          map claimVolume (lib_RangeOrder lib claims) @
          filter (\<lambda>v. v_Name v \<notin> fst ` set claims) (ps_Volumes (pod_Spec pod))\<rparr>\<rparr>"
    using assms(2) by (rule updateStorage_volumes)
  have fst_eq: "map v_Name (map claimVolume es) = map fst es" for es
    by (induction es) (auto simp: claimVolume_def)
  have d: "distinct (map fst (lib_RangeOrder lib claims))"
    using getPersistentVolumeClaims_spec(1) [OF c] by (simp add: kube_contract.range_distinct [OF assms(1)])
  have s: "set (lib_RangeOrder lib claims) = set claims"
    by (rule kube_contract.range_set [OF assms(1)])
  show ?thesis
    unfolding p using d assms(3) s
    by (force simp: fst_eq distinct_map_filter simp del: map_map)
qed

end
