(* ===== verification/Pod_Qos.thy ===== *)
theory Pod_Qos
  imports Kube_Objects "HOL-Library.AList"
begin

text \<open>
  The quality-of-service class of a Pod, \<open>src/pkg/utils/qos.go\<close>. The code accumulates positive
  CPU and memory requests and limits over all containers in two maps; the theory keeps that shape,
  shows which totals the maps hold, and from that which class a Pod gets. For Pods whose requests do not
  exceed their limits it is the class the comment on \<open>GetPodQOS\<close> states for the containers one by one.
\<close>

datatype PodQOSClass = PodQOSGuaranteed | PodQOSBurstable | PodQOSBestEffort

abbreviation ResourceCPU :: string where "ResourceCPU \<equiv> ''cpu''"
abbreviation ResourceMemory :: string where "ResourceMemory \<equiv> ''memory''"

definition supportedQoSComputeResources :: "string list" where
  "supportedQoSComputeResources = [ResourceCPU, ResourceMemory]"

definition isSupportedQoSComputeResource :: "string \<Rightarrow> bool" where
  "isSupportedQoSComputeResource name = List.member supportedQoSComputeResources name"

text \<open>One entry of a container's requests (or limits) added into the running map.\<close>

definition addQuantity :: "string \<times> quantity \<Rightarrow> ResourceList \<Rightarrow> ResourceList" where
  "addQuantity e m =
     (case e of (name, quantity) \<Rightarrow>
        if \<not> isSupportedQoSComputeResource name then m
        else if quantity > 0 then
          (case map_of m name of
             None \<Rightarrow> AList.update name quantity m
           | Some old \<Rightarrow> AList.update name (quantity + old) m)
        else m)"

text \<open>The same for limits, which also records the names of the positive ones.\<close>

definition addLimit :: "string \<times> quantity \<Rightarrow> string set \<times> ResourceList \<Rightarrow> string set \<times> ResourceList"
  where
  "addLimit e fm =
     (case e of (name, quantity) \<Rightarrow> case fm of (found, m) \<Rightarrow>
        if \<not> isSupportedQoSComputeResource name then (found, m)
        else if quantity > 0 then (insert name found, addQuantity e m)
        else (found, m))"

definition qosContainer ::
  "Container \<Rightarrow> ResourceList \<times> ResourceList \<times> bool \<Rightarrow> ResourceList \<times> ResourceList \<times> bool" where
  "qosContainer container acc =
     (case acc of (requests, limits, isGuaranteed) \<Rightarrow>
        let requests' = fold addQuantity (rr_Requests (c_Resources container)) requests;
            (qosLimitsFound, limits') = fold addLimit (rr_Limits (c_Resources container)) ({}, limits)
        in (requests', limits',
            if \<not> (ResourceMemory \<in> qosLimitsFound \<and> ResourceCPU \<in> qosLimitsFound) then False
            else isGuaranteed))"

definition allContainers :: "Pod \<Rightarrow> Container list" where
  "allContainers pod = elems (ps_Containers (pod_Spec pod)) @ ps_InitContainers (pod_Spec pod)"

definition GetPodQOS :: "Pod \<Rightarrow> PodQOSClass" where
  "GetPodQOS pod =
     (let (requests, limits, isGuaranteed) = fold qosContainer (allContainers pod) ([], [], True)
      in if length requests = 0 \<and> length limits = 0 then PodQOSBestEffort
         else
           let isGuaranteed' =
                 (if isGuaranteed
                  then list_all (\<lambda>(name, req).
                         case map_of limits name of None \<Rightarrow> False | Some lim \<Rightarrow> lim = req) requests
                  else isGuaranteed)
           in if isGuaranteed' \<and> length requests = length limits then PodQOSGuaranteed
              else PodQOSBurstable)"

subsection \<open>The totals over the containers\<close>

definition positive :: "string \<Rightarrow> string \<times> quantity \<Rightarrow> bool" where
  "positive r e \<longleftrightarrow> fst e = r \<and> snd e > 0"

definition totalPositive :: "string \<Rightarrow> (string \<times> quantity) list \<Rightarrow> quantity" where
  "totalPositive r es = sum_list (map snd (filter (positive r) es))"

definition podRequests :: "Pod \<Rightarrow> (string \<times> quantity) list" where
  "podRequests pod = concat (map (rr_Requests \<circ> c_Resources) (allContainers pod))"

definition podLimits :: "Pod \<Rightarrow> (string \<times> quantity) list" where
  "podLimits pod = concat (map (rr_Limits \<circ> c_Resources) (allContainers pod))"

definition limited :: "Container \<Rightarrow> bool" where
  "limited c \<longleftrightarrow>
     (\<forall>r \<in> {ResourceCPU, ResourceMemory}. \<exists>e \<in> set (rr_Limits (c_Resources c)). positive r e)"

lemma totalPositive_simps [simp]:
  "totalPositive r [] = 0"
  "totalPositive r (e # es) = (if positive r e then snd e else 0) + totalPositive r es"
  "totalPositive r (xs @ ys) = totalPositive r xs + totalPositive r ys"
  by (simp_all add: totalPositive_def)

lemma totalPositive_nonneg: "0 \<le> totalPositive r es"
  by (induction es) (auto simp: positive_def)

lemma totalPositive_pos_iff: "0 < totalPositive r es \<longleftrightarrow> (\<exists>e \<in> set es. positive r e)"
proof (induction es)
  case Nil
  show ?case by simp
next
  case (Cons e es)
  then show ?case using totalPositive_nonneg [of r es] by (auto simp: positive_def)
qed

text \<open>What the running map holds after it has seen the entries \<open>es\<close>.\<close>

definition accumulates :: "(string \<times> quantity) list \<Rightarrow> ResourceList \<Rightarrow> bool" where
  "accumulates es m \<longleftrightarrow> distinct (map fst m) \<and>
     (\<forall>r. map_of m r =
        (if isSupportedQoSComputeResource r \<and> 0 < totalPositive r es then Some (totalPositive r es) else None))"

lemma accumulates_Nil: "accumulates [] []"
  by (simp add: accumulates_def)

lemma accumulates_addQuantity:
  assumes "accumulates es m"
  shows "accumulates (es @ [e]) (addQuantity e m)"
proof (cases e)
  case (Pair name q)
  have keys: "distinct (map fst m)"
    and look: "\<And>r. map_of m r =
        (if isSupportedQoSComputeResource r \<and> 0 < totalPositive r es then Some (totalPositive r es) else None)"
    using assms by (auto simp: accumulates_def)
  have nn: "0 \<le> totalPositive name es" by (rule totalPositive_nonneg)
  show ?thesis
    using keys nn
    by (auto simp: accumulates_def addQuantity_def Pair look update_conv positive_def
        distinct_update split: option.splits if_splits)
qed

lemma accumulates_fold:
  "accumulates es m \<Longrightarrow> accumulates (es @ xs) (fold addQuantity xs m)"
  by (induction xs arbitrary: es m) (use accumulates_addQuantity in force)+

lemma fold_addLimit:
  "fold addLimit xs (found, m) =
     (found \<union> {r. isSupportedQoSComputeResource r \<and> (\<exists>e \<in> set xs. positive r e)},
      fold addQuantity xs m)"
proof (induction xs arbitrary: found m)
  case Nil
  show ?case by simp
next
  case (Cons e xs)
  obtain name q where e: "e = (name, q)" by (cases e)
  have step: "addLimit e (found, m) =
      (if isSupportedQoSComputeResource name \<and> 0 < q then insert name found else found,
       addQuantity e m)"
    by (simp add: e addLimit_def addQuantity_def)
  show ?case
    by (simp add: step Cons.IH) (auto simp: positive_def e)
qed

lemma supported_iff [simp]:
  "isSupportedQoSComputeResource r \<longleftrightarrow> r = ResourceCPU \<or> r = ResourceMemory"
  by (auto simp: isSupportedQoSComputeResource_def supportedQoSComputeResources_def)

lemma qosContainer_eq:
  "qosContainer c (rq, lm, g) =
     (fold addQuantity (rr_Requests (c_Resources c)) rq,
      fold addQuantity (rr_Limits (c_Resources c)) lm, g \<and> limited c)"
  by (auto simp: qosContainer_def fold_addLimit limited_def Let_def)

lemma fold_qosContainer:
  "fold qosContainer cs (rq, lm, g) =
     (fold addQuantity (concat (map (rr_Requests \<circ> c_Resources) cs)) rq,
      fold addQuantity (concat (map (rr_Limits \<circ> c_Resources) cs)) lm,
      g \<and> list_all limited cs)"
  by (induction cs arbitrary: rq lm g) (auto simp: qosContainer_eq)

text \<open>A map over the two supported names is determined by the two totals.\<close>

lemma accumulates_dom:
  assumes "accumulates es m"
  shows "fst ` set m = {r. isSupportedQoSComputeResource r \<and> 0 < totalPositive r es}"
proof -
  have "dom (map_of m) = {r. isSupportedQoSComputeResource r \<and> 0 < totalPositive r es}"
    using assms by (auto simp: accumulates_def dom_def split: if_splits)
  then show ?thesis by (simp add: dom_map_of_conv_image_fst)
qed

lemma accumulates_length:
  assumes "accumulates es m"
  shows "length m = card {r. isSupportedQoSComputeResource r \<and> 0 < totalPositive r es}"
proof -
  have "length m = card (fst ` set m)"
    using assms by (metis accumulates_def distinct_card length_map list.set_map)
  then show ?thesis by (simp add: accumulates_dom [OF assms])
qed

lemma totalPositive_zero_iff: "totalPositive r es = 0 \<longleftrightarrow> \<not> 0 < totalPositive r es"
  using totalPositive_nonneg [of r es] by linarith

lemma positive_resources:
  "{r. isSupportedQoSComputeResource r \<and> 0 < totalPositive r es} =
     (if 0 < totalPositive ResourceCPU es then {ResourceCPU} else {}) \<union>
     (if 0 < totalPositive ResourceMemory es then {ResourceMemory} else {})"
  by auto

lemma accumulates_empty_iff:
  assumes "accumulates es m"
  shows "m = [] \<longleftrightarrow> totalPositive ResourceCPU es = 0 \<and> totalPositive ResourceMemory es = 0"
proof -
  have "m = [] \<longleftrightarrow> fst ` set m = {}" by auto
  also have "\<dots> \<longleftrightarrow> \<not> 0 < totalPositive ResourceCPU es \<and> \<not> 0 < totalPositive ResourceMemory es"
    by (simp add: accumulates_dom [OF assms] positive_resources del: supported_iff)
  finally show ?thesis by (simp add: totalPositive_zero_iff)
qed

lemma accumulates_list_all:
  assumes "accumulates rs rm" and "accumulates ls lm"
  shows "list_all (\<lambda>(name, req).
            case map_of lm name of None \<Rightarrow> False | Some lim \<Rightarrow> lim = req) rm \<longleftrightarrow>
         (\<forall>r \<in> {ResourceCPU, ResourceMemory}.
            0 < totalPositive r rs \<longrightarrow> totalPositive r ls = totalPositive r rs)"
proof -
  let ?P = "\<lambda>name req. case map_of lm name of None \<Rightarrow> False | Some lim \<Rightarrow> lim = req"
  have mem: "(name, req) \<in> set rm \<longleftrightarrow> map_of rm name = Some req" for name req
    using assms(1) unfolding accumulates_def by (metis map_of_eq_Some_iff)
  have rq: "map_of rm name = Some req \<longleftrightarrow>
      isSupportedQoSComputeResource name \<and> 0 < totalPositive name rs \<and> req = totalPositive name rs"
    for name req
    using assms(1) by (auto simp: accumulates_def)
  have lim: "?P name req \<longleftrightarrow> isSupportedQoSComputeResource name \<and> 0 < totalPositive name ls \<and>
      totalPositive name ls = req" for name req
    using assms(2) by (auto simp: accumulates_def split: option.splits)
  have "list_all (\<lambda>(name, req). ?P name req) rm \<longleftrightarrow>
      (\<forall>name req. map_of rm name = Some req \<longrightarrow> ?P name req)"
    by (auto simp: list_all_iff mem)
  also have "\<dots> \<longleftrightarrow> (\<forall>r \<in> {ResourceCPU, ResourceMemory}.
      0 < totalPositive r rs \<longrightarrow> totalPositive r ls = totalPositive r rs)"
    unfolding rq lim by auto
  finally show ?thesis .
qed

lemma podQOS_maps:
  obtains rm lm where
    "fold qosContainer (allContainers pod) ([], [], True) =
       (rm, lm, list_all limited (allContainers pod))"
    "accumulates (podRequests pod) rm" "accumulates (podLimits pod) lm"
proof
  show "fold qosContainer (allContainers pod) ([], [], True) =
      (fold addQuantity (podRequests pod) [], fold addQuantity (podLimits pod) [],
       list_all limited (allContainers pod))"
    by (simp add: fold_qosContainer podRequests_def podLimits_def)
  show "accumulates (podRequests pod) (fold addQuantity (podRequests pod) [])"
    using accumulates_fold [OF accumulates_Nil, of "podRequests pod"] by simp
  show "accumulates (podLimits pod) (fold addQuantity (podLimits pod) [])"
    using accumulates_fold [OF accumulates_Nil, of "podLimits pod"] by simp
qed

lemma BestEffort_iff_totals:
  "GetPodQOS pod = PodQOSBestEffort \<longleftrightarrow>
     (\<forall>r \<in> {ResourceCPU, ResourceMemory}. totalPositive r (podRequests pod) = 0 \<and> totalPositive r (podLimits pod) = 0)"
proof -
  obtain rm lm where eq: "fold qosContainer (allContainers pod) ([], [], True) =
       (rm, lm, list_all limited (allContainers pod))"
    and rm: "accumulates (podRequests pod) rm" and lm: "accumulates (podLimits pod) lm"
    by (rule podQOS_maps)
  show ?thesis
    using accumulates_empty_iff [OF rm] accumulates_empty_iff [OF lm]
    by (auto simp: GetPodQOS_def eq Let_def)
qed

lemma limited_total_pos:
  assumes "list_all limited (allContainers pod)" and "allContainers pod \<noteq> []"
    and "r \<in> {ResourceCPU, ResourceMemory}"
  shows "0 < totalPositive r (podLimits pod)"
proof -
  obtain c where c: "c \<in> set (allContainers pod)" using assms(2) by (cases "allContainers pod") auto
  then have "limited c" using assms(1) by (simp add: list_all_iff)
  then obtain e where "e \<in> set (rr_Limits (c_Resources c))" "positive r e"
    using assms(3) unfolding limited_def by blast
  then show ?thesis using c by (force simp: totalPositive_pos_iff podLimits_def)
qed

lemma Guaranteed_iff_totals:
  "GetPodQOS pod = PodQOSGuaranteed \<longleftrightarrow>
     allContainers pod \<noteq> [] \<and> list_all limited (allContainers pod) \<and>
     (\<forall>r \<in> {ResourceCPU, ResourceMemory}. totalPositive r (podRequests pod) = totalPositive r (podLimits pod))"
  (is "?L \<longleftrightarrow> ?R")
proof -
  obtain rm lm where eq: "fold qosContainer (allContainers pod) ([], [], True) =
       (rm, lm, list_all limited (allContainers pod))"
    and rm: "accumulates (podRequests pod) rm" and lm: "accumulates (podLimits pod) lm"
    by (rule podQOS_maps)
  have none: "allContainers pod = [] \<Longrightarrow> rm = [] \<and> lm = []"
    using accumulates_empty_iff [OF rm] accumulates_empty_iff [OF lm]
    by (simp add: podRequests_def podLimits_def)
  have L: "?L \<longleftrightarrow> \<not> (rm = [] \<and> lm = []) \<and> list_all limited (allContainers pod) \<and>
      (\<forall>r \<in> {ResourceCPU, ResourceMemory}. 0 < totalPositive r (podRequests pod) \<longrightarrow>
         totalPositive r (podLimits pod) = totalPositive r (podRequests pod)) \<and> length rm = length lm"
    using accumulates_list_all [OF rm lm] by (auto simp: GetPodQOS_def eq Let_def)
  have len_lm: "length lm = 2"
    if "list_all limited (allContainers pod)" "allContainers pod \<noteq> []"
    using limited_total_pos [OF that] accumulates_length [OF lm]
    by (simp add: positive_resources del: supported_iff)
  have len_rm: "length rm = 2 \<longleftrightarrow>
      0 < totalPositive ResourceCPU (podRequests pod) \<and>
      0 < totalPositive ResourceMemory (podRequests pod)"
    using accumulates_length [OF rm] by (simp add: positive_resources del: supported_iff)
  show ?thesis
  proof (cases "allContainers pod = [] \<or> \<not> list_all limited (allContainers pod)")
    case True
    then show ?thesis using L none by auto
  next
    case False
    then have ne: "allContainers pod \<noteq> []" and lim: "list_all limited (allContainers pod)" by auto
    have pos: "0 < totalPositive r (podLimits pod)" if "r \<in> {ResourceCPU, ResourceMemory}" for r
      using limited_total_pos [OF lim ne that] .
    show ?thesis
      using L ne lim len_lm [OF lim ne] len_rm pos [of ResourceCPU] pos [of ResourceMemory]
      by (cases lm) auto
  qed
qed

subsection \<open>The documented classes\<close>

text \<open>What the comment on \<open>GetPodQOS\<close> says of the containers of a Pod, one by one: best effort if none of
  them has specified any request or limit, guaranteed if all of them have specified requests and limits
  that are equal, burstable otherwise. It is about CPU and memory, the compute resources the code supports.\<close>

definition requestOf :: "Container \<Rightarrow> string \<Rightarrow> quantity option" where
  "requestOf c r = map_of (rr_Requests (c_Resources c)) r"

definition limitOf :: "Container \<Rightarrow> string \<Rightarrow> quantity option" where
  "limitOf c r = map_of (rr_Limits (c_Resources c)) r"

definition unspecified :: "Container \<Rightarrow> bool" where
  "unspecified c \<longleftrightarrow> (\<forall>r \<in> {ResourceCPU, ResourceMemory}. requestOf c r = None \<and> limitOf c r = None)"

definition specifiedEqually :: "Container \<Rightarrow> bool" where
  "specifiedEqually c \<longleftrightarrow>
     (\<forall>r \<in> {ResourceCPU, ResourceMemory}. requestOf c r \<noteq> None \<and> limitOf c r \<noteq> None \<and> requestOf c r = limitOf c r)"

definition documentedQOS :: "Pod \<Rightarrow> PodQOSClass" where
  "documentedQOS pod =
     (if list_all unspecified (allContainers pod) then PodQOSBestEffort
      else if list_all specifiedEqually (allContainers pod) then PodQOSGuaranteed
      else PodQOSBurstable)"

text \<open>
  The resources of a container, as the API server validates them: the keys of a Go map are distinct, and a
  request is at most the limit where there is one. Specified quantities are positive: the code takes
  a zero for not specified.
\<close>

definition validResources :: "Container \<Rightarrow> bool" where
  "validResources c \<longleftrightarrow>
     distinct (map fst (rr_Requests (c_Resources c))) \<and> distinct (map fst (rr_Limits (c_Resources c))) \<and>
     (\<forall>r \<in> {ResourceCPU, ResourceMemory}.
        (\<forall>q. requestOf c r = Some q \<longrightarrow> 0 < q) \<and> (\<forall>l. limitOf c r = Some l \<longrightarrow> 0 < l) \<and>
        (\<forall>q l. requestOf c r = Some q \<and> limitOf c r = Some l \<longrightarrow> q \<le> l))"

abbreviation orZero :: "quantity option \<Rightarrow> quantity" where
  "orZero q \<equiv> case q of None \<Rightarrow> 0 | Some x \<Rightarrow> x"

lemma total_absent: "r \<notin> fst ` set m \<Longrightarrow> totalPositive r m = 0"
  by (induction m) (auto simp: positive_def)

lemma total_of_map:
  assumes "distinct (map fst m)" and "\<And>q. map_of m r = Some q \<Longrightarrow> 0 < q"
  shows "totalPositive r m = orZero (map_of m r)"
  using assms
proof (induction m)
  case (Cons e m)
  obtain n q where e: "e = (n, q)" by (metis surj_pair)
  show ?case
  proof (cases "n = r")
    case True
    then show ?thesis using Cons.prems e total_absent [of r m] by (simp add: positive_def)
  next
    case False
    then show ?thesis using Cons.prems e Cons.IH by (simp add: positive_def)
  qed
qed simp

lemma total_container:
  assumes "validResources c" and "r \<in> {ResourceCPU, ResourceMemory}"
  shows "totalPositive r (rr_Requests (c_Resources c)) = orZero (requestOf c r)"
    and "totalPositive r (rr_Limits (c_Resources c)) = orZero (limitOf c r)"
    and "(\<exists>e \<in> set (rr_Limits (c_Resources c)). positive r e) \<longleftrightarrow> limitOf c r \<noteq> None"
proof -
  have q: "0 < q" if "requestOf c r = Some q" for q using assms that unfolding validResources_def by blast
  have l: "0 < l" if "limitOf c r = Some l" for l using assms that unfolding validResources_def by blast
  show "totalPositive r (rr_Requests (c_Resources c)) = orZero (requestOf c r)"
    using total_of_map [of "rr_Requests (c_Resources c)" r] assms(1) q by (simp add: validResources_def requestOf_def)
  show t: "totalPositive r (rr_Limits (c_Resources c)) = orZero (limitOf c r)"
    using total_of_map [of "rr_Limits (c_Resources c)" r] assms(1) l by (simp add: validResources_def limitOf_def)
  show "(\<exists>e \<in> set (rr_Limits (c_Resources c)). positive r e) \<longleftrightarrow> limitOf c r \<noteq> None"
    unfolding totalPositive_pos_iff [symmetric] t using l by (auto split: option.splits)
qed

lemma orZero_nonneg:
  assumes "validResources c" and "r \<in> {ResourceCPU, ResourceMemory}"
  shows "0 \<le> orZero (requestOf c r)" and "0 \<le> orZero (limitOf c r)"
    and "orZero (requestOf c r) = 0 \<longleftrightarrow> requestOf c r = None" and "orZero (limitOf c r) = 0 \<longleftrightarrow> limitOf c r = None"
proof -
  have q: "0 < q" if "requestOf c r = Some q" for q using assms that unfolding validResources_def by blast
  have l: "0 < l" if "limitOf c r = Some l" for l using assms that unfolding validResources_def by blast
  show "0 \<le> orZero (requestOf c r)" "0 \<le> orZero (limitOf c r)"
    "orZero (requestOf c r) = 0 \<longleftrightarrow> requestOf c r = None" "orZero (limitOf c r) = 0 \<longleftrightarrow> limitOf c r = None"
    using q l by (force split: option.splits)+
qed

lemma pod_totals:
  assumes "list_all validResources (allContainers pod)" and "r \<in> {ResourceCPU, ResourceMemory}"
  shows "totalPositive r (podRequests pod) = (\<Sum>c \<leftarrow> allContainers pod. orZero (requestOf c r))"
    and "totalPositive r (podLimits pod) = (\<Sum>c \<leftarrow> allContainers pod. orZero (limitOf c r))"
proof -
  have concat: "totalPositive r (concat xss) = (\<Sum>xs \<leftarrow> xss. totalPositive r xs)" for xss :: "(string \<times> quantity) list list"
    by (induction xss) simp_all
  have valid: "validResources c" if "c \<in> set (allContainers pod)" for c using assms(1) that by (simp add: list_all_iff)
  show "totalPositive r (podRequests pod) = (\<Sum>c \<leftarrow> allContainers pod. orZero (requestOf c r))"
    by (simp add: podRequests_def concat comp_def total_container(1) [OF valid assms(2)] cong: map_cong)
  show "totalPositive r (podLimits pod) = (\<Sum>c \<leftarrow> allContainers pod. orZero (limitOf c r))"
    by (simp add: podLimits_def concat comp_def total_container(2) [OF valid assms(2)] cong: map_cong)
qed

text \<open>Sums of the same length, one below the other entry by entry, are equal only if all entries are.\<close>

lemma sum_list_squeeze:
  fixes f g :: "'a \<Rightarrow> quantity"
  assumes "\<And>x. x \<in> set xs \<Longrightarrow> f x \<le> g x"
  shows "(\<Sum>x \<leftarrow> xs. f x) = (\<Sum>x \<leftarrow> xs. g x) \<longleftrightarrow> (\<forall>x \<in> set xs. f x = g x)"
  using assms
proof (induction xs)
  case (Cons x xs)
  have "(\<Sum>x \<leftarrow> xs. f x) \<le> (\<Sum>x \<leftarrow> xs. g x)" by (rule sum_list_mono) (use Cons.prems in simp)
  moreover have "f x \<le> g x" using Cons.prems by simp
  ultimately have "f x + (\<Sum>x \<leftarrow> xs. f x) = g x + (\<Sum>x \<leftarrow> xs. g x) \<longleftrightarrow>
      f x = g x \<and> (\<Sum>x \<leftarrow> xs. f x) = (\<Sum>x \<leftarrow> xs. g x)" by linarith
  also have "\<dots> \<longleftrightarrow> f x = g x \<and> (\<forall>x \<in> set xs. f x = g x)" using Cons.IH Cons.prems by simp
  finally show ?case by simp
qed simp

lemma sum_list_zero:
  fixes f :: "'a \<Rightarrow> quantity"
  assumes "\<And>x. x \<in> set xs \<Longrightarrow> 0 \<le> f x"
  shows "(\<Sum>x \<leftarrow> xs. f x) = 0 \<longleftrightarrow> (\<forall>x \<in> set xs. f x = 0)"
proof -
  have "(\<Sum>x \<leftarrow> xs. 0 :: quantity) = (\<Sum>x \<leftarrow> xs. f x) \<longleftrightarrow> (\<forall>x \<in> set xs. 0 = f x)"
    by (rule sum_list_squeeze) (rule assms)
  moreover have "(\<Sum>x \<leftarrow> xs. 0 :: quantity) = 0" by (induction xs) simp_all
  ultimately show ?thesis by metis
qed

text \<open>
  If every container has a limit, no request exceeds its limit, so equal totals leave no room for a
  container whose request and limit differ.
\<close>

lemma guaranteed_per_container:
  assumes "list_all validResources (allContainers pod)" and "list_all limited (allContainers pod)"
    and "r \<in> {ResourceCPU, ResourceMemory}"
  shows "totalPositive r (podRequests pod) = totalPositive r (podLimits pod) \<longleftrightarrow>
    (\<forall>c \<in> set (allContainers pod). requestOf c r = limitOf c r)"
proof -
  have c: "orZero (requestOf c r) \<le> orZero (limitOf c r)"
      "orZero (requestOf c r) = orZero (limitOf c r) \<longleftrightarrow> requestOf c r = limitOf c r"
    if "c \<in> set (allContainers pod)" for c
  proof -
    have v: "validResources c" and "limited c" using assms(1,2) that by (simp_all add: list_all_iff)
    then obtain l where l: "limitOf c r = Some l" "0 < l"
      using total_container(3) [OF v assms(3)] assms(3) unfolding limited_def validResources_def by blast
    have "q \<le> l" if "requestOf c r = Some q" for q using v assms(3) l(1) that unfolding validResources_def by blast
    then show "orZero (requestOf c r) \<le> orZero (limitOf c r)"
      "orZero (requestOf c r) = orZero (limitOf c r) \<longleftrightarrow> requestOf c r = limitOf c r"
      using l by (auto split: option.splits)
  qed
  show ?thesis
    unfolding pod_totals [OF assms(1,3)]
    using sum_list_squeeze [of "allContainers pod" "\<lambda>c. orZero (requestOf c r)" "\<lambda>c. orZero (limitOf c r)"] c by simp
qed

lemma Guaranteed_documented:
  assumes "list_all validResources (allContainers pod)"
  shows "GetPodQOS pod = PodQOSGuaranteed \<longleftrightarrow> allContainers pod \<noteq> [] \<and> list_all specifiedEqually (allContainers pod)"
proof -
  have lim: "list_all limited (allContainers pod) \<longleftrightarrow>
      (\<forall>c \<in> set (allContainers pod). \<forall>r \<in> {ResourceCPU, ResourceMemory}. limitOf c r \<noteq> None)"
    using assms total_container(3) unfolding list_all_iff limited_def by metis
  show ?thesis
  proof (cases "list_all limited (allContainers pod)")
    case True
    have "(\<forall>r \<in> {ResourceCPU, ResourceMemory}. totalPositive r (podRequests pod) = totalPositive r (podLimits pod)) \<longleftrightarrow>
        (\<forall>r \<in> {ResourceCPU, ResourceMemory}. \<forall>c \<in> set (allContainers pod). requestOf c r = limitOf c r)"
      by (rule ball_cong [OF refl]) (rule guaranteed_per_container [OF assms True])
    then show ?thesis using True lim unfolding Guaranteed_iff_totals list_all_iff specifiedEqually_def by metis
  next
    case False
    then show ?thesis using lim unfolding Guaranteed_iff_totals list_all_iff specifiedEqually_def by metis
  qed
qed

lemma BestEffort_documented:
  assumes "list_all validResources (allContainers pod)"
  shows "GetPodQOS pod = PodQOSBestEffort \<longleftrightarrow> list_all unspecified (allContainers pod)"
proof -
  have valid: "validResources c" if "c \<in> set (allContainers pod)" for c using assms that by (simp add: list_all_iff)
  have none: "totalPositive r (podRequests pod) = 0 \<and> totalPositive r (podLimits pod) = 0 \<longleftrightarrow>
      (\<forall>c \<in> set (allContainers pod). requestOf c r = None \<and> limitOf c r = None)" if r: "r \<in> {ResourceCPU, ResourceMemory}" for r
  proof -
    have "totalPositive r (podRequests pod) = 0 \<longleftrightarrow> (\<forall>c \<in> set (allContainers pod). orZero (requestOf c r) = 0)"
      unfolding pod_totals(1) [OF assms r] by (rule sum_list_zero) (rule orZero_nonneg(1) [OF valid r])
    moreover have "totalPositive r (podLimits pod) = 0 \<longleftrightarrow> (\<forall>c \<in> set (allContainers pod). orZero (limitOf c r) = 0)"
      unfolding pod_totals(2) [OF assms r] by (rule sum_list_zero) (rule orZero_nonneg(2) [OF valid r])
    ultimately show ?thesis using orZero_nonneg(3,4) [OF valid r] by (simp add: ball_conj_distrib)
  qed
  show ?thesis
    unfolding BestEffort_iff_totals list_all_iff unspecified_def using none [of ResourceCPU] none [of ResourceMemory] by (auto simp: ball_conj_distrib)
qed


text \<open>Pods of containers with the given requests and limits for CPU and memory.\<close>

definition qosContainerOf :: "quantity \<times> quantity \<Rightarrow> quantity \<times> quantity \<Rightarrow> Container" where
  "qosContainerOf cpu mem = emptyContainer\<lparr>c_Resources :=
     \<lparr>rr_Requests = [(ResourceCPU, fst cpu), (ResourceMemory, fst mem)],
      rr_Limits = [(ResourceCPU, snd cpu), (ResourceMemory, snd mem)]\<rparr>\<rparr>"

definition qosPod :: "Container list \<Rightarrow> Pod" where
  "qosPod cs = \<lparr>pod_Meta = emptyObjectMeta,
     pod_Spec = \<lparr>ps_Containers = Some cs, ps_InitContainers = [], ps_Volumes = [], ps_RestartPolicy = [], ps_Hostname = [], ps_Rest = []\<rparr>,
     pod_Status = emptyPodStatus\<rparr>"

lemma qosPod_containers [simp]: "allContainers (qosPod cs) = cs"
  by (simp add: allContainers_def qosPod_def)

lemma qosContainerOf_resources:
  "requestOf (qosContainerOf cpu mem) r = (if r = ResourceCPU then Some (fst cpu) else if r = ResourceMemory then Some (fst mem) else None)"
  "limitOf (qosContainerOf cpu mem) r = (if r = ResourceCPU then Some (snd cpu) else if r = ResourceMemory then Some (snd mem) else None)"
  by (simp_all add: requestOf_def limitOf_def qosContainerOf_def)

lemma qosContainerOf_valid:
  "0 < a \<Longrightarrow> a \<le> b \<Longrightarrow> 0 < c \<Longrightarrow> c \<le> d \<Longrightarrow> validResources (qosContainerOf (a, b) (c, d))"
  by (auto simp: validResources_def qosContainerOf_resources) (simp_all add: qosContainerOf_def)

lemma qosContainerOf_class:
  "\<not> unspecified (qosContainerOf cpu mem)"
  "specifiedEqually (qosContainerOf cpu mem) \<longleftrightarrow> fst cpu = snd cpu \<and> fst mem = snd mem"
  by (auto simp: unspecified_def specifiedEqually_def qosContainerOf_resources)


text \<open>
  A Pod that the API server refuses: one container asks for more than its limit and the other for less by
  the same amount. The totals balance, and the code takes it for guaranteed.
\<close>

lemma balanced_containers:
  "GetPodQOS (qosPod [qosContainerOf (2, 1) (1, 1), qosContainerOf (1, 2) (1, 1)]) = PodQOSGuaranteed"
  "documentedQOS (qosPod [qosContainerOf (2, 1) (1, 1), qosContainerOf (1, 2) (1, 1)]) = PodQOSBurstable"
proof -
  show "GetPodQOS (qosPod [qosContainerOf (2, 1) (1, 1), qosContainerOf (1, 2) (1, 1)]) = PodQOSGuaranteed"
    unfolding Guaranteed_iff_totals
    by (simp add: limited_def podRequests_def podLimits_def positive_def qosContainerOf_def)
qed (simp add: documentedQOS_def qosContainerOf_class)

end
