(* ===== verification/Go_Strings.thy ===== *)
theory Go_Strings
  imports Capk_Prelude
begin

text \<open>
  The functions of Go's standard library on strings and paths that the source calls: \<open>strings\<close>,
  \<open>strconv\<close>, \<open>path\<close>, \<open>path/filepath\<close> and \<open>unicode/utf8\<close>. A Go string is its list of bytes,
  a \<open>string\<close>. Two tables of package \<open>unicode\<close> (which code points beyond ASCII are printable,
  and their lower case) are parameters, in a record \<open>unicode_tables\<close>.
\<close>

definition NL :: char where "NL = CHR 0x0A"
definition byte :: "char \<Rightarrow> nat" where "byte c = of_char c"

lemma byte_less [simp]: "byte c < 256"
  by (simp add: byte_def)

lemma byte_inject [simp]: "byte c = byte d \<longleftrightarrow> c = d"
  by (simp add: byte_def)

subsection \<open>Package strings\<close>

definition HasSuffix :: "string \<Rightarrow> string \<Rightarrow> bool" where
  "HasSuffix s suf \<longleftrightarrow> length suf \<le> length s \<and> drop (length s - length suf) s = suf"

definition TrimSuffix :: "string \<Rightarrow> string \<Rightarrow> string" where
  "TrimSuffix s suf = (if HasSuffix s suf then take (length s - length suf) s else s)"

fun Contains :: "string \<Rightarrow> string \<Rightarrow> bool" where
  "Contains [] sub \<longleftrightarrow> sub = []"
| "Contains (c # s) sub \<longleftrightarrow> take (length sub) (c # s) = sub \<or> Contains s sub"

fun strJoin :: "string \<Rightarrow> string list \<Rightarrow> string" where
  "strJoin sep [] = []"
| "strJoin sep [s] = s"
| "strJoin sep (s # t # ss) = s @ sep @ strJoin sep (t # ss)"

lemma HasSuffix_append [simp]: "HasSuffix (s @ suf) suf"
  by (simp add: HasSuffix_def)

lemma TrimSuffix_append [simp]: "TrimSuffix (s @ suf) suf = s"
  by (simp add: TrimSuffix_def)

lemma HasSuffixD: "HasSuffix s suf \<Longrightarrow> \<exists>p. s = p @ suf"
  by (metis HasSuffix_def append_take_drop_id)

lemma Contains_iff: "Contains s sub \<longleftrightarrow> (\<exists>p q. s = p @ sub @ q)"
proof (induction s)
  case Nil
  show ?case by auto
next
  case (Cons c s)
  have pre: "take (length sub) (c # s) = sub \<longleftrightarrow> (\<exists>q. c # s = sub @ q)"
    by (metis append_eq_conv_conj append_take_drop_id)
  show ?case
    unfolding Contains.simps pre Cons.IH by (auto simp: Cons_eq_append_conv)
qed

lemma Contains_appendI1: "Contains s sub \<Longrightarrow> Contains (s @ t) sub"
  unfolding Contains_iff by (metis append.assoc)

lemma strJoin_append:
  "xs \<noteq> [] \<Longrightarrow> ys \<noteq> [] \<Longrightarrow> strJoin sep (xs @ ys) = strJoin sep xs @ sep @ strJoin sep ys"
proof (induction sep xs rule: strJoin.induct)
  case (2 sep s)
  then show ?case by (cases ys) auto
qed auto

subsection \<open>Package strconv: decimal numbers\<close>

fun natDigits :: "nat \<Rightarrow> string" where
  "natDigits n =
     (if n < 10 then [char_of (48 + n)] else natDigits (n div 10) @ [char_of (48 + n mod 10)])"

declare natDigits.simps [simp del]

definition Itoa :: "int \<Rightarrow> string" where
  "Itoa i = (if i < 0 then CHR ''-'' # natDigits (nat (- i)) else natDigits (nat i))"

lemma natDigits_digits: "c \<in> set (natDigits n) \<Longrightarrow> 48 \<le> byte c \<and> byte c < 58"
proof (induction n rule: natDigits.induct)
  case (1 n)
  show ?case
  proof (cases "n < 10")
    case True
    then show ?thesis using "1.prems" by (auto simp: natDigits.simps [of n] byte_def)
  next
    case False
    then have "c \<in> set (natDigits (n div 10)) \<or> c = char_of (48 + n mod 10)"
      using "1.prems" by (auto simp: natDigits.simps [of n])
    then show ?thesis
    proof
      assume "c \<in> set (natDigits (n div 10))"
      with "1.IH" False show ?thesis by simp
    next
      assume "c = char_of (48 + n mod 10)"
      moreover have "n mod 10 < 10" by simp
      ultimately show ?thesis by (simp add: byte_def)
    qed
  qed
qed

lemma Itoa_chars: "c \<in> set (Itoa i) \<Longrightarrow> c = CHR ''-'' \<or> 48 \<le> byte c \<and> byte c < 58"
  by (auto simp: Itoa_def dest: natDigits_digits split: if_splits)

subsection \<open>Packages path and filepath\<close>

fun splitSlash :: "string \<Rightarrow> string list" where
  "splitSlash [] = [[]]"
| "splitSlash (c # s) =
     (if c = CHR ''/'' then [] # splitSlash s
      else (case splitSlash s of [] \<Rightarrow> [[c]] | w # ws \<Rightarrow> (c # w) # ws))"

text \<open>One path element on the stack of elements kept so far, innermost first.\<close>

definition cleanStep :: "bool \<Rightarrow> string \<Rightarrow> string list \<Rightarrow> string list" where
  "cleanStep rooted elt acc =
     (if elt = [] \<or> elt = ''.'' then acc
      else if elt = ''..'' then
        (case acc of
           [] \<Rightarrow> if rooted then [] else [''..'']
         | a # as \<Rightarrow> if a = ''..'' then ''..'' # acc else as)
      else elt # acc)"

definition path_Clean :: "string \<Rightarrow> string" where
  "path_Clean p =
     (if p = [] then ''.''
      else
        let rooted = (hd p = CHR ''/'');
            body = strJoin ''/'' (rev (fold (cleanStep rooted) (splitSlash p) []));
            res = (if rooted then CHR ''/'' # body else body)
        in if res = [] then ''.'' else res)"

definition path_Join :: "string list \<Rightarrow> string" where
  "path_Join ss =
     (case dropWhile (\<lambda>s. s = []) ss of
        [] \<Rightarrow> []
      | s # ss' \<Rightarrow> path_Clean (strJoin ''/'' (s # ss')))"

definition filepath_Dir :: "string \<Rightarrow> string" where
  "filepath_Dir p = path_Clean (rev (dropWhile (\<lambda>c. c \<noteq> CHR ''/'') (rev p)))"

lemma filepath_Dir_example: "filepath_Dir ''/etc/kubernetes/pki/ca.crt'' = ''/etc/kubernetes/pki''"
  by (simp add: filepath_Dir_def path_Clean_def cleanStep_def)

lemma path_Clean_nonempty [simp]: "path_Clean p \<noteq> []"
  by (auto simp: path_Clean_def Let_def)

subsection \<open>Package utf8\<close>

record unicode_tables =
  ut_IsPrint :: "nat \<Rightarrow> bool"
  ut_ToLower :: "nat \<Rightarrow> nat"

abbreviation RuneError :: nat where "RuneError \<equiv> 65533"

definition isCont :: "nat \<Rightarrow> bool" where "isCont b \<longleftrightarrow> 128 \<le> b \<and> b < 192"

text \<open>The code point at the head of a byte string and its width; an ill-formed head is
  \<open>RuneError\<close> of width 1.\<close>

fun decodeRune :: "nat list \<Rightarrow> nat \<times> nat" where
  "decodeRune [] = (RuneError, 0)"
| "decodeRune (b0 # bs) =
     (if b0 < 128 then (b0, 1)
      else case bs of
        [] \<Rightarrow> (RuneError, 1)
      | b1 # bs1 \<Rightarrow>
          if 194 \<le> b0 \<and> b0 < 224 then
            (if isCont b1 then ((b0 - 192) * 64 + (b1 - 128), 2) else (RuneError, 1))
          else case bs1 of
            [] \<Rightarrow> (RuneError, 1)
          | b2 # bs2 \<Rightarrow>
              if 224 \<le> b0 \<and> b0 < 240 then
                (if isCont b1 \<and> isCont b2 \<and> (b0 = 224 \<longrightarrow> 160 \<le> b1) \<and> (b0 = 237 \<longrightarrow> b1 < 160)
                 then ((b0 - 224) * 4096 + (b1 - 128) * 64 + (b2 - 128), 3) else (RuneError, 1))
              else case bs2 of
                [] \<Rightarrow> (RuneError, 1)
              | b3 # bs3 \<Rightarrow>
                  if 240 \<le> b0 \<and> b0 < 245 then
                    (if isCont b1 \<and> isCont b2 \<and> isCont b3 \<and> (b0 = 240 \<longrightarrow> 144 \<le> b1) \<and>
                        (b0 = 244 \<longrightarrow> b1 < 144)
                     then ((b0 - 240) * 262144 + (b1 - 128) * 4096 + (b2 - 128) * 64 + (b3 - 128), 4)
                     else (RuneError, 1))
                  else (RuneError, 1))"

fun runes :: "string \<Rightarrow> (nat \<times> string) list" where
  "runes [] = []"
| "runes (c # cs) =
     (let (r, n) = decodeRune (map byte (take 4 (c # cs)))
      in (r, c # take (n - 1) cs) # runes (drop (n - 1) cs))"

definition encodeRune :: "nat \<Rightarrow> string" where
  "encodeRune r =
     (if r < 128 then [char_of r]
      else if r < 2048 then [char_of (192 + r div 64), char_of (128 + r mod 64)]
      else if r > 1114111 \<or> (55296 \<le> r \<and> r < 57344)
      then [char_of (239::nat), char_of (191::nat), char_of (189::nat)]
      else if r < 65536 then
        [char_of (224 + r div 4096), char_of (128 + r div 64 mod 64), char_of (128 + r mod 64)]
      else [char_of (240 + r div 262144), char_of (128 + r div 4096 mod 64),
            char_of (128 + r div 64 mod 64), char_of (128 + r mod 64)])"

definition ascii :: "string \<Rightarrow> bool" where
  "ascii s \<longleftrightarrow> list_all (\<lambda>c. byte c < 128) s"

lemma runes_concat: "concat (map snd (runes s)) = s"
  by (induction s rule: runes.induct) (auto simp: Let_def split: prod.splits)

lemma runes_ascii: "ascii s \<Longrightarrow> runes s = map (\<lambda>c. (byte c, [c])) s"
  by (induction s rule: runes.induct) (auto simp: ascii_def)

subsection \<open>Trimming, lower case and quoting\<close>

definition isSpaceRune :: "nat \<Rightarrow> bool" where
  "isSpaceRune r \<longleftrightarrow>
     9 \<le> r \<and> r \<le> 13 \<or> r = 32 \<or> r = 133 \<or> r = 160 \<or> r = 5760 \<or> 8192 \<le> r \<and> r \<le> 8202 \<or>
     r = 8232 \<or> r = 8233 \<or> r = 8239 \<or> r = 8287 \<or> r = 12288"

definition TrimSpace :: "string \<Rightarrow> string" where
  "TrimSpace s =
     (let trim = dropWhile (\<lambda>(r, _). isSpaceRune r)
      in concat (map snd (rev (trim (rev (trim (runes s)))))))"

definition asciiLower :: "char \<Rightarrow> char" where
  "asciiLower c = (if 65 \<le> byte c \<and> byte c \<le> 90 then char_of (byte c + 32) else c)"

definition ToLower :: "unicode_tables \<Rightarrow> string \<Rightarrow> string" where
  "ToLower u s =
     (if ascii s then map asciiLower s
      else concat (map (\<lambda>(r, _).
             encodeRune (if r < 128 then byte (asciiLower (char_of r)) else ut_ToLower u r)) (runes s)))"

definition hexDigit :: "nat \<Rightarrow> char" where
  "hexDigit d = (if d < 10 then char_of (48 + d) else char_of (87 + d))"

definition isPrintRune :: "unicode_tables \<Rightarrow> nat \<Rightarrow> bool" where
  "isPrintRune u r = (if r < 128 then 32 \<le> r \<and> r < 127 else ut_IsPrint u r)"

text \<open>The escape of one rune inside a double-quoted Go string (\<open>strconv.Quote\<close>, \<open>%q\<close>).\<close>

definition quoteRune :: "unicode_tables \<Rightarrow> nat \<times> string \<Rightarrow> string" where
  "quoteRune u rc =
     (case rc of (r, chunk) \<Rightarrow>
        let bs = CHR 0x5C in
        if r = RuneError \<and> length chunk = 1 then
          [bs, CHR ''x'', hexDigit (byte (hd chunk) div 16), hexDigit (byte (hd chunk) mod 16)]
        else if r = 34 \<or> r = 92 then bs # chunk
        else if isPrintRune u r then chunk
        else if r = 7 then [bs, CHR ''a''] else if r = 8 then [bs, CHR ''b'']
        else if r = 12 then [bs, CHR ''f''] else if r = 10 then [bs, CHR ''n'']
        else if r = 13 then [bs, CHR ''r''] else if r = 9 then [bs, CHR ''t'']
        else if r = 11 then [bs, CHR ''v'']
        else if r < 32 then [bs, CHR ''x'', hexDigit (r div 16), hexDigit (r mod 16)]
        else if r < 65536 then
          [bs, CHR ''u'', hexDigit (r div 4096), hexDigit (r div 256 mod 16),
           hexDigit (r div 16 mod 16), hexDigit (r mod 16)]
        else
          [bs, CHR ''U'', hexDigit 0, hexDigit 0, hexDigit (r div 1048576), hexDigit (r div 65536 mod 16),
           hexDigit (r div 4096 mod 16), hexDigit (r div 256 mod 16),
           hexDigit (r div 16 mod 16), hexDigit (r mod 16)])"

definition Quote :: "unicode_tables \<Rightarrow> string \<Rightarrow> string" where
  "Quote u s = CHR 0x22 # concat (map (quoteRune u) (runes s)) @ [CHR 0x22]"

lemma TrimSpace_Nil [simp]: "TrimSpace [] = []"
  by (simp add: TrimSpace_def)

lemma TrimSpace_example: "TrimSpace ''  0640 '' = ''0640''"
  by (simp add: TrimSpace_def isSpaceRune_def byte_def)

end
