(* ===== verification/Machine_Pod.thy ===== *)
theory Machine_Pod
  imports Machine_Storage Pod_Qos Go_Strings
begin

text \<open>
  The machine Pod: the constants of \<open>src/controllers/kubernetesmachine_controller.go\<close>, the base Pod
  with its volumes, the \<open>kind\<close> container with its mounts, and the two Pods the controller creates,
  for a control plane machine and for a worker. \<open>kindContainer\<close> is a pointer into the Pod's slice
  of containers; here it is an index into the list.
\<close>

subsection \<open>Constants\<close>

definition machinePodLines :: "string list \<Rightarrow> string" where
  "machinePodLines ls = concat (map (\<lambda>l. l @ [NL]) ls)"

definition defaultImageName :: string where "defaultImageName = ''kindest/node''"
definition defaultImageTag :: string where "defaultImageTag = ''v1.17.0''"
definition kindContainerName :: string where "kindContainerName = ''kind''"
definition defaultAPIServerPort :: int32 where "defaultAPIServerPort = 6443"
definition apiServerPortName :: string where "apiServerPortName = ''kube-apiserver''"

abbreviation libModulesVolumeName :: string where "libModulesVolumeName \<equiv> ''lib-modules''"
abbreviation libModulesVolumeMountPath :: string where "libModulesVolumeMountPath \<equiv> ''/lib/modules''"
abbreviation runVolumeName :: string where "runVolumeName \<equiv> ''run''"
abbreviation runVolumeMountPath :: string where "runVolumeMountPath \<equiv> ''/run''"
abbreviation tmpVolumeName :: string where "tmpVolumeName \<equiv> ''tmp''"
abbreviation tmpVolumeMountPath :: string where "tmpVolumeMountPath \<equiv> ''/tmp''"
abbreviation varLibContainerdVolumeName :: string where
  "varLibContainerdVolumeName \<equiv> ''var-lib-containerd''"
abbreviation varLibContainerdVolumeMountPath :: string where
  "varLibContainerdVolumeMountPath \<equiv> ''/var/lib/containerd''"
abbreviation varLogVolumeName :: string where "varLogVolumeName \<equiv> ''var-log''"
abbreviation varLogVolumeMountPath :: string where "varLogVolumeMountPath \<equiv> ''/var/log''"
abbreviation varLibEtcdVolumeName :: string where "varLibEtcdVolumeName \<equiv> ''var-lib-etcd''"
abbreviation varLibEtcdVolumeMountPath :: string where "varLibEtcdVolumeMountPath \<equiv> ''/var/lib/etcd''"
abbreviation cloudInitScriptsVolumeName :: string where
  "cloudInitScriptsVolumeName \<equiv> ''cloud-init-scripts''"
abbreviation cloudInitScriptsVolumeMountPath :: string where
  "cloudInitScriptsVolumeMountPath \<equiv> ''/opt/cloud-init''"
abbreviation cloudInitSystemdUnitsVolumeName :: string where
  "cloudInitSystemdUnitsVolumeName \<equiv> ''cloud-init-systemd-units''"
abbreviation kubeletSystemdServiceDropinVolumeName :: string where
  "kubeletSystemdServiceDropinVolumeName \<equiv> ''etc-systemd-system-kubelet-service-d''"
abbreviation kubeletSystemdServiceDropinVolumeMountPath :: string where
  "kubeletSystemdServiceDropinVolumeMountPath \<equiv> ''/etc/systemd/system/kubelet.service.d''"
abbreviation etcSystemdSystem :: string where "etcSystemdSystem \<equiv> ''/etc/systemd/system''"
abbreviation cloudInitBootstrapScriptName :: string where
  "cloudInitBootstrapScriptName \<equiv> ''bootstrap.sh''"
abbreviation cloudInitInstallScriptName :: string where "cloudInitInstallScriptName \<equiv> ''install.sh''"
abbreviation cloudInitSystemdServiceUnitName :: string where
  "cloudInitSystemdServiceUnitName \<equiv> ''cloud-init.service''"
abbreviation cloudInitSystemdPathUnitName :: string where
  "cloudInitSystemdPathUnitName \<equiv> ''cloud-init.path''"
abbreviation kubeletSystemdServiceDropinFileName :: string where
  "kubeletSystemdServiceDropinFileName \<equiv> ''20-capk.conf''"

definition cloudInitInstallScript :: string where
  "cloudInitInstallScript = machinePodLines
     [''#!/bin/bash'', [], ''set -o errexit'', ''set -o nounset'', ''set -o pipefail'', [],
      ''systemctl enable --now cloud-init.path'']"

definition cloudInitSystemdServiceUnit :: string where
  "cloudInitSystemdServiceUnit = machinePodLines
     [''[Unit]'', ''Description=Cloud-init bootstrap'', ''After=network.target'', [],
      ''[Service]'', ''ExecStart=/opt/cloud-init/bootstrap.sh'']"

definition cloudInitSystemdPathUnit :: string where
  "cloudInitSystemdPathUnit = machinePodLines
     [''[Unit]'', ''Description=Detect containerd socket creation'', [],
      ''[Path]'', ''PathExists=/var/run/containerd/containerd.sock'', [],
      ''[Install]'', ''WantedBy=multi-user.target'']"

definition kubeletSystemdServiceDropin :: string where
  "kubeletSystemdServiceDropin = machinePodLines [''[Service]'', ''Type=forking'']"

subsection \<open>Helpers\<close>

definition apiServerPort :: "Cluster \<Rightarrow> int32" where
  "apiServerPort cluster =
     (case cl_ClusterNetwork cluster of
        None \<Rightarrow> defaultAPIServerPort
      | Some cn \<Rightarrow> (case cn_APIServerPort cn of None \<Rightarrow> defaultAPIServerPort | Some p \<Rightarrow> p))"

definition machinePodImage :: "Machine \<Rightarrow> string" where
  "machinePodImage machine =
     (case mc_Version machine of
        None \<Rightarrow> defaultImageName @ '':'' @ defaultImageTag
      | Some v \<Rightarrow> defaultImageName @ '':'' @ v)"

definition machinePodName :: "KubernetesMachine \<Rightarrow> string" where
  "machinePodName km = om_Name (km_Meta km)"

definition machinePodNodeName :: "Pod \<Rightarrow> string" where
  "machinePodNodeName pod =
     (if ps_Hostname (pod_Spec pod) \<noteq> [] then ps_Hostname (pod_Spec pod) else om_Name (pod_Meta pod))"

definition providerIDPrefix :: string where "providerIDPrefix = ''kubernetes://''"

definition getProviderIDFromPod :: "Pod option \<Rightarrow> go_error + string" where
  "getProviderIDFromPod machinePod =
     (case machinePod of
        None \<Rightarrow> Inl (GoError ''Machine Pod is nil'')
      | Some pod \<Rightarrow>
          Inr (providerIDPrefix @ om_Namespace (pod_Meta pod) @ ''/'' @ om_Name (pod_Meta pod)))"

definition kubeconfigSecretName :: "Cluster \<Rightarrow> string" where
  "kubeconfigSecretName cluster = om_Name (cl_Meta cluster) @ ''-kubeconfig''"

text \<open>A mount is added when its path is unused.\<close>

definition addMount :: "VolumeMount \<Rightarrow> VolumeMount list \<Rightarrow> VolumeMount list" where
  "addMount vm mounts =
     (if \<not> list_ex (\<lambda>m. vm_MountPath m = vm_MountPath vm) mounts then mounts @ [vm] else mounts)"

definition setVolumeMount :: "string \<Rightarrow> string \<Rightarrow> string \<Rightarrow> bool \<Rightarrow> Container \<Rightarrow> Container" where
  "setVolumeMount name mountPath subPath readOnly c =
     c\<lparr>c_VolumeMounts := addMount
         \<lparr>vm_Name = name, vm_MountPath = mountPath, vm_ReadOnly = readOnly, vm_SubPath = subPath,
          vm_Rest = []\<rparr> (c_VolumeMounts c)\<rparr>"

subsection \<open>The base Pod\<close>

definition cloudInitSecretName :: "KubernetesMachine \<Rightarrow> string" where
  "cloudInitSecretName km = machinePodName km @ ''-cloud-init''"

definition tmpVolume :: Volume where
  "tmpVolume = \<lparr>v_Name = tmpVolumeName, v_Source = EmptyDir ''Memory''\<rparr>"

definition runVolume :: Volume where
  "runVolume = \<lparr>v_Name = runVolumeName, v_Source = EmptyDir ''Memory''\<rparr>"

definition libModulesVolume :: Volume where
  "libModulesVolume =
     \<lparr>v_Name = libModulesVolumeName, v_Source = HostPath libModulesVolumeMountPath ''Directory''\<rparr>"

definition varLibContainerdVolume :: Volume where
  "varLibContainerdVolume = \<lparr>v_Name = varLibContainerdVolumeName, v_Source = EmptyDir []\<rparr>"

definition varLogVolume :: Volume where
  "varLogVolume = \<lparr>v_Name = varLogVolumeName, v_Source = EmptyDir []\<rparr>"

definition keyItem :: "string \<Rightarrow> KeyToPath" where
  "keyItem n = \<lparr>kp_Key = n, kp_Path = n\<rparr>"

definition cloudInitScriptsVolume :: "KubernetesMachine \<Rightarrow> Volume" where
  "cloudInitScriptsVolume km =
     \<lparr>v_Name = cloudInitScriptsVolumeName,
      v_Source = SecretSource (cloudInitSecretName km)
        [keyItem cloudInitBootstrapScriptName, keyItem cloudInitInstallScriptName] (Some 320)\<rparr>"

definition cloudInitSystemdUnitsVolume :: "KubernetesMachine \<Rightarrow> Volume" where
  "cloudInitSystemdUnitsVolume km =
     \<lparr>v_Name = cloudInitSystemdUnitsVolumeName,
      v_Source = SecretSource (cloudInitSecretName km)
        [keyItem cloudInitSystemdServiceUnitName, keyItem cloudInitSystemdPathUnitName] None\<rparr>"

definition kubeletSystemdServiceDropinVolume :: "KubernetesMachine \<Rightarrow> Volume" where
  "kubeletSystemdServiceDropinVolume km =
     \<lparr>v_Name = kubeletSystemdServiceDropinVolumeName,
      v_Source = SecretSource (cloudInitSecretName km)
        [keyItem kubeletSystemdServiceDropinFileName] None\<rparr>"

text \<open>The eight default volumes. The flags are all taken from the user's volumes, before any default
  is appended.\<close>

definition volumeMissing :: "string \<Rightarrow> Volume list \<Rightarrow> bool" where
  "volumeMissing name volumes = (\<not> list_ex (\<lambda>v. v_Name v = name) volumes)"

definition addDefaultVolumes :: "KubernetesMachine \<Rightarrow> Volume list \<Rightarrow> Volume list" where
  "addDefaultVolumes km volumes =
     (let tmpVolumeMissing = volumeMissing tmpVolumeName volumes;
          runVolumeMissing = volumeMissing runVolumeName volumes;
          libModulesVolumeMissing = volumeMissing libModulesVolumeName volumes;
          varLibContainerdVolumeMissing = volumeMissing varLibContainerdVolumeName volumes;
          varLogVolumeMissing = volumeMissing varLogVolumeName volumes;
          cloudInitScriptsVolumeMissing = volumeMissing cloudInitScriptsVolumeName volumes;
          cloudInitSystemdUnitsVolumeMissing = volumeMissing cloudInitSystemdUnitsVolumeName volumes;
          kubeletSystemdServiceDropinVolumeMissing =
            volumeMissing kubeletSystemdServiceDropinVolumeName volumes;
          v1 = (if tmpVolumeMissing then volumes @ [tmpVolume] else volumes);
          v2 = (if runVolumeMissing then v1 @ [runVolume] else v1);
          v3 = (if libModulesVolumeMissing then v2 @ [libModulesVolume] else v2);
          v4 = (if varLibContainerdVolumeMissing then v3 @ [varLibContainerdVolume] else v3);
          v5 = (if varLogVolumeMissing then v4 @ [varLogVolume] else v4);
          v6 = (if cloudInitScriptsVolumeMissing then v5 @ [cloudInitScriptsVolume km] else v5);
          v7 = (if cloudInitSystemdUnitsVolumeMissing
                then v6 @ [cloudInitSystemdUnitsVolume km] else v6)
      in if kubeletSystemdServiceDropinVolumeMissing
         then v7 @ [kubeletSystemdServiceDropinVolume km] else v7)"

definition getMachinePodBase :: "kube_lib \<Rightarrow> Cluster \<Rightarrow> KubernetesMachine \<Rightarrow> go_error + Pod" where
  "getMachinePodBase lib cluster km =
     (let meta = emptyObjectMeta\<lparr>
            om_Name := machinePodName km,
            om_Namespace := om_Namespace (cl_Meta cluster),
            om_Labels := Some [ClusterLabelName \<mapsto> om_Name (cl_Meta cluster)]\<rparr>;
          spec = (kms_PodSpec (km_Spec km))\<lparr>ps_RestartPolicy := ''Never''\<rparr>;
          spec' = spec\<lparr>ps_Volumes := addDefaultVolumes km (ps_Volumes spec)\<rparr>
      in case lib_SetControllerReference lib KubernetesMachineKind (km_Meta km) meta of
           Inl err \<Rightarrow> Inl err
         | Inr meta' \<Rightarrow>
             Inr \<lparr>pod_Meta = meta', pod_Spec = spec', pod_Status = emptyPodStatus\<rparr>)"

subsection \<open>The kind container\<close>

fun findLastIndex :: "('a \<Rightarrow> bool) \<Rightarrow> 'a list \<Rightarrow> nat option" where
  "findLastIndex P [] = None"
| "findLastIndex P (x # xs) =
     (case findLastIndex P xs of Some i \<Rightarrow> Some (Suc i) | None \<Rightarrow> if P x then Some 0 else None)"

definition podContainers :: "Pod \<Rightarrow> Container list" where
  "podContainers pod = elems (ps_Containers (pod_Spec pod))"

definition setContainers :: "Container list \<Rightarrow> Pod \<Rightarrow> Pod" where
  "setContainers cs pod = pod\<lparr>pod_Spec := (pod_Spec pod)\<lparr>ps_Containers := Some cs\<rparr>\<rparr>"

definition updateContainer :: "nat \<Rightarrow> (Container \<Rightarrow> Container) \<Rightarrow> Pod \<Rightarrow> Pod" where
  "updateContainer i f pod = setContainers ((podContainers pod)[i := f (podContainers pod ! i)]) pod"

text \<open>
  The loop variable \<open>index\<close> shadows the outer one, which stays \<open>-1\<close>: when no container has the
  name \<open>kind\<close>, an empty container is appended and the pointer taken is to the element at
  \<open>-1 + 1\<close>, the first one.
\<close>

definition findKindContainer :: "Pod \<Rightarrow> Pod \<times> nat" where
  "findKindContainer pod =
     (case findLastIndex (\<lambda>c. c_Name c = kindContainerName) (podContainers pod) of
        Some i \<Rightarrow> (pod, i)
      | None \<Rightarrow>
          let index = (-1 :: int)
          in (setContainers (podContainers pod @ [emptyContainer]) pod, nat (index + 1)))"

definition setPrivileged :: "Container \<Rightarrow> Container" where
  "setPrivileged c =
     (let sc = (case c_SecurityContext c of
                  None \<Rightarrow> \<lparr>sc_Privileged = None, sc_Rest = []\<rparr> | Some sc \<Rightarrow> sc);
          sc' = (if sc_Privileged sc = None then sc\<lparr>sc_Privileged := Some True\<rparr> else sc)
      in c\<lparr>c_SecurityContext := Some sc'\<rparr>)"

definition kindVolumeMounts :: "Container \<Rightarrow> Container" where
  "kindVolumeMounts c =
     (let c1 = setVolumeMount tmpVolumeName tmpVolumeMountPath [] False c;
          c2 = setVolumeMount runVolumeName runVolumeMountPath [] False c1;
          c3 = setVolumeMount libModulesVolumeName libModulesVolumeMountPath [] True c2;
          c4 = setVolumeMount varLibContainerdVolumeName varLibContainerdVolumeMountPath [] False c3;
          c5 = setVolumeMount varLogVolumeName varLogVolumeMountPath [] False c4;
          c6 = setVolumeMount cloudInitScriptsVolumeName cloudInitScriptsVolumeMountPath [] False c5;
          c7 = setVolumeMount cloudInitSystemdUnitsVolumeName
                 (path_Join [etcSystemdSystem, cloudInitSystemdServiceUnitName])
                 cloudInitSystemdServiceUnitName False c6;
          c8 = setVolumeMount cloudInitSystemdUnitsVolumeName
                 (path_Join [etcSystemdSystem, cloudInitSystemdPathUnitName])
                 cloudInitSystemdPathUnitName False c7;
          c9 = setVolumeMount cloudInitSystemdUnitsVolumeName
                 (path_Join [etcSystemdSystem, cloudInitSystemdPathUnitName])
                 cloudInitSystemdPathUnitName False c8
      in setVolumeMount kubeletSystemdServiceDropinVolumeName
           (path_Join [kubeletSystemdServiceDropinVolumeMountPath, kubeletSystemdServiceDropinFileName])
           kubeletSystemdServiceDropinFileName False c9)"

definition setKindContainerBase :: "Machine \<Rightarrow> Pod \<Rightarrow> Pod \<times> nat" where
  "setKindContainerBase machine pod =
     (case findKindContainer pod of (pod0, i) \<Rightarrow>
        let pod1 = updateContainer i
              (\<lambda>c. c\<lparr>c_Name := kindContainerName, c_Image := machinePodImage machine\<rparr>) pod0;
            pod2 = (if GetPodQOS pod1 = PodQOSBestEffort
                    then updateContainer i
                      (\<lambda>c. c\<lparr>c_Resources := \<lparr>rr_Requests = [(ResourceCPU, 1)], rr_Limits = []\<rparr>\<rparr>) pod1
                    else pod1);
            pod3 = updateContainer i setPrivileged pod2;
            pod4 = updateContainer i (\<lambda>c. c\<lparr>c_TTY := True\<rparr>) pod3
        in (updateContainer i kindVolumeMounts pod4, i))"

subsection \<open>The two Pods\<close>

definition setControlPlaneLabel :: "Pod \<Rightarrow> Pod" where
  "setControlPlaneLabel pod =
     (let labels = (case om_Labels (pod_Meta pod) of None \<Rightarrow> Map.empty | Some l \<Rightarrow> l)
      in pod\<lparr>pod_Meta := (pod_Meta pod)\<lparr>om_Labels :=
               Some (labels(MachineControlPlaneLabelName \<mapsto> []))\<rparr>\<rparr>)"

definition addVolume :: "Volume \<Rightarrow> Volume list \<Rightarrow> Volume list" where
  "addVolume v volumes = (if volumeMissing (v_Name v) volumes then volumes @ [v] else volumes)"

definition varLibEtcdVolume :: Volume where
  "varLibEtcdVolume = \<lparr>v_Name = varLibEtcdVolumeName, v_Source = EmptyDir []\<rparr>"

definition addEtcdVolume :: "Pod \<Rightarrow> Pod" where
  "addEtcdVolume pod =
     pod\<lparr>pod_Spec := (pod_Spec pod)\<lparr>ps_Volumes :=
       addVolume varLibEtcdVolume (ps_Volumes (pod_Spec pod))\<rparr>\<rparr>"

definition setReadinessProbe :: "Cluster \<Rightarrow> Container \<Rightarrow> Container" where
  "setReadinessProbe cluster c =
     (case c_ReadinessProbe c of
        None \<Rightarrow> c\<lparr>c_ReadinessProbe := Some \<lparr>pr_PeriodSeconds = 2, pr_FailureThreshold = 2,
                  pr_TCPSocketPort = Some (IntVal (apiServerPort cluster)), pr_Rest = []\<rparr>\<rparr>
      | Some _ \<Rightarrow> c)"

definition addPort :: "ContainerPort \<Rightarrow> ContainerPort list \<Rightarrow> ContainerPort list" where
  "addPort port ports =
     (if \<not> list_ex (\<lambda>p. cp_Name p = cp_Name port) ports then ports @ [port] else ports)"

definition addAPIServerPort :: "Cluster \<Rightarrow> Container \<Rightarrow> Container" where
  "addAPIServerPort cluster c =
     c\<lparr>c_Ports := addPort
         \<lparr>cp_Name = apiServerPortName, cp_Protocol = ''TCP'',
          cp_ContainerPort = apiServerPort cluster, cp_Rest = []\<rparr> (c_Ports c)\<rparr>"

definition controlPlaneMachinePod ::
  "kube_lib \<Rightarrow> Cluster \<Rightarrow> Machine \<Rightarrow> KubernetesMachine \<Rightarrow> go_error + Pod" where
  "controlPlaneMachinePod lib cluster machine km =
     (case getMachinePodBase lib cluster km of
        Inl err \<Rightarrow> Inl err
      | Inr pod \<Rightarrow>
          (case updateStorage lib km (setControlPlaneLabel pod) of
             Inl err \<Rightarrow> Inl err
           | Inr pod1 \<Rightarrow>
               (case setKindContainerBase machine pod1 of (pod2, i) \<Rightarrow>
                  let pod3 = addEtcdVolume pod2;
                      pod4 = updateContainer i
                        (setVolumeMount varLibEtcdVolumeName varLibEtcdVolumeMountPath [] False) pod3;
                      pod5 = updateContainer i (setReadinessProbe cluster) pod4
                  in Inr (updateContainer i (addAPIServerPort cluster) pod5))))"

definition workerMachinePod ::
  "kube_lib \<Rightarrow> Cluster \<Rightarrow> Machine \<Rightarrow> KubernetesMachine \<Rightarrow> go_error + Pod" where
  "workerMachinePod lib cluster machine km =
     (case getMachinePodBase lib cluster km of
        Inl err \<Rightarrow> Inl err
      | Inr pod \<Rightarrow>
          (case updateStorage lib km pod of
             Inl err \<Rightarrow> Inl err
           | Inr pod1 \<Rightarrow> Inr (fst (setKindContainerBase machine pod1))))"

definition createBuiltPod ::
  "'w kube_client \<Rightarrow> go_error + Pod \<Rightarrow> 'w st \<Rightarrow> ReconcileReturn \<times> 'w st" where
  "createBuiltPod cli built s =
     (case built of
        Inl err \<Rightarrow> ((noRequeue, Some err), s)
      | Inr pod \<Rightarrow>
          (case perform (EvCreatePod pod) (cli_CreatePod cli pod) s of
             (err, s1) \<Rightarrow> ((noRequeue, err), s1)))"

definition createControlPlaneMachinePod ::
  "kube_lib \<Rightarrow> 'w kube_client \<Rightarrow> Cluster \<Rightarrow> Machine \<Rightarrow> KubernetesMachine \<Rightarrow> 'w st \<Rightarrow>
   ReconcileReturn \<times> 'w st" where
  "createControlPlaneMachinePod lib cli cluster machine km =
     createBuiltPod cli (controlPlaneMachinePod lib cluster machine km)"

definition createWorkerMachinePod ::
  "kube_lib \<Rightarrow> 'w kube_client \<Rightarrow> Cluster \<Rightarrow> Machine \<Rightarrow> KubernetesMachine \<Rightarrow> 'w st \<Rightarrow>
   ReconcileReturn \<times> 'w st" where
  "createWorkerMachinePod lib cli cluster machine km =
     createBuiltPod cli (workerMachinePod lib cluster machine km)"

definition createMachinePod ::
  "kube_lib \<Rightarrow> 'w kube_client \<Rightarrow> Cluster \<Rightarrow> Machine \<Rightarrow> KubernetesMachine \<Rightarrow> 'w st \<Rightarrow>
   ReconcileReturn \<times> 'w st" where
  "createMachinePod lib cli cluster machine km =
     (if lib_IsControlPlaneMachine lib machine
      then createControlPlaneMachinePod lib cli cluster machine km
      else createWorkerMachinePod lib cli cluster machine km)"

end
