(* ===== verification/Machine_Pod_Correct.thy ===== *)
theory Machine_Pod_Correct
  imports Machine_Pod
begin

text \<open>
  Correctness of the machine Pod: the additions of volumes, mounts and ports meet the contract
  \<open>adds_missing\<close>; the Pod that is created is well formed whenever the machine's Pod spec is, is
  never of the best-effort class, and carries what the rest of the system expects of it.
\<close>

interpretation mounts: adds_missing vm_MountPath addMount
  by unfold_locales (auto simp: addMount_def list_ex_iff image_iff)

interpretation volumes: adds_missing v_Name addVolume
  by unfold_locales (auto simp: addVolume_def volumeMissing_def list_ex_iff image_iff)

interpretation ports: adds_missing cp_Name addPort
  by unfold_locales (auto simp: addPort_def list_ex_iff image_iff)

subsection \<open>Containers by index\<close>

lemma podContainers_setContainers [simp]: "podContainers (setContainers cs pod) = cs"
  by (simp add: podContainers_def setContainers_def)

lemma setContainers_frame [simp]:
  "pod_Meta (setContainers cs pod) = pod_Meta pod"
  "ps_Volumes (pod_Spec (setContainers cs pod)) = ps_Volumes (pod_Spec pod)"
  "ps_InitContainers (pod_Spec (setContainers cs pod)) = ps_InitContainers (pod_Spec pod)"
  "ps_RestartPolicy (pod_Spec (setContainers cs pod)) = ps_RestartPolicy (pod_Spec pod)"
  "ps_Hostname (pod_Spec (setContainers cs pod)) = ps_Hostname (pod_Spec pod)"
  by (simp_all add: setContainers_def)

lemma setContainers_twice [simp]: "setContainers a (setContainers b pod) = setContainers a pod"
  by (simp add: setContainers_def)

lemma podContainers_volumes [simp]:
  "podContainers (pod\<lparr>pod_Spec := (pod_Spec pod)\<lparr>ps_Volumes := vs\<rparr>\<rparr>) = podContainers pod"
  "podContainers (pod\<lparr>pod_Meta := m\<rparr>) = podContainers pod"
  by (simp_all add: podContainers_def)

lemma podContainers_updateContainer:
  "podContainers (updateContainer i f pod) = (podContainers pod)[i := f (podContainers pod ! i)]"
  by (simp add: updateContainer_def)

lemma updateContainer_frame [simp]:
  "pod_Meta (updateContainer i f pod) = pod_Meta pod"
  "ps_Volumes (pod_Spec (updateContainer i f pod)) = ps_Volumes (pod_Spec pod)"
  "ps_InitContainers (pod_Spec (updateContainer i f pod)) = ps_InitContainers (pod_Spec pod)"
  "ps_RestartPolicy (pod_Spec (updateContainer i f pod)) = ps_RestartPolicy (pod_Spec pod)"
  "ps_Hostname (pod_Spec (updateContainer i f pod)) = ps_Hostname (pod_Spec pod)"
  by (simp_all add: updateContainer_def)

lemma updateContainer_compose:
  "i < length (podContainers pod) \<Longrightarrow>
     updateContainer i g (updateContainer i f pod) = updateContainer i (g \<circ> f) pod"
  by (simp add: updateContainer_def)

lemma findLastIndex_Some:
  "findLastIndex P xs = Some i \<Longrightarrow> i < length xs \<and> P (xs ! i)"
  by (induction xs arbitrary: i) (auto split: option.splits if_splits)

lemma findLastIndex_None: "findLastIndex P xs = None \<longleftrightarrow> (\<forall>x \<in> set xs. \<not> P x)"
  by (induction xs) (auto split: option.splits)

lemma findKindContainer_spec:
  assumes "findKindContainer pod = (pod0, i)"
  shows "i < length (podContainers pod0)"
    "pod_Meta pod0 = pod_Meta pod"
    "ps_Volumes (pod_Spec pod0) = ps_Volumes (pod_Spec pod)"
    "ps_InitContainers (pod_Spec pod0) = ps_InitContainers (pod_Spec pod)"
    "ps_RestartPolicy (pod_Spec pod0) = ps_RestartPolicy (pod_Spec pod)"
    "podContainers pod0 = podContainers pod \<and> c_Name (podContainers pod ! i) = kindContainerName \<or>
     podContainers pod0 = podContainers pod @ [emptyContainer] \<and> i = 0 \<and>
       kindContainerName \<notin> c_Name ` set (podContainers pod)"
  using assms
  by (auto simp: findKindContainer_def Let_def findLastIndex_None
      dest!: findLastIndex_Some split: option.splits)

subsection \<open>The kind container\<close>

definition mountOf :: "string \<Rightarrow> string \<Rightarrow> string \<Rightarrow> bool \<Rightarrow> VolumeMount" where
  "mountOf name path sub ro =
     \<lparr>vm_Name = name, vm_MountPath = path, vm_ReadOnly = ro, vm_SubPath = sub, vm_Rest = []\<rparr>"

definition kindMounts :: "VolumeMount list" where
  "kindMounts =
     [mountOf tmpVolumeName tmpVolumeMountPath [] False,
      mountOf runVolumeName runVolumeMountPath [] False,
      mountOf libModulesVolumeName libModulesVolumeMountPath [] True,
      mountOf varLibContainerdVolumeName varLibContainerdVolumeMountPath [] False,
      mountOf varLogVolumeName varLogVolumeMountPath [] False,
      mountOf cloudInitScriptsVolumeName cloudInitScriptsVolumeMountPath [] False,
      mountOf cloudInitSystemdUnitsVolumeName ''/etc/systemd/system/cloud-init.service''
        cloudInitSystemdServiceUnitName False,
      mountOf cloudInitSystemdUnitsVolumeName ''/etc/systemd/system/cloud-init.path''
        cloudInitSystemdPathUnitName False,
      mountOf kubeletSystemdServiceDropinVolumeName
        ''/etc/systemd/system/kubelet.service.d/20-capk.conf'' kubeletSystemdServiceDropinFileName False]"

lemma kindMountPaths:
  "path_Join [etcSystemdSystem, cloudInitSystemdServiceUnitName] = ''/etc/systemd/system/cloud-init.service''"
  "path_Join [etcSystemdSystem, cloudInitSystemdPathUnitName] = ''/etc/systemd/system/cloud-init.path''"
  "path_Join [kubeletSystemdServiceDropinVolumeMountPath, kubeletSystemdServiceDropinFileName] =
     ''/etc/systemd/system/kubelet.service.d/20-capk.conf''"
  by (simp_all add: path_Join_def path_Clean_def cleanStep_def)

lemma setVolumeMount_eq:
  "setVolumeMount n p sub ro c =
     c\<lparr>c_VolumeMounts := addMount (mountOf n p sub ro) (c_VolumeMounts c)\<rparr>"
  by (simp add: setVolumeMount_def mountOf_def)

text \<open>The repeated call for the path unit adds nothing: the ten calls are the nine mounts.\<close>

lemma kindVolumeMounts_eq:
  "kindVolumeMounts c = c\<lparr>c_VolumeMounts := fold addMount kindMounts (c_VolumeMounts c)\<rparr>"
  by (simp add: kindVolumeMounts_def kindMounts_def kindMountPaths setVolumeMount_eq Let_def
      mounts.add_idem)

definition kindContainerOf :: "Machine \<Rightarrow> ResourceRequirements \<Rightarrow> Container \<Rightarrow> Container" where
  "kindContainerOf machine res c =
     (setPrivileged (c\<lparr>c_Name := kindContainerName, c_Image := machinePodImage machine,
        c_Resources := res\<rparr>))
       \<lparr>c_TTY := True, c_VolumeMounts := fold addMount kindMounts (c_VolumeMounts c)\<rparr>"

lemma setPrivileged_frame [simp]:
  "c_VolumeMounts (setPrivileged c) = c_VolumeMounts c" "c_Name (setPrivileged c) = c_Name c"
  "c_Image (setPrivileged c) = c_Image c" "c_Resources (setPrivileged c) = c_Resources c"
  "c_Ports (setPrivileged c) = c_Ports c" "c_ReadinessProbe (setPrivileged c) = c_ReadinessProbe c"
  by (simp_all add: setPrivileged_def Let_def)

lemma kindContainerOf_simps [simp]:
  "c_Name (kindContainerOf m res c) = kindContainerName"
  "c_Image (kindContainerOf m res c) = machinePodImage m"
  "c_Resources (kindContainerOf m res c) = res"
  "c_VolumeMounts (kindContainerOf m res c) = fold addMount kindMounts (c_VolumeMounts c)"
  "c_Ports (kindContainerOf m res c) = c_Ports c"
  "c_ReadinessProbe (kindContainerOf m res c) = c_ReadinessProbe c"
  "c_TTY (kindContainerOf m res c)"
  by (simp_all add: kindContainerOf_def)

lemma kindContainerOf_privileged:
  "\<exists>sc. c_SecurityContext (kindContainerOf m res c) = Some sc \<and> sc_Privileged sc \<noteq> None"
  by (auto simp: kindContainerOf_def setPrivileged_def Let_def split: option.splits)

text \<open>What \<open>setKindContainerBase\<close> does, in one equation: the container at the index becomes the
  kind container, nothing else changes.\<close>

lemma BestEffort_cong:
  assumes "map c_Resources (podContainers p) = map c_Resources (podContainers q)"
    and "ps_InitContainers (pod_Spec p) = ps_InitContainers (pod_Spec q)"
  shows "GetPodQOS p = PodQOSBestEffort \<longleftrightarrow> GetPodQOS q = PodQOSBestEffort"
proof -
  have "map c_Resources (allContainers p) = map c_Resources (allContainers q)"
    using assms by (simp add: allContainers_def podContainers_def)
  then have "podRequests p = podRequests q" "podLimits p = podLimits q"
    unfolding podRequests_def podLimits_def by (metis list.map_comp)+
  then show ?thesis by (simp add: BestEffort_iff_totals)
qed

lemma setKindContainerBase_eq:
  assumes "setKindContainerBase machine pod = (pod', i)"
  obtains pod0 res where "findKindContainer pod = (pod0, i)" "i < length (podContainers pod0)"
    "pod' = setContainers
       ((podContainers pod0)[i := kindContainerOf machine res (podContainers pod0 ! i)]) pod0"
    "res = c_Resources (podContainers pod0 ! i) \<and> GetPodQOS pod0 \<noteq> PodQOSBestEffort \<or>
     res = \<lparr>rr_Requests = [(ResourceCPU, 1)], rr_Limits = []\<rparr>"
proof -
  obtain pod0 where f: "findKindContainer pod = (pod0, i)"
    using assms by (auto simp: setKindContainerBase_def Let_def split: prod.splits)
  note i = findKindContainer_spec(1) [OF f]
  define named where
    "named = (\<lambda>c :: Container. c\<lparr>c_Name := kindContainerName, c_Image := machinePodImage machine\<rparr>)"
  have res: "c_Resources (named c) = c_Resources c" for c by (simp add: named_def)
  have qos: "GetPodQOS (updateContainer i named pod0) = PodQOSBestEffort \<longleftrightarrow>
      GetPodQOS pod0 = PodQOSBestEffort"
    by (rule BestEffort_cong) (simp_all add: podContainers_updateContainer map_update res list_update_same_conv i)
  have built: "kindVolumeMounts ((setPrivileged ((named c)\<lparr>c_Resources := r\<rparr>))\<lparr>c_TTY := True\<rparr>) =
      kindContainerOf machine r c" for c r
    by (simp add: kindVolumeMounts_eq kindContainerOf_def named_def)
  have kept: "kindVolumeMounts ((setPrivileged (named c))\<lparr>c_TTY := True\<rparr>) =
      kindContainerOf machine (c_Resources c) c" for c
    using built [where c = c and r = "c_Resources c"] by (simp add: named_def)
  define cpu where "cpu = \<lparr>rr_Requests = [(ResourceCPU, 1 :: quantity)], rr_Limits = []\<rparr>"
  define r where "r = (if GetPodQOS pod0 = PodQOSBestEffort then cpu else c_Resources (podContainers pod0 ! i))"
  have "pod' = setContainers ((podContainers pod0)[i := kindContainerOf machine r (podContainers pod0 ! i)]) pod0"
  proof (cases "GetPodQOS pod0 = PodQOSBestEffort")
    case True
    with assms f qos show ?thesis
      by (simp add: setKindContainerBase_def Let_def named_def [symmetric] cpu_def [symmetric] r_def
          updateContainer_compose i podContainers_updateContainer)
        (auto simp: updateContainer_def built)
  next
    case False
    with assms f qos show ?thesis
      by (simp add: setKindContainerBase_def Let_def named_def [symmetric] r_def
          updateContainer_compose i podContainers_updateContainer)
        (auto simp: updateContainer_def kept)
  qed
  with f i that [of pod0 r] show thesis
    by (auto simp: r_def cpu_def split: if_splits)
qed

subsection \<open>Never best effort\<close>

lemma setKindContainerBase_not_best_effort:
  "GetPodQOS (fst (setKindContainerBase machine pod)) \<noteq> PodQOSBestEffort"
proof -
  obtain pod' i where eq: "setKindContainerBase machine pod = (pod', i)" by fastforce
  obtain pod0 res where f: "findKindContainer pod = (pod0, i)" and i: "i < length (podContainers pod0)"
    and p: "pod' = setContainers
       ((podContainers pod0)[i := kindContainerOf machine res (podContainers pod0 ! i)]) pod0"
    and r: "res = c_Resources (podContainers pod0 ! i) \<and> GetPodQOS pod0 \<noteq> PodQOSBestEffort \<or>
     res = \<lparr>rr_Requests = [(ResourceCPU, 1)], rr_Limits = []\<rparr>"
    using eq by (rule setKindContainerBase_eq)
  from r show ?thesis
  proof
    assume kept: "res = c_Resources (podContainers pod0 ! i) \<and> GetPodQOS pod0 \<noteq> PodQOSBestEffort"
    have "GetPodQOS pod' = PodQOSBestEffort \<longleftrightarrow> GetPodQOS pod0 = PodQOSBestEffort"
      by (rule BestEffort_cong) (simp_all add: p map_update kept list_update_same_conv i)
    with kept show ?thesis by (simp add: eq)
  next
    assume cpu: "res = \<lparr>rr_Requests = [(ResourceCPU, 1)], rr_Limits = []\<rparr>"
    let ?c = "kindContainerOf machine res (podContainers pod0 ! i)"
    have "?c \<in> set (podContainers pod')"
      using i by (simp add: p set_update_memI)
    then have "?c \<in> set (allContainers pod')"
      by (simp add: allContainers_def podContainers_def)
    then have "(ResourceCPU, 1) \<in> set (podRequests pod')"
      by (force simp: podRequests_def cpu)
    then have "0 < totalPositive ResourceCPU (podRequests pod')"
      by (force simp: totalPositive_pos_iff positive_def)
    then show ?thesis by (simp add: eq BestEffort_iff_totals)
  qed
qed

subsection \<open>The base Pod\<close>

definition defaultVolumes :: "KubernetesMachine \<Rightarrow> Volume list" where
  "defaultVolumes km =
     [tmpVolume, runVolume, libModulesVolume, varLibContainerdVolume, varLogVolume,
      cloudInitScriptsVolume km, cloudInitSystemdUnitsVolume km, kubeletSystemdServiceDropinVolume km]"

lemmas volumeDefs = tmpVolume_def runVolume_def libModulesVolume_def varLibContainerdVolume_def
  varLogVolume_def cloudInitScriptsVolume_def cloudInitSystemdUnitsVolume_def
  kubeletSystemdServiceDropinVolume_def varLibEtcdVolume_def

lemma volumeMissing_if_append:
  "v_Name w \<noteq> n \<Longrightarrow> volumeMissing n (if b then xs @ [w] else xs) = volumeMissing n xs"
  by (simp add: volumeMissing_def)

text \<open>The flags taken up front agree with adding the defaults one after the other.\<close>

lemma addDefaultVolumes_eq: "addDefaultVolumes km vs = fold addVolume (defaultVolumes km) vs"
  by (simp add: addDefaultVolumes_def defaultVolumes_def Let_def addVolume_def volumeMissing_if_append
      volumeDefs)

lemma defaultVolume_names:
  "v_Name ` set (defaultVolumes km) =
     {tmpVolumeName, runVolumeName, libModulesVolumeName, varLibContainerdVolumeName, varLogVolumeName,
      cloudInitScriptsVolumeName, cloudInitSystemdUnitsVolumeName, kubeletSystemdServiceDropinVolumeName}"
  by (simp add: defaultVolumes_def volumeDefs)

lemma kindMount_names: "vm_Name ` set kindMounts = v_Name ` set (defaultVolumes km)"
  by (auto simp: defaultVolume_names kindMounts_def mountOf_def)

lemma getMachinePodBase_spec:
  assumes "kube_contract lib" and "getMachinePodBase lib cluster km = Inr pod"
  shows "om_Name (pod_Meta pod) = machinePodName km"
    "om_Namespace (pod_Meta pod) = om_Namespace (cl_Meta cluster)"
    "om_Labels (pod_Meta pod) = Some [ClusterLabelName \<mapsto> om_Name (cl_Meta cluster)]"
    "controlledBy lib (pod_Meta pod) (om_UID (km_Meta km))"
    "ps_Volumes (pod_Spec pod) = fold addVolume (defaultVolumes km) (ps_Volumes (kms_PodSpec (km_Spec km)))"
    "ps_Containers (pod_Spec pod) = ps_Containers (kms_PodSpec (km_Spec km))"
    "ps_InitContainers (pod_Spec pod) = ps_InitContainers (kms_PodSpec (km_Spec km))"
    "ps_RestartPolicy (pod_Spec pod) = ''Never''"
    "lib_GetControllerOf lib (pod_Meta pod) = Some (ownerOf KubernetesMachineKind (km_Meta km))"
proof -
  let ?meta = "emptyObjectMeta\<lparr>om_Name := machinePodName km,
      om_Namespace := om_Namespace (cl_Meta cluster),
      om_Labels := Some [ClusterLabelName \<mapsto> om_Name (cl_Meta cluster)]\<rparr>"
  obtain m' where set: "lib_SetControllerReference lib KubernetesMachineKind (km_Meta km) ?meta = Inr m'"
    and pod: "pod_Meta pod = m'"
    and spec: "pod_Spec pod = (kms_PodSpec (km_Spec km))\<lparr>ps_RestartPolicy := ''Never'',
        ps_Volumes := addDefaultVolumes km (ps_Volumes (kms_PodSpec (km_Spec km)))\<rparr>"
    using assms(2) by (auto simp: getMachinePodBase_def Let_def split: sum.splits)
  note frame = kube_contract.set_controller_frame [OF assms(1) set]
  show "om_Name (pod_Meta pod) = machinePodName km"
    "om_Namespace (pod_Meta pod) = om_Namespace (cl_Meta cluster)"
    "om_Labels (pod_Meta pod) = Some [ClusterLabelName \<mapsto> om_Name (cl_Meta cluster)]"
    using frame by (simp_all add: pod)
  show "controlledBy lib (pod_Meta pod) (om_UID (km_Meta km))"
    using kube_contract.set_controller_uid [OF assms(1) set] by (auto simp: pod controlledBy_def)
  show "ps_Volumes (pod_Spec pod) = fold addVolume (defaultVolumes km) (ps_Volumes (kms_PodSpec (km_Spec km)))"
    "ps_Containers (pod_Spec pod) = ps_Containers (kms_PodSpec (km_Spec km))"
    "ps_InitContainers (pod_Spec pod) = ps_InitContainers (kms_PodSpec (km_Spec km))"
    "ps_RestartPolicy (pod_Spec pod) = ''Never''"
    by (simp_all add: spec addDefaultVolumes_eq)
  show "lib_GetControllerOf lib (pod_Meta pod) = Some (ownerOf KubernetesMachineKind (km_Meta km))"
    using controller_is_owner [OF assms(1) set] by (simp add: pod)
qed

subsection \<open>Well-formed Pods\<close>

text \<open>
  What the API server asks of a Pod spec: volume names are distinct, and every mount of a container
  has a path of its own and names a declared volume. \<open>extra\<close> are names that will be declared later,
  those of the claim templates.
\<close>

definition wfContainer :: "string set \<Rightarrow> Container \<Rightarrow> bool" where
  "wfContainer names c \<longleftrightarrow>
     distinct (map vm_MountPath (c_VolumeMounts c)) \<and> vm_Name ` set (c_VolumeMounts c) \<subseteq> names"

definition wfPodSpec :: "string set \<Rightarrow> PodSpec \<Rightarrow> bool" where
  "wfPodSpec extra spec \<longleftrightarrow>
     distinct (map v_Name (ps_Volumes spec)) \<and>
     (\<forall>c \<in> set (elems (ps_Containers spec)) \<union> set (ps_InitContainers spec).
        wfContainer (v_Name ` set (ps_Volumes spec) \<union> extra) c)"

definition templateNames :: "KubernetesMachine \<Rightarrow> string set" where
  "templateNames km = (om_Name \<circ> pvc_Meta) ` set (kms_VolumeClaimTemplates (km_Spec km))"

lemma wfContainer_mono: "wfContainer A c \<Longrightarrow> A \<subseteq> B \<Longrightarrow> wfContainer B c"
  by (auto simp: wfContainer_def)

lemma wfContainer_empty: "wfContainer A emptyContainer"
  by (simp add: wfContainer_def emptyContainer_def)

lemma wfContainer_addMount:
  assumes "wfContainer A c" and "vm_Name vm \<in> A"
  shows "wfContainer A (c\<lparr>c_VolumeMounts := addMount vm (c_VolumeMounts c)\<rparr>)"
  using assms mounts.distinct_add [of "c_VolumeMounts c" vm]
  by (auto simp: wfContainer_def dest: mounts.set_add)

lemma wfContainer_kind:
  assumes "wfContainer A c" and "vm_Name ` set kindMounts \<subseteq> A"
  shows "wfContainer A (kindContainerOf machine res c)"
proof -
  have "set (fold addMount kindMounts (c_VolumeMounts c)) \<subseteq> set (c_VolumeMounts c) \<union> set kindMounts"
    using mounts.set_fold by blast
  then have "vm_Name ` set (fold addMount kindMounts (c_VolumeMounts c)) \<subseteq> A"
    using assms unfolding wfContainer_def by blast
  then show ?thesis
    using assms(1) mounts.distinct_fold by (simp add: wfContainer_def)
qed

lemma wfPodSpec_updateContainer:
  assumes "wfPodSpec {} (pod_Spec pod)" and "i < length (podContainers pod)"
    and "\<And>c. wfContainer (v_Name ` set (ps_Volumes (pod_Spec pod))) c \<Longrightarrow>
        wfContainer (v_Name ` set (ps_Volumes (pod_Spec pod))) (f c)"
  shows "wfPodSpec {} (pod_Spec (updateContainer i f pod))"
  using assms nth_mem [OF assms(2)]
  by (auto simp: wfPodSpec_def updateContainer_def setContainers_def podContainers_def
      dest!: set_update_subset_insert [THEN subsetD])

text \<open>The state of the Pod after the storage has been updated.\<close>

lemma storedPod_spec:
  assumes "kube_contract lib" and "getMachinePodBase lib cluster km = Inr pod"
    and "updateStorage lib km (pod\<lparr>pod_Meta := meta\<rparr>) = Inr pod1"
  shows "v_Name ` set (ps_Volumes (pod_Spec pod1)) =
      v_Name ` set (ps_Volumes (kms_PodSpec (km_Spec km))) \<union> v_Name ` set (defaultVolumes km) \<union>
      templateNames km"
    "podContainers pod1 = elems (ps_Containers (kms_PodSpec (km_Spec km)))"
    "ps_InitContainers (pod_Spec pod1) = ps_InitContainers (kms_PodSpec (km_Spec km))"
    "pod_Meta pod1 = meta" "ps_RestartPolicy (pod_Spec pod1) = ''Never''"
    "distinct (map v_Name (ps_Volumes (kms_PodSpec (km_Spec km)))) \<Longrightarrow>
       distinct (map v_Name (ps_Volumes (pod_Spec pod1)))"
proof -
  note base = getMachinePodBase_spec [OF assms(1,2)]
  note names = updateStorage_names [OF assms(1,3)]
  show "v_Name ` set (ps_Volumes (pod_Spec pod1)) =
      v_Name ` set (ps_Volumes (kms_PodSpec (km_Spec km))) \<union> v_Name ` set (defaultVolumes km) \<union>
      templateNames km"
    using names by (simp add: base volumes.keys_fold templateNames_def)
  obtain vs where "pod1 = (pod\<lparr>pod_Meta := meta\<rparr>)\<lparr>pod_Spec := (pod_Spec pod)\<lparr>ps_Volumes := vs\<rparr>\<rparr>"
    using assms(3) by (auto simp: updateStorage_def Let_def split: sum.splits)
  then show "podContainers pod1 = elems (ps_Containers (kms_PodSpec (km_Spec km)))"
    "ps_InitContainers (pod_Spec pod1) = ps_InitContainers (kms_PodSpec (km_Spec km))"
    "pod_Meta pod1 = meta" "ps_RestartPolicy (pod_Spec pod1) = ''Never''"
    by (simp_all add: podContainers_def base)
  assume "distinct (map v_Name (ps_Volumes (kms_PodSpec (km_Spec km))))"
  then show "distinct (map v_Name (ps_Volumes (pod_Spec pod1)))"
    by (intro updateStorage_distinct [OF assms(1,3)]) (simp add: base volumes.distinct_fold)
qed

lemma setKindContainerBase_wf:
  assumes "setKindContainerBase machine pod = (pod', i)"
    and "wfPodSpec {} (pod_Spec pod)"
    and "vm_Name ` set kindMounts \<subseteq> v_Name ` set (ps_Volumes (pod_Spec pod))"
  shows "wfPodSpec {} (pod_Spec pod')"
    and "ps_Volumes (pod_Spec pod') = ps_Volumes (pod_Spec pod)" and "i < length (podContainers pod')"
proof -
  obtain pod0 res where f: "findKindContainer pod = (pod0, i)" and i: "i < length (podContainers pod0)"
    and p: "pod' = setContainers
       ((podContainers pod0)[i := kindContainerOf machine res (podContainers pod0 ! i)]) pod0"
    using assms(1) by (rule setKindContainerBase_eq)
  note fk = findKindContainer_spec [OF f]
  have "wfPodSpec {} (pod_Spec pod0)"
    using assms(2) fk wfContainer_empty
    by (auto simp: wfPodSpec_def podContainers_def)
  moreover have p_upd: "pod' = updateContainer i (kindContainerOf machine res) pod0"
    by (simp add: p updateContainer_def)
  ultimately show "wfPodSpec {} (pod_Spec pod')"
    using assms(3) fk(3) by (auto simp: p_upd intro!: wfPodSpec_updateContainer i wfContainer_kind)
  show "ps_Volumes (pod_Spec pod') = ps_Volumes (pod_Spec pod)" by (simp add: p fk)
  show "i < length (podContainers pod')" using i by (simp add: p)
qed

lemma storedPod_wf:
  assumes "kube_contract lib" and "getMachinePodBase lib cluster km = Inr pod"
    and "updateStorage lib km (pod\<lparr>pod_Meta := meta\<rparr>) = Inr pod1"
    and "wfPodSpec (templateNames km) (kms_PodSpec (km_Spec km))"
  shows "wfPodSpec {} (pod_Spec pod1)"
    and "vm_Name ` set kindMounts \<subseteq> v_Name ` set (ps_Volumes (pod_Spec pod1))"
proof -
  note st = storedPod_spec [OF assms(1,2,3)]
  show "vm_Name ` set kindMounts \<subseteq> v_Name ` set (ps_Volumes (pod_Spec pod1))"
    by (auto simp: st(1) kindMount_names [of km])
  show "wfPodSpec {} (pod_Spec pod1)"
    using assms(4) st by (auto simp: wfPodSpec_def podContainers_def intro: wfContainer_mono)
qed

lemma workerMachinePod_wf:
  assumes "kube_contract lib" and "wfPodSpec (templateNames km) (kms_PodSpec (km_Spec km))"
    and "workerMachinePod lib cluster machine km = Inr pod"
  shows "wfPodSpec {} (pod_Spec pod)"
proof -
  obtain base pod1 where b: "getMachinePodBase lib cluster km = Inr base"
    and u: "updateStorage lib km base = Inr pod1"
    and p: "pod = fst (setKindContainerBase machine pod1)"
    using assms(3) by (auto simp: workerMachinePod_def split: sum.splits)
  have u': "updateStorage lib km (base\<lparr>pod_Meta := pod_Meta base\<rparr>) = Inr pod1" using u by simp
  show ?thesis
    using setKindContainerBase_wf(1) [OF _ storedPod_wf [OF assms(1) b u' assms(2)]]
    by (metis p prod.collapse)
qed

subsection \<open>The control plane Pod\<close>

definition etcdMount :: VolumeMount where
  "etcdMount = mountOf varLibEtcdVolumeName varLibEtcdVolumeMountPath [] False"

definition apiServerContainer :: "Cluster \<Rightarrow> Container \<Rightarrow> Container" where
  "apiServerContainer cluster c = addAPIServerPort cluster (setReadinessProbe cluster
     (c\<lparr>c_VolumeMounts := addMount etcdMount (c_VolumeMounts c)\<rparr>))"

lemma addEtcdVolume_frame [simp]:
  "podContainers (addEtcdVolume pod) = podContainers pod"
  "pod_Meta (addEtcdVolume pod) = pod_Meta pod"
  "ps_InitContainers (pod_Spec (addEtcdVolume pod)) = ps_InitContainers (pod_Spec pod)"
  "ps_RestartPolicy (pod_Spec (addEtcdVolume pod)) = ps_RestartPolicy (pod_Spec pod)"
  "ps_Volumes (pod_Spec (addEtcdVolume pod)) = addVolume varLibEtcdVolume (ps_Volumes (pod_Spec pod))"
  by (simp_all add: addEtcdVolume_def podContainers_def)

lemma apiServerContainer_simps [simp]:
  "c_Name (apiServerContainer cluster c) = c_Name c"
  "c_Image (apiServerContainer cluster c) = c_Image c"
  "c_Resources (apiServerContainer cluster c) = c_Resources c"
  "c_VolumeMounts (apiServerContainer cluster c) = addMount etcdMount (c_VolumeMounts c)"
  "c_SecurityContext (apiServerContainer cluster c) = c_SecurityContext c"
  "c_TTY (apiServerContainer cluster c) = c_TTY c"
  by (simp_all add: apiServerContainer_def addAPIServerPort_def setReadinessProbe_def
      split: option.splits)

lemma apiServerContainer_port:
  "apiServerPortName \<in> cp_Name ` set (c_Ports (apiServerContainer cluster c))"
  "apiServerPortName \<notin> cp_Name ` set (c_Ports c) \<Longrightarrow>
     c_Ports (apiServerContainer cluster c) =
       c_Ports c @ [\<lparr>cp_Name = apiServerPortName, cp_Protocol = ''TCP'',
         cp_ContainerPort = apiServerPort cluster, cp_Rest = []\<rparr>]"
proof -
  have ports: "c_Ports (apiServerContainer cluster c) = addPort \<lparr>cp_Name = apiServerPortName,
      cp_Protocol = ''TCP'', cp_ContainerPort = apiServerPort cluster, cp_Rest = []\<rparr> (c_Ports c)"
    by (simp add: apiServerContainer_def addAPIServerPort_def setReadinessProbe_def split: option.splits)
  show "apiServerPortName \<in> cp_Name ` set (c_Ports (apiServerContainer cluster c))"
    by (simp add: ports ports.keys_add)
  show "apiServerPortName \<notin> cp_Name ` set (c_Ports c) \<Longrightarrow>
     c_Ports (apiServerContainer cluster c) =
       c_Ports c @ [\<lparr>cp_Name = apiServerPortName, cp_Protocol = ''TCP'',
         cp_ContainerPort = apiServerPort cluster, cp_Rest = []\<rparr>]"
    by (simp add: ports ports.add_absent)
qed

lemma controlPlaneMachinePod_eq:
  assumes "controlPlaneMachinePod lib cluster machine km = Inr pod"
  obtains base pod1 pod2 i where "getMachinePodBase lib cluster km = Inr base"
    "updateStorage lib km (setControlPlaneLabel base) = Inr pod1"
    "setKindContainerBase machine pod1 = (pod2, i)" "i < length (podContainers pod2)"
    "pod = updateContainer i (apiServerContainer cluster) (addEtcdVolume pod2)"
proof -
  obtain base pod1 pod2 i where b: "getMachinePodBase lib cluster km = Inr base"
    "updateStorage lib km (setControlPlaneLabel base) = Inr pod1"
    and k: "setKindContainerBase machine pod1 = (pod2, i)"
    and p: "pod = updateContainer i (addAPIServerPort cluster) (updateContainer i (setReadinessProbe cluster)
      (updateContainer i (setVolumeMount varLibEtcdVolumeName varLibEtcdVolumeMountPath [] False)
        (addEtcdVolume pod2)))"
    using assms by (auto simp: controlPlaneMachinePod_def Let_def split: sum.splits prod.splits)
  have i: "i < length (podContainers pod2)"
    by (rule setKindContainerBase_eq [OF k]) simp
  have "apiServerContainer cluster = addAPIServerPort cluster \<circ> (setReadinessProbe cluster \<circ>
      setVolumeMount varLibEtcdVolumeName varLibEtcdVolumeMountPath [] False)"
    by (rule ext) (simp add: apiServerContainer_def setVolumeMount_eq etcdMount_def)
  then have "pod = updateContainer i (apiServerContainer cluster) (addEtcdVolume pod2)"
    using i by (simp add: p updateContainer_compose podContainers_updateContainer comp_assoc)
  with b k i that show thesis by blast
qed

lemma setControlPlaneLabel_eq:
  "setControlPlaneLabel pod = pod\<lparr>pod_Meta := (pod_Meta pod)\<lparr>om_Labels :=
     Some ((case om_Labels (pod_Meta pod) of None \<Rightarrow> Map.empty | Some l \<Rightarrow> l)
       (MachineControlPlaneLabelName \<mapsto> []))\<rparr>\<rparr>"
  by (simp add: setControlPlaneLabel_def Let_def)

lemma controlPlaneMachinePod_wf:
  assumes "kube_contract lib" and "wfPodSpec (templateNames km) (kms_PodSpec (km_Spec km))"
    and "controlPlaneMachinePod lib cluster machine km = Inr pod"
  shows "wfPodSpec {} (pod_Spec pod)"
proof -
  obtain base pod1 pod2 i where b: "getMachinePodBase lib cluster km = Inr base"
    and u: "updateStorage lib km (setControlPlaneLabel base) = Inr pod1"
    and k: "setKindContainerBase machine pod1 = (pod2, i)" and i: "i < length (podContainers pod2)"
    and p: "pod = updateContainer i (apiServerContainer cluster) (addEtcdVolume pod2)"
    using assms(3) by (rule controlPlaneMachinePod_eq)
  note st = storedPod_wf [OF assms(1) b u [unfolded setControlPlaneLabel_eq] assms(2)]
  note kb = setKindContainerBase_wf [OF k st]
  have vols: "v_Name ` set (ps_Volumes (pod_Spec (addEtcdVolume pod2))) =
      insert varLibEtcdVolumeName (v_Name ` set (ps_Volumes (pod_Spec pod2)))"
    by (simp add: volumes.keys_add varLibEtcdVolume_def)
  have "wfPodSpec {} (pod_Spec (addEtcdVolume pod2))"
    unfolding wfPodSpec_def
  proof (intro conjI ballI)
    show "distinct (map v_Name (ps_Volumes (pod_Spec (addEtcdVolume pod2))))"
      using kb(1) volumes.distinct_add by (simp add: wfPodSpec_def)
    fix c
    assume "c \<in> set (elems (ps_Containers (pod_Spec (addEtcdVolume pod2)))) \<union>
        set (ps_InitContainers (pod_Spec (addEtcdVolume pod2)))"
    then have "wfContainer (v_Name ` set (ps_Volumes (pod_Spec pod2))) c"
      using kb(1) by (simp add: wfPodSpec_def addEtcdVolume_def)
    then show "wfContainer (v_Name ` set (ps_Volumes (pod_Spec (addEtcdVolume pod2))) \<union> {}) c"
      by (rule wfContainer_mono) (use vols in blast)
  qed
  then show ?thesis
    unfolding p
  proof (rule wfPodSpec_updateContainer)
    show "i < length (podContainers (addEtcdVolume pod2))" using i by simp
    show "wfContainer (v_Name ` set (ps_Volumes (pod_Spec (addEtcdVolume pod2)))) (apiServerContainer cluster c)"
      if "wfContainer (v_Name ` set (ps_Volumes (pod_Spec (addEtcdVolume pod2)))) c" for c
      using wfContainer_addMount [OF that, of etcdMount] vols
      by (simp add: wfContainer_def etcdMount_def mountOf_def)
  qed
qed

text \<open>What is created, in terms of the machine: its metadata, and every container.\<close>

lemma setKindContainerBase_containers:
  assumes "setKindContainerBase machine pod = (pod', i)"
  shows "\<exists>res. podContainers pod' =
      (podContainers (fst (findKindContainer pod)))
        [i := kindContainerOf machine res (podContainers (fst (findKindContainer pod)) ! i)]"
    and "pod_Meta pod' = pod_Meta pod" and "snd (findKindContainer pod) = i"
    and "ps_RestartPolicy (pod_Spec pod') = ps_RestartPolicy (pod_Spec pod)"
    and "i < length (podContainers (fst (findKindContainer pod)))"
proof -
  obtain pod0 res where f: "findKindContainer pod = (pod0, i)" and i: "i < length (podContainers pod0)"
    and p: "pod' = setContainers
       ((podContainers pod0)[i := kindContainerOf machine res (podContainers pod0 ! i)]) pod0"
    using assms by (rule setKindContainerBase_eq)
  note fk = findKindContainer_spec [OF f]
  show "\<exists>res. podContainers pod' =
      (podContainers (fst (findKindContainer pod)))
        [i := kindContainerOf machine res (podContainers (fst (findKindContainer pod)) ! i)]"
    by (auto simp: p f)
  show "pod_Meta pod' = pod_Meta pod" "snd (findKindContainer pod) = i"
    "ps_RestartPolicy (pod_Spec pod') = ps_RestartPolicy (pod_Spec pod)"
    "i < length (podContainers (fst (findKindContainer pod)))"
    using i by (simp_all add: p f fk)
qed

subsection \<open>Either Pod\<close>

text \<open>The Pod \<open>createMachinePod\<close> asks the API server for.\<close>

definition builtMachinePod ::
  "kube_lib \<Rightarrow> Cluster \<Rightarrow> Machine \<Rightarrow> KubernetesMachine \<Rightarrow> go_error + Pod" where
  "builtMachinePod lib cluster machine km =
     (if lib_IsControlPlaneMachine lib machine then controlPlaneMachinePod lib cluster machine km
      else workerMachinePod lib cluster machine km)"

lemma createMachinePod_eq:
  "createMachinePod lib cli cluster machine km s =
     createBuiltPod cli (builtMachinePod lib cluster machine km) s"
  by (simp add: createMachinePod_def builtMachinePod_def createControlPlaneMachinePod_def
      createWorkerMachinePod_def)

lemma createMachinePod_log:
  assumes "createMachinePod lib cli cluster machine km s = ((res, err), s')"
  shows "res = noRequeue" and
    "(\<exists>e. builtMachinePod lib cluster machine km = Inl e \<and> err = Some e \<and> s' = s) \<or>
     (\<exists>pod. builtMachinePod lib cluster machine km = Inr pod \<and> snd s' = snd s @ [EvCreatePod pod err])"
  using assms
  by (auto simp: createMachinePod_eq createBuiltPod_def split: sum.splits prod.splits dest!: perform_log)

definition finishPod :: "kube_lib \<Rightarrow> Cluster \<Rightarrow> Machine \<Rightarrow> nat \<Rightarrow> Pod \<Rightarrow> Pod" where
  "finishPod lib cluster machine i pod =
     (if lib_IsControlPlaneMachine lib machine
      then updateContainer i (apiServerContainer cluster) (addEtcdVolume pod) else pod)"

lemma builtMachinePod_eq:
  assumes "kube_contract lib" and "builtMachinePod lib cluster machine km = Inr pod"
  obtains base meta pod1 pod2 i where "getMachinePodBase lib cluster km = Inr base"
    "meta = (if lib_IsControlPlaneMachine lib machine then pod_Meta (setControlPlaneLabel base)
             else pod_Meta base)"
    "updateStorage lib km (base\<lparr>pod_Meta := meta\<rparr>) = Inr pod1"
    "setKindContainerBase machine pod1 = (pod2, i)" "i < length (podContainers pod2)"
    "pod = finishPod lib cluster machine i pod2"
proof (cases "lib_IsControlPlaneMachine lib machine")
  case True
  then show thesis
    using assms(2) that
    by (auto simp: builtMachinePod_def finishPod_def setControlPlaneLabel_eq elim!: controlPlaneMachinePod_eq)
next
  case False
  then obtain base pod1 where b: "getMachinePodBase lib cluster km = Inr base"
    and u: "updateStorage lib km base = Inr pod1" and p: "pod = fst (setKindContainerBase machine pod1)"
    using assms(2) by (auto simp: builtMachinePod_def workerMachinePod_def split: sum.splits)
  obtain i where k: "setKindContainerBase machine pod1 = (pod, i)" using p by (metis prod.collapse)
  have "i < length (podContainers pod)" by (rule setKindContainerBase_eq [OF k]) simp
  with b u k False that [of base "pod_Meta base" pod1 pod i] show thesis by (simp add: finishPod_def)
qed

lemma finishPod_meta [simp]:
  "pod_Meta (finishPod lib cluster machine i pod) = pod_Meta pod"
  "ps_RestartPolicy (pod_Spec (finishPod lib cluster machine i pod)) = ps_RestartPolicy (pod_Spec pod)"
  by (simp_all add: finishPod_def)

definition machinePodLabels :: "kube_lib \<Rightarrow> Cluster \<Rightarrow> Machine \<Rightarrow> string \<rightharpoonup> string" where
  "machinePodLabels lib cluster machine =
     (if lib_IsControlPlaneMachine lib machine
      then [ClusterLabelName \<mapsto> om_Name (cl_Meta cluster), MachineControlPlaneLabelName \<mapsto> []]
      else [ClusterLabelName \<mapsto> om_Name (cl_Meta cluster)])"

lemma builtMachinePod_meta:
  assumes "kube_contract lib" and "builtMachinePod lib cluster machine km = Inr pod"
  shows "om_Name (pod_Meta pod) = machinePodName km"
    and "om_Namespace (pod_Meta pod) = om_Namespace (cl_Meta cluster)"
    and "controlledBy lib (pod_Meta pod) (om_UID (km_Meta km))"
    and "om_Labels (pod_Meta pod) = Some (machinePodLabels lib cluster machine)"
    and "ps_RestartPolicy (pod_Spec pod) = ''Never''"
    and "lib_GetControllerOf lib (pod_Meta pod) = Some (ownerOf KubernetesMachineKind (km_Meta km))"
proof -
  obtain base meta pod1 pod2 i where b: "getMachinePodBase lib cluster km = Inr base"
    and m: "meta = (if lib_IsControlPlaneMachine lib machine then pod_Meta (setControlPlaneLabel base)
             else pod_Meta base)"
    and u: "updateStorage lib km (base\<lparr>pod_Meta := meta\<rparr>) = Inr pod1"
    and k: "setKindContainerBase machine pod1 = (pod2, i)"
    and p: "pod = finishPod lib cluster machine i pod2"
    using assms by (rule builtMachinePod_eq)
  note bs = getMachinePodBase_spec [OF assms(1) b]
  have meta: "pod_Meta pod = meta"
    using setKindContainerBase_containers(2) [OF k] storedPod_spec(4) [OF assms(1) b u] by (simp add: p)
  have ctrl: "lib_GetControllerOf lib meta = lib_GetControllerOf lib (pod_Meta base)"
    by (rule kube_contract.controller_of [OF assms(1)]) (simp add: m setControlPlaneLabel_eq)
  then show "controlledBy lib (pod_Meta pod) (om_UID (km_Meta km))"
    using bs(4) by (simp add: meta controlledBy_def)
  show "lib_GetControllerOf lib (pod_Meta pod) = Some (ownerOf KubernetesMachineKind (km_Meta km))"
    using bs(9) by (simp add: meta ctrl)
  show "om_Name (pod_Meta pod) = machinePodName km"
    "om_Namespace (pod_Meta pod) = om_Namespace (cl_Meta cluster)"
    "om_Labels (pod_Meta pod) = Some (machinePodLabels lib cluster machine)"
    using bs(1,2,3) by (simp_all add: meta m setControlPlaneLabel_eq machinePodLabels_def)
  show "ps_RestartPolicy (pod_Spec pod) = ''Never''"
    using setKindContainerBase_containers(4) [OF k] storedPod_spec(5) [OF assms(1) b u] by (simp add: p)
qed

text \<open>The kind container of the finished Pod, and its neighbours.\<close>

definition finishContainer :: "kube_lib \<Rightarrow> Cluster \<Rightarrow> Machine \<Rightarrow> Container \<Rightarrow> Container" where
  "finishContainer lib cluster machine c =
     (if lib_IsControlPlaneMachine lib machine then apiServerContainer cluster c else c)"

lemma finishContainer_simps [simp]:
  "c_Name (finishContainer lib cluster machine c) = c_Name c"
  "c_Image (finishContainer lib cluster machine c) = c_Image c"
  "c_Resources (finishContainer lib cluster machine c) = c_Resources c"
  "c_SecurityContext (finishContainer lib cluster machine c) = c_SecurityContext c"
  "c_TTY (finishContainer lib cluster machine c) = c_TTY c"
  by (simp_all add: finishContainer_def)

lemma builtMachinePod_containers:
  assumes "kube_contract lib" and "builtMachinePod lib cluster machine km = Inr pod"
    and "cs = elems (ps_Containers (kms_PodSpec (km_Spec km)))"
  obtains res i c where
    "podContainers pod = (if findLastIndex (\<lambda>c. c_Name c = kindContainerName) cs = None
        then cs @ [emptyContainer] else cs)
       [i := finishContainer lib cluster machine (kindContainerOf machine res c)]"
    "i = (case findLastIndex (\<lambda>c. c_Name c = kindContainerName) cs of None \<Rightarrow> 0 | Some i \<Rightarrow> i)"
    "c = (if findLastIndex (\<lambda>c. c_Name c = kindContainerName) cs = None
        then cs @ [emptyContainer] else cs) ! i"
    "i < length (podContainers pod)"
proof -
  obtain base meta pod1 pod2 i where b: "getMachinePodBase lib cluster km = Inr base"
    and u: "updateStorage lib km (base\<lparr>pod_Meta := meta\<rparr>) = Inr pod1"
    and k: "setKindContainerBase machine pod1 = (pod2, i)" and i: "i < length (podContainers pod2)"
    and p: "pod = finishPod lib cluster machine i pod2"
    using assms(1,2) by (rule builtMachinePod_eq)
  have cs1: "podContainers pod1 = cs"
    using storedPod_spec(2) [OF assms(1) b u] assms(3) by simp
  let ?cs = "if findLastIndex (\<lambda>c. c_Name c = kindContainerName) cs = None
        then cs @ [emptyContainer] else cs"
  have f: "podContainers (fst (findKindContainer pod1)) = ?cs"
    "snd (findKindContainer pod1) =
       (case findLastIndex (\<lambda>c. c_Name c = kindContainerName) cs of None \<Rightarrow> 0 | Some i \<Rightarrow> i)"
    by (auto simp: findKindContainer_def cs1 Let_def split: option.splits)
  obtain res where pc: "podContainers pod2 = ?cs[i := kindContainerOf machine res (?cs ! i)]"
    using setKindContainerBase_containers(1) [OF k] by (auto simp: f(1))
  have "podContainers pod = ?cs[i := finishContainer lib cluster machine (kindContainerOf machine res (?cs ! i))]"
    using i by (auto simp: p finishPod_def finishContainer_def podContainers_updateContainer pc)
  moreover have "i < length (podContainers pod)"
    using i by (auto simp: p finishPod_def podContainers_updateContainer)
  ultimately show thesis
    using that setKindContainerBase_containers(3) [OF k] f(2) by metis
qed

lemma builtMachinePod_wf:
  assumes "kube_contract lib" and "wfPodSpec (templateNames km) (kms_PodSpec (km_Spec km))"
    and "builtMachinePod lib cluster machine km = Inr pod"
  shows "wfPodSpec {} (pod_Spec pod)"
  using assms controlPlaneMachinePod_wf workerMachinePod_wf
  by (auto simp: builtMachinePod_def split: if_splits)

lemma builtMachinePod_not_best_effort:
  assumes "kube_contract lib" and "builtMachinePod lib cluster machine km = Inr pod"
  shows "GetPodQOS pod \<noteq> PodQOSBestEffort"
proof -
  obtain pod1 pod2 i where k: "setKindContainerBase machine pod1 = (pod2, i)"
    and i: "i < length (podContainers pod2)" and p: "pod = finishPod lib cluster machine i pod2"
    using assms by (rule builtMachinePod_eq)
  have "GetPodQOS pod = PodQOSBestEffort \<longleftrightarrow> GetPodQOS pod2 = PodQOSBestEffort"
    using i by (intro BestEffort_cong)
      (simp_all add: p finishPod_def podContainers_updateContainer map_update list_update_same_conv)
  then show ?thesis using setKindContainerBase_not_best_effort [of machine pod1] k by simp
qed

subsection \<open>Sample objects\<close>

text \<open>Objects of one small cluster, on which the properties are applied.\<close>

definition sampleMeta :: "string \<Rightarrow> string \<Rightarrow> ObjectMeta" where
  "sampleMeta name uid = emptyObjectMeta\<lparr>om_Name := name, om_Namespace := ''ns'', om_UID := uid\<rparr>"

definition sampleCluster :: Cluster where
  "sampleCluster = \<lparr>cl_Meta = sampleMeta ''c'' ''u0'', cl_Paused = False, cl_ClusterNetwork = None,
     cl_InfrastructureRef = Some \<lparr>ref_Name = ''kc'', ref_Rest = []\<rparr>, cl_InfrastructureReady = True,
     cl_Rest = []\<rparr>"

definition sampleMachine :: "bool \<Rightarrow> Machine" where
  "sampleMachine cp = \<lparr>mc_Meta = (sampleMeta ''m'' ''u1'')\<lparr>om_Labels :=
       Some (if cp then [MachineControlPlaneLabelName \<mapsto> []] else Map.empty)\<rparr>,
     mc_Version = Some ''v1.17.0'', mc_DataSecretName = Some ''data'',
     mc_InfrastructureRef = \<lparr>ref_Name = ''km'', ref_Rest = []\<rparr>, mc_Rest = []\<rparr>"

definition sampleContainer :: "string \<Rightarrow> Container" where
  "sampleContainer name = emptyContainer\<lparr>c_Name := name, c_Image := ''img''\<rparr>"

definition sampleKM :: "string list \<Rightarrow> KubernetesMachine" where
  "sampleKM names = \<lparr>km_TypeMeta = [], km_Meta = sampleMeta ''km'' ''u2'',
     km_Spec = \<lparr>kms_ProviderID = None, kms_AllowRecreation = False,
       kms_PodSpec = \<lparr>ps_Containers = Some (map sampleContainer names), ps_InitContainers = [],
         ps_Volumes = [], ps_RestartPolicy = [], ps_Hostname = [], ps_Rest = []\<rparr>,
       kms_VolumeClaimTemplates = [\<lparr>pvc_Meta = sampleMeta ''data'' [], pvc_Rest = []\<rparr>]\<rparr>,
     km_Status = \<lparr>kmst_Version = None, kmst_FailureReason = None, kmst_FailureMessage = None,
       kmst_Phase = [], kmst_Ready = False\<rparr>\<rparr>"

lemma builtMachinePod_succeeds:
  assumes "getMachinePodBase lib cluster km = Inr base" and "getPersistentVolumeClaims lib km = Inr claims"
  shows "\<exists>pod. builtMachinePod lib cluster machine km = Inr pod"
  using assms
  by (auto simp: builtMachinePod_def controlPlaneMachinePod_def workerMachinePod_def
        updateStorage_def Let_def split: prod.splits if_splits)

text \<open>With the reference helpers, templates that no controller owns make the Pod buildable.\<close>

lemma refLib_claims:
  assumes "\<forall>t \<in> set ts. om_OwnerReferences (pvc_Meta t) = []"
  shows "\<exists>cs. claimsLoop refLib km ts claims = Inr cs"
  using assms
  by (induction ts arbitrary: claims) (simp_all add: claimOfTemplate_def refSetController_def)

lemma refLib_builds:
  assumes "\<forall>t \<in> set (kms_VolumeClaimTemplates (km_Spec km)). om_OwnerReferences (pvc_Meta t) = []"
  shows "\<exists>pod. builtMachinePod refLib cluster machine km = Inr pod"
proof -
  have "\<exists>pod. getMachinePodBase refLib cluster km = Inr pod"
    by (simp add: getMachinePodBase_def refSetController_def Let_def emptyObjectMeta_def)
  then show ?thesis
    using refLib_claims [OF assms, of km "[]"] builtMachinePod_succeeds
    unfolding getPersistentVolumeClaims_def by metis
qed

lemma sample_templates:
  "\<forall>t \<in> set (kms_VolumeClaimTemplates (km_Spec (sampleKM names))). om_OwnerReferences (pvc_Meta t) = []"
  by (simp add: sampleKM_def sampleMeta_def emptyObjectMeta_def)

text \<open>The Pods a run of \<open>createMachinePod\<close> has asked for.\<close>

definition requestedPods :: "event list \<Rightarrow> Pod list" where
  "requestedPods evs = concat (map (\<lambda>e. case e of EvCreatePod pod _ \<Rightarrow> [pod] | _ \<Rightarrow> []) evs)"

lemma createMachinePod_requests:
  assumes "pod \<in> set (requestedPods (snd (snd (createMachinePod lib cli cluster machine km (w, [])))))"
  shows "builtMachinePod lib cluster machine km = Inr pod"
proof -
  obtain res err s' where run: "createMachinePod lib cli cluster machine km (w, []) = ((res, err), s')"
    by (metis surj_pair)
  show ?thesis
    using createMachinePod_log [OF run] assms by (auto simp: run requestedPods_def)
qed

abbreviation sampleRequests :: "bool \<Rightarrow> string list \<Rightarrow> Pod list" where
  "sampleRequests cp names \<equiv> requestedPods (snd (snd (createMachinePod refLib emptyClient sampleCluster
     (sampleMachine cp) (sampleKM names) ((), []))))"

lemma sample_requests:
  obtains pod where "sampleRequests cp names = [pod]" and "pod \<in> set (sampleRequests cp names)"
proof -
  have "\<exists>pod. sampleRequests cp names = [pod]"
    using refLib_builds [OF sample_templates, of sampleCluster "sampleMachine cp" names]
    by (auto simp: createMachinePod_eq createBuiltPod_def perform_def requestedPods_def split: prod.splits)
  then show thesis using that by auto
qed

lemma findLastIndex_split:
  "P k \<Longrightarrow> \<forall>x \<in> set post. \<not> P x \<Longrightarrow> findLastIndex P (pre @ k # post) = Some (length pre)"
  by (induction pre) (auto simp: findLastIndex_None split: option.splits)

lemma finishContainer_mounts:
  "set (c_VolumeMounts c) \<subseteq> set (c_VolumeMounts (finishContainer lib cluster machine c))"
  "vm_MountPath ` set (c_VolumeMounts (finishContainer lib cluster machine c)) =
     vm_MountPath ` set (c_VolumeMounts c) \<union>
     (if lib_IsControlPlaneMachine lib machine then {varLibEtcdVolumeMountPath} else {})"
  by (auto simp: finishContainer_def mounts.keys_add etcdMount_def mountOf_def intro: mounts.add_mono)

text \<open>What the user's kind container is turned into.\<close>

definition kindEnsured :: "kube_lib \<Rightarrow> Cluster \<Rightarrow> Machine \<Rightarrow> Container \<Rightarrow> Container \<Rightarrow> bool" where
  "kindEnsured lib cluster machine k k' \<longleftrightarrow>
     c_Name k' = kindContainerName \<and> c_Image k' = machinePodImage machine \<and> c_TTY k' \<and>
     set (c_VolumeMounts k) \<subseteq> set (c_VolumeMounts k') \<and>
     vm_MountPath ` set (c_VolumeMounts k') = vm_MountPath ` set (c_VolumeMounts k) \<union>
       vm_MountPath ` set kindMounts \<union>
       (if lib_IsControlPlaneMachine lib machine then {varLibEtcdVolumeMountPath} else {}) \<and>
     (\<exists>sc. c_SecurityContext k' = Some sc \<and> sc_Privileged sc \<noteq> None) \<and>
     (lib_IsControlPlaneMachine lib machine \<longrightarrow>
        apiServerPortName \<in> cp_Name ` set (c_Ports k') \<and> c_ReadinessProbe k' \<noteq> None)"

lemma kindEnsured_finish:
  "kindEnsured lib cluster machine c (finishContainer lib cluster machine (kindContainerOf machine res c))"
proof -
  let ?k = "kindContainerOf machine res c"
  have "set (c_VolumeMounts c) \<subseteq> set (c_VolumeMounts ?k)"
    by (auto intro: mounts.fold_mono)
  then have sub: "set (c_VolumeMounts c) \<subseteq> set (c_VolumeMounts (finishContainer lib cluster machine ?k))"
    using finishContainer_mounts(1) by blast
  have probe: "c_ReadinessProbe (apiServerContainer cluster c) \<noteq> None" for c
    by (simp add: apiServerContainer_def addAPIServerPort_def setReadinessProbe_def split: option.splits)
  show ?thesis
    using sub kindContainerOf_privileged [of machine res c] apiServerContainer_port(1) probe
    by (simp add: kindEnsured_def finishContainer_mounts(2) mounts.keys_fold) (simp add: finishContainer_def)
qed

subsection \<open>Properties\<close>

text \<open>
  C26. No Pod that \<open>createMachinePod\<close> asks the API server for is of the best-effort class,
  whatever containers, requests and limits the user's Pod spec has.
\<close>

theorem machinePod_never_best_effort:
  assumes "kube_contract lib"
    and "pod \<in> set (requestedPods (snd (snd (createMachinePod lib cli cluster machine km (w, [])))))"
  shows "GetPodQOS pod \<noteq> PodQOSBestEffort"
  using builtMachinePod_not_best_effort [OF assms(1) createMachinePod_requests [OF assms(2)]] .

theorem machinePod_never_best_effort_witness:
  "\<exists>pod. sampleRequests True [] = [pod] \<and> GetPodQOS pod \<noteq> PodQOSBestEffort"
proof -
  obtain pod where "sampleRequests True [] = [pod]"
    and m: "pod \<in> set (sampleRequests True [])" by (rule sample_requests)
  then show ?thesis
    using machinePod_never_best_effort [OF ref.kube_contract_axioms m] by blast
qed

text \<open>
  C27. When the user's Pod spec is well formed (volume names distinct, every mount with a path of its
  own and naming a declared volume or a claim template), so is the Pod that is created: the
  default volumes, the claim volumes that replace user volumes, and all mounts the controller adds
  fit together, for workers and for control plane machines.
\<close>

theorem machinePod_well_formed:
  assumes "kube_contract lib" and "wfPodSpec (templateNames km) (kms_PodSpec (km_Spec km))"
    and "pod \<in> set (requestedPods (snd (snd (createMachinePod lib cli cluster machine km (w, [])))))"
  shows "wfPodSpec {} (pod_Spec pod)"
  using builtMachinePod_wf [OF assms(1,2) createMachinePod_requests [OF assms(3)]] .

theorem machinePod_well_formed_witness:
  "\<exists>pod. sampleRequests True [''kind''] = [pod] \<and> wfPodSpec {} (pod_Spec pod)"
proof -
  have "wfPodSpec (templateNames (sampleKM [''kind''])) (kms_PodSpec (km_Spec (sampleKM [''kind''])))"
    by (simp add: wfPodSpec_def wfContainer_def sampleKM_def sampleContainer_def emptyContainer_def)
  moreover obtain pod where "sampleRequests True [''kind''] = [pod]"
    and m: "pod \<in> set (sampleRequests True [''kind''])" by (rule sample_requests)
  ultimately show ?thesis
    using machinePod_well_formed [OF ref.kube_contract_axioms _ m] by blast
qed

text \<open>
  The identity of a machine Pod: the name of its KubernetesMachine, the namespace of the
  Cluster, the KubernetesMachine as controller, exactly the labels by which the Service and the
  controllers find it, and no restarts.
\<close>

theorem machinePod_identity:
  assumes "kube_contract lib"
    and "pod \<in> set (requestedPods (snd (snd (createMachinePod lib cli cluster machine km (w, [])))))"
  shows "om_Name (pod_Meta pod) = machinePodName km \<and>
    om_Namespace (pod_Meta pod) = om_Namespace (cl_Meta cluster) \<and>
    controlledBy lib (pod_Meta pod) (om_UID (km_Meta km)) \<and>
    om_Labels (pod_Meta pod) = Some (machinePodLabels lib cluster machine) \<and>
    ps_RestartPolicy (pod_Spec pod) = ''Never''"
  using builtMachinePod_meta [OF assms(1) createMachinePod_requests [OF assms(2)]]
  by (intro conjI)

theorem machinePod_identity_witness:
  "\<exists>pod. sampleRequests True [] = [pod] \<and> om_Name (pod_Meta pod) = ''km'' \<and>
      om_Namespace (pod_Meta pod) = ''ns'' \<and> controlledBy refLib (pod_Meta pod) ''u2''"
proof -
  obtain pod where "sampleRequests True [] = [pod]"
    and m: "pod \<in> set (sampleRequests True [])" by (rule sample_requests)
  then show ?thesis
    using machinePod_identity [OF ref.kube_contract_axioms m]
    by (auto simp: machinePodName_def sampleKM_def sampleMeta_def sampleCluster_def)
qed

text \<open>
  When the user's Pod spec has a container named \<open>kind\<close>, the last such container is made the
  machine's (name, image of the machine's version, TTY, privileged set, all mounts there, and for a
  control plane machine the API server's port and a readiness probe), keeping the user's mounts, and
  every other container is passed on unchanged and in order.
\<close>

theorem machinePod_kind_container:
  assumes "kube_contract lib"
    and "pod \<in> set (requestedPods (snd (snd (createMachinePod lib cli cluster machine km (w, [])))))"
    and "elems (ps_Containers (kms_PodSpec (km_Spec km))) = pre @ k # post"
    and "c_Name k = kindContainerName" and "kindContainerName \<notin> c_Name ` set post"
  shows "\<exists>k'. podContainers pod = pre @ k' # post \<and> kindEnsured lib cluster machine k k'"
proof -
  have found: "findLastIndex (\<lambda>c. c_Name c = kindContainerName) (pre @ k # post) = Some (length pre)"
    by (rule findLastIndex_split) (use assms(4,5) in \<open>auto simp: image_iff\<close>)
  obtain res where "podContainers pod = (pre @ k # post)[length pre :=
      finishContainer lib cluster machine (kindContainerOf machine res k)]"
    using builtMachinePod_containers [OF assms(1) createMachinePod_requests [OF assms(2)] assms(3) [symmetric]]
    by (auto simp: found)
  then show ?thesis using kindEnsured_finish by (auto simp: list_update_append)
qed

theorem machinePod_kind_container_witness:
  "\<exists>pod k'. sampleRequests True [''side'', ''kind'', ''log''] = [pod] \<and>
      podContainers pod = [sampleContainer ''side'', k', sampleContainer ''log''] \<and>
      kindEnsured refLib sampleCluster (sampleMachine True) (sampleContainer ''kind'') k'"
proof -
  let ?km = "sampleKM [''side'', ''kind'', ''log'']"
  obtain pod where r: "sampleRequests True [''side'', ''kind'', ''log''] = [pod]"
    and m: "pod \<in> set (sampleRequests True [''side'', ''kind'', ''log''])" by (rule sample_requests)
  have cs: "elems (ps_Containers (kms_PodSpec (km_Spec ?km))) =
      [sampleContainer ''side''] @ sampleContainer ''kind'' # [sampleContainer ''log'']"
    by (simp add: sampleKM_def)
  have "c_Name (sampleContainer ''kind'') = kindContainerName"
    "kindContainerName \<notin> c_Name ` set [sampleContainer ''log'']"
    by (simp_all add: sampleContainer_def kindContainerName_def)
  from machinePod_kind_container [OF ref.kube_contract_axioms m cs this] r
  show ?thesis by auto
qed

text \<open>
  When the user's Pod spec has no containers, the Pod has exactly one, the kind container.
\<close>

theorem machinePod_only_kind_container:
  assumes "kube_contract lib"
    and "pod \<in> set (requestedPods (snd (snd (createMachinePod lib cli cluster machine km (w, [])))))"
    and "elems (ps_Containers (kms_PodSpec (km_Spec km))) = []"
  shows "\<exists>k. podContainers pod = [k] \<and> kindEnsured lib cluster machine emptyContainer k"
proof -
  obtain res where "podContainers pod =
      [finishContainer lib cluster machine (kindContainerOf machine res emptyContainer)]"
    using builtMachinePod_containers [OF assms(1) createMachinePod_requests [OF assms(2)] assms(3) [symmetric]]
    by auto
  then show ?thesis using kindEnsured_finish by auto
qed

theorem machinePod_only_kind_container_witness:
  "\<exists>pod k. sampleRequests False [] = [pod] \<and> podContainers pod = [k] \<and>
      kindEnsured refLib sampleCluster (sampleMachine False) emptyContainer k"
proof -
  obtain pod where r: "sampleRequests False [] = [pod]"
    and m: "pod \<in> set (sampleRequests False [])" by (rule sample_requests)
  have "elems (ps_Containers (kms_PodSpec (km_Spec (sampleKM [])))) = []" by (simp add: sampleKM_def)
  from machinePod_only_kind_container [OF ref.kube_contract_axioms m this] r
  show ?thesis by auto
qed

text \<open>
  When the user's Pod spec has containers, none of them named \<open>kind\<close>, the first one is
  overwritten with the kind container (its own name and image are lost) and an empty, nameless
  container is left at the end: the index of the appended container is computed from a variable
  that the loop shadows.
\<close>

theorem machinePod_sidecar_overwritten:
  assumes "kube_contract lib"
    and "pod \<in> set (requestedPods (snd (snd (createMachinePod lib cli cluster machine km (w, [])))))"
    and "elems (ps_Containers (kms_PodSpec (km_Spec km))) = c # cs"
    and "kindContainerName \<notin> c_Name ` set (c # cs)"
  shows "\<exists>k. podContainers pod = k # cs @ [emptyContainer] \<and> kindEnsured lib cluster machine c k"
proof -
  have none: "findLastIndex (\<lambda>c. c_Name c = kindContainerName) (c # cs) = None"
    using assms(4) unfolding findLastIndex_None by (metis image_eqI)
  obtain res where "podContainers pod =
      finishContainer lib cluster machine (kindContainerOf machine res c) # cs @ [emptyContainer]"
    using builtMachinePod_containers [OF assms(1) createMachinePod_requests [OF assms(2)] assms(3) [symmetric]]
    by (auto simp: none simp del: findLastIndex.simps)
  then show ?thesis using kindEnsured_finish by auto
qed

theorem machinePod_sidecar_overwritten_witness:
  "\<exists>pod k. sampleRequests False [''side''] = [pod] \<and>
      podContainers pod = [k, emptyContainer] \<and> c_Name k = ''kind'' \<and> c_Image k = ''kindest/node:v1.17.0''"
proof -
  obtain pod where r: "sampleRequests False [''side''] = [pod]"
    and m: "pod \<in> set (sampleRequests False [''side''])" by (rule sample_requests)
  have cs: "elems (ps_Containers (kms_PodSpec (km_Spec (sampleKM [''side''])))) = [sampleContainer ''side'']"
    by (simp add: sampleKM_def)
  have nk: "kindContainerName \<notin> c_Name ` set [sampleContainer ''side'']"
    by (simp add: sampleContainer_def kindContainerName_def)
  obtain k where k: "podContainers pod = [k, emptyContainer]"
    "kindEnsured refLib sampleCluster (sampleMachine False) (sampleContainer ''side'') k"
    using machinePod_sidecar_overwritten [OF ref.kube_contract_axioms m cs nk] by auto
  have "c_Name k = ''kind''" "c_Image k = ''kindest/node:v1.17.0''"
    using k(2) by (simp_all add: kindEnsured_def kindContainerName_def machinePodImage_def
        sampleMachine_def defaultImageName_def)
  with r k(1) show ?thesis by auto
qed

end
