(* ===== verification/Pod_Status.thy ===== *)
theory Pod_Status
  imports Kube_Objects
begin

text \<open>
  The Pod status helpers of \<open>src/pkg/utils/pod.go\<close>: the status of a container by name and the
  Ready condition of a Pod.
\<close>

text \<open>Both loops return at the first match. \<open>GetPodConditionFromList\<close> returns the index too.\<close>

fun GetContainerStatus :: "ContainerStatus list \<Rightarrow> string \<Rightarrow> ContainerStatus \<times> bool" where
  "GetContainerStatus [] name = (emptyContainerStatus, False)"
| "GetContainerStatus (s # ss) name =
     (if cs_Name s = name then (s, True) else GetContainerStatus ss name)"

fun conditionLoop :: "nat \<Rightarrow> PodCondition list \<Rightarrow> string \<Rightarrow> int \<times> PodCondition option" where
  "conditionLoop i [] ty = (-1, None)"
| "conditionLoop i (c # cs) ty =
     (if pc_Type c = ty then (int i, Some c) else conditionLoop (Suc i) cs ty)"

definition GetPodConditionFromList ::
  "PodCondition slice \<Rightarrow> string \<Rightarrow> int \<times> PodCondition option" where
  "GetPodConditionFromList conditions ty =
     (case conditions of None \<Rightarrow> (-1, None) | Some cs \<Rightarrow> conditionLoop 0 cs ty)"

definition GetPodCondition :: "PodStatus option \<Rightarrow> string \<Rightarrow> int \<times> PodCondition option" where
  "GetPodCondition status ty =
     (case status of None \<Rightarrow> (-1, None)
      | Some st \<Rightarrow> GetPodConditionFromList (pst_Conditions st) ty)"

abbreviation PodReady :: string where "PodReady \<equiv> ''Ready''"
abbreviation ConditionTrue :: string where "ConditionTrue \<equiv> ''True''"

definition GetPodReadyCondition :: "PodStatus \<Rightarrow> PodCondition option" where
  "GetPodReadyCondition status = snd (GetPodCondition (Some status) PodReady)"

definition IsPodReadyConditionTrue :: "PodStatus \<Rightarrow> bool" where
  "IsPodReadyConditionTrue status =
     (case GetPodReadyCondition status of None \<Rightarrow> False | Some c \<Rightarrow> pc_Status c = ConditionTrue)"

definition IsPodReady :: "Pod \<Rightarrow> bool" where
  "IsPodReady pod = IsPodReadyConditionTrue (pod_Status pod)"

subsection \<open>What the loops find\<close>

lemma GetContainerStatus_found:
  "GetContainerStatus ss name = (s, True) \<Longrightarrow> s \<in> set ss \<and> cs_Name s = name"
  by (induction ss) (auto split: if_splits)

lemma GetContainerStatus_missing:
  "snd (GetContainerStatus ss name) \<longleftrightarrow> name \<in> cs_Name ` set ss"
  by (induction ss) auto

lemma conditionLoop_spec:
  "conditionLoop i cs ty =
     (case find (\<lambda>c. pc_Type c = ty) cs of
        None \<Rightarrow> (-1, None)
      | Some c \<Rightarrow> (int (i + length (takeWhile (\<lambda>c. pc_Type c \<noteq> ty) cs)), Some c))"
  by (induction cs arbitrary: i) (auto split: option.splits)

lemma IsPodReady_iff_find:
  "IsPodReady pod \<longleftrightarrow>
     (\<exists>c. find (\<lambda>c. pc_Type c = PodReady) (elems (pst_Conditions (pod_Status pod))) = Some c \<and>
        pc_Status c = ConditionTrue)"
  by (cases "pst_Conditions (pod_Status pod)")
    (auto simp: IsPodReady_def IsPodReadyConditionTrue_def GetPodReadyCondition_def
      GetPodCondition_def GetPodConditionFromList_def conditionLoop_spec split: option.splits)

end
