(* ===== verification/Pod_Exec.thy ===== *)
theory Pod_Exec
  imports Machine_Pod
begin

text \<open>
  Running a command in a container: \<open>src/pkg/pod/exec.go\<close>, and \<open>kindContainerExec\<close> of
  \<open>src/controllers/kubernetesmachine_utils.go\<close> which runs one in the kind container of a Pod. A
  reader is the text it yields, a writer the text written to it so far; both may be nil. The
  clients and the REST configuration the Go structs carry are the parameter \<open>cli\<close>.
\<close>

record containerCmder =
  cmder_podName :: string
  cmder_namespace :: string
  cmder_containerName :: string

record containerCmd =
  cmd_podName :: string
  cmd_namespace :: string
  cmd_containerName :: string
  cmd_command :: "string list"
  cmd_stdin :: "string option"
  cmd_stdout :: "string option"
  cmd_stderr :: "string option"
  cmd_ctx :: "string option"

definition ContainerCmder :: "string \<Rightarrow> string \<Rightarrow> string \<Rightarrow> containerCmder" where
  "ContainerCmder podName namespace containerName =
     \<lparr>cmder_podName = podName, cmder_namespace = namespace, cmder_containerName = containerName\<rparr>"

definition cmder_Command :: "containerCmder \<Rightarrow> string \<Rightarrow> string list \<Rightarrow> containerCmd" where
  "cmder_Command c command args =
     \<lparr>cmd_podName = cmder_podName c, cmd_namespace = cmder_namespace c,
      cmd_containerName = cmder_containerName c, cmd_command = [command] @ args,
      cmd_stdin = None, cmd_stdout = None, cmd_stderr = None, cmd_ctx = None\<rparr>"

definition cmder_CommandContext ::
  "containerCmder \<Rightarrow> string \<Rightarrow> string \<Rightarrow> string list \<Rightarrow> containerCmd" where
  "cmder_CommandContext c ctx command args =
     \<lparr>cmd_podName = cmder_podName c, cmd_namespace = cmder_namespace c,
      cmd_containerName = cmder_containerName c, cmd_command = [command] @ args,
      cmd_stdin = None, cmd_stdout = None, cmd_stderr = None, cmd_ctx = Some ctx\<rparr>"

definition cmd_SetEnv :: "string list \<Rightarrow> containerCmd \<Rightarrow> containerCmd" where
  "cmd_SetEnv env c = c"

definition cmd_SetStdin :: "string option \<Rightarrow> containerCmd \<Rightarrow> containerCmd" where
  "cmd_SetStdin r c = c\<lparr>cmd_stdin := r\<rparr>"

definition cmd_SetStdout :: "string option \<Rightarrow> containerCmd \<Rightarrow> containerCmd" where
  "cmd_SetStdout w c = c\<lparr>cmd_stdout := w\<rparr>"

definition cmd_SetStderr :: "string option \<Rightarrow> containerCmd \<Rightarrow> containerCmd" where
  "cmd_SetStderr w c = c\<lparr>cmd_stderr := w\<rparr>"

definition execRequest :: "containerCmd \<Rightarrow> ExecRequest" where
  "execRequest c =
     \<lparr>er_PodName = cmd_podName c, er_Namespace = cmd_namespace c,
      er_Options = \<lparr>peo_Container = cmd_containerName c, peo_Command = cmd_command c,
        peo_Stdin = (cmd_stdin c \<noteq> None), peo_Stdout = (cmd_stdout c \<noteq> None),
        peo_Stderr = (cmd_stderr c \<noteq> None), peo_TTY = False\<rparr>,
      er_Stdin = cmd_stdin c\<rparr>"

text \<open>A writer that was set receives what the stream wrote; without one nothing is kept.\<close>

definition writeTo :: "string \<Rightarrow> string option \<Rightarrow> string option" where
  "writeTo out w = map_option (\<lambda>old. old @ out) w"

definition cmd_Run ::
  "'w kube_client \<Rightarrow> containerCmd \<Rightarrow> 'w st \<Rightarrow> (go_error option \<times> containerCmd) \<times> 'w st" where
  "cmd_Run cli c s =
     (case perform (EvExec (execRequest c)) (cli_Exec cli (execRequest c)) s of
        (NoExecutor err, s1) \<Rightarrow> ((Some err, c), s1)
      | (Streamed err out errOut, s1) \<Rightarrow>
          ((err, c\<lparr>cmd_stdout := writeTo out (cmd_stdout c),
                   cmd_stderr := writeTo errOut (cmd_stderr c)\<rparr>), s1))"

definition bufferString :: "string option \<Rightarrow> string" where
  "bufferString w = (case w of None \<Rightarrow> [] | Some b \<Rightarrow> b)"

definition kindContainerExec ::
  "'w kube_client \<Rightarrow> Pod \<Rightarrow> string \<Rightarrow> string list \<Rightarrow> 'w st \<Rightarrow> go_error option \<times> 'w st" where
  "kindContainerExec cli machinePod command args s =
     (let cmder = ContainerCmder (om_Name (pod_Meta machinePod)) (om_Namespace (pod_Meta machinePod))
                    kindContainerName;
          cmd = cmd_SetStderr (Some []) (cmd_SetStdout (Some []) (cmder_Command cmder command args))
      in case cmd_Run cli cmd s of
           ((Some err, cmd'), s1) \<Rightarrow>
             (if bufferString (cmd_stderr cmd') \<noteq> []
              then (Some (GoError (''Exec stderr: '' @ bufferString (cmd_stderr cmd'))), s1)
              else (Some (GoError (''Exec stdout: '' @ bufferString (cmd_stdout cmd'))), s1))
         | ((None, cmd'), s1) \<Rightarrow> (None, s1))"

subsection \<open>Facts\<close>

text \<open>The request \<open>kindContainerExec\<close> makes, and what an answer to it counts as.\<close>

definition kindExecRequest :: "Pod \<Rightarrow> string list \<Rightarrow> ExecRequest" where
  "kindExecRequest pod command =
     \<lparr>er_PodName = om_Name (pod_Meta pod), er_Namespace = om_Namespace (pod_Meta pod),
      er_Options = \<lparr>peo_Container = kindContainerName, peo_Command = command, peo_Stdin = False,
        peo_Stdout = True, peo_Stderr = True, peo_TTY = False\<rparr>,
      er_Stdin = None\<rparr>"

fun execSucceeded :: "ExecAnswer \<Rightarrow> bool" where
  "execSucceeded (NoExecutor _) = False"
| "execSucceeded (Streamed err _ _) = (err = None)"

fun execError :: "ExecAnswer \<Rightarrow> go_error option" where
  "execError (NoExecutor _) = Some (GoError ''Exec stdout: '')"
| "execError (Streamed None _ _) = None"
| "execError (Streamed (Some _) out errOut) =
     Some (GoError (if errOut \<noteq> [] then ''Exec stderr: '' @ errOut else ''Exec stdout: '' @ out))"

lemma execError_None_iff [simp]: "execError a = None \<longleftrightarrow> execSucceeded a"
  by (cases a rule: execError.cases) auto

lemma kindContainerExec_eq:
  "kindContainerExec cli pod command args s =
     (case perform (EvExec (kindExecRequest pod (command # args)))
             (cli_Exec cli (kindExecRequest pod (command # args))) s of
        (a, s1) \<Rightarrow> (execError a, s1))"
proof -
  have "execRequest (cmd_SetStderr (Some []) (cmd_SetStdout (Some [])
      (cmder_Command (ContainerCmder (om_Name (pod_Meta pod)) (om_Namespace (pod_Meta pod))
        kindContainerName) command args))) = kindExecRequest pod (command # args)"
    by (simp add: execRequest_def kindExecRequest_def cmd_SetStderr_def cmd_SetStdout_def
        cmder_Command_def ContainerCmder_def)
  moreover obtain a s1 where call: "perform (EvExec (kindExecRequest pod (command # args)))
      (cli_Exec cli (kindExecRequest pod (command # args))) s = (a, s1)"
    by (metis surj_pair)
  ultimately show ?thesis
    by (cases a rule: execError.cases)
      (simp_all add: kindContainerExec_def cmd_Run_def Let_def cmd_SetStderr_def cmd_SetStdout_def
        cmder_Command_def ContainerCmder_def writeTo_def bufferString_def)
qed

lemma kindContainerExec_log:
  assumes "kindContainerExec cli pod command args s = (err, s')"
  obtains a where "snd s' = snd s @ [EvExec (kindExecRequest pod (command # args)) a]"
    and "err = execError a"
  using assms that by (auto simp: kindContainerExec_eq split: prod.splits dest!: perform_log)

end
