(* ===== verification/Go_Json.thy ===== *)
theory Go_Json
  imports Go_Strings
begin

text \<open>
  What the source uses of Go's \<open>encoding/json\<close>: \<open>json.Unmarshal\<close> of a document into a
  \<open>[]string\<close> or a \<open>string\<close>. As in Go, the whole document is checked first (a syntax error), and
  only then stored; a value that does not fit is an \<open>UnmarshalTypeError\<close>. The parser is recursive
  descent on fuel; \<open>parse_enough\<close> shows that the fuel \<open>json_parse\<close> supplies is never the reason
  for a failure.
\<close>

datatype json = JNull | JBool bool | JNum string | JStr string | JArr "json list"
  | JObj "(string \<times> json) list"

subsection \<open>Lexical elements\<close>

definition jsonSpace :: "char \<Rightarrow> bool" where
  "jsonSpace c \<longleftrightarrow> c = CHR 0x20 \<or> c = CHR 0x09 \<or> c = CHR 0x0D \<or> c = CHR 0x0A"

definition skipWs :: "string \<Rightarrow> string" where "skipWs s = dropWhile jsonSpace s"

definition isDigit :: "char \<Rightarrow> bool" where
  "isDigit c \<longleftrightarrow> 48 \<le> byte c \<and> byte c \<le> 57"

definition hexValue :: "char \<Rightarrow> nat option" where
  "hexValue c =
     (let b = byte c in
      if 48 \<le> b \<and> b \<le> 57 then Some (b - 48)
      else if 97 \<le> b \<and> b \<le> 102 then Some (b - 87)
      else if 65 \<le> b \<and> b \<le> 70 then Some (b - 55)
      else None)"

definition isHex :: "char \<Rightarrow> bool" where "isHex c \<longleftrightarrow> hexValue c \<noteq> None"

definition hex4 :: "char \<Rightarrow> char \<Rightarrow> char \<Rightarrow> char \<Rightarrow> nat" where
  "hex4 a b c d = the (hexValue a) * 4096 + the (hexValue b) * 256 + the (hexValue c) * 16 + the (hexValue d)"

text \<open>The bytes of a string literal up to its closing quote, and what follows it.\<close>

definition prepend :: "string \<Rightarrow> (string \<times> string) option \<Rightarrow> (string \<times> string) option" where
  "prepend p r = map_option (\<lambda>(b, rest). (p @ b, rest)) r"

function scanString :: "string \<Rightarrow> (string \<times> string) option" where
  "scanString s =
     (case s of
        [] \<Rightarrow> None
      | c # r \<Rightarrow>
          if c = CHR 0x22 then Some ([], r)
          else if c = CHR 0x5C then
            (case r of
               [] \<Rightarrow> None
             | e # r1 \<Rightarrow>
                 if e = CHR ''u'' then
                   if 4 \<le> length r1 \<and> list_all isHex (take 4 r1)
                   then prepend (c # e # take 4 r1) (scanString (drop 4 r1)) else None
                 else if e \<in> set [CHR ''b'', CHR ''f'', CHR ''n'', CHR ''r'', CHR ''t'', CHR 0x5C, CHR 0x2F, CHR 0x22]
                 then prepend [c, e] (scanString r1) else None)
          else if byte c < 32 then None
          else prepend [c] (scanString r))"
  by auto
termination by (relation "measure length") auto

declare scanString.simps [simp del]

definition unescape :: "char \<Rightarrow> char" where
  "unescape e =
     (if e = CHR ''b'' then CHR 0x08 else if e = CHR ''f'' then CHR 0x0C
      else if e = CHR ''n'' then CHR 0x0A else if e = CHR ''r'' then CHR 0x0D
      else if e = CHR ''t'' then CHR 0x09 else e)"

text \<open>A code unit that is half of a surrogate pair takes the other half from the next escape; a
  half on its own becomes the replacement character.\<close>

definition surrogate :: "nat \<Rightarrow> bool" where "surrogate r \<longleftrightarrow> 55296 \<le> r \<and> r < 57344"

definition joinSurrogates :: "nat \<Rightarrow> nat \<Rightarrow> nat option" where
  "joinSurrogates hi lo =
     (if 55296 \<le> hi \<and> hi < 56320 \<and> 56320 \<le> lo \<and> lo < 57344
      then Some ((hi - 55296) * 1024 + (lo - 56320) + 65536) else None)"

function unquote :: "string \<Rightarrow> string" where
  "unquote s =
     (case s of
        [] \<Rightarrow> []
      | c # r \<Rightarrow>
          if c = CHR 0x5C then
            (case r of
               e # h1 # h2 # h3 # h4 # rest \<Rightarrow>
                 if e = CHR ''u'' then
                   let u = hex4 h1 h2 h3 h4 in
                   if surrogate u then
                     (case rest of
                        b # v # g1 # g2 # g3 # g4 # rest2 \<Rightarrow>
                          if b = CHR 0x5C \<and> v = CHR ''u'' \<and> list_all isHex [g1, g2, g3, g4] then
                            (case joinSurrogates u (hex4 g1 g2 g3 g4) of
                               Some x \<Rightarrow> encodeRune x @ unquote rest2
                             | None \<Rightarrow> encodeRune RuneError @ unquote rest)
                          else encodeRune RuneError @ unquote rest
                      | _ \<Rightarrow> encodeRune RuneError @ unquote rest)
                   else encodeRune u @ unquote rest
                 else unescape e # unquote (h1 # h2 # h3 # h4 # rest)
             | e # r1 \<Rightarrow> unescape e # unquote r1
             | [] \<Rightarrow> [])
          else if byte c < 128 then c # unquote r
          else (let (x, n) = decodeRune (map byte (take 4 s))
                in encodeRune x @ unquote (drop (n - 1) r)))"
  by auto
termination by (relation "measure length") auto

declare unquote.simps [simp del]

text \<open>A number: its literal, and what follows it.\<close>

definition scanFraction :: "string \<Rightarrow> (string \<times> string) option" where
  "scanFraction s =
     (case s of
        c # r \<Rightarrow>
          if c = CHR 0x2E then
            (if takeWhile isDigit r = [] then None
             else Some (c # takeWhile isDigit r, dropWhile isDigit r))
          else Some ([], s)
      | [] \<Rightarrow> Some ([], []))"

definition scanExponent :: "string \<Rightarrow> (string \<times> string) option" where
  "scanExponent s =
     (case s of
        c # r \<Rightarrow>
          if c = CHR ''e'' \<or> c = CHR ''E'' then
            (let sign = (case r of d # _ \<Rightarrow> if d = CHR 0x2B \<or> d = CHR 0x2D then [d] else [] | [] \<Rightarrow> []);
                 r1 = drop (length sign) r
             in if takeWhile isDigit r1 = [] then None
                else Some (c # sign @ takeWhile isDigit r1, dropWhile isDigit r1))
          else Some ([], s)
      | [] \<Rightarrow> Some ([], []))"

definition scanNumber :: "string \<Rightarrow> (string \<times> string) option" where
  "scanNumber s =
     (let sign = (case s of c # _ \<Rightarrow> if c = CHR 0x2D then [c] else [] | [] \<Rightarrow> []);
          s1 = drop (length sign) s
      in case s1 of
           [] \<Rightarrow> None
         | c # r \<Rightarrow>
             if \<not> isDigit c then None
             else
               let digits = (if c = CHR ''0'' then [c] else takeWhile isDigit s1)
               in case scanFraction (drop (length digits) s1) of
                    None \<Rightarrow> None
                  | Some (f, s2) \<Rightarrow>
                      (case scanExponent s2 of
                         None \<Rightarrow> None
                       | Some (e, s3) \<Rightarrow> Some (sign @ digits @ f @ e, s3)))"

definition scanLiteral :: "string \<Rightarrow> string \<Rightarrow> string option" where
  "scanLiteral word s = (if take (length word) s = word then Some (drop (length word) s) else None)"

subsection \<open>Values\<close>

fun parseValue :: "nat \<Rightarrow> string \<Rightarrow> (json \<times> string) option"
and parseElems :: "nat \<Rightarrow> string \<Rightarrow> (json list \<times> string) option"
and parseMembers :: "nat \<Rightarrow> string \<Rightarrow> ((string \<times> json) list \<times> string) option" where
  "parseValue 0 s = None"
| "parseValue (Suc n) s =
     (case skipWs s of
        [] \<Rightarrow> None
      | c # r \<Rightarrow>
          if c = CHR ''['' then
            (if take 1 (skipWs r) = [CHR '']''] then Some (JArr [], drop 1 (skipWs r))
             else map_option (\<lambda>(vs, t). (JArr vs, t)) (parseElems n r))
          else if c = CHR 0x7B then
            (if take 1 (skipWs r) = [CHR 0x7D] then Some (JObj [], drop 1 (skipWs r))
             else map_option (\<lambda>(ms, t). (JObj ms, t)) (parseMembers n r))
          else if c = CHR 0x22 then map_option (\<lambda>(b, t). (JStr (unquote b), t)) (scanString r)
          else if c = CHR ''t'' then map_option (\<lambda>t. (JBool True, t)) (scanLiteral ''true'' (c # r))
          else if c = CHR ''f'' then map_option (\<lambda>t. (JBool False, t)) (scanLiteral ''false'' (c # r))
          else if c = CHR ''n'' then map_option (\<lambda>t. (JNull, t)) (scanLiteral ''null'' (c # r))
          else map_option (\<lambda>(b, t). (JNum b, t)) (scanNumber (c # r)))"
| "parseElems 0 s = None"
| "parseElems (Suc n) s =
     (case parseValue n s of
        None \<Rightarrow> None
      | Some (v, r) \<Rightarrow>
          (case skipWs r of
             [] \<Rightarrow> None
           | c # r1 \<Rightarrow>
               if c = CHR '','' then map_option (\<lambda>(vs, t). (v # vs, t)) (parseElems n r1)
               else if c = CHR '']'' then Some ([v], r1) else None))"
| "parseMembers 0 s = None"
| "parseMembers (Suc n) s =
     (case skipWs s of
        [] \<Rightarrow> None
      | q # r0 \<Rightarrow>
          if q \<noteq> CHR 0x22 then None
          else case scanString r0 of
            None \<Rightarrow> None
          | Some (k, r) \<Rightarrow>
              (case skipWs r of
                 [] \<Rightarrow> None
               | d # r1 \<Rightarrow>
                   if d \<noteq> CHR '':'' then None
                   else case parseValue n r1 of
                     None \<Rightarrow> None
                   | Some (v, r2) \<Rightarrow>
                       (case skipWs r2 of
                          [] \<Rightarrow> None
                        | c # r3 \<Rightarrow>
                            if c = CHR '','' then
                              map_option (\<lambda>(ms, t). ((unquote k, v) # ms, t)) (parseMembers n r3)
                            else if c = CHR 0x7D then Some ([(unquote k, v)], r3) else None)))"

definition json_parse :: "string \<Rightarrow> json option" where
  "json_parse s =
     (case parseValue (2 * length s + 2) s of
        Some (v, r) \<Rightarrow> if skipWs r = [] then Some v else None
      | None \<Rightarrow> None)"

subsection \<open>The fuel is enough\<close>

lemma skipWs_length: "length (skipWs s) \<le> length s"
  by (simp add: skipWs_def length_dropWhile_le)

lemma skipWs_ConsD: "skipWs s = c # r \<Longrightarrow> length r < length s"
  using skipWs_length [of s] by simp

lemma scanString_step:
  assumes "scanString s = Some (b, r)"
  obtains c t where "s = c # t" and "r = t \<or> (\<exists>k b'. scanString (drop k t) = Some (b', r))"
proof -
  obtain c t where s: "s = c # t" using assms by (cases s) (simp_all add: scanString.simps)
  have "r = t \<or> (\<exists>k b'. scanString (drop k t) = Some (b', r))"
  proof (cases "c = CHR 0x22")
    case True
    then show ?thesis using assms [unfolded s scanString.simps [of "c # t"]] by simp
  next
    case plain: False
    show ?thesis
    proof (cases "c = CHR 0x5C")
      case False
      then have "\<exists>b'. scanString (drop 0 t) = Some (b', r)"
        using assms plain by (auto simp: s scanString.simps [of "c # t"] prepend_def split: if_splits)
      then show ?thesis by blast
    next
      case True
      then obtain e t1 where t: "t = e # t1"
        using assms [unfolded s scanString.simps [of "c # t"]] by (cases t) simp_all
      have "(\<exists>b'. scanString (drop 4 t1) = Some (b', r)) \<or> (\<exists>b'. scanString t1 = Some (b', r))"
        using assms [unfolded s t scanString.simps [of "c # e # t1"]] plain True
        by (auto simp: prepend_def split: if_splits)
      then have "(\<exists>b'. scanString (drop 5 t) = Some (b', r)) \<or> (\<exists>b'. scanString (drop 1 t) = Some (b', r))"
        by (simp add: t)
      then show ?thesis by blast
    qed
  qed
  with s that show thesis by blast
qed

lemma scanString_shrinks: "scanString s = Some (b, r) \<Longrightarrow> length r < length s"
proof (induction s arbitrary: b rule: length_induct)
  case (1 s)
  obtain c t where s: "s = c # t" and "r = t \<or> (\<exists>k b'. scanString (drop k t) = Some (b', r))"
    using "1.prems" by (rule scanString_step)
  then show ?case
  proof (elim disjE exE)
    fix k b'
    assume "scanString (drop k t) = Some (b', r)"
    then have "length r < length (drop k t)" using "1.IH" [rule_format, of "drop k t"] by (simp add: s)
    then show ?thesis by (simp add: s)
  qed simp
qed

lemma scanFraction_shrinks: "scanFraction s = Some (b, r) \<Longrightarrow> length r \<le> length s"
  by (auto simp: scanFraction_def split: list.splits if_splits)
    (meson le_SucI length_dropWhile_le)

lemma scanExponent_shrinks: "scanExponent s = Some (b, r) \<Longrightarrow> length r \<le> length s"
proof (cases s)
  case (Cons c t)
  assume "scanExponent s = Some (b, r)"
  then have "r = s \<or> (\<exists>k. r = dropWhile isDigit (drop k t))"
    by (auto simp: Cons scanExponent_def Let_def split: if_splits)
  then show ?thesis
  proof (elim disjE exE)
    fix k
    assume "r = dropWhile isDigit (drop k t)"
    then have "length r \<le> length (drop k t)" using length_dropWhile_le by metis
    then show ?thesis by (simp add: Cons)
  qed simp
qed (simp add: scanExponent_def)

lemma scanNumber_shrinks:
  assumes "scanNumber s = Some (b, r)"
  shows "length r < length s"
proof -
  define sign where "sign = (case s of c # _ \<Rightarrow> if c = CHR 0x2D then [c] else [] | [] \<Rightarrow> [])"
  obtain c t where s1: "drop (length sign) s = c # t"
    using assms by (cases "drop (length sign) s") (auto simp: scanNumber_def sign_def [symmetric])
  define digits where "digits = (if c = CHR ''0'' then [c] else takeWhile isDigit (c # t))"
  obtain f s2 e where d: "isDigit c" and f: "scanFraction (drop (length digits) (c # t)) = Some (f, s2)"
    and e: "scanExponent s2 = Some (e, r)"
    using assms by (auto simp: scanNumber_def sign_def [symmetric] s1 Let_def digits_def
        split: if_splits option.splits)
  have "0 < length digits" using d by (auto simp: digits_def)
  then have "length r < length (c # t)"
    using scanFraction_shrinks [OF f] scanExponent_shrinks [OF e] by (simp del: length_0_conv length_greater_0_conv)
  also have "\<dots> \<le> length s" by (metis s1 diff_le_self length_drop)
  finally show ?thesis .
qed

lemma scanLiteral_shrinks: "scanLiteral (w # ws) (c # s) = Some r \<Longrightarrow> length r < length (c # s)"
  by (auto simp: scanLiteral_def split: if_splits)

lemmas scan_shrinks = scanString_shrinks scanNumber_shrinks scanLiteral_shrinks skipWs_ConsD

lemma parse_shrinks:
  "(\<forall>s v r. parseValue n s = Some (v, r) \<longrightarrow> length r < length s) \<and>
   (\<forall>s vs r. parseElems n s = Some (vs, r) \<longrightarrow> length r < length s) \<and>
   (\<forall>s ms r. parseMembers n s = Some (ms, r) \<longrightarrow> length r < length s)"
proof (induction n)
  case 0
  show ?case by simp
next
  case (Suc n)
  have V: "\<And>s v r. parseValue n s = Some (v, r) \<Longrightarrow> length r < length s"
    and E: "\<And>s vs r. parseElems n s = Some (vs, r) \<Longrightarrow> length r < length s"
    and M: "\<And>s ms r. parseMembers n s = Some (ms, r) \<Longrightarrow> length r < length s"
    using Suc.IH by blast+
  have val: "length r < length s" if prem: "parseValue (Suc n) s = Some (v, r)" for s v r
  proof -
    obtain c t where ws: "skipWs s = c # t" using prem by (cases "skipWs s") auto
    have "length r < length (c # t)"
      using prem skipWs_length [of t]
      by (auto simp: ws split: if_splits dest!: E M scanString_shrinks scanNumber_shrinks scanLiteral_shrinks)
    then show ?thesis using skipWs_length [of s] by (simp add: ws)
  qed
  moreover have "length r < length s" if prem: "parseElems (Suc n) s = Some (vs, r)" for s vs r
    using prem by (auto split: option.splits list.splits if_splits dest!: V E skipWs_ConsD)
  moreover have "length r < length s" if prem: "parseMembers (Suc n) s = Some (ms, r)" for s ms r
    using prem by (auto split: option.splits list.splits if_splits dest!: V M skipWs_ConsD scanString_shrinks)
  ultimately show ?case by blast
qed

lemmas parseValue_shrinks = parse_shrinks [THEN conjunct1, rule_format]
lemmas parseElems_shrinks = parse_shrinks [THEN conjunct2, THEN conjunct1, rule_format]
lemmas parseMembers_shrinks = parse_shrinks [THEN conjunct2, THEN conjunct2, rule_format]

text \<open>The members of an object, when its shorter rests have fuel enough.\<close>

lemma parseMembers_enough:
  assumes V: "\<And>t m x n. length t < length s \<Longrightarrow> parseValue m t = Some x \<Longrightarrow> 2 * length t < n \<Longrightarrow> parseValue n t = Some x"
    and M: "\<And>t m x n. length t < length s \<Longrightarrow> parseMembers m t = Some x \<Longrightarrow> 2 * length t + 1 < n \<Longrightarrow> parseMembers n t = Some x"
    and prem: "parseMembers m s = Some x" "2 * length s + 1 < n"
  shows "parseMembers n s = Some x"
proof -
  obtain m' n' where mn: "m = Suc m'" "n = Suc n'" using prem by (cases m; cases n) auto
  obtain q r0 where q: "skipWs s = q # r0" using prem(1) by (cases "skipWs s") (auto simp: mn)
  obtain k r where k: "scanString r0 = Some (k, r)"
    using prem(1) by (auto simp: mn q split: option.splits if_splits)
  obtain d r1 where d: "skipWs r = d # r1" using prem(1) by (cases "skipWs r") (auto simp: mn q k split: if_splits)
  obtain v r2 where v: "parseValue m' r1 = Some (v, r2)"
    using prem(1) by (auto simp: mn q k d split: option.splits if_splits)
  obtain c t where ws: "skipWs r2 = c # t"
    using prem(1) by (cases "skipWs r2") (auto simp: mn q k d v split: if_splits)
  have lt1: "length r1 < length s" and lt: "length t < length s" and fuel: "2 * length t + 1 < n'"
    using skipWs_ConsD [OF q] scanString_shrinks [OF k] skipWs_ConsD [OF d] skipWs_ConsD [OF ws]
      parseValue_shrinks [OF v] prem(2) by (simp_all add: mn)
  have "parseValue n' r1 = Some (v, r2)" by (rule V [OF lt1 v]) (use lt1 prem(2) in \<open>simp add: mn\<close>)
  moreover have "\<forall>y. parseMembers m' t = Some y \<longrightarrow> parseMembers n' t = Some y"
    using M [OF lt _ fuel] by blast
  ultimately show ?thesis
    using prem(1) by (auto simp: mn q k d v ws split: if_splits)
qed

text \<open>Whatever any amount of fuel can parse, twice the length of the text can.\<close>

lemma parse_enough:
  "(\<forall>m x. parseValue m s = Some x \<longrightarrow> (\<forall>n > 2 * length s. parseValue n s = Some x)) \<and>
   (\<forall>m x. parseElems m s = Some x \<longrightarrow> (\<forall>n > 2 * length s + 1. parseElems n s = Some x)) \<and>
   (\<forall>m x. parseMembers m s = Some x \<longrightarrow> (\<forall>n > 2 * length s + 1. parseMembers n s = Some x))"
proof (induction s rule: length_induct)
  case (1 s)
  have V: "\<And>t m x n. length t < length s \<Longrightarrow> parseValue m t = Some x \<Longrightarrow> 2 * length t < n \<Longrightarrow> parseValue n t = Some x"
    and E: "\<And>t m x n. length t < length s \<Longrightarrow> parseElems m t = Some x \<Longrightarrow> 2 * length t + 1 < n \<Longrightarrow> parseElems n t = Some x"
    and M: "\<And>t m x n. length t < length s \<Longrightarrow> parseMembers m t = Some x \<Longrightarrow> 2 * length t + 1 < n \<Longrightarrow> parseMembers n t = Some x"
    using "1.IH" by blast+
  have val: "parseValue n s = Some x" if prem: "parseValue m s = Some x" "2 * length s < n" for m x n
  proof -
    obtain m' n' where mn: "m = Suc m'" "n = Suc n'" using prem by (cases m; cases n) auto
    obtain c t where ws: "skipWs s = c # t" using prem(1) by (cases "skipWs s") (auto simp: mn)
    have lt: "length t < length s" and fuel: "2 * length t + 1 < n'"
      using skipWs_ConsD [OF ws] prem(2) by (simp_all add: mn)
    have "\<forall>y. parseElems m' t = Some y \<longrightarrow> parseElems n' t = Some y"
      "\<forall>y. parseMembers m' t = Some y \<longrightarrow> parseMembers n' t = Some y"
      using E [OF lt _ fuel] M [OF lt _ fuel] by blast+
    then show ?thesis
      using prem(1) by (auto simp: mn ws split: if_splits)
  qed
  moreover have "parseElems n s = Some x" if prem: "parseElems m s = Some x" "2 * length s + 1 < n" for m x n
  proof -
    obtain m' n' where mn: "m = Suc m'" "n = Suc n'" using prem by (cases m; cases n) auto
    obtain v r where v: "parseValue m' s = Some (v, r)" using prem(1) by (auto simp: mn split: option.splits)
    obtain c t where ws: "skipWs r = c # t" using prem(1) by (cases "skipWs r") (auto simp: mn v)
    have lt: "length t < length s" and fuel: "2 * length t + 1 < n'"
      using skipWs_ConsD [OF ws] parseValue_shrinks [OF v] prem(2) by (simp_all add: mn)
    have "parseValue n' s = Some (v, r)" by (rule val [OF v]) (use prem(2) in \<open>simp add: mn\<close>)
    moreover have "\<forall>y. parseElems m' t = Some y \<longrightarrow> parseElems n' t = Some y"
      using E [OF lt _ fuel] by blast
    ultimately show ?thesis
      using prem(1) by (auto simp: mn v ws split: if_splits)
  qed
  moreover have "parseMembers n s = Some x" if "parseMembers m s = Some x" "2 * length s + 1 < n" for m x n
    by (rule parseMembers_enough [OF V M that])
  ultimately show ?case by blast
qed

lemma json_parse_iff:
  "json_parse s = Some v \<longleftrightarrow> (\<exists>n r. parseValue n s = Some (v, r) \<and> skipWs r = [])"
proof
  assume "\<exists>n r. parseValue n s = Some (v, r) \<and> skipWs r = []"
  then obtain r where "parseValue (2 * length s + 2) s = Some (v, r)" "skipWs r = []"
    using parse_enough [of s] by (metis add_2_eq_Suc' less_Suc_eq lessI)
  then show "json_parse s = Some v" by (simp add: json_parse_def)
next
  assume j: "json_parse s = Some v"
  define n where "n = 2 * length s + 2"
  show "\<exists>n r. parseValue n s = Some (v, r) \<and> skipWs r = []"
    using j unfolding json_parse_def n_def [symmetric] by (auto split: option.splits if_splits) blast
qed

subsection \<open>Unmarshalling\<close>

datatype json_error = SyntaxError | UnmarshalTypeError

fun storeString :: "json \<Rightarrow> string option" where
  "storeString (JStr s) = Some s"
| "storeString JNull = Some []"
| "storeString _ = None"

text \<open>\<open>json.Unmarshal\<close> into a nil \<open>[]string\<close>: null leaves it nil, a null element leaves an empty
  string.\<close>

definition unmarshalStrings :: "string \<Rightarrow> json_error + string slice" where
  "unmarshalStrings data =
     (case json_parse data of
        None \<Rightarrow> Inl SyntaxError
      | Some JNull \<Rightarrow> Inr None
      | Some (JArr vs) \<Rightarrow>
          (if \<exists>v \<in> set vs. storeString v = None then Inl UnmarshalTypeError
           else Inr (Some (map (the \<circ> storeString) vs)))
      | Some _ \<Rightarrow> Inl UnmarshalTypeError)"

definition unmarshalString :: "string \<Rightarrow> json_error + string" where
  "unmarshalString data =
     (case json_parse data of
        None \<Rightarrow> Inl SyntaxError
      | Some v \<Rightarrow> (case storeString v of Some s \<Rightarrow> Inr s | None \<Rightarrow> Inl UnmarshalTypeError))"

subsection \<open>Documents that cannot be stored\<close>

text \<open>A document that is stored as strings begins, after white space, with a bracket, a quote or
  \<open>null\<close>.\<close>

definition storableHead :: "string \<Rightarrow> bool" where
  "storableHead s =
     (case skipWs s of
        [] \<Rightarrow> False
      | c # r \<Rightarrow> c = CHR ''['' \<or> c = CHR 0x22 \<or>
          c = CHR ''n'' \<and> take 3 r = ''ull'' \<and> skipWs (drop 3 r) = [])"

lemma json_parse_head:
  assumes "json_parse s = Some v" and "storeString v \<noteq> None \<or> (\<exists>vs. v = JArr vs)"
  shows "storableHead s"
proof -
  obtain n r0 where p: "parseValue (Suc n) s = Some (v, r0)" and e: "skipWs r0 = []"
    using assms(1) unfolding json_parse_iff by (metis parseValue.simps(1) not0_implies_Suc option.distinct(1))
  obtain c r where ws: "skipWs s = c # r" using p by (cases "skipWs s") auto
  show ?thesis
    using p e assms(2) unfolding storableHead_def
    by (auto simp: ws scanLiteral_def numeral_3_eq_3 split: if_splits)
qed

lemma unmarshalStrings_head: "unmarshalStrings s = Inr xs \<Longrightarrow> storableHead s"
  by (auto simp: unmarshalStrings_def split: option.splits json.splits if_splits intro: json_parse_head)

lemma unmarshalString_head: "unmarshalString s = Inr x \<Longrightarrow> storableHead s"
  by (auto simp: unmarshalString_def split: option.splits intro: json_parse_head)

subsection \<open>Reading back plain strings\<close>

text \<open>Strings that JSON writes without escapes: printable ASCII without quotes and backslashes.\<close>

definition plain :: "string \<Rightarrow> bool" where
  "plain s \<longleftrightarrow> list_all (\<lambda>c. 32 \<le> byte c \<and> byte c < 128 \<and> c \<noteq> CHR 0x22 \<and> c \<noteq> CHR 0x5C) s"

definition jsonString :: "string \<Rightarrow> string" where
  "jsonString s = CHR 0x22 # s @ [CHR 0x22]"

definition jsonStrings :: "string list \<Rightarrow> string" where
  "jsonStrings ss = CHR ''['' # strJoin '','' (map jsonString ss) @ [CHR '']'']"

lemma plain_Cons [simp]:
  "plain (c # s) \<longleftrightarrow> 32 \<le> byte c \<and> byte c < 128 \<and> c \<noteq> CHR 0x22 \<and> c \<noteq> CHR 0x5C \<and> plain s"
  by (auto simp: plain_def)

lemma scanString_plain: "plain s \<Longrightarrow> scanString (s @ CHR 0x22 # r) = Some (s, r)"
  by (induction s) (simp_all add: scanString.simps [of "_ # _"] prepend_def)

lemma unquote_plain: "plain s \<Longrightarrow> unquote s = s"
  by (induction s) (simp_all add: unquote.simps [of "[]"] unquote.simps [of "_ # _"])

lemma skipWs_nonspace [simp]: "\<not> jsonSpace c \<Longrightarrow> skipWs (c # r) = c # r"
  by (simp add: skipWs_def)

lemma skipWs_Nil [simp]: "skipWs [] = []"
  by (simp add: skipWs_def)

lemma parseValue_plain:
  "plain s \<Longrightarrow> parseValue (Suc n) (jsonString s @ r) = Some (JStr s, r)"
  by (simp add: jsonString_def jsonSpace_def scanString_plain unquote_plain)

lemma parseElems_plain:
  assumes "list_all plain (s # ss)"
  shows "parseElems (Suc (Suc (length ss))) (strJoin '','' (map jsonString (s # ss)) @ CHR '']'' # r) =
    Some (map JStr (s # ss), r)"
  using assms
proof (induction ss arbitrary: s)
  case Nil
  then show ?case
    using parseValue_plain [of s 0 "CHR '']'' # r"] by (simp add: jsonSpace_def del: parseValue.simps)
next
  case (Cons t ss)
  let ?tail = "strJoin '','' (map jsonString (t # ss)) @ CHR '']'' # r"
  have "parseValue (Suc (Suc (length ss))) (jsonString s @ CHR '','' # ?tail) = Some (JStr s, CHR '','' # ?tail)"
    using Cons.prems by (intro parseValue_plain) simp
  moreover have "parseElems (Suc (Suc (length ss))) ?tail = Some (map JStr (t # ss), r)"
    using Cons.prems by (intro Cons.IH) simp
  ultimately show ?case
    by (simp add: jsonSpace_def parseElems.simps(2) [of "Suc (Suc (length ss))"]
        del: parseValue.simps parseElems.simps)
qed

lemma json_parse_plain: "plain s \<Longrightarrow> json_parse (jsonString s) = Some (JStr s)"
  unfolding json_parse_iff using parseValue_plain [of s 0 "[]"] by (metis append_Nil2 skipWs_Nil)

lemma unmarshalString_plain: "plain s \<Longrightarrow> unmarshalString (jsonString s) = Inr s"
  by (simp add: unmarshalString_def json_parse_plain)

lemma unmarshalStrings_plainString: "plain s \<Longrightarrow> unmarshalStrings (jsonString s) = Inl UnmarshalTypeError"
  by (simp add: unmarshalStrings_def json_parse_plain)

lemma unmarshalStrings_plain:
  assumes "list_all plain ss"
  shows "unmarshalStrings (jsonStrings ss) = Inr (Some ss)"
proof -
  have "\<exists>n. parseValue n (jsonStrings ss) = Some (JArr (map JStr ss), [])"
  proof (cases ss)
    case Nil
    then have "parseValue 1 (jsonStrings ss) = Some (JArr (map JStr ss), [])"
      by (simp add: jsonStrings_def jsonSpace_def)
    then show ?thesis by blast
  next
    case (Cons s ts)
    let ?body = "strJoin '','' (map jsonString ss) @ [CHR '']'']"
    have "\<exists>r. ?body = CHR 0x22 # r" by (cases ts) (simp_all add: Cons jsonString_def)
    then have "take 1 (skipWs ?body) \<noteq> [CHR '']'']" by (auto simp: jsonSpace_def)
    moreover have "parseElems (Suc (Suc (length ts))) ?body = Some (map JStr ss, [])"
      using parseElems_plain [of s ts "[]"] assms by (simp add: Cons del: parseElems.simps)
    ultimately have "parseValue (Suc (Suc (Suc (length ts)))) (jsonStrings ss) = Some (JArr (map JStr ss), [])"
      by (simp add: jsonStrings_def jsonSpace_def parseValue.simps(2) [of "Suc (Suc (length ts))"]
          del: parseValue.simps parseElems.simps)
    then show ?thesis by blast
  qed
  then have "json_parse (jsonStrings ss) = Some (JArr (map JStr ss))"
    unfolding json_parse_iff using skipWs_Nil by blast
  then show ?thesis by (simp add: unmarshalStrings_def comp_def)
qed

end
