(* ===== verification/Go_Base64.thy ===== *)
theory Go_Base64
  imports Go_Strings
begin

text \<open>
  \<open>base64.StdEncoding\<close> of Go's standard library, which the bootstrap data of a machine and the
  \<open>write_files\<close> module of cloud-init pass through: \<open>EncodeToString\<close> with padding, and
  \<open>DecodeString\<close>, which skips line breaks wherever they stand, insists on the padding and does not
  look at the unused bits of the last group. The position a decoding error reports is left out.
\<close>

text \<open>The alphabet: upper case, lower case, digits, plus and slash.\<close>

definition b64Char :: "nat \<Rightarrow> char" where
  "b64Char n =
     char_of (if n < 26 then n + 65 else if n < 52 then n + 71 else if n < 62 then n - 4
              else if n = 62 then 43 else 47)"

definition b64Value :: "char \<Rightarrow> nat option" where
  "b64Value c =
     (let b = byte c in
      if 65 \<le> b \<and> b \<le> 90 then Some (b - 65)
      else if 97 \<le> b \<and> b \<le> 122 then Some (b - 71)
      else if 48 \<le> b \<and> b \<le> 57 then Some (b + 4)
      else if b = 43 then Some 62
      else if b = 47 then Some 63
      else None)"

abbreviation b64Pad :: char where "b64Pad \<equiv> CHR 0x3D"

fun EncodeToString :: "string \<Rightarrow> string" where
  "EncodeToString [] = []"
| "EncodeToString [a] =
     [b64Char (byte a div 4), b64Char (byte a mod 4 * 16), b64Pad, b64Pad]"
| "EncodeToString [a, b] =
     [b64Char (byte a div 4), b64Char (byte a mod 4 * 16 + byte b div 16),
      b64Char (byte b mod 16 * 4), b64Pad]"
| "EncodeToString (a # b # c # rest) =
     [b64Char (byte a div 4), b64Char (byte a mod 4 * 16 + byte b div 16),
      b64Char (byte b mod 16 * 4 + byte c div 64), b64Char (byte c mod 64)] @ EncodeToString rest"

definition base64Corrupt :: go_error where
  "base64Corrupt = GoError ''illegal base64 data''"

definition skipped :: "char \<Rightarrow> bool" where
  "skipped c \<longleftrightarrow> c = CHR 0x0A \<or> c = CHR 0x0D"

fun decodeGroups :: "string \<Rightarrow> string option" where
  "decodeGroups [] = Some []"
| "decodeGroups (a # b # c # d # rest) =
     (case (b64Value a, b64Value b, b64Value c, b64Value d) of
        (Some w, Some x, Some y, Some z) \<Rightarrow>
          map_option (\<lambda>ds. char_of (w * 4 + x div 16) # char_of (x mod 16 * 16 + y div 4) #
                           char_of (y mod 4 * 64 + z) # ds) (decodeGroups rest)
      | (Some w, Some x, Some y, None) \<Rightarrow>
          if d = b64Pad \<and> rest = []
          then Some [char_of (w * 4 + x div 16), char_of (x mod 16 * 16 + y div 4)] else None
      | (Some w, Some x, None, _) \<Rightarrow>
          if c = b64Pad \<and> d = b64Pad \<and> rest = [] then Some [char_of (w * 4 + x div 16)] else None
      | _ \<Rightarrow> None)"
| "decodeGroups _ = None"

definition DecodeString :: "string \<Rightarrow> go_error + string" where
  "DecodeString s =
     (case decodeGroups (filter (\<lambda>c. \<not> skipped c) s) of
        None \<Rightarrow> Inl base64Corrupt | Some ds \<Rightarrow> Inr ds)"

subsection \<open>The round trip\<close>

lemma byte_char_of: "n < 256 \<Longrightarrow> byte (char_of n) = n"
  by (simp add: byte_def)

lemma b64Value_b64Char [simp]: "n < 64 \<Longrightarrow> b64Value (b64Char n) = Some n"
  by (auto simp: b64Value_def b64Char_def byte_char_of Let_def)

lemma b64Char_kept [simp]: "n < 64 \<Longrightarrow> \<not> skipped (b64Char n)"
proof
  assume n: "n < 64" and "skipped (b64Char n)"
  then have "b64Value (b64Char n) = None"
    by (auto simp: skipped_def b64Value_def byte_def)
  with n show False by simp
qed

lemma b64Value_pad [simp]: "b64Value b64Pad = None"
  by (simp add: b64Value_def byte_def)

lemma pad_kept [simp]: "\<not> skipped b64Pad"
  by (simp add: skipped_def)

text \<open>The group indices are below 64, and regrouping them gives the bytes back.\<close>

lemma group_bounds [simp]:
  "byte a div 4 < 64" "byte a mod 4 * 16 + byte b div 16 < 64"
  "byte b mod 16 * 4 + byte c div 64 < 64" "byte c mod 64 < 64"
  "byte a mod 4 * 16 < 64" "byte b mod 16 * 4 < 64"
  using byte_less [of a] byte_less [of b] byte_less [of c] by linarith+

lemma char_of_byte [simp]: "char_of (byte c) = c"
  by (simp add: byte_def)

lemma small_parts [simp]:
  "byte b div 16 div 16 = 0" "byte b div 16 mod 16 = byte b div 16"
  "byte c div 64 div 4 = 0" "byte c div 64 mod 4 = byte c div 64"
proof -
  have "byte b div 16 < 16" "byte c div 64 < 4"
    using byte_less [of b] byte_less [of c] by linarith+
  then show "byte b div 16 div 16 = 0" "byte b div 16 mod 16 = byte b div 16"
    "byte c div 64 div 4 = 0" "byte c div 64 mod 4 = byte c div 64" by simp_all
qed

lemma decodeGroups_EncodeToString: "decodeGroups (EncodeToString s) = Some s"
  by (induction s rule: EncodeToString.induct) simp_all

lemma EncodeToString_kept: "filter (\<lambda>c. \<not> skipped c) (EncodeToString s) = EncodeToString s"
  by (induction s rule: EncodeToString.induct) simp_all

lemma DecodeString_EncodeToString [simp]: "DecodeString (EncodeToString s) = Inr s"
  by (simp add: DecodeString_def EncodeToString_kept decodeGroups_EncodeToString)

text \<open>Line breaks do not matter to the decoder.\<close>

lemma DecodeString_skips: "DecodeString (filter (\<lambda>c. \<not> skipped c) s) = DecodeString s"
  by (simp add: DecodeString_def)

end
