(* ===== verification/Cloud_Init.thy ===== *)
theory Cloud_Init
  imports Go_Json Go_Base64
begin

text \<open>
  The cloud-init adapter, \<open>src/pkg/cloudinit\<close>: a cloud-config document is cut into the fragments of
  its top-level keys, each fragment is unmarshalled by the action of its module, and every action
  gives a block of a bash script. Parameters (\<open>cloud_lib\<close>): the YAML library, with what it hands to
  the Go types (the JSON text of every element of \<open>runcmd\<close>, which \<open>Cmd.UnmarshalJSON\<close> then reads,
  and the elements of \<open>write_files\<close>); the two halves of gzip decompression; and the Unicode tables.
\<close>

record files =
  f_Path :: string
  f_Encoding :: string
  f_Owner :: string
  f_Permissions :: string
  f_Content :: string
  f_Append :: bool

record cloud_lib =
  yaml_Map :: "string \<Rightarrow> go_error option"
  yaml_RunCmd :: "string \<Rightarrow> go_error + string list"
  yaml_WriteFiles :: "string \<Rightarrow> go_error + files list"
  gzip_NewReader :: "string \<Rightarrow> go_error + string"
  gzip_ReadFrom :: "string \<Rightarrow> go_error + string"
  cl_Unicode :: unicode_tables

definition nl :: string where "nl = [NL]"

abbreviation writefiles :: string where "writefiles \<equiv> ''write_files''"
abbreviation runcmd :: string where "runcmd \<equiv> ''runcmd''"

definition scriptHeader :: string where
  "scriptHeader = ''#!/bin/bash'' @ nl @ nl @ ''set -o errexit'' @ nl @ ''set -o nounset'' @ nl @
     ''set -o pipefail''"

subsection \<open>write\_files\<close>

definition fixPath :: "string \<Rightarrow> string" where
  "fixPath p = TrimSpace p"

definition fixOwner :: "string \<Rightarrow> string" where
  "fixOwner ow = (let ow' = TrimSpace ow in if ow' \<noteq> [] then ow' else ''root:root'')"

definition fixPermissions :: "string \<Rightarrow> string" where
  "fixPermissions p = (let p' = TrimSpace p in if p' \<noteq> [] then p' else ''0644'')"

definition fixEncoding :: "unicode_tables \<Rightarrow> string \<Rightarrow> string list" where
  "fixEncoding u e =
     (let e' = TrimSpace (ToLower u e)
      in if e' = ''gz'' \<or> e' = ''gzip'' then [''application/x-gzip'']
         else if e' = ''gz+base64'' \<or> e' = ''gzip+base64'' \<or> e' = ''gz+b64'' \<or> e' = ''gzip+b64''
         then [''application/base64'', ''application/x-gzip'']
         else if e' = ''base64'' \<or> e' = ''b64'' then [''application/base64'']
         else [''text/plain''])"

definition gUnzipData :: "cloud_lib \<Rightarrow> string \<Rightarrow> go_error + string" where
  "gUnzipData lib data =
     (case gzip_NewReader lib data of
        Inl err \<Rightarrow> Inl err
      | Inr r \<Rightarrow> (case gzip_ReadFrom lib r of Inl err \<Rightarrow> Inl err | Inr resB \<Rightarrow> Inr resB))"

text \<open>Every branch of the switch returns, so the loop looks at the first encoding only.\<close>

definition fixContent :: "cloud_lib \<Rightarrow> string \<Rightarrow> string list \<Rightarrow> go_error + string" where
  "fixContent lib content encodings =
     (case encodings of
        [] \<Rightarrow> Inr content
      | e # _ \<Rightarrow>
          if e = ''application/base64'' then
            (case DecodeString content of Inl err \<Rightarrow> Inl err | Inr rByte \<Rightarrow> Inr rByte)
          else if e = ''application/x-gzip'' then
            (case gUnzipData lib content of Inl err \<Rightarrow> Inl err | Inr rByte \<Rightarrow> Inr rByte)
          else if e = ''text/plain'' then Inr content
          else Inl (GoError (''Unknown bootstrap data encoding: '' @ Quote (cl_Unicode lib) content)))"

definition fileBlock :: "cloud_lib \<Rightarrow> string \<Rightarrow> files \<Rightarrow> go_error + string" where
  "fileBlock lib scriptBlock f =
     (let q = Quote (cl_Unicode lib);
          path = fixPath (f_Path f);
          encodings = fixEncoding (cl_Unicode lib) (f_Encoding f);
          owner = fixOwner (f_Owner f);
          permissions = fixPermissions (f_Permissions f)
      in case fixContent lib (f_Content f) encodings of
           Inl err \<Rightarrow> Inl (Wrapped (''error decoding content for '' @ path) err)
         | Inr content \<Rightarrow>
             let directory = filepath_Dir path;
                 b1 = scriptBlock @ nl @ ''mkdir -p '' @ q directory;
                 redirects = (if f_Append f then ''>>'' else ''>'');
                 b2 = (if HasSuffix content nl
                       then b1 @ nl @ ''cat '' @ redirects @ '' '' @ q path @ '' << END'' @ nl @ content @ ''END''
                       else b1 @ nl @ ''cat '' @ redirects @ '' '' @ q path @ '' << END'' @ nl @ content @ nl @ ''END'');
                 b3 = (if permissions \<noteq> ''0644''
                       then b2 @ nl @ ''chmod '' @ permissions @ '' '' @ q path else b2)
             in Inr (if owner \<noteq> ''root:root''
                     then b3 @ nl @ ''chown '' @ owner @ '' '' @ q path else b3))"

fun fileBlocks :: "cloud_lib \<Rightarrow> string \<Rightarrow> files list \<Rightarrow> go_error + string" where
  "fileBlocks lib scriptBlock [] = Inr scriptBlock"
| "fileBlocks lib scriptBlock (f # fs) =
     (case fileBlock lib scriptBlock f of
        Inl err \<Rightarrow> Inl err | Inr scriptBlock' \<Rightarrow> fileBlocks lib scriptBlock' fs)"

definition writeFiles_GenerateScriptBlock :: "cloud_lib \<Rightarrow> files list \<Rightarrow> go_error + string" where
  "writeFiles_GenerateScriptBlock lib fs = fileBlocks lib (''# '' @ writefiles @ '' script block'') fs"

definition writeFiles_Unmarshal :: "cloud_lib \<Rightarrow> string \<Rightarrow> go_error + files list" where
  "writeFiles_Unmarshal lib userData =
     (case yaml_WriteFiles lib userData of
        Inl err \<Rightarrow> Inl (Wrapped (''error parsing write_files action: '' @ userData) err)
      | Inr fs \<Rightarrow> Inr fs)"

subsection \<open>runcmd\<close>

record Cmd =
  cmd_Cmd :: string
  cmd_Args :: "string list"

definition jsonError :: "json_error \<Rightarrow> go_error" where
  "jsonError e =
     GoError (case e of SyntaxError \<Rightarrow> ''json: syntax error'' | UnmarshalTypeError \<Rightarrow> ''json: cannot unmarshal'')"

text \<open>A list with no element, like \<open>null\<close>, decodes without an error, and then the first
  element is read.\<close>

definition Cmd_UnmarshalJSON :: "string \<Rightarrow> (go_error + Cmd) outcome" where
  "Cmd_UnmarshalJSON data =
     (case unmarshalStrings data of
        Inl SyntaxError \<Rightarrow> Returned (Inl (jsonError SyntaxError))
      | Inr s1 \<Rightarrow>
          (case elems s1 of
             [] \<Rightarrow> Panicked ''index out of range''
           | c # args \<Rightarrow> Returned (Inr \<lparr>cmd_Cmd = c, cmd_Args = args\<rparr>))
      | Inl UnmarshalTypeError \<Rightarrow>
          (case unmarshalString data of
             Inl err \<Rightarrow> Returned (Inl (jsonError err))
           | Inr s2 \<Rightarrow> Returned (Inr \<lparr>cmd_Cmd = ''/bin/sh'', cmd_Args = [''-c'', s2]\<rparr>)))"

definition runCmd_Unmarshal :: "cloud_lib \<Rightarrow> string \<Rightarrow> (go_error + Cmd list) outcome" where
  "runCmd_Unmarshal lib userData =
     (let wrap = Wrapped (''error parsing run_cmd action: '' @ userData)
      in case yaml_RunCmd lib userData of
           Inl err \<Rightarrow> Returned (Inl (wrap err))
         | Inr items \<Rightarrow>
             (case eachOf Cmd_UnmarshalJSON items of
                Returned (Inl err) \<Rightarrow> Returned (Inl (wrap err))
              | r \<Rightarrow> r))"

abbreviation ignoreFlag :: string where "ignoreFlag \<equiv> ''--ignore-preflight-errors=all''"

text \<open>The returned command, and the caller's: the assignment to \<open>c.Args[1]\<close> writes to the array
  both share, the \<open>append\<close> does not show in the caller's slice.\<close>

definition hackKubeadmIgnoreErrors :: "Cmd \<Rightarrow> Cmd \<times> Cmd" where
  "hackKubeadmIgnoreErrors c =
     (let shell = (cmd_Cmd c = ''/bin/sh'' \<and> 2 \<le> length (cmd_Args c) \<and> cmd_Args c ! 0 = ''-c'' \<and>
            (Contains (cmd_Args c ! 1) ''kubeadm init'' \<or> Contains (cmd_Args c ! 1) ''kubeadm join''));
          c1 = (if shell then c\<lparr>cmd_Args := (cmd_Args c)[1 := cmd_Args c ! 1 @ '' '' @ ignoreFlag]\<rparr> else c);
          c2 = (if cmd_Cmd c1 = ''kubeadm'' \<and> 1 \<le> length (cmd_Args c1) \<and>
                   (cmd_Args c1 ! 0 = ''init'' \<or> cmd_Args c1 ! 0 = ''join'')
                then c1\<lparr>cmd_Args := cmd_Args c1 @ [ignoreFlag]\<rparr> else c1)
      in (c2, c1))"

fun quoteArgs :: "unicode_tables \<Rightarrow> string \<Rightarrow> string list \<Rightarrow> string" where
  "quoteArgs u command [] = command"
| "quoteArgs u command (arg # args) = quoteArgs u (command @ '' '' @ Quote u arg) args"

fun cmdBlocks :: "cloud_lib \<Rightarrow> string \<Rightarrow> Cmd list \<Rightarrow> string \<times> Cmd list" where
  "cmdBlocks lib scriptBlock [] = (scriptBlock, [])"
| "cmdBlocks lib scriptBlock (c # cs) =
     (case hackKubeadmIgnoreErrors c of (c', shared) \<Rightarrow>
        let u = cl_Unicode lib;
            command = quoteArgs u (Quote u (cmd_Cmd c')) (cmd_Args c')
        in case cmdBlocks lib (scriptBlock @ nl @ command) cs of (b, cs') \<Rightarrow> (b, shared # cs'))"

definition runCmd_GenerateScriptBlock :: "cloud_lib \<Rightarrow> Cmd list \<Rightarrow> string \<times> Cmd list" where
  "runCmd_GenerateScriptBlock lib cs = cmdBlocks lib (''# '' @ runcmd @ '' script block'') cs"

subsection \<open>Unknown modules\<close>

definition unknown_Unmarshal :: "string \<Rightarrow> go_error + string list" where
  "unknown_Unmarshal data =
     (case unmarshalStrings data of
        Inl SyntaxError \<Rightarrow> Inl (jsonError SyntaxError)
      | Inr s1 \<Rightarrow> Inr (elems s1)
      | Inl UnmarshalTypeError \<Rightarrow>
          (case unmarshalString data of Inl err \<Rightarrow> Inl (jsonError err) | Inr s2 \<Rightarrow> Inr [s2]))"

definition unknown_GenerateScriptBlock :: "string \<Rightarrow> string list \<Rightarrow> string" where
  "unknown_GenerateScriptBlock module ls = module @ nl @ nl @ strJoin nl ls"

subsection \<open>Actions\<close>

datatype action =
    WriteFilesAction "files list"
  | RunCmdAction "Cmd list"
  | UnknownAction string "string list"

definition newWriteFilesAction :: action where
  [simp]: "newWriteFilesAction = WriteFilesAction []"

definition newRunCmdAction :: action where
  [simp]: "newRunCmdAction = RunCmdAction []"

definition newUnknown :: "string \<Rightarrow> action" where
  [simp]: "newUnknown module = UnknownAction module []"

definition actionFactory_action :: "string \<Rightarrow> action" where
  "actionFactory_action name =
     (if name = writefiles then newWriteFilesAction
      else if name = runcmd then newRunCmdAction
      else newUnknown name)"

fun action_Unmarshal :: "cloud_lib \<Rightarrow> string \<Rightarrow> action \<Rightarrow> (go_error + action) outcome" where
  "action_Unmarshal lib userData (WriteFilesAction _) =
     (case writeFiles_Unmarshal lib userData of
        Inl err \<Rightarrow> Returned (Inl err) | Inr fs \<Rightarrow> Returned (Inr (WriteFilesAction fs)))"
| "action_Unmarshal lib userData (RunCmdAction _) =
     andThen (runCmd_Unmarshal lib userData) (\<lambda>cs. Returned (Inr (RunCmdAction cs)))"
| "action_Unmarshal lib userData (UnknownAction module _) =
     (case unknown_Unmarshal userData of
        Inl err \<Rightarrow> Returned (Inl err) | Inr ls \<Rightarrow> Returned (Inr (UnknownAction module ls)))"

fun action_GenerateScriptBlock :: "cloud_lib \<Rightarrow> action \<Rightarrow> go_error + string" where
  "action_GenerateScriptBlock lib (WriteFilesAction fs) = writeFiles_GenerateScriptBlock lib fs"
| "action_GenerateScriptBlock lib (RunCmdAction cs) = Inr (fst (runCmd_GenerateScriptBlock lib cs))"
| "action_GenerateScriptBlock lib (UnknownAction module ls) = Inr (unknown_GenerateScriptBlock module ls)"

subsection \<open>Scanning\<close>

text \<open>The lines of \<open>bufio.ScanLines\<close>, before a trailing carriage return is dropped. A line needs
  to fit, with its line break, into the scanner's buffer of 64 KiB.\<close>

fun rawLines :: "string \<Rightarrow> string list" where
  "rawLines [] = []"
| "rawLines (c # cs) =
     (if c = NL then [] # rawLines cs
      else case rawLines cs of [] \<Rightarrow> [[c]] | l # ls \<Rightarrow> (c # l) # ls)"

definition dropCR :: "string \<Rightarrow> string" where
  "dropCR l = (if l \<noteq> [] \<and> last l = CHR 0x0D then butlast l else l)"

definition maxLine :: nat where "maxLine = 65535"

definition scanLines :: "string \<Rightarrow> string list" where
  "scanLines s = map dropCR (takeWhile (\<lambda>l. length l \<le> maxLine) (rawLines s))"

definition scanErr :: "string \<Rightarrow> go_error option" where
  "scanErr s = (if list_all (\<lambda>l. length l \<le> maxLine) (rawLines s) then None
                else Some (GoError ''bufio.Scanner: token too long''))"

text \<open>The regular expression of the source, a run of letters and underscores and a colon.\<close>

definition keyChar :: "char \<Rightarrow> bool" where
  "keyChar c \<longleftrightarrow> 97 \<le> byte c \<and> byte c \<le> 122 \<or> 65 \<le> byte c \<and> byte c \<le> 90 \<or> c = CHR ''_''"

definition actionRegEx :: "string \<Rightarrow> bool" where
  "actionRegEx line = (case dropWhile keyChar line of [] \<Rightarrow> False | c # _ \<Rightarrow> c = CHR '':'')"

type_synonym scan_state = "action option \<times> string list \<times> action list"

definition finishFragment :: "cloud_lib \<Rightarrow> scan_state \<Rightarrow> (go_error + action list) outcome" where
  "finishFragment lib st =
     (case st of
        (None, ls, actions) \<Rightarrow> Returned (Inr actions)
      | (Some act, ls, actions) \<Rightarrow>
          andThen (action_Unmarshal lib (strJoin nl ls) act) (\<lambda>act'. Returned (Inr (actions @ [act']))))"

definition scanLine :: "cloud_lib \<Rightarrow> string \<Rightarrow> scan_state \<Rightarrow> (go_error + scan_state) outcome" where
  "scanLine lib line st =
     (case st of (act, ls, actions) \<Rightarrow>
        if actionRegEx line then
          andThen (finishFragment lib st) (\<lambda>actions'.
            let ls' = (if act \<noteq> None then [] else ls)
            in Returned (Inr (Some (actionFactory_action (TrimSuffix line '':'')), ls' @ [line], actions')))
        else Returned (Inr (act, ls @ [line], actions)))"

fun scanLoop :: "cloud_lib \<Rightarrow> string list \<Rightarrow> scan_state \<Rightarrow> (go_error + scan_state) outcome" where
  "scanLoop lib [] st = Returned (Inr st)"
| "scanLoop lib (line # lines) st = andThen (scanLine lib line st) (scanLoop lib lines)"

definition getActions :: "cloud_lib \<Rightarrow> string \<Rightarrow> (go_error + action list) outcome" where
  "getActions lib userData =
     andThen (scanLoop lib (scanLines userData) (None, [], [])) (\<lambda>st.
       andThen (finishFragment lib st) (\<lambda>actions.
         case scanErr userData of None \<Rightarrow> Returned (Inr actions) | Some err \<Rightarrow> Returned (Inl err)))"

fun scriptLoop :: "cloud_lib \<Rightarrow> string \<Rightarrow> action list \<Rightarrow> go_error + string" where
  "scriptLoop lib script [] = Inr script"
| "scriptLoop lib script (a # as) =
     (case action_GenerateScriptBlock lib a of
        Inl err \<Rightarrow> Inl err
      | Inr scriptBlock \<Rightarrow> scriptLoop lib (script @ nl @ nl @ scriptBlock) as)"

definition GenerateScript :: "cloud_lib \<Rightarrow> string \<Rightarrow> (go_error + string) outcome" where
  "GenerateScript lib cloudConfig =
     (case yaml_Map lib cloudConfig of
        Some err \<Rightarrow> Returned (Inl (Wrapped ''cloud-config is not valid yaml'' err))
      | None \<Rightarrow>
          andThen (getActions lib cloudConfig) (\<lambda>actions.
            case scriptLoop lib scriptHeader actions of
              Inl err \<Rightarrow> Returned (Inl err)
            | Inr script \<Rightarrow> Returned (Inr (script @ nl))))"

end
