(* ===== verification/Cloud_Init_Correct.thy ===== *)
theory Cloud_Init_Correct
  imports Cloud_Init
begin

text \<open>
  Correctness of the cloud-init adapter: the one-pass scanner implements a cutting of the document
  into fragments, the script is the header and one block per fragment, in order, and the blocks
  carry what the modules say; with the places where the adapter does not do what it means to.
\<close>

subsection \<open>The fragments of a document\<close>

text \<open>The lines before the first key, and the groups of lines from each key up to the next.\<close>

fun fragments :: "string list \<Rightarrow> string list \<times> string list list" where
  "fragments [] = ([], [])"
| "fragments (l # ls) =
     (case fragments ls of (pre, segs) \<Rightarrow>
        if actionRegEx l then ([], (l # pre) # segs) else (l # pre, segs))"

lemma fragments_concat: "fragments ls = (pre, segs) \<Longrightarrow> pre @ concat segs = ls"
  by (induction ls arbitrary: pre segs) (auto split: prod.splits if_splits)

lemma fragments_shape:
  "fragments ls = (pre, segs) \<Longrightarrow> (\<forall>l \<in> set pre. \<not> actionRegEx l) \<and>
     (\<forall>seg \<in> set segs. \<exists>k body. seg = k # body \<and> actionRegEx k \<and> (\<forall>l \<in> set body. \<not> actionRegEx l))"
  by (induction ls arbitrary: pre segs) (fastforce split: prod.splits if_splits)+

definition unmarshalFragment :: "cloud_lib \<Rightarrow> string \<times> string list \<Rightarrow> (go_error + action) outcome" where
  "unmarshalFragment lib kf =
     action_Unmarshal lib (strJoin nl (snd kf)) (actionFactory_action (TrimSuffix (fst kf) '':''))"

text \<open>The key of a fragment with the lines that are unmarshalled for it: the first one also gets
  the lines before it.\<close>

definition fragmentsOf :: "string list \<Rightarrow> (string \<times> string list) list" where
  "fragmentsOf ls =
     (case fragments ls of
        (pre, []) \<Rightarrow> []
      | (pre, seg # segs) \<Rightarrow> (hd seg, pre @ seg) # map (\<lambda>s. (hd s, s)) segs)"

lemma unmarshalFragment_simp [simp]:
  "unmarshalFragment lib (k, ls) =
     action_Unmarshal lib (strJoin nl ls) (actionFactory_action (TrimSuffix k '':''))"
  by (simp add: unmarshalFragment_def)

lemma finishFragment_simps [simp]:
  "finishFragment lib (None, ls, acts) = Returned (Inr acts)"
  "finishFragment lib (Some a, ls, acts) =
     andThen (action_Unmarshal lib (strJoin nl ls) a) (\<lambda>a'. Returned (Inr (acts @ [a'])))"
  by (simp_all add: finishFragment_def)

lemma scanLoop_Some:
  "andThen (scanLoop lib lines (Some a, ls, acts)) (finishFragment lib) =
     (case fragments lines of (pre, segs) \<Rightarrow>
        andThen (action_Unmarshal lib (strJoin nl (ls @ pre)) a) (\<lambda>a'.
        andThen (eachOf (unmarshalFragment lib) (map (\<lambda>s. (hd s, s)) segs)) (\<lambda>as.
        Returned (Inr (acts @ a' # as)))))"
proof (induction lines arbitrary: a ls acts)
  case Nil
  show ?case by simp
next
  case (Cons l lines)
  obtain pre segs where f: "fragments lines = (pre, segs)" by force
  show ?case
  proof (cases "actionRegEx l")
    case True
    then show ?thesis
      using f by (simp add: scanLine_def andThen_assoc Cons.IH)
  next
    case False
    then show ?thesis using f by (simp add: scanLine_def Cons.IH)
  qed
qed

lemma scanLoop_None:
  "andThen (scanLoop lib lines (None, ls, [])) (finishFragment lib) =
     eachOf (unmarshalFragment lib)
       (case fragments lines of
          (pre, []) \<Rightarrow> []
        | (pre, seg # segs) \<Rightarrow> (hd seg, ls @ pre @ seg) # map (\<lambda>s. (hd s, s)) segs)"
proof (induction lines arbitrary: ls)
  case Nil
  show ?case by simp
next
  case (Cons l lines)
  obtain pre segs where f: "fragments lines = (pre, segs)" by force
  show ?case
  proof (cases "actionRegEx l")
    case True
    then show ?thesis
      using f by (simp add: scanLine_def andThen_assoc scanLoop_Some)
  next
    case False
    then show ?thesis using f by (cases segs) (simp_all add: scanLine_def Cons.IH)
  qed
qed

lemma getActions_fragments:
  "getActions lib doc =
     andThen (eachOf (unmarshalFragment lib) (fragmentsOf (scanLines doc))) (\<lambda>actions.
       case scanErr doc of None \<Rightarrow> Returned (Inr actions) | Some err \<Rightarrow> Returned (Inl err))"
  using scanLoop_None [of lib "scanLines doc" "[]"]
  by (simp add: getActions_def fragmentsOf_def andThen_assoc [symmetric] cong: prod.case_cong list.case_cong)

subsection \<open>The lines of a document\<close>

lemma rawLines_no_NL: "l \<in> set (rawLines s) \<Longrightarrow> NL \<notin> set l"
  by (induction s arbitrary: l) (auto split: if_splits list.splits)

lemma rawLines_join: "\<exists>e \<in> {[], nl}. strJoin nl (rawLines s) @ e = s"
proof (induction s)
  case Nil
  show ?case by simp
next
  case (Cons c s)
  show ?case
  proof (cases "rawLines s")
    case Nil
    then show ?thesis using Cons.IH by (cases s) (auto simp: nl_def split: list.splits if_splits)
  next
    case (Cons l ls)
    then show ?thesis using Cons.IH by (cases ls) (auto simp: nl_def Cons)
  qed
qed

subsection \<open>The script\<close>

lemma scriptLoop_ok_iff:
  "scriptLoop lib script as = Inr s \<longleftrightarrow>
     (\<exists>bs. list_all2 (\<lambda>a b. action_GenerateScriptBlock lib a = Inr b) as bs \<and>
        s = script @ concat (map (\<lambda>b. nl @ nl @ b) bs))"
proof (induction as arbitrary: script)
  case Nil
  show ?case by auto
next
  case (Cons a as)
  show ?case
  proof (cases "action_GenerateScriptBlock lib a")
    case (Inl e)
    then show ?thesis by (auto simp: list_all2_Cons1)
  next
    case (Inr b)
    then show ?thesis by (force simp: Cons.IH list_all2_Cons1)
  qed
qed

lemma GenerateScript_ok_iff:
  "GenerateScript lib doc = Returned (Inr s) \<longleftrightarrow>
     yaml_Map lib doc = None \<and> scanErr doc = None \<and>
     (\<exists>actions bs. list_all2 (\<lambda>kf a. unmarshalFragment lib kf = Returned (Inr a))
          (fragmentsOf (scanLines doc)) actions \<and>
        list_all2 (\<lambda>a b. action_GenerateScriptBlock lib a = Inr b) actions bs \<and>
        s = scriptHeader @ concat (map (\<lambda>b. nl @ nl @ b) bs) @ nl)"
proof -
  have script: "(case r of Inl err \<Rightarrow> Returned (Inl err) | Inr t \<Rightarrow> Returned (Inr (t @ nl))) = Returned (Inr s) \<longleftrightarrow>
      (\<exists>t. r = Inr t \<and> s = t @ nl)" for r :: "go_error + string"
    by (cases r) auto
  have err: "(case e of None \<Rightarrow> Returned (Inr as) | Some x \<Rightarrow> Returned (Inl x)) = Returned (Inr bs) \<longleftrightarrow>
      e = None \<and> bs = as" for e :: "go_error option" and as bs :: "action list"
    by (cases e) auto
  show ?thesis
  proof (cases "yaml_Map lib doc")
    case None
    then show ?thesis
      by (auto simp: GenerateScript_def getActions_fragments andThen_ok_iff eachOf_ok_iff
          scriptLoop_ok_iff script err; blast)
  next
    case (Some e)
    then show ?thesis by (simp add: GenerateScript_def)
  qed
qed

subsection \<open>Unknown modules\<close>

lemma keyLine_not_storable:
  assumes "actionRegEx (l :: string)"
  shows "\<not> storableHead (l @ r)"
proof -
  obtain k t where l: "l = k @ CHR '':'' # t" and k: "\<forall>c \<in> set k. keyChar c"
  proof -
    have "dropWhile keyChar l = CHR '':'' # tl (dropWhile keyChar l)"
      using assms by (auto simp: actionRegEx_def split: list.splits)
    then have "l = takeWhile keyChar l @ CHR '':'' # tl (dropWhile keyChar l)"
      by (metis takeWhile_dropWhile_id)
    then show thesis using that set_takeWhileD by metis
  qed
  have key: "\<not> jsonSpace c" "c \<noteq> CHR ''[''" "c \<noteq> CHR 0x22" "c \<noteq> CHR '':''" if "keyChar c" for c
    using that by (auto simp: keyChar_def jsonSpace_def byte_def)
  show ?thesis
  proof (cases k)
    case Nil
    then show ?thesis by (simp add: l storableHead_def jsonSpace_def)
  next
    case (Cons c k')
    have "\<not> (take 3 (k' @ CHR '':'' # t @ r) = ''ull'' \<and> skipWs (drop 3 (k' @ CHR '':'' # t @ r)) = [])"
    proof
      assume a: "take 3 (k' @ CHR '':'' # t @ r) = ''ull'' \<and> skipWs (drop 3 (k' @ CHR '':'' # t @ r)) = []"
      have "CHR '':'' \<in> set (take 3 (k' @ CHR '':'' # t @ r)) \<or> CHR '':'' \<in> set (drop 3 (k' @ CHR '':'' # t @ r))"
        unfolding Un_iff [symmetric] set_append [symmetric] append_take_drop_id by simp
      then show False
      proof
        assume "CHR '':'' \<in> set (take 3 (k' @ CHR '':'' # t @ r))"
        then have "CHR '':'' \<in> set ''ull''" using a by metis
        then show False by simp
      next
        assume "CHR '':'' \<in> set (drop 3 (k' @ CHR '':'' # t @ r))"
        moreover have "\<forall>c \<in> set (drop 3 (k' @ CHR '':'' # t @ r)). jsonSpace c"
          using a [THEN conjunct2, unfolded skipWs_def dropWhile_eq_Nil_conv] .
        ultimately have "jsonSpace (CHR '':'')" by blast
        then show False by (simp add: jsonSpace_def)
      qed
    qed
    moreover have "skipWs (l @ r) = c # k' @ CHR '':'' # t @ r"
      using key(1) [of c] k by (simp add: l Cons)
    ultimately show ?thesis using key(2,3) [of c] k by (simp add: storableHead_def Cons)
  qed
qed

lemma strJoin_Cons_append: "\<exists>r. strJoin sep (l # ls) = l @ r"
  by (cases ls) auto

lemma unknown_Unmarshal_fails:
  "\<not> storableHead data \<Longrightarrow> \<exists>e. unknown_Unmarshal data = Inl e"
  by (auto simp: unknown_Unmarshal_def split: sum.splits json_error.splits
      dest: unmarshalStrings_head unmarshalString_head)

lemma unknown_fragment_fails:
  assumes "actionRegEx k" and "TrimSuffix k '':'' \<notin> {writefiles, runcmd}"
    and "pre = [] \<or> (\<exists>t. hd pre = CHR ''#'' # t)"
  shows "\<exists>e. unmarshalFragment lib (k, pre @ k # body) = Returned (Inl e)"
proof -
  have "\<not> storableHead (strJoin nl (pre @ k # body))"
  proof (cases pre)
    case Nil
    obtain r where "strJoin nl (k # body) = k @ r" using strJoin_Cons_append by blast
    then show ?thesis using keyLine_not_storable [OF assms(1)] by (simp add: Nil)
  next
    case (Cons p ps)
    obtain r where "strJoin nl (p # ps @ k # body) = p @ r" using strJoin_Cons_append by blast
    then show ?thesis using assms(3) by (auto simp: Cons storableHead_def jsonSpace_def)
  qed
  then obtain e where "unknown_Unmarshal (strJoin nl (pre @ k # body)) = Inl e"
    using unknown_Unmarshal_fails by blast
  then show ?thesis using assms(2) by (simp add: actionFactory_action_def)
qed

lemma fragmentsOf_mem:
  assumes "kf \<in> set (fragmentsOf ls)"
  obtains pre k body where "kf = (k, pre @ k # body)" "actionRegEx k"
    "pre = [] \<or> (\<exists>segs. fragments ls = (pre, segs))"
proof -
  obtain pre segs where f: "fragments ls = (pre, segs)" by force
  have shape: "\<exists>k body. seg = k # body \<and> actionRegEx k" if "seg \<in> set segs" for seg
    using fragments_shape [OF f] that by blast
  show thesis
  proof (cases segs)
    case Nil
    then show thesis using assms f by (simp add: fragmentsOf_def)
  next
    case (Cons seg rest)
    then consider "kf = (hd seg, pre @ seg)" | s where "s \<in> set rest" "kf = (hd s, s)"
      using assms f by (auto simp: fragmentsOf_def)
    then show thesis
    proof cases
      case 1
      obtain k body where "seg = k # body" "actionRegEx k" using shape [of seg] Cons by auto
      then show thesis using that [of k pre body] 1 f by auto
    next
      case 2
      obtain k body where "s = k # body" "actionRegEx k" using shape [of s] Cons 2 by auto
      then show thesis using that [of k "[]" body] 2 by auto
    qed
  qed
qed

lemma fragmentsOf_keys: "map fst (fragmentsOf ls) = filter actionRegEx ls"
proof -
  have "map hd (snd (fragments ls)) = filter actionRegEx ls"
    by (induction ls) (auto split: prod.splits)
  then show ?thesis by (auto simp: fragmentsOf_def comp_def split: prod.splits list.splits)
qed

subsection \<open>Commands\<close>

text \<open>The command line of a command, and the block as a list of them.\<close>

definition commandLine :: "unicode_tables \<Rightarrow> Cmd \<Rightarrow> string" where
  "commandLine u c = strJoin '' '' (map (Quote u) (cmd_Cmd c # cmd_Args c))"

lemma strJoin_concat: "strJoin sep (x # xs) = x @ concat (map (\<lambda>a. sep @ a) xs)"
  by (induction xs arbitrary: x) simp_all

lemma quoteArgs_eq: "quoteArgs u command args = strJoin '' '' (command # map (Quote u) args)"
  unfolding strJoin_concat by (induction args arbitrary: command) (simp_all add: comp_def)

lemma cmdBlocks_eq:
  "cmdBlocks lib b cs =
     (b @ concat (map (\<lambda>c. nl @ commandLine (cl_Unicode lib) (fst (hackKubeadmIgnoreErrors c))) cs),
      map (snd \<circ> hackKubeadmIgnoreErrors) cs)"
  by (induction cs arbitrary: b) (auto simp: Let_def quoteArgs_eq commandLine_def split: prod.splits)

definition kubeadmText :: "string \<Rightarrow> bool" where
  "kubeadmText s \<longleftrightarrow> Contains s ''kubeadm init'' \<or> Contains s ''kubeadm join''"

lemma hackKubeadm_shell:
  "kubeadmText s \<Longrightarrow>
     fst (hackKubeadmIgnoreErrors \<lparr>cmd_Cmd = ''/bin/sh'', cmd_Args = ''-c'' # s # rest\<rparr>) =
       \<lparr>cmd_Cmd = ''/bin/sh'', cmd_Args = ''-c'' # (s @ '' '' @ ignoreFlag) # rest\<rparr>"
  by (simp add: hackKubeadmIgnoreErrors_def kubeadmText_def Let_def)

lemma hackKubeadm_list:
  "verb \<in> {''init'', ''join''} \<Longrightarrow>
     fst (hackKubeadmIgnoreErrors \<lparr>cmd_Cmd = ''kubeadm'', cmd_Args = verb # rest\<rparr>) =
       \<lparr>cmd_Cmd = ''kubeadm'', cmd_Args = verb # rest @ [ignoreFlag]\<rparr>"
  by (auto simp: hackKubeadmIgnoreErrors_def Let_def)

definition runsKubeadm :: "Cmd \<Rightarrow> bool" where
  "runsKubeadm c \<longleftrightarrow>
     (\<exists>s rest. c = \<lparr>cmd_Cmd = ''/bin/sh'', cmd_Args = ''-c'' # s # rest\<rparr> \<and> kubeadmText s) \<or>
     (\<exists>verb rest. c = \<lparr>cmd_Cmd = ''kubeadm'', cmd_Args = verb # rest\<rparr> \<and> verb \<in> {''init'', ''join''})"

lemma hackKubeadm_other:
  assumes "\<not> runsKubeadm c"
  shows "hackKubeadmIgnoreErrors c = (c, c)"
proof -
  obtain a xs where c: "c = \<lparr>cmd_Cmd = a, cmd_Args = xs\<rparr>" by (cases c)
  show ?thesis
    using assms
    by (cases xs; cases "tl xs")
      (auto simp: c runsKubeadm_def hackKubeadmIgnoreErrors_def kubeadmText_def Let_def)
qed

subsection \<open>What bash reads\<close>

text \<open>
  The word bash makes of a double-quoted text: a backslash quotes a dollar, a backquote, a double
  quote and a backslash, joins lines, and is itself otherwise; an unquoted dollar or backquote starts
  an expansion, for which no word is given here.
\<close>

fun bashQuoted :: "string \<Rightarrow> string option" where
  "bashQuoted [] = None"
| "bashQuoted (c # r) =
     (if c = CHR 0x22 then (if r = [] then Some [] else None)
      else if c = CHR 0x24 \<or> c = CHR 0x60 then None
      else if c = CHR 0x5C then
        (case r of
           [] \<Rightarrow> None
         | d # t \<Rightarrow>
             if d = NL then bashQuoted t
             else if d \<in> set [CHR 0x24, CHR 0x60, CHR 0x22, CHR 0x5C]
             then map_option (\<lambda>w. d # w) (bashQuoted t)
             else map_option (\<lambda>w. c # d # w) (bashQuoted t))
      else map_option (\<lambda>w. c # w) (bashQuoted r))"

definition bashWord :: "string \<Rightarrow> string option" where
  "bashWord s = (case s of [] \<Rightarrow> None | c # r \<Rightarrow> if c = CHR 0x22 then bashQuoted r else None)"

definition shellSafe :: "string \<Rightarrow> bool" where
  "shellSafe s \<longleftrightarrow> list_all (\<lambda>c. 32 \<le> byte c \<and> byte c < 127 \<and> c \<noteq> CHR 0x24 \<and> c \<noteq> CHR 0x60) s"

lemma quoteRune_ascii:
  assumes "32 \<le> byte c" and "byte c < 127"
  shows "quoteRune u (byte c, [c]) = (if c = CHR 0x22 \<or> c = CHR 0x5C then [CHR 0x5C, c] else [c])"
proof -
  have "byte c = 34 \<longleftrightarrow> c = CHR 0x22" "byte c = 92 \<longleftrightarrow> c = CHR 0x5C"
    using byte_inject [of c "CHR 0x22"] byte_inject [of c "CHR 0x5C"] by (simp_all add: byte_def)
  moreover have "byte c \<noteq> RuneError" "byte c < 128" using assms by linarith+
  ultimately show ?thesis using assms by (simp add: quoteRune_def Let_def isPrintRune_def)
qed

lemma bashWord_Quote:
  assumes "shellSafe s"
  shows "bashWord (Quote u s) = Some s"
proof -
  have runes: "runes s = map (\<lambda>c. (byte c, [c])) s"
    by (intro runes_ascii, unfold ascii_def)
      (rule list.pred_mono_strong [OF assms [unfolded shellSafe_def]], linarith)
  have "bashQuoted (concat (map (\<lambda>c. quoteRune u (byte c, [c])) s) @ [CHR 0x22]) = Some s"
    using assms
  proof (induction s)
    case (Cons c s)
    have "32 \<le> byte c" "byte c < 127" "c \<noteq> CHR 0x24" "c \<noteq> CHR 0x60" "shellSafe s"
      using Cons.prems by (simp_all add: shellSafe_def)
    then show ?case using Cons.IH by (auto simp: quoteRune_ascii NL_def)
  qed simp
  then show ?thesis by (simp add: bashWord_def Quote_def runes comp_def)
qed

subsection \<open>Files\<close>

text \<open>The lines for one file whose decoded content is given.\<close>

definition endedContent :: "string \<Rightarrow> string" where
  "endedContent content = (if HasSuffix content nl then content else content @ nl)"

definition fileScript :: "unicode_tables \<Rightarrow> files \<Rightarrow> string \<Rightarrow> string" where
  "fileScript u f content =
     (let path = fixPath (f_Path f); perm = fixPermissions (f_Permissions f); owner = fixOwner (f_Owner f)
      in nl @ ''mkdir -p '' @ Quote u (filepath_Dir path) @
         nl @ ''cat '' @ (if f_Append f then ''>>'' else ''>'') @ '' '' @ Quote u path @ '' << END'' @
         nl @ endedContent content @ ''END'' @
         (if perm \<noteq> ''0644'' then nl @ ''chmod '' @ perm @ '' '' @ Quote u path else []) @
         (if owner \<noteq> ''root:root'' then nl @ ''chown '' @ owner @ '' '' @ Quote u path else []))"

abbreviation fileContent :: "cloud_lib \<Rightarrow> files \<Rightarrow> go_error + string" where
  "fileContent lib f \<equiv> fixContent lib (f_Content f) (fixEncoding (cl_Unicode lib) (f_Encoding f))"

lemma fileBlock_ok_iff:
  "fileBlock lib b f = Inr b' \<longleftrightarrow>
     (\<exists>content. fileContent lib f = Inr content \<and> b' = b @ fileScript (cl_Unicode lib) f content)"
  by (auto simp: fileBlock_def fileScript_def endedContent_def Let_def split: sum.splits)

lemma fileBlocks_ok_iff:
  "fileBlocks lib b fs = Inr b' \<longleftrightarrow>
     (\<exists>contents. list_all2 (\<lambda>f c. fileContent lib f = Inr c) fs contents \<and>
        b' = b @ concat (map2 (fileScript (cl_Unicode lib)) fs contents))"
proof (induction fs arbitrary: b)
  case Nil
  show ?case by auto
next
  case (Cons f fs)
  show ?case
  proof (cases "fileBlock lib b f")
    case (Inl e)
    then have "\<forall>c. fileContent lib f \<noteq> Inr c" by (metis Inl_Inr_False fileBlock_ok_iff)
    then show ?thesis using Inl by (auto simp: list_all2_Cons1)
  next
    case (Inr b1)
    then obtain c where "fileContent lib f = Inr c" "b1 = b @ fileScript (cl_Unicode lib) f c"
      by (auto simp: fileBlock_ok_iff)
    then show ?thesis using Inr by (force simp: Cons.IH list_all2_Cons1)
  qed
qed

text \<open>The encodings the source names.\<close>

lemma TrimSpace_trimmed:
  assumes "ascii s" and "s = [] \<or> \<not> isSpaceRune (byte (hd s)) \<and> \<not> isSpaceRune (byte (last s))"
  shows "TrimSpace s = s"
proof (cases s rule: rev_cases)
  case Nil
  then show ?thesis by simp
next
  case (snoc t c)
  have hd: "dropWhile (\<lambda>(r, _). isSpaceRune r) (map (\<lambda>c. (byte c, [c])) s) = map (\<lambda>c. (byte c, [c])) s"
    using assms(2) snoc by (cases t) auto
  have last: "dropWhile (\<lambda>(r, _). isSpaceRune r) (rev (map (\<lambda>c. (byte c, [c])) s)) =
      rev (map (\<lambda>c. (byte c, [c])) s)"
    using assms(2) snoc by auto
  show ?thesis
    by (simp add: TrimSpace_def Let_def runes_ascii [OF assms(1)] hd last [unfolded rev_map] rev_map comp_def)
qed

lemma rawLines_Nil_iff [simp]: "rawLines s = [] \<longleftrightarrow> s = []"
  by (cases s) (auto split: list.splits)

lemma rawLines_ended:
  assumes "HasSuffix x nl"
  shows "rawLines (x @ y) = rawLines x @ rawLines y"
proof -
  obtain p where "x = p @ nl" using HasSuffixD [OF assms] by blast
  moreover have "rawLines (p @ NL # z) = rawLines (p @ [NL]) @ rawLines z" for z
  proof (induction p)
    case (Cons a p)
    obtain l ls where "rawLines (p @ [NL]) = l # ls" by (cases "rawLines (p @ [NL])") auto
    then show ?case using Cons by simp
  qed simp
  ultimately show ?thesis unfolding nl_def by (metis append.assoc append_Cons append_Nil)
qed

lemma rawLines_add_NL:
  assumes "x \<noteq> []" and "\<not> HasSuffix x nl"
  shows "rawLines (x @ nl) = rawLines x"
proof -
  obtain p c where x: "x = p @ [c]" using assms(1) by (metis rev_exhaust)
  have "c \<noteq> NL" using assms(2) by (auto simp: x nl_def)
  then have "rawLines (p @ [c, NL]) = rawLines (p @ [c])"
    by (induction p) (auto split: list.splits)
  then show ?thesis by (simp add: x nl_def)
qed

lemma rawLines_endedContent: "x \<noteq> [] \<Longrightarrow> rawLines (endedContent x) = rawLines x"
  by (simp add: endedContent_def rawLines_add_NL)

lemma HasSuffix_endedContent [simp]: "HasSuffix (endedContent x) nl"
  by (simp add: endedContent_def)

text \<open>The lines bash reads as the document of the redirection: those before the line \<open>END\<close>.\<close>

lemma heredoc_lines:
  assumes "content \<noteq> []" and "''END'' \<notin> set (rawLines content)" and "rest = [] \<or> hd rest = NL"
  shows "takeWhile (\<lambda>l. l \<noteq> ''END'') (rawLines (endedContent content @ ''END'' @ rest)) = rawLines content"
proof -
  have end_line: "\<exists>ls. rawLines (''END'' @ rest) = ''END'' # ls"
    using assms(3) by (cases rest) (auto simp: NL_def)
  have "rawLines (endedContent content @ ''END'' @ rest) =
      rawLines content @ rawLines (''END'' @ rest)"
    using rawLines_ended [OF HasSuffix_endedContent, of content "''END'' @ rest"]
    by (simp add: rawLines_endedContent [OF assms(1)])
  then show ?thesis using end_line assms(2) by (auto simp: takeWhile_append)
qed

lemma fragmentsOf_concat: "fragmentsOf ls \<noteq> [] \<Longrightarrow> concat (map snd (fragmentsOf ls)) = ls"
  using fragments_concat [of ls]
  by (auto simp: fragmentsOf_def comp_def split: prod.splits list.splits)

lemma bashQuoted_chars: "bashQuoted s = Some w \<Longrightarrow> set w \<subseteq> set s"
proof (induction s arbitrary: w rule: length_induct)
  case (1 s)
  have IH: "length t < length s \<Longrightarrow> bashQuoted t = Some v \<Longrightarrow> set v \<subseteq> set t" for t v
    using "1.IH" by blast
  obtain c r where s: "s = c # r" using "1.prems" by (cases s) auto
  consider "w = []" | v where "bashQuoted r = Some v" "w = c # v"
    | d t v where "r = d # t" "bashQuoted t = Some v" "w = v \<or> w = d # v \<or> w = c # d # v"
    using "1.prems" unfolding s bashQuoted.simps(2) by (auto split: if_splits list.splits simp del: bashQuoted.simps)
  then show ?case
  proof cases
    case 2
    then show ?thesis using IH [of r v] by (auto simp: s)
  next
    case 3
    then show ?thesis using IH [of t v] by (auto simp: s)
  qed simp
qed

lemma quoteRune_no_NL:
  assumes "byte c < 128"
  shows "NL \<notin> set (quoteRune u (byte c, [c]))"
proof -
  have nl: "c = NL \<longleftrightarrow> byte c = 10" using byte_inject [of c NL] by (simp add: byte_def NL_def)
  have hex: "NL \<noteq> hexDigit d" if "d < 16" for d
  proof -
    have "byte (hexDigit d) = (if d < 10 then 48 + d else 87 + d)"
      using that by (simp add: hexDigit_def byte_def)
    moreover have "byte NL = 10" by (simp add: byte_def NL_def)
    ultimately have "byte (hexDigit d) \<noteq> byte NL" by simp
    then show ?thesis by metis
  qed
  show ?thesis
    using assms nl hex [of "byte c div 16"] hex [of "byte c mod 16"] hex [of 0]
    by (auto simp: quoteRune_def Let_def isPrintRune_def NL_def)
qed

lemma Quote_no_NL: "ascii s \<Longrightarrow> NL \<notin> set (Quote u s)"
proof -
  assume a: "ascii s"
  have "NL \<notin> set (quoteRune u (byte c, [c]))" if "c \<in> set s" for c
    using a that by (intro quoteRune_no_NL) (auto simp: ascii_def list_all_iff)
  then show ?thesis by (auto simp: Quote_def runes_ascii [OF a] NL_def)
qed

lemma bashWord_Quote_NL: "ascii s \<Longrightarrow> NL \<in> set s \<Longrightarrow> bashWord (Quote u s) \<noteq> Some s"
  using Quote_no_NL [of s u] bashQuoted_chars
  by (fastforce simp: bashWord_def Quote_def)

subsection \<open>Properties\<close>

text \<open>A library on which the properties are applied.\<close>

definition sampleCloud :: "string list \<Rightarrow> cloud_lib" where
  "sampleCloud cmds = \<lparr>yaml_Map = (\<lambda>_. None), yaml_RunCmd = (\<lambda>_. Inr cmds), yaml_WriteFiles = (\<lambda>_. Inr []),
     gzip_NewReader = (\<lambda>_. Inl (GoError ''gzip: invalid header'')), gzip_ReadFrom = (\<lambda>s. Inr s),
     cl_Unicode = \<lparr>ut_IsPrint = (\<lambda>_. False), ut_ToLower = (\<lambda>r. r)\<rparr>\<rparr>"

definition sampleDoc :: string where "sampleDoc = ''runcmd:'' @ nl"

lemma sampleDoc_lines:
  "scanLines sampleDoc = [''runcmd:'']" "scanErr sampleDoc = None" "actionRegEx ''runcmd:''"
  by (simp_all add: sampleDoc_def scanLines_def scanErr_def nl_def NL_def dropCR_def maxLine_def
      actionRegEx_def keyChar_def byte_def)

lemma sampleDoc_script:
  "GenerateScript (sampleCloud []) sampleDoc = Returned (Inr (scriptHeader @ nl @ nl @ ''# runcmd script block'' @ nl))"
proof -
  have "TrimSuffix ''runcmd:'' '':'' = runcmd" by (simp add: TrimSuffix_def HasSuffix_def)
  then show ?thesis
    by (simp add: GenerateScript_def getActions_fragments sampleDoc_lines fragmentsOf_def sampleCloud_def
        actionFactory_action_def runCmd_Unmarshal_def runCmd_GenerateScriptBlock_def)
qed

text \<open>
  C29. The one-pass scanner refines the cutting of the document at its top-level keys: the actions
  are, in the order of the document, what the modules unmarshal from the fragments, up to the first
  error or panic; and the fragments lose no line and have exactly the key lines as their keys.
\<close>

theorem getActions_refines_fragments:
  "getActions lib doc =
     andThen (eachOf (unmarshalFragment lib) (fragmentsOf (scanLines doc))) (\<lambda>actions.
       case scanErr doc of None \<Rightarrow> Returned (Inr actions) | Some err \<Rightarrow> Returned (Inl err)) \<and>
   map fst (fragmentsOf (scanLines doc)) = filter actionRegEx (scanLines doc) \<and>
   (fragmentsOf (scanLines doc) = [] \<or> concat (map snd (fragmentsOf (scanLines doc))) = scanLines doc)"
  using getActions_fragments fragmentsOf_keys fragmentsOf_concat by blast

text \<open>
  C30. A script is generated exactly when the document is YAML, no line exceeds the scanner's buffer,
  every fragment unmarshals and every action gives a block; it is then the header, the blocks in
  the order of the document, each after an empty line, and a final line break.
\<close>

theorem GenerateScript_structure:
  "GenerateScript lib doc = Returned (Inr s) \<longleftrightarrow>
     yaml_Map lib doc = None \<and> scanErr doc = None \<and>
     (\<exists>actions bs. list_all2 (\<lambda>kf a. unmarshalFragment lib kf = Returned (Inr a))
          (fragmentsOf (scanLines doc)) actions \<and>
        list_all2 (\<lambda>a b. action_GenerateScriptBlock lib a = Inr b) actions bs \<and>
        s = scriptHeader @ concat (map (\<lambda>b. nl @ nl @ b) bs) @ nl)"
  by (rule GenerateScript_ok_iff)

text \<open>
  A document that begins with a comment or with a key, as every cloud-config does, gives a script
  only if every key line is exactly \<open>write_files:\<close> or \<open>runcmd:\<close>. The action for other modules is
  meant to slurp their value, but it reads the fragment, key line included, as JSON, which fails.
\<close>

theorem unknown_modules_rejected:
  assumes "GenerateScript lib doc = Returned (Inr s)"
    and "l \<in> set (scanLines doc)" and "actionRegEx l"
    and "actionRegEx (hd (scanLines doc)) \<or> take 1 (hd (scanLines doc)) = ''#''"
  shows "TrimSuffix l '':'' \<in> {writefiles, runcmd}"
proof (rule ccontr)
  assume unknown: "TrimSuffix l '':'' \<notin> {writefiles, runcmd}"
  obtain actions where ok: "list_all2 (\<lambda>kf a. unmarshalFragment lib kf = Returned (Inr a))
      (fragmentsOf (scanLines doc)) actions"
    using assms(1) by (auto simp: GenerateScript_ok_iff)
  have "l \<in> set (map fst (fragmentsOf (scanLines doc)))"
    using assms(2,3) by (simp add: fragmentsOf_keys)
  then obtain kf where kf: "kf \<in> set (fragmentsOf (scanLines doc))" "fst kf = l" by auto
  obtain pre k body where shape: "kf = (k, pre @ k # body)" "actionRegEx k"
    and pre: "pre = [] \<or> (\<exists>segs. fragments (scanLines doc) = (pre, segs))"
    using kf(1) by (rule fragmentsOf_mem)
  have "pre = [] \<or> (\<exists>t. hd pre = CHR ''#'' # t)"
  proof (cases pre)
    case (Cons p ps)
    then obtain segs where f: "fragments (scanLines doc) = (pre, segs)" using pre by auto
    then have "hd (scanLines doc) = p" using fragments_concat [OF f] Cons by (metis append_Cons list.sel(1))
    moreover have "\<not> actionRegEx p" using fragments_shape [OF f] Cons by simp
    ultimately have "take 1 p = ''#''" using assms(4) by simp
    then show ?thesis using Cons by (cases p) auto
  qed simp
  moreover have "TrimSuffix k '':'' \<notin> {writefiles, runcmd}" using unknown kf(2) shape(1) by simp
  ultimately obtain e where "unmarshalFragment lib kf = Returned (Inl e)"
    using unknown_fragment_fails [OF shape(2)] shape(1) by blast
  moreover obtain a where "unmarshalFragment lib kf = Returned (Inr a)"
    using ok kf(1) unfolding list_all2_conv_all_nth in_set_conv_nth by blast
  ultimately show False by simp
qed

theorem unknown_modules_rejected_witness:
  "GenerateScript (sampleCloud []) sampleDoc = Returned (Inr (scriptHeader @ nl @ nl @ ''# runcmd script block'' @ nl)) \<and>
   TrimSuffix ''runcmd:'' '':'' \<in> {writefiles, runcmd}"
  using sampleDoc_script unknown_modules_rejected [OF sampleDoc_script, of "''runcmd:''"] sampleDoc_lines by simp

text \<open>
  C31. Commands reach bash as written: for a command that does not run kubeadm and whose words are
  printable ASCII without dollar and backquote, the generated line consists of words which bash
  reads back as exactly the command and its arguments.
\<close>

theorem runcmd_words_read_back:
  assumes "\<not> runsKubeadm c" and "list_all shellSafe (cmd_Cmd c # cmd_Args c)"
  shows "\<exists>ws. fst (runCmd_GenerateScriptBlock lib [c]) =
      ''# runcmd script block'' @ nl @ strJoin '' '' ws \<and>
    map bashWord ws = map Some (cmd_Cmd c # cmd_Args c)"
proof (intro exI conjI)
  show "fst (runCmd_GenerateScriptBlock lib [c]) = ''# runcmd script block'' @ nl @
      strJoin '' '' (map (Quote (cl_Unicode lib)) (cmd_Cmd c # cmd_Args c))"
    by (simp add: runCmd_GenerateScriptBlock_def cmdBlocks_eq hackKubeadm_other [OF assms(1)] commandLine_def)
  show "map bashWord (map (Quote (cl_Unicode lib)) (cmd_Cmd c # cmd_Args c)) = map Some (cmd_Cmd c # cmd_Args c)"
    using assms(2) by (auto simp: bashWord_Quote list_all_iff)
qed

theorem runcmd_words_read_back_witness:
  "\<exists>ws. fst (runCmd_GenerateScriptBlock (sampleCloud []) [\<lparr>cmd_Cmd = ''echo'', cmd_Args = [''a b'']\<rparr>]) =
      ''# runcmd script block'' @ nl @ strJoin '' '' ws \<and>
    map bashWord ws = [Some ''echo'', Some ''a b'']"
  using runcmd_words_read_back [of "\<lparr>cmd_Cmd = ''echo'', cmd_Args = [''a b'']\<rparr>" "sampleCloud []"]
  by (simp add: runsKubeadm_def shellSafe_def byte_def)

text \<open>
  A word with a line break is not read back: Go's quoting writes a backslash and an \<open>n\<close>, which
  bash leaves as these two characters inside double quotes. A multi-line string command is changed.
\<close>

theorem runcmd_newline_mangled:
  assumes "ascii s" and "NL \<in> set s" and "\<not> kubeadmText s"
  shows "\<exists>w1 w2 w3. fst (runCmd_GenerateScriptBlock lib [\<lparr>cmd_Cmd = ''/bin/sh'', cmd_Args = [''-c'', s]\<rparr>]) =
      ''# runcmd script block'' @ nl @ strJoin '' '' [w1, w2, w3] \<and> bashWord w3 \<noteq> Some s"
proof (intro exI conjI)
  have "\<not> runsKubeadm \<lparr>cmd_Cmd = ''/bin/sh'', cmd_Args = [''-c'', s]\<rparr>"
    using assms(3) by (simp add: runsKubeadm_def)
  then show "fst (runCmd_GenerateScriptBlock lib [\<lparr>cmd_Cmd = ''/bin/sh'', cmd_Args = [''-c'', s]\<rparr>]) =
      ''# runcmd script block'' @ nl @ strJoin '' '' [Quote (cl_Unicode lib) ''/bin/sh'',
        Quote (cl_Unicode lib) ''-c'', Quote (cl_Unicode lib) s]"
    by (simp add: runCmd_GenerateScriptBlock_def cmdBlocks_eq hackKubeadm_other commandLine_def)
  show "bashWord (Quote (cl_Unicode lib) s) \<noteq> Some s"
    using assms(1,2) by (rule bashWord_Quote_NL)
qed

theorem runcmd_newline_mangled_witness:
  "\<exists>w1 w2 w3. fst (runCmd_GenerateScriptBlock (sampleCloud [])
      [\<lparr>cmd_Cmd = ''/bin/sh'', cmd_Args = [''-c'', ''a'' @ nl @ ''b'']\<rparr>]) =
      ''# runcmd script block'' @ nl @ strJoin '' '' [w1, w2, w3] \<and> bashWord w3 \<noteq> Some (''a'' @ nl @ ''b'')"
  using runcmd_newline_mangled [of "''a'' @ nl @ ''b''" "sampleCloud []"]
  by (simp add: ascii_def byte_def nl_def NL_def kubeadmText_def)

text \<open>
  Every command that runs \<open>kubeadm init\<close> or \<open>kubeadm join\<close>, as a list or inside a string, is
  given the flag that makes kubeadm ignore preflight errors, once, at its end; no other command is
  changed.
\<close>

theorem runcmd_kubeadm_flag:
  "fst (runCmd_GenerateScriptBlock lib cs) =
     ''# runcmd script block'' @ concat (map (\<lambda>c. nl @ commandLine (cl_Unicode lib)
       (if runsKubeadm c
        then (if cmd_Cmd c = ''kubeadm'' then c\<lparr>cmd_Args := cmd_Args c @ [ignoreFlag]\<rparr>
              else c\<lparr>cmd_Args := (cmd_Args c)[1 := cmd_Args c ! 1 @ '' '' @ ignoreFlag]\<rparr>)
        else c)) cs)"
proof -
  have "fst (hackKubeadmIgnoreErrors c) =
      (if runsKubeadm c
        then (if cmd_Cmd c = ''kubeadm'' then c\<lparr>cmd_Args := cmd_Args c @ [ignoreFlag]\<rparr>
              else c\<lparr>cmd_Args := (cmd_Args c)[1 := cmd_Args c ! 1 @ '' '' @ ignoreFlag]\<rparr>)
        else c)" for c
    using hackKubeadm_other [of c]
    by (auto simp: runsKubeadm_def hackKubeadm_shell hackKubeadm_list)
  then show ?thesis
    by (simp add: runCmd_GenerateScriptBlock_def cmdBlocks_eq cong: map_cong)
qed

text \<open>
  Both forms of a \<open>runcmd\<close> item: a list is the command with its arguments, a string is run by
  \<open>/bin/sh -c\<close> (for texts that JSON writes without escapes).
\<close>

theorem Cmd_UnmarshalJSON_forms:
  assumes "list_all plain (c # args)" and "plain t"
  shows "Cmd_UnmarshalJSON (jsonStrings (c # args)) = Returned (Inr \<lparr>cmd_Cmd = c, cmd_Args = args\<rparr>) \<and>
    Cmd_UnmarshalJSON (jsonString t) = Returned (Inr \<lparr>cmd_Cmd = ''/bin/sh'', cmd_Args = [''-c'', t]\<rparr>)"
  using unmarshalStrings_plain [OF assms(1)] unmarshalString_plain [OF assms(2)]
    unmarshalStrings_plainString [OF assms(2)]
  by (simp add: Cmd_UnmarshalJSON_def)

theorem Cmd_UnmarshalJSON_forms_witness:
  "Cmd_UnmarshalJSON (jsonStrings [''kubeadm'', ''init'']) =
     Returned (Inr \<lparr>cmd_Cmd = ''kubeadm'', cmd_Args = [''init'']\<rparr>) \<and>
   Cmd_UnmarshalJSON (jsonString ''kubeadm init'') =
     Returned (Inr \<lparr>cmd_Cmd = ''/bin/sh'', cmd_Args = [''-c'', ''kubeadm init'']\<rparr>)"
  using Cmd_UnmarshalJSON_forms [of "''kubeadm''" "[''init'']" "''kubeadm init''"]
  by (simp add: plain_def byte_def)

text \<open>
  An empty list as first item of a \<open>runcmd\<close> module makes the generation panic, instead of
  returning an error: the first element is read without a test of the length.
\<close>

theorem runcmd_empty_item_panics:
  assumes "yaml_Map lib doc = None" and "fragmentsOf (scanLines doc) = (k, frag) # rest"
    and "TrimSuffix k '':'' = runcmd" and "yaml_RunCmd lib (strJoin nl frag) = Inr (jsonStrings [] # items)"
  shows "panics (GenerateScript lib doc)"
  using unmarshalStrings_plain [of "[]"] assms
  by (simp add: GenerateScript_def getActions_fragments actionFactory_action_def runCmd_Unmarshal_def
      Cmd_UnmarshalJSON_def)

theorem runcmd_empty_item_panics_witness:
  "panics (GenerateScript (sampleCloud [''[]'']) sampleDoc)"
proof -
  have lines: "fragmentsOf (scanLines sampleDoc) = [(''runcmd:'', [''runcmd:''])]"
    by (simp add: sampleDoc_def scanLines_def nl_def NL_def dropCR_def maxLine_def fragmentsOf_def
        actionRegEx_def keyChar_def byte_def)
  have "TrimSuffix ''runcmd:'' '':'' = runcmd" by (simp add: TrimSuffix_def HasSuffix_def)
  moreover have "jsonStrings [] = ''[]''" by (simp add: jsonStrings_def)
  ultimately show ?thesis
    by (intro runcmd_empty_item_panics [OF _ lines]) (simp_all add: sampleCloud_def)
qed

lemma fixEncoding_base64:
  assumes "e \<in> {''base64'', ''b64'', ''gz+base64'', ''gzip+base64'', ''gz+b64'', ''gzip+b64''}"
  shows "\<exists>es. fixEncoding u e = ''application/base64'' # es"
proof -
  have "ToLower u e = e" using assms by (auto simp: ToLower_def ascii_def asciiLower_def byte_def)
  moreover have "TrimSpace e = e"
    using assms by (intro TrimSpace_trimmed) (auto simp: ascii_def byte_def isSpaceRune_def)
  ultimately show ?thesis using assms by (auto simp: fixEncoding_def Let_def)
qed

text \<open>
  The base64 encodings: the file is written with the decoded bytes. This is right for
  \<open>base64\<close> and \<open>b64\<close>; for the four compressed encodings it means that the bytes are never
  decompressed, since the loop over the encodings returns after the first of the two.
\<close>

theorem write_files_base64:
  assumes "f_Encoding f \<in> {''base64'', ''b64'', ''gz+base64'', ''gzip+base64'', ''gz+b64'', ''gzip+b64''}"
    and "f_Content f = EncodeToString x"
  shows "writeFiles_GenerateScriptBlock lib [f] =
    Inr (''# write_files script block'' @ fileScript (cl_Unicode lib) f x)"
proof -
  obtain es where "fixEncoding (cl_Unicode lib) (f_Encoding f) = ''application/base64'' # es"
    using fixEncoding_base64 [OF assms(1)] by blast
  then have "fileBlock lib b f = Inr (b @ fileScript (cl_Unicode lib) f x)" for b
    using fileBlock_ok_iff [of lib b f "b @ fileScript (cl_Unicode lib) f x"]
    by (simp add: fixContent_def assms(2))
  then show ?thesis by (simp add: writeFiles_GenerateScriptBlock_def)
qed

theorem write_files_base64_witness:
  "writeFiles_GenerateScriptBlock (sampleCloud [])
     [\<lparr>f_Path = ''/a'', f_Encoding = ''gz+b64'', f_Owner = [], f_Permissions = [],
       f_Content = EncodeToString ''zipped'', f_Append = False\<rparr>] =
   Inr (''# write_files script block'' @ fileScript (cl_Unicode (sampleCloud []))
     \<lparr>f_Path = ''/a'', f_Encoding = ''gz+b64'', f_Owner = [], f_Permissions = [],
       f_Content = EncodeToString ''zipped'', f_Append = False\<rparr> ''zipped'')"
  by (rule write_files_base64) simp_all

text \<open>
  The block of a \<open>write_files\<close> module: one section per file, in order, with the decoded
  contents; and inside the here-document of a section bash finds exactly the lines of the content,
  provided it is not empty and none of its lines is the delimiter.
\<close>

theorem write_files_heredoc:
  assumes "writeFiles_GenerateScriptBlock lib [f] = Inr block" and "fileContent lib f = Inr content"
    and "content \<noteq> []" and "''END'' \<notin> set (rawLines content)"
  shows "\<exists>before doc. block = ''# write_files script block'' @ before @ '' << END'' @ nl @ doc \<and>
    takeWhile (\<lambda>l. l \<noteq> ''END'') (rawLines doc) = rawLines content"
proof -
  let ?u = "cl_Unicode lib" and ?path = "fixPath (f_Path f)"
  let ?perm = "fixPermissions (f_Permissions f)" and ?owner = "fixOwner (f_Owner f)"
  define rest where "rest = (if ?perm \<noteq> ''0644'' then nl @ ''chmod '' @ ?perm @ '' '' @ Quote ?u ?path else []) @
         (if ?owner \<noteq> ''root:root'' then nl @ ''chown '' @ ?owner @ '' '' @ Quote ?u ?path else [])"
  define before where "before = nl @ ''mkdir -p '' @ Quote ?u (filepath_Dir ?path) @ nl @ ''cat '' @
    (if f_Append f then ''>>'' else ''>'') @ '' '' @ Quote ?u ?path"
  have "block = ''# write_files script block'' @ fileScript ?u f content"
    using assms(1,2) fileBlocks_ok_iff [of lib _ "[f]" block]
    by (auto simp: writeFiles_GenerateScriptBlock_def list_all2_Cons1 simp del: fileBlocks.simps)
  then have "block = ''# write_files script block'' @ before @ '' << END'' @ nl @ endedContent content @ ''END'' @ rest"
    by (simp add: fileScript_def Let_def before_def rest_def)
  moreover have "takeWhile (\<lambda>l. l \<noteq> ''END'') (rawLines (endedContent content @ ''END'' @ rest)) = rawLines content"
    by (rule heredoc_lines [OF assms(3,4)]) (simp add: rest_def nl_def)
  ultimately show ?thesis by blast
qed

theorem write_files_heredoc_witness:
  "\<exists>block before doc. writeFiles_GenerateScriptBlock (sampleCloud [])
     [\<lparr>f_Path = ''/a'', f_Encoding = [], f_Owner = [], f_Permissions = ''0600'',
       f_Content = ''hi'', f_Append = True\<rparr>] = Inr block \<and>
    block = ''# write_files script block'' @ before @ '' << END'' @ nl @ doc \<and>
    takeWhile (\<lambda>l. l \<noteq> ''END'') (rawLines doc) = [''hi'']"
proof -
  let ?f = "\<lparr>f_Path = ''/a'', f_Encoding = [], f_Owner = [], f_Permissions = ''0600'',
       f_Content = ''hi'', f_Append = True\<rparr>"
  have c: "fileContent (sampleCloud []) ?f = Inr ''hi''"
    by (simp add: fixContent_def fixEncoding_def ToLower_def ascii_def)
  then obtain block where b: "writeFiles_GenerateScriptBlock (sampleCloud []) [?f] = Inr block"
    using fileBlocks_ok_iff [of "sampleCloud []" _ "[?f]"]
    by (auto simp: writeFiles_GenerateScriptBlock_def list_all2_Cons1 simp del: fileBlocks.simps)
  have lines: "rawLines ''hi'' = [''hi'']" by (simp add: NL_def)
  show ?thesis using write_files_heredoc [OF b c] b lines by auto
qed

end
