(* ===== verification/Machine_Reconcile.thy ===== *)
theory Machine_Reconcile
  imports Machine_Pod_Correct Pod_Status Pod_Exec Cloud_Init_Correct
begin

text \<open>
  The machine controller of \<open>src/controllers/kubernetesmachine_controller.go\<close>, with the bootstrap
  functions of \<open>kubernetesmachine_utils.go\<close>. A handler takes the KubernetesMachine and returns it
  with the changes the code makes through its pointer, next to the outcome (a result and an error, or
  a panic) and the state with the log of the calls. \<open>reconcileNormal\<close> is one Go function; its steps
  are the definitions \<open>bootstrapStep\<close>, \<open>containerStep\<close>, \<open>secretStep\<close> and \<open>podStep\<close>, in the order of
  the code from the last one up.
\<close>

subsection \<open>Bootstrap data\<close>

definition getBootstrapData :: "'w kube_client \<Rightarrow> Machine \<Rightarrow> 'w st \<Rightarrow> (go_error + string) \<times> 'w st" where
  "getBootstrapData cli machine s =
     (case mc_DataSecretName machine of
        None \<Rightarrow> (Inl (GoError ''error retrieving bootstrap data: linked Machine's bootstrap.dataSecretName is nil''), s)
      | Some name \<Rightarrow>
          let key = \<lparr>nn_Namespace = om_Namespace (mc_Meta machine), nn_Name = name\<rparr>
          in case perform (EvGetSecret key) (cli_GetSecret cli key) s of
               (Inl err, s1) \<Rightarrow>
                 (Inl (Wrapped (''failed to retrieve bootstrap data secret for KubernetesMachine '' @
                    om_Namespace (mc_Meta machine) @ ''/'' @ om_Name (mc_Meta machine)) err), s1)
             | (Inr secret, s1) \<Rightarrow>
                 (case sec_Data secret ''value'' of
                    None \<Rightarrow> (Inl (GoError ''error retrieving bootstrap data: secret value key is missing''), s1)
                  | Some v \<Rightarrow> (Inr (EncodeToString v), s1)))"

definition cloudInitSecretData :: "string \<Rightarrow> string \<rightharpoonup> string" where
  "cloudInitSecretData script =
     [cloudInitBootstrapScriptName \<mapsto> script,
      cloudInitInstallScriptName \<mapsto> cloudInitInstallScript,
      cloudInitSystemdServiceUnitName \<mapsto> cloudInitSystemdServiceUnit,
      cloudInitSystemdPathUnitName \<mapsto> cloudInitSystemdPathUnit,
      kubeletSystemdServiceDropinFileName \<mapsto> kubeletSystemdServiceDropin]"

definition generatateCloudInitSecret ::
  "kube_lib \<Rightarrow> cloud_lib \<Rightarrow> Cluster \<Rightarrow> Machine \<Rightarrow> KubernetesMachine \<Rightarrow> string \<Rightarrow>
   (go_error + Secret) outcome" where
  "generatateCloudInitSecret lib cloud cluster machine km data =
     (case DecodeString data of
        Inl err \<Rightarrow> Returned (Inl (Wrapped ''failed to decode machine's bootstrap data'' err))
      | Inr cloudConfig \<Rightarrow>
          (case GenerateScript cloud cloudConfig of
             Panicked p \<Rightarrow> Panicked p
           | Returned (Inl err) \<Rightarrow>
               Returned (Inl (Wrapped ''failed to generate machine's cloudinit bootstrap script'' err))
           | Returned (Inr script) \<Rightarrow>
               let meta = emptyObjectMeta\<lparr>
                     om_Name := machinePodName km @ ''-cloud-init'',
                     om_Namespace := om_Namespace (mc_Meta machine),
                     om_Labels := Some [ClusterLabelName \<mapsto> om_Name (cl_Meta cluster)]\<rparr>
               in case lib_SetControllerReference lib KubernetesMachineKind (km_Meta km) meta of
                    Inl err \<Rightarrow> Returned (Inl err)
                  | Inr meta' \<Rightarrow>
                      Returned (Inr \<lparr>sec_Meta = meta', sec_Data = Map.empty,
                        sec_StringData = cloudInitSecretData script\<rparr>)))"

subsection \<open>Commands in the kind container\<close>

definition enableBoostrapProcess :: "'w kube_client \<Rightarrow> Pod \<Rightarrow> 'w st \<Rightarrow> go_error option \<times> 'w st" where
  "enableBoostrapProcess cli machinePod =
     kindContainerExec cli machinePod
       (path_Join [cloudInitScriptsVolumeMountPath, cloudInitInstallScriptName]) []"

definition controllerSelector :: "Cluster \<Rightarrow> string \<rightharpoonup> string" where
  "controllerSelector cluster =
     [ClusterLabelName \<mapsto> om_Name (cl_Meta cluster), MachineControlPlaneLabelName \<mapsto> []]"

definition providerIDPatch :: "string \<Rightarrow> string" where
  "providerIDPatch providerID =
     CHR 0x7B # CHR 0x22 # ''spec'' @ CHR 0x22 # '': '' @ CHR 0x7B # CHR 0x22 # ''providerID'' @
       CHR 0x22 # '': '' @ CHR 0x22 # providerID @ [CHR 0x22, CHR 0x7D, CHR 0x7D]"

definition setNodeProviderID ::
  "'w kube_client \<Rightarrow> Cluster \<Rightarrow> Pod \<Rightarrow> 'w st \<Rightarrow> go_error option \<times> 'w st" where
  "setNodeProviderID cli cluster machinePod s =
     (let ns = om_Namespace (cl_Meta cluster); labels = controllerSelector cluster
      in case perform (EvListPods ns labels) (cli_ListPods cli ns labels) s of
           (Inl err, s1) \<Rightarrow> (Some (Wrapped ''failed to list controller Pods for Cluster'' err), s1)
         | (Inr [], s1) \<Rightarrow> (Some (GoError ''Unable to find controller Pod for Cluster''), s1)
         | (Inr (controllerPod # _), s1) \<Rightarrow>
             (case getProviderIDFromPod (Some machinePod) of
                Inl err \<Rightarrow> (Some err, s1)
              | Inr providerID \<Rightarrow>
                  kindContainerExec cli controllerPod ''kubectl''
                    [''--kubeconfig'', ''/etc/kubernetes/admin.conf'', ''patch'', ''node'',
                     machinePodNodeName machinePod, ''--patch'', providerIDPatch providerID] s1))"

definition kubeadmReset :: "'w kube_client \<Rightarrow> Pod \<Rightarrow> 'w st \<Rightarrow> go_error option \<times> 'w st" where
  "kubeadmReset cli machinePod = kindContainerExec cli machinePod ''kubeadm'' [''reset'', ''--force'']"

subsection \<open>Setting fields\<close>

definition setMachineFailure :: "string \<Rightarrow> KubernetesMachine \<Rightarrow> KubernetesMachine" where
  "setMachineFailure msg km =
     km\<lparr>km_Status := machine_SetFailureMessage msg
          (machine_SetFailureReason UnsupportedChange (km_Status km))\<rparr>"

definition setMachineReady :: "bool \<Rightarrow> KubernetesMachine \<Rightarrow> KubernetesMachine" where
  "setMachineReady b km = km\<lparr>km_Status := (km_Status km)\<lparr>kmst_Ready := b\<rparr>\<rparr>"

definition setMachineProviderID :: "string \<Rightarrow> KubernetesMachine \<Rightarrow> KubernetesMachine" where
  "setMachineProviderID pid km = km\<lparr>km_Spec := (km_Spec km)\<lparr>kms_ProviderID := Some pid\<rparr>\<rparr>"

definition addMachineFinalizer :: "kube_lib \<Rightarrow> string \<Rightarrow> KubernetesMachine \<Rightarrow> KubernetesMachine" where
  "addMachineFinalizer lib f km = km\<lparr>km_Meta := lib_AddFinalizer lib (km_Meta km) f\<rparr>"

definition removeMachineFinalizer :: "kube_lib \<Rightarrow> string \<Rightarrow> KubernetesMachine \<Rightarrow> KubernetesMachine" where
  "removeMachineFinalizer lib f km = km\<lparr>km_Meta := lib_RemoveFinalizer lib (km_Meta km) f\<rparr>"

subsection \<open>Reconciling a machine\<close>

type_synonym 'w machine_step = "KubernetesMachine \<Rightarrow> 'w st \<Rightarrow> ReconcileReturn outcome \<times> KubernetesMachine \<times> 'w st"

text \<open>The delays after a failed step, in seconds.\<close>

definition enableBootstrapProcessRequeueAfter :: nat where
  [simp]: "enableBootstrapProcessRequeueAfter = 5"

definition setNodeProviderIDRequeueAfter :: nat where
  [simp]: "setNodeProviderIDRequeueAfter = 5"

definition bootstrapStep ::
  "'w kube_client \<Rightarrow> Cluster \<Rightarrow> Pod \<Rightarrow> ContainerStatus \<Rightarrow> 'w machine_step" where
  "bootstrapStep cli cluster machinePod kindContainerStatus km s =
     (case enableBoostrapProcess cli machinePod s of
        (Some err, s1) \<Rightarrow>
          (Returned (requeueSeconds enableBootstrapProcessRequeueAfter, Some (Wrapped ''failed to enable bootstrap process'' err)), km, s1)
      | (None, s1) \<Rightarrow>
          if \<not> cs_Ready kindContainerStatus then (Returned (noRequeue, None), km, s1)
          else case setNodeProviderID cli cluster machinePod s1 of
            (Some err, s2) \<Rightarrow>
              (Returned (requeueSeconds setNodeProviderIDRequeueAfter,
                 Some (Wrapped ''failed to patch the Kubernetes node with the machine providerID'' err)), km, s2)
          | (None, s2) \<Rightarrow>
              if \<not> IsPodReady machinePod then (Returned (noRequeue, None), km, s2)
              else (Returned (noRequeue, None), setMachineReady True km, s2))"

definition containerStep :: "'w kube_client \<Rightarrow> Cluster \<Rightarrow> Pod \<Rightarrow> 'w machine_step" where
  "containerStep cli cluster machinePod km s =
     (case GetContainerStatus (pst_ContainerStatuses (pod_Status machinePod)) kindContainerName of
        (kindContainerStatus, exists) \<Rightarrow>
          if \<not> exists then (Returned (noRequeue, None), km, s)
          else case st_Terminated (cs_State kindContainerStatus) of
            Some terminated \<Rightarrow>
              if kms_AllowRecreation (km_Spec km) then
                (case perform (EvDeletePod machinePod) (cli_DeletePod cli machinePod) s of
                   (err, s1) \<Rightarrow> (Returned (noRequeue, err), km, s1))
              else (Returned (noRequeue, None),
                    setMachineFailure (''kind container has terminated: '' @ ct_Reason terminated) km, s)
          | None \<Rightarrow>
              if st_Running (cs_State kindContainerStatus) = None then (Returned (noRequeue, None), km, s)
              else bootstrapStep cli cluster machinePod kindContainerStatus km s)"

text \<open>On success the client writes the server's answer into the Secret; when it already exists the
  object stays as it was built.\<close>

definition secretStep ::
  "kube_lib \<Rightarrow> cloud_lib \<Rightarrow> 'w kube_client \<Rightarrow> Cluster \<Rightarrow> Machine \<Rightarrow> Pod \<Rightarrow> 'w machine_step" where
  "secretStep lib cloud cli cluster machine machinePod km s =
     (case getBootstrapData cli machine s of
        (Inl err, s1) \<Rightarrow> (Returned (noRequeue, None), km, s1)
      | (Inr bootstrapData, s1) \<Rightarrow>
          (case generatateCloudInitSecret lib cloud cluster machine km bootstrapData of
             Panicked p \<Rightarrow> (Panicked p, km, s1)
           | Returned (Inl err) \<Rightarrow> (Returned (noRequeue, Some err), km, s1)
           | Returned (Inr secret) \<Rightarrow>
               (case perform (EvCreateSecret secret) (cli_CreateSecret cli secret) s1 of
                  (answer, s2) \<Rightarrow>
                    let failed = (case answer of Inl err \<Rightarrow> if IsAlreadyExists err then None else Some err
                                  | Inr _ \<Rightarrow> None);
                        secret' = (case answer of Inl _ \<Rightarrow> secret | Inr created \<Rightarrow> created)
                    in case failed of
                         Some err \<Rightarrow> (Returned (noRequeue, Some err), km, s2)
                       | None \<Rightarrow>
                           if \<not> controlledBy lib (sec_Meta secret') (om_UID (km_Meta km)) then
                             (Returned (noRequeue, None),
                              setMachineFailure ''bootstrap Secret is not controlled by KubernetesMachine'' km, s2)
                           else containerStep cli cluster machinePod km s2)))"

definition podStep ::
  "kube_lib \<Rightarrow> cloud_lib \<Rightarrow> 'w kube_client \<Rightarrow> Cluster \<Rightarrow> Machine \<Rightarrow> Pod \<Rightarrow> 'w machine_step" where
  "podStep lib cloud cli cluster machine machinePod km s =
     (if \<not> controlledBy lib (pod_Meta machinePod) (om_UID (km_Meta km)) then
        (Returned (noRequeue, None),
         setMachineFailure ''Machine Pod is not controlled by KubernetesMachine'' km, s)
      else if kms_ProviderID (km_Spec km) = None then
        (case getProviderIDFromPod (Some machinePod) of
           Inl err \<Rightarrow> (Returned (noRequeue, Some err), km, s)
         | Inr providerID \<Rightarrow> (Returned (noRequeue, None), setMachineProviderID providerID km, s))
      else if \<not> timeIsZero (om_DeletionTimestamp (pod_Meta machinePod)) then
        (if kms_AllowRecreation (km_Spec km)
         then (Returned (noRequeue, None), setMachineReady False km, s)
         else (Returned (noRequeue, None), setMachineFailure ''Machine Pod has been deleted'' km, s))
      else case createPersistentVolumeClaims lib cli km s of
        (Some err, s1) \<Rightarrow>
          (Returned (noRequeue, Some (Wrapped ''failed to create persistent volume claims'' err)), km, s1)
      | (None, s1) \<Rightarrow> secretStep lib cloud cli cluster machine machinePod km s1)"

definition machinePodKey :: "Machine \<Rightarrow> KubernetesMachine \<Rightarrow> NamespacedName" where
  "machinePodKey machine km =
     \<lparr>nn_Namespace = om_Namespace (mc_Meta machine), nn_Name = machinePodName km\<rparr>"

definition missingPodStep ::
  "kube_lib \<Rightarrow> 'w kube_client \<Rightarrow> Cluster \<Rightarrow> Machine \<Rightarrow> 'w machine_step" where
  "missingPodStep lib cli cluster machine km s =
     (if \<not> kms_AllowRecreation (km_Spec km) \<and> kms_ProviderID (km_Spec km) \<noteq> None then
        (Returned (noRequeue, None), setMachineFailure ''Machine Pod cannot be found'' km, s)
      else
        let km' = (if kms_AllowRecreation (km_Spec km) then setMachineReady False km else km)
        in case createMachinePod lib cli cluster machine km' s of (ret, s1) \<Rightarrow> (Returned ret, km', s1))"

definition machine_reconcileNormal ::
  "kube_lib \<Rightarrow> cloud_lib \<Rightarrow> 'w kube_client \<Rightarrow> Cluster \<Rightarrow> Machine \<Rightarrow> 'w machine_step" where
  "machine_reconcileNormal lib cloud cli cluster machine km s =
     (if kmst_FailureReason (km_Status km) \<noteq> None \<or> kmst_FailureMessage (km_Status km) \<noteq> None then
        (Returned (noRequeue, None), km, s)
      else
        let km1 = addMachineFinalizer lib KubernetesMachineFinalizer km;
            km2 = addMachineFinalizer lib FinalizerDeleteDependents km1
        in if mc_DataSecretName machine = None then (Returned (noRequeue, None), km2, s)
           else
             let key = machinePodKey machine km2
             in case perform (EvGetPod key) (cli_GetPod cli key) s of
                  (Inl err, s1) \<Rightarrow>
                    if IsNotFound err then missingPodStep lib cli cluster machine km2 s1
                    else (Returned (noRequeue, Some err), km2, s1)
                | (Inr machinePod, s1) \<Rightarrow> podStep lib cloud cli cluster machine machinePod km2 s1)"

subsection \<open>Deleting a machine\<close>

definition machine_reconcileDelete ::
  "kube_lib \<Rightarrow> 'w kube_client \<Rightarrow> Machine \<Rightarrow> Cluster \<Rightarrow> 'w machine_step" where
  "machine_reconcileDelete lib cli machine cluster km s =
     (let released = removeMachineFinalizer lib KubernetesMachineFinalizer km
      in if timeIsZero (om_DeletionTimestamp (cl_Meta cluster)) \<and> lib_IsControlPlaneMachine lib machine then
           let key = machinePodKey machine km
           in case perform (EvGetPod key) (cli_GetPod cli key) s of
                (Inl err, s1) \<Rightarrow>
                  if IsNotFound err then
                    (Returned (noRequeue, None), setMachineFailure ''Machine Pod cannot be found'' released, s1)
                  else (Returned (noRequeue, Some err), km, s1)
              | (Inr machinePod, s1) \<Rightarrow>
                  if controlledBy lib (pod_Meta machinePod) (om_UID (km_Meta km)) then
                    (case kubeadmReset cli machinePod s1 of
                       (Some err, s2) \<Rightarrow>
                         (Returned (noRequeue, Some (Wrapped ''failed to execute kubeadm reset'' err)), km, s2)
                     | (None, s2) \<Rightarrow> (Returned (noRequeue, None), released, s2))
                  else (Returned (noRequeue, None), released, s1)
         else (Returned (noRequeue, None), released, s))"

subsection \<open>The phase and the version\<close>

definition setMachinePhase :: "string \<Rightarrow> KubernetesMachine \<Rightarrow> KubernetesMachine" where
  "setMachinePhase p k = k\<lparr>km_Status := (km_Status k)\<lparr>kmst_Phase := p\<rparr>\<rparr>"

definition machine_reconcilePhase :: "KubernetesMachine \<Rightarrow> KubernetesMachine" where
  "machine_reconcilePhase k =
     (let k1 = (if kmst_Phase (km_Status k) = [] then setMachinePhase KubernetesMachinePhasePending k else k);
          k2 = (if kms_ProviderID (km_Spec k1) \<noteq> None \<and> \<not> kmst_Ready (km_Status k1)
                then setMachinePhase KubernetesMachinePhaseProvisioning k1 else k1);
          k3 = (if kms_ProviderID (km_Spec k2) \<noteq> None \<and> kmst_Ready (km_Status k2)
                then setMachinePhase KubernetesMachinePhaseRunning k2 else k2);
          k4 = (if kmst_FailureReason (km_Status k3) \<noteq> None \<or> kmst_FailureMessage (km_Status k3) \<noteq> None
                then setMachinePhase KubernetesMachinePhaseFailed k3 else k3)
      in if \<not> timeIsZero (om_DeletionTimestamp (km_Meta k4))
         then setMachinePhase KubernetesMachinePhaseDeleting k4 else k4)"

definition machine_reconcileVersion :: "KubernetesMachine \<Rightarrow> Machine \<Rightarrow> KubernetesMachine" where
  "machine_reconcileVersion k m =
     (if mc_Version m \<noteq> None then k\<lparr>km_Status := (km_Status k)\<lparr>kmst_Version := mc_Version m\<rparr>\<rparr> else k)"

subsection \<open>Reconcile\<close>

text \<open>What runs between the creation of the patch helper and the deferred function.\<close>

definition machineBody ::
  "kube_lib \<Rightarrow> cloud_lib \<Rightarrow> 'w kube_client \<Rightarrow> 'w machine_step" where
  "machineBody lib cloud cli km s =
     (case perform (EvGetOwnerMachine (km_Meta km)) (cli_GetOwnerMachine cli (km_Meta km)) s of
        (Inl err, s1) \<Rightarrow> (Returned (noRequeue, Some err), km, s1)
      | (Inr None, s1) \<Rightarrow> (Returned (noRequeue, None), km, s1)
      | (Inr (Some machine), s1) \<Rightarrow>
          let km1 = machine_reconcileVersion km machine
          in case perform (EvGetClusterFromMetadata (mc_Meta machine))
                    (cli_GetClusterFromMetadata cli (mc_Meta machine)) s1 of
               (Inl err, s2) \<Rightarrow> (Returned (noRequeue, Some err), km1, s2)
             | (Inr None, s2) \<Rightarrow> (Returned (noRequeue, None), km1, s2)
             | (Inr (Some cluster), s2) \<Rightarrow>
                 (case cl_InfrastructureRef cluster of
                    None \<Rightarrow> (Panicked ''nil pointer dereference'', km1, s2)
                  | Some ref \<Rightarrow>
                      let key = \<lparr>nn_Namespace = om_Namespace (km_Meta km1), nn_Name = ref_Name ref\<rparr>
                      in case perform (EvGetKubernetesCluster key) (cli_GetKubernetesCluster cli key) s2 of
                           (Inl err, s3) \<Rightarrow> (Returned (noRequeue, None), km1, s3)
                         | (Inr _, s3) \<Rightarrow>
                             if lib_IsPaused lib cluster (km_Meta km1) then (Returned (noRequeue, None), km1, s3)
                             else if \<not> timeIsZero (om_DeletionTimestamp (km_Meta km1))
                             then machine_reconcileDelete lib cli machine cluster km1 s3
                             else if \<not> cl_InfrastructureReady cluster
                             then (Returned (noRequeue, None), km1, s3)
                             else machine_reconcileNormal lib cloud cli cluster machine km1 s3))"

text \<open>The deferred function runs on every return and while a panic unwinds.\<close>

definition machineDeferred ::
  "'w kube_client \<Rightarrow> KubernetesMachine \<Rightarrow> ReconcileReturn outcome \<times> KubernetesMachine \<times> 'w st \<Rightarrow>
   ReconcileReturn outcome \<times> 'w st" where
  "machineDeferred cli before run =
     (case run of (out, km, s) \<Rightarrow>
        let km' = machine_reconcilePhase km
        in case perform (EvPatchMachine before km') (cli_PatchMachine cli before km') s of
             (err, s1) \<Rightarrow>
               (case out of
                  Panicked p \<Rightarrow> (Panicked p, s1)
                | Returned (res, rerr) \<Rightarrow> (Returned (res, if rerr = None then err else rerr), s1)))"

definition machine_Reconcile ::
  "kube_lib \<Rightarrow> cloud_lib \<Rightarrow> 'w kube_client \<Rightarrow> NamespacedName \<Rightarrow> 'w st \<Rightarrow>
   ReconcileReturn outcome \<times> 'w st" where
  "machine_Reconcile lib cloud cli req s =
     (case perform (EvGetKubernetesMachine req) (cli_GetKubernetesMachine cli req) s of
        (Inl err, s1) \<Rightarrow>
          (if IsNotFound err then (Returned (noRequeue, None), s1)
           else (Returned (noRequeue, Some err), s1))
      | (Inr km, s1) \<Rightarrow>
          (case perform EvNewPatchHelper (cli_NewPatchHelper cli) s1 of
             (Some err, s2) \<Rightarrow> (Returned (noRequeue, Some err), s2)
           | (None, s2) \<Rightarrow> machineDeferred cli km (machineBody lib cloud cli km s2)))"

end
