(* ===== verification/Machine_Runs.thy ===== *)
theory Machine_Runs
  imports Machine_Reconcile
begin

text \<open>
  The runs of the machine controller: for every step of \<open>reconcileNormal\<close>, \<open>reconcileDelete\<close> and
  \<open>Reconcile\<close> an inductive relation between the KubernetesMachine, the calls that are made with
  their answers, the outcome and the KubernetesMachine afterwards. Each relation is shown to cover
  the function; properties of the controller are then proved by cases on the runs.
\<close>

definition installRequest :: "Pod \<Rightarrow> ExecRequest" where
  "installRequest pod = kindExecRequest pod [''/opt/cloud-init/install.sh'']"

definition nodeProviderID :: "Pod \<Rightarrow> string" where
  "nodeProviderID pod = providerIDPrefix @ om_Namespace (pod_Meta pod) @ ''/'' @ om_Name (pod_Meta pod)"

lemma getProviderIDFromPod_Some: "getProviderIDFromPod (Some pod) = Inr (nodeProviderID pod)"
  by (simp add: getProviderIDFromPod_def nodeProviderID_def)

definition nodePatchRequest :: "Pod \<Rightarrow> Pod \<Rightarrow> ExecRequest" where
  "nodePatchRequest controllerPod machinePod = kindExecRequest controllerPod
     [''kubectl'', ''--kubeconfig'', ''/etc/kubernetes/admin.conf'', ''patch'', ''node'',
      machinePodNodeName machinePod, ''--patch'', providerIDPatch (nodeProviderID machinePod)]"

definition resetRequest :: "Pod \<Rightarrow> ExecRequest" where
  "resetRequest pod = kindExecRequest pod [''kubeadm'', ''reset'', ''--force'']"

lemma installPath: "path_Join [cloudInitScriptsVolumeMountPath, cloudInitInstallScriptName] = ''/opt/cloud-init/install.sh''"
  by (simp add: path_Join_def path_Clean_def cleanStep_def)

lemma enableBoostrapProcess_log:
  assumes "enableBoostrapProcess cli pod s = (err, s')"
  obtains a where "snd s' = snd s @ [EvExec (installRequest pod) a]" "err = execError a"
  using assms kindContainerExec_log [of cli pod "''/opt/cloud-init/install.sh''" "[]" s err s'] that
  by (auto simp: enableBoostrapProcess_def installPath installRequest_def)

lemma kubeadmReset_log:
  assumes "kubeadmReset cli pod s = (err, s')"
  obtains a where "snd s' = snd s @ [EvExec (resetRequest pod) a]" "err = execError a"
  using assms kindContainerExec_log [of cli pod "''kubeadm''" "[''reset'', ''--force'']" s err s'] that
  by (auto simp: kubeadmReset_def resetRequest_def)

subsection \<open>The node's provider ID\<close>

inductive nodeRun :: "Cluster \<Rightarrow> Pod \<Rightarrow> event list \<Rightarrow> go_error option \<Rightarrow> bool" for cluster pod where
  node_list_failed: "nodeRun cluster pod
    [EvListPods (om_Namespace (cl_Meta cluster)) (controllerSelector cluster) (Inl e)]
    (Some (Wrapped ''failed to list controller Pods for Cluster'' e))"
| node_none_found: "nodeRun cluster pod
    [EvListPods (om_Namespace (cl_Meta cluster)) (controllerSelector cluster) (Inr [])]
    (Some (GoError ''Unable to find controller Pod for Cluster''))"
| node_patched: "nodeRun cluster pod
    [EvListPods (om_Namespace (cl_Meta cluster)) (controllerSelector cluster) (Inr (cp # cps)),
     EvExec (nodePatchRequest cp pod) a] (execError a)"

lemma setNodeProviderID_run:
  assumes "setNodeProviderID cli cluster pod s = (err, s')"
  shows "\<exists>evs. snd s' = snd s @ evs \<and> nodeRun cluster pod evs err"
proof -
  let ?ns = "om_Namespace (cl_Meta cluster)" and ?sel = "controllerSelector cluster"
  obtain r s1 where list: "perform (EvListPods ?ns ?sel) (cli_ListPods cli ?ns ?sel) s = (r, s1)"
    by (metis surj_pair)
  note log = perform_log [OF list]
  consider e where "r = Inl e" | "r = Inr []" | cp cps where "r = Inr (cp # cps)"
    by (metis list.exhaust sum.exhaust)
  then show ?thesis
  proof cases
    case 1
    then show ?thesis
      using assms list log by (auto simp: setNodeProviderID_def intro: nodeRun.intros)
  next
    case 2
    then show ?thesis
      using assms list log by (auto simp: setNodeProviderID_def intro: nodeRun.intros)
  next
    case 3
    then have "kindContainerExec cli cp ''kubectl'' [''--kubeconfig'', ''/etc/kubernetes/admin.conf'',
        ''patch'', ''node'', machinePodNodeName pod, ''--patch'', providerIDPatch (nodeProviderID pod)] s1 = (err, s')"
      using assms list by (simp add: setNodeProviderID_def getProviderIDFromPod_Some)
    then obtain a where "snd s' = snd s1 @ [EvExec (nodePatchRequest cp pod) a]" "err = execError a"
      by (rule kindContainerExec_log) (simp add: nodePatchRequest_def)
    then show ?thesis using log 3 node_patched by fastforce
  qed
qed

subsection \<open>Bootstrapping\<close>

inductive bootRun ::
  "Cluster \<Rightarrow> Pod \<Rightarrow> ContainerStatus \<Rightarrow> KubernetesMachine \<Rightarrow> event list \<Rightarrow> ReconcileReturn outcome \<Rightarrow>
   KubernetesMachine \<Rightarrow> bool" for cluster pod cst km where
  boot_failed: "execError a = Some e \<Longrightarrow> bootRun cluster pod cst km [EvExec (installRequest pod) a]
    (Returned (requeueSeconds 5, Some (Wrapped ''failed to enable bootstrap process'' e))) km"
| boot_waits: "execSucceeded a \<Longrightarrow> \<not> cs_Ready cst \<Longrightarrow>
    bootRun cluster pod cst km [EvExec (installRequest pod) a] (Returned (noRequeue, None)) km"
| boot_node_failed: "execSucceeded a \<Longrightarrow> cs_Ready cst \<Longrightarrow> nodeRun cluster pod evs (Some e) \<Longrightarrow>
    bootRun cluster pod cst km (EvExec (installRequest pod) a # evs)
      (Returned (requeueSeconds 5,
        Some (Wrapped ''failed to patch the Kubernetes node with the machine providerID'' e))) km"
| boot_pod_waits: "execSucceeded a \<Longrightarrow> cs_Ready cst \<Longrightarrow> nodeRun cluster pod evs None \<Longrightarrow> \<not> IsPodReady pod \<Longrightarrow>
    bootRun cluster pod cst km (EvExec (installRequest pod) a # evs) (Returned (noRequeue, None)) km"
| boot_ready: "execSucceeded a \<Longrightarrow> cs_Ready cst \<Longrightarrow> nodeRun cluster pod evs None \<Longrightarrow> IsPodReady pod \<Longrightarrow>
    bootRun cluster pod cst km (EvExec (installRequest pod) a # evs) (Returned (noRequeue, None))
      (setMachineReady True km)"

lemma bootstrapStep_run:
  assumes "bootstrapStep cli cluster pod cst km s = (out, km', s')"
  shows "\<exists>evs. snd s' = snd s @ evs \<and> bootRun cluster pod cst km evs out km'"
proof -
  obtain err s1 where e: "enableBoostrapProcess cli pod s = (err, s1)" by (metis surj_pair)
  obtain a where a: "snd s1 = snd s @ [EvExec (installRequest pod) a]" "err = execError a"
    using e by (rule enableBoostrapProcess_log)
  show ?thesis
  proof (cases err)
    case (Some x)
    then show ?thesis using assms e a by (auto simp: bootstrapStep_def intro: bootRun.intros)
  next
    case None
    then have ok: "execSucceeded a" using a(2) by simp
    show ?thesis
    proof (cases "cs_Ready cst")
      case False
      then show ?thesis
        using assms e a None ok by (auto simp: bootstrapStep_def intro: bootRun.intros)
    next
      case True
      obtain err2 s2 where n: "setNodeProviderID cli cluster pod s1 = (err2, s2)" by (metis surj_pair)
      obtain evs where evs: "snd s2 = snd s1 @ evs" "nodeRun cluster pod evs err2"
        using setNodeProviderID_run [OF n] by blast
      then show ?thesis
        using assms e a(1) None ok True n
        by (cases err2) (auto simp: bootstrapStep_def intro: bootRun.intros split: if_splits)
    qed
  qed
qed

subsection \<open>The kind container\<close>

inductive contRun ::
  "Cluster \<Rightarrow> Pod \<Rightarrow> KubernetesMachine \<Rightarrow> event list \<Rightarrow> ReconcileReturn outcome \<Rightarrow> KubernetesMachine \<Rightarrow> bool"
  for cluster pod km where
  cont_no_status: "kindContainerName \<notin> cs_Name ` set (pst_ContainerStatuses (pod_Status pod)) \<Longrightarrow>
    contRun cluster pod km [] (Returned (noRequeue, None)) km"
| cont_recreate: "GetContainerStatus (pst_ContainerStatuses (pod_Status pod)) kindContainerName = (cst, True) \<Longrightarrow>
    st_Terminated (cs_State cst) = Some t \<Longrightarrow> kms_AllowRecreation (km_Spec km) \<Longrightarrow>
    contRun cluster pod km [EvDeletePod pod err] (Returned (noRequeue, err)) km"
| cont_terminated: "GetContainerStatus (pst_ContainerStatuses (pod_Status pod)) kindContainerName = (cst, True) \<Longrightarrow>
    st_Terminated (cs_State cst) = Some t \<Longrightarrow> \<not> kms_AllowRecreation (km_Spec km) \<Longrightarrow>
    contRun cluster pod km [] (Returned (noRequeue, None))
      (setMachineFailure (''kind container has terminated: '' @ ct_Reason t) km)"
| cont_waits: "GetContainerStatus (pst_ContainerStatuses (pod_Status pod)) kindContainerName = (cst, True) \<Longrightarrow>
    st_Terminated (cs_State cst) = None \<Longrightarrow> st_Running (cs_State cst) = None \<Longrightarrow>
    contRun cluster pod km [] (Returned (noRequeue, None)) km"
| cont_running: "GetContainerStatus (pst_ContainerStatuses (pod_Status pod)) kindContainerName = (cst, True) \<Longrightarrow>
    st_Terminated (cs_State cst) = None \<Longrightarrow> st_Running (cs_State cst) \<noteq> None \<Longrightarrow>
    bootRun cluster pod cst km evs out km' \<Longrightarrow> contRun cluster pod km evs out km'"

lemma containerStep_run:
  assumes "containerStep cli cluster pod km s = (out, km', s')"
  shows "\<exists>evs. snd s' = snd s @ evs \<and> contRun cluster pod km evs out km'"
proof -
  obtain cst ex where g: "GetContainerStatus (pst_ContainerStatuses (pod_Status pod)) kindContainerName = (cst, ex)"
    by (metis surj_pair)
  show ?thesis
  proof (cases ex)
    case False
    then have "kindContainerName \<notin> cs_Name ` set (pst_ContainerStatuses (pod_Status pod))"
      using GetContainerStatus_missing [of "pst_ContainerStatuses (pod_Status pod)" kindContainerName] g by simp
    then show ?thesis using assms g False by (auto simp: containerStep_def intro: cont_no_status)
  next
    case True
    show ?thesis
    proof (cases "st_Terminated (cs_State cst)")
      case (Some t)
      then show ?thesis
        using assms g True
        by (auto simp: containerStep_def intro: cont_recreate cont_terminated [simplified]
            split: if_splits prod.splits dest!: perform_log)
    next
      case None
      show ?thesis
      proof (cases "st_Running (cs_State cst)")
        case (Some r)
        then have "bootstrapStep cli cluster pod cst km s = (out, km', s')"
          using assms g True None by (simp add: containerStep_def)
        from bootstrapStep_run [OF this] show ?thesis
          using g True None Some by (auto intro: cont_running)
      next
        case rn: None
        then show ?thesis using assms g True None by (auto simp: containerStep_def intro: cont_waits)
      qed
    qed
  qed
qed

subsection \<open>The bootstrap Secret\<close>

definition dataSecretKey :: "Machine \<Rightarrow> string \<Rightarrow> NamespacedName" where
  "dataSecretKey machine name = \<lparr>nn_Namespace = om_Namespace (mc_Meta machine), nn_Name = name\<rparr>"

text \<open>The calls of \<open>getBootstrapData\<close>, and the value it finds.\<close>

inductive dataRun :: "Machine \<Rightarrow> event list \<Rightarrow> string option \<Rightarrow> bool" for machine where
  data_no_name: "mc_DataSecretName machine = None \<Longrightarrow> dataRun machine [] None"
| data_get_failed: "mc_DataSecretName machine = Some n \<Longrightarrow>
    dataRun machine [EvGetSecret (dataSecretKey machine n) (Inl e)] None"
| data_no_value: "mc_DataSecretName machine = Some n \<Longrightarrow> sec_Data sec ''value'' = None \<Longrightarrow>
    dataRun machine [EvGetSecret (dataSecretKey machine n) (Inr sec)] None"
| data_found: "mc_DataSecretName machine = Some n \<Longrightarrow> sec_Data sec ''value'' = Some v \<Longrightarrow>
    dataRun machine [EvGetSecret (dataSecretKey machine n) (Inr sec)] (Some v)"

lemma getBootstrapData_run:
  assumes "getBootstrapData cli machine s = (r, s')"
  shows "\<exists>evs v. snd s' = snd s @ evs \<and> dataRun machine evs v \<and>
    (case v of None \<Rightarrow> \<exists>e. r = Inl e | Some x \<Rightarrow> r = Inr (EncodeToString x))"
proof (cases "mc_DataSecretName machine")
  case None
  then show ?thesis
    using assms by (intro exI [of _ "[]"] exI [of _ None]) (auto simp: getBootstrapData_def intro: dataRun.intros)
next
  case (Some n)
  obtain a s1 where get: "perform (EvGetSecret (dataSecretKey machine n)) (cli_GetSecret cli (dataSecretKey machine n)) s = (a, s1)"
    by (metis surj_pair)
  note log = perform_log [OF get]
  show ?thesis
  proof (cases a)
    case (Inl e)
    then show ?thesis
      using assms get log Some
      by (intro exI [of _ "[EvGetSecret (dataSecretKey machine n) (Inl e)]"] exI [of _ None])
        (auto simp: getBootstrapData_def dataSecretKey_def [symmetric] intro: dataRun.intros)
  next
    case (Inr sec)
    then show ?thesis
      using assms get log Some
      by (intro exI [of _ "[EvGetSecret (dataSecretKey machine n) (Inr sec)]"] exI [of _ "sec_Data sec ''value''"])
        (auto simp: getBootstrapData_def dataSecretKey_def [symmetric] intro: dataRun.intros split: option.splits)
  qed
qed

text \<open>The Secret that is built for a cloud-config: since the data is encoded by the one function
  and decoded by the other, the document is what the Secret held.\<close>

definition scriptSecret ::
  "kube_lib \<Rightarrow> cloud_lib \<Rightarrow> Cluster \<Rightarrow> Machine \<Rightarrow> KubernetesMachine \<Rightarrow> string \<Rightarrow> (go_error + Secret) outcome" where
  "scriptSecret lib cloud cluster machine km doc =
     generatateCloudInitSecret lib cloud cluster machine km (EncodeToString doc)"

lemma scriptSecret_ok:
  assumes "kube_contract lib" and "scriptSecret lib cloud cluster machine km doc = Returned (Inr secret)"
  obtains script where "GenerateScript cloud doc = Returned (Inr script)"
    "sec_StringData secret = cloudInitSecretData script" "om_Name (sec_Meta secret) = cloudInitSecretName km"
    "om_Namespace (sec_Meta secret) = om_Namespace (mc_Meta machine)"
    "controlledBy lib (sec_Meta secret) (om_UID (km_Meta km))"
proof -
  obtain script where script: "GenerateScript cloud doc = Returned (Inr script)"
    using assms(2) by (auto simp: scriptSecret_def generatateCloudInitSecret_def split: outcome.splits sum.splits)
  let ?meta = "emptyObjectMeta\<lparr>om_Name := machinePodName km @ ''-cloud-init'',
      om_Namespace := om_Namespace (mc_Meta machine),
      om_Labels := Some [ClusterLabelName \<mapsto> om_Name (cl_Meta cluster)]\<rparr>"
  obtain m where set: "lib_SetControllerReference lib KubernetesMachineKind (km_Meta km) ?meta = Inr m"
    and secret: "secret = \<lparr>sec_Meta = m, sec_Data = Map.empty, sec_StringData = cloudInitSecretData script\<rparr>"
    using assms(2) script
    by (auto simp: scriptSecret_def generatateCloudInitSecret_def Let_def split: sum.splits)
  have "controlledBy lib m (om_UID (km_Meta km))"
    using kube_contract.set_controller_uid [OF assms(1) set] by (auto simp: controlledBy_def)
  then show thesis
    using that script secret kube_contract.set_controller_frame [OF assms(1) set]
    by (simp add: cloudInitSecretName_def)
qed

text \<open>The Secret after the request: the server's answer, or the one that was built.\<close>

fun createdSecret :: "Secret \<Rightarrow> go_error + Secret \<Rightarrow> Secret" where
  "createdSecret built (Inl _) = built"
| "createdSecret built (Inr created) = created"

fun secretTolerated :: "go_error + Secret \<Rightarrow> bool" where
  "secretTolerated (Inl e) = IsAlreadyExists e"
| "secretTolerated (Inr _) = True"

inductive secRun ::
  "kube_lib \<Rightarrow> cloud_lib \<Rightarrow> Cluster \<Rightarrow> Machine \<Rightarrow> Pod \<Rightarrow> KubernetesMachine \<Rightarrow> event list \<Rightarrow>
   ReconcileReturn outcome \<Rightarrow> KubernetesMachine \<Rightarrow> bool" for lib cloud cluster machine pod km where
  sec_no_data: "dataRun machine evs None \<Longrightarrow>
    secRun lib cloud cluster machine pod km evs (Returned (noRequeue, None)) km"
| sec_panicked: "dataRun machine evs (Some doc) \<Longrightarrow>
    scriptSecret lib cloud cluster machine km doc = Panicked p \<Longrightarrow>
    secRun lib cloud cluster machine pod km evs (Panicked p) km"
| sec_not_built: "dataRun machine evs (Some doc) \<Longrightarrow>
    scriptSecret lib cloud cluster machine km doc = Returned (Inl e) \<Longrightarrow>
    secRun lib cloud cluster machine pod km evs (Returned (noRequeue, Some e)) km"
| sec_not_created: "dataRun machine evs (Some doc) \<Longrightarrow>
    scriptSecret lib cloud cluster machine km doc = Returned (Inr secret) \<Longrightarrow> \<not> IsAlreadyExists e \<Longrightarrow>
    secRun lib cloud cluster machine pod km (evs @ [EvCreateSecret secret (Inl e)])
      (Returned (noRequeue, Some e)) km"
| sec_foreign: "dataRun machine evs (Some doc) \<Longrightarrow>
    scriptSecret lib cloud cluster machine km doc = Returned (Inr secret) \<Longrightarrow> secretTolerated r \<Longrightarrow>
    \<not> controlledBy lib (sec_Meta (createdSecret secret r)) (om_UID (km_Meta km)) \<Longrightarrow>
    secRun lib cloud cluster machine pod km (evs @ [EvCreateSecret secret r]) (Returned (noRequeue, None))
      (setMachineFailure ''bootstrap Secret is not controlled by KubernetesMachine'' km)"
| sec_ok: "dataRun machine evs (Some doc) \<Longrightarrow>
    scriptSecret lib cloud cluster machine km doc = Returned (Inr secret) \<Longrightarrow> secretTolerated r \<Longrightarrow>
    controlledBy lib (sec_Meta (createdSecret secret r)) (om_UID (km_Meta km)) \<Longrightarrow>
    contRun cluster pod km evs' out km' \<Longrightarrow>
    secRun lib cloud cluster machine pod km (evs @ EvCreateSecret secret r # evs') out km'"

lemma secretStep_create_run:
  assumes "secretStep lib cloud cli cluster machine pod km s = (out, km', s')"
    and "getBootstrapData cli machine s = (Inr (EncodeToString doc), s1)" and "snd s1 = snd s @ evs"
    and "dataRun machine evs (Some doc)" and "scriptSecret lib cloud cluster machine km doc = Returned (Inr x)"
  shows "\<exists>evs. snd s' = snd s @ evs \<and> secRun lib cloud cluster machine pod km evs out km'"
proof -
  obtain r s2 where c: "perform (EvCreateSecret x) (cli_CreateSecret cli x) s1 = (r, s2)" by (metis surj_pair)
  have log: "snd s2 = snd s @ evs @ [EvCreateSecret x r]" using perform_log [OF c] assms(3) by simp
  show ?thesis
  proof (cases "secretTolerated r")
    case False
    then obtain e where "r = Inl e" "\<not> IsAlreadyExists e" by (cases r) auto
    then show ?thesis
      using assms c log by (auto simp: secretStep_def scriptSecret_def [symmetric] intro: sec_not_created)
  next
    case True
    have step: "secretStep lib cloud cli cluster machine pod km s =
        (if \<not> controlledBy lib (sec_Meta (createdSecret x r)) (om_UID (km_Meta km)) then
           (Returned (noRequeue, None),
            setMachineFailure ''bootstrap Secret is not controlled by KubernetesMachine'' km, s2)
         else containerStep cli cluster pod km s2)"
      using True assms(2,5) c by (cases r) (simp_all add: secretStep_def scriptSecret_def [symmetric])
    show ?thesis
    proof (cases "controlledBy lib (sec_Meta (createdSecret x r)) (om_UID (km_Meta km))")
      case False
      then show ?thesis using assms(1) step log sec_foreign [OF assms(4,5) True False] by auto
    next
      case own: True
      then obtain evs' where "snd s' = snd s2 @ evs'" "contRun cluster pod km evs' out km'"
        using assms(1) step containerStep_run by fastforce
      then show ?thesis using log sec_ok [OF assms(4,5) True own] by fastforce
    qed
  qed
qed

lemma secretStep_run:
  assumes "secretStep lib cloud cli cluster machine pod km s = (out, km', s')"
  shows "\<exists>evs. snd s' = snd s @ evs \<and> secRun lib cloud cluster machine pod km evs out km'"
proof -
  obtain d s1 where g: "getBootstrapData cli machine s = (d, s1)" by (metis surj_pair)
  obtain evs v where evs: "snd s1 = snd s @ evs" "dataRun machine evs v"
    and d: "case v of None \<Rightarrow> \<exists>e. d = Inl e | Some x \<Rightarrow> d = Inr (EncodeToString x)"
    using getBootstrapData_run [OF g] by blast
  show ?thesis
  proof (cases v)
    case None
    then show ?thesis using assms g evs d by (auto simp: secretStep_def intro: sec_no_data)
  next
    case (Some doc)
    then have d': "d = Inr (EncodeToString doc)" and run: "dataRun machine evs (Some doc)" using d evs by auto
    consider p where "scriptSecret lib cloud cluster machine km doc = Panicked p"
      | e where "scriptSecret lib cloud cluster machine km doc = Returned (Inl e)"
      | x where "scriptSecret lib cloud cluster machine km doc = Returned (Inr x)"
      by (rule result_cases)
    then show ?thesis
    proof cases
      case 1
      then show ?thesis
        using assms g d' evs run by (auto simp: secretStep_def scriptSecret_def [symmetric] intro: sec_panicked)
    next
      case 2
      then show ?thesis
        using assms g d' evs run by (auto simp: secretStep_def scriptSecret_def [symmetric] intro: sec_not_built)
    next
      case 3
      show ?thesis by (rule secretStep_create_run [OF assms g [unfolded d'] evs(1) run 3])
    qed
  qed
qed

subsection \<open>The machine Pod\<close>

inductive podRun ::
  "kube_lib \<Rightarrow> cloud_lib \<Rightarrow> Cluster \<Rightarrow> Machine \<Rightarrow> Pod \<Rightarrow> KubernetesMachine \<Rightarrow> event list \<Rightarrow>
   ReconcileReturn outcome \<Rightarrow> KubernetesMachine \<Rightarrow> bool" for lib cloud cluster machine pod km where
  pod_foreign: "\<not> controlledBy lib (pod_Meta pod) (om_UID (km_Meta km)) \<Longrightarrow>
    podRun lib cloud cluster machine pod km [] (Returned (noRequeue, None))
      (setMachineFailure ''Machine Pod is not controlled by KubernetesMachine'' km)"
| pod_identified: "controlledBy lib (pod_Meta pod) (om_UID (km_Meta km)) \<Longrightarrow>
    kms_ProviderID (km_Spec km) = None \<Longrightarrow>
    podRun lib cloud cluster machine pod km [] (Returned (noRequeue, None))
      (setMachineProviderID (nodeProviderID pod) km)"
| pod_deleting: "controlledBy lib (pod_Meta pod) (om_UID (km_Meta km)) \<Longrightarrow>
    kms_ProviderID (km_Spec km) \<noteq> None \<Longrightarrow> \<not> timeIsZero (om_DeletionTimestamp (pod_Meta pod)) \<Longrightarrow>
    kms_AllowRecreation (km_Spec km) \<Longrightarrow>
    podRun lib cloud cluster machine pod km [] (Returned (noRequeue, None)) (setMachineReady False km)"
| pod_deleted: "controlledBy lib (pod_Meta pod) (om_UID (km_Meta km)) \<Longrightarrow>
    kms_ProviderID (km_Spec km) \<noteq> None \<Longrightarrow> \<not> timeIsZero (om_DeletionTimestamp (pod_Meta pod)) \<Longrightarrow>
    \<not> kms_AllowRecreation (km_Spec km) \<Longrightarrow>
    podRun lib cloud cluster machine pod km [] (Returned (noRequeue, None))
      (setMachineFailure ''Machine Pod has been deleted'' km)"
| pod_claims_failed: "controlledBy lib (pod_Meta pod) (om_UID (km_Meta km)) \<Longrightarrow>
    kms_ProviderID (km_Spec km) \<noteq> None \<Longrightarrow> timeIsZero (om_DeletionTimestamp (pod_Meta pod)) \<Longrightarrow>
    claimRun lib km evs (Some e) \<Longrightarrow>
    podRun lib cloud cluster machine pod km evs
      (Returned (noRequeue, Some (Wrapped ''failed to create persistent volume claims'' e))) km"
| pod_ok: "controlledBy lib (pod_Meta pod) (om_UID (km_Meta km)) \<Longrightarrow>
    kms_ProviderID (km_Spec km) \<noteq> None \<Longrightarrow> timeIsZero (om_DeletionTimestamp (pod_Meta pod)) \<Longrightarrow>
    claimRun lib km evs None \<Longrightarrow> secRun lib cloud cluster machine pod km evs' out km' \<Longrightarrow>
    podRun lib cloud cluster machine pod km (evs @ evs') out km'"

lemma podStep_run:
  assumes "kube_contract lib" and "podStep lib cloud cli cluster machine pod km s = (out, km', s')"
  shows "\<exists>evs. snd s' = snd s @ evs \<and> podRun lib cloud cluster machine pod km evs out km'"
proof (cases "controlledBy lib (pod_Meta pod) (om_UID (km_Meta km)) \<and> kms_ProviderID (km_Spec km) \<noteq> None \<and>
    timeIsZero (om_DeletionTimestamp (pod_Meta pod))")
  case False
  then show ?thesis
    using assms(2)
    by (auto simp: podStep_def getProviderIDFromPod_Some
        intro: pod_foreign pod_identified pod_deleting pod_deleted split: if_splits)
next
  case True
  obtain err s1 where c: "createPersistentVolumeClaims lib cli km s = (err, s1)" by (metis surj_pair)
  obtain evs where evs: "snd s1 = snd s @ evs" "claimRun lib km evs err"
    using createPersistentVolumeClaims_run [OF assms(1) c] by blast
  show ?thesis
  proof (cases err)
    case (Some e)
    then show ?thesis using assms(2) True c evs by (auto simp: podStep_def intro: pod_claims_failed)
  next
    case None
    then have "secretStep lib cloud cli cluster machine pod km s1 = (out, km', s')"
      using assms(2) True c by (simp add: podStep_def)
    then obtain evs' where "snd s' = snd s1 @ evs'" "secRun lib cloud cluster machine pod km evs' out km'"
      using secretStep_run by blast
    then show ?thesis using True evs None pod_ok by fastforce
  qed
qed

inductive missingRun ::
  "kube_lib \<Rightarrow> Cluster \<Rightarrow> Machine \<Rightarrow> KubernetesMachine \<Rightarrow> event list \<Rightarrow> ReconcileReturn outcome \<Rightarrow>
   KubernetesMachine \<Rightarrow> bool" for lib cluster machine km where
  missing_failed: "\<not> kms_AllowRecreation (km_Spec km) \<Longrightarrow> kms_ProviderID (km_Spec km) \<noteq> None \<Longrightarrow>
    missingRun lib cluster machine km [] (Returned (noRequeue, None))
      (setMachineFailure ''Machine Pod cannot be found'' km)"
| missing_not_built: "kms_AllowRecreation (km_Spec km) \<or> kms_ProviderID (km_Spec km) = None \<Longrightarrow>
    km' = (if kms_AllowRecreation (km_Spec km) then setMachineReady False km else km) \<Longrightarrow>
    builtMachinePod lib cluster machine km' = Inl e \<Longrightarrow>
    missingRun lib cluster machine km [] (Returned (noRequeue, Some e)) km'"
| missing_created: "kms_AllowRecreation (km_Spec km) \<or> kms_ProviderID (km_Spec km) = None \<Longrightarrow>
    km' = (if kms_AllowRecreation (km_Spec km) then setMachineReady False km else km) \<Longrightarrow>
    builtMachinePod lib cluster machine km' = Inr pod \<Longrightarrow>
    missingRun lib cluster machine km [EvCreatePod pod err] (Returned (noRequeue, err)) km'"

lemma missingPodStep_run:
  assumes "missingPodStep lib cli cluster machine km s = (out, km', s')"
  shows "\<exists>evs. snd s' = snd s @ evs \<and> missingRun lib cluster machine km evs out km'"
proof (cases "\<not> kms_AllowRecreation (km_Spec km) \<and> kms_ProviderID (km_Spec km) \<noteq> None")
  case True
  then show ?thesis using assms by (auto simp: missingPodStep_def intro: missing_failed)
next
  case False
  define km1 where "km1 = (if kms_AllowRecreation (km_Spec km) then setMachineReady False km else km)"
  obtain res err s1 where c: "createMachinePod lib cli cluster machine km1 s = ((res, err), s1)"
    by (metis surj_pair)
  have "out = Returned (res, err)" "km' = km1" "s' = s1"
    using assms False c by (auto simp: missingPodStep_def km1_def [symmetric] Let_def split: if_splits)
  moreover have "kms_AllowRecreation (km_Spec km) \<or> kms_ProviderID (km_Spec km) = None" using False by blast
  ultimately show ?thesis
    using createMachinePod_log [OF c] missing_not_built [OF _ km1_def] missing_created [OF _ km1_def]
    by fastforce
qed

subsection \<open>reconcileNormal and reconcileDelete\<close>

definition withFinalizers :: "kube_lib \<Rightarrow> KubernetesMachine \<Rightarrow> KubernetesMachine" where
  "withFinalizers lib km = addMachineFinalizer lib FinalizerDeleteDependents
     (addMachineFinalizer lib KubernetesMachineFinalizer km)"

inductive normalRun ::
  "kube_lib \<Rightarrow> cloud_lib \<Rightarrow> Cluster \<Rightarrow> Machine \<Rightarrow> KubernetesMachine \<Rightarrow> event list \<Rightarrow>
   ReconcileReturn outcome \<Rightarrow> KubernetesMachine \<Rightarrow> bool" for lib cloud cluster machine km where
  normal_failed: "machineFailed km \<Longrightarrow>
    normalRun lib cloud cluster machine km [] (Returned (noRequeue, None)) km"
| normal_no_data: "\<not> machineFailed km \<Longrightarrow> mc_DataSecretName machine = None \<Longrightarrow>
    normalRun lib cloud cluster machine km [] (Returned (noRequeue, None)) (withFinalizers lib km)"
| normal_get_failed: "\<not> machineFailed km \<Longrightarrow> mc_DataSecretName machine \<noteq> None \<Longrightarrow> \<not> IsNotFound e \<Longrightarrow>
    normalRun lib cloud cluster machine km
      [EvGetPod (machinePodKey machine (withFinalizers lib km)) (Inl e)] (Returned (noRequeue, Some e))
      (withFinalizers lib km)"
| normal_missing: "\<not> machineFailed km \<Longrightarrow> mc_DataSecretName machine \<noteq> None \<Longrightarrow> IsNotFound e \<Longrightarrow>
    missingRun lib cluster machine (withFinalizers lib km) evs out km' \<Longrightarrow>
    normalRun lib cloud cluster machine km
      (EvGetPod (machinePodKey machine (withFinalizers lib km)) (Inl e) # evs) out km'"
| normal_found: "\<not> machineFailed km \<Longrightarrow> mc_DataSecretName machine \<noteq> None \<Longrightarrow>
    podRun lib cloud cluster machine pod (withFinalizers lib km) evs out km' \<Longrightarrow>
    normalRun lib cloud cluster machine km
      (EvGetPod (machinePodKey machine (withFinalizers lib km)) (Inr pod) # evs) out km'"

lemma machine_reconcileNormal_eq:
  "machine_reconcileNormal lib cloud cli cluster machine km s =
     (if machineFailed km then (Returned (noRequeue, None), km, s)
      else if mc_DataSecretName machine = None then (Returned (noRequeue, None), withFinalizers lib km, s)
      else case perform (EvGetPod (machinePodKey machine (withFinalizers lib km)))
                  (cli_GetPod cli (machinePodKey machine (withFinalizers lib km))) s of
             (Inl err, s1) \<Rightarrow>
               if IsNotFound err then missingPodStep lib cli cluster machine (withFinalizers lib km) s1
               else (Returned (noRequeue, Some err), withFinalizers lib km, s1)
           | (Inr pod, s1) \<Rightarrow> podStep lib cloud cli cluster machine pod (withFinalizers lib km) s1)"
  unfolding machine_reconcileNormal_def machineFailed_def withFinalizers_def Let_def by (rule refl)

lemma machine_reconcileNormal_run:
  assumes "kube_contract lib" and "machine_reconcileNormal lib cloud cli cluster machine km s = (out, km', s')"
  shows "\<exists>evs. snd s' = snd s @ evs \<and> normalRun lib cloud cluster machine km evs out km'"
proof (cases "machineFailed km \<or> mc_DataSecretName machine = None")
  case True
  then show ?thesis
    using assms(2)
    by (auto simp: machine_reconcileNormal_eq intro: normal_failed normal_no_data split: if_splits)
next
  case False
  let ?km = "withFinalizers lib km"
  let ?key = "machinePodKey machine ?km"
  obtain r s1 where get: "perform (EvGetPod ?key) (cli_GetPod cli ?key) s = (r, s1)" by (metis surj_pair)
  note log = perform_log [OF get]
  have step: "machine_reconcileNormal lib cloud cli cluster machine km s =
      (case r of Inl err \<Rightarrow> if IsNotFound err then missingPodStep lib cli cluster machine ?km s1
          else (Returned (noRequeue, Some err), ?km, s1)
       | Inr pod \<Rightarrow> podStep lib cloud cli cluster machine pod ?km s1)"
    using False get by (cases r) (auto simp: machine_reconcileNormal_eq)
  show ?thesis
  proof (cases r)
    case (Inl e)
    show ?thesis
    proof (cases "IsNotFound e")
      case True
      then obtain evs where "snd s' = snd s1 @ evs" "missingRun lib cluster machine ?km evs out km'"
        using assms(2) step Inl missingPodStep_run by fastforce
      then show ?thesis using False log Inl True normal_missing [of km machine e lib cluster evs out km' cloud] by auto
    next
      case nf: False
      then show ?thesis using assms(2) step Inl False log by (auto intro: normal_get_failed)
    qed
  next
    case (Inr pod)
    then obtain evs where "snd s' = snd s1 @ evs" "podRun lib cloud cluster machine pod ?km evs out km'"
      using assms(2) step podStep_run [OF assms(1)] by fastforce
    then show ?thesis using False log Inr normal_found [of km machine lib cloud cluster pod evs out km'] by auto
  qed
qed

abbreviation releasedMachine :: "kube_lib \<Rightarrow> KubernetesMachine \<Rightarrow> KubernetesMachine" where
  "releasedMachine lib km \<equiv> removeMachineFinalizer lib KubernetesMachineFinalizer km"

definition needsReset :: "kube_lib \<Rightarrow> Machine \<Rightarrow> Cluster \<Rightarrow> bool" where
  "needsReset lib machine cluster \<longleftrightarrow>
     timeIsZero (om_DeletionTimestamp (cl_Meta cluster)) \<and> lib_IsControlPlaneMachine lib machine"

inductive deleteRun ::
  "kube_lib \<Rightarrow> Machine \<Rightarrow> Cluster \<Rightarrow> KubernetesMachine \<Rightarrow> event list \<Rightarrow> ReconcileReturn outcome \<Rightarrow>
   KubernetesMachine \<Rightarrow> bool" for lib machine cluster km where
  delete_direct: "\<not> needsReset lib machine cluster \<Longrightarrow>
    deleteRun lib machine cluster km [] (Returned (noRequeue, None)) (releasedMachine lib km)"
| delete_get_failed: "needsReset lib machine cluster \<Longrightarrow> \<not> IsNotFound e \<Longrightarrow>
    deleteRun lib machine cluster km [EvGetPod (machinePodKey machine km) (Inl e)]
      (Returned (noRequeue, Some e)) km"
| delete_missing: "needsReset lib machine cluster \<Longrightarrow> IsNotFound e \<Longrightarrow>
    deleteRun lib machine cluster km [EvGetPod (machinePodKey machine km) (Inl e)]
      (Returned (noRequeue, None)) (setMachineFailure ''Machine Pod cannot be found'' (releasedMachine lib km))"
| delete_foreign: "needsReset lib machine cluster \<Longrightarrow>
    \<not> controlledBy lib (pod_Meta pod) (om_UID (km_Meta km)) \<Longrightarrow>
    deleteRun lib machine cluster km [EvGetPod (machinePodKey machine km) (Inr pod)]
      (Returned (noRequeue, None)) (releasedMachine lib km)"
| delete_reset_failed: "needsReset lib machine cluster \<Longrightarrow>
    controlledBy lib (pod_Meta pod) (om_UID (km_Meta km)) \<Longrightarrow> execError a = Some e \<Longrightarrow>
    deleteRun lib machine cluster km
      [EvGetPod (machinePodKey machine km) (Inr pod), EvExec (resetRequest pod) a]
      (Returned (noRequeue, Some (Wrapped ''failed to execute kubeadm reset'' e))) km"
| delete_reset: "needsReset lib machine cluster \<Longrightarrow>
    controlledBy lib (pod_Meta pod) (om_UID (km_Meta km)) \<Longrightarrow> execSucceeded a \<Longrightarrow>
    deleteRun lib machine cluster km
      [EvGetPod (machinePodKey machine km) (Inr pod), EvExec (resetRequest pod) a]
      (Returned (noRequeue, None)) (releasedMachine lib km)"

lemma machine_reconcileDelete_run:
  assumes "machine_reconcileDelete lib cli machine cluster km s = (out, km', s')"
  shows "\<exists>evs. snd s' = snd s @ evs \<and> deleteRun lib machine cluster km evs out km'"
proof (cases "needsReset lib machine cluster")
  case False
  then show ?thesis
    using assms by (auto simp: machine_reconcileDelete_def Let_def needsReset_def [symmetric] intro: delete_direct)
next
  case True
  let ?key = "machinePodKey machine km"
  obtain r s1 where get: "perform (EvGetPod ?key) (cli_GetPod cli ?key) s = (r, s1)" by (metis surj_pair)
  note log = perform_log [OF get]
  show ?thesis
  proof (cases r)
    case (Inl e)
    then show ?thesis
      using assms True get log
      by (auto simp: machine_reconcileDelete_def Let_def needsReset_def [symmetric]
          intro: delete_missing delete_get_failed split: if_splits)
  next
    case (Inr pod)
    show ?thesis
    proof (cases "controlledBy lib (pod_Meta pod) (om_UID (km_Meta km))")
      case False
      then show ?thesis
        using assms True get log Inr
        by (auto simp: machine_reconcileDelete_def Let_def needsReset_def [symmetric] intro: delete_foreign)
    next
      case own: True
      obtain err s2 where reset: "kubeadmReset cli pod s1 = (err, s2)" by (metis surj_pair)
      obtain a where "snd s2 = snd s1 @ [EvExec (resetRequest pod) a]" "execError a = err"
        using reset by (rule kubeadmReset_log) simp
      then show ?thesis
        using assms True get log Inr own reset
        by (cases err) (auto simp: machine_reconcileDelete_def Let_def needsReset_def [symmetric]
            intro: delete_reset delete_reset_failed)
    qed
  qed
qed

subsection \<open>Reconcile\<close>

definition infraKey :: "KubernetesMachine \<Rightarrow> ObjectReference \<Rightarrow> NamespacedName" where
  "infraKey km ref = \<lparr>nn_Namespace = om_Namespace (km_Meta km), nn_Name = ref_Name ref\<rparr>"

text \<open>The calls that find the owners of a machine, when all of them are found.\<close>

definition ownerEvents ::
  "KubernetesMachine \<Rightarrow> Machine \<Rightarrow> Cluster \<Rightarrow> ObjectReference \<Rightarrow> go_error + KubernetesCluster \<Rightarrow> event list" where
  "ownerEvents km machine cluster ref kc =
     [EvGetOwnerMachine (km_Meta km) (Inr (Some machine)),
      EvGetClusterFromMetadata (mc_Meta machine) (Inr (Some cluster)),
      EvGetKubernetesCluster (infraKey km ref) kc]"

inductive bodyRun ::
  "kube_lib \<Rightarrow> cloud_lib \<Rightarrow> KubernetesMachine \<Rightarrow> event list \<Rightarrow> ReconcileReturn outcome \<Rightarrow>
   KubernetesMachine \<Rightarrow> bool" for lib cloud km where
  body_owner_failed: "bodyRun lib cloud km [EvGetOwnerMachine (km_Meta km) (Inl e)]
    (Returned (noRequeue, Some e)) km"
| body_no_owner: "bodyRun lib cloud km [EvGetOwnerMachine (km_Meta km) (Inr None)]
    (Returned (noRequeue, None)) km"
| body_cluster_failed: "bodyRun lib cloud km
    [EvGetOwnerMachine (km_Meta km) (Inr (Some machine)), EvGetClusterFromMetadata (mc_Meta machine) (Inl e)]
    (Returned (noRequeue, Some e)) (machine_reconcileVersion km machine)"
| body_no_cluster: "bodyRun lib cloud km
    [EvGetOwnerMachine (km_Meta km) (Inr (Some machine)), EvGetClusterFromMetadata (mc_Meta machine) (Inr None)]
    (Returned (noRequeue, None)) (machine_reconcileVersion km machine)"
| body_nil_reference: "cl_InfrastructureRef cluster = None \<Longrightarrow> bodyRun lib cloud km
    [EvGetOwnerMachine (km_Meta km) (Inr (Some machine)),
     EvGetClusterFromMetadata (mc_Meta machine) (Inr (Some cluster))]
    (Panicked ''nil pointer dereference'') (machine_reconcileVersion km machine)"
| body_no_infrastructure: "cl_InfrastructureRef cluster = Some ref \<Longrightarrow>
    bodyRun lib cloud km (ownerEvents km machine cluster ref (Inl e))
      (Returned (noRequeue, None)) (machine_reconcileVersion km machine)"
| body_paused: "cl_InfrastructureRef cluster = Some ref \<Longrightarrow> lib_IsPaused lib cluster (km_Meta km) \<Longrightarrow>
    bodyRun lib cloud km (ownerEvents km machine cluster ref (Inr kc))
      (Returned (noRequeue, None)) (machine_reconcileVersion km machine)"
| body_delete: "cl_InfrastructureRef cluster = Some ref \<Longrightarrow> \<not> lib_IsPaused lib cluster (km_Meta km) \<Longrightarrow>
    \<not> timeIsZero (om_DeletionTimestamp (km_Meta km)) \<Longrightarrow>
    deleteRun lib machine cluster (machine_reconcileVersion km machine) evs out km' \<Longrightarrow>
    bodyRun lib cloud km (ownerEvents km machine cluster ref (Inr kc) @ evs) out km'"
| body_not_ready: "cl_InfrastructureRef cluster = Some ref \<Longrightarrow> \<not> lib_IsPaused lib cluster (km_Meta km) \<Longrightarrow>
    timeIsZero (om_DeletionTimestamp (km_Meta km)) \<Longrightarrow> \<not> cl_InfrastructureReady cluster \<Longrightarrow>
    bodyRun lib cloud km (ownerEvents km machine cluster ref (Inr kc))
      (Returned (noRequeue, None)) (machine_reconcileVersion km machine)"
| body_normal: "cl_InfrastructureRef cluster = Some ref \<Longrightarrow> \<not> lib_IsPaused lib cluster (km_Meta km) \<Longrightarrow>
    timeIsZero (om_DeletionTimestamp (km_Meta km)) \<Longrightarrow> cl_InfrastructureReady cluster \<Longrightarrow>
    normalRun lib cloud cluster machine (machine_reconcileVersion km machine) evs out km' \<Longrightarrow>
    bodyRun lib cloud km (ownerEvents km machine cluster ref (Inr kc) @ evs) out km'"

lemma machine_reconcileVersion_frame [simp]:
  "km_Meta (machine_reconcileVersion km m) = km_Meta km"
  "km_Spec (machine_reconcileVersion km m) = km_Spec km"
  "kmst_FailureReason (km_Status (machine_reconcileVersion km m)) = kmst_FailureReason (km_Status km)"
  "kmst_FailureMessage (km_Status (machine_reconcileVersion km m)) = kmst_FailureMessage (km_Status km)"
  "kmst_Ready (km_Status (machine_reconcileVersion km m)) = kmst_Ready (km_Status km)"
  "kmst_Phase (km_Status (machine_reconcileVersion km m)) = kmst_Phase (km_Status km)"
  "machineFailed (machine_reconcileVersion km m) = machineFailed km"
  by (simp_all add: machine_reconcileVersion_def machineFailed_def)

lemma machineBody_found_run:
  assumes "kube_contract lib" and "cl_InfrastructureRef cluster = Some ref"
    and "snd s3 = snd s @ ownerEvents km machine cluster ref r3"
    and "(case r3 of Inl err \<Rightarrow> (Returned (noRequeue, None), machine_reconcileVersion km machine, s3)
       | Inr _ \<Rightarrow>
         if lib_IsPaused lib cluster (km_Meta km) then (Returned (noRequeue, None), machine_reconcileVersion km machine, s3)
         else if \<not> timeIsZero (om_DeletionTimestamp (km_Meta km))
         then machine_reconcileDelete lib cli machine cluster (machine_reconcileVersion km machine) s3
         else if \<not> cl_InfrastructureReady cluster then (Returned (noRequeue, None), machine_reconcileVersion km machine, s3)
         else machine_reconcileNormal lib cloud cli cluster machine (machine_reconcileVersion km machine) s3) = (out, km', s')"
  shows "\<exists>evs. snd s' = snd s @ evs \<and> bodyRun lib cloud km evs out km'"
proof (cases "\<exists>kc. r3 = Inr kc \<and> \<not> lib_IsPaused lib cluster (km_Meta km)")
  case False
  then show ?thesis
    using assms(2,3,4) by (auto split: sum.splits if_splits intro: body_no_infrastructure body_paused)
next
  case True
  then obtain kc where kc: "r3 = Inr kc" and np: "\<not> lib_IsPaused lib cluster (km_Meta km)" by blast
  let ?km = "machine_reconcileVersion km machine"
  consider (deleted) "\<not> timeIsZero (om_DeletionTimestamp (km_Meta km))"
    | (waiting) "timeIsZero (om_DeletionTimestamp (km_Meta km))" "\<not> cl_InfrastructureReady cluster"
    | (normal) "timeIsZero (om_DeletionTimestamp (km_Meta km))" "cl_InfrastructureReady cluster"
    by blast
  then show ?thesis
  proof cases
    case deleted
    then obtain evs where "snd s' = snd s3 @ evs" "deleteRun lib machine cluster ?km evs out km'"
      using assms(4) kc np machine_reconcileDelete_run by fastforce
    then show ?thesis using assms(3) kc body_delete [OF assms(2) np deleted] by fastforce
  next
    case waiting
    then show ?thesis using assms(2,3,4) kc np by (auto intro: body_not_ready)
  next
    case normal
    then obtain evs where "snd s' = snd s3 @ evs" "normalRun lib cloud cluster machine ?km evs out km'"
      using assms(4) kc np machine_reconcileNormal_run [OF assms(1)] by fastforce
    then show ?thesis using assms(3) kc body_normal [OF assms(2) np normal] by fastforce
  qed
qed

lemma machineBody_owned_run:
  assumes "kube_contract lib" and "machineBody lib cloud cli km s = (out, km', s')"
    and g1: "perform (EvGetOwnerMachine (km_Meta km)) (cli_GetOwnerMachine cli (km_Meta km)) s = (Inr (Some machine), s1)"
  shows "\<exists>evs. snd s' = snd s @ evs \<and> bodyRun lib cloud km evs out km'"
proof -
  note l1 = perform_log [OF g1]
  let ?km = "machine_reconcileVersion km machine"
  obtain r2 s2 where g2: "perform (EvGetClusterFromMetadata (mc_Meta machine))
      (cli_GetClusterFromMetadata cli (mc_Meta machine)) s1 = (r2, s2)" by (metis surj_pair)
  note l2 = perform_log [OF g2]
  consider e where "r2 = Inl e" | "r2 = Inr None" | cluster where "r2 = Inr (Some cluster)"
    by (metis option.exhaust sum.exhaust)
  then show ?thesis
  proof cases
    case 1
    then show ?thesis
      using assms(2) g1 l1 g2 l2 by (auto simp: machineBody_def intro: body_cluster_failed)
  next
    case 2
    then show ?thesis
      using assms(2) g1 l1 g2 l2 by (auto simp: machineBody_def intro: body_no_cluster)
  next
    case cl: (3 cluster)
    show ?thesis
    proof (cases "cl_InfrastructureRef cluster")
      case None
      then show ?thesis
        using assms(2) g1 l1 g2 l2 cl by (auto simp: machineBody_def intro: body_nil_reference)
    next
      case (Some ref)
      obtain r3 s3 where g3: "perform (EvGetKubernetesCluster (infraKey km ref))
          (cli_GetKubernetesCluster cli (infraKey km ref)) s2 = (r3, s3)" by (metis surj_pair)
      have log: "snd s3 = snd s @ ownerEvents km machine cluster ref r3"
        using perform_log [OF g3] l1 l2 cl by (simp add: ownerEvents_def)
      have step: "machineBody lib cloud cli km s =
          (case r3 of Inl err \<Rightarrow> (Returned (noRequeue, None), ?km, s3)
           | Inr _ \<Rightarrow>
             if lib_IsPaused lib cluster (km_Meta km) then (Returned (noRequeue, None), ?km, s3)
             else if \<not> timeIsZero (om_DeletionTimestamp (km_Meta km))
             then machine_reconcileDelete lib cli machine cluster ?km s3
             else if \<not> cl_InfrastructureReady cluster then (Returned (noRequeue, None), ?km, s3)
             else machine_reconcileNormal lib cloud cli cluster machine ?km s3)"
        using g1 g2 cl Some g3 by (cases r3) (simp_all add: machineBody_def infraKey_def)
      show ?thesis by (rule machineBody_found_run [OF assms(1) Some log trans [OF step [symmetric] assms(2)]])
    qed
  qed
qed

lemma machineBody_run:
  assumes "kube_contract lib" and "machineBody lib cloud cli km s = (out, km', s')"
  shows "\<exists>evs. snd s' = snd s @ evs \<and> bodyRun lib cloud km evs out km'"
proof -
  obtain r s1 where g1: "perform (EvGetOwnerMachine (km_Meta km)) (cli_GetOwnerMachine cli (km_Meta km)) s = (r, s1)"
    by (metis surj_pair)
  note l1 = perform_log [OF g1]
  consider e where "r = Inl e" | "r = Inr None" | machine where "r = Inr (Some machine)"
    by (metis option.exhaust sum.exhaust)
  then show ?thesis
  proof cases
    case 1
    then show ?thesis using assms(2) g1 l1 by (auto simp: machineBody_def intro: body_owner_failed)
  next
    case 2
    then show ?thesis using assms(2) g1 l1 by (auto simp: machineBody_def intro: body_no_owner)
  next
    case (3 machine)
    show ?thesis by (rule machineBody_owned_run [OF assms g1 [unfolded 3]])
  qed
qed

text \<open>The deferred function's part of the outcome.\<close>

fun afterPatch :: "ReconcileReturn outcome \<Rightarrow> go_error option \<Rightarrow> ReconcileReturn outcome" where
  "afterPatch (Panicked p) err = Panicked p"
| "afterPatch (Returned (res, rerr)) err = Returned (res, if rerr = None then err else rerr)"

inductive reconcileRun ::
  "kube_lib \<Rightarrow> cloud_lib \<Rightarrow> NamespacedName \<Rightarrow> event list \<Rightarrow> ReconcileReturn outcome \<Rightarrow> bool"
  for lib cloud req where
  rec_not_found: "IsNotFound e \<Longrightarrow>
    reconcileRun lib cloud req [EvGetKubernetesMachine req (Inl e)] (Returned (noRequeue, None))"
| rec_get_failed: "\<not> IsNotFound e \<Longrightarrow>
    reconcileRun lib cloud req [EvGetKubernetesMachine req (Inl e)] (Returned (noRequeue, Some e))"
| rec_no_helper:
    "reconcileRun lib cloud req [EvGetKubernetesMachine req (Inr km), EvNewPatchHelper (Some e)]
      (Returned (noRequeue, Some e))"
| rec_body: "bodyRun lib cloud km evs out km' \<Longrightarrow>
    reconcileRun lib cloud req
      (EvGetKubernetesMachine req (Inr km) # EvNewPatchHelper None # evs @
        [EvPatchMachine km (machine_reconcilePhase km') err]) (afterPatch out err)"

lemma machine_Reconcile_run:
  assumes "kube_contract lib" and "machine_Reconcile lib cloud cli req s = (out, s')"
  shows "\<exists>evs. snd s' = snd s @ evs \<and> reconcileRun lib cloud req evs out"
proof -
  obtain r s1 where g1: "perform (EvGetKubernetesMachine req) (cli_GetKubernetesMachine cli req) s = (r, s1)"
    by (metis surj_pair)
  note l1 = perform_log [OF g1]
  show ?thesis
  proof (cases r)
    case (Inl e)
    then show ?thesis
      using assms(2) g1 l1 by (auto simp: machine_Reconcile_def intro: rec_not_found rec_get_failed split: if_splits)
  next
    case (Inr km)
    obtain h s2 where g2: "perform EvNewPatchHelper (cli_NewPatchHelper cli) s1 = (h, s2)" by (metis surj_pair)
    note l2 = perform_log [OF g2]
    show ?thesis
    proof (cases h)
      case (Some e)
      then show ?thesis using assms(2) g1 l1 Inr g2 l2 by (auto simp: machine_Reconcile_def intro: rec_no_helper)
    next
      case None
      obtain out0 km' s3 where b: "machineBody lib cloud cli km s2 = (out0, km', s3)" by (metis surj_pair)
      obtain evs where evs: "snd s3 = snd s2 @ evs" "bodyRun lib cloud km evs out0 km'"
        using machineBody_run [OF assms(1) b] by blast
      obtain err s4 where g3: "perform (EvPatchMachine km (machine_reconcilePhase km'))
          (cli_PatchMachine cli km (machine_reconcilePhase km')) s3 = (err, s4)" by (metis surj_pair)
      note l3 = perform_log [OF g3]
      have "out = afterPatch out0 err" "s' = s4"
        using assms(2) g1 Inr g2 None b g3
        by (auto simp: machine_Reconcile_def machineDeferred_def split: outcome.splits)
      then show ?thesis using l1 l2 l3 Inr None evs rec_body by fastforce
    qed
  qed
qed

end
