(* ===== verification/Machine_Correct.thy ===== *)
theory Machine_Correct
  imports Machine_Runs
begin

text \<open>
  Properties of the machine controller, proved by cases on its runs: when it creates and deletes
  Pods, what makes a machine ready, what a reconcile may change in the KubernetesMachine, failures,
  deletion, panics, and the bootstrap Secret.
\<close>

subsection \<open>The setters\<close>

lemma setters_frame [simp]:
  "km_Meta (setMachineFailure msg km) = km_Meta km" "km_Spec (setMachineFailure msg km) = km_Spec km"
  "km_TypeMeta (setMachineFailure msg km) = km_TypeMeta km"
  "kmst_Ready (km_Status (setMachineFailure msg km)) = kmst_Ready (km_Status km)"
  "kmst_Version (km_Status (setMachineFailure msg km)) = kmst_Version (km_Status km)"
  "kmst_FailureMessage (km_Status (setMachineFailure msg km)) = Some msg"
  "km_Meta (setMachineReady b km) = km_Meta km" "km_Spec (setMachineReady b km) = km_Spec km"
  "km_TypeMeta (setMachineReady b km) = km_TypeMeta km"
  "kmst_Ready (km_Status (setMachineReady b km)) = b"
  "kmst_FailureMessage (km_Status (setMachineReady b km)) = kmst_FailureMessage (km_Status km)"
  "kmst_FailureReason (km_Status (setMachineReady b km)) = kmst_FailureReason (km_Status km)"
  "km_Meta (setMachineProviderID pid km) = km_Meta km"
  "km_Spec (setMachineProviderID pid km) = (km_Spec km)\<lparr>kms_ProviderID := Some pid\<rparr>"
  "km_Status (setMachineProviderID pid km) = km_Status km"
  "km_TypeMeta (setMachineProviderID pid km) = km_TypeMeta km"
  "km_Spec (removeMachineFinalizer lib f km) = km_Spec km"
  "km_Status (removeMachineFinalizer lib f km) = km_Status km"
  "km_TypeMeta (removeMachineFinalizer lib f km) = km_TypeMeta km"
  "km_Spec (withFinalizers lib km) = km_Spec km" "km_Status (withFinalizers lib km) = km_Status km"
  "km_TypeMeta (withFinalizers lib km) = km_TypeMeta km"
  "km_TypeMeta (machine_reconcileVersion km m) = km_TypeMeta km"
  by (simp_all add: setMachineFailure_def setMachineReady_def setMachineProviderID_def
      removeMachineFinalizer_def withFinalizers_def addMachineFinalizer_def machine_SetFailureMessage_def
      machine_SetFailureReason_def machine_reconcileVersion_def)

lemma machineFailed_simps [simp]:
  "machineFailed (setMachineFailure msg km)" "machineFailed (setMachineReady b km) = machineFailed km"
  "machineFailed (setMachineProviderID pid km) = machineFailed km"
  "machineFailed (removeMachineFinalizer lib f km) = machineFailed km"
  "machineFailed (withFinalizers lib km) = machineFailed km"
  by (simp_all add: machineFailed_def)

lemma withFinalizers_meta:
  assumes "kube_contract lib"
  shows "\<exists>fs. km_Meta (withFinalizers lib km) = (km_Meta km)\<lparr>om_Finalizers := fs\<rparr> \<and>
    set fs = {KubernetesMachineFinalizer, FinalizerDeleteDependents} \<union> set (om_Finalizers (km_Meta km))"
proof -
  obtain fs where a: "lib_AddFinalizer lib (km_Meta km) KubernetesMachineFinalizer = (km_Meta km)\<lparr>om_Finalizers := fs\<rparr>"
    "set fs = insert KubernetesMachineFinalizer (set (om_Finalizers (km_Meta km)))"
    using kube_contract.add_finalizer [OF assms] by blast
  obtain gs where "lib_AddFinalizer lib ((km_Meta km)\<lparr>om_Finalizers := fs\<rparr>) FinalizerDeleteDependents =
      (km_Meta km)\<lparr>om_Finalizers := gs\<rparr>" "set gs = insert FinalizerDeleteDependents (set fs)"
    using kube_contract.add_finalizer [OF assms, of "(km_Meta km)\<lparr>om_Finalizers := fs\<rparr>" FinalizerDeleteDependents]
    by auto
  then show ?thesis using a by (auto simp: withFinalizers_def addMachineFinalizer_def)
qed

lemma machinePodKey_withFinalizers:
  "kube_contract lib \<Longrightarrow> machinePodKey machine (withFinalizers lib km) = machinePodKey machine km"
  using withFinalizers_meta [of lib km] by (auto simp: machinePodKey_def machinePodName_def)

lemma machinePodKey_version [simp]:
  "machinePodKey machine (machine_reconcileVersion km m) = machinePodKey machine km"
  by (simp add: machinePodKey_def machinePodName_def)

lemma withFinalizers_uid: "kube_contract lib \<Longrightarrow> om_UID (km_Meta (withFinalizers lib km)) = om_UID (km_Meta km)"
  using withFinalizers_meta [of lib km] by auto

subsection \<open>The phase\<close>

definition phaseOf :: "KubernetesMachine \<Rightarrow> string" where
  "phaseOf k =
     (if \<not> timeIsZero (om_DeletionTimestamp (km_Meta k)) then KubernetesMachinePhaseDeleting
      else if machineFailed k then KubernetesMachinePhaseFailed
      else if kms_ProviderID (km_Spec k) \<noteq> None
      then (if kmst_Ready (km_Status k) then KubernetesMachinePhaseRunning else KubernetesMachinePhaseProvisioning)
      else if kmst_Phase (km_Status k) = [] then KubernetesMachinePhasePending
      else kmst_Phase (km_Status k))"

lemma setMachinePhase_frame [simp]:
  "km_Meta (setMachinePhase p k) = km_Meta k" "km_Spec (setMachinePhase p k) = km_Spec k"
  "km_TypeMeta (setMachinePhase p k) = km_TypeMeta k"
  "kmst_Ready (km_Status (setMachinePhase p k)) = kmst_Ready (km_Status k)"
  "kmst_Version (km_Status (setMachinePhase p k)) = kmst_Version (km_Status k)"
  "kmst_FailureMessage (km_Status (setMachinePhase p k)) = kmst_FailureMessage (km_Status k)"
  "kmst_FailureReason (km_Status (setMachinePhase p k)) = kmst_FailureReason (km_Status k)"
  "kmst_Phase (km_Status (setMachinePhase p k)) = p"
  "machineFailed (setMachinePhase p k) = machineFailed k"
  by (simp_all add: setMachinePhase_def machineFailed_def)

lemma setMachinePhase_twice [simp]: "setMachinePhase p (setMachinePhase q k) = setMachinePhase p k"
  by (simp add: setMachinePhase_def)

lemma setMachinePhase_same [simp]: "setMachinePhase (kmst_Phase (km_Status k)) k = k"
  by (simp add: setMachinePhase_def)

lemma machine_reconcilePhase_eq: "machine_reconcilePhase k = setMachinePhase (phaseOf k) k"
proof -
  have failed: "kmst_FailureReason (km_Status x) \<noteq> None \<or> kmst_FailureMessage (km_Status x) \<noteq> None \<longleftrightarrow> machineFailed x"
    for x by (simp add: machineFailed_def)
  show ?thesis
    unfolding machine_reconcilePhase_def Let_def phaseOf_def failed
    by (cases "kmst_Phase (km_Status k) = []"; cases "kms_ProviderID (km_Spec k)"; cases "kmst_Ready (km_Status k)";
        cases "machineFailed k"; cases "timeIsZero (om_DeletionTimestamp (km_Meta k))"; simp)
qed

lemma machine_reconcilePhase_frame [simp]:
  "km_Meta (machine_reconcilePhase k) = km_Meta k" "km_Spec (machine_reconcilePhase k) = km_Spec k"
  "km_TypeMeta (machine_reconcilePhase k) = km_TypeMeta k"
  "kmst_Ready (km_Status (machine_reconcilePhase k)) = kmst_Ready (km_Status k)"
  "kmst_FailureMessage (km_Status (machine_reconcilePhase k)) = kmst_FailureMessage (km_Status k)"
  "kmst_Phase (km_Status (machine_reconcilePhase k)) = phaseOf k"
  "machineFailed (machine_reconcilePhase k) = machineFailed k"
  by (simp_all add: machine_reconcilePhase_eq)

subsection \<open>Which calls the steps make\<close>

text \<open>The steps below the one that finds the Pod neither create Pods nor patch the machine.\<close>

fun lowerEvent :: "event \<Rightarrow> bool" where
  "lowerEvent (EvCreatePod _ _) = False"
| "lowerEvent (EvPatchMachine _ _ _) = False"
| "lowerEvent (EvPatchCluster _ _ _) = False"
| "lowerEvent (EvGetPod _ _) = False"
| "lowerEvent (EvGetKubernetesMachine _ _) = False"
| "lowerEvent (EvGetOwnerMachine _ _) = False"
| "lowerEvent (EvGetClusterFromMetadata _ _) = False"
| "lowerEvent (EvNewPatchHelper _) = False"
| "lowerEvent (EvCreateService _ _) = False"
| "lowerEvent _ = True"

lemma nodeRun_lower: "nodeRun cluster pod evs err \<Longrightarrow> list_all lowerEvent evs"
  by (induction rule: nodeRun.induct) auto

lemma bootRun_lower: "bootRun cluster pod cst km evs out km' \<Longrightarrow> list_all lowerEvent evs"
  by (induction rule: bootRun.induct) (auto dest: nodeRun_lower)

lemma contRun_lower: "contRun cluster pod km evs out km' \<Longrightarrow> list_all lowerEvent evs"
  by (induction rule: contRun.induct) (auto dest: bootRun_lower)

lemma dataRun_lower: "dataRun machine evs v \<Longrightarrow> list_all lowerEvent evs"
  by (induction rule: dataRun.induct) auto

lemma secRun_lower: "secRun lib cloud cluster machine pod km evs out km' \<Longrightarrow> list_all lowerEvent evs"
  by (induction rule: secRun.induct) (auto dest: dataRun_lower contRun_lower)

lemma claimRun_lower: "claimRun lib km evs err \<Longrightarrow> list_all lowerEvent evs"
  by (fastforce simp: claimRun_def list_all_iff split: sum.splits)

lemma podRun_lower: "podRun lib cloud cluster machine pod km evs out km' \<Longrightarrow> list_all lowerEvent evs"
  by (induction rule: podRun.induct) (auto dest: claimRun_lower secRun_lower)

text \<open>Deleting a Pod happens in one branch only.\<close>

lemma nodeRun_no_delete: "nodeRun cluster pod evs err \<Longrightarrow> EvDeletePod p e \<notin> set evs"
  by (induction rule: nodeRun.induct) auto

lemma bootRun_no_delete: "bootRun cluster pod cst km evs out km' \<Longrightarrow> EvDeletePod p e \<notin> set evs"
  by (induction rule: bootRun.induct) (auto dest: nodeRun_no_delete)

lemma claimRun_no_delete: "claimRun lib km evs err \<Longrightarrow> EvDeletePod p e \<notin> set evs"
  by (auto simp: claimRun_def split: sum.splits)

lemma dataRun_no_delete: "dataRun machine evs v \<Longrightarrow> EvDeletePod p e \<notin> set evs"
  by (induction rule: dataRun.induct) auto

definition kindTerminated :: "Pod \<Rightarrow> bool" where
  "kindTerminated pod \<longleftrightarrow>
     (\<exists>cst. GetContainerStatus (pst_ContainerStatuses (pod_Status pod)) kindContainerName = (cst, True) \<and>
        st_Terminated (cs_State cst) \<noteq> None)"

lemma podRun_delete:
  assumes "podRun lib cloud cluster machine pod km evs out km'" and "EvDeletePod p e \<in> set evs"
  shows "p = pod \<and> controlledBy lib (pod_Meta pod) (om_UID (km_Meta km)) \<and>
    kms_AllowRecreation (km_Spec km) \<and> kindTerminated pod \<and>
    timeIsZero (om_DeletionTimestamp (pod_Meta pod)) \<and> kms_ProviderID (km_Spec km) \<noteq> None"
proof -
  have cont: "p = pod \<and> kms_AllowRecreation (km_Spec km) \<and> kindTerminated pod"
    if "contRun cluster pod km es out' km''" "EvDeletePod p e \<in> set es" for es out' km''
    using that
    by (cases rule: contRun.cases)
      (auto simp: kindTerminated_def dest: bootRun_no_delete)
  have sec: "p = pod \<and> kms_AllowRecreation (km_Spec km) \<and> kindTerminated pod"
    if "secRun lib cloud cluster machine pod km es out' km''" "EvDeletePod p e \<in> set es" for es out' km''
    using that by (cases rule: secRun.cases) (auto dest: dataRun_no_delete cont)
  show ?thesis
    using assms by (cases rule: podRun.cases) (auto dest: claimRun_no_delete sec)
qed

subsection \<open>The patch\<close>

lemma lower_no_patch: "list_all lowerEvent evs \<Longrightarrow> EvPatchMachine a b c \<notin> set evs"
  by (auto simp: list_all_iff)

lemma normalRun_no_patch: "normalRun lib cloud cluster machine km evs out km' \<Longrightarrow> EvPatchMachine a b c \<notin> set evs"
  by (cases rule: normalRun.cases)
    (auto dest: podRun_lower [THEN lower_no_patch] elim!: missingRun.cases)

lemma bodyRun_no_patch: "bodyRun lib cloud km evs out km' \<Longrightarrow> EvPatchMachine a b c \<notin> set evs"
  by (cases rule: bodyRun.cases)
    (auto simp: ownerEvents_def dest: normalRun_no_patch elim!: deleteRun.cases)

lemma reconcile_patched:
  assumes "reconcileRun lib cloud req evs out" and "EvPatchMachine km km' err \<in> set evs"
  obtains body out0 km0 where "bodyRun lib cloud km body out0 km0" "km' = machine_reconcilePhase km0"
    "evs = EvGetKubernetesMachine req (Inr km) # EvNewPatchHelper None # body @ [EvPatchMachine km km' err]"
    "out = afterPatch out0 err"
  using assms by (cases rule: reconcileRun.cases) (auto dest: bodyRun_no_patch)

text \<open>A complete run from the empty log.\<close>

lemma Reconcile_reconcileRun:
  assumes "kube_contract lib" and "machine_Reconcile lib cloud cli req (w, []) = (out, s')"
  shows "reconcileRun lib cloud req (snd s') out"
  using machine_Reconcile_run [OF assms] by auto

text \<open>What a reconcile may change in the object.\<close>

definition sameExceptOwned :: "KubernetesMachine \<Rightarrow> KubernetesMachine \<Rightarrow> bool" where
  "sameExceptOwned km km' \<longleftrightarrow>
     km_TypeMeta km' = km_TypeMeta km \<and>
     (\<exists>pid. km_Spec km' = (km_Spec km)\<lparr>kms_ProviderID := pid\<rparr>) \<and>
     (\<exists>fs. km_Meta km' = (km_Meta km)\<lparr>om_Finalizers := fs\<rparr>)"

lemma sameExceptOwned_trans:
  assumes "sameExceptOwned a b" and "sameExceptOwned b c"
  shows "sameExceptOwned a c"
  using assms by (auto simp: sameExceptOwned_def)

lemma sameSpec: "\<exists>pid. km_Spec km = (km_Spec km)\<lparr>kms_ProviderID := pid\<rparr>"
  by (rule exI [of _ "kms_ProviderID (km_Spec km)"]) simp

lemma sameMeta: "\<exists>fs. km_Meta km = (km_Meta km)\<lparr>om_Finalizers := fs\<rparr>"
  by (rule exI [of _ "om_Finalizers (km_Meta km)"]) simp

lemma sameExceptOwned_refl [simp]: "sameExceptOwned a a"
  by (simp add: sameExceptOwned_def sameSpec sameMeta)

lemma sameExceptOwned_steps [simp]:
  "sameExceptOwned km (setMachineFailure msg km)" "sameExceptOwned km (setMachineReady b km)"
  "sameExceptOwned km (setMachineProviderID pid km)" "sameExceptOwned km (machine_reconcileVersion km m)"
  "sameExceptOwned km (machine_reconcilePhase km)"
  by (simp_all add: sameExceptOwned_def sameSpec sameMeta) blast

subsection \<open>What the steps leave behind\<close>

lemma bootRun_change:
  "bootRun cluster pod cst km evs out km' \<Longrightarrow> km' = km \<or> km' = setMachineReady True km"
  by (auto elim: bootRun.cases)

lemma contRun_change:
  "contRun cluster pod km evs out km' \<Longrightarrow>
     km' = km \<or> km' = setMachineReady True km \<or> (\<exists>msg. km' = setMachineFailure msg km)"
  by (cases rule: contRun.cases) (auto dest: bootRun_change)

lemma secRun_change:
  "secRun lib cloud cluster machine pod km evs out km' \<Longrightarrow>
     km' = km \<or> km' = setMachineReady True km \<or> (\<exists>msg. km' = setMachineFailure msg km)"
  by (cases rule: secRun.cases) (auto dest: contRun_change)

lemma podRun_change:
  "podRun lib cloud cluster machine pod km evs out km' \<Longrightarrow>
     km' = km \<or> (\<exists>b. km' = setMachineReady b km) \<or> (\<exists>msg. km' = setMachineFailure msg km) \<or>
     km' = setMachineProviderID (nodeProviderID pod) km \<and> kms_ProviderID (km_Spec km) = None \<and>
       controlledBy lib (pod_Meta pod) (om_UID (km_Meta km))"
  by (cases rule: podRun.cases) (auto dest: secRun_change)

lemma missingRun_change:
  "missingRun lib cluster machine km evs out km' \<Longrightarrow>
     km' = km \<or> km' = setMachineReady False km \<or> (\<exists>msg. km' = setMachineFailure msg km)"
  by (auto elim!: missingRun.cases)

lemma deleteRun_change:
  "deleteRun lib machine cluster km evs out km' \<Longrightarrow>
     km' = km \<or> km' = releasedMachine lib km \<or> (\<exists>msg. km' = setMachineFailure msg (releasedMachine lib km))"
  by (auto elim!: deleteRun.cases)

lemma sameExceptOwned_withFinalizers: "kube_contract lib \<Longrightarrow> sameExceptOwned km (withFinalizers lib km)"
  using withFinalizers_meta [of lib km] by (auto simp: sameExceptOwned_def sameSpec)

lemma sameExceptOwned_released: "kube_contract lib \<Longrightarrow> sameExceptOwned km (releasedMachine lib km)"
  using kube_contract.remove_finalizer [of lib "km_Meta km" KubernetesMachineFinalizer]
  by (auto simp: sameExceptOwned_def sameSpec removeMachineFinalizer_def)

lemma normalRun_change:
  assumes "kube_contract lib" and "normalRun lib cloud cluster machine km evs out km'"
  shows "sameExceptOwned km km'" and "machineFailed km \<Longrightarrow> km' = km \<and> evs = []"
proof -
  note fin = sameExceptOwned_withFinalizers [OF assms(1), of km]
  show "sameExceptOwned km km'"
    using assms(2)
  proof (cases rule: normalRun.cases)
    case (normal_missing e evs')
    have "sameExceptOwned (withFinalizers lib km) km'"
      using missingRun_change [OF normal_missing(5)] by auto
    with fin show ?thesis by (rule sameExceptOwned_trans)
  next
    case (normal_found pod evs')
    have "sameExceptOwned (withFinalizers lib km) km'"
      using podRun_change [OF normal_found(4)] by auto
    with fin show ?thesis by (rule sameExceptOwned_trans)
  qed (use fin in auto)
  show "machineFailed km \<Longrightarrow> km' = km \<and> evs = []"
    using assms(2) by (cases rule: normalRun.cases) auto
qed

lemma deleteRun_same:
  assumes "kube_contract lib" and "deleteRun lib machine cluster km evs out km'"
  shows "sameExceptOwned km km'"
  using deleteRun_change [OF assms(2)] sameExceptOwned_released [OF assms(1), of km]
    sameExceptOwned_trans [OF sameExceptOwned_released [OF assms(1), of km]] by auto

lemma bodyRun_same:
  assumes "kube_contract lib" and "bodyRun lib cloud km evs out km'"
  shows "sameExceptOwned km km'"
  using assms(2)
proof (cases rule: bodyRun.cases)
  case (body_delete cluster ref machine evs' kc)
  show ?thesis
    using sameExceptOwned_trans [OF sameExceptOwned_steps(4) deleteRun_same [OF assms(1) body_delete(5)]] .
next
  case (body_normal cluster ref machine evs' kc)
  show ?thesis
    using sameExceptOwned_trans [OF sameExceptOwned_steps(4) normalRun_change(1) [OF assms(1) body_normal(6)]] .
qed auto

lemma bodyRun_failed:
  assumes "kube_contract lib" and "bodyRun lib cloud km evs out km'" and "machineFailed km"
  shows "machineFailed km'"
  using assms(2)
proof (cases rule: bodyRun.cases)
  case (body_delete cluster ref machine evs' kc)
  show ?thesis using deleteRun_change [OF body_delete(5)] assms(3) by auto
next
  case (body_normal cluster ref machine evs' kc)
  show ?thesis using normalRun_change(2) [OF assms(1) body_normal(6)] assms(3) by simp
qed (use assms(3) in auto)

text \<open>Becoming ready.\<close>

definition nodePatched :: "Cluster \<Rightarrow> Pod \<Rightarrow> event list \<Rightarrow> bool" where
  "nodePatched cluster pod evs \<longleftrightarrow>
     (\<exists>cp cps a. EvListPods (om_Namespace (cl_Meta cluster)) (controllerSelector cluster) (Inr (cp # cps)) \<in> set evs \<and>
        EvExec (nodePatchRequest cp pod) a \<in> set evs \<and> execSucceeded a)"

lemma nodePatched_mono: "nodePatched cluster pod evs \<Longrightarrow> set evs \<subseteq> set evs' \<Longrightarrow> nodePatched cluster pod evs'"
  unfolding nodePatched_def by blast

definition bootstrapped :: "Cluster \<Rightarrow> Pod \<Rightarrow> event list \<Rightarrow> bool" where
  "bootstrapped cluster pod evs \<longleftrightarrow>
     IsPodReady pod \<and>
     (\<exists>a. EvExec (installRequest pod) a \<in> set evs \<and> execSucceeded a) \<and>
     nodePatched cluster pod evs \<and>
     (\<exists>secret r. EvCreateSecret secret r \<in> set evs \<and> secretTolerated r)"

lemma bootstrapped_mono: "bootstrapped cluster pod evs \<Longrightarrow> set evs \<subseteq> set evs' \<Longrightarrow> bootstrapped cluster pod evs'"
  unfolding bootstrapped_def by (blast intro: nodePatched_mono)

lemma None_execError_iff [simp]: "None = execError a \<longleftrightarrow> execSucceeded a"
  using execError_None_iff [of a] by metis

lemma podRun_ready:
  assumes "podRun lib cloud cluster machine pod km evs out km'"
    and "kmst_Ready (km_Status km')" and "\<not> kmst_Ready (km_Status km)"
  shows "bootstrapped cluster pod evs \<and> controlledBy lib (pod_Meta pod) (om_UID (km_Meta km)) \<and>
    kms_ProviderID (km_Spec km) \<noteq> None \<and> timeIsZero (om_DeletionTimestamp (pod_Meta pod)) \<and>
    out = Returned (noRequeue, None)"
proof -
  have boot: "IsPodReady pod \<and> (\<exists>a. EvExec (installRequest pod) a \<in> set es \<and> execSucceeded a) \<and>
      nodePatched cluster pod es \<and> out' = Returned (noRequeue, None)"
    if "bootRun cluster pod cst km es out' km''" "kmst_Ready (km_Status km'')" for es out' km'' cst
    using that(1)
  proof (cases rule: bootRun.cases)
    case (boot_ready a evs)
    have "nodePatched cluster pod evs"
      using boot_ready(6) by (cases rule: nodeRun.cases) (auto simp: nodePatched_def)
    then show ?thesis using boot_ready nodePatched_mono [of cluster pod evs es] by auto
  qed (use that(2) assms(3) in auto)
  have cont: "IsPodReady pod \<and> (\<exists>a. EvExec (installRequest pod) a \<in> set es \<and> execSucceeded a) \<and>
      nodePatched cluster pod es \<and> out' = Returned (noRequeue, None)"
    if "contRun cluster pod km es out' km''" "kmst_Ready (km_Status km'')" for es out' km''
    using that assms(3) by (cases rule: contRun.cases) (auto dest: boot)
  have sec: "bootstrapped cluster pod es \<and> out' = Returned (noRequeue, None)"
    if "secRun lib cloud cluster machine pod km es out' km''" "kmst_Ready (km_Status km'')" for es out' km''
    using that assms(3)
  proof (cases rule: secRun.cases)
    case (sec_ok evs doc secret r evs')
    then show ?thesis
      using cont [of evs' out' km''] that(2) nodePatched_mono [of cluster pod evs' es] by (auto simp: bootstrapped_def)
  qed auto
  show ?thesis
    using assms(1)
  proof (cases rule: podRun.cases)
    case (pod_ok evs1 evs2)
    then show ?thesis using sec [of evs2 out km'] assms(2) bootstrapped_mono [of cluster pod evs2 evs] by auto
  qed (use assms(2,3) in auto)
qed

subsection \<open>Sample runs\<close>

definition sampleKC :: KubernetesCluster where
  "sampleKC = \<lparr>kc_TypeMeta = [], kc_Meta = sampleMeta ''kc'' ''u3'',
     kc_Spec = \<lparr>kcs_ControlPlaneServiceType = ''ClusterIP'', kcs_ControlPlaneEndpoint = \<lparr>ep_Host = [], ep_Port = 0\<rparr>\<rparr>,
     kc_Status = \<lparr>kcst_FailureReason = None, kcst_FailureMessage = None, kcst_Phase = [], kcst_Ready = False\<rparr>\<rparr>"

definition sampleKey :: NamespacedName where
  "sampleKey = \<lparr>nn_Namespace = ''ns'', nn_Name = ''km''\<rparr>"

definition foundClient :: "KubernetesMachine \<Rightarrow> Machine \<Rightarrow> Cluster \<Rightarrow> unit kube_client" where
  "foundClient km machine cluster = emptyClient\<lparr>
     cli_GetKubernetesMachine := (\<lambda>_ w. (Inr km, w)),
     cli_GetOwnerMachine := (\<lambda>_ w. (Inr (Some machine), w)),
     cli_GetClusterFromMetadata := (\<lambda>_ w. (Inr (Some cluster), w)),
     cli_GetKubernetesCluster := (\<lambda>_ w. (Inr sampleKC, w))\<rparr>"

definition providedKM :: KubernetesMachine where
  "providedKM = setMachineProviderID ''kubernetes://ns/km'' (sampleKM [])"

definition kindStatus :: "ContainerState \<Rightarrow> bool \<Rightarrow> ContainerStatus" where
  "kindStatus st ready = \<lparr>cs_Name = ''kind'', cs_State = st, cs_Ready = ready\<rparr>"

definition samplePod :: "ContainerState \<Rightarrow> Pod" where
  "samplePod st = \<lparr>pod_Meta = (sampleMeta ''km'' ''u4'')\<lparr>om_OwnerReferences :=
       [\<lparr>or_APIVersion = GroupVersion, or_Kind = KubernetesMachineKind, or_Name = ''km'', or_UID = ''u2'',
         or_Controller = Some True\<rparr>]\<rparr>,
     pod_Spec = \<lparr>ps_Containers = None, ps_InitContainers = [], ps_Volumes = [], ps_RestartPolicy = ''Never'',
       ps_Hostname = [], ps_Rest = []\<rparr>,
     pod_Status = \<lparr>pst_Conditions = Some [\<lparr>pc_Type = ''Ready'', pc_Status = ''True''\<rparr>],
       pst_ContainerStatuses = [kindStatus st True]\<rparr>\<rparr>"

definition running :: ContainerState where
  "running = \<lparr>st_Running = Some [], st_Terminated = None\<rparr>"

definition podClient :: "KubernetesMachine \<Rightarrow> ContainerState \<Rightarrow> unit kube_client" where
  "podClient km st = (foundClient km (sampleMachine True) sampleCluster)\<lparr>
     cli_GetPod := (\<lambda>_ w. (Inr (samplePod st), w)),
     cli_GetClaim := (\<lambda>_ w. (None, w)),
     cli_GetSecret := (\<lambda>_ w. (Inr \<lparr>sec_Meta = emptyObjectMeta, sec_Data = [''value'' \<mapsto> sampleDoc],
       sec_StringData = Map.empty\<rparr>, w)),
     cli_ListPods := (\<lambda>_ _ w. (Inr [samplePod st], w))\<rparr>"

definition sampleRun :: "unit kube_client \<Rightarrow> ReconcileReturn outcome \<times> unit st" where
  "sampleRun cli = machine_Reconcile refLib (sampleCloud []) cli sampleKey ((), [])"

lemma sampleCluster_simps [simp]:
  "cl_InfrastructureRef sampleCluster = Some \<lparr>ref_Name = ''kc'', ref_Rest = []\<rparr>"
  "\<not> cl_Paused sampleCluster" "cl_InfrastructureReady sampleCluster"
  "om_DeletionTimestamp (cl_Meta sampleCluster) = None"
  "mc_DataSecretName (sampleMachine cp) = Some ''data''"
  by (simp_all add: sampleCluster_def sampleMachine_def sampleMeta_def emptyObjectMeta_def)

lemma foundClient_simps [simp]:
  "cli_GetKubernetesMachine (foundClient km machine cluster) k w = (Inr km, w)"
  "cli_GetOwnerMachine (foundClient km machine cluster) m w = (Inr (Some machine), w)"
  "cli_GetClusterFromMetadata (foundClient km machine cluster) m w = (Inr (Some cluster), w)"
  "cli_GetKubernetesCluster (foundClient km machine cluster) k w = (Inr sampleKC, w)"
  "cli_NewPatchHelper (foundClient km machine cluster) w = (None, w)"
  "cli_PatchMachine (foundClient km machine cluster) a b w = (None, w)"
  "cli_GetPod (foundClient km machine cluster) k w = (Inl (StatusNotFound (nn_Name k)), w)"
  "cli_CreatePod (foundClient km machine cluster) p w = (None, w)"
  by (simp_all add: foundClient_def emptyClient_def)

lemma podClient_simps [simp]:
  "cli_GetKubernetesMachine (podClient km st) k w = (Inr km, w)"
  "cli_GetOwnerMachine (podClient km st) m w = (Inr (Some (sampleMachine True)), w)"
  "cli_GetClusterFromMetadata (podClient km st) m w = (Inr (Some sampleCluster), w)"
  "cli_GetKubernetesCluster (podClient km st) k w = (Inr sampleKC, w)"
  "cli_NewPatchHelper (podClient km st) w = (None, w)"
  "cli_PatchMachine (podClient km st) a b w = (None, w)"
  "cli_GetPod (podClient km st) k w = (Inr (samplePod st), w)"
  "cli_DeletePod (podClient km st) p w = (None, w)"
  "cli_GetClaim (podClient km st) k w = (None, w)"
  "cli_GetSecret (podClient km st) k w = (Inr \<lparr>sec_Meta = emptyObjectMeta, sec_Data = [''value'' \<mapsto> sampleDoc],
       sec_StringData = Map.empty\<rparr>, w)"
  "cli_CreateSecret (podClient km st) x w = (Inr x, w)"
  "cli_ListPods (podClient km st) ns sel w = (Inr [samplePod st], w)"
  "cli_Exec (podClient km st) er w = (Streamed None [] [], w)"
  by (simp_all add: podClient_def foundClient_def emptyClient_def)

lemmas runDefs = sampleRun_def machine_Reconcile_def machineBody_def machineDeferred_def Let_def
  machine_reconcileNormal_eq perform_def timeIsZero_def

lemma sample_meta [simp]:
  "om_UID (km_Meta (sampleKM ns)) = ''u2''" "om_DeletionTimestamp (km_Meta (sampleKM ns)) = None"
  "om_Annotations (km_Meta (sampleKM ns)) = Map.empty" "om_Namespace (km_Meta (sampleKM ns)) = ''ns''"
  "om_Name (km_Meta (sampleKM ns)) = ''km''"
  "\<not> machineFailed (sampleKM ns)" "kms_ProviderID (km_Spec (sampleKM ns)) = None"
  "\<not> kms_AllowRecreation (km_Spec (sampleKM ns))" "\<not> kmst_Ready (km_Status (sampleKM ns))"
  by (simp_all add: sampleKM_def sampleMeta_def emptyObjectMeta_def machineFailed_def)

lemma missing_sample_run:
  "\<exists>pod. EvCreatePod pod None \<in> set (snd (snd (sampleRun (foundClient (sampleKM []) (sampleMachine True) sampleCluster))))"
proof -
  let ?km = "withFinalizers refLib (machine_reconcileVersion (sampleKM []) (sampleMachine True))"
  have "\<exists>pod. builtMachinePod refLib sampleCluster (sampleMachine True) ?km = Inr pod"
    by (rule refLib_builds) (simp add: sample_templates)
  then obtain pod where "builtMachinePod refLib sampleCluster (sampleMachine True) ?km = Inr pod" by blast
  then show ?thesis
    by (simp add: runDefs missingPodStep_def createMachinePod_eq createBuiltPod_def)
qed

text \<open>A run that goes through to the end.\<close>

lemma samplePod_simps [simp]:
  "controlledBy refLib (pod_Meta (samplePod st)) ''u2''"
  "om_DeletionTimestamp (pod_Meta (samplePod st)) = None" "IsPodReady (samplePod st)"
  "GetContainerStatus (pst_ContainerStatuses (pod_Status (samplePod st))) kindContainerName = (kindStatus st True, True)"
  "cs_State (kindStatus st b) = st" "cs_Ready (kindStatus st b) = b"
  "om_Namespace (pod_Meta (samplePod st)) = ''ns''" "om_Name (pod_Meta (samplePod st)) = ''km''"
  by (simp_all add: samplePod_def controlledBy_def isController_def sampleMeta_def emptyObjectMeta_def
      IsPodReady_iff_find kindStatus_def kindContainerName_def)

lemma sample_secret:
  assumes "om_UID (km_Meta km) = ''u2''"
  obtains secret where "scriptSecret refLib (sampleCloud []) cluster machine km sampleDoc = Returned (Inr secret)"
    and "controlledBy refLib (sec_Meta secret) ''u2''"
proof -
  have "\<exists>secret. scriptSecret refLib (sampleCloud []) cluster machine km sampleDoc = Returned (Inr secret)"
    by (simp add: scriptSecret_def generatateCloudInitSecret_def sampleDoc_script Let_def refSetController_def
        emptyObjectMeta_def)
  then obtain secret where s: "scriptSecret refLib (sampleCloud []) cluster machine km sampleDoc = Returned (Inr secret)"
    by blast
  moreover have "controlledBy refLib (sec_Meta secret) ''u2''"
    using scriptSecret_ok [OF ref.kube_contract_axioms s] assms by metis
  ultimately show thesis by (rule that)
qed

lemma refLib_no_claim_error:
  assumes "kms_VolumeClaimTemplates (km_Spec km) = []"
  shows "createPersistentVolumeClaims refLib cli km s = (None, s)"
  using assms by (simp add: createPersistentVolumeClaims_def getPersistentVolumeClaims_def)

definition readyKM :: KubernetesMachine where
  "readyKM = providedKM\<lparr>km_Spec := (km_Spec providedKM)\<lparr>kms_VolumeClaimTemplates := []\<rparr>\<rparr>"

lemma readyKM_simps [simp]:
  "om_UID (km_Meta readyKM) = ''u2''" "om_DeletionTimestamp (km_Meta readyKM) = None"
  "om_Annotations (km_Meta readyKM) = Map.empty" "\<not> machineFailed readyKM"
  "kms_ProviderID (km_Spec readyKM) = Some ''kubernetes://ns/km''"
  "kms_VolumeClaimTemplates (km_Spec readyKM) = []" "\<not> kmst_Ready (km_Status readyKM)"
  "\<not> kms_AllowRecreation (km_Spec readyKM)"
  by (simp_all add: readyKM_def providedKM_def machineFailed_def [of "_\<lparr>km_Spec := _\<rparr>"])
    (simp_all add: setMachineProviderID_def machineFailed_def sampleKM_def)

lemma ready_sample_run:
  "\<exists>km'. EvPatchMachine readyKM km' None \<in> set (snd (snd (sampleRun (podClient readyKM running)))) \<and>
     kmst_Ready (km_Status km')"
proof -
  let ?km = "withFinalizers refLib (machine_reconcileVersion readyKM (sampleMachine True))"
  have uid: "om_UID (km_Meta ?km) = ''u2''" by (simp add: withFinalizers_uid [OF ref.kube_contract_axioms])
  obtain secret where "scriptSecret refLib (sampleCloud []) sampleCluster (sampleMachine True) ?km sampleDoc =
      Returned (Inr secret)" "controlledBy refLib (sec_Meta secret) ''u2''"
    using sample_secret [OF uid] by blast
  then show ?thesis
    using uid
    by (simp add: runDefs podStep_def refLib_no_claim_error secretStep_def getBootstrapData_def
        scriptSecret_def [symmetric] containerStep_def running_def bootstrapStep_def
        enableBoostrapProcess_def kindContainerExec_eq setNodeProviderID_def getProviderIDFromPod_Some)
qed

end
