(* ===== verification/Machine_Properties.thy ===== *)
theory Machine_Properties
  imports Machine_Correct
begin

text \<open>
  The properties of the machine controller's \<open>Reconcile\<close>. Each one speaks about a whole call: the
  log \<open>snd s'\<close> holds every request with its answer, in order, from the fetch of the KubernetesMachine
  to the patch of the deferred function; the client may answer anything.
\<close>

fun innerEvent :: "event \<Rightarrow> bool" where
  "innerEvent (EvGetKubernetesMachine _ _) = False"
| "innerEvent (EvNewPatchHelper _) = False"
| "innerEvent (EvPatchMachine _ _ _) = False"
| "innerEvent _ = True"

lemma inner_events:
  assumes "reconcileRun lib cloud req evs out" and "ev \<in> set evs" and "innerEvent ev"
  shows "\<exists>km body out0 km0 err. bodyRun lib cloud km body out0 km0 \<and> ev \<in> set body \<and>
    evs = EvGetKubernetesMachine req (Inr km) # EvNewPatchHelper None # body @
       [EvPatchMachine km (machine_reconcilePhase km0) err] \<and> out = afterPatch out0 err"
  using assms by (cases rule: reconcileRun.cases) auto

lemma patched_run:
  assumes "kube_contract lib" and "machine_Reconcile lib cloud cli req (w, []) = (out, s')"
    and "EvPatchMachine km km' perr \<in> set (snd s')"
  obtains body out0 km0 where "bodyRun lib cloud km body out0 km0" "km' = machine_reconcilePhase km0"
    "snd s' = EvGetKubernetesMachine req (Inr km) # EvNewPatchHelper None # body @ [EvPatchMachine km km' perr]"
    "out = afterPatch out0 perr"
  using reconcile_patched [OF Reconcile_reconcileRun [OF assms(1,2)] assms(3)] by blast

lemma afterPatch_cases:
  obtains p where "out = Panicked p" | res err where "out = Returned (res, err)"
  by (cases out) auto

lemma sampleRun_is_run:
  "machine_Reconcile refLib (sampleCloud []) cli sampleKey ((), []) = (fst (sampleRun cli), snd (sampleRun cli))"
  by (simp add: sampleRun_def)

text \<open>\<open>reconcileNormal\<close> only adds finalizers.\<close>

lemma normalRun_finalizers:
  assumes "kube_contract lib" and "normalRun lib cloud cluster machine km evs out km'"
  shows "set (om_Finalizers (km_Meta km)) \<subseteq> set (om_Finalizers (km_Meta km'))"
proof -
  have sub: "set (om_Finalizers (km_Meta km)) \<subseteq> set (om_Finalizers (km_Meta (withFinalizers lib km)))"
    using withFinalizers_meta [OF assms(1), of km] by auto
  show ?thesis
    using assms(2)
  proof (cases rule: normalRun.cases)
    case (normal_missing e evs')
    then show ?thesis using missingRun_change [OF normal_missing(5)] sub by auto
  next
    case (normal_found pod evs')
    then show ?thesis using podRun_change [OF normal_found(4)] sub by auto
  qed (use sub in auto)
qed

lemma versioned:
  "\<exists>v. machine_reconcileVersion km m = km\<lparr>km_Status := (km_Status km)\<lparr>kmst_Version := v\<rparr>\<rparr>"
  "\<exists>v. km = km\<lparr>km_Status := (km_Status km)\<lparr>kmst_Version := v\<rparr>\<rparr>"
proof -
  show same: "\<exists>v. km = km\<lparr>km_Status := (km_Status km)\<lparr>kmst_Version := v\<rparr>\<rparr>"
    by (rule exI [of _ "kmst_Version (km_Status km)"]) simp
  show "\<exists>v. machine_reconcileVersion km m = km\<lparr>km_Status := (km_Status km)\<lparr>kmst_Version := v\<rparr>\<rparr>"
    using same by (simp add: machine_reconcileVersion_def) blast
qed

text \<open>Runs that create a Pod.\<close>

lemma bodyRun_create:
  assumes "kube_contract lib" and "bodyRun lib cloud km evs out km'" and "EvCreatePod pod e \<in> set evs"
  shows "\<exists>machine cluster ref kc err.
    evs = ownerEvents km machine cluster ref (Inr kc) @ [EvGetPod (machinePodKey machine km) (Inl err), EvCreatePod pod e] \<and>
    IsNotFound err \<and> \<not> lib_IsPaused lib cluster (km_Meta km) \<and> timeIsZero (om_DeletionTimestamp (km_Meta km)) \<and>
    cl_InfrastructureReady cluster \<and> \<not> machineFailed km \<and>
    (kms_AllowRecreation (km_Spec km) \<or> kms_ProviderID (km_Spec km) = None)"
  using assms(2)
proof (cases rule: bodyRun.cases)
  case (body_normal cluster ref machine evs' kc)
  let ?km = "machine_reconcileVersion km machine"
  have mem: "EvCreatePod pod e \<in> set evs'" using assms(3) body_normal(1) by (simp add: ownerEvents_def)
  from body_normal(6) show ?thesis
  proof (cases rule: normalRun.cases)
    case (normal_missing err evs'')
    have "evs'' = [EvCreatePod pod e] \<and> (kms_AllowRecreation (km_Spec km) \<or> kms_ProviderID (km_Spec km) = None)"
      using normal_missing(5) mem normal_missing(1) by (cases rule: missingRun.cases) auto
    then show ?thesis
      using body_normal normal_missing machinePodKey_withFinalizers [OF assms(1)] by auto
  next
    case (normal_found pod' evs'')
    then show ?thesis using mem podRun_lower [OF normal_found(4)] by (auto simp: list_all_iff)
  qed (use mem in auto)
qed (use assms(3) in \<open>auto simp: ownerEvents_def elim!: deleteRun.cases\<close>)

text \<open>
  C2. A Pod is created only right after the API server has answered that the machine's Pod does not
  exist, only for a machine that is neither deleted, paused nor failed, in a cluster whose
  infrastructure is ready, and only when recreation is allowed or the machine never had a Pod; after
  the creation nothing but the patch follows.
\<close>

theorem machine_creates_pod_only_when_missing:
  assumes "kube_contract lib" and "machine_Reconcile lib cloud cli req (w, []) = (out, s')"
    and "EvCreatePod pod e \<in> set (snd s')"
  shows "\<exists>km machine cluster ref kc err km' perr.
    snd s' = EvGetKubernetesMachine req (Inr km) # EvNewPatchHelper None #
      ownerEvents km machine cluster ref (Inr kc) @
      [EvGetPod (machinePodKey machine km) (Inl err), EvCreatePod pod e, EvPatchMachine km km' perr] \<and>
    IsNotFound err \<and> \<not> lib_IsPaused lib cluster (km_Meta km) \<and> timeIsZero (om_DeletionTimestamp (km_Meta km)) \<and>
    cl_InfrastructureReady cluster \<and> \<not> machineFailed km \<and>
    (kms_AllowRecreation (km_Spec km) \<or> kms_ProviderID (km_Spec km) = None)"
proof -
  obtain km body out0 km0 perr where b: "bodyRun lib cloud km body out0 km0" "EvCreatePod pod e \<in> set body"
    and log: "snd s' = EvGetKubernetesMachine req (Inr km) # EvNewPatchHelper None # body @
       [EvPatchMachine km (machine_reconcilePhase km0) perr]"
    using inner_events [OF Reconcile_reconcileRun [OF assms(1,2)] assms(3)] by auto
  show ?thesis using bodyRun_create [OF assms(1) b] log by auto
qed

theorem machine_creates_pod_only_when_missing_witness:
  "\<exists>km machine cluster ref kc err pod km' perr.
    snd (snd (sampleRun (foundClient (sampleKM []) (sampleMachine True) sampleCluster))) =
      EvGetKubernetesMachine sampleKey (Inr km) # EvNewPatchHelper None #
      ownerEvents km machine cluster ref (Inr kc) @
      [EvGetPod (machinePodKey machine km) (Inl err), EvCreatePod pod None, EvPatchMachine km km' perr]"
proof -
  let ?cli = "foundClient (sampleKM []) (sampleMachine True) sampleCluster"
  obtain pod where c: "EvCreatePod pod None \<in> set (snd (snd (sampleRun ?cli)))"
    using missing_sample_run by blast
  note run = sampleRun_is_run [of ?cli]
  show ?thesis
    using machine_creates_pod_only_when_missing [OF ref.kube_contract_axioms run c] by blast
qed

text \<open>
  C3. A Pod is deleted only if it is the machine's own Pod, which the machine controls, which is not
  already being deleted and whose kind container has terminated, and only when the machine allows
  recreation.
\<close>

theorem machine_deletes_pod_only_when_terminated:
  assumes "kube_contract lib" and "machine_Reconcile lib cloud cli req (w, []) = (out, s')"
    and "EvDeletePod pod e \<in> set (snd s')"
  shows "\<exists>km machine. EvGetKubernetesMachine req (Inr km) \<in> set (snd s') \<and>
    EvGetPod (machinePodKey machine km) (Inr pod) \<in> set (snd s') \<and>
    controlledBy lib (pod_Meta pod) (om_UID (km_Meta km)) \<and> kms_AllowRecreation (km_Spec km) \<and>
    kindTerminated pod \<and> timeIsZero (om_DeletionTimestamp (pod_Meta pod)) \<and> \<not> machineFailed km"
proof -
  obtain km body out0 km0 perr where b: "bodyRun lib cloud km body out0 km0" and mem: "EvDeletePod pod e \<in> set body"
    and log: "snd s' = EvGetKubernetesMachine req (Inr km) # EvNewPatchHelper None # body @
       [EvPatchMachine km (machine_reconcilePhase km0) perr]"
    using inner_events [OF Reconcile_reconcileRun [OF assms(1,2)] assms(3)] by auto
  have "\<exists>machine. EvGetPod (machinePodKey machine km) (Inr pod) \<in> set body \<and>
    controlledBy lib (pod_Meta pod) (om_UID (km_Meta km)) \<and> kms_AllowRecreation (km_Spec km) \<and>
    kindTerminated pod \<and> timeIsZero (om_DeletionTimestamp (pod_Meta pod)) \<and> \<not> machineFailed km"
    using b
  proof (cases rule: bodyRun.cases)
    case (body_normal cluster ref machine evs' kc)
    have m: "EvDeletePod pod e \<in> set evs'" using mem body_normal(1) by (simp add: ownerEvents_def)
    from body_normal(6) show ?thesis
    proof (cases rule: normalRun.cases)
      case (normal_missing err evs'')
      then show ?thesis using m by (auto elim!: missingRun.cases)
    next
      case (normal_found pod' evs'')
      have "EvDeletePod pod e \<in> set evs''" using m normal_found(1) by simp
      from podRun_delete [OF normal_found(4) this] show ?thesis
        using normal_found body_normal(1) machinePodKey_withFinalizers [OF assms(1)] withFinalizers_uid [OF assms(1)]
        by auto
    qed (use m in auto)
  qed (use mem in \<open>auto simp: ownerEvents_def elim!: deleteRun.cases\<close>)
  then show ?thesis using log by auto
qed

definition recreatableKM :: KubernetesMachine where
  "recreatableKM = readyKM\<lparr>km_Spec := (km_Spec readyKM)\<lparr>kms_AllowRecreation := True\<rparr>\<rparr>"

lemma recreatableKM_simps [simp]:
  "km_Meta recreatableKM = km_Meta readyKM" "km_Status recreatableKM = km_Status readyKM"
  "kms_AllowRecreation (km_Spec recreatableKM)"
  "kms_ProviderID (km_Spec recreatableKM) = Some ''kubernetes://ns/km''"
  "kms_VolumeClaimTemplates (km_Spec recreatableKM) = []" "\<not> machineFailed recreatableKM"
  using readyKM_simps(4) by (simp_all add: recreatableKM_def machineFailed_def)

definition terminated :: ContainerState where
  "terminated = \<lparr>st_Running = None, st_Terminated = Some \<lparr>ct_Reason = ''Error''\<rparr>\<rparr>"

theorem machine_deletes_pod_only_when_terminated_witness:
  "EvDeletePod (samplePod terminated) None \<in> set (snd (snd (sampleRun (podClient recreatableKM terminated)))) \<and>
   kindTerminated (samplePod terminated)"
proof -
  let ?cli = "podClient recreatableKM terminated"
  let ?km = "withFinalizers refLib (machine_reconcileVersion recreatableKM (sampleMachine True))"
  have uid: "om_UID (km_Meta ?km) = ''u2''" by (simp add: withFinalizers_uid [OF ref.kube_contract_axioms])
  obtain secret where "scriptSecret refLib (sampleCloud []) sampleCluster (sampleMachine True) ?km sampleDoc =
      Returned (Inr secret)" "controlledBy refLib (sec_Meta secret) ''u2''"
    using sample_secret [OF uid] by blast
  then have d: "EvDeletePod (samplePod terminated) None \<in> set (snd (snd (sampleRun ?cli)))"
    using uid
    by (simp add: runDefs podStep_def refLib_no_claim_error secretStep_def getBootstrapData_def
        scriptSecret_def [symmetric] containerStep_def terminated_def)
  note run = sampleRun_is_run [of ?cli]
  show ?thesis
    using machine_deletes_pod_only_when_terminated [OF ref.kube_contract_axioms run d] d by blast
qed

text \<open>
  C1. A machine that was not ready is made ready only by a reconcile that found the machine's own Pod,
  which it controls and which is ready, and that in this call created the bootstrap Secret (or found
  it there), ran the install script in the kind container and patched the provider ID into the node,
  each with success; such a reconcile asks for no retry.
\<close>

theorem machine_ready_only_if_bootstrapped:
  assumes "kube_contract lib" and "machine_Reconcile lib cloud cli req (w, []) = (out, s')"
    and "EvPatchMachine km km' perr \<in> set (snd s')"
    and "kmst_Ready (km_Status km')" and "\<not> kmst_Ready (km_Status km)"
  shows "\<exists>machine cluster pod. EvGetPod (machinePodKey machine km) (Inr pod) \<in> set (snd s') \<and>
    EvGetClusterFromMetadata (mc_Meta machine) (Inr (Some cluster)) \<in> set (snd s') \<and>
    controlledBy lib (pod_Meta pod) (om_UID (km_Meta km)) \<and> bootstrapped cluster pod (snd s') \<and>
    kms_ProviderID (km_Spec km) \<noteq> None \<and> timeIsZero (om_DeletionTimestamp (pod_Meta pod)) \<and>
    out = Returned (noRequeue, perr)"
proof -
  obtain body out0 km0 where b: "bodyRun lib cloud km body out0 km0" and km': "km' = machine_reconcilePhase km0"
    and log: "snd s' = EvGetKubernetesMachine req (Inr km) # EvNewPatchHelper None # body @ [EvPatchMachine km km' perr]"
    and out: "out = afterPatch out0 perr"
    using patched_run [OF assms(1,2,3)] by blast
  have ready: "kmst_Ready (km_Status km0)" using assms(4) km' by simp
  from b show ?thesis
  proof (cases rule: bodyRun.cases)
    case (body_normal cluster ref machine evs' kc)
    let ?km = "machine_reconcileVersion km machine"
    from body_normal(6) show ?thesis
    proof (cases rule: normalRun.cases)
      case (normal_missing e evs'')
      then show ?thesis using missingRun_change [OF normal_missing(5)] ready assms(5) by auto
    next
      case (normal_found pod evs'')
      have r: "bootstrapped cluster pod evs'' \<and> controlledBy lib (pod_Meta pod) (om_UID (km_Meta km)) \<and>
          kms_ProviderID (km_Spec km) \<noteq> None \<and> timeIsZero (om_DeletionTimestamp (pod_Meta pod)) \<and>
          out0 = Returned (noRequeue, None)"
        using podRun_ready [OF normal_found(4) ready] assms(1,5) by (simp add: withFinalizers_uid)
      moreover have "bootstrapped cluster pod (snd s')"
        using r bootstrapped_mono [of cluster pod evs'' "snd s'"] log body_normal(1) normal_found(1) by auto
      ultimately show ?thesis
        using body_normal(1) normal_found(1) log out
        by (intro exI [of _ machine] exI [of _ cluster] exI [of _ pod])
          (simp add: machinePodKey_withFinalizers assms(1) ownerEvents_def)
    qed (use ready assms(5) in auto)
  next
    case (body_delete cluster ref machine evs' kc)
    then show ?thesis using deleteRun_change [OF body_delete(5)] ready assms(5) by auto
  qed (use ready assms(5) in auto)
qed

theorem machine_ready_only_if_bootstrapped_witness:
  "\<exists>machine cluster pod. bootstrapped cluster pod (snd (snd (sampleRun (podClient readyKM running)))) \<and>
     EvGetPod (machinePodKey machine readyKM) (Inr pod) \<in> set (snd (snd (sampleRun (podClient readyKM running))))"
proof -
  let ?cli = "podClient readyKM running"
  obtain km' where p: "EvPatchMachine readyKM km' None \<in> set (snd (snd (sampleRun ?cli)))" "kmst_Ready (km_Status km')"
    using ready_sample_run by blast
  note run = sampleRun_is_run [of ?cli]
  show ?thesis
    using machine_ready_only_if_bootstrapped [OF ref.kube_contract_axioms run p(1,2)] by auto
qed

text \<open>
  C20. Once the patch helper exists, every way through \<open>Reconcile\<close>, a panic included, ends with exactly
  one patch of the KubernetesMachine: it is the last request, it starts from the object that was
  fetched, it carries the phase of the machine it writes, and it changes nothing but the finalizers,
  the provider ID and the status. When it fails, the call does not return without an error.
\<close>

theorem machine_patched_once_at_the_end:
  assumes "kube_contract lib" and "machine_Reconcile lib cloud cli req (w, []) = (out, s')"
    and "EvNewPatchHelper None \<in> set (snd s')"
  shows "\<exists>km km' perr body.
    snd s' = EvGetKubernetesMachine req (Inr km) # EvNewPatchHelper None # body @ [EvPatchMachine km km' perr] \<and>
    (\<forall>a b c. EvPatchMachine a b c \<notin> set body) \<and>
    kmst_Phase (km_Status km') = phaseOf km' \<and> sameExceptOwned km km' \<and>
    (\<forall>res. out = Returned (res, None) \<longrightarrow> perr = None)"
proof -
  obtain km body out0 km0 err where b: "bodyRun lib cloud km body out0 km0"
    and log: "snd s' = EvGetKubernetesMachine req (Inr km) # EvNewPatchHelper None # body @
       [EvPatchMachine km (machine_reconcilePhase km0) err]" and out: "out = afterPatch out0 err"
    using Reconcile_reconcileRun [OF assms(1,2)] assms(3) by (cases rule: reconcileRun.cases) auto
  have "sameExceptOwned km (machine_reconcilePhase km0)"
    using sameExceptOwned_trans [OF bodyRun_same [OF assms(1) b]] by simp
  moreover have "phaseOf (machine_reconcilePhase km0) = phaseOf km0" by (simp add: phaseOf_def)
  moreover have "err = None" if "out = Returned (res, None)" for res
    using that out by (cases out0 rule: afterPatch_cases) (auto split: if_splits)
  ultimately show ?thesis using log bodyRun_no_patch [OF b] by fastforce
qed

theorem machine_patched_once_at_the_end_witness:
  "\<exists>km km' perr body.
    snd (snd (sampleRun (podClient readyKM running))) =
      EvGetKubernetesMachine sampleKey (Inr km) # EvNewPatchHelper None # body @ [EvPatchMachine km km' perr] \<and>
    sameExceptOwned km km'"
proof -
  let ?cli = "podClient readyKM running"
  note run = sampleRun_is_run [of ?cli]
  have "EvNewPatchHelper None \<in> set (snd (snd (sampleRun ?cli)))"
    using ready_sample_run Reconcile_reconcileRun [OF ref.kube_contract_axioms run]
    by (auto elim!: reconcileRun.cases)
  from machine_patched_once_at_the_end [OF ref.kube_contract_axioms run this] show ?thesis by blast
qed

lemma bodyRun_providerID:
  assumes "kube_contract lib" and "bodyRun lib cloud km evs out km'"
  shows "kms_ProviderID (km_Spec km') = kms_ProviderID (km_Spec km) \<or>
    kms_ProviderID (km_Spec km) = None \<and>
    (\<exists>machine pod. EvGetOwnerMachine (km_Meta km) (Inr (Some machine)) \<in> set evs \<and>
       EvGetPod (machinePodKey machine km) (Inr pod) \<in> set evs \<and>
       controlledBy lib (pod_Meta pod) (om_UID (km_Meta km)) \<and>
       kms_ProviderID (km_Spec km') = Some (nodeProviderID pod))"
  using assms(2)
proof (cases rule: bodyRun.cases)
  case (body_normal cluster ref machine evs' kc)
  from body_normal(6) show ?thesis
  proof (cases rule: normalRun.cases)
    case (normal_missing e evs'')
    then show ?thesis using missingRun_change [OF normal_missing(5)] by auto
  next
    case (normal_found pod evs'')
    have "EvGetOwnerMachine (km_Meta km) (Inr (Some machine)) \<in> set evs"
        "EvGetPod (machinePodKey machine km) (Inr pod) \<in> set evs"
      using body_normal(1) normal_found(1) by (simp_all add: machinePodKey_withFinalizers assms(1) ownerEvents_def)
    then show ?thesis
      using podRun_change [OF normal_found(4)]
      by (auto simp: withFinalizers_uid assms(1) intro!: exI [of _ machine] exI [of _ pod])
  qed auto
next
  case (body_delete cluster ref machine evs' kc)
  then show ?thesis using deleteRun_change [OF body_delete(5)] by auto
qed auto

lemma providerID_change:
  assumes "kube_contract lib" and "machine_Reconcile lib cloud cli req (w, []) = (out, s')"
    and "EvPatchMachine km km' perr \<in> set (snd s')"
  shows "kms_ProviderID (km_Spec km') = kms_ProviderID (km_Spec km) \<or>
    kms_ProviderID (km_Spec km) = None \<and>
    (\<exists>machine pod. EvGetOwnerMachine (km_Meta km) (Inr (Some machine)) \<in> set (snd s') \<and>
       EvGetPod (machinePodKey machine km) (Inr pod) \<in> set (snd s') \<and>
       controlledBy lib (pod_Meta pod) (om_UID (km_Meta km)) \<and>
       kms_ProviderID (km_Spec km') = Some (nodeProviderID pod))"
proof -
  obtain body out0 km0 where b: "bodyRun lib cloud km body out0 km0" and km': "km' = machine_reconcilePhase km0"
    and log: "snd s' = EvGetKubernetesMachine req (Inr km) # EvNewPatchHelper None # body @ [EvPatchMachine km km' perr]"
    by (rule patched_run [OF assms])
  have "set body \<subseteq> set (snd s')" by (auto simp: log)
  then show ?thesis using bodyRun_providerID [OF assms(1) b] km' by (simp add: subset_iff) blast
qed

text \<open>
  The provider ID of a machine is set once: a reconcile leaves it as it is, or gives a machine
  without one the ID \<open>kubernetes://namespace/name\<close> of the machine's own Pod, which it has just fetched
  and which the machine controls.
\<close>

theorem machine_providerID_set_once:
  assumes "kube_contract lib" and "machine_Reconcile lib cloud cli req (w, []) = (out, s')"
    and "EvPatchMachine km km' perr \<in> set (snd s')"
  shows "kms_ProviderID (km_Spec km') = kms_ProviderID (km_Spec km) \<or>
    kms_ProviderID (km_Spec km) = None \<and>
    (\<exists>machine pod. EvGetPod (machinePodKey machine km) (Inr pod) \<in> set (snd s') \<and>
       controlledBy lib (pod_Meta pod) (om_UID (km_Meta km)) \<and>
       kms_ProviderID (km_Spec km') = Some (nodeProviderID pod))"
  using providerID_change [OF assms] by blast

theorem machine_providerID_set_once_witness:
  "\<exists>km'. EvPatchMachine readyKM km' None \<in> set (snd (snd (sampleRun (podClient readyKM running)))) \<and>
     kms_ProviderID (km_Spec km') = Some ''kubernetes://ns/km''"
proof -
  obtain km' where p: "EvPatchMachine readyKM km' None \<in> set (snd (snd (sampleRun (podClient readyKM running))))"
    using ready_sample_run by blast
  show ?thesis
    using machine_providerID_set_once [OF ref.kube_contract_axioms sampleRun_is_run p] p by auto
qed

text \<open>
  C18. A failure is never taken back, and a failed machine that is not being deleted is left alone: the
  only request of the reconcile that changes anything is the patch, and it leaves readiness, provider
  ID and finalizers as they were and writes the phase \<open>Failed\<close>.
\<close>

theorem machine_failure_is_terminal:
  assumes "kube_contract lib" and "machine_Reconcile lib cloud cli req (w, []) = (out, s')"
    and "EvPatchMachine km km' perr \<in> set (snd s')" and "machineFailed km"
  shows "machineFailed km' \<and>
    (timeIsZero (om_DeletionTimestamp (km_Meta km)) \<longrightarrow>
       (\<forall>ev \<in> set (snd s'). mutates ev \<longrightarrow> ev = EvPatchMachine km km' perr) \<and>
       kmst_Ready (km_Status km') = kmst_Ready (km_Status km) \<and> km_Spec km' = km_Spec km \<and>
       km_Meta km' = km_Meta km \<and> kmst_Phase (km_Status km') = KubernetesMachinePhaseFailed)"
proof -
  obtain body out0 km0 where b: "bodyRun lib cloud km body out0 km0" and km': "km' = machine_reconcilePhase km0"
    and log: "snd s' = EvGetKubernetesMachine req (Inr km) # EvNewPatchHelper None # body @ [EvPatchMachine km km' perr]"
    and out: "out = afterPatch out0 perr"
    by (rule patched_run [OF assms(1,2,3)])
  have failed: "machineFailed km0" by (rule bodyRun_failed [OF assms(1) b assms(4)])
  have frozen: "(\<forall>ev \<in> set body. \<not> mutates ev) \<and> kmst_Ready (km_Status km0) = kmst_Ready (km_Status km) \<and>
      km_Spec km0 = km_Spec km \<and> km_Meta km0 = km_Meta km"
    if live: "timeIsZero (om_DeletionTimestamp (km_Meta km))"
    using b
  proof (cases rule: bodyRun.cases)
    case (body_normal cluster ref machine evs' kc)
    then show ?thesis using normalRun_change(2) [OF assms(1) body_normal(6)] assms(4) by (auto simp: ownerEvents_def)
  qed (use live in \<open>auto simp: ownerEvents_def\<close>)
  show ?thesis
    using failed frozen km' log by (auto simp: phaseOf_def)
qed

definition failedKM :: KubernetesMachine where
  "failedKM = setMachineFailure ''Machine Pod cannot be found'' readyKM"

lemma failed_sample_run:
  "\<exists>km'. EvPatchMachine failedKM km' None \<in> set (snd (snd (sampleRun (podClient failedKM running))))"
proof -
  have "machineFailed failedKM" "om_DeletionTimestamp (km_Meta failedKM) = None"
      "om_Annotations (km_Meta failedKM) = Map.empty"
    by (simp_all add: failedKM_def)
  then show ?thesis by (simp add: runDefs)
qed

theorem machine_failure_is_terminal_witness:
  "\<exists>km'. EvPatchMachine failedKM km' None \<in> set (snd (snd (sampleRun (podClient failedKM running)))) \<and>
     machineFailed km' \<and> kmst_Phase (km_Status km') = ''Failed''"
proof -
  obtain km' where p: "EvPatchMachine failedKM km' None \<in> set (snd (snd (sampleRun (podClient failedKM running))))"
    using failed_sample_run by blast
  have f: "machineFailed failedKM" "timeIsZero (om_DeletionTimestamp (km_Meta failedKM))"
    by (simp_all add: failedKM_def timeIsZero_def)
  show ?thesis
    using machine_failure_is_terminal [OF ref.kube_contract_axioms sampleRun_is_run p f(1)] p f(2)
    by auto
qed

text \<open>
  While the cluster or the machine is paused, a reconcile changes nothing but the version and the
  phase in the status of the KubernetesMachine: the patch is its only request that is not a read.
\<close>

theorem machine_paused_untouched:
  assumes "kube_contract lib" and "machine_Reconcile lib cloud cli req (w, []) = (out, s')"
    and "EvPatchMachine km km' perr \<in> set (snd s')"
    and "\<And>m cluster. EvGetClusterFromMetadata m (Inr (Some cluster)) \<in> set (snd s') \<Longrightarrow>
      lib_IsPaused lib cluster (km_Meta km)"
  shows "(\<forall>ev \<in> set (snd s'). mutates ev \<longrightarrow> ev = EvPatchMachine km km' perr) \<and>
    km_Meta km' = km_Meta km \<and> km_Spec km' = km_Spec km \<and>
    (\<exists>version phase. km_Status km' = (km_Status km)\<lparr>kmst_Version := version, kmst_Phase := phase\<rparr>)"
proof -
  obtain body out0 km0 where b: "bodyRun lib cloud km body out0 km0" and km': "km' = machine_reconcilePhase km0"
    and log: "snd s' = EvGetKubernetesMachine req (Inr km) # EvNewPatchHelper None # body @ [EvPatchMachine km km' perr]"
    and out: "out = afterPatch out0 perr"
    by (rule patched_run [OF assms(1,2,3)])
  have "(\<forall>ev \<in> set body. \<not> mutates ev) \<and> (km0 = km \<or> (\<exists>machine. km0 = machine_reconcileVersion km machine))"
    using b
  proof (cases rule: bodyRun.cases)
    case (body_delete cluster ref machine evs' kc)
    then show ?thesis using assms(4) [of "mc_Meta machine" cluster] log by (simp add: ownerEvents_def)
  next
    case (body_normal cluster ref machine evs' kc)
    then show ?thesis using assms(4) [of "mc_Meta machine" cluster] log by (simp add: ownerEvents_def)
  qed (auto simp: ownerEvents_def)
  moreover from this obtain v where "km0 = km\<lparr>km_Status := (km_Status km)\<lparr>kmst_Version := v\<rparr>\<rparr>"
    using versioned by metis
  ultimately show ?thesis
    using log unfolding km' machine_reconcilePhase_eq
    by (auto simp: setMachinePhase_def intro!: exI [of _ v] exI [of _ "phaseOf km0"])
qed

definition pausedCluster :: Cluster where
  "pausedCluster = sampleCluster\<lparr>cl_Paused := True\<rparr>"

theorem machine_paused_untouched_witness:
  "\<exists>km'. EvPatchMachine readyKM km' None \<in>
       set (snd (snd (sampleRun (foundClient readyKM (sampleMachine True) pausedCluster)))) \<and>
     km_Spec km' = km_Spec readyKM"
proof -
  let ?cli = "foundClient readyKM (sampleMachine True) pausedCluster"
  have c: "cl_Paused pausedCluster" "cl_InfrastructureRef pausedCluster = Some \<lparr>ref_Name = ''kc'', ref_Rest = []\<rparr>"
    by (simp_all add: pausedCluster_def)
  then have p: "\<exists>km'. EvPatchMachine readyKM km' None \<in> set (snd (snd (sampleRun ?cli)))"
    by (simp add: runDefs)
  have "lib_IsPaused refLib cluster (km_Meta readyKM)"
    if "EvGetClusterFromMetadata m (Inr (Some cluster)) \<in> set (snd (snd (sampleRun ?cli)))" for m cluster
    using that c by (simp add: runDefs)
  then show ?thesis
    using machine_paused_untouched [OF ref.kube_contract_axioms sampleRun_is_run] p by metis
qed

text \<open>
  C19. The finalizer of a control plane machine of a cluster that is not being deleted is given up only
  when \<open>kubeadm reset\<close> has succeeded in the kind container of the machine's own Pod, when that Pod no
  longer exists (the machine is then marked as failed), or when it belongs to someone else.
\<close>

theorem machine_finalizer_kept_until_reset:
  assumes "kube_contract lib" and "machine_Reconcile lib cloud cli req (w, []) = (out, s')"
    and "EvPatchMachine km km' perr \<in> set (snd s')"
    and "KubernetesMachineFinalizer \<in> set (om_Finalizers (km_Meta km))"
    and "KubernetesMachineFinalizer \<notin> set (om_Finalizers (km_Meta km'))"
  shows "\<exists>machine cluster. EvGetOwnerMachine (km_Meta km) (Inr (Some machine)) \<in> set (snd s') \<and>
    EvGetClusterFromMetadata (mc_Meta machine) (Inr (Some cluster)) \<in> set (snd s') \<and>
    \<not> timeIsZero (om_DeletionTimestamp (km_Meta km)) \<and> \<not> lib_IsPaused lib cluster (km_Meta km) \<and>
    (timeIsZero (om_DeletionTimestamp (cl_Meta cluster)) \<and> lib_IsControlPlaneMachine lib machine \<longrightarrow>
       (\<exists>pod a. EvGetPod (machinePodKey machine km) (Inr pod) \<in> set (snd s') \<and>
          EvExec (resetRequest pod) a \<in> set (snd s') \<and> execSucceeded a) \<or>
       (\<exists>e. EvGetPod (machinePodKey machine km) (Inl e) \<in> set (snd s') \<and> IsNotFound e \<and> machineFailed km') \<or>
       (\<exists>pod. EvGetPod (machinePodKey machine km) (Inr pod) \<in> set (snd s') \<and>
          \<not> controlledBy lib (pod_Meta pod) (om_UID (km_Meta km))))"
proof -
  obtain body out0 km0 where b: "bodyRun lib cloud km body out0 km0" and km': "km' = machine_reconcilePhase km0"
    and log: "snd s' = EvGetKubernetesMachine req (Inr km) # EvNewPatchHelper None # body @ [EvPatchMachine km km' perr]"
    and out: "out = afterPatch out0 perr"
    by (rule patched_run [OF assms(1,2,3)])
  from b show ?thesis
  proof (cases rule: bodyRun.cases)
    case (body_delete cluster ref machine evs' kc)
    have "needsReset lib machine cluster \<longrightarrow>
       (\<exists>pod a. EvGetPod (machinePodKey machine km) (Inr pod) \<in> set evs' \<and>
          EvExec (resetRequest pod) a \<in> set evs' \<and> execSucceeded a) \<or>
       (\<exists>e. EvGetPod (machinePodKey machine km) (Inl e) \<in> set evs' \<and> IsNotFound e \<and> machineFailed km') \<or>
       (\<exists>pod. EvGetPod (machinePodKey machine km) (Inr pod) \<in> set evs' \<and>
          \<not> controlledBy lib (pod_Meta pod) (om_UID (km_Meta km)))"
      using body_delete(5) assms(4,5) km' by (cases rule: deleteRun.cases) auto
    then show ?thesis
      using body_delete(1-4) log unfolding needsReset_def
      by (intro exI [of _ machine] exI [of _ cluster]) (auto simp: ownerEvents_def)
  next
    case (body_normal cluster ref machine evs' kc)
    have "KubernetesMachineFinalizer \<in> set (om_Finalizers (km_Meta km0))"
      using normalRun_finalizers [OF assms(1) body_normal(6)] assms(4) by auto
    then show ?thesis using assms(5) km' by simp
  qed (use assms(4,5) km' in auto)
qed

definition deletedKM :: KubernetesMachine where
  "deletedKM = readyKM\<lparr>km_Meta := (km_Meta readyKM)\<lparr>om_Finalizers := [KubernetesMachineFinalizer],
     om_DeletionTimestamp := Some 1\<rparr>\<rparr>"

theorem machine_finalizer_kept_until_reset_witness:
  "\<exists>machine pod a. EvGetPod (machinePodKey machine deletedKM) (Inr pod) \<in>
       set (snd (snd (sampleRun (podClient deletedKM running)))) \<and>
     EvExec (resetRequest pod) a \<in> set (snd (snd (sampleRun (podClient deletedKM running)))) \<and> execSucceeded a"
proof -
  let ?cli = "podClient deletedKM running"
  have m: "om_UID (km_Meta deletedKM) = ''u2''" "om_DeletionTimestamp (km_Meta deletedKM) = Some 1"
      "om_Annotations (km_Meta deletedKM) = Map.empty" "om_Finalizers (km_Meta deletedKM) = [KubernetesMachineFinalizer]"
    by (simp_all add: deletedKM_def)
  have cp: "lib_IsControlPlaneMachine refLib (sampleMachine True)"
    by (simp add: refLib_def sampleMachine_def sampleMeta_def emptyObjectMeta_def)
  have log: "snd (snd (sampleRun ?cli)) =
     [EvGetKubernetesMachine sampleKey (Inr deletedKM), EvNewPatchHelper None] @
     ownerEvents deletedKM (sampleMachine True) sampleCluster \<lparr>ref_Name = ''kc'', ref_Rest = []\<rparr> (Inr sampleKC) @
     [EvGetPod (machinePodKey (sampleMachine True) deletedKM) (Inr (samplePod running)),
      EvExec (resetRequest (samplePod running)) (Streamed None [] []),
      EvPatchMachine deletedKM (machine_reconcilePhase (releasedMachine refLib
        (machine_reconcileVersion deletedKM (sampleMachine True)))) None]"
    using m cp
    by (simp add: runDefs machine_reconcileDelete_def kubeadmReset_def kindContainerExec_eq ownerEvents_def
        infraKey_def resetRequest_def)
  let ?km' = "machine_reconcilePhase (releasedMachine refLib (machine_reconcileVersion deletedKM (sampleMachine True)))"
  have p: "EvPatchMachine deletedKM ?km' None \<in> set (snd (snd (sampleRun ?cli)))" by (simp add: log)
  have f: "KubernetesMachineFinalizer \<in> set (om_Finalizers (km_Meta deletedKM))"
      "KubernetesMachineFinalizer \<notin> set (om_Finalizers (km_Meta ?km'))"
    using m by (simp_all add: removeMachineFinalizer_def)
  have own: "controlledBy refLib (pod_Meta (samplePod running)) (om_UID (km_Meta deletedKM))" using m by simp
  obtain machine cluster where
    ev: "EvGetOwnerMachine (km_Meta deletedKM) (Inr (Some machine)) \<in> set (snd (snd (sampleRun ?cli)))"
      "EvGetClusterFromMetadata (mc_Meta machine) (Inr (Some cluster)) \<in> set (snd (snd (sampleRun ?cli)))"
    and why: "timeIsZero (om_DeletionTimestamp (cl_Meta cluster)) \<and> lib_IsControlPlaneMachine refLib machine \<longrightarrow>
       (\<exists>pod a. EvGetPod (machinePodKey machine deletedKM) (Inr pod) \<in> set (snd (snd (sampleRun ?cli))) \<and>
          EvExec (resetRequest pod) a \<in> set (snd (snd (sampleRun ?cli))) \<and> execSucceeded a) \<or>
       (\<exists>e. EvGetPod (machinePodKey machine deletedKM) (Inl e) \<in> set (snd (snd (sampleRun ?cli))) \<and>
          IsNotFound e \<and> machineFailed ?km') \<or>
       (\<exists>pod. EvGetPod (machinePodKey machine deletedKM) (Inr pod) \<in> set (snd (snd (sampleRun ?cli))) \<and>
          \<not> controlledBy refLib (pod_Meta pod) (om_UID (km_Meta deletedKM)))"
    using machine_finalizer_kept_until_reset [OF ref.kube_contract_axioms sampleRun_is_run p f] by blast
  have "machine = sampleMachine True" "cluster = sampleCluster" using ev by (simp_all add: log ownerEvents_def)
  then have "timeIsZero (om_DeletionTimestamp (cl_Meta cluster)) \<and> lib_IsControlPlaneMachine refLib machine"
    using cp by (simp add: timeIsZero_def)
  then show ?thesis using why own by (auto simp: log ownerEvents_def)
qed

text \<open>
  A Cluster without an infrastructure reference makes \<open>Reconcile\<close> panic: it reads the name through
  the reference before any check. The deferred patch still goes out before the panic leaves the
  function.
\<close>

theorem machine_nil_infrastructure_reference_panics:
  assumes "cli_GetKubernetesMachine cli req w = (Inr km, w1)" and "cli_NewPatchHelper cli w1 = (None, w2)"
    and "cli_GetOwnerMachine cli (km_Meta km) w2 = (Inr (Some machine), w3)"
    and "cli_GetClusterFromMetadata cli (mc_Meta machine) w3 = (Inr (Some cluster), w4)"
    and "cl_InfrastructureRef cluster = None"
  shows "\<exists>perr w5. machine_Reconcile lib cloud cli req (w, log) =
    (Panicked ''nil pointer dereference'',
     w5, log @ [EvGetKubernetesMachine req (Inr km), EvNewPatchHelper None,
       EvGetOwnerMachine (km_Meta km) (Inr (Some machine)),
       EvGetClusterFromMetadata (mc_Meta machine) (Inr (Some cluster)),
       EvPatchMachine km (machine_reconcilePhase (machine_reconcileVersion km machine)) perr])"
  using assms
  by (cases "cli_PatchMachine cli km (machine_reconcilePhase (machine_reconcileVersion km machine)) w4")
    (simp add: machine_Reconcile_def machineBody_def machineDeferred_def perform_def Let_def)

theorem machine_nil_infrastructure_reference_panics_witness:
  "\<exists>s'. sampleRun (foundClient readyKM (sampleMachine True) (sampleCluster\<lparr>cl_InfrastructureRef := None\<rparr>)) =
     (Panicked ''nil pointer dereference'', s')"
  using machine_nil_infrastructure_reference_panics [of
      "foundClient readyKM (sampleMachine True) (sampleCluster\<lparr>cl_InfrastructureRef := None\<rparr>)" sampleKey "()" readyKM
      "()" "()" "sampleMachine True" "()" "sampleCluster\<lparr>cl_InfrastructureRef := None\<rparr>" "()" refLib "sampleCloud []" "[]"]
  by (simp add: sampleRun_def) blast

subsection \<open>Delays\<close>

lemma contRun_delay:
  "contRun cluster pod km evs (Returned (res, err)) km' \<Longrightarrow> res = noRequeue \<or> res = requeueSeconds 5 \<and> err \<noteq> None"
  by (cases rule: contRun.cases) (auto elim!: bootRun.cases)

lemma podRun_delay:
  assumes "podRun lib cloud cluster machine pod km evs (Returned (res, err)) km'"
  shows "res = noRequeue \<or> res = requeueSeconds 5 \<and> err \<noteq> None"
proof -
  have sec: "res = noRequeue \<or> res = requeueSeconds 5 \<and> err \<noteq> None"
    if "secRun lib cloud cluster machine pod km es (Returned (res, err)) km''" for es km''
    using that by (cases rule: secRun.cases) (auto dest: contRun_delay)
  show ?thesis using assms by (cases rule: podRun.cases) (auto dest: sec)
qed

lemma bodyRun_delay:
  assumes "bodyRun lib cloud km evs (Returned (res, err)) km'"
  shows "res = noRequeue \<or> res = requeueSeconds 5 \<and> err \<noteq> None"
  using assms
proof (cases rule: bodyRun.cases)
  case (body_normal cluster ref machine evs' kc)
  from body_normal(6) show ?thesis
    by (cases rule: normalRun.cases) (auto dest: podRun_delay elim!: missingRun.cases)
qed (auto elim!: deleteRun.cases)

text \<open>
  The only delay \<open>Reconcile\<close> asks for is five seconds, and whenever it asks for it, it returns an
  error as well.
\<close>

theorem machine_requeue_only_with_error:
  assumes "kube_contract lib" and "machine_Reconcile lib cloud cli req (w, []) = (Returned (res, err), s')"
  shows "res = noRequeue \<or> res_RequeueAfter res = 5 * 10 ^ 9 \<and> err \<noteq> None"
  using Reconcile_reconcileRun [OF assms]
proof (cases rule: reconcileRun.cases)
  case (rec_body km evs out km' perr)
  obtain err0 where "out = Returned (res, err0)" "err = (if err0 = None then perr else err0)"
    using rec_body(2) by (cases out rule: afterPatch_cases) auto
  then show ?thesis using bodyRun_delay [of lib cloud km evs res err0 km'] rec_body(3)
    by (auto simp: requeueSeconds_def)
qed auto

definition execFailingClient :: "unit kube_client" where
  "execFailingClient = (podClient readyKM running)\<lparr>
     cli_Exec := (\<lambda>er w. (Streamed (Some (GoError ''exit code 1'')) [] [], w))\<rparr>"

lemma failing_sample_run:
  "\<exists>err s'. sampleRun execFailingClient = (Returned (requeueSeconds 5, Some err), s')"
proof -
  let ?km = "withFinalizers refLib (machine_reconcileVersion readyKM (sampleMachine True))"
  have uid: "om_UID (km_Meta ?km) = ''u2''" by (simp add: withFinalizers_uid [OF ref.kube_contract_axioms])
  obtain secret where "scriptSecret refLib (sampleCloud []) sampleCluster (sampleMachine True) ?km sampleDoc =
      Returned (Inr secret)" "controlledBy refLib (sec_Meta secret) ''u2''"
    using sample_secret [OF uid] by blast
  then show ?thesis
    using uid
    by (simp add: runDefs podStep_def refLib_no_claim_error secretStep_def getBootstrapData_def
        scriptSecret_def [symmetric] containerStep_def running_def bootstrapStep_def
        enableBoostrapProcess_def kindContainerExec_eq execFailingClient_def)
qed

theorem machine_requeue_only_with_error_witness:
  "\<exists>err s'. sampleRun execFailingClient = (Returned (requeueSeconds 5, err), s') \<and> err \<noteq> None"
proof -
  obtain err s' where r: "sampleRun execFailingClient = (Returned (requeueSeconds 5, Some err), s')"
    using failing_sample_run by blast
  have run: "machine_Reconcile refLib (sampleCloud []) execFailingClient sampleKey ((), []) =
      (Returned (requeueSeconds 5, Some err), s')"
    using r by (simp add: sampleRun_def)
  have "requeueSeconds 5 \<noteq> noRequeue" by (simp add: requeueSeconds_def noRequeue_def)
  then have "Some err \<noteq> None"
    using machine_requeue_only_with_error [OF ref.kube_contract_axioms run] by blast
  then show ?thesis using r by blast
qed

subsection \<open>The bootstrap Secret\<close>

lemma contRun_no_secret: "contRun cluster pod km evs out km' \<Longrightarrow> EvCreateSecret x r \<notin> set evs"
  by (cases rule: contRun.cases) (auto elim!: bootRun.cases nodeRun.cases)

lemma dataRun_no_secret: "dataRun machine evs v \<Longrightarrow> EvCreateSecret x r \<notin> set evs"
  by (auto elim!: dataRun.cases)

lemma claimRun_no_secret: "claimRun lib km evs err \<Longrightarrow> EvCreateSecret x r \<notin> set evs"
  by (auto simp: claimRun_def split: sum.splits)

lemma contRun_failure:
  "contRun cluster pod km evs out km' \<Longrightarrow>
     kmst_FailureMessage (km_Status km') = kmst_FailureMessage (km_Status km) \<or>
     (\<exists>reason. kmst_FailureMessage (km_Status km') = Some (''kind container has terminated: '' @ reason))"
  by (cases rule: contRun.cases) (auto elim!: bootRun.cases)

text \<open>What a run that asks for the Secret has seen, and what it leaves when the Secret is there.\<close>

lemma dataRun_value:
  "dataRun machine evs (Some doc) \<Longrightarrow> \<exists>n sec. mc_DataSecretName machine = Some n \<and>
     EvGetSecret (dataSecretKey machine n) (Inr sec) \<in> set evs \<and> sec_Data sec ''value'' = Some doc"
  by (cases rule: dataRun.cases) auto

lemma secRun_secret:
  assumes "secRun lib cloud cluster machine pod km evs out km'" and "EvCreateSecret x r \<in> set evs"
  obtains evs' doc where "dataRun machine evs' (Some doc)" "set evs' \<subseteq> set evs"
    "scriptSecret lib cloud cluster machine km doc = Returned (Inr x)"
  using assms by (cases rule: secRun.cases) (auto dest: contRun_no_secret dataRun_no_secret)

lemma secRun_existing:
  assumes "secRun lib cloud cluster machine pod km evs out km'" and "EvCreateSecret x (Inl e) \<in> set evs"
    and "IsAlreadyExists e" and "controlledBy lib (sec_Meta x) (om_UID (km_Meta km))"
  shows "kmst_FailureMessage (km_Status km') = kmst_FailureMessage (km_Status km) \<or>
    (\<exists>reason. kmst_FailureMessage (km_Status km') = Some (''kind container has terminated: '' @ reason))"
  using assms(1)
proof (cases rule: secRun.cases)
  case (sec_foreign evs doc secret r)
  then show ?thesis using assms(2-4) by (auto dest: dataRun_no_secret)
next
  case (sec_ok evs doc secret r evs')
  then show ?thesis using contRun_failure [OF sec_ok(6)] by simp
qed auto

text \<open>The machine that an object is built for is the one that was fetched, up to its finalizers.\<close>

definition sameMachine :: "KubernetesMachine \<Rightarrow> KubernetesMachine \<Rightarrow> bool" where
  "sameMachine km km1 \<longleftrightarrow> (\<exists>fs. km_Meta km1 = (km_Meta km)\<lparr>om_Finalizers := fs\<rparr>)"

lemma sameMachine_prepared:
  "kube_contract lib \<Longrightarrow> sameMachine km (withFinalizers lib (machine_reconcileVersion km machine))"
  using withFinalizers_meta [of lib "machine_reconcileVersion km machine"] by (auto simp: sameMachine_def)

lemma sameMachine_owner:
  assumes "sameMachine km km1"
  shows "ownerOf kind (km_Meta km1) = ownerOf kind (km_Meta km)"
    and "om_Namespace (km_Meta km1) = om_Namespace (km_Meta km)"
  using assms by (auto simp: sameMachine_def ownerOf_def)

lemma bodyRun_secret:
  assumes "kube_contract lib" and "bodyRun lib cloud km body out km0" and "EvCreateSecret x r \<in> set body"
  obtains machine cluster pod km1 evs evs1 where
    "secRun lib cloud cluster machine pod km1 evs out km0" "EvCreateSecret x r \<in> set evs" "set evs \<subseteq> set body"
    "EvGetOwnerMachine (km_Meta km) (Inr (Some machine)) \<in> set body" "om_UID (km_Meta km1) = om_UID (km_Meta km)"
    "cloudInitSecretName km1 = cloudInitSecretName km" "\<not> machineFailed km1" "sameMachine km km1"
  using assms(2)
proof (cases rule: bodyRun.cases)
  case (body_normal cluster ref machine evs' kc)
  have mem: "EvCreateSecret x r \<in> set evs'" using assms(3) body_normal(1) by (simp add: ownerEvents_def)
  from body_normal(6) show thesis
  proof (cases rule: normalRun.cases)
    case (normal_found pod evs'')
    let ?km = "withFinalizers lib (machine_reconcileVersion km machine)"
    have "EvCreateSecret x r \<in> set evs''" using mem normal_found(1) by simp
    with normal_found(4) obtain es where es: "secRun lib cloud cluster machine pod ?km es out km0"
        "EvCreateSecret x r \<in> set es" "set es \<subseteq> set evs''"
      by (cases rule: podRun.cases) (auto dest: claimRun_no_secret)
    have "cloudInitSecretName ?km = cloudInitSecretName km"
      using withFinalizers_meta [OF assms(1), of "machine_reconcileVersion km machine"]
      by (auto simp: cloudInitSecretName_def machinePodName_def)
    then show thesis
      using that [OF es(1,2)] es(3) normal_found(1,2) body_normal(1) assms(1) sameMachine_prepared [OF assms(1)]
      by (auto simp: ownerEvents_def withFinalizers_uid)
  qed (use mem in \<open>auto elim!: missingRun.cases\<close>)
qed (use assms(3) in \<open>auto simp: ownerEvents_def elim!: deleteRun.cases\<close>)

text \<open>
  C28. The Secret the controller asks the API server to create carries the name the Pod's volumes refer
  to, is controlled by the machine, and holds, under the five keys, the fixed unit files and scripts
  and the script generated from exactly the document that the owner Machine's bootstrap data Secret
  holds under \<open>value\<close>: encoding and decoding it on the way loses nothing.
\<close>

theorem machine_secret_holds_generated_script:
  assumes "kube_contract lib" and "machine_Reconcile lib cloud cli req (w, []) = (out, s')"
    and "EvCreateSecret secret r \<in> set (snd s')"
  shows "\<exists>km machine n sec doc script. EvGetKubernetesMachine req (Inr km) \<in> set (snd s') \<and>
    EvGetOwnerMachine (km_Meta km) (Inr (Some machine)) \<in> set (snd s') \<and> mc_DataSecretName machine = Some n \<and>
    EvGetSecret (dataSecretKey machine n) (Inr sec) \<in> set (snd s') \<and> sec_Data sec ''value'' = Some doc \<and>
    GenerateScript cloud doc = Returned (Inr script) \<and> sec_StringData secret = cloudInitSecretData script \<and>
    om_Name (sec_Meta secret) = cloudInitSecretName km \<and>
    om_Namespace (sec_Meta secret) = om_Namespace (mc_Meta machine) \<and>
    controlledBy lib (sec_Meta secret) (om_UID (km_Meta km))"
proof -
  obtain km body out0 km0 perr where b: "bodyRun lib cloud km body out0 km0" and mem: "EvCreateSecret secret r \<in> set body"
    and log: "snd s' = EvGetKubernetesMachine req (Inr km) # EvNewPatchHelper None # body @
       [EvPatchMachine km (machine_reconcilePhase km0) perr]"
    using inner_events [OF Reconcile_reconcileRun [OF assms(1,2)] assms(3)] by auto
  obtain machine cluster pod km1 evs where run: "secRun lib cloud cluster machine pod km1 evs out0 km0"
      "EvCreateSecret secret r \<in> set evs" "set evs \<subseteq> set body"
    and owner: "EvGetOwnerMachine (km_Meta km) (Inr (Some machine)) \<in> set body"
    and same: "om_UID (km_Meta km1) = om_UID (km_Meta km)" "cloudInitSecretName km1 = cloudInitSecretName km"
    by (rule bodyRun_secret [OF assms(1) b mem]) blast
  obtain evs' doc where data: "dataRun machine evs' (Some doc)" "set evs' \<subseteq> set evs"
    and built: "scriptSecret lib cloud cluster machine km1 doc = Returned (Inr secret)"
    by (rule secRun_secret [OF run(1,2)])
  obtain n sec where d: "mc_DataSecretName machine = Some n" "EvGetSecret (dataSecretKey machine n) (Inr sec) \<in> set evs'"
      "sec_Data sec ''value'' = Some doc"
    using dataRun_value [OF data(1)] by blast
  obtain script where script: "GenerateScript cloud doc = Returned (Inr script)"
      "sec_StringData secret = cloudInitSecretData script" "om_Name (sec_Meta secret) = cloudInitSecretName km1"
      "om_Namespace (sec_Meta secret) = om_Namespace (mc_Meta machine)"
      "controlledBy lib (sec_Meta secret) (om_UID (km_Meta km1))"
    by (rule scriptSecret_ok [OF assms(1) built])
  have "EvGetSecret (dataSecretKey machine n) (Inr sec) \<in> set body" using d(2) data(2) run(3) by blast
  then show ?thesis
    using script d(1,3) owner same log
    by (intro exI [of _ km] exI [of _ machine] exI [of _ n] exI [of _ sec] exI [of _ doc] exI [of _ script]) simp
qed

lemma secret_sample_run:
  "\<exists>secret r. EvCreateSecret secret r \<in> set (snd (snd (sampleRun (podClient readyKM running))))"
proof -
  let ?km = "withFinalizers refLib (machine_reconcileVersion readyKM (sampleMachine True))"
  have uid: "om_UID (km_Meta ?km) = ''u2''" by (simp add: withFinalizers_uid [OF ref.kube_contract_axioms])
  obtain secret where "scriptSecret refLib (sampleCloud []) sampleCluster (sampleMachine True) ?km sampleDoc =
      Returned (Inr secret)" "controlledBy refLib (sec_Meta secret) ''u2''"
    using sample_secret [OF uid] by blast
  then show ?thesis
    using uid
    by (simp add: runDefs podStep_def refLib_no_claim_error secretStep_def getBootstrapData_def
        scriptSecret_def [symmetric] containerStep_def running_def bootstrapStep_def
        enableBoostrapProcess_def kindContainerExec_eq setNodeProviderID_def getProviderIDFromPod_Some)
qed

theorem machine_secret_holds_generated_script_witness:
  "\<exists>secret r doc script. EvCreateSecret secret r \<in> set (snd (snd (sampleRun (podClient readyKM running)))) \<and>
     GenerateScript (sampleCloud []) doc = Returned (Inr script) \<and>
     sec_StringData secret = cloudInitSecretData script"
proof -
  obtain secret r where e: "EvCreateSecret secret r \<in> set (snd (snd (sampleRun (podClient readyKM running))))"
    using secret_sample_run by blast
  show ?thesis
    using machine_secret_holds_generated_script [OF ref.kube_contract_axioms sampleRun_is_run e] e by blast
qed

text \<open>
  When the bootstrap Secret already exists, the check that it is controlled by the machine cannot
  fail: it looks at the object the controller built and not at the one on the server, so that a
  Secret of another owner with the same name is never reported.
\<close>

theorem machine_existing_secret_never_reported:
  assumes "kube_contract lib" and "machine_Reconcile lib cloud cli req (w, []) = (out, s')"
    and "EvCreateSecret secret (Inl e) \<in> set (snd s')" and "IsAlreadyExists e"
    and "EvPatchMachine km km' perr \<in> set (snd s')"
  shows "kmst_FailureMessage (km_Status km') \<noteq> Some ''bootstrap Secret is not controlled by KubernetesMachine''"
proof -
  obtain body out0 km0 where b: "bodyRun lib cloud km body out0 km0" and km': "km' = machine_reconcilePhase km0"
    and log: "snd s' = EvGetKubernetesMachine req (Inr km) # EvNewPatchHelper None # body @ [EvPatchMachine km km' perr]"
    and out: "out = afterPatch out0 perr"
    by (rule patched_run [OF assms(1,2,5)])
  have mem: "EvCreateSecret secret (Inl e) \<in> set body" using assms(3) log by simp
  obtain machine cluster pod km1 evs where run: "secRun lib cloud cluster machine pod km1 evs out0 km0"
      "EvCreateSecret secret (Inl e) \<in> set evs" and fresh: "\<not> machineFailed km1"
    by (rule bodyRun_secret [OF assms(1) b mem]) blast
  obtain evs' doc where "scriptSecret lib cloud cluster machine km1 doc = Returned (Inr secret)"
    by (rule secRun_secret [OF run]) blast
  then have own: "controlledBy lib (sec_Meta secret) (om_UID (km_Meta km1))"
    using scriptSecret_ok [OF assms(1)] by metis
  show ?thesis
    using secRun_existing [OF run assms(4) own] fresh km' by (auto simp: machineFailed_def)
qed

definition secretExistsClient :: "unit kube_client" where
  "secretExistsClient = (podClient readyKM running)\<lparr>
     cli_CreateSecret := (\<lambda>x w. (Inl (StatusAlreadyExists (om_Name (sec_Meta x))), w))\<rparr>"

theorem machine_existing_secret_never_reported_witness:
  "\<exists>km'. EvPatchMachine readyKM km' None \<in> set (snd (snd (sampleRun secretExistsClient))) \<and>
     kmst_FailureMessage (km_Status km') \<noteq> Some ''bootstrap Secret is not controlled by KubernetesMachine''"
proof -
  let ?km = "withFinalizers refLib (machine_reconcileVersion readyKM (sampleMachine True))"
  have uid: "om_UID (km_Meta ?km) = ''u2''" by (simp add: withFinalizers_uid [OF ref.kube_contract_axioms])
  obtain secret where "scriptSecret refLib (sampleCloud []) sampleCluster (sampleMachine True) ?km sampleDoc =
      Returned (Inr secret)" "controlledBy refLib (sec_Meta secret) ''u2''"
    using sample_secret [OF uid] by blast
  then have "\<exists>km' secret e. EvPatchMachine readyKM km' None \<in> set (snd (snd (sampleRun secretExistsClient))) \<and>
      EvCreateSecret secret (Inl e) \<in> set (snd (snd (sampleRun secretExistsClient))) \<and> IsAlreadyExists e"
    using uid
    by (simp add: runDefs podStep_def refLib_no_claim_error secretStep_def getBootstrapData_def
        scriptSecret_def [symmetric] containerStep_def running_def bootstrapStep_def
        enableBoostrapProcess_def kindContainerExec_eq setNodeProviderID_def getProviderIDFromPod_Some
        secretExistsClient_def)
  then show ?thesis
    using machine_existing_secret_never_reported [OF ref.kube_contract_axioms sampleRun_is_run] by metis
qed

end
