(* ===== verification/Cluster_Reconcile.thy ===== *)
theory Cluster_Reconcile
  imports Kube_Client Go_Strings Machine_Pod
begin

text \<open>
  The cluster controller of \<open>src/controllers/kubernetescluster_controller.go\<close>: it creates the Service
  in front of the control plane, records its address in the KubernetesCluster and marks it ready. A
  handler takes the KubernetesCluster and returns it with the changes the code makes through its
  pointer. \<open>reconcileNormal\<close> is one Go function; \<open>serviceHost\<close>, \<open>servicePortOf\<close>, \<open>endpointStep\<close> and
  \<open>serviceStep\<close> are its parts.
\<close>

definition loadBalancerIngressRequeueAfter :: nat where
  "loadBalancerIngressRequeueAfter = 1000000000 * 1"

definition defaultClusterLoadBalancerPort :: int32 where
  "defaultClusterLoadBalancerPort = 443"

definition clusterServiceName :: "Cluster \<Rightarrow> string" where
  "clusterServiceName cluster = om_Name (cl_Meta cluster) @ ''-api-server''"

subsection \<open>Setting fields\<close>

definition setClusterFailure :: "string \<Rightarrow> KubernetesCluster \<Rightarrow> KubernetesCluster" where
  "setClusterFailure msg kc =
     kc\<lparr>kc_Status := cluster_SetFailureMessage msg
          (cluster_SetFailureReason UnsupportedChange (kc_Status kc))\<rparr>"

definition setClusterReady :: "KubernetesCluster \<Rightarrow> KubernetesCluster" where
  "setClusterReady kc = kc\<lparr>kc_Status := (kc_Status kc)\<lparr>kcst_Ready := True\<rparr>\<rparr>"

definition setClusterEndpoint :: "string \<Rightarrow> int32 \<Rightarrow> KubernetesCluster \<Rightarrow> KubernetesCluster" where
  "setClusterEndpoint host port kc =
     kc\<lparr>kc_Spec := (kc_Spec kc)\<lparr>kcs_ControlPlaneEndpoint := \<lparr>ep_Host = host, ep_Port = port\<rparr>\<rparr>\<rparr>"

definition addClusterFinalizer :: "kube_lib \<Rightarrow> string \<Rightarrow> KubernetesCluster \<Rightarrow> KubernetesCluster" where
  "addClusterFinalizer lib f kc = kc\<lparr>kc_Meta := lib_AddFinalizer lib (kc_Meta kc) f\<rparr>"

subsection \<open>The Service\<close>

definition clusterSelector :: "Cluster \<Rightarrow> string \<rightharpoonup> string" where
  "clusterSelector cluster =
     [ClusterLabelName \<mapsto> om_Name (cl_Meta cluster), MachineControlPlaneLabelName \<mapsto> []]"

definition desiredService :: "Cluster \<Rightarrow> KubernetesCluster \<Rightarrow> Service" where
  "desiredService cluster kc =
     (let spec = kc_Spec kc; endpoint = kcs_ControlPlaneEndpoint spec;
          desiredClusterIP =
            (if kcs_ControlPlaneServiceType spec = ServiceTypeClusterIP then ep_Host endpoint else []);
          desiredLoadBalancerIP =
            (if kcs_ControlPlaneServiceType spec = ServiceTypeLoadBalancer then ep_Host endpoint else []);
          desiredPort = (if ep_Port endpoint \<noteq> 0 then ep_Port endpoint else defaultClusterLoadBalancerPort)
      in \<lparr>svc_Meta = emptyObjectMeta\<lparr>
            om_Name := clusterServiceName cluster,
            om_Namespace := om_Namespace (cl_Meta cluster),
            om_Labels := Some [ClusterLabelName \<mapsto> om_Name (cl_Meta cluster)]\<rparr>,
          svc_Type = kcs_ControlPlaneServiceType spec,
          svc_Selector = clusterSelector cluster,
          svc_Ports = [\<lparr>sp_Name = ''https'', sp_Protocol = ''TCP'', sp_Port = desiredPort,
            sp_TargetPort = StrVal apiServerPortName\<rparr>],
          svc_ClusterIP = desiredClusterIP,
          svc_LoadBalancerIP = desiredLoadBalancerIP,
          svc_Ingress = []\<rparr>)"

definition createClusterService ::
  "kube_lib \<Rightarrow> 'w kube_client \<Rightarrow> Cluster \<Rightarrow> KubernetesCluster \<Rightarrow> 'w st \<Rightarrow> ReconcileReturn \<times> 'w st" where
  "createClusterService lib cli cluster kc s =
     (let clusterService = desiredService cluster kc
      in case lib_SetControllerReference lib KubernetesClusterKind (kc_Meta kc) (svc_Meta clusterService) of
           Inl err \<Rightarrow> ((noRequeue, Some err), s)
         | Inr meta \<Rightarrow>
             let svc = clusterService\<lparr>svc_Meta := meta\<rparr>
             in case perform (EvCreateService svc) (cli_CreateService cli svc) s of
                  (err, s1) \<Rightarrow> ((noRequeue, err), s1))"

subsection \<open>Reconciling a cluster\<close>

text \<open>The host of the Service, if it has one by now.\<close>

definition serviceHost :: "Service \<Rightarrow> string option" where
  "serviceHost svc =
     (if svc_Type svc = ServiceTypeLoadBalancer then
        (case svc_Ingress svc of
           [] \<Rightarrow> None
         | ingress # _ \<Rightarrow>
             let loadBalancerHost = in_Hostname ingress;
                 loadBalancerHost' = (if loadBalancerHost = [] then in_IP ingress else loadBalancerHost)
             in if loadBalancerHost' = [] then None else Some loadBalancerHost')
      else Some (svc_ClusterIP svc))"

fun IntOrString_String :: "IntOrString \<Rightarrow> string" where
  "IntOrString_String (StrVal v) = v"
| "IntOrString_String (IntVal i) = Itoa (sint i)"

fun servicePortLoop :: "ServicePort list \<Rightarrow> int32 \<Rightarrow> int32" where
  "servicePortLoop [] port = port"
| "servicePortLoop (sp # sps) port =
     servicePortLoop sps
       (if IntOrString_String (sp_TargetPort sp) = apiServerPortName then sp_Port sp else port)"

definition servicePortOf :: "Service \<Rightarrow> int32" where
  "servicePortOf svc = servicePortLoop (svc_Ports svc) 0"

definition endpointStep :: "string \<Rightarrow> int32 \<Rightarrow> KubernetesCluster \<Rightarrow> KubernetesCluster" where
  "endpointStep host port kc =
     (let kc1 = (if APIEndpoint_IsZero (kcs_ControlPlaneEndpoint (kc_Spec kc))
                 then setClusterEndpoint host port kc else kc);
          endpoint = kcs_ControlPlaneEndpoint (kc_Spec kc1)
      in if ep_Host endpoint \<noteq> host \<or> ep_Port endpoint \<noteq> port
         then setClusterFailure ''Service endpoint has changed'' kc1
         else setClusterReady kc1)"

definition serviceStep :: "kube_lib \<Rightarrow> Service \<Rightarrow> KubernetesCluster \<Rightarrow> ReconcileReturn \<times> KubernetesCluster" where
  "serviceStep lib clusterService kc =
     (if \<not> controlledBy lib (svc_Meta clusterService) (om_UID (kc_Meta kc)) then
        let msg = ''expected Service '' @ om_Name (svc_Meta clusterService) @
                    '' to be controlled by KubernetesCluster''
        in ((noRequeue, Some (GoError msg)), setClusterFailure msg kc)
      else case serviceHost clusterService of
        None \<Rightarrow> ((\<lparr>res_RequeueAfter = loadBalancerIngressRequeueAfter\<rparr>, None), kc)
      | Some host \<Rightarrow> ((noRequeue, None), endpointStep host (servicePortOf clusterService) kc))"

definition cluster_reconcileNormal ::
  "kube_lib \<Rightarrow> 'w kube_client \<Rightarrow> Cluster \<Rightarrow> KubernetesCluster \<Rightarrow> 'w st \<Rightarrow>
   ReconcileReturn \<times> KubernetesCluster \<times> 'w st" where
  "cluster_reconcileNormal lib cli cluster kc s =
     (let kc1 = addClusterFinalizer lib KubernetesClusterFinalizer kc;
          kc2 = addClusterFinalizer lib FinalizerDeleteDependents kc1;
          key = \<lparr>nn_Namespace = om_Namespace (kc_Meta kc2), nn_Name = clusterServiceName cluster\<rparr>
      in case perform (EvGetService key) (cli_GetService cli key) s of
           (Inl err, s1) \<Rightarrow>
             if IsNotFound err then
               (case createClusterService lib cli cluster kc2 s1 of (ret, s2) \<Rightarrow> (ret, kc2, s2))
             else ((noRequeue, Some err), kc2, s1)
         | (Inr clusterService, s1) \<Rightarrow>
             (case serviceStep lib clusterService kc2 of (ret, kc3) \<Rightarrow> (ret, kc3, s1)))"

definition cluster_reconcileDelete :: "kube_lib \<Rightarrow> KubernetesCluster \<Rightarrow> ReconcileReturn \<times> KubernetesCluster" where
  "cluster_reconcileDelete lib kc =
     ((noRequeue, None), kc\<lparr>kc_Meta := lib_RemoveFinalizer lib (kc_Meta kc) KubernetesClusterFinalizer\<rparr>)"

definition setClusterPhase :: "string \<Rightarrow> KubernetesCluster \<Rightarrow> KubernetesCluster" where
  "setClusterPhase p k = k\<lparr>kc_Status := (kc_Status k)\<lparr>kcst_Phase := p\<rparr>\<rparr>"

definition cluster_reconcilePhase :: "KubernetesCluster \<Rightarrow> KubernetesCluster" where
  "cluster_reconcilePhase k =
     (let k1 = (if kcst_Phase (kc_Status k) = [] then setClusterPhase KubernetesClusterPhaseProvisioning k else k);
          k2 = (if kcst_Ready (kc_Status k1) then setClusterPhase KubernetesClusterPhaseProvisioned k1 else k1);
          k3 = (if kcst_FailureReason (kc_Status k2) \<noteq> None \<or> kcst_FailureMessage (kc_Status k2) \<noteq> None
                then setClusterPhase KubernetesClusterPhaseFailed k2 else k2)
      in if \<not> timeIsZero (om_DeletionTimestamp (kc_Meta k3))
         then setClusterPhase KubernetesClusterPhaseDeleting k3 else k3)"

subsection \<open>Reconcile\<close>

definition defaultServiceType :: "KubernetesCluster \<Rightarrow> KubernetesCluster" where
  "defaultServiceType kc =
     (if kcs_ControlPlaneServiceType (kc_Spec kc) = []
      then kc\<lparr>kc_Spec := (kc_Spec kc)\<lparr>kcs_ControlPlaneServiceType := ServiceTypeClusterIP\<rparr>\<rparr> else kc)"

text \<open>What runs between the creation of the patch helper and the deferred function.\<close>

definition clusterBody ::
  "kube_lib \<Rightarrow> 'w kube_client \<Rightarrow> KubernetesCluster \<Rightarrow> 'w st \<Rightarrow> ReconcileReturn \<times> KubernetesCluster \<times> 'w st" where
  "clusterBody lib cli kc s =
     (case perform (EvGetOwnerCluster (kc_Meta kc)) (cli_GetOwnerCluster cli (kc_Meta kc)) s of
        (Inl err, s1) \<Rightarrow> ((noRequeue, Some err), kc, s1)
      | (Inr None, s1) \<Rightarrow> ((noRequeue, None), kc, s1)
      | (Inr (Some cluster), s1) \<Rightarrow>
          if lib_IsPaused lib cluster (kc_Meta kc) then ((noRequeue, None), kc, s1)
          else
            let kc1 = defaultServiceType kc
            in if \<not> timeIsZero (om_DeletionTimestamp (kc_Meta kc1))
               then (case cluster_reconcileDelete lib kc1 of (ret, kc2) \<Rightarrow> (ret, kc2, s1))
               else cluster_reconcileNormal lib cli cluster kc1 s1)"

definition clusterDeferred ::
  "'w kube_client \<Rightarrow> KubernetesCluster \<Rightarrow> ReconcileReturn \<times> KubernetesCluster \<times> 'w st \<Rightarrow> ReconcileReturn \<times> 'w st" where
  "clusterDeferred cli before run =
     (case run of ((res, rerr), kc, s) \<Rightarrow>
        let kc' = cluster_reconcilePhase kc
        in case perform (EvPatchCluster before kc') (cli_PatchCluster cli before kc') s of
             (err, s1) \<Rightarrow> ((res, if rerr = None then err else rerr), s1))"

definition cluster_Reconcile ::
  "kube_lib \<Rightarrow> 'w kube_client \<Rightarrow> NamespacedName \<Rightarrow> 'w st \<Rightarrow> ReconcileReturn \<times> 'w st" where
  "cluster_Reconcile lib cli req s =
     (case perform (EvGetKubernetesCluster req) (cli_GetKubernetesCluster cli req) s of
        (Inl err, s1) \<Rightarrow>
          (if IsNotFound err then ((noRequeue, None), s1) else ((noRequeue, Some err), s1))
      | (Inr kc, s1) \<Rightarrow>
          (case perform EvNewPatchHelper (cli_NewPatchHelper cli) s1 of
             (Some err, s2) \<Rightarrow> ((noRequeue, Some err), s2)
           | (None, s2) \<Rightarrow> clusterDeferred cli kc (clusterBody lib cli kc s2)))"

end
