(* ===== verification/Cluster_Correct.thy ===== *)
theory Cluster_Correct
  imports Cluster_Reconcile Machine_Pod_Correct
begin

text \<open>
  The runs of the cluster controller as an inductive relation that covers \<open>Reconcile\<close>, and its
  properties by cases on the runs: when the Service is created and how it looks, when the endpoint
  and the readiness change, failures, the phase, and the delays.
\<close>

subsection \<open>Runs\<close>

definition withClusterFinalizers :: "kube_lib \<Rightarrow> KubernetesCluster \<Rightarrow> KubernetesCluster" where
  "withClusterFinalizers lib kc = addClusterFinalizer lib FinalizerDeleteDependents
     (addClusterFinalizer lib KubernetesClusterFinalizer kc)"

definition serviceKey :: "Cluster \<Rightarrow> KubernetesCluster \<Rightarrow> NamespacedName" where
  "serviceKey cluster kc = \<lparr>nn_Namespace = om_Namespace (kc_Meta kc), nn_Name = clusterServiceName cluster\<rparr>"

definition preparedCluster :: "kube_lib \<Rightarrow> KubernetesCluster \<Rightarrow> KubernetesCluster" where
  "preparedCluster lib kc = withClusterFinalizers lib (defaultServiceType kc)"

inductive clusterBodyRun ::
  "kube_lib \<Rightarrow> KubernetesCluster \<Rightarrow> event list \<Rightarrow> ReconcileReturn \<Rightarrow> KubernetesCluster \<Rightarrow> bool" for lib kc where
  cb_owner_failed: "clusterBodyRun lib kc [EvGetOwnerCluster (kc_Meta kc) (Inl e)] (noRequeue, Some e) kc"
| cb_no_owner: "clusterBodyRun lib kc [EvGetOwnerCluster (kc_Meta kc) (Inr None)] (noRequeue, None) kc"
| cb_paused: "lib_IsPaused lib cluster (kc_Meta kc) \<Longrightarrow>
    clusterBodyRun lib kc [EvGetOwnerCluster (kc_Meta kc) (Inr (Some cluster))] (noRequeue, None) kc"
| cb_delete: "\<not> lib_IsPaused lib cluster (kc_Meta kc) \<Longrightarrow> \<not> timeIsZero (om_DeletionTimestamp (kc_Meta kc)) \<Longrightarrow>
    clusterBodyRun lib kc [EvGetOwnerCluster (kc_Meta kc) (Inr (Some cluster))] (noRequeue, None)
      (snd (cluster_reconcileDelete lib (defaultServiceType kc)))"
| cb_get_failed: "\<not> lib_IsPaused lib cluster (kc_Meta kc) \<Longrightarrow> timeIsZero (om_DeletionTimestamp (kc_Meta kc)) \<Longrightarrow>
    \<not> IsNotFound e \<Longrightarrow>
    clusterBodyRun lib kc [EvGetOwnerCluster (kc_Meta kc) (Inr (Some cluster)),
      EvGetService (serviceKey cluster (preparedCluster lib kc)) (Inl e)] (noRequeue, Some e) (preparedCluster lib kc)"
| cb_not_built: "\<not> lib_IsPaused lib cluster (kc_Meta kc) \<Longrightarrow> timeIsZero (om_DeletionTimestamp (kc_Meta kc)) \<Longrightarrow>
    IsNotFound e \<Longrightarrow>
    lib_SetControllerReference lib KubernetesClusterKind (kc_Meta (preparedCluster lib kc))
      (svc_Meta (desiredService cluster (preparedCluster lib kc))) = Inl e' \<Longrightarrow>
    clusterBodyRun lib kc [EvGetOwnerCluster (kc_Meta kc) (Inr (Some cluster)),
      EvGetService (serviceKey cluster (preparedCluster lib kc)) (Inl e)] (noRequeue, Some e') (preparedCluster lib kc)"
| cb_created: "\<not> lib_IsPaused lib cluster (kc_Meta kc) \<Longrightarrow> timeIsZero (om_DeletionTimestamp (kc_Meta kc)) \<Longrightarrow>
    IsNotFound e \<Longrightarrow>
    lib_SetControllerReference lib KubernetesClusterKind (kc_Meta (preparedCluster lib kc))
      (svc_Meta (desiredService cluster (preparedCluster lib kc))) = Inr meta \<Longrightarrow>
    clusterBodyRun lib kc [EvGetOwnerCluster (kc_Meta kc) (Inr (Some cluster)),
      EvGetService (serviceKey cluster (preparedCluster lib kc)) (Inl e),
      EvCreateService ((desiredService cluster (preparedCluster lib kc))\<lparr>svc_Meta := meta\<rparr>) err]
      (noRequeue, err) (preparedCluster lib kc)"
| cb_found: "\<not> lib_IsPaused lib cluster (kc_Meta kc) \<Longrightarrow> timeIsZero (om_DeletionTimestamp (kc_Meta kc)) \<Longrightarrow>
    serviceStep lib svc (preparedCluster lib kc) = (ret, kc') \<Longrightarrow>
    clusterBodyRun lib kc [EvGetOwnerCluster (kc_Meta kc) (Inr (Some cluster)),
      EvGetService (serviceKey cluster (preparedCluster lib kc)) (Inr svc)] ret kc'"

lemma defaultServiceType_meta [simp]: "kc_Meta (defaultServiceType kc) = kc_Meta kc"
  by (simp add: defaultServiceType_def)

lemma normal_cluster_run:
  assumes "\<not> lib_IsPaused lib cluster (kc_Meta kc)" and "timeIsZero (om_DeletionTimestamp (kc_Meta kc))"
    and "cluster_reconcileNormal lib cli cluster (defaultServiceType kc) s1 = (ret, kc', s')"
    and "snd s1 = snd s @ [EvGetOwnerCluster (kc_Meta kc) (Inr (Some cluster))]"
  shows "\<exists>evs. snd s' = snd s @ evs \<and> clusterBodyRun lib kc evs ret kc'"
proof -
  let ?kc = "preparedCluster lib kc"
  let ?key = "serviceKey cluster ?kc"
  obtain r s2 where get: "perform (EvGetService ?key) (cli_GetService cli ?key) s1 = (r, s2)" by (metis surj_pair)
  note log = perform_log [OF get]
  have step: "cluster_reconcileNormal lib cli cluster (defaultServiceType kc) s1 =
      (case r of Inl err \<Rightarrow>
         if IsNotFound err then (case createClusterService lib cli cluster ?kc s2 of (ret, s3) \<Rightarrow> (ret, ?kc, s3))
         else ((noRequeue, Some err), ?kc, s2)
       | Inr svc \<Rightarrow> (case serviceStep lib svc ?kc of (ret, kc3) \<Rightarrow> (ret, kc3, s2)))"
    using get unfolding cluster_reconcileNormal_def Let_def preparedCluster_def withClusterFinalizers_def serviceKey_def
    by (cases r) simp_all
  show ?thesis
  proof (cases r)
    case (Inl e)
    show ?thesis
    proof (cases "IsNotFound e")
      case False
      then show ?thesis using assms step Inl log by (auto intro: cb_get_failed)
    next
      case True
      show ?thesis
      proof (cases "lib_SetControllerReference lib KubernetesClusterKind (kc_Meta ?kc)
          (svc_Meta (desiredService cluster ?kc))")
        case ref: (Inl e')
        then show ?thesis
          using assms step Inl log True cb_not_built [OF assms(1,2) True ref] by (auto simp: createClusterService_def)
      next
        case ref: (Inr meta)
        let ?svc = "(desiredService cluster ?kc)\<lparr>svc_Meta := meta\<rparr>"
        obtain err s3 where c: "perform (EvCreateService ?svc) (cli_CreateService cli ?svc) s2 = (err, s3)"
          by (metis surj_pair)
        have "ret = (noRequeue, err)" "kc' = ?kc" "s' = s3"
          using assms(3) step Inl True ref c by (simp_all add: createClusterService_def Let_def)
        then show ?thesis
          using perform_log [OF c] log assms(4) Inl cb_created [OF assms(1,2) True ref, of err] by auto
      qed
    qed
  next
    case (Inr svc)
    obtain ret0 kc0 where ss: "serviceStep lib svc ?kc = (ret0, kc0)" by (metis surj_pair)
    then have "ret = ret0" "kc' = kc0" "s' = s2" using assms(3) step Inr by simp_all
    then show ?thesis using log assms(4) Inr cb_found [OF assms(1,2) ss] by auto
  qed
qed

lemma clusterBody_run:
  assumes "clusterBody lib cli kc s = (ret, kc', s')"
  shows "\<exists>evs. snd s' = snd s @ evs \<and> clusterBodyRun lib kc evs ret kc'"
proof -
  obtain r s1 where get: "perform (EvGetOwnerCluster (kc_Meta kc)) (cli_GetOwnerCluster cli (kc_Meta kc)) s = (r, s1)"
    by (metis surj_pair)
  note log = perform_log [OF get]
  consider e where "r = Inl e" | "r = Inr None" | cluster where "r = Inr (Some cluster)"
    by (metis option.exhaust sum.exhaust)
  then show ?thesis
  proof cases
    case 1
    then show ?thesis using assms get log by (auto simp: clusterBody_def intro: cb_owner_failed)
  next
    case 2
    then show ?thesis using assms get log by (auto simp: clusterBody_def intro: cb_no_owner)
  next
    case (3 cluster)
    show ?thesis
    proof (cases "\<not> lib_IsPaused lib cluster (kc_Meta kc) \<and> timeIsZero (om_DeletionTimestamp (kc_Meta kc))")
      case True
      then have "cluster_reconcileNormal lib cli cluster (defaultServiceType kc) s1 = (ret, kc', s')"
        using assms get 3 by (simp add: clusterBody_def Let_def)
      then show ?thesis using normal_cluster_run True log 3 by metis
    next
      case False
      then show ?thesis
        using assms get log 3 cb_delete [of lib cluster kc] cb_paused [of lib cluster kc]
        by (auto simp: clusterBody_def Let_def cluster_reconcileDelete_def split: if_splits)
    qed
  qed
qed

inductive clusterRun :: "kube_lib \<Rightarrow> NamespacedName \<Rightarrow> event list \<Rightarrow> ReconcileReturn \<Rightarrow> bool" for lib req where
  cr_not_found: "IsNotFound e \<Longrightarrow> clusterRun lib req [EvGetKubernetesCluster req (Inl e)] (noRequeue, None)"
| cr_get_failed: "\<not> IsNotFound e \<Longrightarrow> clusterRun lib req [EvGetKubernetesCluster req (Inl e)] (noRequeue, Some e)"
| cr_no_helper: "clusterRun lib req [EvGetKubernetesCluster req (Inr kc), EvNewPatchHelper (Some e)] (noRequeue, Some e)"
| cr_body: "clusterBodyRun lib kc evs (res, rerr) kc' \<Longrightarrow>
    clusterRun lib req (EvGetKubernetesCluster req (Inr kc) # EvNewPatchHelper None # evs @
      [EvPatchCluster kc (cluster_reconcilePhase kc') err]) (res, if rerr = None then err else rerr)"

lemma cluster_Reconcile_run:
  assumes "cluster_Reconcile lib cli req s = (ret, s')"
  shows "\<exists>evs. snd s' = snd s @ evs \<and> clusterRun lib req evs ret"
proof -
  obtain r s1 where g1: "perform (EvGetKubernetesCluster req) (cli_GetKubernetesCluster cli req) s = (r, s1)"
    by (metis surj_pair)
  note l1 = perform_log [OF g1]
  show ?thesis
  proof (cases r)
    case (Inl e)
    then show ?thesis
      using assms g1 l1 by (auto simp: cluster_Reconcile_def intro: cr_not_found cr_get_failed split: if_splits)
  next
    case (Inr kc)
    obtain h s2 where g2: "perform EvNewPatchHelper (cli_NewPatchHelper cli) s1 = (h, s2)" by (metis surj_pair)
    note l2 = perform_log [OF g2]
    show ?thesis
    proof (cases h)
      case (Some e)
      then show ?thesis using assms g1 l1 Inr g2 l2 by (auto simp: cluster_Reconcile_def intro: cr_no_helper)
    next
      case None
      obtain res rerr kc' s3 where b: "clusterBody lib cli kc s2 = ((res, rerr), kc', s3)" by (metis surj_pair)
      obtain evs where evs: "snd s3 = snd s2 @ evs" "clusterBodyRun lib kc evs (res, rerr) kc'"
        using clusterBody_run [OF b] by blast
      obtain err s4 where g3: "perform (EvPatchCluster kc (cluster_reconcilePhase kc'))
          (cli_PatchCluster cli kc (cluster_reconcilePhase kc')) s3 = (err, s4)" by (metis surj_pair)
      note l3 = perform_log [OF g3]
      have "ret = (res, if rerr = None then err else rerr)" "s' = s4"
        using assms g1 Inr g2 None b g3 by (auto simp: cluster_Reconcile_def clusterDeferred_def Let_def)
      then show ?thesis using l1 l2 l3 Inr None evs cr_body [OF evs(2), of req err] by auto
    qed
  qed
qed

text \<open>A complete run from the empty log, seen from its patch.\<close>

lemma clusterBodyRun_no_patch: "clusterBodyRun lib kc evs ret kc' \<Longrightarrow> EvPatchCluster a b c \<notin> set evs"
  by (auto elim!: clusterBodyRun.cases)

lemma cluster_patched_run:
  assumes "cluster_Reconcile lib cli req (w, []) = (ret, s')" and "EvPatchCluster kc kc' perr \<in> set (snd s')"
  obtains body res rerr kc0 where "clusterBodyRun lib kc body (res, rerr) kc0" "kc' = cluster_reconcilePhase kc0"
    "snd s' = EvGetKubernetesCluster req (Inr kc) # EvNewPatchHelper None # body @ [EvPatchCluster kc kc' perr]"
    "ret = (res, if rerr = None then perr else rerr)"
proof -
  have "clusterRun lib req (snd s') ret" using cluster_Reconcile_run [OF assms(1)] by auto
  then show thesis
    using assms(2) that by (cases rule: clusterRun.cases) (auto dest: clusterBodyRun_no_patch)
qed

subsection \<open>The setters and the phase\<close>

lemma cluster_setters_frame [simp]:
  "kc_Meta (setClusterFailure msg kc) = kc_Meta kc" "kc_Spec (setClusterFailure msg kc) = kc_Spec kc"
  "kcst_Ready (kc_Status (setClusterFailure msg kc)) = kcst_Ready (kc_Status kc)"
  "kcst_Phase (kc_Status (setClusterFailure msg kc)) = kcst_Phase (kc_Status kc)"
  "clusterFailed (setClusterFailure msg kc)"
  "kc_Meta (setClusterReady kc) = kc_Meta kc" "kc_Spec (setClusterReady kc) = kc_Spec kc"
  "kcst_Ready (kc_Status (setClusterReady kc))" "clusterFailed (setClusterReady kc) = clusterFailed kc"
  "kc_Meta (setClusterEndpoint h p kc) = kc_Meta kc" "kc_Status (setClusterEndpoint h p kc) = kc_Status kc"
  "kcs_ControlPlaneEndpoint (kc_Spec (setClusterEndpoint h p kc)) = \<lparr>ep_Host = h, ep_Port = p\<rparr>"
  "kcs_ControlPlaneServiceType (kc_Spec (setClusterEndpoint h p kc)) = kcs_ControlPlaneServiceType (kc_Spec kc)"
  "clusterFailed (setClusterEndpoint h p kc) = clusterFailed kc"
  "kc_TypeMeta (setClusterFailure msg kc) = kc_TypeMeta kc" "kc_TypeMeta (setClusterReady kc) = kc_TypeMeta kc"
  "kc_TypeMeta (setClusterEndpoint h p kc) = kc_TypeMeta kc"
  by (simp_all add: setClusterFailure_def setClusterReady_def setClusterEndpoint_def clusterFailed_def
      cluster_SetFailureMessage_def cluster_SetFailureReason_def)

definition clusterPhaseOf :: "KubernetesCluster \<Rightarrow> string" where
  "clusterPhaseOf k =
     (if \<not> timeIsZero (om_DeletionTimestamp (kc_Meta k)) then KubernetesClusterPhaseDeleting
      else if clusterFailed k then KubernetesClusterPhaseFailed
      else if kcst_Ready (kc_Status k) then KubernetesClusterPhaseProvisioned
      else if kcst_Phase (kc_Status k) = [] then KubernetesClusterPhaseProvisioning
      else kcst_Phase (kc_Status k))"

lemma setClusterPhase_frame [simp]:
  "kc_Meta (setClusterPhase p k) = kc_Meta k" "kc_Spec (setClusterPhase p k) = kc_Spec k"
  "kc_TypeMeta (setClusterPhase p k) = kc_TypeMeta k"
  "kcst_Ready (kc_Status (setClusterPhase p k)) = kcst_Ready (kc_Status k)"
  "kcst_FailureMessage (kc_Status (setClusterPhase p k)) = kcst_FailureMessage (kc_Status k)"
  "kcst_FailureReason (kc_Status (setClusterPhase p k)) = kcst_FailureReason (kc_Status k)"
  "kcst_Phase (kc_Status (setClusterPhase p k)) = p"
  "clusterFailed (setClusterPhase p k) = clusterFailed k"
  "setClusterPhase p (setClusterPhase q k) = setClusterPhase p k"
  "setClusterPhase (kcst_Phase (kc_Status k)) k = k"
  by (simp_all add: setClusterPhase_def clusterFailed_def)

lemma cluster_reconcilePhase_eq: "cluster_reconcilePhase k = setClusterPhase (clusterPhaseOf k) k"
proof -
  have failed: "kcst_FailureReason (kc_Status x) \<noteq> None \<or> kcst_FailureMessage (kc_Status x) \<noteq> None \<longleftrightarrow> clusterFailed x"
    for x by (simp add: clusterFailed_def)
  show ?thesis
    unfolding cluster_reconcilePhase_def Let_def clusterPhaseOf_def failed
    by (cases "kcst_Phase (kc_Status k) = []"; cases "kcst_Ready (kc_Status k)";
        cases "clusterFailed k"; cases "timeIsZero (om_DeletionTimestamp (kc_Meta k))"; simp)
qed

lemma cluster_reconcilePhase_frame [simp]:
  "kc_Meta (cluster_reconcilePhase k) = kc_Meta k" "kc_Spec (cluster_reconcilePhase k) = kc_Spec k"
  "kc_TypeMeta (cluster_reconcilePhase k) = kc_TypeMeta k"
  "kcst_Ready (kc_Status (cluster_reconcilePhase k)) = kcst_Ready (kc_Status k)"
  "clusterFailed (cluster_reconcilePhase k) = clusterFailed k"
  "kcst_Phase (kc_Status (cluster_reconcilePhase k)) = clusterPhaseOf k"
  "clusterPhaseOf (cluster_reconcilePhase k) = clusterPhaseOf k"
  by (simp_all add: cluster_reconcilePhase_eq clusterPhaseOf_def)

subsection \<open>What a run prepares and leaves\<close>

lemma defaultServiceType_frame [simp]:
  "kc_Status (defaultServiceType kc) = kc_Status kc" "kc_TypeMeta (defaultServiceType kc) = kc_TypeMeta kc"
  "kcs_ControlPlaneEndpoint (kc_Spec (defaultServiceType kc)) = kcs_ControlPlaneEndpoint (kc_Spec kc)"
  "kcs_ControlPlaneServiceType (kc_Spec (defaultServiceType kc)) \<noteq> []"
  "clusterFailed (defaultServiceType kc) = clusterFailed kc"
  by (simp_all add: defaultServiceType_def clusterFailed_def)

lemma preparedCluster_frame [simp]:
  "kc_Status (preparedCluster lib kc) = kc_Status kc" "kc_TypeMeta (preparedCluster lib kc) = kc_TypeMeta kc"
  "kc_Spec (preparedCluster lib kc) = kc_Spec (defaultServiceType kc)"
  "clusterFailed (preparedCluster lib kc) = clusterFailed kc"
  by (simp_all add: preparedCluster_def withClusterFinalizers_def addClusterFinalizer_def clusterFailed_def)

lemma preparedCluster_meta:
  assumes "kube_contract lib"
  shows "\<exists>fs. kc_Meta (preparedCluster lib kc) = (kc_Meta kc)\<lparr>om_Finalizers := fs\<rparr> \<and>
    set fs = {KubernetesClusterFinalizer, FinalizerDeleteDependents} \<union> set (om_Finalizers (kc_Meta kc))"
proof -
  obtain fs where a: "lib_AddFinalizer lib (kc_Meta kc) KubernetesClusterFinalizer = (kc_Meta kc)\<lparr>om_Finalizers := fs\<rparr>"
    "set fs = insert KubernetesClusterFinalizer (set (om_Finalizers (kc_Meta kc)))"
    using kube_contract.add_finalizer [OF assms] by blast
  obtain gs where "lib_AddFinalizer lib ((kc_Meta kc)\<lparr>om_Finalizers := fs\<rparr>) FinalizerDeleteDependents =
      (kc_Meta kc)\<lparr>om_Finalizers := gs\<rparr>" "set gs = insert FinalizerDeleteDependents (set fs)"
    using kube_contract.add_finalizer [OF assms, of "(kc_Meta kc)\<lparr>om_Finalizers := fs\<rparr>" FinalizerDeleteDependents]
    by auto
  then show ?thesis using a by (auto simp: preparedCluster_def withClusterFinalizers_def addClusterFinalizer_def)
qed

lemma preparedCluster_ids:
  assumes "kube_contract lib"
  shows "om_UID (kc_Meta (preparedCluster lib kc)) = om_UID (kc_Meta kc)"
    and "om_Name (kc_Meta (preparedCluster lib kc)) = om_Name (kc_Meta kc)"
    and "serviceKey cluster (preparedCluster lib kc) = serviceKey cluster kc"
  using preparedCluster_meta [OF assms, of kc] by (auto simp: serviceKey_def)

text \<open>The last port with the right target wins; there is none exactly when no port has it.\<close>

lemma servicePortLoop_eq:
  "servicePortLoop sps p = (case find_last (\<lambda>sp. IntOrString_String (sp_TargetPort sp) = apiServerPortName) sps of
     None \<Rightarrow> p | Some sp \<Rightarrow> sp_Port sp)"
  by (induction sps p rule: servicePortLoop.induct) (auto split: option.splits)

lemma endpointStep_cases:
  obtains (set) "APIEndpoint_IsZero (kcs_ControlPlaneEndpoint (kc_Spec kc))"
      "endpointStep host port kc = setClusterReady (setClusterEndpoint host port kc)"
  | (same) "kcs_ControlPlaneEndpoint (kc_Spec kc) = \<lparr>ep_Host = host, ep_Port = port\<rparr>"
      "\<not> APIEndpoint_IsZero (kcs_ControlPlaneEndpoint (kc_Spec kc))" "endpointStep host port kc = setClusterReady kc"
  | (changed) "kcs_ControlPlaneEndpoint (kc_Spec kc) \<noteq> \<lparr>ep_Host = host, ep_Port = port\<rparr>"
      "\<not> APIEndpoint_IsZero (kcs_ControlPlaneEndpoint (kc_Spec kc))"
      "endpointStep host port kc = setClusterFailure ''Service endpoint has changed'' kc"
proof (cases "APIEndpoint_IsZero (kcs_ControlPlaneEndpoint (kc_Spec kc))")
  case True
  then show thesis using that(1) by (simp add: endpointStep_def Let_def)
next
  case False
  then show thesis
    using that(2,3) by (cases "kcs_ControlPlaneEndpoint (kc_Spec kc)") (auto simp: endpointStep_def Let_def)
qed

lemma serviceStep_cases:
  assumes "serviceStep lib svc kc = (ret, kc')"
  obtains (foreign) msg where "\<not> controlledBy lib (svc_Meta svc) (om_UID (kc_Meta kc))"
      "ret = (noRequeue, Some (GoError msg))" "kc' = setClusterFailure msg kc"
  | (waiting) "controlledBy lib (svc_Meta svc) (om_UID (kc_Meta kc))" "serviceHost svc = None"
      "ret = (\<lparr>res_RequeueAfter = 1000000000\<rparr>, None)" "kc' = kc"
  | (found) host where "controlledBy lib (svc_Meta svc) (om_UID (kc_Meta kc))" "serviceHost svc = Some host"
      "ret = (noRequeue, None)" "kc' = endpointStep host (servicePortOf svc) kc"
  using assms
  by (auto simp: serviceStep_def Let_def loadBalancerIngressRequeueAfter_def split: if_splits option.splits)

lemma serviceStep_meta:
  assumes "serviceStep lib svc kc = (ret, kc')"
  shows "kc_Meta kc' = kc_Meta kc"
proof -
  have "kc_Meta (endpointStep host port kc) = kc_Meta kc" for host port
    by (simp add: endpointStep_def Let_def)
  then show ?thesis by (cases rule: serviceStep_cases [OF assms]) auto
qed

end
