(* ===== verification/Cluster_Properties.thy ===== *)
theory Cluster_Properties
  imports Cluster_Correct
begin

text \<open>
  The properties of the cluster controller's \<open>Reconcile\<close>, over whole calls: the log \<open>snd s'\<close> holds
  every request with its answer, and the client may answer anything.
\<close>

subsection \<open>What a run leaves\<close>

lemma snd_cluster_reconcileDelete [simp]:
  "kc_Spec (snd (cluster_reconcileDelete lib kc)) = kc_Spec kc"
  "kc_Status (snd (cluster_reconcileDelete lib kc)) = kc_Status kc"
  "kc_TypeMeta (snd (cluster_reconcileDelete lib kc)) = kc_TypeMeta kc"
  "clusterFailed (snd (cluster_reconcileDelete lib kc)) = clusterFailed kc"
  by (simp_all add: cluster_reconcileDelete_def clusterFailed_def)

text \<open>A run that finds the Service, against every other run.\<close>

lemma clusterBodyRun_cases:
  assumes "clusterBodyRun lib kc body ret kc0"
  obtains (found) cluster svc where "timeIsZero (om_DeletionTimestamp (kc_Meta kc))"
      "\<not> lib_IsPaused lib cluster (kc_Meta kc)"
      "serviceStep lib svc (preparedCluster lib kc) = (ret, kc0)"
      "body = [EvGetOwnerCluster (kc_Meta kc) (Inr (Some cluster)),
         EvGetService (serviceKey cluster (preparedCluster lib kc)) (Inr svc)]"
  | (other) "kc_Status kc0 = kc_Status kc" "fst ret = noRequeue" "\<And>k svc. EvGetService k (Inr svc) \<notin> set body"
      "kcs_ControlPlaneEndpoint (kc_Spec kc0) = kcs_ControlPlaneEndpoint (kc_Spec kc)"
  using assms by (cases rule: clusterBodyRun.cases) auto

lemma endpointStep_facts:
  "clusterFailed kc \<Longrightarrow> clusterFailed (endpointStep host port kc)"
  "kcst_Ready (kc_Status kc) \<Longrightarrow> kcst_Ready (kc_Status (endpointStep host port kc))"
  "kcst_Ready (kc_Status (endpointStep host port kc)) \<Longrightarrow> \<not> kcst_Ready (kc_Status kc) \<Longrightarrow>
     kcs_ControlPlaneEndpoint (kc_Spec (endpointStep host port kc)) = \<lparr>ep_Host = host, ep_Port = port\<rparr>"
  "kcs_ControlPlaneEndpoint (kc_Spec (endpointStep host port kc)) = kcs_ControlPlaneEndpoint (kc_Spec kc) \<or>
     APIEndpoint_IsZero (kcs_ControlPlaneEndpoint (kc_Spec kc)) \<and>
     kcs_ControlPlaneEndpoint (kc_Spec (endpointStep host port kc)) = \<lparr>ep_Host = host, ep_Port = port\<rparr>"
  "kc_Meta (endpointStep host port kc) = kc_Meta kc"
  "kcs_ControlPlaneServiceType (kc_Spec (endpointStep host port kc)) = kcs_ControlPlaneServiceType (kc_Spec kc)"
  by (cases rule: endpointStep_cases [of kc host port]; simp)+

lemma serviceStep_status:
  assumes "serviceStep lib svc kc = (ret, kc')"
  shows "clusterFailed kc \<Longrightarrow> clusterFailed kc'"
    and "kcst_Ready (kc_Status kc) \<Longrightarrow> kcst_Ready (kc_Status kc')"
    and "kcst_Ready (kc_Status kc') \<Longrightarrow> \<not> kcst_Ready (kc_Status kc) \<Longrightarrow>
      controlledBy lib (svc_Meta svc) (om_UID (kc_Meta kc)) \<and> ret = (noRequeue, None) \<and>
      serviceHost svc = Some (ep_Host (kcs_ControlPlaneEndpoint (kc_Spec kc'))) \<and>
      servicePortOf svc = ep_Port (kcs_ControlPlaneEndpoint (kc_Spec kc'))"
  using assms by (cases rule: serviceStep_cases; simp add: endpointStep_facts)+

lemma serviceStep_endpoint:
  assumes "serviceStep lib svc kc = (ret, kc')"
  shows "kcs_ControlPlaneEndpoint (kc_Spec kc') = kcs_ControlPlaneEndpoint (kc_Spec kc) \<or>
    APIEndpoint_IsZero (kcs_ControlPlaneEndpoint (kc_Spec kc)) \<and>
    controlledBy lib (svc_Meta svc) (om_UID (kc_Meta kc)) \<and>
    serviceHost svc = Some (ep_Host (kcs_ControlPlaneEndpoint (kc_Spec kc'))) \<and>
    servicePortOf svc = ep_Port (kcs_ControlPlaneEndpoint (kc_Spec kc'))"
  using assms
proof (cases rule: serviceStep_cases)
  case (found host)
  then show ?thesis using endpointStep_facts(4) [of host "servicePortOf svc" kc] by auto
qed simp_all

lemma serviceStep_phase:
  assumes "serviceStep lib svc kc = (ret, kc')"
  shows "kcst_Phase (kc_Status kc') = kcst_Phase (kc_Status kc)"
  using assms
proof (cases rule: serviceStep_cases)
  case (found host)
  then show ?thesis
    by (cases rule: endpointStep_cases [of kc host "servicePortOf svc"]) (simp_all add: setClusterReady_def)
qed simp_all

lemma serviceStep_moved:
  assumes "serviceStep lib svc kc = (ret, kc')" and "serviceHost svc = Some host"
    and "\<lparr>ep_Host = host, ep_Port = servicePortOf svc\<rparr> \<noteq> kcs_ControlPlaneEndpoint (kc_Spec kc')"
  shows "clusterFailed kc'"
  using assms(1)
proof (cases rule: serviceStep_cases)
  case (found host')
  then show ?thesis
    using assms(2,3) by (cases rule: endpointStep_cases [of kc host "servicePortOf svc"]) auto
qed (use assms(2) in auto)

text \<open>
  C22. A cluster becomes ready only when the reconcile has found its Service, which the cluster
  controls and which has a host, and then the endpoint in the spec is the host and port of that
  Service. Readiness is never taken back.
\<close>

theorem cluster_ready_only_with_service:
  assumes "kube_contract lib" and "cluster_Reconcile lib cli req (w, []) = (ret, s')"
    and "EvPatchCluster kc kc' perr \<in> set (snd s')"
  shows "(kcst_Ready (kc_Status kc) \<longrightarrow> kcst_Ready (kc_Status kc')) \<and>
    (\<not> kcst_Ready (kc_Status kc) \<and> kcst_Ready (kc_Status kc') \<longrightarrow>
      (\<exists>cluster svc. EvGetOwnerCluster (kc_Meta kc) (Inr (Some cluster)) \<in> set (snd s') \<and>
         EvGetService (serviceKey cluster kc) (Inr svc) \<in> set (snd s') \<and>
         controlledBy lib (svc_Meta svc) (om_UID (kc_Meta kc)) \<and>
         serviceHost svc = Some (ep_Host (kcs_ControlPlaneEndpoint (kc_Spec kc'))) \<and>
         servicePortOf svc = ep_Port (kcs_ControlPlaneEndpoint (kc_Spec kc')) \<and>
         timeIsZero (om_DeletionTimestamp (kc_Meta kc)) \<and> ret = (noRequeue, perr)))"
proof -
  obtain body res rerr kc0 where b: "clusterBodyRun lib kc body (res, rerr) kc0" and kc': "kc' = cluster_reconcilePhase kc0"
    and log: "snd s' = EvGetKubernetesCluster req (Inr kc) # EvNewPatchHelper None # body @ [EvPatchCluster kc kc' perr]"
    and ret: "ret = (res, if rerr = None then perr else rerr)"
    by (rule cluster_patched_run [OF assms(2,3)])
  from b show ?thesis
  proof (cases rule: clusterBodyRun_cases)
    case (found cluster svc)
    have ev: "EvGetOwnerCluster (kc_Meta kc) (Inr (Some cluster)) \<in> set (snd s')"
        "EvGetService (serviceKey cluster kc) (Inr svc) \<in> set (snd s')"
      using log found(4) preparedCluster_ids(3) [OF assms(1)] by simp_all
    show ?thesis
      using serviceStep_status(2,3) [OF found(3)] ev found(1) ret kc' preparedCluster_ids(1) [OF assms(1)]
      by auto
  qed (use kc' in auto)
qed

definition clusterClient :: "KubernetesCluster \<Rightarrow> Service \<Rightarrow> unit kube_client" where
  "clusterClient kc svc = emptyClient\<lparr>
     cli_GetKubernetesCluster := (\<lambda>_ w. (Inr kc, w)),
     cli_GetOwnerCluster := (\<lambda>_ w. (Inr (Some sampleCluster), w)),
     cli_GetService := (\<lambda>_ w. (Inr svc, w))\<rparr>"

definition newKC :: KubernetesCluster where
  "newKC = \<lparr>kc_TypeMeta = [], kc_Meta = sampleMeta ''kc'' ''u3'',
     kc_Spec = \<lparr>kcs_ControlPlaneServiceType = [], kcs_ControlPlaneEndpoint = \<lparr>ep_Host = [], ep_Port = 0\<rparr>\<rparr>,
     kc_Status = \<lparr>kcst_FailureReason = None, kcst_FailureMessage = None, kcst_Phase = [], kcst_Ready = False\<rparr>\<rparr>"

definition clusterOwner :: OwnerReference where
  "clusterOwner = \<lparr>or_APIVersion = GroupVersion, or_Kind = KubernetesClusterKind, or_Name = ''kc'', or_UID = ''u3'',
     or_Controller = Some True\<rparr>"

definition sampleService :: Service where
  "sampleService = (desiredService sampleCluster (defaultServiceType newKC))\<lparr>
     svc_Meta := (svc_Meta (desiredService sampleCluster newKC))\<lparr>om_OwnerReferences := [clusterOwner]\<rparr>,
     svc_ClusterIP := ''10.0.0.1''\<rparr>"

definition clusterKey :: NamespacedName where
  "clusterKey = \<lparr>nn_Namespace = ''ns'', nn_Name = ''kc''\<rparr>"

definition clusterSampleRun :: "unit kube_client \<Rightarrow> ReconcileReturn \<times> unit st" where
  "clusterSampleRun cli = cluster_Reconcile refLib cli clusterKey ((), [])"

lemma clusterSampleRun_is_run:
  "cluster_Reconcile refLib cli clusterKey ((), []) = (fst (clusterSampleRun cli), snd (clusterSampleRun cli))"
  by (simp add: clusterSampleRun_def)

lemma clusterClient_simps [simp]:
  "cli_GetKubernetesCluster (clusterClient kc svc) k w = (Inr kc, w)"
  "cli_GetOwnerCluster (clusterClient kc svc) m w = (Inr (Some sampleCluster), w)"
  "cli_GetService (clusterClient kc svc) k w = (Inr svc, w)"
  "cli_NewPatchHelper (clusterClient kc svc) w = (None, w)"
  "cli_PatchCluster (clusterClient kc svc) a b w = (None, w)"
  by (simp_all add: clusterClient_def emptyClient_def)

text \<open>A run that finds the Service.\<close>

lemma clusterSampleRun_found:
  assumes "om_DeletionTimestamp (kc_Meta kc) = None" and "om_Annotations (kc_Meta kc) = Map.empty"
  shows "snd (snd (clusterSampleRun (clusterClient kc svc))) =
    [EvGetKubernetesCluster clusterKey (Inr kc), EvNewPatchHelper None,
     EvGetOwnerCluster (kc_Meta kc) (Inr (Some sampleCluster)),
     EvGetService (serviceKey sampleCluster (preparedCluster refLib kc)) (Inr svc),
     EvPatchCluster kc (cluster_reconcilePhase (snd (serviceStep refLib svc (preparedCluster refLib kc)))) None]"
proof -
  have "\<not> cl_Paused sampleCluster" by (simp add: sampleCluster_def)
  then show ?thesis
    using assms
    by (simp add: clusterSampleRun_def cluster_Reconcile_def perform_def clusterBody_def Let_def timeIsZero_def
        clusterDeferred_def cluster_reconcileNormal_def preparedCluster_def withClusterFinalizers_def serviceKey_def
        split: prod.split)
qed

lemma newKC_simps [simp]:
  "om_DeletionTimestamp (kc_Meta newKC) = None" "om_Annotations (kc_Meta newKC) = Map.empty"
  "om_UID (kc_Meta newKC) = ''u3''" "\<not> kcst_Ready (kc_Status newKC)" "\<not> clusterFailed newKC"
  "kcs_ControlPlaneEndpoint (kc_Spec newKC) = \<lparr>ep_Host = [], ep_Port = 0\<rparr>"
  by (simp_all add: newKC_def sampleMeta_def emptyObjectMeta_def clusterFailed_def)

lemma sampleService_simps [simp]:
  "controlledBy refLib (svc_Meta sampleService) ''u3''" "serviceHost sampleService = Some ''10.0.0.1''"
  "servicePortOf sampleService = 443"
proof -
  show "controlledBy refLib (svc_Meta sampleService) ''u3''"
    by (simp add: sampleService_def controlledBy_def isController_def clusterOwner_def)
  have "svc_Type sampleService = ''ClusterIP''" "svc_ClusterIP sampleService = ''10.0.0.1''"
    by (simp_all add: sampleService_def desiredService_def Let_def defaultServiceType_def newKC_def)
  then show "serviceHost sampleService = Some ''10.0.0.1''" by (simp add: serviceHost_def)
  show "servicePortOf sampleService = 443"
    by (simp add: sampleService_def servicePortOf_def desiredService_def Let_def defaultClusterLoadBalancerPort_def)
qed

lemma sampleService_step:
  assumes "om_UID (kc_Meta kc) = ''u3''"
  shows "serviceStep refLib sampleService (preparedCluster refLib kc) =
    ((noRequeue, None), endpointStep ''10.0.0.1'' 443 (preparedCluster refLib kc))"
  using assms by (simp add: serviceStep_def preparedCluster_ids [OF ref.kube_contract_axioms])

lemma cluster_ready_sample:
  "\<exists>kc'. EvPatchCluster newKC kc' None \<in> set (snd (snd (clusterSampleRun (clusterClient newKC sampleService)))) \<and>
     kcst_Ready (kc_Status kc') \<and> kcs_ControlPlaneEndpoint (kc_Spec kc') = \<lparr>ep_Host = ''10.0.0.1'', ep_Port = 443\<rparr>"
  by (simp add: clusterSampleRun_found sampleService_step)
    (simp add: endpointStep_def APIEndpoint_IsZero_def Let_def)

theorem cluster_ready_only_with_service_witness:
  "\<exists>kc' cluster svc. EvPatchCluster newKC kc' None \<in>
       set (snd (snd (clusterSampleRun (clusterClient newKC sampleService)))) \<and>
     EvGetService (serviceKey cluster newKC) (Inr svc) \<in>
       set (snd (snd (clusterSampleRun (clusterClient newKC sampleService)))) \<and>
     servicePortOf svc = 443"
proof -
  obtain kc' where p: "EvPatchCluster newKC kc' None \<in> set (snd (snd (clusterSampleRun (clusterClient newKC sampleService))))"
    "kcst_Ready (kc_Status kc')" "kcs_ControlPlaneEndpoint (kc_Spec kc') = \<lparr>ep_Host = ''10.0.0.1'', ep_Port = 443\<rparr>"
    using cluster_ready_sample by blast
  have "\<not> kcst_Ready (kc_Status newKC)" by (simp add: newKC_def)
  then show ?thesis
    using cluster_ready_only_with_service [OF ref.kube_contract_axioms clusterSampleRun_is_run p(1)] p by auto
qed

text \<open>
  C14. The control plane endpoint is fixed once it has a host and a port: a reconcile never changes it
  again. As long as one of the two is missing it may be replaced, and then by the host and the port
  of the Service that the reconcile has found and the cluster controls. A Service that no longer has
  the recorded host and port marks the cluster as failed.
\<close>

theorem cluster_endpoint_is_fixed:
  assumes "kube_contract lib" and "cluster_Reconcile lib cli req (w, []) = (ret, s')"
    and "EvPatchCluster kc kc' perr \<in> set (snd s')"
  shows "(\<not> APIEndpoint_IsZero (kcs_ControlPlaneEndpoint (kc_Spec kc)) \<longrightarrow>
      kcs_ControlPlaneEndpoint (kc_Spec kc') = kcs_ControlPlaneEndpoint (kc_Spec kc)) \<and>
    (kcs_ControlPlaneEndpoint (kc_Spec kc') \<noteq> kcs_ControlPlaneEndpoint (kc_Spec kc) \<longrightarrow>
      (\<exists>cluster svc. EvGetService (serviceKey cluster kc) (Inr svc) \<in> set (snd s') \<and>
         controlledBy lib (svc_Meta svc) (om_UID (kc_Meta kc)) \<and>
         serviceHost svc = Some (ep_Host (kcs_ControlPlaneEndpoint (kc_Spec kc'))) \<and>
         servicePortOf svc = ep_Port (kcs_ControlPlaneEndpoint (kc_Spec kc')))) \<and>
    (\<forall>cluster svc host. EvGetService (serviceKey cluster kc) (Inr svc) \<in> set (snd s') \<and> serviceHost svc = Some host \<and>
      \<lparr>ep_Host = host, ep_Port = servicePortOf svc\<rparr> \<noteq> kcs_ControlPlaneEndpoint (kc_Spec kc') \<longrightarrow> clusterFailed kc')"
proof -
  obtain body res rerr kc0 where b: "clusterBodyRun lib kc body (res, rerr) kc0" and kc': "kc' = cluster_reconcilePhase kc0"
    and log: "snd s' = EvGetKubernetesCluster req (Inr kc) # EvNewPatchHelper None # body @ [EvPatchCluster kc kc' perr]"
    and ret: "ret = (res, if rerr = None then perr else rerr)"
    by (rule cluster_patched_run [OF assms(2,3)])
  from b show ?thesis
  proof (cases rule: clusterBodyRun_cases)
    case (found cluster svc)
    have ev: "EvGetService (serviceKey cluster kc) (Inr svc) \<in> set (snd s')"
      using log found(4) preparedCluster_ids(3) [OF assms(1)] by simp
    have moved: "clusterFailed kc'" if "serviceHost svc = Some host"
        "\<lparr>ep_Host = host, ep_Port = servicePortOf svc\<rparr> \<noteq> kcs_ControlPlaneEndpoint (kc_Spec kc')" for host
      using serviceStep_moved [OF found(3) that(1)] that(2) kc' by simp
    have only: "x = svc" if "EvGetService k (Inr x) \<in> set (snd s')" for k x
      using that log found(4) by simp
    have set: "kcs_ControlPlaneEndpoint (kc_Spec kc') = kcs_ControlPlaneEndpoint (kc_Spec kc) \<or>
        APIEndpoint_IsZero (kcs_ControlPlaneEndpoint (kc_Spec kc)) \<and>
        controlledBy lib (svc_Meta svc) (om_UID (kc_Meta kc)) \<and>
        serviceHost svc = Some (ep_Host (kcs_ControlPlaneEndpoint (kc_Spec kc'))) \<and>
        servicePortOf svc = ep_Port (kcs_ControlPlaneEndpoint (kc_Spec kc'))"
      using serviceStep_endpoint [OF found(3)] kc' preparedCluster_ids(1) [OF assms(1)] by simp
    show ?thesis using set ev moved only by blast
  next
    case other
    then show ?thesis using kc' log by auto
  qed
qed

definition otherService :: Service where
  "otherService = sampleService\<lparr>svc_ClusterIP := ''10.0.0.2''\<rparr>"

definition provisionedKC :: KubernetesCluster where
  "provisionedKC = setClusterEndpoint ''10.0.0.1'' 443 newKC"

theorem cluster_endpoint_is_fixed_witness:
  "\<exists>kc'. EvPatchCluster provisionedKC kc' None \<in>
       set (snd (snd (clusterSampleRun (clusterClient provisionedKC otherService)))) \<and>
     kcs_ControlPlaneEndpoint (kc_Spec kc') = \<lparr>ep_Host = ''10.0.0.1'', ep_Port = 443\<rparr> \<and> clusterFailed kc'"
proof -
  let ?cli = "clusterClient provisionedKC otherService"
  let ?kc' = "cluster_reconcilePhase (snd (serviceStep refLib otherService (preparedCluster refLib provisionedKC)))"
  have log: "snd (snd (clusterSampleRun ?cli)) =
    [EvGetKubernetesCluster clusterKey (Inr provisionedKC), EvNewPatchHelper None,
     EvGetOwnerCluster (kc_Meta provisionedKC) (Inr (Some sampleCluster)),
     EvGetService (serviceKey sampleCluster (preparedCluster refLib provisionedKC)) (Inr otherService),
     EvPatchCluster provisionedKC ?kc' None]"
    by (rule clusterSampleRun_found) (simp_all add: provisionedKC_def)
  have p: "EvPatchCluster provisionedKC ?kc' None \<in> set (snd (snd (clusterSampleRun ?cli)))"
    and get: "EvGetService (serviceKey sampleCluster provisionedKC) (Inr otherService) \<in> set (snd (snd (clusterSampleRun ?cli)))"
    by (simp_all add: log preparedCluster_ids [OF ref.kube_contract_axioms])
  have "svc_Type otherService = ''ClusterIP''"
    by (simp add: otherService_def sampleService_def desiredService_def Let_def defaultServiceType_def newKC_def)
  then have host: "serviceHost otherService = Some ''10.0.0.2''" by (simp add: serviceHost_def otherService_def)
  have ep: "kcs_ControlPlaneEndpoint (kc_Spec provisionedKC) = \<lparr>ep_Host = ''10.0.0.1'', ep_Port = 443\<rparr>"
    by (simp add: provisionedKC_def)
  then have "\<not> APIEndpoint_IsZero (kcs_ControlPlaneEndpoint (kc_Spec provisionedKC))" by (simp add: APIEndpoint_IsZero_def)
  moreover note cluster_endpoint_is_fixed [OF ref.kube_contract_axioms clusterSampleRun_is_run p]
  ultimately have same: "kcs_ControlPlaneEndpoint (kc_Spec ?kc') = kcs_ControlPlaneEndpoint (kc_Spec provisionedKC)"
    and moved: "\<forall>cluster svc host. EvGetService (serviceKey cluster provisionedKC) (Inr svc) \<in> set (snd (snd (clusterSampleRun ?cli))) \<and>
       serviceHost svc = Some host \<and>
      \<lparr>ep_Host = host, ep_Port = servicePortOf svc\<rparr> \<noteq> kcs_ControlPlaneEndpoint (kc_Spec ?kc') \<longrightarrow> clusterFailed ?kc'"
    by blast+
  have "\<lparr>ep_Host = ''10.0.0.2'', ep_Port = servicePortOf otherService\<rparr> \<noteq> kcs_ControlPlaneEndpoint (kc_Spec ?kc')"
    unfolding same ep by simp
  then have "clusterFailed ?kc'" using moved get host by blast
  then show ?thesis using p same ep by metis
qed

text \<open>
  C23. The Service is created only right after the API server has answered that it does not exist, for
  a cluster that is neither deleted nor paused. It is controlled by the cluster, selects the control
  plane Pods of the cluster, forwards to the API server's port by name, has the type of the spec
  (\<open>ClusterIP\<close> by default), and asks for the port and, depending on the type, the address that the
  endpoint has already, or else for port 443 and any address; nothing but the patch follows.
\<close>

theorem cluster_service_creation:
  assumes "kube_contract lib" and "cluster_Reconcile lib cli req (w, []) = (ret, s')"
    and "EvCreateService svc cerr \<in> set (snd s')"
  shows "\<exists>kc cluster e kc' perr.
    snd s' = [EvGetKubernetesCluster req (Inr kc), EvNewPatchHelper None,
      EvGetOwnerCluster (kc_Meta kc) (Inr (Some cluster)), EvGetService (serviceKey cluster kc) (Inl e),
      EvCreateService svc cerr, EvPatchCluster kc kc' perr] \<and>
    IsNotFound e \<and> timeIsZero (om_DeletionTimestamp (kc_Meta kc)) \<and> \<not> lib_IsPaused lib cluster (kc_Meta kc) \<and>
    controlledBy lib (svc_Meta svc) (om_UID (kc_Meta kc)) \<and> om_Name (svc_Meta svc) = clusterServiceName cluster \<and>
    svc_Selector svc = clusterSelector cluster \<and>
    svc_Type svc = (if kcs_ControlPlaneServiceType (kc_Spec kc) = [] then ''ClusterIP''
                    else kcs_ControlPlaneServiceType (kc_Spec kc)) \<and>
    servicePortOf svc = (if ep_Port (kcs_ControlPlaneEndpoint (kc_Spec kc)) = 0 then 443
                         else ep_Port (kcs_ControlPlaneEndpoint (kc_Spec kc))) \<and>
    svc_ClusterIP svc = (if svc_Type svc = ''ClusterIP'' then ep_Host (kcs_ControlPlaneEndpoint (kc_Spec kc)) else []) \<and>
    svc_LoadBalancerIP svc = (if svc_Type svc = ''LoadBalancer'' then ep_Host (kcs_ControlPlaneEndpoint (kc_Spec kc)) else [])"
proof -
  have "clusterRun lib req (snd s') ret" using cluster_Reconcile_run [OF assms(2)] by auto
  then obtain kc body res rerr kc0 perr where b: "clusterBodyRun lib kc body (res, rerr) kc0"
    and log: "snd s' = EvGetKubernetesCluster req (Inr kc) # EvNewPatchHelper None # body @
       [EvPatchCluster kc (cluster_reconcilePhase kc0) perr]"
    using assms(3) by (cases rule: clusterRun.cases) auto
  have mem: "EvCreateService svc cerr \<in> set body" using assms(3) log by simp
  let ?kc = "preparedCluster lib kc"
  from b show ?thesis
  proof (cases rule: clusterBodyRun.cases)
    case (cb_created cluster e meta)
    have svc: "svc = (desiredService cluster ?kc)\<lparr>svc_Meta := meta\<rparr>" "cerr = rerr" using mem cb_created by simp_all
    have ctrl: "lib_SetControllerReference lib KubernetesClusterKind (kc_Meta ?kc)
        (svc_Meta (desiredService cluster ?kc)) = Inr meta" using cb_created by blast
    have "controlledBy lib meta (om_UID (kc_Meta kc))"
      using kube_contract.set_controller_uid [OF assms(1) ctrl] preparedCluster_ids(1) [OF assms(1)]
      by (auto simp: controlledBy_def)
    moreover have "om_Name meta = clusterServiceName cluster"
      using kube_contract.set_controller_frame(1) [OF assms(1) ctrl] by (simp add: desiredService_def Let_def)
    ultimately show ?thesis
      using svc log cb_created preparedCluster_ids(3) [OF assms(1)]
      by (intro exI [of _ kc] exI [of _ cluster] exI [of _ e] exI [of _ "cluster_reconcilePhase kc0"] exI [of _ perr])
        (simp add: desiredService_def Let_def servicePortOf_def defaultClusterLoadBalancerPort_def defaultServiceType_def)
  qed (use mem in auto)
qed

definition missingServiceClient :: "KubernetesCluster \<Rightarrow> unit kube_client" where
  "missingServiceClient kc = (clusterClient kc sampleService)\<lparr>
     cli_GetService := (\<lambda>k w. (Inl (StatusNotFound (nn_Name k)), w)), cli_CreateService := (\<lambda>x w. (None, w))\<rparr>"

lemma missing_service_sample:
  "\<exists>svc evs. snd (snd (clusterSampleRun (missingServiceClient newKC))) =
     EvGetKubernetesCluster clusterKey (Inr newKC) # evs \<and> EvCreateService svc None \<in> set evs"
proof -
  have "\<not> cl_Paused sampleCluster" by (simp add: sampleCluster_def)
  moreover have "\<exists>meta. refSetController KubernetesClusterKind (kc_Meta (preparedCluster refLib newKC))
      (svc_Meta (desiredService sampleCluster (preparedCluster refLib newKC))) = Inr meta"
    by (simp add: refSetController_def desiredService_def Let_def emptyObjectMeta_def)
  ultimately show ?thesis
    by (auto simp: clusterSampleRun_def cluster_Reconcile_def perform_def clusterBody_def Let_def timeIsZero_def
        clusterDeferred_def cluster_reconcileNormal_def preparedCluster_def withClusterFinalizers_def
        missingServiceClient_def createClusterService_def)
qed

theorem cluster_service_creation_witness:
  "\<exists>svc. EvCreateService svc None \<in> set (snd (snd (clusterSampleRun (missingServiceClient newKC)))) \<and>
     servicePortOf svc = 443 \<and> svc_Type svc = ''ClusterIP''"
proof -
  obtain svc evs where l: "snd (snd (clusterSampleRun (missingServiceClient newKC))) =
      EvGetKubernetesCluster clusterKey (Inr newKC) # evs"
    and c: "EvCreateService svc None \<in> set (snd (snd (clusterSampleRun (missingServiceClient newKC))))"
    using missing_service_sample by fastforce
  have "servicePortOf svc = 443 \<and> svc_Type svc = ''ClusterIP''"
    using cluster_service_creation [OF ref.kube_contract_axioms clusterSampleRun_is_run c] l
    by (auto simp: newKC_def)
  then show ?thesis using c by blast
qed

text \<open>
  A failure of a cluster is never taken back, and the phase the patch writes is \<open>Deleting\<close> for a
  deleted cluster, else \<open>Failed\<close> for a failed one, else \<open>Provisioned\<close> exactly when the cluster is
  ready, and otherwise the phase it had, \<open>Provisioning\<close> if it had none.
\<close>

theorem cluster_phase_and_failure:
  assumes "cluster_Reconcile lib cli req (w, []) = (ret, s')" and "EvPatchCluster kc kc' perr \<in> set (snd s')"
  shows "(clusterFailed kc \<longrightarrow> clusterFailed kc') \<and>
    kcst_Phase (kc_Status kc') =
      (if \<not> timeIsZero (om_DeletionTimestamp (kc_Meta kc')) then ''Deleting''
       else if clusterFailed kc' then ''Failed''
       else if kcst_Ready (kc_Status kc') then ''Provisioned''
       else if kcst_Phase (kc_Status kc) = [] then ''Provisioning'' else kcst_Phase (kc_Status kc))"
proof -
  obtain body res rerr kc0 where b: "clusterBodyRun lib kc body (res, rerr) kc0" and kc': "kc' = cluster_reconcilePhase kc0"
    and log: "snd s' = EvGetKubernetesCluster req (Inr kc) # EvNewPatchHelper None # body @ [EvPatchCluster kc kc' perr]"
    and ret: "ret = (res, if rerr = None then perr else rerr)"
    by (rule cluster_patched_run [OF assms])
  have "(clusterFailed kc \<longrightarrow> clusterFailed kc0) \<and> kcst_Phase (kc_Status kc0) = kcst_Phase (kc_Status kc)"
    using b
  proof (cases rule: clusterBodyRun_cases)
    case (found cluster svc)
    then show ?thesis
      using serviceStep_status(1) [OF found(3)] serviceStep_phase [OF found(3)] by simp
  next
    case other
    then show ?thesis by (simp add: clusterFailed_def)
  qed
  then show ?thesis using kc' by (simp add: clusterPhaseOf_def)
qed

theorem cluster_phase_and_failure_witness:
  "\<exists>kc'. EvPatchCluster newKC kc' None \<in> set (snd (snd (clusterSampleRun (clusterClient newKC sampleService)))) \<and>
     kcst_Phase (kc_Status kc') \<noteq> []"
proof -
  obtain kc' where p: "EvPatchCluster newKC kc' None \<in> set (snd (snd (clusterSampleRun (clusterClient newKC sampleService))))"
    using cluster_ready_sample by blast
  show ?thesis
    using cluster_phase_and_failure [OF clusterSampleRun_is_run p] p by (auto simp: newKC_def split: if_splits)
qed

text \<open>
  The Service the controller has created is the one it accepts: once the API server has given it
  an address, the next pass over the cluster records that address with the port the controller asked
  for and makes the cluster ready, with no new failure, whatever part of the endpoint was missing
  before; if the endpoint was complete, the address must be the one it has.
\<close>

theorem cluster_created_service_is_accepted:
  assumes "kube_contract lib" and "kcs_ControlPlaneServiceType (kc_Spec kc) \<noteq> ''LoadBalancer''"
    and "lib_SetControllerReference lib KubernetesClusterKind (kc_Meta kc) (svc_Meta (desiredService cluster kc)) = Inr meta"
    and "svc = (desiredService cluster kc)\<lparr>svc_Meta := meta, svc_ClusterIP := ip\<rparr>"
    and "APIEndpoint_IsZero (kcs_ControlPlaneEndpoint (kc_Spec kc)) \<or> ep_Host (kcs_ControlPlaneEndpoint (kc_Spec kc)) = ip"
  shows "\<exists>kc'. serviceStep lib svc kc = ((noRequeue, None), kc') \<and> kcst_Ready (kc_Status kc') \<and>
    clusterFailed kc' = clusterFailed kc \<and> ep_Host (kcs_ControlPlaneEndpoint (kc_Spec kc')) = ip \<and>
    ep_Port (kcs_ControlPlaneEndpoint (kc_Spec kc')) =
      (if ep_Port (kcs_ControlPlaneEndpoint (kc_Spec kc)) = 0 then 443 else ep_Port (kcs_ControlPlaneEndpoint (kc_Spec kc)))"
proof -
  let ?e = "kcs_ControlPlaneEndpoint (kc_Spec kc)"
  let ?port = "if ep_Port ?e = 0 then 443 else ep_Port ?e"
  have own: "controlledBy lib (svc_Meta svc) (om_UID (kc_Meta kc))"
    using kube_contract.set_controller_uid [OF assms(1,3)] assms(4) by (auto simp: controlledBy_def)
  have port: "servicePortOf svc = ?port"
    by (simp add: assms(4) desiredService_def Let_def servicePortOf_def defaultClusterLoadBalancerPort_def)
  have host: "serviceHost svc = Some ip"
    using assms(2) by (simp add: assms(4) serviceHost_def desiredService_def Let_def)
  have step: "serviceStep lib svc kc = ((noRequeue, None), endpointStep ip ?port kc)"
    using own host port by (simp add: serviceStep_def)
  have "?e = \<lparr>ep_Host = ip, ep_Port = ?port\<rparr>" if "\<not> APIEndpoint_IsZero ?e"
    using that assms(5) by (cases ?e) (auto simp: APIEndpoint_IsZero_def)
  then show ?thesis
  proof (cases rule: endpointStep_cases [of kc ip ?port])
    case same
    have "ep_Host ?e = ip" "ep_Port ?e = ?port"
      using arg_cong [OF same(1), of ep_Host] arg_cong [OF same(1), of ep_Port] by simp_all
    then show ?thesis using step same(3) by simp
  qed (use step in auto)
qed

theorem cluster_created_service_is_accepted_witness:
  "\<exists>svc kc'. serviceStep refLib svc newKC = ((noRequeue, None), kc') \<and> kcst_Ready (kc_Status kc') \<and>
     ep_Host (kcs_ControlPlaneEndpoint (kc_Spec kc')) = ''10.0.0.1'' \<and>
     ep_Port (kcs_ControlPlaneEndpoint (kc_Spec kc')) = 443"
proof -
  obtain meta where m: "lib_SetControllerReference refLib KubernetesClusterKind (kc_Meta newKC)
      (svc_Meta (desiredService sampleCluster newKC)) = Inr meta"
    by (simp add: refSetController_def desiredService_def Let_def emptyObjectMeta_def)
  have t: "kcs_ControlPlaneServiceType (kc_Spec newKC) \<noteq> ''LoadBalancer''" by (simp add: newKC_def)
  have z: "APIEndpoint_IsZero (kcs_ControlPlaneEndpoint (kc_Spec newKC)) \<or>
      ep_Host (kcs_ControlPlaneEndpoint (kc_Spec newKC)) = ''10.0.0.1''"
    by (simp add: APIEndpoint_IsZero_def)
  show ?thesis
    using cluster_created_service_is_accepted [OF ref.kube_contract_axioms t m refl z]
    by (simp only: newKC_simps) force
qed

text \<open>
  A Service without a port for the API server still makes a cluster with no complete endpoint
  ready: the port that is recorded is 0, so that the endpoint stays incomplete and the next
  reconcile may replace it, although the cluster is ready.
\<close>

theorem cluster_ready_with_port_zero:
  assumes "controlledBy lib (svc_Meta svc) (om_UID (kc_Meta kc))" and "serviceHost svc = Some host"
    and "\<forall>sp \<in> set (svc_Ports svc). IntOrString_String (sp_TargetPort sp) \<noteq> ''kube-apiserver''"
    and "APIEndpoint_IsZero (kcs_ControlPlaneEndpoint (kc_Spec kc))"
  shows "\<exists>kc'. serviceStep lib svc kc = ((noRequeue, None), kc') \<and> kcst_Ready (kc_Status kc') \<and>
    kcs_ControlPlaneEndpoint (kc_Spec kc') = \<lparr>ep_Host = host, ep_Port = 0\<rparr> \<and>
    APIEndpoint_IsZero (kcs_ControlPlaneEndpoint (kc_Spec kc'))"
proof -
  have "find_last (\<lambda>sp. IntOrString_String (sp_TargetPort sp) = apiServerPortName) (svc_Ports svc) = None"
    using assms(3) by (simp add: find_last_None_iff apiServerPortName_def)
  then have "servicePortOf svc = 0" by (simp add: servicePortOf_def servicePortLoop_eq)
  then show ?thesis
    using assms(1,2,4) by (simp add: serviceStep_def endpointStep_def Let_def APIEndpoint_IsZero_def)
qed

theorem cluster_ready_with_port_zero_witness:
  "\<exists>kc'. serviceStep refLib (sampleService\<lparr>svc_Ports := []\<rparr>) newKC = ((noRequeue, None), kc') \<and>
     kcst_Ready (kc_Status kc') \<and> ep_Port (kcs_ControlPlaneEndpoint (kc_Spec kc')) = 0"
proof -
  have host: "serviceHost (sampleService\<lparr>svc_Ports := []\<rparr>) = Some ''10.0.0.1''"
    using sampleService_simps(2) unfolding serviceHost_def by (simp split: if_splits)
  show ?thesis
    using cluster_ready_with_port_zero [of refLib "sampleService\<lparr>svc_Ports := []\<rparr>" newKC, OF _ host]
    by (auto simp: APIEndpoint_IsZero_def)
qed

end
