(* ===== verification/Watch_Map.thy ===== *)
theory Watch_Map
  imports Machine_Properties Cluster_Properties
begin

text \<open>
  The functions that map an event on a watched object to the requests it enqueues:
  \<open>PodToKubernetesMachine\<close>, \<open>SecretToKubernetesMachine\<close>, \<open>PersistentVolumeClaimToKubernetesMachine\<close>
  and \<open>KubernetesClusterToKubernetesMachines\<close> of \<open>src/controllers/kubernetesmachine_controller.go\<close>, and
  \<open>ServiceToKubernetesCluster\<close> of \<open>src/controllers/kubernetescluster_controller.go\<close>. The four mappers of
  owned objects follow one contract, the locale \<open>owner_mapper\<close>; from it, every object a controller
  creates enqueues the resource it was created for. The object of an event is any object of the API
  (\<open>MapObject\<close>), which the functions assert to be of their type.
\<close>

datatype MapObject =
    PodObject Pod
  | SecretObject Secret
  | ClaimObject PersistentVolumeClaim
  | ServiceObject Service
  | KubernetesClusterObject KubernetesCluster
  | OtherObject ObjectMeta

subsection \<open>Owned objects\<close>

definition requestFor :: "string \<Rightarrow> string \<Rightarrow> NamespacedName" where
  "requestFor namespace name = \<lparr>nn_Namespace = namespace, nn_Name = name\<rparr>"

definition PodToKubernetesMachine :: "kube_lib \<Rightarrow> MapObject \<Rightarrow> NamespacedName list" where
  "PodToKubernetesMachine lib ob =
     (case ob of
        PodObject p \<Rightarrow>
          (case lib_GetControllerOf lib (pod_Meta p) of
             None \<Rightarrow> []
           | Some ref \<Rightarrow>
               if or_Kind ref \<noteq> ''KubernetesMachine'' \<or> or_APIVersion ref \<noteq> GroupVersion then []
               else [requestFor (om_Namespace (pod_Meta p)) (or_Name ref)])
      | _ \<Rightarrow> [])"

definition SecretToKubernetesMachine :: "kube_lib \<Rightarrow> MapObject \<Rightarrow> NamespacedName list" where
  "SecretToKubernetesMachine lib ob =
     (case ob of
        SecretObject s \<Rightarrow>
          (case lib_GetControllerOf lib (sec_Meta s) of
             None \<Rightarrow> []
           | Some ref \<Rightarrow>
               if or_Kind ref \<noteq> ''KubernetesMachine'' \<or> or_APIVersion ref \<noteq> GroupVersion then []
               else [requestFor (om_Namespace (sec_Meta s)) (or_Name ref)])
      | _ \<Rightarrow> [])"

definition PersistentVolumeClaimToKubernetesMachine :: "kube_lib \<Rightarrow> MapObject \<Rightarrow> NamespacedName list" where
  "PersistentVolumeClaimToKubernetesMachine lib ob =
     (case ob of
        ClaimObject p \<Rightarrow>
          (case lib_GetControllerOf lib (pvc_Meta p) of
             None \<Rightarrow> []
           | Some ref \<Rightarrow>
               if or_Kind ref \<noteq> ''KubernetesMachine'' \<or> or_APIVersion ref \<noteq> GroupVersion then []
               else [requestFor (om_Namespace (pvc_Meta p)) (or_Name ref)])
      | _ \<Rightarrow> [])"

definition ServiceToKubernetesCluster :: "kube_lib \<Rightarrow> MapObject \<Rightarrow> NamespacedName list" where
  "ServiceToKubernetesCluster lib ob =
     (case ob of
        ServiceObject s \<Rightarrow>
          (case lib_GetControllerOf lib (svc_Meta s) of
             None \<Rightarrow> []
           | Some ref \<Rightarrow>
               if or_Kind ref \<noteq> ''KubernetesCluster'' \<or> or_APIVersion ref \<noteq> GroupVersion then []
               else [requestFor (om_Namespace (svc_Meta s)) (or_Name ref)])
      | _ \<Rightarrow> [])"

subsection \<open>The machines of a cluster\<close>

definition machineRequest :: "Machine \<Rightarrow> NamespacedName" where
  "machineRequest m = requestFor (om_Namespace (mc_Meta m)) (om_Name (mc_Meta m))"

fun machineRequests :: "Machine list \<Rightarrow> NamespacedName list \<Rightarrow> NamespacedName list" where
  "machineRequests [] result = result"
| "machineRequests (m # ms) result =
     (if ref_Name (mc_InfrastructureRef m) = [] then machineRequests ms result
      else machineRequests ms (result @ [machineRequest m]))"

definition KubernetesClusterToKubernetesMachines ::
  "'w kube_client \<Rightarrow> MapObject \<Rightarrow> 'w st \<Rightarrow> NamespacedName list \<times> 'w st" where
  "KubernetesClusterToKubernetesMachines cli ob s =
     (case ob of
        KubernetesClusterObject c \<Rightarrow>
          (case perform (EvGetOwnerCluster (kc_Meta c)) (cli_GetOwnerCluster cli (kc_Meta c)) s of
             (Inr None, s1) \<Rightarrow> ([], s1)
           | (Inl err, s1) \<Rightarrow> ([], s1)
           | (Inr (Some cluster), s1) \<Rightarrow>
               let ns = om_Namespace (kc_Meta c); labels = [ClusterLabelName \<mapsto> om_Name (cl_Meta cluster)]
               in case perform (EvListMachines ns labels) (cli_ListMachines cli ns labels) s1 of
                    (Inl err, s2) \<Rightarrow> ([], s2)
                  | (Inr machineList, s2) \<Rightarrow> (machineRequests machineList [], s2))
      | _ \<Rightarrow> ([], s))"

subsection \<open>The contract of the mappers of owned objects\<close>

locale owner_mapper =
  fixes lib :: kube_lib
    and kind :: string
    and wrap :: "'o \<Rightarrow> MapObject"
    and meta :: "'o \<Rightarrow> ObjectMeta"
    and mapper :: "MapObject \<Rightarrow> NamespacedName list"
  assumes owned: "lib_GetControllerOf lib (meta x) = Some ref \<Longrightarrow> or_Kind ref = kind \<Longrightarrow>
      or_APIVersion ref = GroupVersion \<Longrightarrow> mapper (wrap x) = [requestFor (om_Namespace (meta x)) (or_Name ref)]"
    and not_owned: "(\<And>ref. lib_GetControllerOf lib (meta x) = Some ref \<Longrightarrow>
      or_Kind ref \<noteq> kind \<or> or_APIVersion ref \<noteq> GroupVersion) \<Longrightarrow> mapper (wrap x) = []"
    and other: "ob \<notin> range wrap \<Longrightarrow> mapper ob = []"
begin

lemma at_most_one: "length (mapper ob) \<le> 1"
proof (cases "ob \<in> range wrap")
  case True
  then obtain x where x: "ob = wrap x" by blast
  show ?thesis
  proof (cases "\<exists>ref. lib_GetControllerOf lib (meta x) = Some ref \<and> or_Kind ref = kind \<and> or_APIVersion ref = GroupVersion")
    case True
    then show ?thesis using owned x by auto
  next
    case False
    then show ?thesis using not_owned [of x] x by auto
  qed
qed (simp add: other)

text \<open>An object that the owner was made the controller of enqueues the owner.\<close>

lemma wakes_owner:
  assumes "lib_GetControllerOf lib (meta x) = Some (ownerOf kind owner)"
    and "om_Namespace (meta x) = om_Namespace owner"
  shows "mapper (wrap x) = [requestFor (om_Namespace owner) (om_Name owner)]"
  using owned [OF assms(1)] assms(2) by (simp add: ownerOf_def)

end

interpretation pods: owner_mapper lib "''KubernetesMachine''" PodObject pod_Meta "PodToKubernetesMachine lib" for lib
  by unfold_locales (auto simp: PodToKubernetesMachine_def image_iff split: MapObject.splits option.splits)

interpretation secrets: owner_mapper lib "''KubernetesMachine''" SecretObject sec_Meta "SecretToKubernetesMachine lib" for lib
  by unfold_locales (auto simp: SecretToKubernetesMachine_def image_iff split: MapObject.splits option.splits)

interpretation claims: owner_mapper lib "''KubernetesMachine''" ClaimObject pvc_Meta
    "PersistentVolumeClaimToKubernetesMachine lib" for lib
  by unfold_locales
    (auto simp: PersistentVolumeClaimToKubernetesMachine_def image_iff split: MapObject.splits option.splits)

interpretation services: owner_mapper lib "''KubernetesCluster''" ServiceObject svc_Meta "ServiceToKubernetesCluster lib" for lib
  by unfold_locales (auto simp: ServiceToKubernetesCluster_def image_iff split: MapObject.splits option.splits)

subsection \<open>What the machine controller creates\<close>

lemma podRun_no_machine: "podRun lib cloud cluster machine pod km evs out km' \<Longrightarrow> EvGetKubernetesMachine k r \<notin> set evs"
  by (drule podRun_lower) (auto simp: list_all_iff)

lemma normalRun_no_machine: "normalRun lib cloud cluster machine km evs out km' \<Longrightarrow> EvGetKubernetesMachine k r \<notin> set evs"
  by (cases rule: normalRun.cases) (auto dest: podRun_no_machine elim!: missingRun.cases)

lemma bodyRun_no_machine: "bodyRun lib cloud km body out km0 \<Longrightarrow> EvGetKubernetesMachine k r \<notin> set body"
  by (cases rule: bodyRun.cases) (auto simp: ownerEvents_def dest: normalRun_no_machine elim!: deleteRun.cases)

lemma bodyRun_built_pod:
  assumes "kube_contract lib" and "bodyRun lib cloud km body out km0" and "EvCreatePod pod e \<in> set body"
  shows "\<exists>machine cluster km1. builtMachinePod lib cluster machine km1 = Inr pod \<and> sameMachine km km1 \<and>
    EvGetClusterFromMetadata (mc_Meta machine) (Inr (Some cluster)) \<in> set body"
  using assms(2)
proof (cases rule: bodyRun.cases)
  case (body_normal cluster ref machine evs' kc)
  have mem: "EvCreatePod pod e \<in> set evs'" using assms(3) body_normal(1) by (simp add: ownerEvents_def)
  note same = sameMachine_prepared [OF assms(1), of km machine]
  from body_normal(6) show ?thesis
  proof (cases rule: normalRun.cases)
    case (normal_missing err evs'')
    then have "EvCreatePod pod e \<in> set evs''" using mem by simp
    with normal_missing(5) obtain km1 where "builtMachinePod lib cluster machine km1 = Inr pod"
        "km_Meta km1 = km_Meta (withFinalizers lib (machine_reconcileVersion km machine))"
      by (cases rule: missingRun.cases) auto
    then have "builtMachinePod lib cluster machine km1 = Inr pod \<and> sameMachine km km1" using same by (simp add: sameMachine_def)
    moreover have "EvGetClusterFromMetadata (mc_Meta machine) (Inr (Some cluster)) \<in> set body"
      using body_normal(1) by (simp add: ownerEvents_def)
    ultimately show ?thesis by blast
  next
    case (normal_found pod' evs'')
    then show ?thesis using mem podRun_lower [OF normal_found(4)] by (auto simp: list_all_iff)
  qed (use mem in auto)
qed (use assms(3) in \<open>auto simp: ownerEvents_def elim!: deleteRun.cases\<close>)

lemma nodeRun_no_claim: "nodeRun cluster pod evs err \<Longrightarrow> EvCreateClaim ns c r \<notin> set evs"
  by (auto elim!: nodeRun.cases)

lemma contRun_no_claim: "contRun cluster pod km evs out km' \<Longrightarrow> EvCreateClaim ns c r \<notin> set evs"
  by (cases rule: contRun.cases) (auto elim!: bootRun.cases dest: nodeRun_no_claim)

lemma secRun_no_claim: "secRun lib cloud cluster machine pod km evs out km' \<Longrightarrow> EvCreateClaim ns c r \<notin> set evs"
  by (cases rule: secRun.cases) (auto dest: contRun_no_claim elim!: dataRun.cases)

lemma claimRun_claim:
  assumes "claimRun lib km evs err" and "EvCreateClaim ns c r \<in> set evs"
  shows "\<exists>t \<in> set (kms_VolumeClaimTemplates (km_Spec km)). claimOfTemplate lib km t = Inr c"
proof -
  obtain claims n where "getPersistentVolumeClaims lib km = Inr claims" "(n, c) \<in> set claims"
    using assms by (fastforce simp: claimRun_def split: sum.splits)
  then show ?thesis
    using claimsLoop_spec(3) [of lib km "kms_VolumeClaimTemplates (km_Spec km)" "[]" claims n c]
    by (auto simp: getPersistentVolumeClaims_def)
qed

lemma bodyRun_claim:
  assumes "kube_contract lib" and "bodyRun lib cloud km body out km0" and "EvCreateClaim ns c r \<in> set body"
  shows "\<exists>t km1. claimOfTemplate lib km1 t = Inr c \<and> sameMachine km km1"
  using assms(2)
proof (cases rule: bodyRun.cases)
  case (body_normal cluster ref machine evs' kc)
  have mem: "EvCreateClaim ns c r \<in> set evs'" using assms(3) body_normal(1) by (simp add: ownerEvents_def)
  from body_normal(6) show ?thesis
  proof (cases rule: normalRun.cases)
    case (normal_found pod evs'')
    have "EvCreateClaim ns c r \<in> set evs''" using mem normal_found(1) by simp
    with normal_found(4) obtain es err where "claimRun lib (withFinalizers lib (machine_reconcileVersion km machine)) es err"
        "EvCreateClaim ns c r \<in> set es"
      by (cases rule: podRun.cases) (auto dest: secRun_no_claim)
    then show ?thesis using claimRun_claim sameMachine_prepared [OF assms(1)] by blast
  qed (use mem in \<open>auto elim!: missingRun.cases\<close>)
qed (use assms(3) in \<open>auto simp: ownerEvents_def elim!: deleteRun.cases\<close>)

lemma claimOfTemplate_owner:
  assumes "kube_contract lib" and "claimOfTemplate lib km t = Inr c"
  shows "lib_GetControllerOf lib (pvc_Meta c) = Some (ownerOf KubernetesMachineKind (km_Meta km)) \<and>
    om_Namespace (pvc_Meta c) = om_Namespace (km_Meta km)"
proof -
  let ?meta = "(pvc_Meta t)\<lparr>om_Name := getPersistentVolumeClaimName km t, om_Namespace := om_Namespace (km_Meta km)\<rparr>"
  obtain m where m: "lib_SetControllerReference lib KubernetesMachineKind (km_Meta km) ?meta = Inr m" "pvc_Meta c = m"
    using assms(2) by (auto simp: claimOfTemplate_def Let_def split: sum.splits)
  show ?thesis
    using controller_is_owner [OF assms(1) m(1)] kube_contract.set_controller_frame(2) [OF assms(1) m(1)] m(2) by simp
qed

lemma scriptSecret_meta:
  assumes "kube_contract lib" and "scriptSecret lib cloud cluster machine km doc = Returned (Inr secret)"
  shows "lib_GetControllerOf lib (sec_Meta secret) = Some (ownerOf KubernetesMachineKind (km_Meta km)) \<and>
    om_Namespace (sec_Meta secret) = om_Namespace (mc_Meta machine)"
proof -
  let ?meta = "emptyObjectMeta\<lparr>om_Name := machinePodName km @ ''-cloud-init'',
      om_Namespace := om_Namespace (mc_Meta machine),
      om_Labels := Some [ClusterLabelName \<mapsto> om_Name (cl_Meta cluster)]\<rparr>"
  obtain m where m: "lib_SetControllerReference lib KubernetesMachineKind (km_Meta km) ?meta = Inr m" "sec_Meta secret = m"
    using assms(2)
    by (auto simp: scriptSecret_def generatateCloudInitSecret_def Let_def split: sum.splits outcome.splits)
  show ?thesis
    using controller_is_owner [OF assms(1) m(1)] kube_contract.set_controller_frame(2) [OF assms(1) m(1)] m(2) by simp
qed

text \<open>The owner and the namespace of what a run creates.\<close>

lemma bodyRun_pod_owned:
  assumes "kube_contract lib" and "bodyRun lib cloud km body out km0" and "EvCreatePod pod e \<in> set body"
    and "\<And>m cluster. EvGetClusterFromMetadata m (Inr (Some cluster)) \<in> set body \<Longrightarrow>
      om_Namespace (cl_Meta cluster) = om_Namespace (km_Meta km)"
  shows "lib_GetControllerOf lib (pod_Meta pod) = Some (ownerOf ''KubernetesMachine'' (km_Meta km))"
    and "om_Namespace (pod_Meta pod) = om_Namespace (km_Meta km)"
proof -
  obtain machine cluster km1 where b: "builtMachinePod lib cluster machine km1 = Inr pod" "sameMachine km km1"
    and c: "EvGetClusterFromMetadata (mc_Meta machine) (Inr (Some cluster)) \<in> set body"
    using bodyRun_built_pod [OF assms(1-3)] by blast
  show "lib_GetControllerOf lib (pod_Meta pod) = Some (ownerOf ''KubernetesMachine'' (km_Meta km))"
    using builtMachinePod_meta(6) [OF assms(1) b(1)] sameMachine_owner [OF b(2)] by simp
  show "om_Namespace (pod_Meta pod) = om_Namespace (km_Meta km)"
    using builtMachinePod_meta(2) [OF assms(1) b(1)] assms(4) [OF c] by simp
qed

lemma bodyRun_secret_owned:
  assumes "kube_contract lib" and "bodyRun lib cloud km body out km0" and "EvCreateSecret x r \<in> set body"
    and "\<And>m machine. EvGetOwnerMachine m (Inr (Some machine)) \<in> set body \<Longrightarrow>
      om_Namespace (mc_Meta machine) = om_Namespace (km_Meta km)"
  shows "lib_GetControllerOf lib (sec_Meta x) = Some (ownerOf ''KubernetesMachine'' (km_Meta km))"
    and "om_Namespace (sec_Meta x) = om_Namespace (km_Meta km)"
proof -
  obtain machine cluster pod km1 evs where run: "secRun lib cloud cluster machine pod km1 evs out km0"
      "EvCreateSecret x r \<in> set evs" and owner: "EvGetOwnerMachine (km_Meta km) (Inr (Some machine)) \<in> set body"
    and same: "sameMachine km km1"
    by (rule bodyRun_secret [OF assms(1-3)]) blast
  obtain doc where "scriptSecret lib cloud cluster machine km1 doc = Returned (Inr x)"
    by (rule secRun_secret [OF run]) blast
  from scriptSecret_meta [OF assms(1) this]
  show "lib_GetControllerOf lib (sec_Meta x) = Some (ownerOf ''KubernetesMachine'' (km_Meta km))"
    "om_Namespace (sec_Meta x) = om_Namespace (km_Meta km)"
    using sameMachine_owner [OF same] assms(4) [OF owner] by auto
qed

text \<open>
  C36. Every Pod, Secret and claim that a reconcile of a KubernetesMachine asks the API server to create
  enqueues exactly that KubernetesMachine when it changes later, provided its Machine and Cluster are
  in its namespace, as Cluster API requires: no change of an object the controller relies on goes
  unnoticed.
\<close>

theorem created_objects_wake_their_machine:
  assumes "kube_contract lib" and "machine_Reconcile lib cloud cli req (w, []) = (out, s')"
    and "EvGetKubernetesMachine req (Inr km) \<in> set (snd s')"
    and "requestFor (om_Namespace (km_Meta km)) (om_Name (km_Meta km)) = req"
    and "\<And>m machine. EvGetOwnerMachine m (Inr (Some machine)) \<in> set (snd s') \<Longrightarrow>
      om_Namespace (mc_Meta machine) = nn_Namespace req"
    and "\<And>m cluster. EvGetClusterFromMetadata m (Inr (Some cluster)) \<in> set (snd s') \<Longrightarrow>
      om_Namespace (cl_Meta cluster) = nn_Namespace req"
  shows "(\<forall>pod e. EvCreatePod pod e \<in> set (snd s') \<longrightarrow> PodToKubernetesMachine lib (PodObject pod) = [req]) \<and>
    (\<forall>x r. EvCreateSecret x r \<in> set (snd s') \<longrightarrow> SecretToKubernetesMachine lib (SecretObject x) = [req]) \<and>
    (\<forall>ns c r. EvCreateClaim ns c r \<in> set (snd s') \<longrightarrow>
       PersistentVolumeClaimToKubernetesMachine lib (ClaimObject c) = [req])"
proof -
  have ns: "om_Namespace (km_Meta km) = nn_Namespace req" using assms(4) by (auto simp: requestFor_def)
  have inner: "\<exists>body out0 km0. bodyRun lib cloud km body out0 km0 \<and> ev \<in> set body \<and> set body \<subseteq> set (snd s')"
    if ev: "ev \<in> set (snd s')" "innerEvent ev" for ev
  proof -
    obtain km' body out0 km0 err where b: "bodyRun lib cloud km' body out0 km0" "ev \<in> set body"
      and log: "snd s' = EvGetKubernetesMachine req (Inr km') # EvNewPatchHelper None # body @
         [EvPatchMachine km' (machine_reconcilePhase km0) err]"
      using inner_events [OF Reconcile_reconcileRun [OF assms(1,2)] ev] by blast
    have "km' = km" using assms(3) log bodyRun_no_machine [OF b(1), of req "Inr km"] by simp
    then show ?thesis using b log by (intro exI [of _ body]) auto
  qed
  have "PodToKubernetesMachine lib (PodObject pod) = [req]" if p: "EvCreatePod pod e \<in> set (snd s')" for pod e
  proof -
    obtain body out0 km0 where r: "bodyRun lib cloud km body out0 km0" "EvCreatePod pod e \<in> set body" "set body \<subseteq> set (snd s')"
      using inner [OF p] by auto
    have "om_Namespace (cl_Meta cluster) = om_Namespace (km_Meta km)"
      if "EvGetClusterFromMetadata m (Inr (Some cluster)) \<in> set body" for m cluster
      using that r(3) assms(6) ns by auto
    from bodyRun_pod_owned [OF assms(1) r(1,2) this] show ?thesis
      using pods.wakes_owner [of lib pod "km_Meta km"] assms(4) by simp
  qed
  moreover have "SecretToKubernetesMachine lib (SecretObject x) = [req]" if x: "EvCreateSecret x r \<in> set (snd s')" for x r
  proof -
    obtain body out0 km0 where b: "bodyRun lib cloud km body out0 km0" "EvCreateSecret x r \<in> set body" "set body \<subseteq> set (snd s')"
      using inner [OF x] by auto
    have "om_Namespace (mc_Meta machine) = om_Namespace (km_Meta km)"
      if "EvGetOwnerMachine m (Inr (Some machine)) \<in> set body" for m machine
      using that b(3) assms(5) ns by auto
    from bodyRun_secret_owned [OF assms(1) b(1,2) this] show ?thesis
      using secrets.wakes_owner [of lib x "km_Meta km"] assms(4) by simp
  qed
  moreover have "PersistentVolumeClaimToKubernetesMachine lib (ClaimObject c) = [req]"
    if c: "EvCreateClaim ns c r \<in> set (snd s')" for ns c r
  proof -
    obtain body out0 km0 where r: "bodyRun lib cloud km body out0 km0" "EvCreateClaim ns c r \<in> set body"
      using inner [OF c] by auto
    obtain t km1 where t: "claimOfTemplate lib km1 t = Inr c" "sameMachine km km1"
      using bodyRun_claim [OF assms(1) r] by blast
    from claimOfTemplate_owner [OF assms(1) t(1)] show ?thesis
      using claims.wakes_owner [of lib c "km_Meta km"] sameMachine_owner [OF t(2)] assms(4) by simp
  qed
  ultimately show ?thesis by blast
qed

text \<open>The log of a run that creates the Pod.\<close>

lemma missing_sample_log:
  "\<exists>pod km'. snd (snd (sampleRun (foundClient (sampleKM []) (sampleMachine True) sampleCluster))) =
     [EvGetKubernetesMachine sampleKey (Inr (sampleKM [])), EvNewPatchHelper None,
      EvGetOwnerMachine (km_Meta (sampleKM [])) (Inr (Some (sampleMachine True))),
      EvGetClusterFromMetadata (mc_Meta (sampleMachine True)) (Inr (Some sampleCluster)),
      EvGetKubernetesCluster \<lparr>nn_Namespace = ''ns'', nn_Name = ''kc''\<rparr> (Inr sampleKC),
      EvGetPod (machinePodKey (sampleMachine True) (sampleKM [])) (Inl (StatusNotFound ''km'')),
      EvCreatePod pod None, EvPatchMachine (sampleKM []) km' None]"
proof -
  let ?km = "withFinalizers refLib (machine_reconcileVersion (sampleKM []) (sampleMachine True))"
  have "\<exists>pod. builtMachinePod refLib sampleCluster (sampleMachine True) ?km = Inr pod"
    by (rule refLib_builds) (simp add: sample_templates)
  then obtain pod where "builtMachinePod refLib sampleCluster (sampleMachine True) ?km = Inr pod" by blast
  moreover have "nn_Name (machinePodKey (sampleMachine True) (sampleKM [])) = ''km''"
    by (simp add: machinePodKey_def machinePodName_def)
  ultimately show ?thesis
    by (simp add: runDefs missingPodStep_def createMachinePod_eq createBuiltPod_def
        machinePodKey_withFinalizers [OF ref.kube_contract_axioms])
qed

theorem created_objects_wake_their_machine_witness:
  "\<exists>pod. EvCreatePod pod None \<in> set (snd (snd (sampleRun (foundClient (sampleKM []) (sampleMachine True) sampleCluster)))) \<and>
     PodToKubernetesMachine refLib (PodObject pod) = [sampleKey]"
proof -
  let ?cli = "foundClient (sampleKM []) (sampleMachine True) sampleCluster"
  obtain pod km' where log: "snd (snd (sampleRun ?cli)) =
     [EvGetKubernetesMachine sampleKey (Inr (sampleKM [])), EvNewPatchHelper None,
      EvGetOwnerMachine (km_Meta (sampleKM [])) (Inr (Some (sampleMachine True))),
      EvGetClusterFromMetadata (mc_Meta (sampleMachine True)) (Inr (Some sampleCluster)),
      EvGetKubernetesCluster \<lparr>nn_Namespace = ''ns'', nn_Name = ''kc''\<rparr> (Inr sampleKC),
      EvGetPod (machinePodKey (sampleMachine True) (sampleKM [])) (Inl (StatusNotFound ''km'')),
      EvCreatePod pod None, EvPatchMachine (sampleKM []) km' None]"
    using missing_sample_log by blast
  have ns: "om_Namespace (mc_Meta (sampleMachine True)) = ''ns''" "om_Namespace (cl_Meta sampleCluster) = ''ns''"
      "nn_Namespace sampleKey = ''ns''"
    by (simp_all add: sampleMachine_def sampleCluster_def sampleMeta_def emptyObjectMeta_def sampleKey_def)
  have g: "EvGetKubernetesMachine sampleKey (Inr (sampleKM [])) \<in> set (snd (snd (sampleRun ?cli)))" by (simp add: log)
  have k: "requestFor (om_Namespace (km_Meta (sampleKM []))) (om_Name (km_Meta (sampleKM []))) = sampleKey"
    by (simp add: requestFor_def sampleKey_def)
  have "EvCreatePod pod None \<in> set (snd (snd (sampleRun ?cli)))" by (simp add: log)
  then show ?thesis
    using created_objects_wake_their_machine [OF ref.kube_contract_axioms sampleRun_is_run g k] ns log by auto
qed

subsection \<open>What the cluster controller creates\<close>

lemma created_service_wakes_its_cluster:
  assumes "kube_contract lib"
    and "lib_SetControllerReference lib KubernetesClusterKind (kc_Meta kc) (svc_Meta (desiredService cluster kc)) = Inr meta"
    and "om_Namespace (cl_Meta cluster) = om_Namespace (kc_Meta kc)"
  shows "ServiceToKubernetesCluster lib (ServiceObject ((desiredService cluster kc)\<lparr>svc_Meta := meta\<rparr>)) =
    [requestFor (om_Namespace (kc_Meta kc)) (om_Name (kc_Meta kc))]"
  using controller_is_owner [OF assms(1,2)] kube_contract.set_controller_frame(2) [OF assms(1,2)] assms(3)
  by (intro services.wakes_owner) (simp_all add: desiredService_def Let_def)

subsection \<open>The machines of a cluster\<close>

lemma machineRequests_eq:
  "machineRequests ms result = result @ map machineRequest (filter (\<lambda>m. ref_Name (mc_InfrastructureRef m) \<noteq> []) ms)"
  by (induction ms result rule: machineRequests.induct) auto

text \<open>
  A change of a KubernetesCluster enqueues one request for every Machine of its cluster that has an
  infrastructure reference, under the name of the Machine; the KubernetesMachine the reference names
  is enqueued only if some such Machine happens to have the same name.
\<close>

theorem cluster_enqueues_machine_names:
  assumes "cli_GetOwnerCluster cli (kc_Meta kc) w = (Inr (Some cluster), w1)"
    and "cli_ListMachines cli (om_Namespace (kc_Meta kc)) [ClusterLabelName \<mapsto> om_Name (cl_Meta cluster)] w1 = (Inr ms, w2)"
  shows "fst (KubernetesClusterToKubernetesMachines cli (KubernetesClusterObject kc) (w, log)) =
      map machineRequest (filter (\<lambda>m. ref_Name (mc_InfrastructureRef m) \<noteq> []) ms) \<and>
    (\<forall>m. requestFor (om_Namespace (mc_Meta m)) (ref_Name (mc_InfrastructureRef m)) \<in>
        set (fst (KubernetesClusterToKubernetesMachines cli (KubernetesClusterObject kc) (w, log))) \<longleftrightarrow>
      (\<exists>m' \<in> set ms. ref_Name (mc_InfrastructureRef m') \<noteq> [] \<and>
         om_Namespace (mc_Meta m') = om_Namespace (mc_Meta m) \<and>
         om_Name (mc_Meta m') = ref_Name (mc_InfrastructureRef m)))"
proof -
  have "fst (KubernetesClusterToKubernetesMachines cli (KubernetesClusterObject kc) (w, log)) =
      map machineRequest (filter (\<lambda>m. ref_Name (mc_InfrastructureRef m) \<noteq> []) ms)"
    using assms by (simp add: KubernetesClusterToKubernetesMachines_def perform_def Let_def machineRequests_eq)
  then show ?thesis by (auto simp: machineRequest_def requestFor_def intro!: rev_image_eqI)
qed

definition listingClient :: "Machine list \<Rightarrow> unit kube_client" where
  "listingClient ms = emptyClient\<lparr>
     cli_GetOwnerCluster := (\<lambda>_ w. (Inr (Some sampleCluster), w)),
     cli_ListMachines := (\<lambda>ns sel w. (Inr ms, w))\<rparr>"

definition renamedMachine :: Machine where
  "renamedMachine = (sampleMachine True)\<lparr>mc_InfrastructureRef := \<lparr>ref_Name = ''km-7xk2'', ref_Rest = []\<rparr>\<rparr>"

theorem cluster_enqueues_machine_names_witness:
  "fst (KubernetesClusterToKubernetesMachines (listingClient [renamedMachine]) (KubernetesClusterObject newKC) ((), [])) =
     [machineRequest renamedMachine] \<and>
   requestFor ''ns'' ''km-7xk2'' \<notin> {machineRequest renamedMachine}"
proof -
  have m: "ref_Name (mc_InfrastructureRef renamedMachine) = ''km-7xk2''"
      "om_Name (mc_Meta renamedMachine) \<noteq> ''km-7xk2''" "om_Namespace (mc_Meta renamedMachine) = ''ns''"
    by (simp_all add: renamedMachine_def sampleMachine_def sampleMeta_def emptyObjectMeta_def)
  have "fst (KubernetesClusterToKubernetesMachines (listingClient [renamedMachine]) (KubernetesClusterObject newKC) ((), [])) =
      [machineRequest renamedMachine]"
    using cluster_enqueues_machine_names [of "listingClient [renamedMachine]" newKC "()" sampleCluster "()"
        "[renamedMachine]" "()" "[]"] m(1)
    by (auto simp: listingClient_def)
  then show ?thesis using m by (simp add: machineRequest_def requestFor_def)
qed

end
