(* ===== verification/Manager.thy ===== *)
theory Manager
  imports Watch_Map
begin

text \<open>
  The program itself: \<open>main\<close> of \<open>src/main.go\<close> and the two \<open>SetupWithManager\<close> of the controllers. The
  manager, the controller builder and the webhook builder belong to controller-runtime: a call to them
  is a \<open>ManagerCall\<close>, and the environment \<open>env\<close> answers it with an error or not. What is modelled is
  which calls are made, in which order, with which watches, and the exit code. Logging is left out.
\<close>

subsection \<open>Watches\<close>

datatype Mapper =
    MapPod
  | MapSecret
  | MapPersistentVolumeClaim
  | MapService
  | MapKubernetesCluster
  | MapMachineToInfrastructure string
  | MapClusterToInfrastructure string

record Watch =
  wa_Kind :: string
  wa_Mapper :: Mapper

record ControllerSpec =
  ctl_For :: string
  ctl_Watches :: "Watch list"

definition clusterController :: ControllerSpec where
  "clusterController = \<lparr>ctl_For = ''KubernetesCluster'', ctl_Watches =
     [\<lparr>wa_Kind = ''Cluster'', wa_Mapper = MapClusterToInfrastructure GroupVersion\<rparr>,
      \<lparr>wa_Kind = ''Cluster'', wa_Mapper = MapClusterToInfrastructure GroupVersion_v1alpha2\<rparr>,
      \<lparr>wa_Kind = ''Service'', wa_Mapper = MapService\<rparr>]\<rparr>"

definition machineController :: ControllerSpec where
  "machineController = \<lparr>ctl_For = ''KubernetesMachine'', ctl_Watches =
     [\<lparr>wa_Kind = ''Machine'', wa_Mapper = MapMachineToInfrastructure GroupVersion\<rparr>,
      \<lparr>wa_Kind = ''Machine'', wa_Mapper = MapMachineToInfrastructure GroupVersion_v1alpha2\<rparr>,
      \<lparr>wa_Kind = ''KubernetesCluster'', wa_Mapper = MapKubernetesCluster\<rparr>,
      \<lparr>wa_Kind = ''Pod'', wa_Mapper = MapPod\<rparr>,
      \<lparr>wa_Kind = ''Secret'', wa_Mapper = MapSecret\<rparr>,
      \<lparr>wa_Kind = ''PersistentVolumeClaim'', wa_Mapper = MapPersistentVolumeClaim\<rparr>]\<rparr>"

subsection \<open>Calls to the manager\<close>

record ManagerOptions =
  mo_MetricsBindAddress :: string
  mo_LeaderElection :: bool
  mo_LeaderElectionID :: string
  mo_Port :: int
  mo_Namespace :: string

datatype ManagerCall =
    NewManager ManagerOptions
  | BuildController ControllerSpec
  | ClusterToObjectsMapper string
  | WatchOnClusterPaused
  | NewCoreClient
  | WebhookFor string string
  | StartManager

type_synonym manager_env = "ManagerCall \<Rightarrow> go_error option"
type_synonym setup_result = "ManagerCall list \<times> go_error option"

text \<open>One call, and calls one after the other up to the first error.\<close>

definition call :: "manager_env \<Rightarrow> ManagerCall \<Rightarrow> setup_result" where
  "call env c = ([c], env c)"

definition thenSetup :: "setup_result \<Rightarrow> setup_result \<Rightarrow> setup_result" where
  "thenSetup a b =
     (case a of
        (cs, Some err) \<Rightarrow> (cs, Some err)
      | (cs, None) \<Rightarrow> (case b of (ds, r) \<Rightarrow> (cs @ ds, r)))"

definition cluster_SetupWithManager :: "manager_env \<Rightarrow> setup_result" where
  "cluster_SetupWithManager env = call env (BuildController clusterController)"

definition machine_SetupWithManager :: "manager_env \<Rightarrow> setup_result" where
  "machine_SetupWithManager env =
     thenSetup (call env (BuildController machineController))
       (thenSetup (call env (ClusterToObjectsMapper ''KubernetesMachineList''))
          (call env WatchOnClusterPaused))"

definition cluster_SetupWebhookWithManager :: "manager_env \<Rightarrow> setup_result" where
  "cluster_SetupWebhookWithManager env = call env (WebhookFor GroupVersion ''KubernetesCluster'')"

definition machine_SetupWebhookWithManager :: "manager_env \<Rightarrow> setup_result" where
  "machine_SetupWebhookWithManager env = call env (WebhookFor GroupVersion ''KubernetesMachine'')"

definition template_SetupWebhookWithManager :: "manager_env \<Rightarrow> setup_result" where
  "template_SetupWebhookWithManager env = call env (WebhookFor GroupVersion ''KubernetesMachineTemplate'')"

definition machine_SetupWebhookWithManager_v1alpha2 :: "manager_env \<Rightarrow> setup_result" where
  "machine_SetupWebhookWithManager_v1alpha2 env =
     call env (WebhookFor GroupVersion_v1alpha2 ''KubernetesMachine'')"

subsection \<open>The scheme\<close>

text \<open>The kinds a scheme knows. Each file of types registers its kind and the list of it with the builder of
  its version; \<open>init\<close> of \<open>src/main.go\<close> adds the core types, those of Cluster API (both parameters) and the
  two versions, and ignores the errors.\<close>

type_synonym registration = "string \<times> string"

definition register :: "string \<Rightarrow> string list \<Rightarrow> registration list \<Rightarrow> registration list" where
  "register gv kinds builder = builder @ map (Pair gv) kinds"

definition cluster_init :: "registration list \<Rightarrow> registration list" where
  "cluster_init = register GroupVersion [''KubernetesCluster'', ''KubernetesClusterList'']"

definition machine_init :: "registration list \<Rightarrow> registration list" where
  "machine_init = register GroupVersion [''KubernetesMachine'', ''KubernetesMachineList'']"

definition template_init :: "registration list \<Rightarrow> registration list" where
  "template_init = register GroupVersion [''KubernetesMachineTemplate'', ''KubernetesMachineTemplateList'']"

definition cluster_init_v1alpha2 :: "registration list \<Rightarrow> registration list" where
  "cluster_init_v1alpha2 = register GroupVersion_v1alpha2 [''KubernetesCluster'', ''KubernetesClusterList'']"

definition machine_init_v1alpha2 :: "registration list \<Rightarrow> registration list" where
  "machine_init_v1alpha2 = register GroupVersion_v1alpha2 [''KubernetesMachine'', ''KubernetesMachineList'']"

definition template_init_v1alpha2 :: "registration list \<Rightarrow> registration list" where
  "template_init_v1alpha2 =
     register GroupVersion_v1alpha2 [''KubernetesMachineTemplate'', ''KubernetesMachineTemplateList'']"

definition AddToScheme :: "registration list \<Rightarrow> registration list" where
  "AddToScheme scheme = scheme @ template_init (machine_init (cluster_init []))"

definition AddToScheme_v1alpha2 :: "registration list \<Rightarrow> registration list" where
  "AddToScheme_v1alpha2 scheme = scheme @ template_init_v1alpha2 (machine_init_v1alpha2 (cluster_init_v1alpha2 []))"

definition main_init :: "registration list \<Rightarrow> registration list \<Rightarrow> registration list" where
  "main_init clientgo clusterapi = AddToScheme_v1alpha2 (AddToScheme (([] @ clientgo) @ clusterapi))"

lemmas scheme_defs = main_init_def AddToScheme_def AddToScheme_v1alpha2_def register_def cluster_init_def
  machine_init_def template_init_def cluster_init_v1alpha2_def machine_init_v1alpha2_def template_init_v1alpha2_def

subsection \<open>main\<close>

definition leaderElectionID :: string where
  "leaderElectionID = ''controller-leader-election-capk''"

record Flags =
  fl_metricsAddr :: string
  fl_watchNamespace :: string
  fl_webhookPort :: int
  fl_enableLeaderElection :: bool
  fl_debug :: bool

definition defaultFlags :: Flags where
  "defaultFlags = \<lparr>fl_metricsAddr = '':8080'', fl_watchNamespace = [], fl_webhookPort = 0,
     fl_enableLeaderElection = False, fl_debug = False\<rparr>"

definition managerOptions :: "Flags \<Rightarrow> ManagerOptions" where
  "managerOptions f = \<lparr>mo_MetricsBindAddress = fl_metricsAddr f, mo_LeaderElection = fl_enableLeaderElection f,
     mo_LeaderElectionID = leaderElectionID, mo_Port = fl_webhookPort f, mo_Namespace = fl_watchNamespace f\<rparr>"

text \<open>Every error is logged and ends the process with exit code 1.\<close>

definition main :: "manager_env \<Rightarrow> Flags \<Rightarrow> ManagerCall list \<times> nat" where
  "main env f =
     (let components =
            (if fl_webhookPort f = 0
             then thenSetup (cluster_SetupWithManager env)
                    (thenSetup (call env NewCoreClient) (machine_SetupWithManager env))
             else thenSetup (cluster_SetupWebhookWithManager env)
                    (thenSetup (machine_SetupWebhookWithManager env)
                       (thenSetup (template_SetupWebhookWithManager env)
                          (machine_SetupWebhookWithManager_v1alpha2 env))));
          run = thenSetup (call env (NewManager (managerOptions f))) (thenSetup components (call env StartManager))
      in (fst run, if snd run = None then 0 else 1))"

subsection \<open>The plan of the calls\<close>

definition setupPlan :: "Flags \<Rightarrow> ManagerCall list" where
  "setupPlan f =
     NewManager (managerOptions f) #
     (if fl_webhookPort f = 0
      then [BuildController clusterController, NewCoreClient, BuildController machineController,
            ClusterToObjectsMapper ''KubernetesMachineList'', WatchOnClusterPaused]
      else [WebhookFor GroupVersion ''KubernetesCluster'', WebhookFor GroupVersion ''KubernetesMachine'',
            WebhookFor GroupVersion ''KubernetesMachineTemplate'', WebhookFor GroupVersion_v1alpha2 ''KubernetesMachine'']) @
     [StartManager]"

fun runPlan :: "manager_env \<Rightarrow> ManagerCall list \<Rightarrow> setup_result" where
  "runPlan env [] = ([], None)"
| "runPlan env (c # cs) =
     (case env c of Some err \<Rightarrow> ([c], Some err) | None \<Rightarrow> (case runPlan env cs of (ds, r) \<Rightarrow> (c # ds, r)))"

lemma call_runPlan: "call env c = runPlan env [c]"
  by (simp add: call_def split: option.split)

lemma thenSetup_runPlan: "thenSetup (runPlan env cs) (runPlan env ds) = runPlan env (cs @ ds)"
  by (induction cs) (auto simp: thenSetup_def split: option.split prod.split)

lemma main_runPlan: "main env f = (fst (runPlan env (setupPlan f)), if snd (runPlan env (setupPlan f)) = None then 0 else 1)"
  unfolding main_def cluster_SetupWithManager_def machine_SetupWithManager_def cluster_SetupWebhookWithManager_def
    machine_SetupWebhookWithManager_def template_SetupWebhookWithManager_def machine_SetupWebhookWithManager_v1alpha2_def
    call_runPlan thenSetup_runPlan setupPlan_def Let_def
  by (cases "fl_webhookPort f = 0") (simp_all only: simp_thms if_True if_False thenSetup_runPlan append_Cons append_Nil)

lemma runPlan_prefix: "\<exists>rest. fst (runPlan env cs) @ rest = cs"
  by (induction cs) (auto split: option.split prod.split)

lemma runPlan_ok_iff: "snd (runPlan env cs) = None \<longleftrightarrow> (\<forall>c \<in> set cs. env c = None)"
  by (induction cs) (auto split: option.split prod.split)

lemma runPlan_complete: "snd (runPlan env cs) = None \<Longrightarrow> fst (runPlan env cs) = cs"
  by (induction cs) (auto split: option.split_asm prod.splits)

lemma setupPlan_registered:
  "WebhookFor gv kind \<in> set (setupPlan f) \<Longrightarrow> (gv, kind) \<in> set (main_init clientgo clusterapi)"
  "BuildController spec \<in> set (setupPlan f) \<Longrightarrow> (GroupVersion, ctl_For spec) \<in> set (main_init clientgo clusterapi)"
  by (auto simp: setupPlan_def scheme_defs clusterController_def machineController_def split: if_splits)

text \<open>
  C37. The process is either the controllers or the webhook server, never both: with webhook port 0 it
  sets up the two controllers and no webhook, with any other port the four webhooks and no
  controller. The calls are made in the order of the plan up to the first error; the exit code is 0
  exactly when none of them fails. Controllers and webhooks are only set up for kinds that \<open>init\<close> has
  registered with the scheme.
\<close>

theorem main_controllers_or_webhooks:
  "(\<exists>rest. fst (main env f) @ rest = setupPlan f) \<and>
   (snd (main env f) = 0 \<longleftrightarrow> fst (main env f) = setupPlan f \<and> list_all (\<lambda>c. env c = None) (setupPlan f)) \<and>
   (fl_webhookPort f \<noteq> 0 \<longrightarrow> (\<forall>spec. BuildController spec \<notin> set (fst (main env f)))) \<and>
   (fl_webhookPort f = 0 \<longrightarrow> (\<forall>gv kind. WebhookFor gv kind \<notin> set (fst (main env f)))) \<and>
   (\<forall>gv kind. WebhookFor gv kind \<in> set (fst (main env f)) \<longrightarrow> (gv, kind) \<in> set (main_init clientgo clusterapi)) \<and>
   (\<forall>spec. BuildController spec \<in> set (fst (main env f)) \<longrightarrow>
      (GroupVersion, ctl_For spec) \<in> set (main_init clientgo clusterapi))"
proof -
  obtain rest where rest: "fst (main env f) @ rest = setupPlan f"
    using runPlan_prefix [of env "setupPlan f"] by (auto simp: main_runPlan)
  have sub: "set (fst (main env f)) \<subseteq> set (setupPlan f)" using rest by (metis set_append Un_upper1)
  have "snd (main env f) = 0 \<longleftrightarrow> fst (main env f) = setupPlan f \<and> list_all (\<lambda>c. env c = None) (setupPlan f)"
    using runPlan_ok_iff [of env "setupPlan f"] runPlan_complete [of env "setupPlan f"]
    by (auto simp: main_runPlan list_all_iff)
  moreover have "fl_webhookPort f \<noteq> 0 \<longrightarrow> BuildController spec \<notin> set (fst (main env f))" for spec
    using sub by (auto simp: setupPlan_def)
  moreover have "fl_webhookPort f = 0 \<longrightarrow> WebhookFor gv kind \<notin> set (fst (main env f))" for gv kind
    using sub by (auto simp: setupPlan_def)
  moreover have "(gv, kind) \<in> set (main_init clientgo clusterapi)" if "WebhookFor gv kind \<in> set (fst (main env f))" for gv kind
    by (rule setupPlan_registered(1) [OF subsetD [OF sub that]])
  moreover have "(GroupVersion, ctl_For spec) \<in> set (main_init clientgo clusterapi)"
    if "BuildController spec \<in> set (fst (main env f))" for spec
    by (rule setupPlan_registered(2) [OF subsetD [OF sub that]])
  ultimately show ?thesis using rest by blast
qed

theorem main_controllers_or_webhooks_witness:
  "snd (main (\<lambda>_. None) defaultFlags) = 0 \<and> fst (main (\<lambda>_. None) defaultFlags) = setupPlan defaultFlags \<and>
   WebhookFor GroupVersion ''KubernetesMachine'' \<notin> set (fst (main (\<lambda>_. None) defaultFlags))"
proof -
  have port: "fl_webhookPort defaultFlags = 0" by (simp add: defaultFlags_def)
  have "snd (main (\<lambda>_. None) defaultFlags) = 0"
    by (simp add: main_def call_def thenSetup_def cluster_SetupWithManager_def machine_SetupWithManager_def port)
  then show ?thesis using main_controllers_or_webhooks [of "\<lambda>_. None" defaultFlags] port by blast
qed

end
