(* ===== verification/System.thy ===== *)
theory System
  imports Manager
begin

text \<open>
  Properties that span the components: the Service of a cluster against the Pods of its machines, and
  the volumes of a Pod against the bootstrap Secret that fills them.
\<close>

subsection \<open>The Service and the Pods\<close>

lemma selector_matches_labels:
  assumes "om_Labels m = Some (machinePodLabels lib cluster machine)"
  shows "selectorMatches (clusterSelector cluster) m \<longleftrightarrow> lib_IsControlPlaneMachine lib machine"
  using assms by (auto simp: selectorMatches_def clusterSelector_def machinePodLabels_def map_le_def split: if_splits)

lemma built_kind_container:
  assumes "kube_contract lib" and "builtMachinePod lib cluster machine km = Inr pod"
  obtains k k' where "k' \<in> set (podContainers pod)" "kindEnsured lib cluster machine k k'"
proof -
  let ?cs = "elems (ps_Containers (kms_PodSpec (km_Spec km)))"
  obtain res i c where p: "podContainers pod = (if findLastIndex (\<lambda>c. c_Name c = kindContainerName) ?cs = None
        then ?cs @ [emptyContainer] else ?cs) [i := finishContainer lib cluster machine (kindContainerOf machine res c)]"
    and i: "i < length (podContainers pod)"
    by (rule builtMachinePod_containers [OF assms refl])
  have "finishContainer lib cluster machine (kindContainerOf machine res c) \<in> set (podContainers pod)"
    using i unfolding p length_list_update by (rule set_update_memI)
  then show thesis using that kindEnsured_finish by blast
qed



subsection \<open>The volumes of a Pod and the bootstrap Secret\<close>

lemma setKindContainerBase_volumes:
  assumes "setKindContainerBase machine pod = (pod', i)"
  shows "ps_Volumes (pod_Spec pod') = ps_Volumes (pod_Spec pod)"
proof -
  obtain pod0 res where f: "findKindContainer pod = (pod0, i)"
    and p: "pod' = setContainers
       ((podContainers pod0)[i := kindContainerOf machine res (podContainers pod0 ! i)]) pod0"
    using assms by (rule setKindContainerBase_eq)
  have "ps_Volumes (pod_Spec pod0) = ps_Volumes (pod_Spec pod)"
    using f by (auto simp: findKindContainer_def Let_def split: option.splits)
  then show ?thesis by (simp add: p)
qed

text \<open>Where a volume of a created Pod comes from.\<close>

lemma builtMachinePod_volume:
  assumes "kube_contract lib" and "builtMachinePod lib cluster machine km = Inr pod"
    and "v \<in> set (ps_Volumes (pod_Spec pod))"
  shows "v \<in> set (ps_Volumes (kms_PodSpec (km_Spec km))) \<or> v \<in> set (defaultVolumes km) \<or>
    v = varLibEtcdVolume \<or> (\<exists>n ro. v_Source v = ClaimSource n ro)"
proof -
  obtain base meta pod1 pod2 i where b: "getMachinePodBase lib cluster km = Inr base"
    and u: "updateStorage lib km (base\<lparr>pod_Meta := meta\<rparr>) = Inr pod1"
    and k: "setKindContainerBase machine pod1 = (pod2, i)" and p: "pod = finishPod lib cluster machine i pod2"
    using assms(1,2) by (rule builtMachinePod_eq)
  have "v \<in> set (ps_Volumes (pod_Spec pod2)) \<or> v = varLibEtcdVolume"
    using assms(3) by (auto simp: p finishPod_def addVolume_def split: if_splits)
  moreover have "ps_Volumes (pod_Spec pod2) = ps_Volumes (pod_Spec pod1)"
    by (rule setKindContainerBase_volumes [OF k])
  moreover have "v \<in> set (ps_Volumes (pod_Spec base)) \<or> (\<exists>n ro. v_Source v = ClaimSource n ro)"
    if "v \<in> set (ps_Volumes (pod_Spec pod1))"
    by (rule updateStorage_volumes [OF u]) (use that in \<open>auto simp: claimVolume_def\<close>)
  moreover have "v \<in> set (ps_Volumes (kms_PodSpec (km_Spec km))) \<or> v \<in> set (defaultVolumes km)"
    if "v \<in> set (ps_Volumes (pod_Spec base))"
    using that volumes.set_fold by (auto simp: getMachinePodBase_spec(5) [OF assms(1) b])
  ultimately show ?thesis by auto
qed

lemma defaultVolumes_secret:
  assumes "v \<in> set (defaultVolumes km)" and "v_Source v = SecretSource n items mode"
  shows "n = cloudInitSecretName km \<and> kp_Key ` set items \<subseteq> dom (cloudInitSecretData script)"
  using assms by (auto simp: defaultVolumes_def volumeDefs keyItem_def cloudInitSecretData_def)

lemma defaultVolumes_distinct: "distinct (map v_Name (defaultVolumes km))"
  by (simp add: defaultVolumes_def volumeDefs)

text \<open>A default volume that neither the user nor a claim template replaces is there.\<close>

lemma builtMachinePod_default_volume:
  assumes "kube_contract lib" and "builtMachinePod lib cluster machine km = Inr pod" and "v \<in> set (defaultVolumes km)"
    and "v_Name v \<notin> templateNames km" and "v_Name v \<notin> v_Name ` set (ps_Volumes (kms_PodSpec (km_Spec km)))"
  shows "v \<in> set (ps_Volumes (pod_Spec pod))"
proof -
  obtain base meta pod1 pod2 i where b: "getMachinePodBase lib cluster km = Inr base"
    and u: "updateStorage lib km (base\<lparr>pod_Meta := meta\<rparr>) = Inr pod1"
    and k: "setKindContainerBase machine pod1 = (pod2, i)" and p: "pod = finishPod lib cluster machine i pod2"
    using assms(1,2) by (rule builtMachinePod_eq)
  let ?vs = "fold addVolume (defaultVolumes km) (ps_Volumes (kms_PodSpec (km_Spec km)))"
  obtain v' where v': "v' \<in> set ?vs" "v_Name v' = v_Name v"
    using assms(3) volumes.keys_fold [of "defaultVolumes km" "ps_Volumes (kms_PodSpec (km_Spec km))"] by force
  then have "v' \<in> set (defaultVolumes km)" using volumes.set_fold [OF v'(1)] v'(2) assms(5) by (metis imageI)
  then have "v' = v"
    using v'(2) assms(3) defaultVolumes_distinct [of km] by (auto simp: distinct_map dest: inj_onD)
  then have "v \<in> set (ps_Volumes (pod_Spec base))" using v'(1) by (simp add: getMachinePodBase_spec(5) [OF assms(1) b])
  moreover obtain claims where c: "getPersistentVolumeClaims lib km = Inr claims"
    and "ps_Volumes (pod_Spec pod1) = map claimVolume (lib_RangeOrder lib claims) @
          filter (\<lambda>v. v_Name v \<notin> fst ` set claims) (ps_Volumes (pod_Spec base))"
    by (rule updateStorage_volumes [OF u]) simp
  moreover have "fst ` set claims = templateNames km"
    using claimsLoop_spec(2) [OF c [unfolded getPersistentVolumeClaims_def]] by (simp add: templateNames_def comp_def)
  ultimately have "v \<in> set (ps_Volumes (pod_Spec pod2))"
    using assms(4) by (simp add: setKindContainerBase_volumes [OF k])
  then show ?thesis by (simp add: p finishPod_def volumes.add_mono)
qed

lemma sample_volume:
  assumes "pod \<in> set (sampleRequests True [])"
  shows "cloudInitScriptsVolume (sampleKM []) \<in> set (ps_Volumes (pod_Spec pod))"
    and "ps_Volumes (kms_PodSpec (km_Spec (sampleKM []))) = []"
proof -
  show "ps_Volumes (kms_PodSpec (km_Spec (sampleKM []))) = []" by (simp add: sampleKM_def)
  then show "cloudInitScriptsVolume (sampleKM []) \<in> set (ps_Volumes (pod_Spec pod))"
    by (intro builtMachinePod_default_volume [OF ref.kube_contract_axioms createMachinePod_requests [OF assms]])
      (simp_all add: defaultVolumes_def templateNames_def sampleKM_def sampleMeta_def cloudInitScriptsVolume_def)
qed

text \<open>
  C25. Every Secret volume that the controller adds to a Pod can be mounted once the bootstrap Secret of
  the machine is there: it names that Secret and only keys that the Secret holds. Only volumes of the
  user's own Pod spec may refer to anything else.
\<close>

theorem pod_secret_volumes_are_served:
  assumes "kube_contract lib"
    and "pod \<in> set (requestedPods (snd (snd (createMachinePod lib cli cluster machine km (w, [])))))"
    and "generatateCloudInitSecret lib cloud cluster machine km (EncodeToString doc) = Returned (Inr secret)"
    and "v \<in> set (ps_Volumes (pod_Spec pod))" and "v \<notin> set (ps_Volumes (kms_PodSpec (km_Spec km)))"
    and "v_Source v = SecretSource n items mode"
  shows "om_Name (sec_Meta secret) = n \<and> kp_Key ` set items \<subseteq> dom (sec_StringData secret)"
proof -
  have "v \<in> set (defaultVolumes km)"
    using builtMachinePod_volume [OF assms(1) createMachinePod_requests [OF assms(2)] assms(4)] assms(5,6)
    by (auto simp: varLibEtcdVolume_def)
  moreover have "om_Name (sec_Meta secret) = cloudInitSecretName km \<and> (\<exists>script. sec_StringData secret = cloudInitSecretData script)"
    by (rule scriptSecret_ok [OF assms(1) assms(3) [folded scriptSecret_def]]) blast
  ultimately show ?thesis using defaultVolumes_secret [OF _ assms(6)] by metis
qed

theorem pod_secret_volumes_are_served_witness:
  "\<exists>pod secret. sampleRequests True [] = [pod] \<and>
     generatateCloudInitSecret refLib (sampleCloud []) sampleCluster (sampleMachine True) (sampleKM []) (EncodeToString sampleDoc) =
       Returned (Inr secret) \<and>
     om_Name (sec_Meta secret) = ''km-cloud-init'' \<and>
     cloudInitBootstrapScriptName \<in> dom (sec_StringData secret)"
proof -
  obtain pod where s: "sampleRequests True [] = [pod]" and m: "pod \<in> set (sampleRequests True [])"
    by (rule sample_requests)
  have "om_UID (km_Meta (sampleKM [])) = ''u2''" by simp
  then obtain secret where g: "generatateCloudInitSecret refLib (sampleCloud []) sampleCluster (sampleMachine True)
      (sampleKM []) (EncodeToString sampleDoc) = Returned (Inr secret)"
    using sample_secret [of "sampleKM []" sampleCluster "sampleMachine True"] unfolding scriptSecret_def by blast
  let ?v = "cloudInitScriptsVolume (sampleKM [])"
  have v: "?v \<in> set (ps_Volumes (pod_Spec pod))" "?v \<notin> set (ps_Volumes (kms_PodSpec (km_Spec (sampleKM []))))"
    using sample_volume [OF m] by simp_all
  have src: "v_Source ?v = SecretSource ''km-cloud-init''
      [keyItem cloudInitBootstrapScriptName, keyItem cloudInitInstallScriptName] (Some 320)"
    by (simp add: cloudInitScriptsVolume_def cloudInitSecretName_def machinePodName_def)
  show ?thesis
    using pod_secret_volumes_are_served [OF ref.kube_contract_axioms m g v src] s g by (auto simp: keyItem_def)
qed

end
