(* ===== verification/Control_Loop.thy ===== *)
theory Control_Loop
  imports Kube_Client
begin

text \<open>
  Reconciling again and again. \<open>answers\<close> and \<open>serves\<close> state what a call to the environment answers and
  which part of the world it keeps; \<open>loopRounds\<close> iterates a reconcile; the locale \<open>control_loop\<close> holds
  what follows for a controller whose reconcile acts on the stored objects as a function that becomes
  stationary after a number of steps. It is interpreted on both controllers.
\<close>

subsection \<open>Calls that keep part of the world\<close>

text \<open>As long as the world satisfies \<open>I\<close>, the answer satisfies \<open>P\<close> and \<open>I\<close> is kept.\<close>

definition answers :: "('w \<Rightarrow> bool) \<Rightarrow> ('w \<Rightarrow> 'r \<times> 'w) \<Rightarrow> ('r \<Rightarrow> bool) \<Rightarrow> bool" where
  "answers I call P \<longleftrightarrow> (\<forall>w. I w \<longrightarrow> P (fst (call w)) \<and> I (snd (call w)))"

text \<open>The answer is right for the view of the world, and the call keeps the view.\<close>

definition serves :: "('w \<Rightarrow> 'v) \<Rightarrow> ('w \<Rightarrow> 'r \<times> 'w) \<Rightarrow> ('v \<Rightarrow> 'r \<Rightarrow> bool) \<Rightarrow> bool" where
  "serves view call P \<longleftrightarrow> (\<forall>w. P (view w) (fst (call w)) \<and> view (snd (call w)) = view w)"

text \<open>The key an object is stored under.\<close>

definition keyOf :: "ObjectMeta \<Rightarrow> NamespacedName" where
  "keyOf m = \<lparr>nn_Namespace = om_Namespace m, nn_Name = om_Name m\<rparr>"

lemma keyOf_finalizers [simp]: "keyOf (m\<lparr>om_Finalizers := fs\<rparr>) = keyOf m"
  by (simp add: keyOf_def)

lemma serves_answers: "serves view call P \<Longrightarrow> answers (\<lambda>w. view w = v) call (P v)"
  by (auto simp: serves_def answers_def)

lemma serves_const: "serves view call (\<lambda>_. P) \<Longrightarrow> answers (\<lambda>w. view w = v) call P"
  by (rule serves_answers [where P = "\<lambda>_. P"])

lemma performs:
  assumes "answers I call P" and "I (fst s)"
  obtains r s' where "perform ev call s = (r, s')" "P r" "I (fst s')"
  using assms by (cases "call (fst s)") (force simp: answers_def perform_def)

lemma performs_eq:
  assumes "answers I call (\<lambda>x. x = r)" and "I (fst s)"
  obtains s' where "perform ev call s = (r, s')" "I (fst s')"
  by (rule performs [OF assms]) (auto intro: that)

text \<open>A call that changes the world.\<close>

lemma performs_change:
  assumes "fst (call (fst s)) = r"
  obtains s' where "perform ev call s = (r, s')" "fst s' = snd (call (fst s))" "snd s' = snd s @ [ev r]"
  using assms by (cases "call (fst s)") (simp add: perform_def)

subsection \<open>Rounds\<close>

primrec loopRounds :: "('s \<Rightarrow> 'r \<times> 's) \<Rightarrow> nat \<Rightarrow> 's \<Rightarrow> 'r list \<times> 's" where
  "loopRounds reconcile 0 s = ([], s)"
| "loopRounds reconcile (Suc n) s =
     (case reconcile s of (r, s1) \<Rightarrow> case loopRounds reconcile n s1 of (rs, s2) \<Rightarrow> (r # rs, s2))"

text \<open>A loop that changes the first of two stored objects.\<close>

lemma apfst_funpow: "(apfst f ^^ n) v = apfst (f ^^ n) v" for f :: "'a \<Rightarrow> 'a"
  by (induction n) (cases v; simp)+

locale control_loop =
  fixes reconcile :: "'s \<Rightarrow> 'r \<times> 's" and view :: "'s \<Rightarrow> 'v" and follow :: "'v \<Rightarrow> 'v" and ok :: "'v \<Rightarrow> bool"
    and quiet :: 'r and bound :: nat
  assumes round: "ok (view s) \<Longrightarrow> \<exists>s'. reconcile s = (quiet, s') \<and> view s' = follow (view s)"
    and follow_ok: "ok v \<Longrightarrow> ok (follow v)"
    and follow_stable: "ok v \<Longrightarrow> follow ((follow ^^ bound) v) = (follow ^^ bound) v"
begin

lemma follow_settles: "ok v \<Longrightarrow> (follow ^^ (n + bound)) v = (follow ^^ bound) v"
  by (induction n) (simp_all add: follow_stable)

lemma rounds:
  "ok (view s) \<Longrightarrow> \<exists>s'. loopRounds reconcile n s = (replicate n quiet, s') \<and> view s' = (follow ^^ n) (view s)"
proof (induction n arbitrary: s)
  case (Suc n)
  obtain s1 where s1: "reconcile s = (quiet, s1)" "view s1 = follow (view s)" using round [OF Suc.prems] by blast
  then show ?case using Suc.IH [of s1] follow_ok [OF Suc.prems] by (auto simp: funpow_swap1)
qed simp

lemma rounds_settle:
  "ok (view s) \<Longrightarrow>
    \<exists>s'. loopRounds reconcile (n + bound) s = (replicate (n + bound) quiet, s') \<and> view s' = (follow ^^ bound) (view s)"
  using rounds [of s "n + bound"] by (simp only: follow_settles)

end

end
