(* ===== verification/Machine_Progress.thy ===== *)
theory Machine_Progress
  imports Machine_Properties Control_Loop
begin

text \<open>
  Progress of a machine: what \<open>Reconcile\<close> reaches when its environment is healthy. \<open>healthyObjects\<close> and
  \<open>healthyClient\<close> collect what the machine needs: the objects it depends on are found, its Pod is its own, running and ready,
  requests to write succeed (or the object is there already), and commands in the Pods succeed. The
  answers may differ from call to call and the world may change in any way otherwise.
\<close>

text \<open>What a machine depends on: the key it is stored under, its owners, its Pod and its cloud-config.\<close>

record environment =
  en_key :: NamespacedName
  en_machine :: Machine
  en_cluster :: Cluster
  en_pod :: Pod
  en_doc :: string

text \<open>The machine is alive and everything it depends on is there.\<close>

definition liveObjects :: "kube_lib \<Rightarrow> KubernetesMachine \<Rightarrow> environment \<Rightarrow> bool" where
  "liveObjects lib km en \<longleftrightarrow> keyOf (km_Meta km) = en_key en \<and>
     om_Namespace (cl_Meta (en_cluster en)) = om_Namespace (mc_Meta (en_machine en)) \<and>
     timeIsZero (om_DeletionTimestamp (km_Meta km)) \<and> \<not> machineFailed km \<and>
     mc_DataSecretName (en_machine en) \<noteq> None \<and>
     cl_InfrastructureRef (en_cluster en) \<noteq> None \<and> cl_InfrastructureReady (en_cluster en) \<and>
     \<not> lib_IsPaused lib (en_cluster en) (km_Meta km) \<and>
     (\<forall>m. lib_GetControllerOf lib m = None \<longrightarrow> (\<forall>kind owner. \<exists>m'. lib_SetControllerReference lib kind owner m = Inr m')) \<and>
     lib_GetControllerOf lib emptyObjectMeta = None \<and>
     (\<forall>t \<in> set (kms_VolumeClaimTemplates (km_Spec km)). lib_GetControllerOf lib (pvc_Meta t) = None)"

definition healthyObjects :: "kube_lib \<Rightarrow> cloud_lib \<Rightarrow> KubernetesMachine \<Rightarrow> environment \<Rightarrow> bool" where
  "healthyObjects lib cloud km en \<longleftrightarrow> liveObjects lib km en \<and>
     controlledBy lib (pod_Meta (en_pod en)) (om_UID (km_Meta km)) \<and>
     timeIsZero (om_DeletionTimestamp (pod_Meta (en_pod en))) \<and> IsPodReady (en_pod en) \<and>
     (\<exists>cst. GetContainerStatus (pst_ContainerStatuses (pod_Status (en_pod en))) kindContainerName = (cst, True) \<and>
        cs_Ready cst \<and> st_Running (cs_State cst) \<noteq> None \<and> st_Terminated (cs_State cst) = None) \<and>
     (\<exists>script. GenerateScript cloud (en_doc en) = Returned (Inr script))"

text \<open>
  The clients below answer as a healthy cluster does in the worlds of \<open>I\<close>, and none of their calls leaves \<open>I\<close>. They
  promise nothing about the objects of other machines: only the calls for this machine are constrained.
\<close>

definition podKeyOf :: "environment \<Rightarrow> NamespacedName" where
  "podKeyOf en = \<lparr>nn_Namespace = om_Namespace (mc_Meta (en_machine en)), nn_Name = nn_Name (en_key en)\<rparr>"

definition infraKeyOf :: "environment \<Rightarrow> ObjectReference \<Rightarrow> NamespacedName" where
  "infraKeyOf en ref = \<lparr>nn_Namespace = nn_Namespace (en_key en), nn_Name = ref_Name ref\<rparr>"

lemma live_keys:
  assumes "keyOf (km_Meta km) = en_key en"
  shows "machinePodKey (en_machine en) km = podKeyOf en" "infraKey km ref = infraKeyOf en ref"
  using arg_cong [OF assms, of nn_Name] arg_cong [OF assms, of nn_Namespace]
  by (simp_all add: machinePodKey_def machinePodName_def podKeyOf_def infraKey_def infraKeyOf_def keyOf_def)

definition reachingClient :: "'w kube_client \<Rightarrow> ('w \<Rightarrow> bool) \<Rightarrow> environment \<Rightarrow> bool" where
  "reachingClient cli I en \<longleftrightarrow>
     answers I (cli_NewPatchHelper cli) (\<lambda>r. r = None) \<and>
     (\<forall>m. keyOf m = en_key en \<longrightarrow> answers I (cli_GetOwnerMachine cli m) (\<lambda>r. r = Inr (Some (en_machine en)))) \<and>
     answers I (cli_GetClusterFromMetadata cli (mc_Meta (en_machine en))) (\<lambda>r. r = Inr (Some (en_cluster en))) \<and>
     (\<forall>ref. cl_InfrastructureRef (en_cluster en) = Some ref \<longrightarrow>
        answers I (cli_GetKubernetesCluster cli (infraKeyOf en ref)) (\<lambda>r. \<exists>kc. r = Inr kc))"

definition healthyClient :: "'w kube_client \<Rightarrow> ('w \<Rightarrow> bool) \<Rightarrow> environment \<Rightarrow> bool" where
  "healthyClient cli I en \<longleftrightarrow> reachingClient cli I en \<and>
     answers I (cli_GetPod cli (podKeyOf en)) (\<lambda>r. r = Inr (en_pod en)) \<and>
     (\<forall>k. answers I (cli_GetClaim cli k) (\<lambda>r. \<forall>e. r = Some e \<longrightarrow> IsNotFound e)) \<and>
     (\<forall>ns c. answers I (cli_CreateClaim cli ns c) (\<lambda>r. r = None)) \<and>
     (\<forall>n. mc_DataSecretName (en_machine en) = Some n \<longrightarrow> answers I (cli_GetSecret cli (dataSecretKey (en_machine en) n))
        (\<lambda>r. \<exists>sec. r = Inr sec \<and> sec_Data sec ''value'' = Some (en_doc en))) \<and>
     (\<forall>x. answers I (cli_CreateSecret cli x) (\<lambda>r. r = Inr x \<or> (\<exists>e. r = Inl e \<and> IsAlreadyExists e))) \<and>
     answers I (cli_ListPods cli (om_Namespace (cl_Meta (en_cluster en))) (controllerSelector (en_cluster en)))
       (\<lambda>r. \<exists>cp cps. r = Inr (cp # cps)) \<and>
     (\<forall>er. answers I (cli_Exec cli er) execSucceeded)"

lemma reachingClientD:
  assumes "reachingClient cli I en"
  shows "answers I (cli_NewPatchHelper cli) (\<lambda>r. r = None)"
    "keyOf m = en_key en \<Longrightarrow> answers I (cli_GetOwnerMachine cli m) (\<lambda>r. r = Inr (Some (en_machine en)))"
    "answers I (cli_GetClusterFromMetadata cli (mc_Meta (en_machine en))) (\<lambda>r. r = Inr (Some (en_cluster en)))"
    "cl_InfrastructureRef (en_cluster en) = Some ref \<Longrightarrow>
       answers I (cli_GetKubernetesCluster cli (infraKeyOf en ref)) (\<lambda>r. \<exists>kc. r = Inr kc)"
  using assms unfolding reachingClient_def by blast+

lemma healthyClientD:
  assumes "healthyClient cli I en"
  shows "reachingClient cli I en" "answers I (cli_GetPod cli (podKeyOf en)) (\<lambda>r. r = Inr (en_pod en))"
    "answers I (cli_GetClaim cli k) (\<lambda>r. \<forall>e. r = Some e \<longrightarrow> IsNotFound e)"
    "answers I (cli_CreateClaim cli ns c) (\<lambda>r. r = None)"
    "mc_DataSecretName (en_machine en) = Some n \<Longrightarrow> answers I (cli_GetSecret cli (dataSecretKey (en_machine en) n))
       (\<lambda>r. \<exists>sec. r = Inr sec \<and> sec_Data sec ''value'' = Some (en_doc en))"
    "answers I (cli_CreateSecret cli x) (\<lambda>r. r = Inr x \<or> (\<exists>e. r = Inl e \<and> IsAlreadyExists e))"
    "answers I (cli_ListPods cli (om_Namespace (cl_Meta (en_cluster en))) (controllerSelector (en_cluster en)))
       (\<lambda>r. \<exists>cp cps. r = Inr (cp # cps))"
    "answers I (cli_Exec cli er) execSucceeded"
  using assms unfolding healthyClient_def by blast+

lemma liveObjectsD:
  assumes "liveObjects lib km en"
  shows "lib_GetControllerOf lib m = None \<Longrightarrow> \<exists>m'. lib_SetControllerReference lib kind owner m = Inr m'"
    "lib_GetControllerOf lib emptyObjectMeta = None"
    "t \<in> set (kms_VolumeClaimTemplates (km_Spec km)) \<Longrightarrow> lib_GetControllerOf lib (pvc_Meta t) = None"
  using assms unfolding liveObjects_def by blast+

lemma healthyObjectsD:
  assumes "healthyObjects lib cloud km en"
  shows "liveObjects lib km en" "IsPodReady (en_pod en)" "mc_DataSecretName (en_machine en) \<noteq> None"
  using assms unfolding healthyObjects_def liveObjects_def by blast+

subsection \<open>The steps\<close>

lemma exec_succeeds:
  assumes "\<And>er. answers I (cli_Exec cli er) execSucceeded" and "I (fst s)"
  obtains s' where "kindContainerExec cli pod command args s = (None, s')" "I (fst s')"
proof -
  obtain a s' where "perform (EvExec (kindExecRequest pod (command # args)))
      (cli_Exec cli (kindExecRequest pod (command # args))) s = (a, s')" "execSucceeded a" "I (fst s')"
    by (rule performs [OF assms])
  then show thesis using that by (simp add: kindContainerExec_eq)
qed

lemma bootstrapStep_progress:
  assumes "\<And>er. answers I (cli_Exec cli er) execSucceeded"
    and "answers I (cli_ListPods cli (om_Namespace (cl_Meta cluster)) (controllerSelector cluster)) (\<lambda>r. \<exists>cp cps. r = Inr (cp # cps))"
    and "cs_Ready cst" and "IsPodReady pod" and "I (fst s)"
  obtains s' where "bootstrapStep cli cluster pod cst km s = (Returned (noRequeue, None), setMachineReady True km, s')"
    "I (fst s')"
proof -
  obtain s1 where e: "enableBoostrapProcess cli pod s = (None, s1)" and i1: "I (fst s1)"
    unfolding enableBoostrapProcess_def by (rule exec_succeeds [of I, OF assms(1) assms(5)])
  let ?ns = "om_Namespace (cl_Meta cluster)" and ?sel = "controllerSelector cluster"
  obtain r s2 where l: "perform (EvListPods ?ns ?sel) (cli_ListPods cli ?ns ?sel) s1 = (r, s2)" "\<exists>cp cps. r = Inr (cp # cps)"
    and i2: "I (fst s2)"
    by (rule performs [OF assms(2) i1])
  then obtain cp cps where cp: "perform (EvListPods ?ns ?sel) (cli_ListPods cli ?ns ?sel) s1 = (Inr (cp # cps), s2)" by blast
  obtain s3 where "kindContainerExec cli cp ''kubectl'' [''--kubeconfig'', ''/etc/kubernetes/admin.conf'', ''patch'',
      ''node'', machinePodNodeName pod, ''--patch'', providerIDPatch (nodeProviderID pod)] s2 = (None, s3)"
    and i3: "I (fst s3)"
    by (rule exec_succeeds [of I, OF assms(1) i2])
  then have "setNodeProviderID cli cluster pod s1 = (None, s3)"
    using cp by (simp add: setNodeProviderID_def getProviderIDFromPod_Some)
  then show thesis using that i3 e assms(3,4) by (simp add: bootstrapStep_def)
qed

lemma claims_built:
  assumes "kube_contract lib"
    and "\<And>m kind owner. lib_GetControllerOf lib m = None \<Longrightarrow> \<exists>m'. lib_SetControllerReference lib kind owner m = Inr m'"
    and "\<And>t. t \<in> set (kms_VolumeClaimTemplates (km_Spec km)) \<Longrightarrow> lib_GetControllerOf lib (pvc_Meta t) = None"
  obtains cs where "getPersistentVolumeClaims lib km = Inr cs"
proof -
  have built: "\<exists>cs. claimsLoop lib km ts claims = Inr cs"
    if "\<And>t. t \<in> set ts \<Longrightarrow> lib_GetControllerOf lib (pvc_Meta t) = None" for ts claims
    using that
  proof (induction ts arbitrary: claims)
    case (Cons t ts)
    let ?m = "(pvc_Meta t)\<lparr>om_Name := getPersistentVolumeClaimName km t, om_Namespace := om_Namespace (km_Meta km)\<rparr>"
    have "lib_GetControllerOf lib ?m = lib_GetControllerOf lib (pvc_Meta t)"
      by (rule kube_contract.controller_of [OF assms(1)]) simp
    then have "lib_GetControllerOf lib ?m = None" using Cons.prems by simp
    then obtain m' where "lib_SetControllerReference lib KubernetesMachineKind (km_Meta km) ?m = Inr m'"
      using assms(2) by blast
    then have "claimOfTemplate lib km t = Inr (t\<lparr>pvc_Meta := m'\<rparr>)" by (simp add: claimOfTemplate_def Let_def)
    then show ?case using Cons by simp
  qed simp
  have "\<exists>cs. getPersistentVolumeClaims lib km = Inr cs"
    unfolding getPersistentVolumeClaims_def by (rule built) (rule assms(3))
  then show thesis using that by blast
qed

lemma createClaim_progress:
  assumes "\<And>k. answers I (cli_GetClaim cli k) (\<lambda>r. \<forall>e. r = Some e \<longrightarrow> IsNotFound e)"
    and "\<And>ns c. answers I (cli_CreateClaim cli ns c) (\<lambda>r. r = None)" and "I (fst s)"
  obtains s' where "createClaim cli km c s = ([], s')" "I (fst s')"
proof -
  obtain r s1 where g: "perform (EvGetClaim (claimKey km c)) (cli_GetClaim cli (claimKey km c)) s = (r, s1)"
      "\<forall>e. r = Some e \<longrightarrow> IsNotFound e" "I (fst s1)"
    by (rule performs [OF assms(1,3)])
  obtain s2 where c: "perform (EvCreateClaim (om_Namespace (pvc_Meta c)) c)
      (cli_CreateClaim cli (om_Namespace (pvc_Meta c)) c) s1 = (None, s2)" "I (fst s2)"
    by (rule performs_eq [OF assms(2) g(3)])
  show thesis
    using that [of s1] that [of s2] g c by (cases r) (simp_all add: createClaim_def Let_def claimKey_def)
qed

lemma claims_progress:
  assumes "kube_contract lib" and "healthyClient cli I en" and "I (fst s)"
    and "\<And>m kind owner. lib_GetControllerOf lib m = None \<Longrightarrow> \<exists>m'. lib_SetControllerReference lib kind owner m = Inr m'"
    and "\<And>t. t \<in> set (kms_VolumeClaimTemplates (km_Spec km)) \<Longrightarrow> lib_GetControllerOf lib (pvc_Meta t) = None"
  obtains s' where "createPersistentVolumeClaims lib cli km s = (None, s')" "I (fst s')"
proof -
  obtain cs where cs: "getPersistentVolumeClaims lib km = Inr cs" by (rule claims_built [OF assms(1,4,5)])
  have one: "\<exists>s'. createClaim cli km c t = ([], s') \<and> I (fst s')" if i: "I (fst t)" for c t
    by (rule createClaim_progress [of I cli t, OF healthyClientD(3,4) [OF assms(2)] i]) blast
  have "\<exists>s'. createClaimsLoop cli km es [] t = ([], s') \<and> I (fst s')" if "I (fst t)" for es t
    using that
  proof (induction es arbitrary: t)
    case (Cons e es)
    obtain s' where "createClaim cli km (snd e) t = ([], s')" "I (fst s')" using one [OF Cons.prems] by blast
    then show ?case using Cons.IH [of s'] by (cases e) simp
  qed simp
  then obtain s' where "createClaimsLoop cli km (lib_RangeOrder lib cs) [] s = ([], s')" "I (fst s')"
    using assms(3) by blast
  then show thesis
    using that [of s'] cs kube_contract.aggregate_none [OF assms(1), of "[]"]
    by (simp add: createPersistentVolumeClaims_def)
qed

lemma scriptSecret_progress:
  assumes "kube_contract lib" and "GenerateScript cloud doc = Returned (Inr script)"
    and "\<And>m kind owner. lib_GetControllerOf lib m = None \<Longrightarrow> \<exists>m'. lib_SetControllerReference lib kind owner m = Inr m'"
    and "lib_GetControllerOf lib emptyObjectMeta = None"
  obtains secret where "scriptSecret lib cloud cluster machine km doc = Returned (Inr secret)"
    "controlledBy lib (sec_Meta secret) (om_UID (km_Meta km))"
proof -
  let ?m = "emptyObjectMeta\<lparr>om_Name := machinePodName km @ ''-cloud-init'', om_Namespace := om_Namespace (mc_Meta machine),
      om_Labels := Some [ClusterLabelName \<mapsto> om_Name (cl_Meta cluster)]\<rparr>"
  have "lib_GetControllerOf lib ?m = lib_GetControllerOf lib emptyObjectMeta"
    by (rule kube_contract.controller_of [OF assms(1)]) simp
  then obtain m' where "lib_SetControllerReference lib KubernetesMachineKind (km_Meta km) ?m = Inr m'"
    using assms(3,4) by metis
  then obtain secret where s: "scriptSecret lib cloud cluster machine km doc = Returned (Inr secret)"
    using assms(2) by (simp add: scriptSecret_def generatateCloudInitSecret_def Let_def)
  moreover have "controlledBy lib (sec_Meta secret) (om_UID (km_Meta km))"
    by (rule scriptSecret_ok [OF assms(1) s])
  ultimately show thesis by (rule that)
qed

lemma secretStep_progress:
  assumes "kube_contract lib" and "healthyObjects lib cloud km0 en" and "healthyClient cli I en" and "I (fst s)"
  obtains s' where "secretStep lib cloud cli (en_cluster en) (en_machine en) (en_pod en) km s =
    (Returned (noRequeue, None), setMachineReady True km, s')" "I (fst s')"
proof -
  obtain n where n: "mc_DataSecretName (en_machine en) = Some n" using healthyObjectsD(3) [OF assms(2)] by blast
  note live = healthyObjectsD(1) [OF assms(2)]
  let ?k = "dataSecretKey (en_machine en) n"
  obtain r s1 where g: "perform (EvGetSecret ?k) (cli_GetSecret cli ?k) s = (r, s1)"
      "\<exists>sec. r = Inr sec \<and> sec_Data sec ''value'' = Some (en_doc en)" and i1: "I (fst s1)"
    by (rule performs [OF healthyClientD(5) [OF assms(3) n] assms(4)])
  then have data: "getBootstrapData cli (en_machine en) s = (Inr (EncodeToString (en_doc en)), s1)"
    using n by (auto simp: getBootstrapData_def dataSecretKey_def Let_def)
  obtain script where script: "GenerateScript cloud (en_doc en) = Returned (Inr script)"
    using assms(2) by (auto simp: healthyObjects_def)
  obtain secret where sec: "scriptSecret lib cloud (en_cluster en) (en_machine en) km (en_doc en) = Returned (Inr secret)"
    and own: "controlledBy lib (sec_Meta secret) (om_UID (km_Meta km))"
    by (rule scriptSecret_progress [OF assms(1) script liveObjectsD(1,2) [OF live]])
  obtain a s2 where c: "perform (EvCreateSecret secret) (cli_CreateSecret cli secret) s1 = (a, s2)"
      "a = Inr secret \<or> (\<exists>e. a = Inl e \<and> IsAlreadyExists e)" and i2: "I (fst s2)"
    by (rule performs [OF healthyClientD(6) [OF assms(3)] i1])
  have step: "secretStep lib cloud cli (en_cluster en) (en_machine en) (en_pod en) km s =
      containerStep cli (en_cluster en) (en_pod en) km s2"
    using data sec own c by (auto simp: secretStep_def scriptSecret_def [symmetric])
  obtain cst where cst: "GetContainerStatus (pst_ContainerStatuses (pod_Status (en_pod en))) kindContainerName = (cst, True)"
      "cs_Ready cst" "st_Running (cs_State cst) \<noteq> None" "st_Terminated (cs_State cst) = None"
    using assms(2) by (auto simp: healthyObjects_def)
  obtain s3 where "bootstrapStep cli (en_cluster en) (en_pod en) cst km s2 =
      (Returned (noRequeue, None), setMachineReady True km, s3)" "I (fst s3)"
    by (rule bootstrapStep_progress [of I cli, OF healthyClientD(8,7) [OF assms(3)] cst(2) healthyObjectsD(2) [OF assms(2)] i2])
  then show thesis using that step cst by (simp add: containerStep_def)
qed

lemma podStep_progress:
  assumes "kube_contract lib" and "healthyObjects lib cloud km en" and "healthyClient cli I en" and "I (fst s)"
    and "km_Spec kmv = km_Spec km" and "om_UID (km_Meta kmv) = om_UID (km_Meta km)"
  obtains s' where "podStep lib cloud cli (en_cluster en) (en_machine en) (en_pod en) kmv s =
    (Returned (noRequeue, None),
     if kms_ProviderID (km_Spec km) = None then setMachineProviderID (nodeProviderID (en_pod en)) kmv
     else setMachineReady True kmv, s')" "I (fst s')"
proof -
  have own: "controlledBy lib (pod_Meta (en_pod en)) (om_UID (km_Meta kmv))"
      "timeIsZero (om_DeletionTimestamp (pod_Meta (en_pod en)))"
    using assms(2,6) by (auto simp: healthyObjects_def)
  note live = healthyObjectsD(1) [OF assms(2)]
  obtain s1 where c: "createPersistentVolumeClaims lib cli kmv s = (None, s1)" "I (fst s1)"
    by (rule claims_progress [OF assms(1,3,4) liveObjectsD(1) [OF live] liveObjectsD(3) [OF live],
          where km = kmv]) (simp_all add: assms(5))
  obtain s2 where "secretStep lib cloud cli (en_cluster en) (en_machine en) (en_pod en) kmv s1 =
      (Returned (noRequeue, None), setMachineReady True kmv, s2)" "I (fst s2)"
    by (rule secretStep_progress [OF assms(1,2,3) c(2)])
  then show thesis
    using that [of s] that [of s2] own c assms(4,5)
    by (cases "kms_ProviderID (km_Spec km)") (simp_all add: podStep_def getProviderIDFromPod_Some)
qed

subsection \<open>A whole reconcile\<close>

lemma machineBody_reached:
  assumes "keyOf (km_Meta km) = en_key en" and "cl_InfrastructureRef (en_cluster en) = Some ref" and "\<not> lib_IsPaused lib (en_cluster en) (km_Meta km)"
    and "reachingClient cli I en" and "I (fst s)"
  obtains s' where "machineBody lib cloud cli km s =
    (if \<not> timeIsZero (om_DeletionTimestamp (km_Meta km))
     then machine_reconcileDelete lib cli (en_machine en) (en_cluster en) (machine_reconcileVersion km (en_machine en)) s'
     else if \<not> cl_InfrastructureReady (en_cluster en)
     then (Returned (noRequeue, None), machine_reconcileVersion km (en_machine en), s')
     else machine_reconcileNormal lib cloud cli (en_cluster en) (en_machine en) (machine_reconcileVersion km (en_machine en)) s')"
    "I (fst s')"
proof -
  note h = reachingClientD [OF assms(4)]
  obtain s1 where g1: "perform (EvGetOwnerMachine (km_Meta km)) (cli_GetOwnerMachine cli (km_Meta km)) s =
      (Inr (Some (en_machine en)), s1)" and i1: "I (fst s1)" by (rule performs_eq [OF h(2) [OF assms(1)] assms(5)])
  let ?mm = "mc_Meta (en_machine en)"
  obtain s2 where g2: "perform (EvGetClusterFromMetadata ?mm) (cli_GetClusterFromMetadata cli ?mm) s1 =
      (Inr (Some (en_cluster en)), s2)" and i2: "I (fst s2)" by (rule performs_eq [OF h(3) i1])
  obtain r s3 where "perform (EvGetKubernetesCluster (infraKey km ref)) (cli_GetKubernetesCluster cli (infraKey km ref)) s2 = (r, s3)"
      "\<exists>kc. r = Inr kc" and i3: "I (fst s3)"
    unfolding live_keys(2) [OF assms(1)] by (rule performs [OF h(4) [OF assms(2)] i2])
  then obtain kc where g3: "perform (EvGetKubernetesCluster (infraKey km ref))
      (cli_GetKubernetesCluster cli (infraKey km ref)) s2 = (Inr kc, s3)" by blast
  then show thesis using that [of s3] i3 g1 g2 assms(2,3) by (simp add: machineBody_def Let_def infraKey_def)
qed

text \<open>
  A whole reconcile around a body that returns without an error: it starts in a world of \<open>I\<close> that holds
  the machine \<open>km\<close>, the body leads to one of \<open>J\<close>, and the patch from there to one of \<open>J'\<close>.
\<close>

text \<open>A reconcile whose body returns: it ends with the patch and returns what that is answered.\<close>

lemma reconcile_ends:
  assumes "answers I (cli_NewPatchHelper cli) (\<lambda>r. r = None)"
    and "answers I (cli_GetKubernetesMachine cli req) (\<lambda>r. r = Inr km)" and "I (fst s)"
    and "\<And>s. I (fst s) \<Longrightarrow> \<exists>s'. machineBody lib cloud cli km s = (Returned (noRequeue, None), km', s') \<and>
        J (fst s') \<and> set evs \<subseteq> set (snd s')"
  obtains err w s' where "machine_Reconcile lib cloud cli req s = (Returned (noRequeue, err), s')"
    "last (snd s') = EvPatchMachine km (machine_reconcilePhase km') err" "J w"
    "cli_PatchMachine cli km (machine_reconcilePhase km') w = (err, fst s')" "set evs \<subseteq> set (snd s')" "snd s' \<noteq> []"
proof -
  obtain s1 where g1: "perform (EvGetKubernetesMachine req) (cli_GetKubernetesMachine cli req) s = (Inr km, s1)"
    and i1: "I (fst s1)" by (rule performs_eq [OF assms(2,3)])
  obtain s2 where g2: "perform EvNewPatchHelper (cli_NewPatchHelper cli) s1 = (None, s2)" and i2: "I (fst s2)"
    by (rule performs_eq [OF assms(1) i1])
  obtain s3 where body: "machineBody lib cloud cli km s2 = (Returned (noRequeue, None), km', s3)" "set evs \<subseteq> set (snd s3)"
    and j: "J (fst s3)"
    using assms(4) [OF i2] by auto
  let ?km = "machine_reconcilePhase km'"
  obtain err w4 where patch: "cli_PatchMachine cli km ?km (fst s3) = (err, w4)" by (metis surj_pair)
  then have "perform (EvPatchMachine km ?km) (cli_PatchMachine cli km ?km) s3 = (err, (w4, snd s3 @ [EvPatchMachine km ?km err]))"
    by (simp add: perform_def)
  then have "machine_Reconcile lib cloud cli req s = (Returned (noRequeue, err), (w4, snd s3 @ [EvPatchMachine km ?km err]))"
    using g1 g2 body(1) by (simp add: machine_Reconcile_def machineDeferred_def Let_def)
  then show thesis using that [of err "(w4, snd s3 @ [EvPatchMachine km ?km err])" "fst s3"] patch body(2) j by auto
qed

lemma reconcile_around:
  assumes "answers I (cli_NewPatchHelper cli) (\<lambda>r. r = None)"
    and "answers I (cli_GetKubernetesMachine cli req) (\<lambda>r. r = Inr km)" and "I (fst s)"
    and "\<And>s. I (fst s) \<Longrightarrow> \<exists>s'. machineBody lib cloud cli km s = (Returned (noRequeue, None), km', s') \<and>
        J (fst s') \<and> set evs \<subseteq> set (snd s')"
    and "\<And>w. J w \<Longrightarrow> fst (cli_PatchMachine cli km (machine_reconcilePhase km') w) = None \<and>
        J' (snd (cli_PatchMachine cli km (machine_reconcilePhase km') w))"
  obtains s' where "machine_Reconcile lib cloud cli req s = (Returned (noRequeue, None), s')"
    "EvPatchMachine km (machine_reconcilePhase km') None \<in> set (snd s')" "set evs \<subseteq> set (snd s')" "J' (fst s')"
proof -
  obtain err w s' where s': "machine_Reconcile lib cloud cli req s = (Returned (noRequeue, err), s')"
      "last (snd s') = EvPatchMachine km (machine_reconcilePhase km') err" "J w"
      "cli_PatchMachine cli km (machine_reconcilePhase km') w = (err, fst s')" "set evs \<subseteq> set (snd s')" "snd s' \<noteq> []"
    by (rule reconcile_ends [OF assms(1-4)])
  then have "err = None" "J' (fst s')" using assms(5) [OF s'(3)] by simp_all
  then show thesis using that s' last_in_set [OF s'(6)] by simp
qed

lemma reconcile_normal:
  assumes "liveObjects lib km en" and "reachingClient cli I en"
    and "answers I (cli_GetKubernetesMachine cli req) (\<lambda>r. r = Inr km)" and "I (fst s)"
    and "\<And>s. I (fst s) \<Longrightarrow> \<exists>s'. machine_reconcileNormal lib cloud cli (en_cluster en) (en_machine en)
        (machine_reconcileVersion km (en_machine en)) s = (Returned (noRequeue, None), km', s') \<and>
        J (fst s') \<and> set evs \<subseteq> set (snd s')"
    and "\<And>w. J w \<Longrightarrow> fst (cli_PatchMachine cli km (machine_reconcilePhase km') w) = None \<and>
        J' (snd (cli_PatchMachine cli km (machine_reconcilePhase km') w))"
  obtains s' where "machine_Reconcile lib cloud cli req s = (Returned (noRequeue, None), s')"
    "EvPatchMachine km (machine_reconcilePhase km') None \<in> set (snd s')" "set evs \<subseteq> set (snd s')" "J' (fst s')"
proof -
  have body: "\<exists>s'. machineBody lib cloud cli km t = (Returned (noRequeue, None), km', s') \<and> J (fst s') \<and> set evs \<subseteq> set (snd s')"
    if i: "I (fst t)" for t
  proof -
    obtain ref where live: "keyOf (km_Meta km) = en_key en" "cl_InfrastructureRef (en_cluster en) = Some ref" "\<not> lib_IsPaused lib (en_cluster en) (km_Meta km)"
      using assms(1) by (auto simp: liveObjects_def)
    obtain t' where "machineBody lib cloud cli km t =
        machine_reconcileNormal lib cloud cli (en_cluster en) (en_machine en) (machine_reconcileVersion km (en_machine en)) t'"
        "I (fst t')"
      by (rule machineBody_reached [OF live assms(2) i, of cloud]) (use assms(1) in \<open>auto simp: liveObjects_def\<close>)
    then show ?thesis using assms(5) by metis
  qed
  show thesis
    by (rule reconcile_around [of I, OF reachingClientD(1) [OF assms(2)] assms(3,4) body assms(6) that])
qed

text \<open>What a reconcile in a healthy environment makes of the machine.\<close>

definition nextMachine :: "kube_lib \<Rightarrow> environment \<Rightarrow> KubernetesMachine \<Rightarrow> KubernetesMachine" where
  "nextMachine lib en km =
     (let km2 = withFinalizers lib (machine_reconcileVersion km (en_machine en))
      in machine_reconcilePhase
           (if kms_ProviderID (km_Spec km) = None then setMachineProviderID (nodeProviderID (en_pod en)) km2
            else setMachineReady True km2))"

lemma reconciled_key:
  assumes "kube_contract lib" and "liveObjects lib km en"
  shows "machinePodKey (en_machine en) (withFinalizers lib (machine_reconcileVersion km (en_machine en))) = podKeyOf en"
  using assms(2) live_keys(1) [of km en] by (simp add: machinePodKey_withFinalizers [OF assms(1)] liveObjects_def)

lemma reconcileNormal_found:
  assumes "kube_contract lib" and "healthyObjects lib cloud km en" and "healthyClient cli I en" and "I (fst s)"
  shows "\<exists>s'. machine_reconcileNormal lib cloud cli (en_cluster en) (en_machine en)
      (machine_reconcileVersion km (en_machine en)) s =
    (Returned (noRequeue, None),
     (if kms_ProviderID (km_Spec km) = None
      then setMachineProviderID (nodeProviderID (en_pod en)) (withFinalizers lib (machine_reconcileVersion km (en_machine en)))
      else setMachineReady True (withFinalizers lib (machine_reconcileVersion km (en_machine en)))), s') \<and> I (fst s')"
proof -
  let ?km2 = "withFinalizers lib (machine_reconcileVersion km (en_machine en))"
  let ?key = "machinePodKey (en_machine en) ?km2"
  have key: "?key = podKeyOf en" by (rule reconciled_key [OF assms(1) healthyObjectsD(1) [OF assms(2)]])
  obtain s1 where g: "perform (EvGetPod ?key) (cli_GetPod cli ?key) s = (Inr (en_pod en), s1)" and i1: "I (fst s1)"
    unfolding key by (rule performs_eq [OF healthyClientD(2) [OF assms(3)] assms(4)])
  obtain s2 where step: "podStep lib cloud cli (en_cluster en) (en_machine en) (en_pod en) ?km2 s1 =
    (Returned (noRequeue, None),
     if kms_ProviderID (km_Spec km) = None then setMachineProviderID (nodeProviderID (en_pod en)) ?km2
     else setMachineReady True ?km2, s2)" and i2: "I (fst s2)"
    by (rule podStep_progress [OF assms(1-3) i1, where kmv = ?km2]) (simp_all add: withFinalizers_uid [OF assms(1)])
  obtain n where "\<not> machineFailed km" "mc_DataSecretName (en_machine en) = Some n"
    using healthyObjectsD(1) [OF assms(2)] by (auto simp: liveObjects_def)
  then show ?thesis using g step i2 by (simp add: machine_reconcileNormal_eq)
qed

lemma reconcile_found:
  assumes "kube_contract lib" and "healthyObjects lib cloud km en" and "healthyClient cli I en"
    and "answers I (cli_GetKubernetesMachine cli req) (\<lambda>r. r = Inr km)" and "I (fst s)"
    and "\<And>w. I w \<Longrightarrow> fst (cli_PatchMachine cli km (nextMachine lib en km) w) = None \<and>
        J (snd (cli_PatchMachine cli km (nextMachine lib en km) w))"
  obtains s' where "machine_Reconcile lib cloud cli req s = (Returned (noRequeue, None), s')" "J (fst s')"
proof -
  let ?km2 = "withFinalizers lib (machine_reconcileVersion km (en_machine en))"
  let ?km' = "if kms_ProviderID (km_Spec km) = None then setMachineProviderID (nodeProviderID (en_pod en)) ?km2
    else setMachineReady True ?km2"
  have normal: "\<exists>s'. machine_reconcileNormal lib cloud cli (en_cluster en) (en_machine en)
      (machine_reconcileVersion km (en_machine en)) t = (Returned (noRequeue, None), ?km', s') \<and>
      I (fst s') \<and> set [] \<subseteq> set (snd s')" if i: "I (fst t)" for t
    using reconcileNormal_found [OF assms(1-3) i] by simp
  have next_eq: "machine_reconcilePhase ?km' = nextMachine lib en km" by (simp add: nextMachine_def Let_def)
  show thesis
    by (rule reconcile_normal [OF healthyObjectsD(1) [OF assms(2)] healthyClientD(1) [OF assms(3)] assms(4,5) normal,
          where J' = J]) (use assms(6) next_eq that in auto)
qed

subsection \<open>A machine without its Pod\<close>

lemma pod_built:
  assumes "kube_contract lib" and "liveObjects lib km en" and "km_Spec kmv = km_Spec km"
  obtains pod where "builtMachinePod lib cluster machine kmv = Inr pod"
proof -
  let ?m = "emptyObjectMeta\<lparr>om_Name := machinePodName kmv, om_Namespace := om_Namespace (cl_Meta cluster),
      om_Labels := Some [ClusterLabelName \<mapsto> om_Name (cl_Meta cluster)]\<rparr>"
  have "lib_GetControllerOf lib ?m = lib_GetControllerOf lib emptyObjectMeta"
    by (rule kube_contract.controller_of [OF assms(1)]) simp
  then obtain m' where "lib_SetControllerReference lib KubernetesMachineKind (km_Meta kmv) ?m = Inr m'"
    using liveObjectsD(1,2) [OF assms(2)] by metis
  then obtain base where "getMachinePodBase lib cluster kmv = Inr base" by (simp add: getMachinePodBase_def Let_def)
  moreover obtain cs where "getPersistentVolumeClaims lib kmv = Inr cs"
    by (rule claims_built [OF assms(1) liveObjectsD(1) [OF assms(2)] liveObjectsD(3) [OF assms(2)], where km = kmv])
      (simp_all add: assms(3))
  ultimately obtain pod where "builtMachinePod lib cluster machine kmv = Inr pod"
    using builtMachinePod_succeeds by blast
  then show thesis by (rule that)
qed

text \<open>What the reconcile that creates the Pod makes of the machine, before the phase is set.\<close>

definition podlessMachine :: "kube_lib \<Rightarrow> environment \<Rightarrow> KubernetesMachine \<Rightarrow> KubernetesMachine" where
  "podlessMachine lib en km =
     (let km2 = withFinalizers lib (machine_reconcileVersion km (en_machine en))
      in if kms_AllowRecreation (km_Spec km) then setMachineReady False km2 else km2)"

lemma built_key:
  assumes "kube_contract lib" and "liveObjects lib km en"
    and "builtMachinePod lib (en_cluster en) (en_machine en) (podlessMachine lib en km) = Inr pod"
  shows "keyOf (pod_Meta pod) = podKeyOf en"
proof -
  have "nn_Name (en_key en) = om_Name (km_Meta km)" using assms(2) by (auto simp: liveObjects_def keyOf_def dest!: arg_cong [of _ _ nn_Name])
  then have "om_Name (km_Meta (podlessMachine lib en km)) = nn_Name (en_key en)"
    using withFinalizers_meta [OF assms(1), of "machine_reconcileVersion km (en_machine en)"]
    by (auto simp: podlessMachine_def Let_def)
  then show ?thesis
    using assms(2) builtMachinePod_meta(1,2) [OF assms(1,3)] by (simp add: keyOf_def podKeyOf_def liveObjects_def machinePodName_def)
qed

lemma reconcile_creates_pod:
  assumes "kube_contract lib" and "liveObjects lib km en" and "reachingClient cli I en"
    and "answers I (cli_GetKubernetesMachine cli req) (\<lambda>r. r = Inr km)" and "I (fst s)"
    and "answers I (cli_GetPod cli (podKeyOf en)) (\<lambda>r. \<exists>e. r = Inl e \<and> IsNotFound e)"
    and "kms_AllowRecreation (km_Spec km) \<or> kms_ProviderID (km_Spec km) = None"
    and "\<And>w p. I w \<Longrightarrow> keyOf (pod_Meta p) = podKeyOf en \<Longrightarrow>
        fst (cli_CreatePod cli p w) = None \<and> J p (snd (cli_CreatePod cli p w))"
    and "\<And>w p. J p w \<Longrightarrow>
        fst (cli_PatchMachine cli km (machine_reconcilePhase (podlessMachine lib en km)) w) = None \<and>
        J' p (snd (cli_PatchMachine cli km (machine_reconcilePhase (podlessMachine lib en km)) w))"
  obtains pod s' where "machine_Reconcile lib cloud cli req s = (Returned (noRequeue, None), s')"
    "builtMachinePod lib (en_cluster en) (en_machine en) (podlessMachine lib en km) = Inr pod"
    "EvCreatePod pod None \<in> set (snd s')" "J' pod (fst s')"
proof -
  let ?km2 = "withFinalizers lib (machine_reconcileVersion km (en_machine en))"
  let ?km' = "podlessMachine lib en km"
  obtain pod where pod: "builtMachinePod lib (en_cluster en) (en_machine en) ?km' = Inr pod"
    by (rule pod_built [OF assms(1,2), where kmv = ?km']) (simp add: podlessMachine_def Let_def)
  have podkey: "keyOf (pod_Meta pod) = podKeyOf en" by (rule built_key [OF assms(1,2) pod])
  obtain n where live: "\<not> machineFailed km" "mc_DataSecretName (en_machine en) = Some n"
    using assms(2) by (auto simp: liveObjects_def)
  have normal: "\<exists>s'. machine_reconcileNormal lib cloud cli (en_cluster en) (en_machine en)
      (machine_reconcileVersion km (en_machine en)) t = (Returned (noRequeue, None), ?km', s') \<and>
      J pod (fst s') \<and> set [EvCreatePod pod None] \<subseteq> set (snd s')" if i: "I (fst t)" for t
  proof -
    let ?key = "machinePodKey (en_machine en) ?km2"
    obtain r s1 where "perform (EvGetPod ?key) (cli_GetPod cli ?key) t = (r, s1)" "\<exists>e. r = Inl e \<and> IsNotFound e"
      and i1: "I (fst s1)"
      unfolding reconciled_key [OF assms(1,2)] by (rule performs [OF assms(6) i])
    then obtain e where g: "perform (EvGetPod ?key) (cli_GetPod cli ?key) t = (Inl e, s1)" "IsNotFound e" by blast
    obtain s2 where c: "perform (EvCreatePod pod) (cli_CreatePod cli pod) s1 = (None, s2)"
        "fst s2 = snd (cli_CreatePod cli pod (fst s1))" "snd s2 = snd s1 @ [EvCreatePod pod None]"
      by (rule performs_change [of "cli_CreatePod cli pod" s1, OF conjunct1 [OF assms(8) [OF i1 podkey]]])
    have "missingPodStep lib cli (en_cluster en) (en_machine en) ?km2 s1 = (Returned (noRequeue, None), ?km', s2)"
      using assms(7) pod c(1)
      by (auto simp: missingPodStep_def Let_def createMachinePod_eq createBuiltPod_def podlessMachine_def)
    then show ?thesis using live g c(2,3) assms(8) [OF i1 podkey] by (simp add: machine_reconcileNormal_eq)
  qed
  show thesis
    by (rule reconcile_normal [OF assms(2,3,4,5) normal, where J' = "J' pod"]) (use assms(9) pod that in auto)
qed

end
