(* ===== verification/Machine_Converge.thy ===== *)
theory Machine_Converge
  imports Machine_Progress
begin

text \<open>
  The control loop of a machine: what reconciling it again and again leads to. \<open>apiServer\<close> states what
  the API server and the Pods do for the controller: they keep one machine and its Pod, a patch
  replaces the machine it was made from as long as that is not being deleted, and the objects the
  machine depends on are there. The view of a world is the stored machine and the stored Pod; everything
  else in the world is free. What becomes of a machine that is being deleted is stated by
  \<open>deletionServer\<close>: it is gone with its last finalizer.
\<close>

subsection \<open>The API server\<close>

type_synonym stored = "KubernetesMachine \<times> Pod option"

definition podAnswer :: "'m \<times> Pod option \<Rightarrow> go_error + Pod \<Rightarrow> bool" where
  "podAnswer v r = (case snd v of None \<Rightarrow> (\<exists>e. r = Inl e \<and> IsNotFound e) | Some pod \<Rightarrow> r = Inr pod)"

definition apiServer ::
  "'w kube_client \<Rightarrow> NamespacedName \<Rightarrow> ('w \<Rightarrow> stored) \<Rightarrow> environment \<Rightarrow> bool" where
  "apiServer cli req view en \<longleftrightarrow>
     serves view (cli_GetKubernetesMachine cli req) (\<lambda>v r. r = Inr (fst v)) \<and>
     serves view (cli_NewPatchHelper cli) (\<lambda>_ r. r = None) \<and>
     (\<forall>b w. timeIsZero (om_DeletionTimestamp (km_Meta (fst (view w)))) \<and>
        keyOf (km_Meta (fst (view w))) = en_key en \<and> keyOf (km_Meta b) = en_key en \<longrightarrow>
        fst (cli_PatchMachine cli (fst (view w)) b w) = None \<and>
        view (snd (cli_PatchMachine cli (fst (view w)) b w)) = (b, snd (view w))) \<and>
     (\<forall>m. keyOf m = en_key en \<longrightarrow> serves view (cli_GetOwnerMachine cli m) (\<lambda>_ r. r = Inr (Some (en_machine en)))) \<and>
     serves view (cli_GetClusterFromMetadata cli (mc_Meta (en_machine en))) (\<lambda>_ r. r = Inr (Some (en_cluster en))) \<and>
     (\<forall>ref. cl_InfrastructureRef (en_cluster en) = Some ref \<longrightarrow>
        serves view (cli_GetKubernetesCluster cli (infraKeyOf en ref)) (\<lambda>_ r. \<exists>kc. r = Inr kc)) \<and>
     serves view (cli_GetPod cli (podKeyOf en)) podAnswer \<and>
     (\<forall>p w. keyOf (pod_Meta p) = podKeyOf en \<and> snd (view w) = None \<longrightarrow>
        fst (cli_CreatePod cli p w) = None \<and> view (snd (cli_CreatePod cli p w)) = (fst (view w), Some p)) \<and>
     (\<forall>k. serves view (cli_GetClaim cli k) (\<lambda>_ r. \<forall>e. r = Some e \<longrightarrow> IsNotFound e)) \<and>
     (\<forall>ns c. serves view (cli_CreateClaim cli ns c) (\<lambda>_ r. r = None)) \<and>
     (\<forall>n. mc_DataSecretName (en_machine en) = Some n \<longrightarrow> serves view (cli_GetSecret cli (dataSecretKey (en_machine en) n))
        (\<lambda>_ r. \<exists>sec. r = Inr sec \<and> sec_Data sec ''value'' = Some (en_doc en))) \<and>
     (\<forall>x. serves view (cli_CreateSecret cli x) (\<lambda>_ r. r = Inr x \<or> (\<exists>e. r = Inl e \<and> IsAlreadyExists e))) \<and>
     serves view (cli_ListPods cli (om_Namespace (cl_Meta (en_cluster en))) (controllerSelector (en_cluster en)))
       (\<lambda>_ r. \<exists>cp cps. r = Inr (cp # cps)) \<and>
     (\<forall>er. serves view (cli_Exec cli er) (\<lambda>_. execSucceeded))"

lemma apiServerD:
  assumes "apiServer cli req view en"
  shows "serves view (cli_GetKubernetesMachine cli req) (\<lambda>v r. r = Inr (fst v))"
    "serves view (cli_NewPatchHelper cli) (\<lambda>_ r. r = None)"
    "timeIsZero (om_DeletionTimestamp (km_Meta (fst (view w)))) \<Longrightarrow> keyOf (km_Meta (fst (view w))) = en_key en \<Longrightarrow>
       keyOf (km_Meta b) = en_key en \<Longrightarrow> fst (cli_PatchMachine cli (fst (view w)) b w) = None \<and>
       view (snd (cli_PatchMachine cli (fst (view w)) b w)) = (b, snd (view w))"
    "keyOf m = en_key en \<Longrightarrow> serves view (cli_GetOwnerMachine cli m) (\<lambda>_ r. r = Inr (Some (en_machine en)))"
    "serves view (cli_GetClusterFromMetadata cli (mc_Meta (en_machine en))) (\<lambda>_ r. r = Inr (Some (en_cluster en)))"
    "cl_InfrastructureRef (en_cluster en) = Some ref \<Longrightarrow>
       serves view (cli_GetKubernetesCluster cli (infraKeyOf en ref)) (\<lambda>_ r. \<exists>kc. r = Inr kc)"
    "serves view (cli_GetPod cli (podKeyOf en)) podAnswer"
    "keyOf (pod_Meta p) = podKeyOf en \<Longrightarrow> snd (view w) = None \<Longrightarrow>
       fst (cli_CreatePod cli p w) = None \<and> view (snd (cli_CreatePod cli p w)) = (fst (view w), Some p)"
    "serves view (cli_GetClaim cli k) (\<lambda>_ r. \<forall>e. r = Some e \<longrightarrow> IsNotFound e)"
    "serves view (cli_CreateClaim cli ns c) (\<lambda>_ r. r = None)"
    "mc_DataSecretName (en_machine en) = Some n \<Longrightarrow> serves view (cli_GetSecret cli (dataSecretKey (en_machine en) n))
       (\<lambda>_ r. \<exists>sec. r = Inr sec \<and> sec_Data sec ''value'' = Some (en_doc en))"
    "serves view (cli_CreateSecret cli x) (\<lambda>_ r. r = Inr x \<or> (\<exists>e. r = Inl e \<and> IsAlreadyExists e))"
    "serves view (cli_ListPods cli (om_Namespace (cl_Meta (en_cluster en))) (controllerSelector (en_cluster en)))
       (\<lambda>_ r. \<exists>cp cps. r = Inr (cp # cps))"
    "serves view (cli_Exec cli er) (\<lambda>_. execSucceeded)"
  using assms unfolding apiServer_def by simp_all

lemma apiServer_machine:
  assumes "apiServer cli req view en"
  shows "answers (\<lambda>w. view w = (km, p)) (cli_GetKubernetesMachine cli req) (\<lambda>r. r = Inr km)"
    and "view w = (km, p) \<Longrightarrow> liveObjects lib km en \<Longrightarrow> keyOf (km_Meta km') = en_key en \<Longrightarrow>
      fst (cli_PatchMachine cli km km' w) = None \<and> view (snd (cli_PatchMachine cli km km' w)) = (km', p)"
  using serves_answers [OF apiServerD(1) [OF assms], of "(km, p)"] apiServerD(3) [OF assms, of w km'] by (simp_all add: liveObjects_def)

lemma apiServer_pod:
  assumes "apiServer cli req view en"
  shows "answers (\<lambda>w. view w = (km, Some pod)) (cli_GetPod cli (podKeyOf en)) (\<lambda>r. r = Inr pod)"
    and "answers (\<lambda>w. view w = (km, None)) (cli_GetPod cli (podKeyOf en)) (\<lambda>r. \<exists>e. r = Inl e \<and> IsNotFound e)"
    and "view w = (km, None) \<Longrightarrow> keyOf (pod_Meta p) = podKeyOf en \<Longrightarrow> fst (cli_CreatePod cli p w) = None \<and> view (snd (cli_CreatePod cli p w)) = (km, Some p)"
proof -
  have found: "podAnswer (km, Some pod) = (\<lambda>r. r = Inr pod)" and missing: "podAnswer (km, None) = (\<lambda>r. \<exists>e. r = Inl e \<and> IsNotFound e)"
    by (auto simp: podAnswer_def)
  note s = serves_answers [OF apiServerD(7) [OF assms]]
  show "answers (\<lambda>w. view w = (km, Some pod)) (cli_GetPod cli (podKeyOf en)) (\<lambda>r. r = Inr pod)"
    unfolding found [symmetric] by (rule s)
  show "answers (\<lambda>w. view w = (km, None)) (cli_GetPod cli (podKeyOf en)) (\<lambda>r. \<exists>e. r = Inl e \<and> IsNotFound e)"
    unfolding missing [symmetric] by (rule s)
  show "view w = (km, None) \<Longrightarrow> keyOf (pod_Meta p) = podKeyOf en \<Longrightarrow>
      fst (cli_CreatePod cli p w) = None \<and> view (snd (cli_CreatePod cli p w)) = (km, Some p)"
    using apiServerD(8) [OF assms, of p w] by simp
qed

lemma apiServer_reaching:
  assumes "apiServer cli req view en"
  shows "reachingClient cli (\<lambda>w. view w = v) en"
  unfolding reachingClient_def by (intro conjI allI impI; rule serves_const; rule apiServerD [OF assms]; assumption?)

lemma apiServer_healthy:
  assumes "apiServer cli req view en"
  shows "healthyClient cli (\<lambda>w. view w = (km, Some (en_pod en))) en"
  unfolding healthyClient_def
  by (intro conjI allI impI;
      (rule apiServer_reaching [OF assms] apiServer_pod(1) [OF assms] |
       rule serves_const, rule apiServerD [OF assms]; assumption?))

subsection \<open>One machine after the other\<close>

lemma live_objects_key: "liveObjects lib km en \<Longrightarrow> keyOf (km_Meta km) = en_key en"
  by (simp add: liveObjects_def)

lemma withFinalizers_present:
  assumes "kube_contract lib" and "{KubernetesMachineFinalizer, FinalizerDeleteDependents} \<subseteq> set (om_Finalizers (km_Meta km))"
  shows "withFinalizers lib km = km"
  using assms(2) kube_contract.add_finalizer_present [OF assms(1)]
  by (simp add: withFinalizers_def addMachineFinalizer_def)

lemma nextMachine_fields:
  assumes "kube_contract lib"
  shows "\<exists>fs. km_Meta (nextMachine lib en km) = (km_Meta km)\<lparr>om_Finalizers := fs\<rparr> \<and>
      {KubernetesMachineFinalizer, FinalizerDeleteDependents} \<subseteq> set fs"
    and "km_Spec (nextMachine lib en km) =
      (km_Spec km)\<lparr>kms_ProviderID := if kms_ProviderID (km_Spec km) = None then Some (nodeProviderID (en_pod en))
         else kms_ProviderID (km_Spec km)\<rparr>"
    and "machineFailed (nextMachine lib en km) = machineFailed km"
    and "kms_ProviderID (km_Spec km) \<noteq> None \<Longrightarrow> kmst_Ready (km_Status (nextMachine lib en km))"
  using withFinalizers_meta [OF assms, of "machine_reconcileVersion km (en_machine en)"]
  by (auto simp: nextMachine_def Let_def)

lemma nextMachine_live:
  assumes "kube_contract lib" and "liveObjects lib km en"
  shows "liveObjects lib (nextMachine lib en km) en"
proof -
  obtain fs where m: "km_Meta (nextMachine lib en km) = (km_Meta km)\<lparr>om_Finalizers := fs\<rparr>"
    using nextMachine_fields(1) [OF assms(1)] by blast
  have "lib_IsPaused lib (en_cluster en) ((km_Meta km)\<lparr>om_Finalizers := fs\<rparr>) = lib_IsPaused lib (en_cluster en) (km_Meta km)"
    by (rule kube_contract.paused_annotations [OF assms(1)]) simp
  then show ?thesis using assms(2) m nextMachine_fields(2,3) [OF assms(1)] by (simp add: liveObjects_def)
qed

lemma nextMachine_healthy:
  assumes "kube_contract lib" and "healthyObjects lib cloud km en"
  shows "healthyObjects lib cloud (nextMachine lib en km) en"
proof -
  have "om_UID (km_Meta (nextMachine lib en km)) = om_UID (km_Meta km)"
    using nextMachine_fields(1) [OF assms(1), of en km] by auto
  then show ?thesis
    using assms(2) nextMachine_live [OF assms(1) healthyObjectsD(1) [OF assms(2)]] by (simp add: healthyObjects_def)
qed

lemma nextMachine_phase:
  assumes "kube_contract lib" and "liveObjects lib km en" and "kms_ProviderID (km_Spec km) \<noteq> None"
  shows "kmst_Phase (km_Status (nextMachine lib en km)) = KubernetesMachinePhaseRunning"
  using assms(2,3) withFinalizers_meta [OF assms(1), of "machine_reconcileVersion km (en_machine en)"]
  by (auto simp: nextMachine_def Let_def phaseOf_def liveObjects_def)

text \<open>Once the machine has its provider ID, a reconcile changes nothing that the one before has not changed.\<close>

lemma nextMachine_stable:
  assumes "kube_contract lib" and "liveObjects lib km en" and "kms_ProviderID (km_Spec km) \<noteq> None"
  shows "nextMachine lib en (nextMachine lib en km) = nextMachine lib en km"
proof -
  let ?k = "nextMachine lib en km"
  have "kmst_Version (km_Status ?k) = mc_Version (en_machine en)" if "mc_Version (en_machine en) \<noteq> None"
    using that assms(3) by (auto simp: nextMachine_def Let_def machine_reconcilePhase_eq setMachineReady_def machine_reconcileVersion_def)
  then have version: "machine_reconcileVersion ?k (en_machine en) = ?k"
    by (cases "mc_Version (en_machine en)") (auto simp: machine_reconcileVersion_def)
  have fin: "withFinalizers lib ?k = ?k"
    by (rule withFinalizers_present [OF assms(1)]) (use nextMachine_fields(1) [OF assms(1), of en km] in auto)
  have pid: "kms_ProviderID (km_Spec ?k) \<noteq> None"
    using assms(3) nextMachine_fields(2) [OF assms(1)] by simp
  have ready: "setMachineReady True ?k = ?k"
    using nextMachine_fields(4) [OF assms(1,3)] by (simp add: setMachineReady_def)
  have "phaseOf ?k = kmst_Phase (km_Status ?k)"
    using nextMachine_phase [OF assms] nextMachine_live [OF assms(1,2)] nextMachine_fields(4) [OF assms(1,3)] pid
    by (simp add: phaseOf_def liveObjects_def)
  then have phase: "machine_reconcilePhase ?k = ?k" by (simp add: machine_reconcilePhase_eq)
  show ?thesis
    unfolding nextMachine_def [of lib en ?k] using pid by (auto simp: version fin ready phase Let_def)
qed

subsection \<open>The loop\<close>

lemma one_round:
  assumes "kube_contract lib" and "apiServer cli req view en" and "healthyObjects lib cloud km en"
    and "view (fst s) = (km, Some (en_pod en))"
  obtains s' where "machine_Reconcile lib cloud cli req s = (Returned (noRequeue, None), s')"
    "view (fst s') = (nextMachine lib en km, Some (en_pod en))"
proof -
  note live = healthyObjectsD(1) [OF assms(3)]
  show thesis
    by (rule reconcile_found [OF assms(1,3) apiServer_healthy [OF assms(2)] apiServer_machine(1) [OF assms(2)],
        where J = "\<lambda>w. view w = (nextMachine lib en km, Some (en_pod en))"])
    (use assms(4) apiServer_machine(2) [OF assms(2) _ live live_objects_key [OF nextMachine_live [OF assms(1) live]]] that in auto)
qed

lemma nextMachine_settles:
  assumes "kube_contract lib" and "liveObjects lib km en"
  shows "(nextMachine lib en ^^ 3) km = (nextMachine lib en ^^ 2) km"
proof -
  have "kms_ProviderID (km_Spec (nextMachine lib en km)) \<noteq> None" using nextMachine_fields(2) [OF assms(1)] by simp
  then show ?thesis using nextMachine_stable [OF assms(1) nextMachine_live [OF assms]] by (simp add: numeral_3_eq_3 numeral_2_eq_2)
qed

text \<open>The stored objects the loop starts from.\<close>

definition loopReady ::
  "kube_lib \<Rightarrow> cloud_lib \<Rightarrow> 'w kube_client \<Rightarrow> NamespacedName \<Rightarrow> ('w \<Rightarrow> stored) \<Rightarrow> environment \<Rightarrow> stored \<Rightarrow> bool" where
  "loopReady lib cloud cli req view en v \<longleftrightarrow>
     kube_contract lib \<and> apiServer cli req view en \<and> healthyObjects lib cloud (fst v) en \<and> snd v = Some (en_pod en)"

interpretation machine_loop: control_loop "machine_Reconcile lib cloud cli req" "\<lambda>s. view (fst s)" "apfst (nextMachine lib en)"
  "loopReady lib cloud cli req view en" "Returned (noRequeue, None)" 2
  for lib cloud cli req view en
proof
  show "\<exists>s'. machine_Reconcile lib cloud cli req s = (Returned (noRequeue, None), s') \<and>
      view (fst s') = apfst (nextMachine lib en) (view (fst s))"
    if ok: "loopReady lib cloud cli req view en (view (fst s))" for s
  proof -
    have v: "view (fst s) = (fst (view (fst s)), Some (en_pod en))" using ok by (cases "view (fst s)") (simp add: loopReady_def)
    obtain s' where "machine_Reconcile lib cloud cli req s = (Returned (noRequeue, None), s')"
        "view (fst s') = (nextMachine lib en (fst (view (fst s))), Some (en_pod en))"
      by (rule one_round [of lib cli req view en cloud "fst (view (fst s))" s]) (use ok v in \<open>auto simp: loopReady_def\<close>)
    then show ?thesis by (subst v) simp
  qed
  show "loopReady lib cloud cli req view en (apfst (nextMachine lib en) v)" if "loopReady lib cloud cli req view en v" for v
    using that nextMachine_healthy by (cases v) (auto simp: loopReady_def)
  show "apfst (nextMachine lib en) ((apfst (nextMachine lib en) ^^ 2) v) = (apfst (nextMachine lib en) ^^ 2) v"
    if "loopReady lib cloud cli req view en v" for v
    using that nextMachine_settles [of lib "fst v" en] healthyObjectsD(1)
    by (cases v) (fastforce simp: loopReady_def apfst_funpow numeral_3_eq_3 numeral_2_eq_2)
qed

text \<open>The machine the loop settles on, and that it does.\<close>

definition settledMachine :: "kube_lib \<Rightarrow> environment \<Rightarrow> KubernetesMachine \<Rightarrow> KubernetesMachine" where
  "settledMachine lib en km = nextMachine lib en (nextMachine lib en km)"

lemma settledMachine_fields:
  assumes "kube_contract lib" and "liveObjects lib km en"
  shows "kmst_Ready (km_Status (settledMachine lib en km))"
    and "kmst_Phase (km_Status (settledMachine lib en km)) = KubernetesMachinePhaseRunning"
    and "\<not> machineFailed (settledMachine lib en km)"
    and "km_Spec (settledMachine lib en km) = (km_Spec km)\<lparr>kms_ProviderID := if kms_ProviderID (km_Spec km) = None
      then Some (nodeProviderID (en_pod en)) else kms_ProviderID (km_Spec km)\<rparr>"
proof -
  have pid: "kms_ProviderID (km_Spec (nextMachine lib en km)) \<noteq> None" using nextMachine_fields(2) [OF assms(1)] by simp
  show "kmst_Ready (km_Status (settledMachine lib en km))"
    unfolding settledMachine_def by (rule nextMachine_fields(4) [OF assms(1) pid])
  show "kmst_Phase (km_Status (settledMachine lib en km)) = KubernetesMachinePhaseRunning"
    unfolding settledMachine_def by (rule nextMachine_phase [OF assms(1) nextMachine_live [OF assms] pid])
  show "\<not> machineFailed (settledMachine lib en km)"
    using assms(2) nextMachine_fields(3) [OF assms(1)] by (simp add: settledMachine_def liveObjects_def)
  show "km_Spec (settledMachine lib en km) = (km_Spec km)\<lparr>kms_ProviderID := if kms_ProviderID (km_Spec km) = None
      then Some (nodeProviderID (en_pod en)) else kms_ProviderID (km_Spec km)\<rparr>"
    using nextMachine_fields(2) [OF assms(1)] by (simp add: settledMachine_def)
qed

text \<open>From the second reconcile on every reconcile of \<open>s\<close> returns without an error and leaves the machine
  \<open>settled\<close>, which is ready, running and not failed.\<close>

definition settlesRunning ::
  "kube_lib \<Rightarrow> cloud_lib \<Rightarrow> 'w kube_client \<Rightarrow> NamespacedName \<Rightarrow> ('w \<Rightarrow> stored) \<Rightarrow> 'w st \<Rightarrow> Pod \<Rightarrow> KubernetesMachine \<Rightarrow> bool" where
  "settlesRunning lib cloud cli req view s pod settled \<longleftrightarrow>
     (\<forall>n. \<exists>s'. loopRounds (machine_Reconcile lib cloud cli req) (n + 2) s = (replicate (n + 2) (Returned (noRequeue, None)), s') \<and>
        view (fst s') = (settled, Some pod)) \<and>
     kmst_Ready (km_Status settled) \<and> kmst_Phase (km_Status settled) = KubernetesMachinePhaseRunning \<and>
     \<not> machineFailed settled"

lemma settles:
  assumes "kube_contract lib" and "apiServer cli req view en" and "healthyObjects lib cloud km en"
    and "view (fst s) = (km, Some (en_pod en))"
  shows "settlesRunning lib cloud cli req view s (en_pod en) (settledMachine lib en km)"
proof -
  have "loopReady lib cloud cli req view en (view (fst s))" using assms by (simp add: loopReady_def)
  from machine_loop.rounds_settle [of lib cloud cli req view en s, OF this]
  have "\<exists>s'. loopRounds (machine_Reconcile lib cloud cli req) (n + 2) s = (replicate (n + 2) (Returned (noRequeue, None)), s') \<and>
      view (fst s') = (settledMachine lib en km, Some (en_pod en))" for n
    using assms(4) by (simp add: apfst_funpow settledMachine_def numeral_2_eq_2)
  then show ?thesis
    using settledMachine_fields(1,2,3) [OF assms(1) healthyObjectsD(1) [OF assms(3)]] unfolding settlesRunning_def by blast
qed

text \<open>
  C7. The control loop of a machine settles: in a healthy environment, whatever else happens in the
  world, reconciling a live machine whose Pod runs ends after at most two reconciles in one state that
  further reconciles keep. Each of them returns without an error and asks for no retry, and in that
  state the machine is ready and \<open>Running\<close>, has not failed, has the provider ID it had or that of its
  Pod, and nothing else of its spec has changed.
\<close>

theorem machine_loop_settles:
  assumes "kube_contract lib" and "apiServer cli req view en" and "healthyObjects lib cloud km en"
    and "view (fst s) = (km, Some (en_pod en))"
  shows "\<exists>settled. settlesRunning lib cloud cli req view s (en_pod en) settled \<and>
    km_Spec settled = (km_Spec km)\<lparr>kms_ProviderID := if kms_ProviderID (km_Spec km) = None
      then Some (nodeProviderID (en_pod en)) else kms_ProviderID (km_Spec km)\<rparr>"
  using settles [OF assms] settledMachine_fields(4) [OF assms(1) healthyObjectsD(1) [OF assms(3)]] by blast

subsection \<open>From nothing to a running machine\<close>

text \<open>What the kubelet makes of a Pod it starts: the owners stay, the Pod is not deleted, and its kind
  container runs and is ready.\<close>

definition podStarted :: "Pod \<Rightarrow> Pod \<Rightarrow> bool" where
  "podStarted pod pod' \<longleftrightarrow>
     om_OwnerReferences (pod_Meta pod') = om_OwnerReferences (pod_Meta pod) \<and>
     om_Name (pod_Meta pod') = om_Name (pod_Meta pod) \<and> om_Namespace (pod_Meta pod') = om_Namespace (pod_Meta pod) \<and>
     timeIsZero (om_DeletionTimestamp (pod_Meta pod')) \<and> IsPodReady pod' \<and>
     (\<exists>cst. GetContainerStatus (pst_ContainerStatuses (pod_Status pod')) kindContainerName = (cst, True) \<and>
        cs_Ready cst \<and> st_Running (cs_State cst) \<noteq> None \<and> st_Terminated (cs_State cst) = None)"

lemma podless_fields:
  assumes "kube_contract lib"
  shows "\<exists>fs. km_Meta (machine_reconcilePhase (podlessMachine lib en km)) = (km_Meta km)\<lparr>om_Finalizers := fs\<rparr>"
    and "km_Spec (machine_reconcilePhase (podlessMachine lib en km)) = km_Spec km"
    and "machineFailed (machine_reconcilePhase (podlessMachine lib en km)) = machineFailed km"
  using withFinalizers_meta [OF assms, of "machine_reconcileVersion km (en_machine en)"]
  by (auto simp: podlessMachine_def Let_def)

lemma podless_live:
  assumes "kube_contract lib" and "liveObjects lib km en"
  shows "liveObjects lib (machine_reconcilePhase (podlessMachine lib en km)) (en\<lparr>en_pod := pod\<rparr>)"
proof -
  obtain fs where m: "km_Meta (machine_reconcilePhase (podlessMachine lib en km)) = (km_Meta km)\<lparr>om_Finalizers := fs\<rparr>"
    using podless_fields(1) [OF assms(1)] by blast
  have "lib_IsPaused lib (en_cluster en) ((km_Meta km)\<lparr>om_Finalizers := fs\<rparr>) = lib_IsPaused lib (en_cluster en) (km_Meta km)"
    by (rule kube_contract.paused_annotations [OF assms(1)]) simp
  then show ?thesis using assms(2) m podless_fields(2,3) [OF assms(1)] by (simp add: liveObjects_def)
qed

lemma started_healthy:
  assumes "kube_contract lib" and "liveObjects lib km en" and "GenerateScript cloud (en_doc en) = Returned (Inr script)"
    and "builtMachinePod lib (en_cluster en) (en_machine en) (podlessMachine lib en km) = Inr pod" and "podStarted pod pod'"
  shows "healthyObjects lib cloud (machine_reconcilePhase (podlessMachine lib en km)) (en\<lparr>en_pod := pod'\<rparr>)"
proof -
  have "lib_GetControllerOf lib (pod_Meta pod') = lib_GetControllerOf lib (pod_Meta pod)"
    by (rule kube_contract.controller_of [OF assms(1)]) (use assms(5) in \<open>simp add: podStarted_def\<close>)
  then have "controlledBy lib (pod_Meta pod') (om_UID (km_Meta (podlessMachine lib en km)))"
    using builtMachinePod_meta(3) [OF assms(1,4)] by (simp add: controlledBy_def)
  then show ?thesis
    using assms(3,5) podless_live [OF assms(1,2)] by (simp add: healthyObjects_def podStarted_def)
qed


subsection \<open>Deleting a machine\<close>

text \<open>What a reconcile makes of a deleted machine, before the phase is set.\<close>

definition deletedMachine :: "kube_lib \<Rightarrow> environment \<Rightarrow> Pod option \<Rightarrow> KubernetesMachine \<Rightarrow> KubernetesMachine" where
  "deletedMachine lib en p km =
     (if timeIsZero (om_DeletionTimestamp (cl_Meta (en_cluster en))) \<and> lib_IsControlPlaneMachine lib (en_machine en) \<and> p = None
      then setMachineFailure ''Machine Pod cannot be found'' (removeMachineFinalizer lib KubernetesMachineFinalizer km)
      else removeMachineFinalizer lib KubernetesMachineFinalizer km)"

lemma reconcileDelete_progress:
  assumes "answers I (cli_GetPod cli (podKeyOf en)) (podAnswer (v, p))"
    and "\<And>er. p \<noteq> None \<Longrightarrow> answers I (cli_Exec cli er) execSucceeded"
    and "I (fst s)" and "keyOf (km_Meta km) = en_key en"
  shows "\<exists>s'. machine_reconcileDelete lib cli (en_machine en) (en_cluster en) km s =
    (Returned (noRequeue, None), deletedMachine lib en p km, s') \<and> I (fst s')"
proof (cases "timeIsZero (om_DeletionTimestamp (cl_Meta (en_cluster en))) \<and> lib_IsControlPlaneMachine lib (en_machine en)")
  case True
  let ?key = "machinePodKey (en_machine en) km"
  obtain r s1 where g: "perform (EvGetPod ?key) (cli_GetPod cli ?key) s = (r, s1)" "podAnswer (v, p) r"
    and v1: "I (fst s1)"
    unfolding live_keys(1) [OF assms(4)] by (rule performs [OF assms(1,3)])
  show ?thesis
  proof (cases p)
    case None
    then obtain e where "r = Inl e" "IsNotFound e" using g(2) by (auto simp: podAnswer_def)
    then show ?thesis using v1 g(1) True None by (simp add: machine_reconcileDelete_def Let_def deletedMachine_def)
  next
    case (Some pod)
    then have r: "r = Inr pod" using g(2) by (simp add: podAnswer_def)
    obtain s2 where "kubeadmReset cli pod s1 = (None, s2)" "I (fst s2)"
      unfolding kubeadmReset_def by (rule exec_succeeds [of I, OF assms(2) v1]) (use Some in simp)
    then show ?thesis
      using v1 g(1) r True Some
      by (cases "controlledBy lib (pod_Meta pod) (om_UID (km_Meta km))")
        (simp_all add: machine_reconcileDelete_def Let_def deletedMachine_def)
  qed
next
  case False
  then have "machine_reconcileDelete lib cli (en_machine en) (en_cluster en) km s = (Returned (noRequeue, None), deletedMachine lib en p km, s)"
    by (auto simp: machine_reconcileDelete_def Let_def deletedMachine_def)
  then show ?thesis using assms(3) by blast
qed

text \<open>
  The API server while a machine is being deleted. It keeps the machine as long as that has finalizers; a
  patch that takes the last one away removes the machine, and after that it is not found. The answer to
  that patch is left open: the helper patches the metadata and the status by separate requests, and the
  second finds no object when the first has removed it.
\<close>

type_synonym leaving = "KubernetesMachine option \<times> Pod option"

definition machineAnswer :: "leaving \<Rightarrow> go_error + KubernetesMachine \<Rightarrow> bool" where
  "machineAnswer v r = (case fst v of None \<Rightarrow> (\<exists>e. r = Inl e \<and> IsNotFound e) | Some km \<Rightarrow> r = Inr km)"

definition keptAfterPatch :: "KubernetesMachine \<Rightarrow> KubernetesMachine option" where
  "keptAfterPatch b = (if om_Finalizers (km_Meta b) = [] then None else Some b)"

definition deletionServer ::
  "'w kube_client \<Rightarrow> NamespacedName \<Rightarrow> ('w \<Rightarrow> leaving) \<Rightarrow> environment \<Rightarrow> bool" where
  "deletionServer cli req view en \<longleftrightarrow>
     serves view (cli_GetKubernetesMachine cli req) machineAnswer \<and>
     (\<forall>a b w. fst (view w) = Some a \<and> \<not> timeIsZero (om_DeletionTimestamp (km_Meta a)) \<and>
        keyOf (km_Meta a) = en_key en \<and> keyOf (km_Meta b) = en_key en \<longrightarrow>
        view (snd (cli_PatchMachine cli a b w)) = (keptAfterPatch b, snd (view w)) \<and>
        (om_Finalizers (km_Meta b) \<noteq> [] \<longrightarrow> fst (cli_PatchMachine cli a b w) = None)) \<and>
     (\<forall>km p. reachingClient cli (\<lambda>w. view w = (Some km, p)) en \<and>
        answers (\<lambda>w. view w = (Some km, p)) (cli_GetPod cli (podKeyOf en)) (podAnswer (Some km, p)) \<and>
        (\<forall>er. p \<noteq> None \<longrightarrow> answers (\<lambda>w. view w = (Some km, p)) (cli_Exec cli er) execSucceeded))"

lemma deletionServerD:
  assumes "deletionServer cli req view en"
  shows "answers (\<lambda>w. view w = (Some km, p)) (cli_GetKubernetesMachine cli req) (\<lambda>r. r = Inr km)"
    "answers (\<lambda>w. view w = (None, p)) (cli_GetKubernetesMachine cli req) (\<lambda>r. \<exists>e. r = Inl e \<and> IsNotFound e)"
    "view w = (Some km, p) \<Longrightarrow> \<not> timeIsZero (om_DeletionTimestamp (km_Meta km)) \<Longrightarrow> keyOf (km_Meta km) = en_key en \<Longrightarrow>
       keyOf (km_Meta b) = en_key en \<Longrightarrow> view (snd (cli_PatchMachine cli km b w)) = (keptAfterPatch b, p) \<and>
       (om_Finalizers (km_Meta b) \<noteq> [] \<longrightarrow> fst (cli_PatchMachine cli km b w) = None)"
    "reachingClient cli (\<lambda>w. view w = (Some km, p)) en"
    "answers (\<lambda>w. view w = (Some km, p)) (cli_GetPod cli (podKeyOf en)) (podAnswer (Some km, p))"
    "p \<noteq> None \<Longrightarrow> answers (\<lambda>w. view w = (Some km, p)) (cli_Exec cli er) execSucceeded"
proof -
  note d = assms [unfolded deletionServer_def]
  have found: "machineAnswer (Some km, p) = (\<lambda>r. r = Inr km)" and gone: "machineAnswer (None, p) = (\<lambda>r. \<exists>e. r = Inl e \<and> IsNotFound e)"
    by (auto simp: machineAnswer_def)
  show "answers (\<lambda>w. view w = (Some km, p)) (cli_GetKubernetesMachine cli req) (\<lambda>r. r = Inr km)"
    unfolding found [symmetric] by (rule serves_answers [OF conjunct1 [OF d]])
  show "answers (\<lambda>w. view w = (None, p)) (cli_GetKubernetesMachine cli req) (\<lambda>r. \<exists>e. r = Inl e \<and> IsNotFound e)"
    unfolding gone [symmetric] by (rule serves_answers [OF conjunct1 [OF d]])
qed (use assms in \<open>simp_all add: deletionServer_def\<close>)

text \<open>A machine that is gone is not missed: every further reconcile returns at once.\<close>

lemma gone_rounds:
  assumes "deletionServer cli req view en" and "view (fst s) = (None, p)"
  shows "\<exists>s'. loopRounds (machine_Reconcile lib cloud cli req) n s = (replicate n (Returned (noRequeue, None)), s') \<and>
    view (fst s') = (None, p)"
  using assms(2)
proof (induction n arbitrary: s)
  case (Suc n)
  obtain e s1 where g: "perform (EvGetKubernetesMachine req) (cli_GetKubernetesMachine cli req) s = (Inl e, s1)" "IsNotFound e"
    and v: "view (fst s1) = (None, p)"
    by (rule performs [OF deletionServerD(2) [OF assms(1)] Suc.prems]) auto
  have "machine_Reconcile lib cloud cli req s = (Returned (noRequeue, None), s1)" using g by (simp add: machine_Reconcile_def)
  then show ?case using Suc.IH [OF v] by auto
qed simp

text \<open>
  C11. A deleted machine is let go. In an environment that answers, the next reconcile of a machine that is
  being deleted and is not paused, whatever its Pod is, ends with one patch, which takes away the
  finalizer of the controller and no other, keeps the identity and the spec, and sets the phase
  \<open>Deleting\<close>; it returns what that patch is answered. If others still hold finalizers, the patch succeeds
  and the machine waits for them. If not, the machine is gone, and every further reconcile of
  the request returns without an error.
\<close>

theorem machine_deletion_completes:
  assumes "kube_contract lib" and "deletionServer cli req view en" and "view (fst s) = (Some km, p)"
    and "\<not> timeIsZero (om_DeletionTimestamp (km_Meta km))" and "\<not> lib_IsPaused lib (en_cluster en) (km_Meta km)"
    and "cl_InfrastructureRef (en_cluster en) = Some ref" and "keyOf (km_Meta km) = en_key en"
  shows "\<exists>km' fs err s'. machine_Reconcile lib cloud cli req s = (Returned (noRequeue, err), s') \<and>
    last (snd s') = EvPatchMachine km km' err \<and>
    km_Meta km' = (km_Meta km)\<lparr>om_Finalizers := fs\<rparr> \<and>
    set fs = set (om_Finalizers (km_Meta km)) - {KubernetesMachineFinalizer} \<and>
    km_Spec km' = km_Spec km \<and> kmst_Phase (km_Status km') = KubernetesMachinePhaseDeleting \<and>
    (if set (om_Finalizers (km_Meta km)) \<subseteq> {KubernetesMachineFinalizer}
     then view (fst s') = (None, p) \<and>
       (\<forall>n. \<exists>s2. loopRounds (machine_Reconcile lib cloud cli req) n s' = (replicate n (Returned (noRequeue, None)), s2) \<and>
          view (fst s2) = (None, p))
     else err = None \<and> view (fst s') = (Some km', p))"
proof -
  let ?v = "machine_reconcileVersion km (en_machine en)"
  let ?d = "deletedMachine lib en p ?v"
  let ?k = "machine_reconcilePhase ?d"
  obtain fs where fs: "lib_RemoveFinalizer lib (km_Meta km) KubernetesMachineFinalizer = (km_Meta km)\<lparr>om_Finalizers := fs\<rparr>"
      "set fs = set (om_Finalizers (km_Meta km)) - {KubernetesMachineFinalizer}"
    using kube_contract.remove_finalizer [OF assms(1)] by blast
  have meta: "km_Meta ?d = (km_Meta km)\<lparr>om_Finalizers := fs\<rparr>" and spec: "km_Spec ?d = km_Spec km"
    using fs(1) by (simp_all add: deletedMachine_def removeMachineFinalizer_def)
  note D = deletionServerD [OF assms(2)]
  have body: "\<exists>s'. machineBody lib cloud cli km t = (Returned (noRequeue, None), ?d, s') \<and>
      view (fst s') = (Some km, p) \<and> set [] \<subseteq> set (snd s')" if i: "view (fst t) = (Some km, p)" for t
  proof -
    obtain t' where t': "machineBody lib cloud cli km t = machine_reconcileDelete lib cli (en_machine en) (en_cluster en) ?v t'"
        "view (fst t') = (Some km, p)"
      by (rule machineBody_reached [OF assms(7,6,5) D(4) i, of cloud]) (use assms(4) in auto)
    then show ?thesis
      using reconcileDelete_progress [of "\<lambda>w. view w = (Some km, p)", OF D(5,6) t'(2), of ?v lib] assms(7) by simp
  qed
  obtain err w s' where run: "machine_Reconcile lib cloud cli req s = (Returned (noRequeue, err), s')"
    and last: "last (snd s') = EvPatchMachine km ?k err" and w: "view w = (Some km, p)"
    and patch: "cli_PatchMachine cli km ?k w = (err, fst s')"
    by (rule reconcile_ends [of "\<lambda>w. view w = (Some km, p)", OF reachingClientD(1) [OF D(4)] D(1) assms(3) body])
  have "keyOf (km_Meta ?k) = en_key en" "om_Finalizers (km_Meta ?k) = fs" using meta assms(7) by simp_all
  then have v: "view (fst s') = (if fs = [] then None else Some ?k, p)" "fs \<noteq> [] \<longrightarrow> err = None"
    using D(3) [OF w assms(4,7), of ?k] patch by (simp_all add: keptAfterPatch_def)
  have none: "fs = [] \<longleftrightarrow> set (om_Finalizers (km_Meta km)) \<subseteq> {KubernetesMachineFinalizer}"
    by (metis set_empty fs(2) Diff_eq_empty_iff)
  have result: "if set (om_Finalizers (km_Meta km)) \<subseteq> {KubernetesMachineFinalizer}
     then view (fst s') = (None, p) \<and>
       (\<forall>n. \<exists>s2. loopRounds (machine_Reconcile lib cloud cli req) n s' = (replicate n (Returned (noRequeue, None)), s2) \<and>
          view (fst s2) = (None, p))
     else err = None \<and> view (fst s') = (Some ?k, p)"
    using v none gone_rounds [OF assms(2), of s' p lib cloud] by (cases "fs = []") simp_all
  have "km_Meta ?k = (km_Meta km)\<lparr>om_Finalizers := fs\<rparr>" "km_Spec ?k = km_Spec km"
      "kmst_Phase (km_Status ?k) = KubernetesMachinePhaseDeleting"
    using meta spec assms(4) by (simp_all add: phaseOf_def)
  then show ?thesis using run last fs(2) result
    by (intro exI [of _ ?k] exI [of _ fs] exI [of _ err] exI [of _ s'] conjI) assumption+
qed

subsection \<open>An API server of two objects\<close>

definition storeClient :: "stored kube_client" where
  "storeClient = emptyClient\<lparr>
     cli_GetKubernetesMachine := (\<lambda>_ w. (Inr (fst w), w)),
     cli_PatchMachine := (\<lambda>a b w. (None, (b, snd w))),
     cli_GetOwnerMachine := (\<lambda>_ w. (Inr (Some (sampleMachine True)), w)),
     cli_GetClusterFromMetadata := (\<lambda>_ w. (Inr (Some sampleCluster), w)),
     cli_GetKubernetesCluster := (\<lambda>_ w. (Inr sampleKC, w)),
     cli_GetPod := (\<lambda>k w. (case snd w of None \<Rightarrow> Inl (StatusNotFound (nn_Name k)) | Some p \<Rightarrow> Inr p, w)),
     cli_CreatePod := (\<lambda>p w. (None, (fst w, Some p))),
     cli_GetSecret := (\<lambda>_ w. (Inr \<lparr>sec_Meta = emptyObjectMeta, sec_Data = [''value'' \<mapsto> sampleDoc],
       sec_StringData = Map.empty\<rparr>, w)),
     cli_ListPods := (\<lambda>_ _ w. (Inr [samplePod running], w))\<rparr>"

definition sampleEnvironment :: environment where
  "sampleEnvironment = \<lparr>en_key = keyOf (km_Meta (sampleKM [])), en_machine = sampleMachine True, en_cluster = sampleCluster, en_pod = samplePod running,
     en_doc = sampleDoc\<rparr>"

lemma sample_server: "apiServer storeClient sampleKey (\<lambda>w. w) sampleEnvironment"
  by (auto simp: apiServer_def serves_def podAnswer_def storeClient_def emptyClient_def sampleEnvironment_def
      split: option.splits)

lemma sample_live: "liveObjects refLib (sampleKM []) sampleEnvironment"
proof -
  have "\<exists>m'. refSetController kind owner m = Inr m'" if "find isController (om_OwnerReferences m) = None" for kind owner m
    using that by (simp add: refSetController_def)
  moreover have "om_Namespace (cl_Meta sampleCluster) = om_Namespace (mc_Meta (sampleMachine True))"
    by (simp add: sampleCluster_def sampleMachine_def sampleMeta_def)
  ultimately show ?thesis
    by (auto simp: liveObjects_def sampleEnvironment_def machineFailed_def sampleKM_def timeIsZero_def
        sampleMeta_def emptyObjectMeta_def)
qed

lemma sample_healthy: "healthyObjects refLib (sampleCloud []) (sampleKM []) sampleEnvironment"
proof -
  have "\<exists>script. GenerateScript (sampleCloud []) sampleDoc = Returned (Inr script)" by (simp add: sampleDoc_script)
  moreover have "om_UID (km_Meta (sampleKM [])) = ''u2''" by (simp add: sampleKM_def sampleMeta_def)
  ultimately show ?thesis
    using sample_live
    by (simp add: healthyObjects_def sampleEnvironment_def timeIsZero_def running_def del: samplePod_simps(1))
      (simp add: running_def [symmetric])
qed

theorem machine_loop_settles_witness:
  "\<exists>settled. settlesRunning refLib (sampleCloud []) storeClient sampleKey (\<lambda>w. w) ((sampleKM [], Some (samplePod running)), [])
      (samplePod running) settled \<and> kms_ProviderID (km_Spec settled) = Some ''kubernetes://ns/km''"
proof -
  have "kms_ProviderID (km_Spec (sampleKM [])) = None" by (simp add: sampleKM_def)
  moreover have "nodeProviderID (samplePod running) = ''kubernetes://ns/km''"
    by (simp add: nodeProviderID_def samplePod_def sampleMeta_def providerIDPrefix_def)
  moreover have "en_pod sampleEnvironment = samplePod running" by (simp add: sampleEnvironment_def)
  ultimately show ?thesis
    using machine_loop_settles [OF ref.kube_contract_axioms sample_server sample_healthy,
        of "((sampleKM [], Some (samplePod running)), [])"]
    by auto
qed

text \<open>A Pod started by the kubelet.\<close>

definition startPod :: "Pod \<Rightarrow> Pod" where
  "startPod pod = pod\<lparr>pod_Meta := (pod_Meta pod)\<lparr>om_DeletionTimestamp := None\<rparr>, pod_Status := pod_Status (samplePod running)\<rparr>"

lemma startPod_started: "podStarted pod (startPod pod)"
proof -
  have "IsPodReady (startPod pod) = IsPodReady (samplePod running)"
    by (simp add: IsPodReady_iff_find startPod_def)
  then show ?thesis by (simp add: podStarted_def startPod_def timeIsZero_def running_def del: samplePod_simps(1))
qed


text \<open>An API server that removes a machine with its last finalizer and does not find it for the status.\<close>

definition leavingClient :: "leaving kube_client" where
  "leavingClient = emptyClient\<lparr>
     cli_GetKubernetesMachine := (\<lambda>k w. (case fst w of None \<Rightarrow> Inl (StatusNotFound (nn_Name k)) | Some km \<Rightarrow> Inr km, w)),
     cli_PatchMachine := (\<lambda>a b w. (if om_Finalizers (km_Meta b) = [] then Some (StatusNotFound (om_Name (km_Meta b))) else None,
       (keptAfterPatch b, snd w))),
     cli_GetOwnerMachine := (\<lambda>_ w. (Inr (Some (sampleMachine True)), w)),
     cli_GetClusterFromMetadata := (\<lambda>_ w. (Inr (Some sampleCluster), w)),
     cli_GetKubernetesCluster := (\<lambda>_ w. (Inr sampleKC, w)),
     cli_GetPod := (\<lambda>k w. (case snd w of None \<Rightarrow> Inl (StatusNotFound (nn_Name k)) | Some p \<Rightarrow> Inr p, w))\<rparr>"

lemma sample_deletion_server: "deletionServer leavingClient sampleKey (\<lambda>w. w) sampleEnvironment"
  unfolding deletionServer_def reachingClient_def
  by (auto simp: serves_def answers_def machineAnswer_def podAnswer_def leavingClient_def emptyClient_def sampleEnvironment_def
      split: option.splits)

definition leavingKM :: "string list \<Rightarrow> KubernetesMachine" where
  "leavingKM fs = (sampleKM [])\<lparr>km_Meta := (km_Meta (sampleKM []))\<lparr>om_DeletionTimestamp := Some 1, om_Finalizers := fs\<rparr>\<rparr>"

text \<open>The machine whose last finalizer goes is found no more; that of which somebody else holds one stays.\<close>

theorem machine_deletion_completes_witness:
  "(\<exists>err s' s2. machine_Reconcile refLib (sampleCloud []) leavingClient sampleKey
       ((Some (leavingKM [KubernetesMachineFinalizer]), Some (samplePod running)), []) = (Returned (noRequeue, err), s') \<and>
     fst s' = (None, Some (samplePod running)) \<and>
     loopRounds (machine_Reconcile refLib (sampleCloud []) leavingClient sampleKey) 2 s' =
       ([Returned (noRequeue, None), Returned (noRequeue, None)], s2)) \<and>
   (\<exists>km' s'. machine_Reconcile refLib (sampleCloud []) leavingClient sampleKey
       ((Some (leavingKM [KubernetesMachineFinalizer, ''other'']), Some (samplePod running)), []) = (Returned (noRequeue, None), s') \<and>
     fst s' = (Some km', Some (samplePod running)) \<and> set (om_Finalizers (km_Meta km')) = {''other''})"
proof -
  have d: "\<not> timeIsZero (om_DeletionTimestamp (km_Meta (leavingKM fs)))" for fs by (simp add: leavingKM_def timeIsZero_def)
  have p: "\<not> lib_IsPaused refLib (en_cluster sampleEnvironment) (km_Meta (leavingKM fs))" for fs
    by (simp add: leavingKM_def sampleEnvironment_def sampleKM_def sampleMeta_def emptyObjectMeta_def)
  have r: "cl_InfrastructureRef (en_cluster sampleEnvironment) = Some \<lparr>ref_Name = ''kc'', ref_Rest = []\<rparr>"
    by (simp add: sampleEnvironment_def)
  have k: "keyOf (km_Meta (leavingKM fs)) = en_key sampleEnvironment" for fs
    by (simp add: leavingKM_def sampleEnvironment_def keyOf_def)
  have fins [simp]: "om_Finalizers (km_Meta (leavingKM fs)) = fs" for fs by (simp add: leavingKM_def)
  have other: "''other'' \<noteq> KubernetesMachineFinalizer" by (simp add: KubernetesMachineFinalizer_def)
  have v: "(\<lambda>w. w) (fst ((Some km, Some (samplePod running)), [] :: event list)) = (Some km, Some (samplePod running))" for km
    by simp
  note go = machine_deletion_completes [OF ref.kube_contract_axioms sample_deletion_server v d p r k, of "sampleCloud []"]
  show ?thesis
  proof
    obtain err s' where last: "machine_Reconcile refLib (sampleCloud []) leavingClient sampleKey
         ((Some (leavingKM [KubernetesMachineFinalizer]), Some (samplePod running)), []) = (Returned (noRequeue, err), s')"
        "fst s' = (None, Some (samplePod running))"
      and rounds: "\<forall>n. \<exists>s2. loopRounds (machine_Reconcile refLib (sampleCloud []) leavingClient sampleKey) n s' =
         (replicate n (Returned (noRequeue, None)), s2) \<and> fst s2 = (None, Some (samplePod running))"
      using go [of "[KubernetesMachineFinalizer]"] unfolding fins by (auto simp del: split_paired_Ex)
    from rounds [rule_format, of 2] show "\<exists>err s' s2. machine_Reconcile refLib (sampleCloud []) leavingClient sampleKey
         ((Some (leavingKM [KubernetesMachineFinalizer]), Some (samplePod running)), []) = (Returned (noRequeue, err), s') \<and>
       fst s' = (None, Some (samplePod running)) \<and>
       loopRounds (machine_Reconcile refLib (sampleCloud []) leavingClient sampleKey) 2 s' =
         ([Returned (noRequeue, None), Returned (noRequeue, None)], s2)"
      using last by (auto simp: numeral_2_eq_2)
    have "set [KubernetesMachineFinalizer, ''other''] - {KubernetesMachineFinalizer} = {''other''}" using other by auto
    moreover have "\<not> set [KubernetesMachineFinalizer, ''other''] \<subseteq> {KubernetesMachineFinalizer}" using other by auto
    ultimately show "\<exists>km' s'. machine_Reconcile refLib (sampleCloud []) leavingClient sampleKey
         ((Some (leavingKM [KubernetesMachineFinalizer, ''other'']), Some (samplePod running)), []) = (Returned (noRequeue, None), s') \<and>
       fst s' = (Some km', Some (samplePod running)) \<and> set (om_Finalizers (km_Meta km')) = {''other''}"
      using go [of "[KubernetesMachineFinalizer, ''other'']"] unfolding fins
      by (simp del: split_paired_Ex) (elim exE conjE, intro exI conjI, assumption+, simp)
  qed
qed

end
