(* ===== verification/Histories.thy ===== *)
theory Histories
  imports System Machine_Converge
begin

text \<open>
  The life of a custom resource over many reconciles. The object stored in the API server changes when
  a reconcile patches it, with any client and any answers, and when somebody else edits it between two
  reconciles: users write the spec, the labels and the annotations and may ask for the deletion, but
  the status, the identity and the fields the controller fills in are left to the controller. The
  locale \<open>object_history\<close> holds what follows for every resource whose steps keep a relation between
  before and after and an invariant; it is interpreted on the steps of both controllers.
\<close>

subsection \<open>Histories\<close>

inductive history :: "('o \<Rightarrow> 'o \<Rightarrow> bool) \<Rightarrow> ('o \<Rightarrow> 'o \<Rightarrow> bool) \<Rightarrow> 'o \<Rightarrow> 'o \<Rightarrow> bool" for patched edited where
  history_start: "history patched edited a a"
| history_patched: "history patched edited a b \<Longrightarrow> patched b c \<Longrightarrow> history patched edited a c"
| history_edited: "history patched edited a b \<Longrightarrow> edited b c \<Longrightarrow> history patched edited a c"

locale object_history =
  fixes patched edited :: "'o \<Rightarrow> 'o \<Rightarrow> bool" and keeps :: "'o \<Rightarrow> 'o \<Rightarrow> bool" and good :: "'o \<Rightarrow> bool"
  assumes keeps_refl: "keeps a a"
    and keeps_trans: "keeps a b \<Longrightarrow> keeps b c \<Longrightarrow> keeps a c"
    and patched_keeps: "patched a b \<Longrightarrow> keeps a b"
    and edited_keeps: "edited a b \<Longrightarrow> keeps a b"
    and patched_good: "patched a b \<Longrightarrow> good a \<Longrightarrow> good b"
    and edited_good: "edited a b \<Longrightarrow> good a \<Longrightarrow> good b"
begin

lemma history_keeps: "history patched edited a b \<Longrightarrow> keeps a b"
  by (induction rule: history.induct) (blast intro: keeps_refl keeps_trans patched_keeps edited_keeps)+

lemma history_good: "history patched edited a b \<Longrightarrow> good a \<Longrightarrow> good b"
  by (induction rule: history.induct) (auto intro: patched_good edited_good)

end

text \<open>What an edit leaves alone in the metadata: the identity, and a deletion that has been asked for.\<close>

definition metaEdit :: "ObjectMeta \<Rightarrow> ObjectMeta \<Rightarrow> bool" where
  "metaEdit m m' \<longleftrightarrow> om_Name m' = om_Name m \<and> om_Namespace m' = om_Namespace m \<and> om_UID m' = om_UID m \<and>
     (\<not> timeIsZero (om_DeletionTimestamp m) \<longrightarrow> om_DeletionTimestamp m' = om_DeletionTimestamp m)"

lemma metaEdit_refl [simp]: "metaEdit m m"
  by (simp add: metaEdit_def)

lemma metaEdit_trans: "metaEdit a b \<Longrightarrow> metaEdit b c \<Longrightarrow> metaEdit a c"
  by (auto simp: metaEdit_def)

lemma metaEdit_finalizers [simp]: "metaEdit m (m\<lparr>om_Finalizers := fs\<rparr>)"
  by (simp add: metaEdit_def)

subsection \<open>The history of a KubernetesMachine\<close>

definition machinePatched ::
  "kube_lib \<Rightarrow> cloud_lib \<Rightarrow> 'w kube_client \<Rightarrow> KubernetesMachine \<Rightarrow> KubernetesMachine \<Rightarrow> bool" where
  "machinePatched lib cloud cli km km' \<longleftrightarrow> (\<exists>req w out s'.
     machine_Reconcile lib cloud cli req (w, []) = (out, s') \<and> EvPatchMachine km km' None \<in> set (snd s'))"

definition machineEdited :: "KubernetesMachine \<Rightarrow> KubernetesMachine \<Rightarrow> bool" where
  "machineEdited km km' \<longleftrightarrow> metaEdit (km_Meta km) (km_Meta km') \<and> km_Status km' = km_Status km \<and>
     kms_ProviderID (km_Spec km') = kms_ProviderID (km_Spec km)"

definition machineKeeps :: "KubernetesMachine \<Rightarrow> KubernetesMachine \<Rightarrow> bool" where
  "machineKeeps km km' \<longleftrightarrow> metaEdit (km_Meta km) (km_Meta km') \<and> (machineFailed km \<longrightarrow> machineFailed km') \<and>
     (kms_ProviderID (km_Spec km) \<noteq> None \<longrightarrow> kms_ProviderID (km_Spec km') = kms_ProviderID (km_Spec km))"

text \<open>The status tells the truth: a ready machine has a provider ID and a phase never claims more than
  the other fields say.\<close>

definition machineHonest :: "KubernetesMachine \<Rightarrow> bool" where
  "machineHonest km \<longleftrightarrow>
     (kmst_Ready (km_Status km) \<longrightarrow> kms_ProviderID (km_Spec km) \<noteq> None) \<and>
     (kmst_Phase (km_Status km) = [] \<or>
      kmst_Phase (km_Status km) = KubernetesMachinePhasePending \<or>
      kmst_Phase (km_Status km) = KubernetesMachinePhaseProvisioning \<and>
        kms_ProviderID (km_Spec km) \<noteq> None \<and> \<not> kmst_Ready (km_Status km) \<or>
      kmst_Phase (km_Status km) = KubernetesMachinePhaseRunning \<and>
        kms_ProviderID (km_Spec km) \<noteq> None \<and> kmst_Ready (km_Status km) \<and> \<not> machineFailed km \<or>
      kmst_Phase (km_Status km) = KubernetesMachinePhaseFailed \<and> machineFailed km \<or>
      kmst_Phase (km_Status km) = KubernetesMachinePhaseDeleting \<and>
        \<not> timeIsZero (om_DeletionTimestamp (km_Meta km)))"

lemma setters_phase [simp]:
  "kmst_Phase (km_Status (setMachineReady b km)) = kmst_Phase (km_Status km)"
  "kmst_Phase (km_Status (setMachineFailure msg km)) = kmst_Phase (km_Status km)"
  "kmst_Phase (km_Status (setMachineProviderID pid km)) = kmst_Phase (km_Status km)"
  "kmst_Phase (km_Status (machine_reconcileVersion km m)) = kmst_Phase (km_Status km)"
  by (simp_all add: setMachineReady_def setMachineFailure_def setMachineProviderID_def machine_reconcileVersion_def
      machine_SetFailureReason_def machine_SetFailureMessage_def)

lemma bodyRun_fields:
  assumes "kube_contract lib" and "bodyRun lib cloud km evs out km'"
  shows "kms_ProviderID (km_Spec km) \<noteq> None \<Longrightarrow> kms_ProviderID (km_Spec km') = kms_ProviderID (km_Spec km)"
    and "kmst_Ready (km_Status km') \<Longrightarrow> kmst_Ready (km_Status km) \<or> kms_ProviderID (km_Spec km) \<noteq> None"
    and "kmst_Phase (km_Status km') = kmst_Phase (km_Status km)"
proof -
  have "(kms_ProviderID (km_Spec km) \<noteq> None \<longrightarrow> kms_ProviderID (km_Spec km') = kms_ProviderID (km_Spec km)) \<and>
      (kmst_Ready (km_Status km') \<longrightarrow> kmst_Ready (km_Status km) \<or> kms_ProviderID (km_Spec km) \<noteq> None) \<and>
      kmst_Phase (km_Status km') = kmst_Phase (km_Status km)"
    using assms(2)
  proof (cases rule: bodyRun.cases)
    case (body_normal cluster ref machine evs' kc)
    from body_normal(6) show ?thesis
    proof (cases rule: normalRun.cases)
      case (normal_missing e evs'')
      then show ?thesis using missingRun_change [OF normal_missing(5)] by auto
    next
      case (normal_found pod evs'')
      then show ?thesis using podRun_change [OF normal_found(4)] podRun_ready [OF normal_found(4)] by auto
    qed auto
  next
    case (body_delete cluster ref machine evs' kc)
    then show ?thesis using deleteRun_change [OF body_delete(5)] by auto
  qed auto
  then show "kms_ProviderID (km_Spec km) \<noteq> None \<Longrightarrow> kms_ProviderID (km_Spec km') = kms_ProviderID (km_Spec km)"
    and "kmst_Ready (km_Status km') \<Longrightarrow> kmst_Ready (km_Status km) \<or> kms_ProviderID (km_Spec km) \<noteq> None"
    and "kmst_Phase (km_Status km') = kmst_Phase (km_Status km)"
    by blast+
qed

lemma machinePatched_run:
  assumes "kube_contract lib" and "machinePatched lib cloud cli km km'"
  obtains body out0 km0 where "bodyRun lib cloud km body out0 km0" "km' = machine_reconcilePhase km0"
  using assms unfolding machinePatched_def by (blast elim: patched_run)

lemma machinePatched_keeps:
  assumes "kube_contract lib" and "machinePatched lib cloud cli km km'"
  shows "machineKeeps km km'"
proof -
  obtain body out0 km0 where b: "bodyRun lib cloud km body out0 km0" and km': "km' = machine_reconcilePhase km0"
    by (rule machinePatched_run [OF assms])
  have "metaEdit (km_Meta km) (km_Meta km0)"
    using bodyRun_same [OF assms(1) b] by (auto simp: sameExceptOwned_def)
  then show ?thesis
    using bodyRun_failed [OF assms(1) b] bodyRun_fields(1) [OF assms(1) b] km' by (simp add: machineKeeps_def)
qed

lemma machinePatched_honest:
  assumes "kube_contract lib" and "machinePatched lib cloud cli km km'" and "machineHonest km"
  shows "machineHonest km'"
proof -
  obtain body out0 km0 where b: "bodyRun lib cloud km body out0 km0" and km': "km' = machine_reconcilePhase km0"
    by (rule machinePatched_run [OF assms(1,2)])
  have "machineKeeps km km'" by (rule machinePatched_keeps [OF assms(1,2)])
  moreover have "kmst_Phase (km_Status km0) = kmst_Phase (km_Status km)" by (rule bodyRun_fields(3) [OF assms(1) b])
  moreover have "kmst_Ready (km_Status km0) \<Longrightarrow> kms_ProviderID (km_Spec km) \<noteq> None"
    using bodyRun_fields(2) [OF assms(1) b] assms(3) by (auto simp: machineHonest_def)
  ultimately show ?thesis
    using assms(3) unfolding km' machineKeeps_def metaEdit_def machineHonest_def
    by (auto simp: phaseOf_def)
qed

lemma machineEdited_steps:
  assumes "machineEdited km km'"
  shows "machineKeeps km km'" and "machineHonest km \<Longrightarrow> machineHonest km'"
proof -
  have "machineFailed km' = machineFailed km" using assms by (simp add: machineEdited_def machineFailed_def)
  then show "machineKeeps km km'" "machineHonest km \<Longrightarrow> machineHonest km'"
    using assms by (auto simp: machineEdited_def machineKeeps_def machineHonest_def metaEdit_def)
qed

interpretation machine_life: object_history
  "\<lambda>km km'. kube_contract lib \<and> machinePatched lib cloud cli km km'" machineEdited machineKeeps machineHonest
  for lib cloud cli
proof
  fix a b c
  show "machineKeeps a a" by (simp add: machineKeeps_def)
  show "machineKeeps a b \<Longrightarrow> machineKeeps b c \<Longrightarrow> machineKeeps a c"
    by (auto simp: machineKeeps_def intro: metaEdit_trans)
qed (auto intro: machinePatched_keeps machinePatched_honest machineEdited_steps)

text \<open>
  C5. Over the whole life of a KubernetesMachine, however reconciles, API answers and edits by others
  follow each other: its identity never changes and a deletion is never taken back, once it has a
  provider ID it keeps it, once it has failed it stays failed; and from its creation on the status is
  honest: a ready machine has a provider ID, and the phase is one of the five of the API (or still
  empty) and holds only while the fields it stands for do.
\<close>

theorem machine_history:
  assumes "kube_contract lib" and "history (machinePatched lib cloud cli) machineEdited created km"
    and "history (machinePatched lib cloud cli) machineEdited km km'"
    and "\<not> kmst_Ready (km_Status created)" and "kmst_Phase (km_Status created) = []"
  shows "machineHonest km' \<and> machineKeeps km km' \<and>
    (kmst_Phase (km_Status km') = KubernetesMachinePhaseRunning \<longrightarrow>
       kms_ProviderID (km_Spec km') \<noteq> None \<and> kmst_Ready (km_Status km'))"
proof -
  have "machineHonest created" using assms(4,5) by (simp add: machineHonest_def)
  then have "machineHonest km'"
    using machine_life.history_good [of lib cloud cli created km] machine_life.history_good [of lib cloud cli km km'] assms(1-3)
    by simp
  then show ?thesis
    using machine_life.history_keeps [of lib cloud cli km km'] assms(1,3) by (auto simp: machineHonest_def)
qed

lemma readyKM_created: "\<not> kmst_Ready (km_Status readyKM)" "kmst_Phase (km_Status readyKM) = []"
  by simp_all (simp add: readyKM_def providedKM_def sampleKM_def setMachineProviderID_def)

text \<open>A sample life: a machine that has its provider ID becomes ready and is then deleted.\<close>

lemma sample_life:
  obtains km where "machinePatched refLib (sampleCloud []) (podClient readyKM running) readyKM km"
    "kmst_Ready (km_Status km)" "kms_ProviderID (km_Spec km) = Some ''kubernetes://ns/km''"
proof -
  let ?cli = "podClient readyKM running"
  obtain km where p: "EvPatchMachine readyKM km None \<in> set (snd (snd (sampleRun ?cli)))" "kmst_Ready (km_Status km)"
    using ready_sample_run by blast
  have m: "machinePatched refLib (sampleCloud []) ?cli readyKM km"
    unfolding machinePatched_def using p(1) sampleRun_is_run by blast
  have "kms_ProviderID (km_Spec km) = Some ''kubernetes://ns/km''"
    using machinePatched_keeps [OF ref.kube_contract_axioms m] by (simp add: machineKeeps_def)
  with m p(2) that show thesis by blast
qed

theorem machine_history_witness:
  "\<exists>km km'. machinePatched refLib (sampleCloud []) (podClient readyKM running) readyKM km \<and> kmst_Ready (km_Status km) \<and>
     machineEdited km km' \<and> om_DeletionTimestamp (km_Meta km') = Some 1 \<and> machineHonest km' \<and> machineKeeps km km'"
proof -
  let ?step = "machinePatched refLib (sampleCloud []) (podClient readyKM running)"
  obtain km where km: "?step readyKM km" "kmst_Ready (km_Status km)" by (rule sample_life)
  let ?km' = "km\<lparr>km_Meta := (km_Meta km)\<lparr>om_DeletionTimestamp := Some 1\<rparr>\<rparr>"
  have zero: "timeIsZero (om_DeletionTimestamp (km_Meta km))"
  proof -
    obtain body out0 km0 where b: "bodyRun refLib (sampleCloud []) readyKM body out0 km0" and k: "km = machine_reconcilePhase km0"
      by (rule machinePatched_run [OF ref.kube_contract_axioms km(1)])
    show ?thesis
      using bodyRun_same [OF ref.kube_contract_axioms b] k by (auto simp: sameExceptOwned_def timeIsZero_def)
  qed
  have e: "machineEdited km ?km'" using zero by (simp add: machineEdited_def metaEdit_def)
  have "history ?step machineEdited readyKM km" using history_patched [of ?step machineEdited] history_start km(1) by metis
  moreover have "history ?step machineEdited km ?km'" using history_edited [of ?step machineEdited] history_start e by metis
  ultimately have "machineHonest ?km' \<and> machineKeeps km ?km'"
    using machine_history [OF ref.kube_contract_axioms] readyKM_created by blast
  then show ?thesis using km e by (intro exI [of _ km] exI [of _ ?km']) simp
qed

subsection \<open>The history of a KubernetesCluster\<close>

definition clusterPatched ::
  "kube_lib \<Rightarrow> 'w kube_client \<Rightarrow> KubernetesCluster \<Rightarrow> KubernetesCluster \<Rightarrow> bool" where
  "clusterPatched lib cli kc kc' \<longleftrightarrow> (\<exists>req w ret s'.
     cluster_Reconcile lib cli req (w, []) = (ret, s') \<and> EvPatchCluster kc kc' None \<in> set (snd s'))"

definition clusterEdited :: "KubernetesCluster \<Rightarrow> KubernetesCluster \<Rightarrow> bool" where
  "clusterEdited kc kc' \<longleftrightarrow> metaEdit (kc_Meta kc) (kc_Meta kc') \<and> kc_Status kc' = kc_Status kc \<and>
     kcs_ControlPlaneEndpoint (kc_Spec kc') = kcs_ControlPlaneEndpoint (kc_Spec kc)"

definition clusterKeeps :: "KubernetesCluster \<Rightarrow> KubernetesCluster \<Rightarrow> bool" where
  "clusterKeeps kc kc' \<longleftrightarrow> metaEdit (kc_Meta kc) (kc_Meta kc') \<and> (clusterFailed kc \<longrightarrow> clusterFailed kc') \<and>
     (kcst_Ready (kc_Status kc) \<longrightarrow> kcst_Ready (kc_Status kc')) \<and>
     (\<not> APIEndpoint_IsZero (kcs_ControlPlaneEndpoint (kc_Spec kc)) \<longrightarrow>
        kcs_ControlPlaneEndpoint (kc_Spec kc') = kcs_ControlPlaneEndpoint (kc_Spec kc))"

definition clusterHonest :: "KubernetesCluster \<Rightarrow> bool" where
  "clusterHonest kc \<longleftrightarrow>
     kcst_Phase (kc_Status kc) = [] \<and> \<not> kcst_Ready (kc_Status kc) \<or>
     kcst_Phase (kc_Status kc) = KubernetesClusterPhaseProvisioning \<and>
       \<not> kcst_Ready (kc_Status kc) \<and> \<not> clusterFailed kc \<or>
     kcst_Phase (kc_Status kc) = KubernetesClusterPhaseProvisioned \<and>
       kcst_Ready (kc_Status kc) \<and> \<not> clusterFailed kc \<or>
     kcst_Phase (kc_Status kc) = KubernetesClusterPhaseFailed \<and> clusterFailed kc \<or>
     kcst_Phase (kc_Status kc) = KubernetesClusterPhaseDeleting \<and>
       \<not> timeIsZero (om_DeletionTimestamp (kc_Meta kc))"

lemma clusterBodyRun_meta:
  assumes "kube_contract lib" and "clusterBodyRun lib kc body ret kc'"
  shows "metaEdit (kc_Meta kc) (kc_Meta kc')"
proof -
  have prep: "metaEdit (kc_Meta kc) (kc_Meta (preparedCluster lib kc))"
    using preparedCluster_meta [OF assms(1), of kc] by auto
  have del: "metaEdit (kc_Meta kc) (kc_Meta (snd (cluster_reconcileDelete lib (defaultServiceType kc))))"
  proof -
    obtain fs where "lib_RemoveFinalizer lib (kc_Meta kc) KubernetesClusterFinalizer = (kc_Meta kc)\<lparr>om_Finalizers := fs\<rparr>"
      using kube_contract.remove_finalizer [OF assms(1)] by blast
    then show ?thesis by (simp add: cluster_reconcileDelete_def)
  qed
  show ?thesis
    using assms(2) prep del by (cases rule: clusterBodyRun.cases) (auto dest: serviceStep_meta)
qed

lemma clusterBodyRun_keeps:
  assumes "kube_contract lib" and "clusterBodyRun lib kc body ret kc'"
  shows "clusterKeeps kc kc'" and "kcst_Phase (kc_Status kc') = kcst_Phase (kc_Status kc)"
proof -
  have "(clusterFailed kc \<longrightarrow> clusterFailed kc') \<and> (kcst_Ready (kc_Status kc) \<longrightarrow> kcst_Ready (kc_Status kc')) \<and>
      (\<not> APIEndpoint_IsZero (kcs_ControlPlaneEndpoint (kc_Spec kc)) \<longrightarrow>
         kcs_ControlPlaneEndpoint (kc_Spec kc') = kcs_ControlPlaneEndpoint (kc_Spec kc)) \<and>
      kcst_Phase (kc_Status kc') = kcst_Phase (kc_Status kc)"
    using assms(2)
  proof (cases rule: clusterBodyRun_cases)
    case (found cluster svc)
    then show ?thesis
      using serviceStep_status(1,2) [OF found(3)] serviceStep_phase [OF found(3)] serviceStep_endpoint [OF found(3)]
      by auto
  next
    case other
    then show ?thesis by (simp add: clusterFailed_def)
  qed
  then show "clusterKeeps kc kc'" "kcst_Phase (kc_Status kc') = kcst_Phase (kc_Status kc)"
    using clusterBodyRun_meta [OF assms] by (simp_all add: clusterKeeps_def)
qed

lemma clusterPatched_run:
  assumes "clusterPatched lib cli kc kc'"
  obtains body ret kc0 where "clusterBodyRun lib kc body ret kc0" "kc' = cluster_reconcilePhase kc0"
  using assms unfolding clusterPatched_def by (blast elim: cluster_patched_run)

lemma clusterPatched_steps:
  assumes "kube_contract lib" and "clusterPatched lib cli kc kc'"
  shows "clusterKeeps kc kc'" and "clusterHonest kc \<Longrightarrow> clusterHonest kc'"
proof -
  obtain body ret kc0 where b: "clusterBodyRun lib kc body ret kc0" and kc': "kc' = cluster_reconcilePhase kc0"
    by (rule clusterPatched_run [OF assms(2)])
  note k = clusterBodyRun_keeps [OF assms(1) b]
  show "clusterKeeps kc kc'" using k(1) kc' by (simp add: clusterKeeps_def)
  show "clusterHonest kc \<Longrightarrow> clusterHonest kc'"
    using k unfolding kc' clusterKeeps_def metaEdit_def clusterHonest_def
    by (auto simp: clusterPhaseOf_def)
qed

lemma clusterEdited_steps:
  assumes "clusterEdited kc kc'"
  shows "clusterKeeps kc kc'" and "clusterHonest kc \<Longrightarrow> clusterHonest kc'"
proof -
  have "clusterFailed kc' = clusterFailed kc" using assms by (simp add: clusterEdited_def clusterFailed_def)
  then show "clusterKeeps kc kc'" "clusterHonest kc \<Longrightarrow> clusterHonest kc'"
    using assms by (auto simp: clusterEdited_def clusterKeeps_def clusterHonest_def metaEdit_def)
qed

interpretation cluster_life: object_history
  "\<lambda>kc kc'. kube_contract lib \<and> clusterPatched lib cli kc kc'" clusterEdited clusterKeeps clusterHonest
  for lib cli
proof
  fix a b c
  show "clusterKeeps a a" by (simp add: clusterKeeps_def)
  show "clusterKeeps a b \<Longrightarrow> clusterKeeps b c \<Longrightarrow> clusterKeeps a c"
    by (auto simp: clusterKeeps_def intro: metaEdit_trans)
qed (auto intro: clusterPatched_steps clusterEdited_steps)

text \<open>
  C17. Over the whole life of a KubernetesCluster: its identity never changes and a deletion is never
  taken back, a complete control plane endpoint stays what it is, readiness and failure are never
  taken back; and from its creation on the phase is one of the four of the API (or still empty) and
  holds only while the fields it stands for do.
\<close>

theorem cluster_history:
  assumes "kube_contract lib" and "history (clusterPatched lib cli) clusterEdited created kc"
    and "history (clusterPatched lib cli) clusterEdited kc kc'"
    and "\<not> kcst_Ready (kc_Status created)" and "kcst_Phase (kc_Status created) = []"
  shows "clusterHonest kc' \<and> clusterKeeps kc kc'"
proof -
  have "clusterHonest created" using assms(4,5) by (simp add: clusterHonest_def)
  then show ?thesis
    using cluster_life.history_good [of lib cli created kc] cluster_life.history_good [of lib cli kc kc']
      cluster_life.history_keeps [of lib cli kc kc'] assms(1-3)
    by simp
qed

lemma newKC_created: "\<not> kcst_Ready (kc_Status newKC)" "kcst_Phase (kc_Status newKC) = []"
  by (simp_all add: newKC_def)

lemma sample_cluster_life:
  obtains kc where "clusterPatched refLib (clusterClient newKC sampleService) newKC kc" "kcst_Ready (kc_Status kc)"
proof -
  obtain kc where p: "EvPatchCluster newKC kc None \<in> set (snd (snd (clusterSampleRun (clusterClient newKC sampleService))))"
    and r: "kcst_Ready (kc_Status kc)"
    using cluster_ready_sample by blast
  have "clusterPatched refLib (clusterClient newKC sampleService) newKC kc"
    unfolding clusterPatched_def using p clusterSampleRun_is_run by blast
  then show thesis using r by (rule that)
qed

theorem cluster_history_witness:
  "\<exists>kc. clusterPatched refLib (clusterClient newKC sampleService) newKC kc \<and> kcst_Ready (kc_Status kc) \<and>
     clusterHonest kc \<and> clusterKeeps newKC kc"
proof -
  let ?step = "clusterPatched refLib (clusterClient newKC sampleService)"
  obtain kc where m: "?step newKC kc" and r: "kcst_Ready (kc_Status kc)" by (rule sample_cluster_life)
  have "history ?step clusterEdited newKC newKC" by (rule history_start)
  moreover from this m have "history ?step clusterEdited newKC kc" by (rule history_patched)
  ultimately have "clusterHonest kc \<and> clusterKeeps newKC kc"
    using cluster_history [OF ref.kube_contract_axioms] newKC_created by blast
  then show ?thesis using m r by blast
qed

end
