(* ===== verification/Stale_Reads.thy ===== *)
theory Stale_Reads
  imports Histories
begin

text \<open>
  The life of a KubernetesMachine when reconciles read from a cache: the machine a reconcile starts
  from may be any version the API server has ever stored, and its patch is merged into the version
  stored by then. The merge is the one of the API server, a parameter with the contract
  \<open>merge_contract\<close>: a field the reconcile has not changed keeps its stored value, a field it has
  changed gets the new one.
\<close>

subsection \<open>Versions\<close>

text \<open>All versions of an object, the newest first.\<close>

inductive versions ::
  "('o \<Rightarrow> 'o \<Rightarrow> bool) \<Rightarrow> ('o \<Rightarrow> 'o \<Rightarrow> bool) \<Rightarrow> ('o \<Rightarrow> 'o \<Rightarrow> 'o \<Rightarrow> 'o) \<Rightarrow> 'o \<Rightarrow> 'o list \<Rightarrow> bool"
  for patched edited merge created where
  versions_start: "versions patched edited merge created [created]"
| versions_patched: "versions patched edited merge created (b # vs) \<Longrightarrow> a \<in> set (b # vs) \<Longrightarrow> patched a a' \<Longrightarrow>
    versions patched edited merge created (merge a a' b # b # vs)"
| versions_edited: "versions patched edited merge created (b # vs) \<Longrightarrow> edited b c \<Longrightarrow>
    versions patched edited merge created (c # b # vs)"

locale stale_history = object_history patched edited keeps good
  for patched edited :: "'o \<Rightarrow> 'o \<Rightarrow> bool" and keeps :: "'o \<Rightarrow> 'o \<Rightarrow> bool" and good :: "'o \<Rightarrow> bool" +
  fixes merge :: "'o \<Rightarrow> 'o \<Rightarrow> 'o \<Rightarrow> 'o"
  assumes merge_keeps: "good a \<Longrightarrow> good b \<Longrightarrow> keeps a b \<Longrightarrow> patched a a' \<Longrightarrow> keeps b (merge a a' b)"
    and merge_good: "good a \<Longrightarrow> good b \<Longrightarrow> keeps a b \<Longrightarrow> patched a a' \<Longrightarrow> good (merge a a' b)"
begin

lemma versions_keep:
  "versions patched edited merge created vs \<Longrightarrow> good created \<Longrightarrow>
    (\<forall>v \<in> set vs. good v \<and> keeps created v) \<and> (\<forall>v \<in> set vs. keeps v (hd vs))"
proof (induction rule: versions.induct)
  case versions_start
  then show ?case by (simp add: keeps_refl)
next
  case (versions_patched b vs a a')
  have h: "good a" "good b" "keeps a b" "keeps created b" using versions_patched by auto
  have "keeps b (merge a a' b)" by (rule merge_keeps [OF h(1-3) versions_patched.hyps(3)])
  moreover have "good (merge a a' b)" by (rule merge_good [OF h(1-3) versions_patched.hyps(3)])
  ultimately show ?case
    using versions_patched keeps_trans [of created b "merge a a' b"] keeps_trans [of _ b "merge a a' b"] keeps_refl by auto
next
  case (versions_edited b vs c)
  have "keeps b c" "good c" using versions_edited edited_keeps edited_good by auto
  then show ?case
    using versions_edited keeps_trans [of created b c] keeps_trans [of _ b c] keeps_refl by auto
qed

end

subsection \<open>Merging a patch\<close>

definition mergesField :: "(KubernetesMachine \<Rightarrow> KubernetesMachine \<Rightarrow> KubernetesMachine \<Rightarrow> KubernetesMachine) \<Rightarrow>
  (KubernetesMachine \<Rightarrow> 'f) \<Rightarrow> bool" where
  "mergesField merge field \<longleftrightarrow> (\<forall>a a' b. field (merge a a' b) = (if field a' = field a then field b else field a'))"

definition merge_contract :: "(KubernetesMachine \<Rightarrow> KubernetesMachine \<Rightarrow> KubernetesMachine \<Rightarrow> KubernetesMachine) \<Rightarrow> bool" where
  "merge_contract merge \<longleftrightarrow>
     mergesField merge (\<lambda>k. om_Name (km_Meta k)) \<and> mergesField merge (\<lambda>k. om_Namespace (km_Meta k)) \<and>
     mergesField merge (\<lambda>k. om_UID (km_Meta k)) \<and> mergesField merge (\<lambda>k. om_DeletionTimestamp (km_Meta k)) \<and>
     mergesField merge (\<lambda>k. kms_ProviderID (km_Spec k)) \<and> mergesField merge (\<lambda>k. kmst_FailureReason (km_Status k)) \<and>
     mergesField merge (\<lambda>k. kmst_FailureMessage (km_Status k)) \<and> mergesField merge (\<lambda>k. kmst_Ready (km_Status k))"

text \<open>The provider ID a machine gets, and the versions that have it or none.\<close>

definition ownProviderID :: "KubernetesMachine \<Rightarrow> string" where
  "ownProviderID km = providerIDPrefix @ om_Namespace (km_Meta km) @ ''/'' @ machinePodName km"

definition machineNamed :: "KubernetesMachine \<Rightarrow> bool" where
  "machineNamed km \<longleftrightarrow>
     (kms_ProviderID (km_Spec km) \<noteq> None \<longrightarrow> kms_ProviderID (km_Spec km) = Some (ownProviderID km)) \<and>
     (kmst_Ready (km_Status km) \<longrightarrow> kms_ProviderID (km_Spec km) \<noteq> None)"

text \<open>The API server answers with the Pod it was asked for, and the owner of a machine is in its namespace.\<close>

definition honestAnswers :: "event list \<Rightarrow> bool" where
  "honestAnswers evs \<longleftrightarrow>
     (\<forall>k pod. EvGetPod k (Inr pod) \<in> set evs \<longrightarrow>
        om_Namespace (pod_Meta pod) = nn_Namespace k \<and> om_Name (pod_Meta pod) = nn_Name k) \<and>
     (\<forall>m machine. EvGetOwnerMachine m (Inr (Some machine)) \<in> set evs \<longrightarrow> om_Namespace (mc_Meta machine) = om_Namespace m)"

definition machinePatchedHonestly ::
  "kube_lib \<Rightarrow> cloud_lib \<Rightarrow> 'w kube_client \<Rightarrow> KubernetesMachine \<Rightarrow> KubernetesMachine \<Rightarrow> bool" where
  "machinePatchedHonestly lib cloud cli km km' \<longleftrightarrow> (\<exists>req w out s'.
     machine_Reconcile lib cloud cli req (w, []) = (out, s') \<and> EvPatchMachine km km' None \<in> set (snd s') \<and> honestAnswers (snd s'))"

lemma patchedHonestly_patched: "machinePatchedHonestly lib cloud cli km km' \<Longrightarrow> machinePatched lib cloud cli km km'"
  unfolding machinePatchedHonestly_def machinePatched_def by blast

text \<open>What a reconcile does to the fields that are merged.\<close>

lemma patched_failure_fields:
  assumes "kube_contract lib" and "machinePatched lib cloud cli km km'"
  shows "kmst_FailureReason (km_Status km') = kmst_FailureReason (km_Status km) \<or> kmst_FailureReason (km_Status km') \<noteq> None"
    and "kmst_FailureMessage (km_Status km') = kmst_FailureMessage (km_Status km) \<or> kmst_FailureMessage (km_Status km') \<noteq> None"
proof -
  have set: "kmst_FailureReason (km_Status (setMachineFailure msg k)) \<noteq> None" for msg k
    by (simp add: setMachineFailure_def machine_SetFailureMessage_def machine_SetFailureReason_def)
  obtain body out0 km0 where b: "bodyRun lib cloud km body out0 km0" and km': "km' = machine_reconcilePhase km0"
    by (rule machinePatched_run [OF assms])
  have reason: "kmst_FailureReason (km_Status km') = kmst_FailureReason (km_Status km0)" by (simp add: km' machine_reconcilePhase_eq)
  have "(kmst_FailureReason (km_Status km0) = kmst_FailureReason (km_Status km) \<or> kmst_FailureReason (km_Status km0) \<noteq> None) \<and>
      (kmst_FailureMessage (km_Status km0) = kmst_FailureMessage (km_Status km) \<or> kmst_FailureMessage (km_Status km0) \<noteq> None)"
    using b
  proof (cases rule: bodyRun.cases)
    case (body_normal cluster ref machine evs' kc)
    from body_normal(6) show ?thesis
    proof (cases rule: normalRun.cases)
      case (normal_missing e evs'')
      then show ?thesis using missingRun_change [OF normal_missing(5)] set by auto
    next
      case (normal_found pod evs'')
      then show ?thesis using podRun_change [OF normal_found(4)] set by auto
    qed auto
  next
    case (body_delete cluster ref machine evs' kc)
    then show ?thesis using deleteRun_change [OF body_delete(5)] set by auto
  qed auto
  then show "kmst_FailureReason (km_Status km') = kmst_FailureReason (km_Status km) \<or> kmst_FailureReason (km_Status km') \<noteq> None"
    "kmst_FailureMessage (km_Status km') = kmst_FailureMessage (km_Status km) \<or> kmst_FailureMessage (km_Status km') \<noteq> None"
    using reason km' by simp_all
qed

lemma patched_providerID:
  assumes "kube_contract lib" and "machinePatchedHonestly lib cloud cli km km'"
    and "kms_ProviderID (km_Spec km') \<noteq> kms_ProviderID (km_Spec km)"
  shows "kms_ProviderID (km_Spec km) = None" "kms_ProviderID (km_Spec km') = Some (ownProviderID km)"
proof -
  obtain req w out s' where run: "machine_Reconcile lib cloud cli req (w, []) = (out, s')"
    and p: "EvPatchMachine km km' None \<in> set (snd s')" and honest: "honestAnswers (snd s')"
    using assms(2) unfolding machinePatchedHonestly_def by blast
  obtain machine pod where e: "kms_ProviderID (km_Spec km) = None" "EvGetOwnerMachine (km_Meta km) (Inr (Some machine)) \<in> set (snd s')"
      "EvGetPod (machinePodKey machine km) (Inr pod) \<in> set (snd s')" "kms_ProviderID (km_Spec km') = Some (nodeProviderID pod)"
    using providerID_change [OF assms(1) run p] assms(3) by blast
  show "kms_ProviderID (km_Spec km) = None" by (rule e(1))
  have "om_Namespace (mc_Meta machine) = om_Namespace (km_Meta km)"
      "om_Namespace (pod_Meta pod) = om_Namespace (mc_Meta machine)" "om_Name (pod_Meta pod) = machinePodName km"
    using honest e(2,3) unfolding honestAnswers_def machinePodKey_def by (metis NamespacedName.select_convs)+
  then show "kms_ProviderID (km_Spec km') = Some (ownProviderID km)" using e(4) by (simp add: nodeProviderID_def ownProviderID_def)
qed

lemma merge_fields:
  assumes "merge_contract merge"
  shows "om_Name (km_Meta (merge a a' b)) = (if om_Name (km_Meta a') = om_Name (km_Meta a) then om_Name (km_Meta b) else om_Name (km_Meta a'))"
    "om_Namespace (km_Meta (merge a a' b)) =
       (if om_Namespace (km_Meta a') = om_Namespace (km_Meta a) then om_Namespace (km_Meta b) else om_Namespace (km_Meta a'))"
    "om_UID (km_Meta (merge a a' b)) = (if om_UID (km_Meta a') = om_UID (km_Meta a) then om_UID (km_Meta b) else om_UID (km_Meta a'))"
    "om_DeletionTimestamp (km_Meta (merge a a' b)) = (if om_DeletionTimestamp (km_Meta a') = om_DeletionTimestamp (km_Meta a)
       then om_DeletionTimestamp (km_Meta b) else om_DeletionTimestamp (km_Meta a'))"
    "kms_ProviderID (km_Spec (merge a a' b)) = (if kms_ProviderID (km_Spec a') = kms_ProviderID (km_Spec a)
       then kms_ProviderID (km_Spec b) else kms_ProviderID (km_Spec a'))"
    "kmst_FailureReason (km_Status (merge a a' b)) = (if kmst_FailureReason (km_Status a') = kmst_FailureReason (km_Status a)
       then kmst_FailureReason (km_Status b) else kmst_FailureReason (km_Status a'))"
    "kmst_FailureMessage (km_Status (merge a a' b)) = (if kmst_FailureMessage (km_Status a') = kmst_FailureMessage (km_Status a)
       then kmst_FailureMessage (km_Status b) else kmst_FailureMessage (km_Status a'))"
    "kmst_Ready (km_Status (merge a a' b)) = (if kmst_Ready (km_Status a') = kmst_Ready (km_Status a)
       then kmst_Ready (km_Status b) else kmst_Ready (km_Status a'))"
  using assms unfolding merge_contract_def mergesField_def by simp_all

lemma patched_meta:
  assumes "kube_contract lib" and "machinePatched lib cloud cli km km'"
  shows "\<exists>fs. km_Meta km' = (km_Meta km)\<lparr>om_Finalizers := fs\<rparr>"
proof -
  obtain body out0 km0 where b: "bodyRun lib cloud km body out0 km0" and km': "km' = machine_reconcilePhase km0"
    by (rule machinePatched_run [OF assms])
  then show ?thesis using bodyRun_same [OF assms(1) b] by (auto simp: sameExceptOwned_def)
qed

lemma merged_identity:
  assumes "kube_contract lib" and "merge_contract merge" and "machinePatched lib cloud cli a a'"
  shows "om_Name (km_Meta (merge a a' b)) = om_Name (km_Meta b)" "om_Namespace (km_Meta (merge a a' b)) = om_Namespace (km_Meta b)"
    "om_UID (km_Meta (merge a a' b)) = om_UID (km_Meta b)"
    "om_DeletionTimestamp (km_Meta (merge a a' b)) = om_DeletionTimestamp (km_Meta b)"
  using patched_meta [OF assms(1,3)] by (auto simp: merge_fields [OF assms(2)])

text \<open>The stored provider ID stays what it is, or is the machine's own.\<close>

lemma merged_providerID:
  assumes "kube_contract lib" and "merge_contract merge" and "machinePatchedHonestly lib cloud cli a a'"
    and "machineNamed b" and "machineKeeps a b"
  shows "kms_ProviderID (km_Spec b) \<noteq> None \<Longrightarrow> kms_ProviderID (km_Spec (merge a a' b)) = kms_ProviderID (km_Spec b)"
    and "kms_ProviderID (km_Spec (merge a a' b)) \<noteq> None \<Longrightarrow> kms_ProviderID (km_Spec (merge a a' b)) = Some (ownProviderID b)"
    and "kms_ProviderID (km_Spec a') \<noteq> None \<Longrightarrow> kms_ProviderID (km_Spec (merge a a' b)) \<noteq> None"
proof -
  have own: "ownProviderID a = ownProviderID b"
    using assms(5) by (simp add: machineKeeps_def metaEdit_def ownProviderID_def machinePodName_def)
  note change = patched_providerID [OF assms(1,3)]
  note field = merge_fields(5) [OF assms(2), of a a' b]
  show "kms_ProviderID (km_Spec b) \<noteq> None \<Longrightarrow> kms_ProviderID (km_Spec (merge a a' b)) = kms_ProviderID (km_Spec b)"
    using field change(2) own assms(4) by (auto simp: machineNamed_def)
  show "kms_ProviderID (km_Spec (merge a a' b)) \<noteq> None \<Longrightarrow> kms_ProviderID (km_Spec (merge a a' b)) = Some (ownProviderID b)"
    using field change(2) own assms(4) by (auto simp: machineNamed_def split: if_splits)
  show "kms_ProviderID (km_Spec a') \<noteq> None \<Longrightarrow> kms_ProviderID (km_Spec (merge a a' b)) \<noteq> None"
    using field assms(5) unfolding machineKeeps_def by metis
qed

lemma merge_machineKeeps:
  assumes "kube_contract lib" and "merge_contract merge" and "machinePatchedHonestly lib cloud cli a a'"
    and "machineNamed b" and "machineKeeps a b"
  shows "machineKeeps b (merge a a' b)"
proof -
  note patched = patchedHonestly_patched [OF assms(3)]
  have "machineFailed (merge a a' b)" if "machineFailed b"
    using that patched_failure_fields [OF assms(1) patched] merge_fields(6,7) [OF assms(2), of a a' b]
    by (auto simp: machineFailed_def)
  then show ?thesis
    using merged_identity [OF assms(1,2) patched, of b] merged_providerID(1) [OF assms] by (simp add: machineKeeps_def metaEdit_def)
qed

lemma merge_machineNamed:
  assumes "kube_contract lib" and "merge_contract merge" and "machinePatchedHonestly lib cloud cli a a'"
    and "machineNamed a" and "machineNamed b" and "machineKeeps a b"
  shows "machineNamed (merge a a' b)"
proof -
  note patched = patchedHonestly_patched [OF assms(3)]
  note pid = merged_providerID [OF assms(1-3,5,6)]
  obtain body out0 km0 where run: "bodyRun lib cloud a body out0 km0" and a': "a' = machine_reconcilePhase km0"
    by (rule machinePatched_run [OF assms(1) patched])
  have "kmst_Ready (km_Status a') \<Longrightarrow> kms_ProviderID (km_Spec a') \<noteq> None"
    using bodyRun_fields(1,2) [OF assms(1) run] a' assms(4) by (auto simp: machineNamed_def)
  then have "kms_ProviderID (km_Spec (merge a a' b)) \<noteq> None" if "kmst_Ready (km_Status (merge a a' b))"
    using that merge_fields(8) [OF assms(2), of a a' b] pid(1,3) assms(5) by (auto simp: machineNamed_def split: if_splits)
  moreover have "ownProviderID (merge a a' b) = ownProviderID b"
    using merged_identity [OF assms(1,2) patched, of b] by (simp add: ownProviderID_def machinePodName_def)
  ultimately show ?thesis using pid(2) by (simp add: machineNamed_def)
qed

lemma patched_machineNamed:
  assumes "kube_contract lib" and "machinePatchedHonestly lib cloud cli a a'" and "machineNamed a"
  shows "machineNamed a'"
proof -
  note patched = patchedHonestly_patched [OF assms(2)]
  obtain body out0 km0 where run: "bodyRun lib cloud a body out0 km0" and a': "a' = machine_reconcilePhase km0"
    by (rule machinePatched_run [OF assms(1) patched])
  have "ownProviderID a' = ownProviderID a"
    using patched_meta [OF assms(1) patched] by (auto simp: ownProviderID_def machinePodName_def)
  then show ?thesis
    using bodyRun_fields(1,2) [OF assms(1) run] a' patched_providerID(2) [OF assms(1,2)] assms(3)
    by (cases "kms_ProviderID (km_Spec a') = kms_ProviderID (km_Spec a)") (auto simp: machineNamed_def)
qed

lemma edited_machineNamed: "machineEdited a b \<Longrightarrow> machineNamed a \<Longrightarrow> machineNamed b"
  by (simp add: machineEdited_def machineNamed_def metaEdit_def ownProviderID_def machinePodName_def)

interpretation stale_life: stale_history
  "\<lambda>km km'. kube_contract lib \<and> merge_contract merge \<and> machinePatchedHonestly lib cloud cli km km'"
  machineEdited machineKeeps machineNamed merge
  for lib cloud cli merge
proof
  fix a b c
  show "machineKeeps a a" by (simp add: machineKeeps_def)
  show "machineKeeps a b \<Longrightarrow> machineKeeps b c \<Longrightarrow> machineKeeps a c"
    by (auto simp: machineKeeps_def intro: metaEdit_trans)
qed (auto intro: machinePatched_keeps patchedHonestly_patched machineEdited_steps patched_machineNamed edited_machineNamed
    merge_machineKeeps merge_machineNamed)

text \<open>
  C13. Stale reads do no harm to what a machine must keep. However old the version is that a reconcile
  starts from, and whatever others have written since: from one version of a KubernetesMachine to any
  later one its identity stays, a deletion is not taken back, a failure stays a failure and a provider
  ID stays what it is; and a version that is ready has the provider ID \<open>kubernetes://namespace/name\<close> of
  the machine, if the machine was created without one and not ready.
\<close>

theorem machine_history_with_stale_reads:
  assumes "kube_contract lib" and "merge_contract merge"
    and "versions (machinePatchedHonestly lib cloud cli) machineEdited merge created (newest # older)"
    and "kms_ProviderID (km_Spec created) = None" and "\<not> kmst_Ready (km_Status created)"
  shows "(\<forall>km \<in> set older. machineKeeps km newest) \<and> machineKeeps created newest \<and>
    (kmst_Ready (km_Status newest) \<longrightarrow> kms_ProviderID (km_Spec newest) = Some (ownProviderID created))"
proof -
  have "machineNamed created" using assms(4,5) by (simp add: machineNamed_def)
  moreover have "versions (\<lambda>km km'. kube_contract lib \<and> merge_contract merge \<and> machinePatchedHonestly lib cloud cli km km')
      machineEdited merge created (newest # older)"
    using assms(1-3) by simp
  ultimately have k: "machineNamed newest" "machineKeeps created newest" "\<forall>km \<in> set older. machineKeeps km newest"
    using stale_life.versions_keep by fastforce+
  then have "ownProviderID newest = ownProviderID created"
    by (simp add: machineKeeps_def metaEdit_def ownProviderID_def machinePodName_def)
  then show ?thesis using k by (auto simp: machineNamed_def)
qed

text \<open>A merge field by field, and a machine whose first version is read twice.\<close>

definition pick :: "'a \<Rightarrow> 'a \<Rightarrow> 'a \<Rightarrow> 'a" where
  "pick x x' y = (if x' = x then y else x')"

definition mergeMachine :: "KubernetesMachine \<Rightarrow> KubernetesMachine \<Rightarrow> KubernetesMachine \<Rightarrow> KubernetesMachine" where
  "mergeMachine a a' b = b\<lparr>
     km_Meta := (km_Meta b)\<lparr>
       om_Name := pick (om_Name (km_Meta a)) (om_Name (km_Meta a')) (om_Name (km_Meta b)),
       om_Namespace := pick (om_Namespace (km_Meta a)) (om_Namespace (km_Meta a')) (om_Namespace (km_Meta b)),
       om_UID := pick (om_UID (km_Meta a)) (om_UID (km_Meta a')) (om_UID (km_Meta b)),
       om_DeletionTimestamp := pick (om_DeletionTimestamp (km_Meta a)) (om_DeletionTimestamp (km_Meta a')) (om_DeletionTimestamp (km_Meta b)),
       om_Finalizers := pick (om_Finalizers (km_Meta a)) (om_Finalizers (km_Meta a')) (om_Finalizers (km_Meta b))\<rparr>,
     km_Spec := (km_Spec b)\<lparr>
       kms_ProviderID := pick (kms_ProviderID (km_Spec a)) (kms_ProviderID (km_Spec a')) (kms_ProviderID (km_Spec b))\<rparr>,
     km_Status := (km_Status b)\<lparr>
       kmst_FailureReason := pick (kmst_FailureReason (km_Status a)) (kmst_FailureReason (km_Status a')) (kmst_FailureReason (km_Status b)),
       kmst_FailureMessage := pick (kmst_FailureMessage (km_Status a)) (kmst_FailureMessage (km_Status a')) (kmst_FailureMessage (km_Status b)),
       kmst_Phase := pick (kmst_Phase (km_Status a)) (kmst_Phase (km_Status a')) (kmst_Phase (km_Status b)),
       kmst_Ready := pick (kmst_Ready (km_Status a)) (kmst_Ready (km_Status a')) (kmst_Ready (km_Status b))\<rparr>\<rparr>"

lemma mergeMachine_contract: "merge_contract mergeMachine"
  by (simp add: merge_contract_def mergesField_def mergeMachine_def pick_def)

lemma first_read:
  obtains km where "machinePatchedHonestly refLib (sampleCloud []) (podClient (sampleKM []) running) (sampleKM []) km"
    "kms_ProviderID (km_Spec km) = Some ''kubernetes://ns/km''"
proof -
  let ?km = "machine_reconcilePhase (setMachineProviderID (nodeProviderID (samplePod running))
      (withFinalizers refLib (machine_reconcileVersion (sampleKM []) (sampleMachine True))))"
  let ?ns = "withFinalizers refLib (machine_reconcileVersion (sampleKM []) (sampleMachine True))"
  have uid: "om_UID (km_Meta ?ns) = ''u2''" by (simp add: withFinalizers_uid [OF ref.kube_contract_axioms])
  have key: "machinePodKey (sampleMachine True) ?ns = \<lparr>nn_Namespace = ''ns'', nn_Name = ''km''\<rparr>"
    by (simp add: machinePodKey_withFinalizers [OF ref.kube_contract_axioms])
      (simp add: machinePodKey_def machinePodName_def sampleMachine_def sampleMeta_def)
  have log: "EvPatchMachine (sampleKM []) ?km None \<in> set (snd (snd (sampleRun (podClient (sampleKM []) running)))) \<and>
      honestAnswers (snd (snd (sampleRun (podClient (sampleKM []) running))))"
    by (simp add: runDefs key uid podStep_def getProviderIDFromPod_Some honestAnswers_def)
      (simp add: sampleMachine_def sampleMeta_def)
  then have "machinePatchedHonestly refLib (sampleCloud []) (podClient (sampleKM []) running) (sampleKM []) ?km"
    unfolding machinePatchedHonestly_def using sampleRun_is_run by blast
  moreover have "kms_ProviderID (km_Spec ?km) = Some ''kubernetes://ns/km''"
    by (simp add: nodeProviderID_def providerIDPrefix_def)
  ultimately show thesis by (rule that)
qed

theorem machine_history_with_stale_reads_witness:
  "\<exists>km v1 v2. machinePatchedHonestly refLib (sampleCloud []) (podClient (sampleKM []) running) (sampleKM []) km \<and>
     v1 = mergeMachine (sampleKM []) km (sampleKM []) \<and> v2 = mergeMachine (sampleKM []) km v1 \<and>
     kms_ProviderID (km_Spec v1) = Some ''kubernetes://ns/km'' \<and> machineKeeps v1 v2 \<and> machineKeeps (sampleKM []) v2"
proof -
  let ?step = "machinePatchedHonestly refLib (sampleCloud []) (podClient (sampleKM []) running)"
  obtain km where km: "?step (sampleKM []) km" "kms_ProviderID (km_Spec km) = Some ''kubernetes://ns/km''" by (rule first_read)
  let ?v1 = "mergeMachine (sampleKM []) km (sampleKM [])"
  let ?v2 = "mergeMachine (sampleKM []) km ?v1"
  have "versions ?step machineEdited mergeMachine (sampleKM []) [?v1, sampleKM []]"
    by (rule versions_patched [where patched = ?step and edited = machineEdited and merge = mergeMachine]) (simp_all add: versions_start km(1))
  then have "versions ?step machineEdited mergeMachine (sampleKM []) [?v2, ?v1, sampleKM []]"
    by (rule versions_patched [where patched = ?step and edited = machineEdited and merge = mergeMachine]) (simp_all add: km(1))
  then have "machineKeeps ?v1 ?v2 \<and> machineKeeps (sampleKM []) ?v2"
    using machine_history_with_stale_reads [OF ref.kube_contract_axioms mergeMachine_contract] by (metis list.set_intros(1) sample_meta(7,9))
  moreover have "kms_ProviderID (km_Spec ?v1) = Some ''kubernetes://ns/km''"
    using km(2) by (simp add: mergeMachine_def pick_def)
  ultimately show ?thesis using km(1) by blast
qed

end
