(* ===== verification/Life_Cycles.thy ===== *)
theory Life_Cycles
  imports Histories
begin

text \<open>
  The life cycles of the two custom resources as abstract state machines, and the refinement: a
  reconcile takes at most one step of them, an edit by others only asks for the deletion, and the
  phase a reconcile writes is the name of the abstract state. The locale \<open>refined_history\<close> carries this from
  single steps to whole lives; it is interpreted on the steps of both controllers.
\<close>

locale refined_history = object_history patched edited keeps good
  for patched edited :: "'o \<Rightarrow> 'o \<Rightarrow> bool" and keeps :: "'o \<Rightarrow> 'o \<Rightarrow> bool" and good :: "'o \<Rightarrow> bool" +
  fixes abs :: "'o \<Rightarrow> 'a" and act :: "'a \<Rightarrow> 'a \<Rightarrow> bool"
  assumes patched_acts: "patched a b \<Longrightarrow> good a \<Longrightarrow> abs b = abs a \<or> act (abs a) (abs b)"
    and edited_acts: "edited a b \<Longrightarrow> good a \<Longrightarrow> abs b = abs a \<or> act (abs a) (abs b)"
begin

lemma history_refines: "history patched edited a b \<Longrightarrow> good a \<Longrightarrow> act\<^sup>*\<^sup>* (abs a) (abs b)"
proof (induction rule: history.induct)
  case (history_patched a b c)
  then show ?case
    using patched_acts history_good rtranclp.rtrancl_into_rtrancl [of act] by metis
next
  case (history_edited a b c)
  then show ?case
    using edited_acts history_good rtranclp.rtrancl_into_rtrancl [of act] by metis
qed simp

end

subsection \<open>The life cycle of a machine\<close>

text \<open>A machine waits for its Pod, has a place, the Pod, whose provider ID it bears, and serves as a node.\<close>

datatype stage = Waiting | Placed string | Serving string

record machine_life =
  ml_Stage :: stage
  ml_Failed :: bool
  ml_Deleting :: bool

fun stageOf :: "string option \<Rightarrow> bool \<Rightarrow> stage" where
  "stageOf None _ = Waiting"
| "stageOf (Some pid) ready = (if ready then Serving pid else Placed pid)"

definition machineLife :: "KubernetesMachine \<Rightarrow> machine_life" where
  "machineLife km = \<lparr>ml_Stage = stageOf (kms_ProviderID (km_Spec km)) (kmst_Ready (km_Status km)),
     ml_Failed = machineFailed km, ml_Deleting = (\<not> timeIsZero (om_DeletionTimestamp (km_Meta km)))\<rparr>"

text \<open>The steps of the controller, for a machine that may or may not be recreated.\<close>

inductive machineAction :: "bool \<Rightarrow> machine_life \<Rightarrow> machine_life \<Rightarrow> bool" for recreate where
  place: "machineAction recreate \<lparr>ml_Stage = Waiting, ml_Failed = False, ml_Deleting = False\<rparr>
    \<lparr>ml_Stage = Placed pid, ml_Failed = False, ml_Deleting = False\<rparr>"
| serve: "machineAction recreate \<lparr>ml_Stage = Placed pid, ml_Failed = False, ml_Deleting = False\<rparr>
    \<lparr>ml_Stage = Serving pid, ml_Failed = False, ml_Deleting = False\<rparr>"
| interrupt: "recreate \<Longrightarrow> machineAction recreate \<lparr>ml_Stage = Serving pid, ml_Failed = False, ml_Deleting = False\<rparr>
    \<lparr>ml_Stage = Placed pid, ml_Failed = False, ml_Deleting = False\<rparr>"
| break: "machineAction recreate \<lparr>ml_Stage = st, ml_Failed = False, ml_Deleting = d\<rparr>
    \<lparr>ml_Stage = st, ml_Failed = True, ml_Deleting = d\<rparr>"

text \<open>The step of others.\<close>

inductive machineAsked :: "machine_life \<Rightarrow> machine_life \<Rightarrow> bool" where
  "machineAsked \<lparr>ml_Stage = st, ml_Failed = f, ml_Deleting = False\<rparr> \<lparr>ml_Stage = st, ml_Failed = f, ml_Deleting = True\<rparr>"

definition machineLifeStep :: "machine_life \<Rightarrow> machine_life \<Rightarrow> bool" where
  "machineLifeStep a b \<longleftrightarrow> (\<exists>recreate. machineAction recreate a b) \<or> machineAsked a b"

fun machineShows :: "machine_life \<Rightarrow> string" where
  "machineShows \<lparr>ml_Stage = _, ml_Failed = _, ml_Deleting = True\<rparr> = KubernetesMachinePhaseDeleting"
| "machineShows \<lparr>ml_Stage = _, ml_Failed = True, ml_Deleting = False\<rparr> = KubernetesMachinePhaseFailed"
| "machineShows \<lparr>ml_Stage = Waiting, ml_Failed = False, ml_Deleting = False\<rparr> = KubernetesMachinePhasePending"
| "machineShows \<lparr>ml_Stage = Placed _, ml_Failed = False, ml_Deleting = False\<rparr> = KubernetesMachinePhaseProvisioning"
| "machineShows \<lparr>ml_Stage = Serving _, ml_Failed = False, ml_Deleting = False\<rparr> = KubernetesMachinePhaseRunning"

text \<open>Without recreation nothing is taken back, so that a life has at most four changes.\<close>

definition machineAge :: "machine_life \<Rightarrow> nat" where
  "machineAge l = (case ml_Stage l of Waiting \<Rightarrow> 0 | Placed _ \<Rightarrow> 1 | Serving _ \<Rightarrow> 2) + of_bool (ml_Failed l) + of_bool (ml_Deleting l)"

lemma machineAge_step: "machineAction False a b \<or> machineAsked a b \<Longrightarrow> machineAge b = Suc (machineAge a)"
  by (auto simp: machineAge_def elim!: machineAction.cases machineAsked.cases)

lemma machineAge_bound: "machineAge l \<le> 4"
  by (simp add: machineAge_def split: stage.splits)

lemma at_most_four_changes:
  assumes "((\<lambda>a b. machineAction False a b \<or> machineAsked a b) ^^ n) a b"
  shows "n \<le> 4"
proof -
  have "machineAge b = n + machineAge a"
    using assms
  proof (induction n arbitrary: b)
    case (Suc n)
    then obtain c where "((\<lambda>a b. machineAction False a b \<or> machineAsked a b) ^^ n) a c" "machineAction False c b \<or> machineAsked c b"
      by auto
    then show ?case using Suc.IH machineAge_step by fastforce
  qed simp
  then show ?thesis using machineAge_bound [of b] by simp
qed

text \<open>What the setters of the controller do to the abstract state.\<close>

lemma machineLife_setters [simp]:
  "machineLife (setMachineFailure msg km) = (machineLife km)\<lparr>ml_Failed := True\<rparr>"
  "machineLife (machine_reconcileVersion km m) = machineLife km"
  "machineLife (machine_reconcilePhase km) = machineLife km"
  by (simp_all add: machineLife_def)

lemma machineLife_fields [simp]:
  "ml_Failed (machineLife km) = machineFailed km"
  "ml_Deleting (machineLife km) = (\<not> timeIsZero (om_DeletionTimestamp (km_Meta km)))"
  by (simp_all add: machineLife_def)

lemma break_life: "\<not> machineFailed km \<Longrightarrow> machineAction r (machineLife km) ((machineLife km)\<lparr>ml_Failed := True\<rparr>)"
  using break [of r "ml_Stage (machineLife km)" "ml_Deleting (machineLife km)"] by (simp add: machineLife_def)

text \<open>The steps of \<open>reconcileNormal\<close>, on a machine that has not failed and is not deleted.\<close>

definition nodeless :: "KubernetesMachine \<Rightarrow> bool" where
  "nodeless km \<longleftrightarrow> kms_ProviderID (km_Spec km) = None \<and> kmst_Ready (km_Status km)"

lemma ready_acts:
  assumes "\<not> machineFailed km" and "timeIsZero (om_DeletionTimestamp (km_Meta km))" and "\<not> nodeless km"
    and "\<not> b \<Longrightarrow> kms_AllowRecreation (km_Spec km)"
    and "b \<Longrightarrow> kms_ProviderID (km_Spec km) \<noteq> None"
  shows "machineLife (setMachineReady b km) = machineLife km \<or>
    machineAction (kms_AllowRecreation (km_Spec km)) (machineLife km) (machineLife (setMachineReady b km))"
proof (cases "kmst_Ready (km_Status km) = b \<or> kms_ProviderID (km_Spec km) = None")
  case True
  then show ?thesis using assms(3) by (auto simp: machineLife_def nodeless_def)
next
  case False
  then obtain pid where "kms_ProviderID (km_Spec km) = Some pid" "kmst_Ready (km_Status km) = (\<not> b)" by auto
  then show ?thesis
    using assms(1,2,4) serve [of "kms_AllowRecreation (km_Spec km)" pid] interrupt [of "kms_AllowRecreation (km_Spec km)" pid]
    by (cases b) (simp_all add: machineLife_def)
qed

lemma podRun_acts:
  assumes "podRun lib cloud cluster machine pod km evs out km'"
    and "\<not> machineFailed km" and "timeIsZero (om_DeletionTimestamp (km_Meta km))" and "\<not> nodeless km"
  shows "machineLife km' = machineLife km \<or> machineAction (kms_AllowRecreation (km_Spec km)) (machineLife km) (machineLife km')"
  using assms(1)
proof (cases rule: podRun.cases)
  case pod_identified
  then show ?thesis using assms(2-4) by (auto simp: machineLife_def nodeless_def setMachineProviderID_def machineFailed_def intro: place)
next
  case pod_deleting
  then show ?thesis using ready_acts [of km False] assms(2-4) by simp
next
  case (pod_ok evs' evs'')
  then show ?thesis
    using secRun_change [OF pod_ok(6)] ready_acts [of km True] assms(2-4) by (auto intro: break_life)
qed (use assms(2) in \<open>auto intro: break_life\<close>)

lemma missingRun_acts:
  assumes "missingRun lib cluster machine km evs out km'"
    and "\<not> machineFailed km" and "timeIsZero (om_DeletionTimestamp (km_Meta km))" and "\<not> nodeless km"
  shows "machineLife km' = machineLife km \<or> machineAction (kms_AllowRecreation (km_Spec km)) (machineLife km) (machineLife km')"
  using assms(1)
  by (cases rule: missingRun.cases) (use ready_acts [of km False] assms(2-4) in \<open>auto intro: break_life split: if_splits\<close>)

lemma finalizers_life:
  assumes "kube_contract lib"
  shows "machineLife (withFinalizers lib km) = machineLife km" and "nodeless (withFinalizers lib km) = nodeless km"
    and "machineLife (releasedMachine lib km) = machineLife km"
proof -
  obtain fs where "lib_RemoveFinalizer lib (km_Meta km) KubernetesMachineFinalizer = (km_Meta km)\<lparr>om_Finalizers := fs\<rparr>"
    using kube_contract.remove_finalizer [OF assms] by blast
  then show "machineLife (releasedMachine lib km) = machineLife km"
    by (simp add: removeMachineFinalizer_def machineLife_def machineFailed_def)
  have "km_Status (withFinalizers lib km) = km_Status km" "km_Spec (withFinalizers lib km) = km_Spec km"
    by (simp_all add: withFinalizers_def addMachineFinalizer_def)
  then show "machineLife (withFinalizers lib km) = machineLife km" "nodeless (withFinalizers lib km) = nodeless km"
    using withFinalizers_meta [OF assms, of km] by (auto simp: machineLife_def nodeless_def machineFailed_def)
qed

lemma bodyRun_acts:
  assumes "kube_contract lib" and "bodyRun lib cloud km evs out km'" and "\<not> nodeless km"
  shows "machineLife km' = machineLife km \<or> machineAction (kms_AllowRecreation (km_Spec km)) (machineLife km) (machineLife km')"
  using assms(2)
proof (cases rule: bodyRun.cases)
  case (body_delete cluster ref machine evs' kc)
  have "machineFailed km \<Longrightarrow> (machineLife km)\<lparr>ml_Failed := True\<rparr> = machineLife km" by (simp add: machineLife_def)
  then have "(machineLife km)\<lparr>ml_Failed := True\<rparr> = machineLife km \<or>
      machineAction (kms_AllowRecreation (km_Spec km)) (machineLife km) ((machineLife km)\<lparr>ml_Failed := True\<rparr>)"
    using break_life by blast
  then show ?thesis using deleteRun_change [OF body_delete(5)] by (auto simp: finalizers_life [OF assms(1)])
next
  case (body_normal cluster ref machine evs' kc)
  let ?km = "machine_reconcileVersion km machine"
  let ?fin = "withFinalizers lib ?km"
  have fin: "\<not> nodeless ?fin" "machineLife ?fin = machineLife km" "km_Spec ?fin = km_Spec km"
      "machineFailed ?fin = machineFailed km" "timeIsZero (om_DeletionTimestamp (km_Meta ?fin))"
    using assms(3) body_normal(4) withFinalizers_meta [OF assms(1), of ?km] finalizers_life [OF assms(1)] by (auto simp: nodeless_def)
  from body_normal(6) show ?thesis
  proof (cases rule: normalRun.cases)
    case (normal_missing e evs'')
    then show ?thesis using missingRun_acts [OF normal_missing(5)] fin by simp
  next
    case (normal_found pod evs'')
    then show ?thesis using podRun_acts [OF normal_found(4)] fin by simp
  qed (use fin in simp_all)
qed auto

lemma honest_not_nodeless: "machineHonest km \<Longrightarrow> \<not> nodeless km"
  by (auto simp: machineHonest_def nodeless_def)

lemma machinePatched_acts:
  assumes "kube_contract lib" and "machinePatched lib cloud cli km km'" and "machineHonest km"
  shows "machineLife km' = machineLife km \<or> machineAction (kms_AllowRecreation (km_Spec km)) (machineLife km) (machineLife km')"
proof -
  obtain body out0 km0 where "bodyRun lib cloud km body out0 km0" "km' = machine_reconcilePhase km0"
    by (rule machinePatched_run [OF assms(1,2)])
  then show ?thesis using bodyRun_acts [OF assms(1)] honest_not_nodeless [OF assms(3)] by simp
qed

lemma machineEdited_asks:
  assumes "machineEdited km km'"
  shows "machineLife km' = machineLife km \<or> machineAsked (machineLife km) (machineLife km')"
proof -
  have same: "kms_ProviderID (km_Spec km') = kms_ProviderID (km_Spec km)" "km_Status km' = km_Status km" "machineFailed km' = machineFailed km"
    using assms by (simp_all add: machineEdited_def machineFailed_def)
  have kept: "timeIsZero (om_DeletionTimestamp (km_Meta km')) \<Longrightarrow> timeIsZero (om_DeletionTimestamp (km_Meta km))"
    using assms by (auto simp: machineEdited_def metaEdit_def)
  show ?thesis
  proof (cases "timeIsZero (om_DeletionTimestamp (km_Meta km')) = timeIsZero (om_DeletionTimestamp (km_Meta km))")
    case True
    then show ?thesis using same by (simp add: machineLife_def)
  next
    case False
    then show ?thesis using same kept by (auto simp: machineLife_def intro: machineAsked.intros)
  qed
qed

interpretation machine_cycle: refined_history
  "\<lambda>km km'. kube_contract lib \<and> machinePatched lib cloud cli km km'" machineEdited machineKeeps machineHonest
  machineLife machineLifeStep for lib cloud cli
  by unfold_locales (auto simp: machineLifeStep_def dest: machinePatched_acts machineEdited_asks)

text \<open>The phase a reconcile writes is the name of the abstract state.\<close>

lemma machinePatched_shows:
  assumes "kube_contract lib" and "machinePatched lib cloud cli km km'" and "machineHonest km"
  shows "kmst_Phase (km_Status km') = machineShows (machineLife km')"
proof -
  obtain body out0 km0 where b: "bodyRun lib cloud km body out0 km0" and km': "km' = machine_reconcilePhase km0"
    by (rule machinePatched_run [OF assms(1,2)])
  note k = bodyRun_failed [OF assms(1) b] bodyRun_fields [OF assms(1) b]
  have meta: "om_DeletionTimestamp (km_Meta km0) = om_DeletionTimestamp (km_Meta km)"
    using bodyRun_same [OF assms(1) b] by (auto simp: sameExceptOwned_def)
  show ?thesis
    using assms(3) k meta by (auto simp: km' phaseOf_def machineLife_def machineHonest_def split: option.splits)
qed

text \<open>
  C4. The life cycle of a machine. The stored KubernetesMachine refines a state machine with three
  stages: \<open>Waiting\<close> for its Pod, \<open>Placed\<close> with the provider ID of the Pod, \<open>Serving\<close> as a ready node; in each of
  them it may break, and others may ask for its deletion. From a new machine on, whatever
  is answered and edited, every reconcile takes at most one step: it places, serves or interrupts a machine
  that has neither failed nor been deleted, and interrupts only one that allows recreation; or it breaks a machine.
  The phase it writes is the name of the state it leaves. The life so far is a path of that state
  machine.
\<close>

theorem machine_life_cycle:
  assumes "kube_contract lib" and "history (machinePatched lib cloud cli) machineEdited created km"
    and "\<not> kmst_Ready (km_Status created)" and "kmst_Phase (km_Status created) = []"
    and "machinePatched lib cloud cli km km'"
  shows "(machineLife km' = machineLife km \<or> machineAction (kms_AllowRecreation (km_Spec km)) (machineLife km) (machineLife km')) \<and>
    kmst_Phase (km_Status km') = machineShows (machineLife km') \<and>
    machineLifeStep\<^sup>*\<^sup>* (machineLife created) (machineLife km')"
proof -
  have start: "machineHonest created" using assms(3,4) by (simp add: machineHonest_def)
  have hist: "history (\<lambda>km km'. kube_contract lib \<and> machinePatched lib cloud cli km km') machineEdited created km"
    using assms(1,2) by simp
  have honest: "machineHonest km" using machine_life.history_good [OF hist start] .
  note step = machinePatched_acts [OF assms(1,5) honest]
  have "machineLifeStep\<^sup>*\<^sup>* (machineLife created) (machineLife km')"
    by (rule machine_cycle.history_refines [OF history_patched [OF hist] start]) (use assms(1,5) in simp)
  then show ?thesis using step machinePatched_shows [OF assms(1,5) honest] by blast
qed

theorem machine_life_cycle_witness:
  "\<exists>km. machinePatched refLib (sampleCloud []) (podClient readyKM running) readyKM km \<and>
     machineLife readyKM = \<lparr>ml_Stage = Placed ''kubernetes://ns/km'', ml_Failed = False, ml_Deleting = False\<rparr> \<and>
     machineLife km = \<lparr>ml_Stage = Serving ''kubernetes://ns/km'', ml_Failed = False, ml_Deleting = False\<rparr> \<and>
     kmst_Phase (km_Status km) = KubernetesMachinePhaseRunning"
proof -
  let ?step = "machinePatched refLib (sampleCloud []) (podClient readyKM running)"
  obtain km where km: "?step readyKM km" "kmst_Ready (km_Status km)" "kms_ProviderID (km_Spec km) = Some ''kubernetes://ns/km''"
    by (rule sample_life)
  have start: "machineLife readyKM = \<lparr>ml_Stage = Placed ''kubernetes://ns/km'', ml_Failed = False, ml_Deleting = False\<rparr>"
    by (simp add: machineLife_def timeIsZero_def)
  have step: "machineLife km = machineLife readyKM \<or> machineAction False (machineLife readyKM) (machineLife km)"
    and phase: "kmst_Phase (km_Status km) = machineShows (machineLife km)"
    using machine_life_cycle [OF ref.kube_contract_axioms history_start [of ?step machineEdited readyKM] readyKM_created km(1)]
    by auto
  have "ml_Stage (machineLife km) = Serving ''kubernetes://ns/km''" using km(2,3) by (simp add: machineLife_def)
  then have "machineLife km = \<lparr>ml_Stage = Serving ''kubernetes://ns/km'', ml_Failed = False, ml_Deleting = False\<rparr>"
    using step start by (auto elim: machineAction.cases)
  then show ?thesis using km(1) start phase by auto
qed

subsection \<open>The life cycle of a cluster\<close>

record cluster_life =
  clf_Endpoint :: "APIEndpoint option"
  clf_Ready :: bool
  clf_Failed :: bool
  clf_Deleting :: bool

definition clusterLife :: "KubernetesCluster \<Rightarrow> cluster_life" where
  "clusterLife kc = (let ep = kcs_ControlPlaneEndpoint (kc_Spec kc)
     in \<lparr>clf_Endpoint = (if APIEndpoint_IsZero ep then None else Some ep), clf_Ready = kcst_Ready (kc_Status kc),
         clf_Failed = clusterFailed kc, clf_Deleting = (\<not> timeIsZero (om_DeletionTimestamp (kc_Meta kc)))\<rparr>)"

text \<open>
  A cluster that is not being deleted becomes ready, with an endpoint that is kept if it was set and otherwise taken
  from the Service, which need not be complete; or it fails.
\<close>

inductive clusterAction :: "cluster_life \<Rightarrow> cluster_life \<Rightarrow> bool" where
  provision: "clf_Endpoint l = None \<or> ep = clf_Endpoint l \<Longrightarrow> \<not> clf_Deleting l \<Longrightarrow>
    clusterAction l (l\<lparr>clf_Endpoint := ep, clf_Ready := True\<rparr>)"
| reject: "\<not> clf_Deleting l \<Longrightarrow> clusterAction l (l\<lparr>clf_Failed := True\<rparr>)"

inductive clusterAsked :: "cluster_life \<Rightarrow> cluster_life \<Rightarrow> bool" where
  "\<not> clf_Deleting l \<Longrightarrow> clusterAsked l (l\<lparr>clf_Deleting := True\<rparr>)"

definition clusterLifeStep :: "cluster_life \<Rightarrow> cluster_life \<Rightarrow> bool" where
  "clusterLifeStep a b \<longleftrightarrow> clusterAction a b \<or> clusterAsked a b"

definition clusterShows :: "cluster_life \<Rightarrow> string" where
  "clusterShows l =
     (if clf_Deleting l then KubernetesClusterPhaseDeleting
      else if clf_Failed l then KubernetesClusterPhaseFailed
      else if clf_Ready l then KubernetesClusterPhaseProvisioned else KubernetesClusterPhaseProvisioning)"

lemma clusterLife_setters [simp]:
  "clusterLife (setClusterFailure msg kc) = (clusterLife kc)\<lparr>clf_Failed := True\<rparr>"
  "clusterLife (cluster_reconcilePhase kc) = clusterLife kc"
  "clusterLife (setClusterReady kc) = (clusterLife kc)\<lparr>clf_Ready := True\<rparr>"
  "clusterLife (setClusterEndpoint h p kc) = (clusterLife kc)\<lparr>clf_Endpoint :=
     if APIEndpoint_IsZero \<lparr>ep_Host = h, ep_Port = p\<rparr> then None else Some \<lparr>ep_Host = h, ep_Port = p\<rparr>\<rparr>"
proof -
  have "clusterFailed (setClusterEndpoint h p kc) = clusterFailed kc" by (simp add: clusterFailed_def)
  then show "clusterLife (setClusterEndpoint h p kc) = (clusterLife kc)\<lparr>clf_Endpoint :=
     if APIEndpoint_IsZero \<lparr>ep_Host = h, ep_Port = p\<rparr> then None else Some \<lparr>ep_Host = h, ep_Port = p\<rparr>\<rparr>"
    by (simp add: clusterLife_def Let_def)
qed (simp_all add: clusterLife_def Let_def)

lemma serviceStep_acts:
  assumes "serviceStep lib svc kc = (ret, kc')" and "timeIsZero (om_DeletionTimestamp (kc_Meta kc))"
  shows "clusterLife kc' = clusterLife kc \<or> clusterAction (clusterLife kc) (clusterLife kc')"
proof -
  have live: "\<not> clf_Deleting (clusterLife kc)" using assms(2) by (simp add: clusterLife_def Let_def)
  have keep: "clusterAction (clusterLife kc) ((clusterLife kc)\<lparr>clf_Ready := True\<rparr>)"
    using provision [of "clusterLife kc" "clf_Endpoint (clusterLife kc)"] live by simp
  from assms(1) show ?thesis
  proof (cases rule: serviceStep_cases)
    case (found host)
    show ?thesis
    proof (cases rule: endpointStep_cases [of kc host "servicePortOf svc"])
      case set
      then have "clf_Endpoint (clusterLife kc) = None" by (simp add: clusterLife_def Let_def)
      then show ?thesis using live provision [of "clusterLife kc"] by (simp add: found(4) set(2))
    qed (use live keep in \<open>simp_all add: found(4) reject\<close>)
  qed (use live in \<open>simp_all add: reject\<close>)
qed

lemma prepared_life:
  assumes "kube_contract lib"
  shows "clusterLife (preparedCluster lib kc) = clusterLife kc"
    and "clusterLife (snd (cluster_reconcileDelete lib (defaultServiceType kc))) = clusterLife kc"
proof -
  show "clusterLife (preparedCluster lib kc) = clusterLife kc"
    using preparedCluster_meta [OF assms, of kc] by (auto simp: clusterLife_def Let_def)
  obtain fs where "lib_RemoveFinalizer lib (kc_Meta kc) KubernetesClusterFinalizer = (kc_Meta kc)\<lparr>om_Finalizers := fs\<rparr>"
    using kube_contract.remove_finalizer [OF assms] by blast
  then show "clusterLife (snd (cluster_reconcileDelete lib (defaultServiceType kc))) = clusterLife kc"
    by (simp add: cluster_reconcileDelete_def clusterLife_def Let_def clusterFailed_def)
qed

lemma clusterPatched_acts:
  assumes "kube_contract lib" and "clusterPatched lib cli kc kc'"
  shows "clusterLife kc' = clusterLife kc \<or> clusterAction (clusterLife kc) (clusterLife kc')"
proof -
  obtain body ret kc0 where b: "clusterBodyRun lib kc body ret kc0" and kc': "kc' = cluster_reconcilePhase kc0"
    by (rule clusterPatched_run [OF assms(2)])
  from b show ?thesis
  proof (cases rule: clusterBodyRun.cases)
    case (cb_found cluster svc)
    have "timeIsZero (om_DeletionTimestamp (kc_Meta (preparedCluster lib kc)))"
      using cb_found preparedCluster_meta [OF assms(1), of kc] by auto
    then show ?thesis using serviceStep_acts [OF cb_found(4)] by (simp add: kc' prepared_life [OF assms(1)])
  qed (simp_all add: kc' prepared_life [OF assms(1)])
qed

lemma clusterEdited_asks:
  assumes "clusterEdited kc kc'"
  shows "clusterLife kc' = clusterLife kc \<or> clusterAsked (clusterLife kc) (clusterLife kc')"
proof -
  have same: "kcs_ControlPlaneEndpoint (kc_Spec kc') = kcs_ControlPlaneEndpoint (kc_Spec kc)" "kc_Status kc' = kc_Status kc"
      "clusterFailed kc' = clusterFailed kc"
    using assms by (simp_all add: clusterEdited_def clusterFailed_def)
  have kept: "timeIsZero (om_DeletionTimestamp (kc_Meta kc')) \<Longrightarrow> timeIsZero (om_DeletionTimestamp (kc_Meta kc))"
    using assms by (auto simp: clusterEdited_def metaEdit_def)
  show ?thesis
  proof (cases "timeIsZero (om_DeletionTimestamp (kc_Meta kc')) = timeIsZero (om_DeletionTimestamp (kc_Meta kc))")
    case True
    then show ?thesis using same by (simp add: clusterLife_def)
  next
    case False
    then show ?thesis using same kept clusterAsked.intros [of "clusterLife kc"] by (auto simp: clusterLife_def Let_def)
  qed
qed

interpretation cluster_cycle: refined_history
  "\<lambda>kc kc'. kube_contract lib \<and> clusterPatched lib cli kc kc'" clusterEdited clusterKeeps clusterHonest
  clusterLife clusterLifeStep for lib cli
  by unfold_locales (auto simp: clusterLifeStep_def dest: clusterPatched_acts clusterEdited_asks)

lemma clusterPatched_shows:
  assumes "kube_contract lib" and "clusterPatched lib cli kc kc'" and "clusterHonest kc"
  shows "kcst_Phase (kc_Status kc') = clusterShows (clusterLife kc')"
proof -
  obtain body ret kc0 where b: "clusterBodyRun lib kc body ret kc0" and kc': "kc' = cluster_reconcilePhase kc0"
    by (rule clusterPatched_run [OF assms(2)])
  show ?thesis
    using assms(3) clusterBodyRun_keeps [OF assms(1) b]
    by (auto simp: kc' clusterPhaseOf_def clusterLife_def Let_def clusterShows_def clusterHonest_def clusterKeeps_def metaEdit_def)
qed

text \<open>
  C16. The life cycle of a cluster. The stored KubernetesCluster refines a state machine of four observations: its
  endpoint, whether it is ready, whether it has failed and whether it is being deleted. From a new cluster
  on, whatever is answered and edited, every reconcile takes at most one step, and only on a cluster that is
  not being deleted: it makes the cluster ready, keeping an endpoint that was set, or fails it. The phase it writes is the
  name of the state it leaves. The life so far is a path of that state machine.
\<close>

theorem cluster_life_cycle:
  assumes "kube_contract lib" and "history (clusterPatched lib cli) clusterEdited created kc"
    and "\<not> kcst_Ready (kc_Status created)" and "kcst_Phase (kc_Status created) = []"
    and "clusterPatched lib cli kc kc'"
  shows "(clusterLife kc' = clusterLife kc \<or> clusterAction (clusterLife kc) (clusterLife kc')) \<and>
    kcst_Phase (kc_Status kc') = clusterShows (clusterLife kc') \<and>
    clusterLifeStep\<^sup>*\<^sup>* (clusterLife created) (clusterLife kc')"
proof -
  have start: "clusterHonest created" using assms(3,4) by (simp add: clusterHonest_def)
  have hist: "history (\<lambda>kc kc'. kube_contract lib \<and> clusterPatched lib cli kc kc') clusterEdited created kc"
    using assms(1,2) by simp
  have "clusterLifeStep\<^sup>*\<^sup>* (clusterLife created) (clusterLife kc')"
    by (rule cluster_cycle.history_refines [OF history_patched [OF hist] start]) (use assms(1,5) in simp)
  then show ?thesis
    using clusterPatched_acts [OF assms(1,5)] clusterPatched_shows [OF assms(1,5) cluster_life.history_good [OF hist start]] by blast
qed

theorem cluster_life_cycle_witness:
  "\<exists>kc. clusterPatched refLib (clusterClient newKC sampleService) newKC kc \<and> kcst_Ready (kc_Status kc) \<and>
     clusterAction (clusterLife newKC) (clusterLife kc) \<and> kcst_Phase (kc_Status kc) = clusterShows (clusterLife kc)"
proof -
  let ?step = "clusterPatched refLib (clusterClient newKC sampleService)"
  obtain kc where m: "?step newKC kc" and r: "kcst_Ready (kc_Status kc)" by (rule sample_cluster_life)
  have "clusterLife kc \<noteq> clusterLife newKC" using r newKC_created(1) by (auto simp: clusterLife_def Let_def)
  then show ?thesis
    using cluster_life_cycle [OF ref.kube_contract_axioms history_start [of ?step clusterEdited newKC] newKC_created m] m r by blast
qed

end
