(* ===== verification/Call_Steps.thy ===== *)
theory Call_Steps
  imports Machine_Correct Cluster_Reconcile
begin

text \<open>
  A reconcile as a run of calls. \<open>answered\<close> says for every event of the log which call of the client it
  stands for; \<open>callStep\<close> is one such call on the world and the log. Both controllers act on the world by
  these steps only, so that what every single call keeps is kept by a whole reconcile
  (\<open>steps_invariant\<close>), where the final log may be used as a prophecy of the calls still to come.
\<close>

fun answered :: "'w kube_client \<Rightarrow> event \<Rightarrow> 'w \<Rightarrow> 'w \<Rightarrow> bool" where
  "answered cli (EvGetKubernetesMachine k r) w w' \<longleftrightarrow> cli_GetKubernetesMachine cli k w = (r, w')"
| "answered cli (EvGetKubernetesCluster k r) w w' \<longleftrightarrow> cli_GetKubernetesCluster cli k w = (r, w')"
| "answered cli (EvNewPatchHelper r) w w' \<longleftrightarrow> cli_NewPatchHelper cli w = (r, w')"
| "answered cli (EvPatchMachine a b r) w w' \<longleftrightarrow> cli_PatchMachine cli a b w = (r, w')"
| "answered cli (EvPatchCluster a' b' r) w w' \<longleftrightarrow> cli_PatchCluster cli a' b' w = (r, w')"
| "answered cli (EvGetOwnerMachine m r) w w' \<longleftrightarrow> cli_GetOwnerMachine cli m w = (r, w')"
| "answered cli (EvGetClusterFromMetadata m r') w w' \<longleftrightarrow> cli_GetClusterFromMetadata cli m w = (r', w')"
| "answered cli (EvGetOwnerCluster m r') w w' \<longleftrightarrow> cli_GetOwnerCluster cli m w = (r', w')"
| "answered cli (EvGetPod k pr) w w' \<longleftrightarrow> cli_GetPod cli k w = (pr, w')"
| "answered cli (EvCreatePod p e) w w' \<longleftrightarrow> cli_CreatePod cli p w = (e, w')"
| "answered cli (EvDeletePod p e) w w' \<longleftrightarrow> cli_DeletePod cli p w = (e, w')"
| "answered cli (EvListPods ns sel ps) w w' \<longleftrightarrow> cli_ListPods cli ns sel w = (ps, w')"
| "answered cli (EvGetSecret k x) w w' \<longleftrightarrow> cli_GetSecret cli k w = (x, w')"
| "answered cli (EvCreateSecret sec x) w w' \<longleftrightarrow> cli_CreateSecret cli sec w = (x, w')"
| "answered cli (EvGetClaim k e) w w' \<longleftrightarrow> cli_GetClaim cli k w = (e, w')"
| "answered cli (EvCreateClaim ns c e) w w' \<longleftrightarrow> cli_CreateClaim cli ns c w = (e, w')"
| "answered cli (EvGetService k sr) w w' \<longleftrightarrow> cli_GetService cli k w = (sr, w')"
| "answered cli (EvCreateService svc e) w w' \<longleftrightarrow> cli_CreateService cli svc w = (e, w')"
| "answered cli (EvListMachines ns sel ms) w w' \<longleftrightarrow> cli_ListMachines cli ns sel w = (ms, w')"
| "answered cli (EvExec er a) w w' \<longleftrightarrow> cli_Exec cli er w = (a, w')"

definition callStep :: "'w kube_client \<Rightarrow> 'w st \<Rightarrow> 'w st \<Rightarrow> bool" where
  "callStep cli s s' \<longleftrightarrow> (\<exists>e. snd s' = snd s @ [e] \<and> answered cli e (fst s) (fst s'))"

abbreviation steps :: "'w kube_client \<Rightarrow> 'w st \<Rightarrow> 'w st \<Rightarrow> bool" where
  "steps cli \<equiv> (callStep cli)\<^sup>*\<^sup>*"

named_theorems call_steps \<open>which steps a function of the controllers takes\<close>

lemma performed_step:
  assumes "perform ev call s = (r, s')" and "\<And>w'. call (fst s) = (r, w') \<Longrightarrow> answered cli (ev r) (fst s) w'"
  shows "steps cli s s'"
proof (rule r_into_rtranclp)
  obtain w' where "call (fst s) = (r, w')" "s' = (w', snd s @ [ev r])"
    using assms(1) by (auto simp: perform_def split: prod.splits)
  then show "callStep cli s s'" using assms(2) by (auto simp: callStep_def)
qed

lemma perform_steps [call_steps]:
  "perform (EvGetKubernetesMachine k) (cli_GetKubernetesMachine cli k) s = (r1, s') \<Longrightarrow> steps cli s s'"
  "perform (EvGetKubernetesCluster k) (cli_GetKubernetesCluster cli k) s = (r2, s') \<Longrightarrow> steps cli s s'"
  "perform EvNewPatchHelper (cli_NewPatchHelper cli) s = (r3, s') \<Longrightarrow> steps cli s s'"
  "perform (EvPatchMachine a b) (cli_PatchMachine cli a b) s = (r4, s') \<Longrightarrow> steps cli s s'"
  "perform (EvPatchCluster a' b') (cli_PatchCluster cli a' b') s = (r5, s') \<Longrightarrow> steps cli s s'"
  "perform (EvGetOwnerMachine m) (cli_GetOwnerMachine cli m) s = (r6, s') \<Longrightarrow> steps cli s s'"
  "perform (EvGetClusterFromMetadata m) (cli_GetClusterFromMetadata cli m) s = (r7, s') \<Longrightarrow> steps cli s s'"
  "perform (EvGetOwnerCluster m) (cli_GetOwnerCluster cli m) s = (r8, s') \<Longrightarrow> steps cli s s'"
  "perform (EvGetPod k) (cli_GetPod cli k) s = (r9, s') \<Longrightarrow> steps cli s s'"
  "perform (EvCreatePod p) (cli_CreatePod cli p) s = (r10, s') \<Longrightarrow> steps cli s s'"
  "perform (EvDeletePod p) (cli_DeletePod cli p) s = (r11, s') \<Longrightarrow> steps cli s s'"
  "perform (EvListPods ns sel) (cli_ListPods cli ns sel) s = (r12, s') \<Longrightarrow> steps cli s s'"
  "perform (EvGetSecret k) (cli_GetSecret cli k) s = (r13, s') \<Longrightarrow> steps cli s s'"
  "perform (EvCreateSecret sec) (cli_CreateSecret cli sec) s = (r14, s') \<Longrightarrow> steps cli s s'"
  "perform (EvGetClaim k) (cli_GetClaim cli k) s = (r15, s') \<Longrightarrow> steps cli s s'"
  "perform (EvCreateClaim ns c) (cli_CreateClaim cli ns c) s = (r16, s') \<Longrightarrow> steps cli s s'"
  "perform (EvGetService k) (cli_GetService cli k) s = (r17, s') \<Longrightarrow> steps cli s s'"
  "perform (EvCreateService svc) (cli_CreateService cli svc) s = (r18, s') \<Longrightarrow> steps cli s s'"
  "perform (EvExec er) (cli_Exec cli er) s = (r19, s') \<Longrightarrow> steps cli s s'"
  by (erule performed_step, simp)+

lemma steps_trans: "steps cli s t \<Longrightarrow> steps cli t u \<Longrightarrow> steps cli s u"
  by (rule rtranclp_trans)

lemma steps_log: "steps cli s s' \<Longrightarrow> \<exists>evs. snd s' = snd s @ evs"
  by (induction rule: rtranclp_induct) (auto simp: callStep_def)

text \<open>An invariant of the calls; a call may be assumed to be part of the final log.\<close>

lemma steps_invariant:
  assumes "steps cli s s'" and "J s"
    and "\<And>a b e rest. J a \<Longrightarrow> answered cli e (fst a) (fst b) \<Longrightarrow> snd b = snd a @ [e] \<Longrightarrow> snd s' = snd a @ e # rest \<Longrightarrow> J b"
  shows "J s'"
proof -
  have "(\<exists>rest. snd s' = snd t @ rest) \<longrightarrow> J t" if "steps cli s t" for t
    using that
  proof (induction rule: rtranclp_induct)
    case base
    show ?case using assms(2) by blast
  next
    case (step a b)
    then obtain e where e: "answered cli e (fst a) (fst b)" "snd b = snd a @ [e]" by (auto simp: callStep_def)
    show ?case
    proof
      assume "\<exists>rest. snd s' = snd b @ rest"
      then obtain rest where rest: "snd s' = snd a @ e # rest" using e(2) by auto
      then have "J a" using step.IH by blast
      then show "J b" by (rule assms(3) [OF _ e rest])
    qed
  qed
  from this [OF assms(1)] show ?thesis by simp
qed

subsection \<open>The machine controller\<close>

lemma kindContainerExec_steps [call_steps]: "kindContainerExec cli pod command args s = (err, s') \<Longrightarrow> steps cli s s'"
  by (auto simp: kindContainerExec_eq split: prod.splits dest: call_steps)

lemma setNodeProviderID_steps [call_steps]: "setNodeProviderID cli cluster pod s = (err, s') \<Longrightarrow> steps cli s s'"
  by (auto simp: setNodeProviderID_def Let_def getProviderIDFromPod_Some split: prod.splits sum.splits list.splits
      dest!: call_steps intro: steps_trans)

lemma bootstrapStep_steps [call_steps]: "bootstrapStep cli cluster pod cst km s = (out, km', s') \<Longrightarrow> steps cli s s'"
  by (auto simp: bootstrapStep_def enableBoostrapProcess_def split: prod.splits option.splits if_splits
      dest!: call_steps intro: steps_trans)

lemma containerStep_steps [call_steps]: "containerStep cli cluster pod km s = (out, km', s') \<Longrightarrow> steps cli s s'"
  by (auto simp: containerStep_def split: prod.splits option.splits if_splits dest!: call_steps)

lemma getBootstrapData_steps [call_steps]: "getBootstrapData cli machine s = (r, s') \<Longrightarrow> steps cli s s'"
  by (auto simp: getBootstrapData_def Let_def split: prod.splits option.splits sum.splits dest!: call_steps)

lemma secretStep_steps [call_steps]: "secretStep lib cloud cli cluster machine pod km s = (out, km', s') \<Longrightarrow> steps cli s s'"
  by (auto simp: secretStep_def Let_def split: prod.splits option.splits sum.splits outcome.splits if_splits
      dest!: call_steps intro: steps_trans)

lemma createClaim_steps [call_steps]: "createClaim cli km c s = (errs, s') \<Longrightarrow> steps cli s s'"
  by (auto simp: createClaim_def Let_def split: prod.splits option.splits if_splits dest!: call_steps intro: steps_trans)

lemma createClaimsLoop_steps [call_steps]: "createClaimsLoop cli km cs errs s = (errs', s') \<Longrightarrow> steps cli s s'"
proof (induction cs arbitrary: errs s)
  case (Cons nc cs)
  then show ?case by (cases nc) (auto split: prod.splits dest!: createClaim_steps intro: steps_trans)
qed simp

lemma createPersistentVolumeClaims_steps [call_steps]: "createPersistentVolumeClaims lib cli km s = (err, s') \<Longrightarrow> steps cli s s'"
  by (auto simp: createPersistentVolumeClaims_def split: prod.splits sum.splits dest!: call_steps)

lemma podStep_steps [call_steps]: "podStep lib cloud cli cluster machine pod km s = (out, km', s') \<Longrightarrow> steps cli s s'"
  by (auto simp: podStep_def getProviderIDFromPod_Some split: prod.splits option.splits if_splits dest!: call_steps intro: steps_trans)

lemma missingPodStep_steps [call_steps]: "missingPodStep lib cli cluster machine km s = (out, km', s') \<Longrightarrow> steps cli s s'"
  by (auto simp: missingPodStep_def Let_def createMachinePod_eq createBuiltPod_def split: prod.splits sum.splits if_splits
      dest!: call_steps)

lemma machine_reconcileNormal_steps [call_steps]:
  "machine_reconcileNormal lib cloud cli cluster machine km s = (out, km', s') \<Longrightarrow> steps cli s s'"
  by (auto simp: machine_reconcileNormal_eq split: prod.splits sum.splits if_splits dest!: call_steps intro: steps_trans)

lemma machine_reconcileDelete_steps [call_steps]:
  "machine_reconcileDelete lib cli machine cluster km s = (out, km', s') \<Longrightarrow> steps cli s s'"
  by (auto simp: machine_reconcileDelete_def Let_def kubeadmReset_def split: prod.splits sum.splits option.splits if_splits
      dest!: call_steps intro: steps_trans)

lemma machineBody_steps [call_steps]: "machineBody lib cloud cli km s = (out, km', s') \<Longrightarrow> steps cli s s'"
  by (auto simp: machineBody_def Let_def split: prod.splits sum.splits option.splits if_splits
      dest!: call_steps intro: steps_trans)

lemma machine_Reconcile_steps: "machine_Reconcile lib cloud cli req s = (out, s') \<Longrightarrow> steps cli s s'"
  by (auto simp: machine_Reconcile_def machineDeferred_def Let_def split: prod.splits sum.splits option.splits outcome.splits if_splits
      dest!: call_steps intro: steps_trans)

subsection \<open>The cluster controller\<close>

lemma cluster_reconcileNormal_steps [call_steps]: "cluster_reconcileNormal lib cli cluster kc s = (ret, kc', s') \<Longrightarrow> steps cli s s'"
  by (auto simp: cluster_reconcileNormal_def createClusterService_def Let_def split: prod.splits sum.splits if_splits
      dest!: call_steps intro: steps_trans)

lemma clusterBody_steps [call_steps]: "clusterBody lib cli kc s = (ret, kc', s') \<Longrightarrow> steps cli s s'"
  by (auto simp: clusterBody_def Let_def split: prod.splits sum.splits option.splits if_splits
      dest!: call_steps intro: steps_trans)

lemma cluster_Reconcile_steps: "cluster_Reconcile lib cli req s = (ret, s') \<Longrightarrow> steps cli s s'"
  by (auto simp: cluster_Reconcile_def clusterDeferred_def Let_def split: prod.splits sum.splits option.splits if_splits
      dest!: call_steps intro: steps_trans)

end
