(* ===== verification/Machine_Faults.thy ===== *)
theory Machine_Faults
  imports Machine_Converge Call_Steps
begin

text \<open>
  Faults of the environment. First, what makes a machine fail for good: only the state its Pod is found
  in, or a bootstrap Secret of somebody else, never an error of a request or of a command. Then, what
  faults do to the control loop: \<open>flakyServer\<close> is an API server each of whose answers may be an error, may
  come although the request was carried out, and may change from call to call; it keeps a healthy
  machine healthy, so that the loop settles once the faults are over.
\<close>

subsection \<open>What makes a machine fail\<close>

text \<open>A Pod that cannot be the machine's any more.\<close>

definition podLost :: "kube_lib \<Rightarrow> KubernetesMachine \<Rightarrow> Pod \<Rightarrow> bool" where
  "podLost lib km pod \<longleftrightarrow> \<not> controlledBy lib (pod_Meta pod) (om_UID (km_Meta km)) \<or>
     \<not> kms_AllowRecreation (km_Spec km) \<and> (\<not> timeIsZero (om_DeletionTimestamp (pod_Meta pod)) \<or> kindTerminated pod)"

text \<open>The request for a Secret of the machine was answered with one of somebody else.\<close>

definition foreignSecret :: "kube_lib \<Rightarrow> KubernetesMachine \<Rightarrow> event list \<Rightarrow> bool" where
  "foreignSecret lib km evs \<longleftrightarrow> (\<exists>x y. EvCreateSecret x (Inr y) \<in> set evs \<and>
     controlledBy lib (sec_Meta x) (om_UID (km_Meta km)) \<and> \<not> controlledBy lib (sec_Meta y) (om_UID (km_Meta km)))"

definition failureCause :: "kube_lib \<Rightarrow> KubernetesMachine \<Rightarrow> event list \<Rightarrow> bool" where
  "failureCause lib km evs \<longleftrightarrow>
     (\<exists>k e. EvGetPod k (Inl e) \<in> set evs \<and> nn_Name k = machinePodName km \<and> IsNotFound e \<and>
        (\<not> timeIsZero (om_DeletionTimestamp (km_Meta km)) \<or>
         \<not> kms_AllowRecreation (km_Spec km) \<and> kms_ProviderID (km_Spec km) \<noteq> None)) \<or>
     (\<exists>k pod. EvGetPod k (Inr pod) \<in> set evs \<and> nn_Name k = machinePodName km \<and> podLost lib km pod) \<or>
     foreignSecret lib km evs"

lemma failureCause_mono: "failureCause lib km evs \<Longrightarrow> set evs \<subseteq> set evs' \<Longrightarrow> failureCause lib km evs'"
  unfolding failureCause_def foreignSecret_def by blast

lemma contRun_cause:
  assumes "contRun cluster pod km evs out km'" and "\<not> machineFailed km" and "machineFailed km'"
  shows "\<not> kms_AllowRecreation (km_Spec km) \<and> kindTerminated pod"
  using assms
proof (cases rule: contRun.cases)
  case (cont_terminated cst t)
  then show ?thesis using GetContainerStatus_found [of "pst_ContainerStatuses (pod_Status pod)" kindContainerName cst]
    by (auto simp: kindTerminated_def)
qed (use assms in \<open>auto dest: bootRun_change\<close>)

lemma secRun_cause:
  assumes "kube_contract lib" and "secRun lib cloud cluster machine pod km evs out km'"
    and "\<not> machineFailed km" and "machineFailed km'"
  shows "\<not> kms_AllowRecreation (km_Spec km) \<and> kindTerminated pod \<or> foreignSecret lib km evs"
  using assms(2)
proof (cases rule: secRun.cases)
  case (sec_foreign evs' doc secret r)
  have "controlledBy lib (sec_Meta secret) (om_UID (km_Meta km))" by (rule scriptSecret_ok [OF assms(1) sec_foreign(5)])
  then show ?thesis using sec_foreign by (cases r) (auto simp: foreignSecret_def)
next
  case (sec_ok evs' doc secret r evs'')
  then show ?thesis using contRun_cause assms(3,4) by blast
qed (use assms in auto)

lemma podRun_cause:
  assumes "kube_contract lib" and "podRun lib cloud cluster machine pod km evs out km'"
    and "\<not> machineFailed km" and "machineFailed km'"
  shows "podLost lib km pod \<or> foreignSecret lib km evs"
  using assms(2)
proof (cases rule: podRun.cases)
  case (pod_ok evs' evs'')
  then show ?thesis using secRun_cause [OF assms(1) pod_ok(6) assms(3,4)] by (auto simp: podLost_def foreignSecret_def pod_ok(1))
qed (use assms in \<open>auto simp: podLost_def\<close>)

lemma normalRun_cause:
  assumes "kube_contract lib" and "normalRun lib cloud cluster machine km evs out km'"
    and "\<not> machineFailed km" and "machineFailed km'"
  shows "failureCause lib km evs"
proof -
  let ?km = "withFinalizers lib km"
  have km: "om_UID (km_Meta ?km) = om_UID (km_Meta km)" "km_Spec ?km = km_Spec km" "\<not> machineFailed ?km"
      "nn_Name (machinePodKey machine ?km) = machinePodName km"
    using assms(3) withFinalizers_uid [OF assms(1)] withFinalizers_meta [OF assms(1), of km]
    by (auto simp: machinePodKey_def machinePodName_def)
  show ?thesis
    using assms(2)
  proof (cases rule: normalRun.cases)
    case (normal_missing e evs')
    from normal_missing(5) have "\<not> kms_AllowRecreation (km_Spec km) \<and> kms_ProviderID (km_Spec km) \<noteq> None"
      using km assms(4) by cases (auto split: if_splits)
    then show ?thesis using normal_missing(1,4) km(4) unfolding failureCause_def by auto
  next
    case (normal_found pod evs')
    have "podLost lib ?km pod = podLost lib km pod" using km by (simp add: podLost_def)
    then show ?thesis
      using podRun_cause [OF assms(1) normal_found(4) km(3) assms(4)] normal_found(1) km
      unfolding failureCause_def foreignSecret_def by fastforce
  qed (use assms km in auto)
qed

lemma bodyRun_cause:
  assumes "kube_contract lib" and "bodyRun lib cloud km evs out km'" and "\<not> machineFailed km" and "machineFailed km'"
  shows "failureCause lib km evs"
  using assms(2)
proof (cases rule: bodyRun.cases)
  case (body_delete cluster ref machine evs' kc)
  let ?key = "machinePodKey machine (machine_reconcileVersion km machine)"
  from body_delete(5) have "\<exists>e. EvGetPod ?key (Inl e) \<in> set evs' \<and> IsNotFound e"
    by cases (use assms(3,4) in auto)
  then obtain e where e: "EvGetPod ?key (Inl e) \<in> set evs" "IsNotFound e" using body_delete(1) by auto
  have "nn_Name ?key = machinePodName km" by (simp add: machinePodKey_def machinePodName_def)
  then show ?thesis unfolding failureCause_def using e body_delete(4) by blast
next
  case (body_normal cluster ref machine evs' kc)
  let ?km = "machine_reconcileVersion km machine"
  have "failureCause lib ?km evs'" by (rule normalRun_cause [OF assms(1) body_normal(6)]) (use assms(3,4) in auto)
  then have "failureCause lib km evs'" by (simp add: failureCause_def foreignSecret_def podLost_def machinePodName_def)
  then show ?thesis by (rule failureCause_mono) (simp add: body_normal(1))
qed (use assms(3,4) in auto)

text \<open>
  C10. Nothing but a lost Pod or a Secret of somebody else makes a machine fail. When a reconcile fails a machine that had not failed,
  its log holds the reason: the API server answered that the Pod does not exist, for a machine that is
  being deleted or that was provisioned and does not allow recreation; or it answered with a Pod that
  is not the machine's or, without recreation, is being deleted or has a terminated kind container; or
  it answered the request for the bootstrap Secret with one of somebody else. Any other error of the
  API server, and any failure of a command in a Pod, leaves the machine unfailed.
\<close>

theorem machine_fails_only_for_cause:
  assumes "kube_contract lib" and "machine_Reconcile lib cloud cli req (w, []) = (out, s')"
    and "EvPatchMachine km km' err \<in> set (snd s')" and "\<not> machineFailed km" and "machineFailed km'"
  shows "failureCause lib km (snd s')"
proof -
  obtain body out0 km0 where b: "bodyRun lib cloud km body out0 km0" "km' = machine_reconcilePhase km0"
    and log: "snd s' = EvGetKubernetesMachine req (Inr km) # EvNewPatchHelper None # body @ [EvPatchMachine km km' err]"
    by (rule reconcile_patched [OF Reconcile_reconcileRun [OF assms(1,2)] assms(3)])
  have "failureCause lib km body" by (rule bodyRun_cause [OF assms(1) b(1) assms(4)]) (use assms(5) b(2) in simp)
  then show ?thesis by (rule failureCause_mono) (auto simp: log)
qed

theorem machine_fails_only_for_cause_witness:
  "\<exists>km' err. EvPatchMachine readyKM km' err \<in> set (snd (snd (sampleRun (podClient readyKM terminated)))) \<and>
     machineFailed km' \<and> failureCause refLib readyKM (snd (snd (sampleRun (podClient readyKM terminated))))"
proof -
  let ?cli = "podClient readyKM terminated"
  let ?km = "withFinalizers refLib (machine_reconcileVersion readyKM (sampleMachine True))"
  have uid: "om_UID (km_Meta ?km) = ''u2''" by (simp add: withFinalizers_uid [OF ref.kube_contract_axioms])
  obtain secret where "scriptSecret refLib (sampleCloud []) sampleCluster (sampleMachine True) ?km sampleDoc =
      Returned (Inr secret)" "controlledBy refLib (sec_Meta secret) ''u2''"
    using sample_secret [OF uid] by blast
  then have "\<exists>km'. EvPatchMachine readyKM km' None \<in> set (snd (snd (sampleRun ?cli))) \<and> machineFailed km'"
    using uid
    by (simp add: runDefs podStep_def refLib_no_claim_error secretStep_def getBootstrapData_def
        scriptSecret_def [symmetric] containerStep_def terminated_def)
  then obtain km' where p: "EvPatchMachine readyKM km' None \<in> set (snd (snd (sampleRun ?cli)))" "machineFailed km'" by blast
  moreover have "\<not> machineFailed readyKM" by simp
  ultimately show ?thesis
    using machine_fails_only_for_cause [OF ref.kube_contract_axioms sampleRun_is_run p(1)] by blast
qed

subsection \<open>A flaky API server\<close>

text \<open>
  What a flaky API server may answer while it holds a machine and its Pod: any answer to any request,
  except that it does not lie about them. It never returns another machine or Pod, never says that the
  Pod does not exist, and gives a Secret that it has created back as it was asked for.
\<close>

fun flakyAnswer :: "stored \<Rightarrow> event \<Rightarrow> bool" where
  "flakyAnswer v (EvGetKubernetesMachine k (Inr km)) \<longleftrightarrow> km = fst v"
| "flakyAnswer v (EvGetPod k (Inr pod)) \<longleftrightarrow> Some pod = snd v"
| "flakyAnswer v (EvGetPod k (Inl e)) \<longleftrightarrow> \<not> IsNotFound e"
| "flakyAnswer v (EvCreateSecret x (Inr y)) \<longleftrightarrow> y = x"
| "flakyAnswer v e \<longleftrightarrow> True"

text \<open>
  What a request may do to them, while the machine is not being deleted: a patch made from the stored machine is carried out or not, whatever
  the answer says; a deletion may do anything to the Pod; nothing else changes them.
\<close>

fun flakyChange :: "event \<Rightarrow> stored \<Rightarrow> stored \<Rightarrow> bool" where
  "flakyChange (EvPatchMachine a b r) v v' \<longleftrightarrow> v' = v \<or> a = fst v \<and> v' = (b, snd v)"
| "flakyChange (EvDeletePod p r) v v' \<longleftrightarrow> True"
| "flakyChange e v v' \<longleftrightarrow> v' = v"

definition flakyServer :: "'w kube_client \<Rightarrow> ('w \<Rightarrow> stored) \<Rightarrow> bool" where
  "flakyServer cli view \<longleftrightarrow> (\<forall>e w w'. snd (view w) \<noteq> None \<and> timeIsZero (om_DeletionTimestamp (km_Meta (fst (view w)))) \<and>
     answered cli e w w' \<longrightarrow>
     flakyAnswer (view w) e \<and> flakyChange e (view w) (view w'))"

text \<open>The order of the calls: a Pod is read before it is deleted, and the patch comes last.\<close>

lemma later_in_list: "xs @ d # ys = zs @ ws \<Longrightarrow> d \<notin> set zs \<Longrightarrow> set zs \<subseteq> set xs"
  by (auto simp: append_eq_append_conv2 append_eq_Cons_conv Cons_eq_append_conv)

lemma delete_after_read:
  assumes "reconcileRun lib cloud req (xs @ EvDeletePod p r # ys) out"
  shows "\<exists>k. EvGetPod k (Inr p) \<in> set xs \<and> kindTerminated p"
proof -
  obtain km body out0 km' err where log: "xs @ EvDeletePod p r # ys =
      EvGetKubernetesMachine req (Inr km) # EvNewPatchHelper None # body @ [EvPatchMachine km (machine_reconcilePhase km') err]"
    and b: "bodyRun lib cloud km body out0 km'"
    using assms by cases (auto simp: append_eq_Cons_conv)
  have "EvDeletePod p r \<in> set (xs @ EvDeletePod p r # ys)" by simp
  then have mem: "EvDeletePod p r \<in> set body" unfolding log by auto
  from b show ?thesis
  proof (cases rule: bodyRun.cases)
    case (body_delete cluster ref machine evs' kc)
    from body_delete(5) have "EvDeletePod p r \<notin> set evs'" by cases auto
    then show ?thesis using mem body_delete(1) by (auto simp: ownerEvents_def)
  next
    case (body_normal cluster ref machine evs' kc)
    then have "EvDeletePod p r \<in> set evs'" using mem by (auto simp: ownerEvents_def)
    with body_normal(6) obtain pod evs'' where run: "EvDeletePod p r \<in> set evs''"
        "podRun lib cloud cluster machine pod (withFinalizers lib (machine_reconcileVersion km machine)) evs'' out0 km'"
        "evs' = EvGetPod (machinePodKey machine (withFinalizers lib (machine_reconcileVersion km machine))) (Inr pod) # evs''"
      by cases (auto elim: missingRun.cases)
    then have p: "p = pod" "kindTerminated pod" using podRun_delete by blast+
    let ?zs = "EvGetKubernetesMachine req (Inr km) # EvNewPatchHelper None # ownerEvents km machine cluster ref (Inr kc) @
      [EvGetPod (machinePodKey machine (withFinalizers lib (machine_reconcileVersion km machine))) (Inr pod)]"
    have "set ?zs \<subseteq> set xs"
      by (rule later_in_list [of xs "EvDeletePod p r" ys _ "evs'' @ [EvPatchMachine km (machine_reconcilePhase km') err]"])
        (use log body_normal(1) run(3) in \<open>simp_all add: ownerEvents_def\<close>)
    then show ?thesis using p by auto
  qed (use mem in \<open>auto simp: ownerEvents_def\<close>)
qed

lemma patch_is_last:
  assumes "reconcileRun lib cloud req (xs @ EvPatchMachine a b r # ys) out"
  shows "ys = [] \<and> EvGetKubernetesMachine req (Inr a) \<in> set xs \<and>
    (\<exists>body out0 km0. bodyRun lib cloud a body out0 km0 \<and> set body \<subseteq> set xs \<and> b = machine_reconcilePhase km0)"
proof -
  have "EvPatchMachine a b r \<in> set (xs @ EvPatchMachine a b r # ys)" by simp
  then obtain body out0 km0 where run: "bodyRun lib cloud a body out0 km0" "b = machine_reconcilePhase km0"
      "xs @ EvPatchMachine a b r # ys = EvGetKubernetesMachine req (Inr a) # EvNewPatchHelper None # body @ [EvPatchMachine a b r]"
    by (rule reconcile_patched [OF assms])
  let ?zs = "EvGetKubernetesMachine req (Inr a) # EvNewPatchHelper None # body"
  have "EvPatchMachine a b r \<notin> set ?zs" using bodyRun_no_patch [OF run(1)] by simp
  moreover have eq: "xs @ EvPatchMachine a b r # ys = ?zs @ [EvPatchMachine a b r]" using run(3) by simp
  ultimately have "set ?zs \<subseteq> set xs" by (rule later_in_list [rotated])
  moreover have "ys = []"
    using eq calculation \<open>EvPatchMachine a b r \<notin> set ?zs\<close> by (auto simp: append_eq_append_conv2 append_eq_Cons_conv Cons_eq_append_conv)
  ultimately show ?thesis using run(1,2) by auto
qed

lemma get_machine_answered: "reconcileRun lib cloud req evs out \<Longrightarrow> evs \<noteq> []"
  by (cases rule: reconcileRun.cases) auto

text \<open>What a flaky reconcile has done: all answers were as above, and at most the patch was carried out.\<close>

lemma flaky_calls:
  assumes "kube_contract lib" and "flakyServer cli view" and "\<not> kindTerminated pod" and "view (fst s) = (km, Some pod)"
    and "machine_Reconcile lib cloud cli req s = (out, s')" and "timeIsZero (om_DeletionTimestamp (km_Meta km))"
  shows "\<exists>evs. list_all (flakyAnswer (km, Some pod)) evs \<and> (view (fst s') = (km, Some pod) \<or>
    (\<exists>body out0 km0. bodyRun lib cloud km body out0 km0 \<and> set body \<subseteq> set evs \<and>
       view (fst s') = (machine_reconcilePhase km0, Some pod)))"
proof -
  obtain log where log: "snd s' = snd s @ log" "reconcileRun lib cloud req log out"
    using machine_Reconcile_run [OF assms(1,5)] by blast
  define J where "J t \<longleftrightarrow> (\<exists>evs. snd t = snd s @ evs \<and> list_all (flakyAnswer (km, Some pod)) evs \<and> (view (fst t) = (km, Some pod) \<or>
      (\<exists>body out0 km0 r. bodyRun lib cloud km body out0 km0 \<and> set body \<subseteq> set evs \<and>
         EvPatchMachine km (machine_reconcilePhase km0) r \<in> set evs \<and>
         view (fst t) = (machine_reconcilePhase km0, Some pod))))" for t
  have "J s'"
  proof (rule steps_invariant [OF machine_Reconcile_steps [OF assms(5)], of J])
    show "J s" using assms(4) by (auto simp: J_def)
  next
    fix a b e rest
    assume "J a" and call: "answered cli e (fst a) (fst b)" and b: "snd b = snd a @ [e]" and fin: "snd s' = snd a @ e # rest"
    then obtain evs where evs: "snd a = snd s @ evs" "list_all (flakyAnswer (km, Some pod)) evs"
      and v: "view (fst a) = (km, Some pod) \<or> (\<exists>body out0 km0 r. bodyRun lib cloud km body out0 km0 \<and> set body \<subseteq> set evs \<and>
         EvPatchMachine km (machine_reconcilePhase km0) r \<in> set evs \<and> view (fst a) = (machine_reconcilePhase km0, Some pod))"
      unfolding J_def by blast
    have full: "log = evs @ e # rest" using fin log(1) evs(1) by simp
    have no_patch: "EvPatchMachine x y r \<notin> set evs" for x y r
    proof
      assume "EvPatchMachine x y r \<in> set evs"
      then obtain us vs where "evs = us @ EvPatchMachine x y r # vs" by (meson split_list)
      then have "reconcileRun lib cloud req (us @ EvPatchMachine x y r # (vs @ e # rest)) out" using log(2) full by simp
      from patch_is_last [OF this] show False by simp
    qed
    then have va: "view (fst a) = (km, Some pod)" using v by blast
    have ok: "flakyAnswer (km, Some pod) e" "flakyChange e (km, Some pod) (view (fst b))"
      using assms(2,6) call va unfolding flakyServer_def by (metis option.distinct(1) fst_conv snd_conv)+
    have no_delete: "e \<noteq> EvDeletePod p r" for p r
    proof
      assume e: "e = EvDeletePod p r"
      then obtain k where k: "EvGetPod k (Inr p) \<in> set evs" "kindTerminated p"
        using delete_after_read [of lib cloud req evs p r rest out] log(2) full by auto
      then have "flakyAnswer (km, Some pod) (EvGetPod k (Inr p))" using evs(2) by (auto simp: list_all_iff)
      then show False using k(2) assms(3) by simp
    qed
    have "view (fst b) = (km, Some pod) \<or> (\<exists>body out0 km0 r. bodyRun lib cloud km body out0 km0 \<and> set body \<subseteq> set (evs @ [e]) \<and>
         EvPatchMachine km (machine_reconcilePhase km0) r \<in> set (evs @ [e]) \<and> view (fst b) = (machine_reconcilePhase km0, Some pod))"
    proof (cases "\<exists>x y r. e = EvPatchMachine x y r")
      case True
      then obtain x y r where e: "e = EvPatchMachine x y r" by blast
      then obtain body out0 km0 where run: "bodyRun lib cloud x body out0 km0" "set body \<subseteq> set evs" "y = machine_reconcilePhase km0"
        using patch_is_last [of lib cloud req evs x y r rest out] log(2) full by auto
      have "view (fst b) = (km, Some pod) \<or> x = km \<and> view (fst b) = (y, Some pod)" using ok(2) by (simp add: e)
      then show ?thesis
      proof (elim disjE conjE)
        assume x: "x = km" "view (fst b) = (y, Some pod)"
        have "set body \<subseteq> set (evs @ [e])" "EvPatchMachine km (machine_reconcilePhase km0) r \<in> set (evs @ [e])"
          using run(2,3) e x(1) by auto
        then show ?thesis using run(1,3) x by blast
      qed blast
    next
      case False
      then have "view (fst b) = (km, Some pod)" using ok(2) no_delete by (cases e) auto
      then show ?thesis ..
    qed
    moreover have "snd b = snd s @ (evs @ [e])" "list_all (flakyAnswer (km, Some pod)) (evs @ [e])" using b evs ok(1) by simp_all
    ultimately show "J b" unfolding J_def by blast
  qed
  then show ?thesis unfolding J_def by blast
qed

text \<open>The provider ID is the one it was, or has become that of the Pod.\<close>

definition namedAfter :: "Pod \<Rightarrow> KubernetesMachine \<Rightarrow> KubernetesMachine \<Rightarrow> bool" where
  "namedAfter pod km km' \<longleftrightarrow> km_Spec km' = km_Spec km \<or>
     kms_ProviderID (km_Spec km) = None \<and> km_Spec km' = (km_Spec km)\<lparr>kms_ProviderID := Some (nodeProviderID pod)\<rparr>"

lemma namedAfter_trans: "namedAfter pod a b \<Longrightarrow> namedAfter pod b c \<Longrightarrow> namedAfter pod a c"
  by (auto simp: namedAfter_def)

lemma healthy_not_terminated: "healthyObjects lib cloud km en \<Longrightarrow> \<not> kindTerminated (en_pod en)"
  by (auto simp: healthyObjects_def kindTerminated_def)

lemma no_cause:
  assumes "healthyObjects lib cloud km en" and "list_all (flakyAnswer (km, Some (en_pod en))) evs"
  shows "\<not> failureCause lib km evs"
proof -
  have lost: "\<not> podLost lib km (en_pod en)"
    using assms(1) healthy_not_terminated [OF assms(1)] by (simp add: podLost_def healthyObjects_def)
  have "flakyAnswer (km, Some (en_pod en)) e" if "e \<in> set evs" for e using assms(2) that by (simp add: list_all_iff)
  then show ?thesis using lost unfolding failureCause_def foreignSecret_def by fastforce
qed

lemma flaky_round:
  assumes "kube_contract lib" and "flakyServer cli view" and "healthyObjects lib cloud km en"
    and "view (fst s) = (km, Some (en_pod en))" and "machine_Reconcile lib cloud cli req s = (out, s')"
  shows "\<exists>km'. view (fst s') = (km', Some (en_pod en)) \<and> healthyObjects lib cloud km' en \<and> namedAfter (en_pod en) km km'"
proof -
  have same: "namedAfter (en_pod en) km km" by (auto simp: namedAfter_def)
  obtain evs where evs: "list_all (flakyAnswer (km, Some (en_pod en))) evs"
    and v: "view (fst s') = (km, Some (en_pod en)) \<or> (\<exists>body out0 km0. bodyRun lib cloud km body out0 km0 \<and> set body \<subseteq> set evs \<and>
       view (fst s') = (machine_reconcilePhase km0, Some (en_pod en)))"
    using flaky_calls [OF assms(1,2) healthy_not_terminated [OF assms(3)] assms(4,5)] healthyObjectsD(1) [OF assms(3)]
    by (auto simp: liveObjects_def)
  from v show ?thesis
  proof
    assume "view (fst s') = (km, Some (en_pod en))"
    then show ?thesis using assms(3) same by blast
  next
    assume "\<exists>body out0 km0. bodyRun lib cloud km body out0 km0 \<and> set body \<subseteq> set evs \<and>
       view (fst s') = (machine_reconcilePhase km0, Some (en_pod en))"
    then obtain body out0 km0 where b: "bodyRun lib cloud km body out0 km0" "set body \<subseteq> set evs"
        "view (fst s') = (machine_reconcilePhase km0, Some (en_pod en))" by blast
    let ?k = "machine_reconcilePhase km0"
    note live = healthyObjectsD(1) [OF assms(3)]
    obtain pid fs where chg: "km_Spec ?k = (km_Spec km)\<lparr>kms_ProviderID := pid\<rparr>" "km_Meta ?k = (km_Meta km)\<lparr>om_Finalizers := fs\<rparr>"
      using bodyRun_same [OF assms(1) b(1)] by (auto simp: sameExceptOwned_def)
    have "\<not> failureCause lib km body"
      using no_cause [OF assms(3) evs] failureCause_mono [OF _ b(2)] by blast
    then have unfailed: "\<not> machineFailed ?k"
      using bodyRun_cause [OF assms(1) b(1)] live by (auto simp: liveObjects_def)
    have paused: "lib_IsPaused lib (en_cluster en) (km_Meta ?k) = lib_IsPaused lib (en_cluster en) (km_Meta km)"
      by (rule kube_contract.paused_annotations [OF assms(1)]) (use chg(2) in simp)
    have "liveObjects lib ?k en" using live unfailed paused chg unfolding liveObjects_def by simp
    then have "healthyObjects lib cloud ?k en" using assms(3) chg(2) unfolding healthyObjects_def by simp
    moreover have "namedAfter (en_pod en) km ?k"
    proof -
      have "p = en_pod en" if "EvGetPod k (Inr p) \<in> set body" for k p
        using bspec [OF evs [unfolded list_all_iff], of "EvGetPod k (Inr p)"] that b(2) by auto
      then have "pid = kms_ProviderID (km_Spec km) \<or>
          kms_ProviderID (km_Spec km) = None \<and> pid = Some (nodeProviderID (en_pod en))"
        using bodyRun_providerID [OF assms(1) b(1)] chg(1) by auto
      moreover have "(km_Spec km)\<lparr>kms_ProviderID := kms_ProviderID (km_Spec km)\<rparr> = km_Spec km" by simp
      ultimately show ?thesis using chg(1) unfolding namedAfter_def by (elim disjE) simp_all
    qed
    ultimately show ?thesis using b(3) by blast
  qed
qed

lemma flaky_rounds:
  assumes "kube_contract lib" and "flakyServer cli view" and "healthyObjects lib cloud km en"
    and "view (fst s) = (km, Some (en_pod en))" and "loopRounds (machine_Reconcile lib cloud cli req) n s = (rs, s')"
  shows "\<exists>km'. view (fst s') = (km', Some (en_pod en)) \<and> healthyObjects lib cloud km' en \<and> namedAfter (en_pod en) km km'"
  using assms(3,4,5)
proof (induction n arbitrary: km s rs)
  case 0
  then show ?case by (auto simp: namedAfter_def)
next
  case (Suc n)
  obtain r s1 rs' where r: "machine_Reconcile lib cloud cli req s = (r, s1)"
    and rest: "loopRounds (machine_Reconcile lib cloud cli req) n s1 = (rs', s')"
    using Suc.prems(3) by (auto split: prod.splits)
  obtain km1 where "view (fst s1) = (km1, Some (en_pod en))" "healthyObjects lib cloud km1 en" "namedAfter (en_pod en) km km1"
    using flaky_round [OF assms(1,2) Suc.prems(1,2) r] by blast
  then show ?case using Suc.IH [OF _ _ rest] namedAfter_trans by blast
qed

text \<open>
  C9. Faults pass. A machine whose Pod runs is reconciled any number of times against a flaky API server:
  requests fail with any error, succeed although an error comes back, and commands in the Pods fail. Once
  the API server is healthy again the control loop settles as if nothing had happened: after two
  reconciles the machine is ready and \<open>Running\<close> and stays so, has not failed, and has the provider ID it
  had at the start or that of its Pod, with nothing else of its spec changed.
\<close>

theorem machine_survives_faults:
  assumes "kube_contract lib" and "healthyObjects lib cloud km en" and "view (fst s) = (km, Some (en_pod en))"
    and "flakyServer flaky view" and "loopRounds (machine_Reconcile lib cloud flaky req) n s = (outs, s')"
    and "apiServer cli req view en"
  shows "\<exists>settled. settlesRunning lib cloud cli req view s' (en_pod en) settled \<and>
    km_Spec settled = (km_Spec km)\<lparr>kms_ProviderID := if kms_ProviderID (km_Spec km) = None
      then Some (nodeProviderID (en_pod en)) else kms_ProviderID (km_Spec km)\<rparr>"
proof -
  obtain km' where km': "view (fst s') = (km', Some (en_pod en))" "healthyObjects lib cloud km' en" "namedAfter (en_pod en) km km'"
    using flaky_rounds [OF assms(1,4,2,3,5)] by blast
  let ?settled = "settledMachine lib en km'"
  have "settlesRunning lib cloud cli req view s' (en_pod en) ?settled" by (rule settles [OF assms(1,6) km'(2,1)])
  moreover have "km_Spec ?settled = (km_Spec km)\<lparr>kms_ProviderID := if kms_ProviderID (km_Spec km) = None
      then Some (nodeProviderID (en_pod en)) else kms_ProviderID (km_Spec km)\<rparr>"
    using settledMachine_fields(4) [OF assms(1) healthyObjectsD(1) [OF km'(2)]] km'(3) by (auto simp: namedAfter_def)
  ultimately show ?thesis by blast
qed

text \<open>A flaky API server of two objects: every patch times out after it was carried out, and no command succeeds.\<close>

definition flakyStore :: "stored kube_client" where
  "flakyStore = storeClient\<lparr>
     cli_PatchMachine := (\<lambda>a b w. (Some (GoError ''timeout''), if a = fst w then (b, snd w) else w)),
     cli_CreatePod := (\<lambda>p w. (Some (StatusAlreadyExists (om_Name (pod_Meta p))), w)),
     cli_Exec := (\<lambda>er w. (NoExecutor (GoError ''exec''), w))\<rparr>"

lemma flakyStore_flaky: "flakyServer flakyStore (\<lambda>w. w)"
proof -
  have "flakyAnswer w e \<and> flakyChange e w w'" if "snd w \<noteq> None" "answered flakyStore e w w'" for e and w w' :: stored
    using that
    by (cases "(w, e)" rule: flakyAnswer.cases) (auto simp: flakyStore_def storeClient_def emptyClient_def split: if_splits)
  then show ?thesis unfolding flakyServer_def by blast
qed

theorem machine_survives_faults_witness:
  "\<exists>outs s' settled. loopRounds (machine_Reconcile refLib (sampleCloud []) flakyStore sampleKey) 3
       ((sampleKM [], Some (samplePod running)), []) = (outs, s') \<and>
     settlesRunning refLib (sampleCloud []) storeClient sampleKey (\<lambda>w. w) s' (samplePod running) settled \<and>
     kms_ProviderID (km_Spec settled) = Some ''kubernetes://ns/km''"
proof -
  obtain outs s' where run: "loopRounds (machine_Reconcile refLib (sampleCloud []) flakyStore sampleKey) 3
      ((sampleKM [], Some (samplePod running)), []) = (outs, s')" by (metis surj_pair)
  have "kms_ProviderID (km_Spec (sampleKM [])) = None" by (simp add: sampleKM_def)
  moreover have "nodeProviderID (samplePod running) = ''kubernetes://ns/km''"
    by (simp add: nodeProviderID_def samplePod_def sampleMeta_def providerIDPrefix_def)
  moreover have "en_pod sampleEnvironment = samplePod running" by (simp add: sampleEnvironment_def)
  ultimately show ?thesis
    using machine_survives_faults [OF ref.kube_contract_axioms sample_healthy _ flakyStore_flaky run sample_server] run
    by (auto simp: del: samplePod_simps(1))
qed

end
