(* ===== verification/Machine_Bounds.thy ===== *)
theory Machine_Bounds
  imports Machine_Properties
begin

text \<open>
  What a reconcile of a machine may cost: a bound on its calls of the API server and on those that
  change something, from the runs of the steps. \<open>budget\<close> adds up over the parts of a log.
\<close>

fun isCommand :: "event \<Rightarrow> bool" where
  "isCommand (EvExec _ _) = True"
| "isCommand _ = False"

fun writesPod :: "event \<Rightarrow> bool" where
  "writesPod (EvCreatePod _ _) = True"
| "writesPod (EvDeletePod _ _) = True"
| "writesPod _ = False"

fun writesSecret :: "event \<Rightarrow> bool" where
  "writesSecret (EvCreateSecret _ _) = True"
| "writesSecret _ = False"

abbreviation calls :: "(event \<Rightarrow> bool) \<Rightarrow> event list \<Rightarrow> nat" where
  "calls P evs \<equiv> length (filter P evs)"

text \<open>At most \<open>n\<close> calls, of them \<open>c\<close> commands, \<open>p\<close> writes of a Pod and \<open>x\<close> of a Secret.\<close>

definition budget :: "nat \<Rightarrow> nat \<Rightarrow> nat \<Rightarrow> nat \<Rightarrow> event list \<Rightarrow> bool" where
  "budget n c p x evs \<longleftrightarrow> length evs \<le> n \<and> calls isCommand evs \<le> c \<and> calls writesPod evs \<le> p \<and> calls writesSecret evs \<le> x"

named_theorems budgets \<open>what the parts of a reconcile may cost\<close>

lemma budget_append: "budget n c p x a \<Longrightarrow> budget n' c' p' x' b \<Longrightarrow> budget (n + n') (c + c') (p + p') (x + x') (a @ b)"
  by (simp add: budget_def)

lemma budget_mono: "budget n c p x a \<Longrightarrow> n \<le> n' \<Longrightarrow> c \<le> c' \<Longrightarrow> p \<le> p' \<Longrightarrow> x \<le> x' \<Longrightarrow> budget n' c' p' x' a"
  by (simp add: budget_def)

lemma nodeRun_budget [budgets]: "nodeRun cluster pod evs err \<Longrightarrow> budget 2 1 0 0 evs"
  by (cases rule: nodeRun.cases) (auto simp: budget_def)

lemma bootRun_budget [budgets]: "bootRun cluster pod cst km evs out km' \<Longrightarrow> budget 3 2 0 0 evs"
  by (cases rule: bootRun.cases) (auto simp: budget_def dest!: nodeRun_budget)

lemma contRun_budget [budgets]: "contRun cluster pod km evs out km' \<Longrightarrow> budget 3 2 1 0 evs"
  by (cases rule: contRun.cases) (auto simp: budget_def dest!: bootRun_budget)

lemma dataRun_budget [budgets]: "dataRun machine evs v \<Longrightarrow> budget 1 0 0 0 evs"
  by (cases rule: dataRun.cases) (auto simp: budget_def)

lemma secRun_budget [budgets]: "secRun lib cloud cluster machine pod km evs out km' \<Longrightarrow> budget 5 2 1 1 evs"
  by (cases rule: secRun.cases) (auto simp: budget_def dest!: dataRun_budget contRun_budget)

text \<open>There are no more claims than templates.\<close>

lemma claims_length:
  assumes "getPersistentVolumeClaims lib km = Inr claims"
  shows "length claims \<le> length (kms_VolumeClaimTemplates (km_Spec km))"
proof -
  have "length claims = card (fst ` set claims)"
    using distinct_card [OF getPersistentVolumeClaims_spec(1) [OF assms]] by simp
  also have "\<dots> \<le> card (set (kms_VolumeClaimTemplates (km_Spec km)))"
    unfolding getPersistentVolumeClaims_spec(2) [OF assms] by (rule card_image_le) simp
  finally show ?thesis using card_length le_trans by blast
qed

lemma claimRun_budget [budgets]:
  assumes "claimRun lib km evs err"
  shows "budget (2 * length (kms_VolumeClaimTemplates (km_Spec km))) 0 0 0 evs"
proof (cases "getPersistentVolumeClaims lib km")
  case (Inl e)
  then show ?thesis using assms by (simp add: claimRun_def budget_def)
next
  case (Inr claims)
  then have len: "length evs \<le> 2 * length claims"
    and only: "\<forall>ev \<in> set evs. \<exists>c \<in> snd ` set claims. (\<exists>r. ev = EvGetClaim (claimKey km c) r) \<or>
       (\<exists>r. ev = EvCreateClaim (om_Namespace (pvc_Meta c)) c r)"
    using assms by (simp_all add: claimRun_def)
  have "filter isCommand evs = []" "filter writesPod evs = []" "filter writesSecret evs = []"
    using only by (auto simp: filter_empty_conv)
  then show ?thesis using len claims_length [OF Inr] by (simp add: budget_def)
qed

lemma podRun_budget [budgets]:
  assumes "podRun lib cloud cluster machine pod km evs out km'"
  shows "budget (5 + 2 * length (kms_VolumeClaimTemplates (km_Spec km))) 2 1 1 evs"
  using assms by (cases rule: podRun.cases) (auto simp: budget_def dest!: claimRun_budget secRun_budget)

lemma missingRun_budget [budgets]: "missingRun lib cluster machine km evs out km' \<Longrightarrow> budget 1 0 1 0 evs"
  by (cases rule: missingRun.cases) (auto simp: budget_def)

lemma normalRun_budget [budgets]:
  assumes "kube_contract lib" and "normalRun lib cloud cluster machine km evs out km'"
  shows "budget (6 + 2 * length (kms_VolumeClaimTemplates (km_Spec km))) 2 1 1 evs"
  using assms(2) withFinalizers_meta [OF assms(1), of km]
  by (cases rule: normalRun.cases) (auto simp: budget_def dest!: missingRun_budget podRun_budget)

lemma deleteRun_budget [budgets]: "deleteRun lib machine cluster km evs out km' \<Longrightarrow> budget 2 1 0 0 evs"
  by (cases rule: deleteRun.cases) (auto simp: budget_def)

lemma bodyRun_budget:
  assumes "kube_contract lib" and "bodyRun lib cloud km evs out km'"
  shows "budget (9 + 2 * length (kms_VolumeClaimTemplates (km_Spec km))) 2 1 1 evs"
  using assms(2)
proof (cases rule: bodyRun.cases)
  case (body_normal cluster ref machine evs' kc)
  then show ?thesis using normalRun_budget [OF assms(1) body_normal(6)] by (simp add: budget_def ownerEvents_def)
qed (auto simp: budget_def ownerEvents_def dest!: deleteRun_budget)

text \<open>
  C21. The cost of a reconcile. Whatever is answered, a reconcile makes at most twelve calls and two more for every claim
  template of the machine that was read; if none was read it makes one. Of its calls at most two
  are commands in Pods, at most one creates or deletes a Pod, at most one creates a Secret, and at most one
  patches the machine.
\<close>

theorem machine_reconcile_bounded:
  assumes "kube_contract lib" and "machine_Reconcile lib cloud cli req (w, []) = (out, s')"
  shows "(\<exists>r rest. snd s' = EvGetKubernetesMachine req r # rest \<and>
      length (snd s') \<le> (case r of Inl _ \<Rightarrow> 1 | Inr km \<Rightarrow> 12 + 2 * length (kms_VolumeClaimTemplates (km_Spec km)))) \<and>
    calls isCommand (snd s') \<le> 2 \<and> calls writesPod (snd s') \<le> 1 \<and> calls writesSecret (snd s') \<le> 1 \<and>
    calls (\<lambda>e. \<exists>a b r. e = EvPatchMachine a b r) (snd s') \<le> 1"
  using Reconcile_reconcileRun [OF assms]
proof (cases rule: reconcileRun.cases)
  case (rec_body km body out0 km0 err)
  note cost = bodyRun_budget [OF assms(1) rec_body(3)]
  have "filter (\<lambda>e. \<exists>a b r. e = EvPatchMachine a b r) body = []"
    using bodyRun_no_patch [OF rec_body(3)] by (auto simp: filter_empty_conv)
  then show ?thesis using cost by (simp add: rec_body(1) budget_def)
qed simp_all

theorem machine_reconcile_bounded_witness:
  "length (snd (snd (sampleRun (podClient readyKM running)))) \<le> 12 \<and>
   calls isCommand (snd (snd (sampleRun (podClient readyKM running)))) \<le> 2"
proof -
  let ?cli = "podClient readyKM running"
  note bound = machine_reconcile_bounded [OF ref.kube_contract_axioms sampleRun_is_run [of ?cli]]
  obtain km' where "EvPatchMachine readyKM km' None \<in> set (snd (snd (sampleRun ?cli)))" using ready_sample_run by blast
  then obtain body where "snd (snd (sampleRun ?cli)) = EvGetKubernetesMachine sampleKey (Inr readyKM) # EvNewPatchHelper None # body"
    by (rule patched_run [OF ref.kube_contract_axioms sampleRun_is_run]) blast
  then show ?thesis using bound by auto
qed

end
