(* ===== verification/Scopes.thy ===== *)
theory Scopes
  imports Machine_Properties Cluster_Properties Control_Loop
begin

text \<open>
  Which objects a reconcile writes. The API server answers a request for an object with that object, and
  finds owners in the namespace they are looked for in (\<open>named\<close>); then every write of a reconcile falls
  on an object whose key is determined by the key it was asked to reconcile. Since the keys differ for
  different resources, the controllers do not get in each other's way.
\<close>

fun named :: "event \<Rightarrow> bool" where
  "named (EvGetKubernetesMachine k (Inr km)) \<longleftrightarrow> keyOf (km_Meta km) = k"
| "named (EvGetKubernetesCluster k (Inr kc)) \<longleftrightarrow> keyOf (kc_Meta kc) = k"
| "named (EvGetOwnerMachine m (Inr (Some machine))) \<longleftrightarrow> om_Namespace (mc_Meta machine) = om_Namespace m"
| "named (EvGetClusterFromMetadata m (Inr (Some cluster))) \<longleftrightarrow> om_Namespace (cl_Meta cluster) = om_Namespace m"
| "named (EvGetOwnerCluster m (Inr (Some cluster))) \<longleftrightarrow> om_Namespace (cl_Meta cluster) = om_Namespace m"
| "named (EvGetPod k (Inr pod)) \<longleftrightarrow> keyOf (pod_Meta pod) = k"
| "named (EvListPods ns sel (Inr pods)) \<longleftrightarrow> (\<forall>p \<in> set pods. om_Namespace (pod_Meta p) = ns)"
| "named _ \<longleftrightarrow> True"

definition commandName :: "ExecRequest \<Rightarrow> string option" where
  "commandName er = (case peo_Command (er_Options er) of [] \<Rightarrow> None | c # _ \<Rightarrow> Some c)"

text \<open>The writes a reconcile of the machine with the key \<open>req\<close> may make. Commands run in the machine's own Pod, or
  are those of \<open>kubectl\<close> in a control plane Pod of the same namespace.\<close>

fun machineScope :: "NamespacedName \<Rightarrow> event \<Rightarrow> bool" where
  "machineScope req (EvPatchMachine a b _) \<longleftrightarrow> keyOf (km_Meta a) = req \<and> keyOf (km_Meta b) = req"
| "machineScope req (EvPatchCluster _ _ _) \<longleftrightarrow> False"
| "machineScope req (EvCreatePod pod _) \<longleftrightarrow> keyOf (pod_Meta pod) = req"
| "machineScope req (EvDeletePod pod _) \<longleftrightarrow> keyOf (pod_Meta pod) = req"
| "machineScope req (EvCreateSecret sec _) \<longleftrightarrow>
     keyOf (sec_Meta sec) = \<lparr>nn_Namespace = nn_Namespace req, nn_Name = nn_Name req @ ''-cloud-init''\<rparr>"
| "machineScope req (EvCreateClaim ns c _) \<longleftrightarrow> ns = nn_Namespace req \<and>
     (\<exists>template. keyOf (pvc_Meta c) = \<lparr>nn_Namespace = nn_Namespace req, nn_Name = template @ ''-'' @ nn_Name req\<rparr>)"
| "machineScope req (EvCreateService _ _) \<longleftrightarrow> False"
| "machineScope req (EvExec er _) \<longleftrightarrow> er_Namespace er = nn_Namespace req \<and>
     (er_PodName er = nn_Name req \<or> commandName er = Some ''kubectl'')"
| "machineScope req _ \<longleftrightarrow> True"

text \<open>The writes a reconcile of the KubernetesCluster with the key \<open>req\<close> may make.\<close>

fun clusterScope :: "NamespacedName \<Rightarrow> (string \<Rightarrow> bool) \<Rightarrow> event \<Rightarrow> bool" where
  "clusterScope req owner (EvPatchCluster a b _) \<longleftrightarrow> keyOf (kc_Meta a) = req \<and> keyOf (kc_Meta b) = req"
| "clusterScope req owner (EvCreateService svc _) \<longleftrightarrow>
     om_Namespace (svc_Meta svc) = nn_Namespace req \<and> owner (om_Name (svc_Meta svc))"
| "clusterScope req owner e \<longleftrightarrow> \<not> mutates e"

lemma keyOf_simps [simp]: "nn_Namespace (keyOf m) = om_Namespace m" "nn_Name (keyOf m) = om_Name m"
  by (simp_all add: keyOf_def)

named_theorems scopes \<open>the writes of the parts of a reconcile\<close>

subsection \<open>The machine controller\<close>

lemma kindExecRequest_simps [simp]:
  "er_Namespace (kindExecRequest pod command) = om_Namespace (pod_Meta pod)"
  "er_PodName (kindExecRequest pod command) = om_Name (pod_Meta pod)"
  "commandName (kindExecRequest pod (c # args)) = Some c"
  by (simp_all add: kindExecRequest_def commandName_def)

lemma key_parts: "keyOf m = req \<Longrightarrow> om_Namespace m = nn_Namespace req \<and> om_Name m = nn_Name req"
  by (auto simp: keyOf_def)

lemma nodeRun_scope [scopes]:
  assumes "nodeRun cluster pod evs err" and "om_Namespace (cl_Meta cluster) = nn_Namespace req"
    and "list_all named evs"
  shows "list_all (machineScope req) evs"
  using assms by (cases rule: nodeRun.cases) (auto simp: nodePatchRequest_def)

lemma bootRun_scope [scopes]:
  assumes "bootRun cluster pod cst km evs out km'" and "keyOf (pod_Meta pod) = req"
    and "om_Namespace (cl_Meta cluster) = nn_Namespace req" and "list_all named evs"
  shows "list_all (machineScope req) evs"
  using assms(1,3,4) key_parts [OF assms(2)]
  by (cases rule: bootRun.cases) (auto simp: installRequest_def dest: nodeRun_scope)

lemma contRun_scope [scopes]:
  assumes "contRun cluster pod km evs out km'" and "keyOf (pod_Meta pod) = req"
    and "om_Namespace (cl_Meta cluster) = nn_Namespace req" and "list_all named evs"
  shows "list_all (machineScope req) evs"
  using assms by (cases rule: contRun.cases) (auto intro: bootRun_scope)

lemma dataRun_scope [scopes]: "dataRun machine evs v \<Longrightarrow> list_all (machineScope req) evs"
  by (cases rule: dataRun.cases) auto

lemma claimRun_scope [scopes]:
  assumes "kube_contract lib" and "claimRun lib km evs err" and "keyOf (km_Meta km) = req"
  shows "list_all (machineScope req) evs"
proof (cases "getPersistentVolumeClaims lib km")
  case (Inl e)
  then show ?thesis using assms(2) by (simp add: claimRun_def)
next
  case (Inr claims)
  have claim: "\<exists>template. keyOf (pvc_Meta c) = \<lparr>nn_Namespace = nn_Namespace req, nn_Name = template @ ''-'' @ nn_Name req\<rparr>" if mem: "(n, c) \<in> set claims" for n c
  proof -
    obtain t where "claimOfTemplate lib km t = Inr c" using getPersistentVolumeClaims_spec(3) [OF Inr mem] by blast
    then obtain meta where "lib_SetControllerReference lib KubernetesMachineKind (km_Meta km) ((pvc_Meta t)\<lparr>
        om_Name := getPersistentVolumeClaimName km t, om_Namespace := om_Namespace (km_Meta km)\<rparr>) = Inr meta"
        "pvc_Meta c = meta"
      by (auto simp: claimOfTemplate_def Let_def split: sum.splits)
    then show ?thesis
      using kube_contract.set_controller_frame [OF assms(1)] key_parts [OF assms(3)]
      by (auto simp: keyOf_def getPersistentVolumeClaimName_def)
  qed
  then have "om_Namespace (pvc_Meta c) = nn_Namespace req" if "(n, c) \<in> set claims" for n c
    using that by (fastforce simp: keyOf_def)
  then show ?thesis
    using assms(2) Inr claim by (fastforce simp: claimRun_def list_all_iff)
qed

lemma secRun_scope [scopes]:
  assumes "kube_contract lib" and "secRun lib cloud cluster machine pod km evs out km'" and "keyOf (km_Meta km) = req"
    and "keyOf (pod_Meta pod) = req" and "om_Namespace (cl_Meta cluster) = nn_Namespace req"
    and "om_Namespace (mc_Meta machine) = nn_Namespace req" and "list_all named evs"
  shows "list_all (machineScope req) evs"
proof -
  have built: "keyOf (sec_Meta secret) = \<lparr>nn_Namespace = nn_Namespace req, nn_Name = nn_Name req @ ''-cloud-init''\<rparr>"
    if "scriptSecret lib cloud cluster machine km doc = Returned (Inr secret)" for doc secret
    by (rule scriptSecret_ok [OF assms(1) that])
      (use key_parts [OF assms(3)] assms(6) in \<open>simp add: keyOf_def cloudInitSecretName_def machinePodName_def\<close>)
  from assms(2,7) show ?thesis
    by (cases rule: secRun.cases)
      (auto simp: built dest: dataRun_scope [of machine _ _ req] contRun_scope [OF _ assms(4,5)])
qed

lemma podRun_scope [scopes]:
  assumes "kube_contract lib" and "podRun lib cloud cluster machine pod km evs out km'" and "keyOf (km_Meta km) = req"
    and "keyOf (pod_Meta pod) = req" and "om_Namespace (cl_Meta cluster) = nn_Namespace req"
    and "om_Namespace (mc_Meta machine) = nn_Namespace req" and "list_all named evs"
  shows "list_all (machineScope req) evs"
  using assms(2,7)
  by (cases rule: podRun.cases)
    (auto dest: claimRun_scope [OF assms(1) _ assms(3)] secRun_scope [OF assms(1) _ assms(3-6)])

lemma missingRun_scope [scopes]:
  assumes "kube_contract lib" and "missingRun lib cluster machine km evs out km'" and "keyOf (km_Meta km) = req"
    and "om_Namespace (cl_Meta cluster) = nn_Namespace req"
  shows "list_all (machineScope req) evs"
  using assms(2)
proof (cases rule: missingRun.cases)
  case (missing_created pod err)
  then show ?thesis
    using builtMachinePod_meta(1,2) [OF assms(1) missing_created(5)] key_parts [OF assms(3)] assms(4)
    by (auto simp: keyOf_def machinePodName_def)
qed simp_all

lemma withFinalizers_key: "kube_contract lib \<Longrightarrow> keyOf (km_Meta (withFinalizers lib km)) = keyOf (km_Meta km)"
  using withFinalizers_meta [of lib km] by auto

lemma machinePodKey_own:
  assumes "keyOf (km_Meta km) = req" and "om_Namespace (mc_Meta machine) = nn_Namespace req"
  shows "machinePodKey machine km = req"
  using key_parts [OF assms(1)] assms(2) by (auto simp: machinePodKey_def machinePodName_def)

lemma normalRun_scope [scopes]:
  assumes "kube_contract lib" and "normalRun lib cloud cluster machine km evs out km'" and "keyOf (km_Meta km) = req"
    and "om_Namespace (cl_Meta cluster) = nn_Namespace req" and "om_Namespace (mc_Meta machine) = nn_Namespace req"
    and "list_all named evs"
  shows "list_all (machineScope req) evs"
proof -
  note own = trans [OF withFinalizers_key [OF assms(1)] assms(3)]
  from assms(2) show ?thesis
  proof (cases rule: normalRun.cases)
    case (normal_missing e evs')
    then show ?thesis using missingRun_scope [OF assms(1) normal_missing(5) own assms(4)] by simp
  next
    case (normal_found pod evs')
    then have "keyOf (pod_Meta pod) = req" "list_all named evs'"
      using assms(6) by (simp_all add: machinePodKey_own [OF own assms(5)])
    then show ?thesis using podRun_scope [OF assms(1) normal_found(4) own _ assms(4,5)] normal_found(1) by simp
  qed simp_all
qed

lemma deleteRun_scope [scopes]:
  assumes "deleteRun lib machine cluster km evs out km'" and "keyOf (km_Meta km) = req"
    and "om_Namespace (mc_Meta machine) = nn_Namespace req" and "list_all named evs"
  shows "list_all (machineScope req) evs"
  using assms(1,4)
  by (cases rule: deleteRun.cases)
    (auto simp: machinePodKey_own [OF assms(2,3)] resetRequest_def)

lemma bodyRun_scope [scopes]:
  assumes "kube_contract lib" and "bodyRun lib cloud km evs out km'" and "keyOf (km_Meta km) = req"
    and "list_all named evs"
  shows "list_all (machineScope req) evs"
proof -
  have ns0: "om_Namespace (km_Meta km) = nn_Namespace req" using key_parts [OF assms(3)] by blast
  from assms(2) show ?thesis
  proof (cases rule: bodyRun.cases)
    case (body_delete cluster ref machine evs' kc)
    then have "om_Namespace (mc_Meta machine) = nn_Namespace req" and "list_all named evs'"
      using assms(4) ns0 by (simp_all add: ownerEvents_def)
    then have "list_all (machineScope req) evs'" by (rule deleteRun_scope [OF body_delete(5), rotated]) (simp add: assms(3))
    then show ?thesis using body_delete(1) by (simp add: ownerEvents_def)
  next
    case (body_normal cluster ref machine evs' kc)
    then have ns: "om_Namespace (cl_Meta cluster) = nn_Namespace req" "om_Namespace (mc_Meta machine) = nn_Namespace req"
      and evs': "list_all named evs'"
      using assms(4) ns0 by (simp_all add: ownerEvents_def)
    have "list_all (machineScope req) evs'"
      by (rule normalRun_scope [OF assms(1) body_normal(6) _ ns evs']) (simp add: assms(3))
    then show ?thesis using body_normal(1) by (simp add: ownerEvents_def)
  qed (simp_all add: ownerEvents_def)
qed

lemma reconcileRun_scope:
  assumes "kube_contract lib" and "reconcileRun lib cloud req evs out" and "list_all named evs"
  shows "list_all (machineScope req) evs"
  using assms(2)
proof (cases rule: reconcileRun.cases)
  case (rec_body km body out0 km' err)
  have key: "keyOf (km_Meta km) = req" and body: "list_all named body" using assms(3) rec_body(1) by auto
  have "keyOf (km_Meta km') = req"
    using bodyRun_same [OF assms(1) rec_body(3)] key by (auto simp: sameExceptOwned_def)
  then show ?thesis using rec_body(1) key bodyRun_scope [OF assms(1) rec_body(3) key body] by simp
qed (use assms(3) in simp_all)

subsection \<open>The cluster controller\<close>

lemma preparedCluster_key:
  assumes "kube_contract lib"
  shows "keyOf (kc_Meta (preparedCluster lib kc)) = keyOf (kc_Meta kc)"
  using preparedCluster_meta [OF assms, of kc] by auto

lemma clusterBodyRun_key:
  assumes "kube_contract lib" and "clusterBodyRun lib kc evs ret kc'"
  shows "keyOf (kc_Meta kc') = keyOf (kc_Meta kc)"
  using assms(2)
proof (cases rule: clusterBodyRun.cases)
  case (cb_delete cluster)
  obtain fs where "lib_RemoveFinalizer lib (kc_Meta kc) KubernetesClusterFinalizer = (kc_Meta kc)\<lparr>om_Finalizers := fs\<rparr>"
    using kube_contract.remove_finalizer [OF assms(1)] by blast
  then show ?thesis using cb_delete by (simp add: cluster_reconcileDelete_def)
next
  case (cb_found cluster svc)
  then show ?thesis using serviceStep_meta preparedCluster_key [OF assms(1)] by metis
qed (use preparedCluster_key [OF assms(1)] in simp_all)

lemma clusterBodyRun_scope:
  assumes "kube_contract lib" and "clusterBodyRun lib kc evs ret kc'" and "keyOf (kc_Meta kc) = req"
    and "\<And>m cluster. EvGetOwnerCluster m (Inr (Some cluster)) \<in> set evs \<Longrightarrow> owner (clusterServiceName cluster)"
    and "list_all named evs"
  shows "list_all (clusterScope req owner) evs"
  using assms(2)
proof (cases rule: clusterBodyRun.cases)
  case (cb_created cluster e meta err)
  then have "owner (clusterServiceName cluster)" using assms(4) by auto
  moreover have "om_Namespace (cl_Meta cluster) = nn_Namespace req" using assms(3,5) cb_created(1) by auto
  then have "om_Name meta = clusterServiceName cluster" "om_Namespace meta = nn_Namespace req"
    using kube_contract.set_controller_frame [OF assms(1) cb_created(7)] by (simp_all add: desiredService_def Let_def)
  ultimately show ?thesis using cb_created(1) by simp
qed simp_all

lemma clusterRun_scope:
  assumes "kube_contract lib" and "clusterRun lib req evs ret" and "list_all named evs"
    and "\<And>m cluster. EvGetOwnerCluster m (Inr (Some cluster)) \<in> set evs \<Longrightarrow> owner (clusterServiceName cluster)"
  shows "list_all (clusterScope req owner) evs"
  using assms(2)
proof (cases rule: clusterRun.cases)
  case (cr_body kc body res rerr kc' err)
  have key: "keyOf (kc_Meta kc) = req" using assms(3) cr_body(1) by simp
  have "list_all (clusterScope req owner) body"
    by (rule clusterBodyRun_scope [OF assms(1) cr_body(3) key]) (use assms(3,4) cr_body(1) in auto)
  then show ?thesis using cr_body(1) key clusterBodyRun_key [OF assms(1) cr_body(3)] by simp
qed simp_all

lemma clusterRun_owner:
  assumes "clusterRun lib req evs ret" and "list_all named evs" and "EvGetOwnerCluster m r \<in> set evs"
  shows "keyOf m = req"
  using assms(1)
proof (cases rule: clusterRun.cases)
  case (cr_body kc body res rerr kc' err)
  have "m = kc_Meta kc" using assms(3) cr_body(1) by (cases rule: clusterBodyRun.cases [OF cr_body(3)]) auto
  then show ?thesis using assms(2) cr_body(1) by simp
qed (use assms(3) in simp_all)

text \<open>The names of claims do not tell the machines of a namespace apart: a dash in a name can be read in two ways.\<close>

lemma claim_names_collide:
  assumes "om_Name (pvc_Meta t) = a" and "om_Name (km_Meta km) = b @ ''-'' @ c"
    and "om_Name (pvc_Meta t') = a @ ''-'' @ b" and "om_Name (km_Meta km') = c"
  shows "getPersistentVolumeClaimName km t = getPersistentVolumeClaimName km' t'"
  using assms by (simp add: getPersistentVolumeClaimName_def)

end
