(* ===== verification/Cluster_Converge.thy ===== *)
theory Cluster_Converge
  imports Cluster_Properties Control_Loop
begin

text \<open>
  The control loop of a cluster: what reconciling it again and again leads to, from the creation of
  its Service to a ready cluster. \<open>clusterServer\<close> states what the API server does for the controller:
  it keeps one KubernetesCluster and its Service, and a patch replaces the cluster it was made from.
\<close>

subsection \<open>The API server\<close>

type_synonym cluster_stored = "KubernetesCluster \<times> Service option"

definition serviceAnswer :: "cluster_stored \<Rightarrow> go_error + Service \<Rightarrow> bool" where
  "serviceAnswer v r = (case snd v of None \<Rightarrow> (\<exists>e. r = Inl e \<and> IsNotFound e) | Some svc \<Rightarrow> r = Inr svc)"

definition serviceKeyOf :: "NamespacedName \<Rightarrow> Cluster \<Rightarrow> NamespacedName" where
  "serviceKeyOf req cluster = \<lparr>nn_Namespace = nn_Namespace req, nn_Name = clusterServiceName cluster\<rparr>"

definition clusterServer ::
  "'w kube_client \<Rightarrow> NamespacedName \<Rightarrow> ('w \<Rightarrow> cluster_stored) \<Rightarrow> Cluster \<Rightarrow> bool" where
  "clusterServer cli req view cluster \<longleftrightarrow>
     serves view (cli_GetKubernetesCluster cli req) (\<lambda>v r. r = Inr (fst v)) \<and>
     serves view (cli_NewPatchHelper cli) (\<lambda>_ r. r = None) \<and>
     (\<forall>b w. timeIsZero (om_DeletionTimestamp (kc_Meta (fst (view w)))) \<and> keyOf (kc_Meta (fst (view w))) = req \<and> keyOf (kc_Meta b) = req \<longrightarrow>
        fst (cli_PatchCluster cli (fst (view w)) b w) = None \<and>
        view (snd (cli_PatchCluster cli (fst (view w)) b w)) = (b, snd (view w))) \<and>
     (\<forall>m. keyOf m = req \<longrightarrow> serves view (cli_GetOwnerCluster cli m) (\<lambda>_ r. r = Inr (Some cluster))) \<and>
     serves view (cli_GetService cli (serviceKeyOf req cluster)) serviceAnswer \<and>
     (\<forall>x w. keyOf (svc_Meta x) = serviceKeyOf req cluster \<and> snd (view w) = None \<longrightarrow>
        fst (cli_CreateService cli x w) = None \<and> view (snd (cli_CreateService cli x w)) = (fst (view w), Some x))"

lemma clusterServerD:
  assumes "clusterServer cli req view cluster"
  shows "answers (\<lambda>w. view w = (kc, p)) (cli_GetKubernetesCluster cli req) (\<lambda>r. r = Inr kc)"
    and "answers (\<lambda>w. view w = v) (cli_NewPatchHelper cli) (\<lambda>r. r = None)"
    and "view w = (kc, p) \<Longrightarrow> timeIsZero (om_DeletionTimestamp (kc_Meta kc)) \<Longrightarrow> keyOf (kc_Meta kc) = req \<Longrightarrow> keyOf (kc_Meta kc') = req \<Longrightarrow>
      fst (cli_PatchCluster cli kc kc' w) = None \<and> view (snd (cli_PatchCluster cli kc kc' w)) = (kc', p)"
    and "keyOf m = req \<Longrightarrow> answers (\<lambda>w. view w = v) (cli_GetOwnerCluster cli m) (\<lambda>r. r = Inr (Some cluster))"
    and "answers (\<lambda>w. view w = v) (cli_GetService cli (serviceKeyOf req cluster)) (serviceAnswer v)"
    and "view w = (kc, None) \<Longrightarrow> keyOf (svc_Meta x) = serviceKeyOf req cluster \<Longrightarrow>
      fst (cli_CreateService cli x w) = None \<and> view (snd (cli_CreateService cli x w)) = (kc, Some x)"
proof -
  note c = assms [unfolded clusterServer_def]
  show "answers (\<lambda>w. view w = (kc, p)) (cli_GetKubernetesCluster cli req) (\<lambda>r. r = Inr kc)"
    using serves_answers [of view "cli_GetKubernetesCluster cli req" "\<lambda>v r. r = Inr (fst v)" "(kc, p)"] c by simp
  show "answers (\<lambda>w. view w = v) (cli_NewPatchHelper cli) (\<lambda>r. r = None)" by (rule serves_const) (use c in simp)
  show "view w = (kc, p) \<Longrightarrow> timeIsZero (om_DeletionTimestamp (kc_Meta kc)) \<Longrightarrow> keyOf (kc_Meta kc) = req \<Longrightarrow> keyOf (kc_Meta kc') = req \<Longrightarrow>
      fst (cli_PatchCluster cli kc kc' w) = None \<and> view (snd (cli_PatchCluster cli kc kc' w)) = (kc', p)"
    using c by (metis fst_conv snd_conv)
  show "keyOf m = req \<Longrightarrow> answers (\<lambda>w. view w = v) (cli_GetOwnerCluster cli m) (\<lambda>r. r = Inr (Some cluster))"
    by (rule serves_const) (use c in simp)
  show "answers (\<lambda>w. view w = v) (cli_GetService cli (serviceKeyOf req cluster)) (serviceAnswer v)"
    by (rule serves_answers) (use c in simp)
  show "view w = (kc, None) \<Longrightarrow> keyOf (svc_Meta x) = serviceKeyOf req cluster \<Longrightarrow>
      fst (cli_CreateService cli x w) = None \<and> view (snd (cli_CreateService cli x w)) = (kc, Some x)"
    using c by simp
qed

text \<open>The cluster is alive: it has not failed, is not paused and not deleted, and objects without a
  controller can be given one.\<close>

definition liveCluster :: "kube_lib \<Rightarrow> NamespacedName \<Rightarrow> Cluster \<Rightarrow> KubernetesCluster \<Rightarrow> bool" where
  "liveCluster lib req cluster kc \<longleftrightarrow> keyOf (kc_Meta kc) = req \<and> om_Namespace (cl_Meta cluster) = nn_Namespace req \<and>
     timeIsZero (om_DeletionTimestamp (kc_Meta kc)) \<and> \<not> clusterFailed kc \<and> \<not> lib_IsPaused lib cluster (kc_Meta kc) \<and>
     (\<forall>m. lib_GetControllerOf lib m = None \<longrightarrow> (\<forall>kind owner. \<exists>m'. lib_SetControllerReference lib kind owner m = Inr m')) \<and>
     lib_GetControllerOf lib emptyObjectMeta = None"

subsection \<open>One reconcile\<close>

lemma clusterBody_normal:
  assumes "clusterServer cli req view cluster" and "liveCluster lib req cluster kc" and "view (fst s) = v"
  obtains s' where "clusterBody lib cli kc s = cluster_reconcileNormal lib cli cluster (defaultServiceType kc) s'"
    "view (fst s') = v"
proof -
  obtain s1 where "perform (EvGetOwnerCluster (kc_Meta kc)) (cli_GetOwnerCluster cli (kc_Meta kc)) s = (Inr (Some cluster), s1)"
      and v: "view (fst s1) = v"
    by (rule performs_eq [OF clusterServerD(4) [OF assms(1)] assms(3)]) (use assms(2) in \<open>auto simp: liveCluster_def\<close>)
  then have "clusterBody lib cli kc s = cluster_reconcileNormal lib cli cluster (defaultServiceType kc) s1"
    using assms(2) by (simp add: clusterBody_def liveCluster_def Let_def)
  then show thesis using v by (rule that)
qed

lemma cluster_round:
  assumes "clusterServer cli req view cluster" and "liveCluster lib req cluster kc" and "view (fst s) = (kc, p)"
    and "\<And>t. view (fst t) = (kc, p) \<Longrightarrow> \<exists>s'. cluster_reconcileNormal lib cli cluster (defaultServiceType kc) t =
        ((res, None), kc', s') \<and> view (fst s') = (kc, p') \<and> set evs \<subseteq> set (snd s')"
    and "kube_contract lib" and "kc_Meta kc' = kc_Meta (preparedCluster lib kc)"
  obtains s' where "cluster_Reconcile lib cli req s = ((res, None), s')"
    "view (fst s') = (cluster_reconcilePhase kc', p')" "set evs \<subseteq> set (snd s')"
proof -
  obtain s1 where g1: "perform (EvGetKubernetesCluster req) (cli_GetKubernetesCluster cli req) s = (Inr kc, s1)"
    and v1: "view (fst s1) = (kc, p)"
    by (rule performs_eq [OF clusterServerD(1) [OF assms(1)] assms(3)])
  obtain s2 where g2: "perform EvNewPatchHelper (cli_NewPatchHelper cli) s1 = (None, s2)" and v2: "view (fst s2) = (kc, p)"
    by (rule performs_eq [OF clusterServerD(2) [OF assms(1)] v1])
  obtain s3 where b: "clusterBody lib cli kc s2 = cluster_reconcileNormal lib cli cluster (defaultServiceType kc) s3"
    and v3: "view (fst s3) = (kc, p)"
    by (rule clusterBody_normal [OF assms(1,2) v2])
  obtain s4 where n: "clusterBody lib cli kc s2 = ((res, None), kc', s4)" and v4: "view (fst s4) = (kc, p')"
    and evs: "set evs \<subseteq> set (snd s4)"
    using b assms(4) [OF v3] by auto
  let ?call = "cli_PatchCluster cli kc (cluster_reconcilePhase kc')"
  have key: "timeIsZero (om_DeletionTimestamp (kc_Meta kc))" "keyOf (kc_Meta kc) = req" using assms(2) by (simp_all add: liveCluster_def)
  have "keyOf (kc_Meta (cluster_reconcilePhase kc')) = req"
    using preparedCluster_meta [OF assms(5), of kc] assms(6) key by auto
  note patch = clusterServerD(3) [OF assms(1) v4 key this]
  obtain s5 where g3: "perform (EvPatchCluster kc (cluster_reconcilePhase kc')) ?call s4 = (None, s5)"
      "fst s5 = snd (?call (fst s4))" "snd s5 = snd s4 @ [EvPatchCluster kc (cluster_reconcilePhase kc') None]"
    by (rule performs_change [of ?call s4, OF conjunct1 [OF patch]])
  have "cluster_Reconcile lib cli req s = ((res, None), s5)"
    using g1 g2 n g3(1) by (simp add: cluster_Reconcile_def clusterDeferred_def Let_def)
  then show thesis using that [of s5] g3 patch evs by auto
qed

lemma live_service_key:
  assumes "kube_contract lib" and "liveCluster lib req cluster kc"
  shows "serviceKey cluster (preparedCluster lib kc) = serviceKeyOf req cluster"
    and "keyOf (svc_Meta (desiredService cluster (preparedCluster lib kc))) = serviceKeyOf req cluster"
  using assms(2) preparedCluster_ids(3) [OF assms(1), of cluster kc]
  by (auto simp: liveCluster_def keyOf_def serviceKey_def serviceKeyOf_def desiredService_def Let_def)

lemma reconcileNormal_service:
  assumes "kube_contract lib" and "liveCluster lib req cluster kc"
    and "clusterServer cli req view cluster" and "view (fst s) = (kc, p)"
  obtains r s' where "perform (EvGetService (serviceKey cluster (preparedCluster lib kc)))
      (cli_GetService cli (serviceKey cluster (preparedCluster lib kc))) s = (r, s')"
    "view (fst s') = (kc, p)" "serviceAnswer (kc, p) r"
  unfolding live_service_key(1) [OF assms(1,2)]
  by (rule performs [OF clusterServerD(5) [OF assms(3)] assms(4)]) (auto intro: that)

lemma round_found:
  assumes "kube_contract lib" and "clusterServer cli req view cluster" and "liveCluster lib req cluster kc" and "view (fst s) = (kc, Some svc)"
    and "serviceStep lib svc (preparedCluster lib kc) = ((res, None), kc')"
  obtains s' where "cluster_Reconcile lib cli req s = ((res, None), s')"
    "view (fst s') = (cluster_reconcilePhase kc', Some svc)"
proof -
  have normal: "\<exists>s'. cluster_reconcileNormal lib cli cluster (defaultServiceType kc) t = ((res, None), kc', s') \<and>
      view (fst s') = (kc, Some svc) \<and> set [] \<subseteq> set (snd s')" if t: "view (fst t) = (kc, Some svc)" for t
  proof -
    obtain r s' where "perform (EvGetService (serviceKey cluster (preparedCluster lib kc)))
        (cli_GetService cli (serviceKey cluster (preparedCluster lib kc))) t = (r, s')"
        "view (fst s') = (kc, Some svc)" "serviceAnswer (kc, Some svc) r"
      by (rule reconcileNormal_service [OF assms(1,3,2) t])
    then show ?thesis
      using assms(5) unfolding cluster_reconcileNormal_def Let_def preparedCluster_def withClusterFinalizers_def serviceKey_def
      by (simp add: serviceAnswer_def)
  qed
  show thesis by (rule cluster_round [OF assms(2-4) normal assms(1) serviceStep_meta [OF assms(5)]]) (auto intro: that)
qed

text \<open>The reconcile that creates the Service.\<close>

lemma round_creates:
  assumes "kube_contract lib" and "clusterServer cli req view cluster" and "liveCluster lib req cluster kc" and "view (fst s) = (kc, None)"
    and "lib_SetControllerReference lib KubernetesClusterKind (kc_Meta (preparedCluster lib kc))
      (svc_Meta (desiredService cluster (preparedCluster lib kc))) = Inr meta"
    and "svc = (desiredService cluster (preparedCluster lib kc))\<lparr>svc_Meta := meta\<rparr>"
  obtains s' where "cluster_Reconcile lib cli req s = ((noRequeue, None), s')"
    "view (fst s') = (cluster_reconcilePhase (preparedCluster lib kc), Some svc)" "EvCreateService svc None \<in> set (snd s')"
proof -
  have normal: "\<exists>s'. cluster_reconcileNormal lib cli cluster (defaultServiceType kc) t =
      ((noRequeue, None), preparedCluster lib kc, s') \<and> view (fst s') = (kc, Some svc) \<and>
      set [EvCreateService svc None] \<subseteq> set (snd s')" if t: "view (fst t) = (kc, None)" for t
  proof -
    obtain r s1 where get: "perform (EvGetService (serviceKey cluster (preparedCluster lib kc)))
        (cli_GetService cli (serviceKey cluster (preparedCluster lib kc))) t = (r, s1)"
      and v1: "view (fst s1) = (kc, None)" and "serviceAnswer (kc, None) r"
      by (rule reconcileNormal_service [OF assms(1,3,2) t])
    then obtain e where e: "r = Inl e" "IsNotFound e" by (auto simp: serviceAnswer_def)
    have "keyOf (svc_Meta svc) = serviceKeyOf req cluster"
      using live_service_key(2) [OF assms(1,3)] kube_contract.set_controller_frame [OF assms(1,5)] by (auto simp: assms(6) keyOf_def)
    note create = clusterServerD(6) [OF assms(2) v1 this]
    obtain s2 where c: "perform (EvCreateService svc) (cli_CreateService cli svc) s1 = (None, s2)"
        "fst s2 = snd (cli_CreateService cli svc (fst s1))" "snd s2 = snd s1 @ [EvCreateService svc None]"
      by (rule performs_change [of "cli_CreateService cli svc" s1, OF conjunct1 [OF create]])
    have "createClusterService lib cli cluster (preparedCluster lib kc) s1 = ((noRequeue, None), s2)"
      using assms(5,6) c(1) by (simp add: createClusterService_def Let_def)
    then have "cluster_reconcileNormal lib cli cluster (defaultServiceType kc) t = ((noRequeue, None), preparedCluster lib kc, s2)"
      using get e unfolding cluster_reconcileNormal_def Let_def preparedCluster_def withClusterFinalizers_def serviceKey_def
      by simp
    then show ?thesis using c(2,3) create by simp
  qed
  show thesis by (rule cluster_round [OF assms(2-4) normal assms(1) refl]) (auto intro: that)
qed

subsection \<open>One cluster after the other\<close>

lemma defaultServiceType_idem: "kcs_ControlPlaneServiceType (kc_Spec kc) \<noteq> [] \<Longrightarrow> defaultServiceType kc = kc"
  by (simp add: defaultServiceType_def)

lemma preparedCluster_idem:
  assumes "kube_contract lib" and "{KubernetesClusterFinalizer, FinalizerDeleteDependents} \<subseteq> set (om_Finalizers (kc_Meta kc))"
    and "kcs_ControlPlaneServiceType (kc_Spec kc) \<noteq> []"
  shows "preparedCluster lib kc = kc"
  using assms(2) kube_contract.add_finalizer_present [OF assms(1)]
  by (simp add: preparedCluster_def defaultServiceType_idem [OF assms(3)] withClusterFinalizers_def addClusterFinalizer_def)

lemma prepared_phase_idem:
  assumes "kube_contract lib" and "kc_Meta kc' = kc_Meta (preparedCluster lib kc)"
    and "kcs_ControlPlaneServiceType (kc_Spec kc') = kcs_ControlPlaneServiceType (kc_Spec (preparedCluster lib kc))"
  shows "preparedCluster lib (cluster_reconcilePhase kc') = cluster_reconcilePhase kc'"
proof (rule preparedCluster_idem [OF assms(1)])
  show "{KubernetesClusterFinalizer, FinalizerDeleteDependents} \<subseteq> set (om_Finalizers (kc_Meta (cluster_reconcilePhase kc')))"
    using preparedCluster_meta [OF assms(1), of kc] assms(2) by auto
qed (use assms(3) in simp)

lemma reconcilePhase_idem: "cluster_reconcilePhase (cluster_reconcilePhase kc) = cluster_reconcilePhase kc"
proof -
  have "setClusterPhase p (setClusterPhase p kc) = setClusterPhase p kc" for p by (simp add: setClusterPhase_def)
  moreover have "clusterPhaseOf (setClusterPhase (clusterPhaseOf kc) kc) = clusterPhaseOf kc"
    using cluster_reconcilePhase_frame(7) [of kc] by (simp add: cluster_reconcilePhase_eq)
  ultimately show ?thesis by (simp add: cluster_reconcilePhase_eq)
qed

lemma liveCluster_next:
  assumes "kube_contract lib" and "liveCluster lib req cluster kc" and "kc_Meta kc' = kc_Meta (preparedCluster lib kc)"
    and "\<not> clusterFailed kc'"
  shows "liveCluster lib req cluster (cluster_reconcilePhase kc')"
proof -
  obtain fs where m: "kc_Meta kc' = (kc_Meta kc)\<lparr>om_Finalizers := fs\<rparr>"
    using preparedCluster_meta [OF assms(1), of kc] assms(3) by auto
  have "lib_IsPaused lib cluster ((kc_Meta kc)\<lparr>om_Finalizers := fs\<rparr>) = lib_IsPaused lib cluster (kc_Meta kc)"
    by (rule kube_contract.paused_annotations [OF assms(1)]) simp
  then show ?thesis using assms(2,4) m by (simp add: liveCluster_def)
qed

text \<open>A Service the cluster can be reached at: it is the cluster's own, has an address and a port for the
  API server, and a complete endpoint is the one it has.\<close>

definition acceptedService :: "kube_lib \<Rightarrow> Service \<Rightarrow> string \<Rightarrow> KubernetesCluster \<Rightarrow> bool" where
  "acceptedService lib svc host kc \<longleftrightarrow>
     controlledBy lib (svc_Meta svc) (om_UID (kc_Meta kc)) \<and> serviceHost svc = Some host \<and> host \<noteq> [] \<and>
     servicePortOf svc \<noteq> 0 \<and>
     (APIEndpoint_IsZero (kcs_ControlPlaneEndpoint (kc_Spec kc)) \<or>
      kcs_ControlPlaneEndpoint (kc_Spec kc) = \<lparr>ep_Host = host, ep_Port = servicePortOf svc\<rparr>)"

definition nextCluster :: "kube_lib \<Rightarrow> Service \<Rightarrow> string \<Rightarrow> KubernetesCluster \<Rightarrow> KubernetesCluster" where
  "nextCluster lib svc host kc = cluster_reconcilePhase (endpointStep host (servicePortOf svc) (preparedCluster lib kc))"

lemma accepted_step:
  assumes "kube_contract lib" and "acceptedService lib svc host kc"
  shows "serviceStep lib svc (preparedCluster lib kc) =
      ((noRequeue, None), endpointStep host (servicePortOf svc) (preparedCluster lib kc))"
    and "kc_Meta (nextCluster lib svc host kc) = kc_Meta (preparedCluster lib kc)"
    and "kcs_ControlPlaneEndpoint (kc_Spec (nextCluster lib svc host kc)) = \<lparr>ep_Host = host, ep_Port = servicePortOf svc\<rparr>"
    and "kcs_ControlPlaneServiceType (kc_Spec (nextCluster lib svc host kc)) =
      kcs_ControlPlaneServiceType (kc_Spec (preparedCluster lib kc))"
    and "kcst_Ready (kc_Status (nextCluster lib svc host kc))"
    and "clusterFailed (nextCluster lib svc host kc) = clusterFailed kc"
proof -
  let ?p = "preparedCluster lib kc" and ?port = "servicePortOf svc"
  show "serviceStep lib svc ?p = ((noRequeue, None), endpointStep host ?port ?p)"
    using assms(2) preparedCluster_ids(1) [OF assms(1)] by (simp add: serviceStep_def acceptedService_def)
  have "endpointStep host ?port ?p = setClusterReady (setClusterEndpoint host ?port ?p) \<or>
      endpointStep host ?port ?p = setClusterReady ?p \<and> kcs_ControlPlaneEndpoint (kc_Spec ?p) = \<lparr>ep_Host = host, ep_Port = ?port\<rparr>"
    by (cases rule: endpointStep_cases [of ?p host ?port]) (use assms(2) in \<open>auto simp: acceptedService_def\<close>)
  then show "kc_Meta (nextCluster lib svc host kc) = kc_Meta ?p"
    "kcs_ControlPlaneEndpoint (kc_Spec (nextCluster lib svc host kc)) = \<lparr>ep_Host = host, ep_Port = ?port\<rparr>"
    "kcs_ControlPlaneServiceType (kc_Spec (nextCluster lib svc host kc)) = kcs_ControlPlaneServiceType (kc_Spec ?p)"
    "kcst_Ready (kc_Status (nextCluster lib svc host kc))"
    "clusterFailed (nextCluster lib svc host kc) = clusterFailed kc"
    by (auto simp: nextCluster_def)
qed

lemma nextCluster_live:
  assumes "kube_contract lib" and "acceptedService lib svc host kc" and "liveCluster lib req cluster kc"
  shows "liveCluster lib req cluster (nextCluster lib svc host kc)" and "acceptedService lib svc host (nextCluster lib svc host kc)"
    and "kcst_Phase (kc_Status (nextCluster lib svc host kc)) = KubernetesClusterPhaseProvisioned"
proof -
  note f = accepted_step [OF assms(1,2)]
  have uid: "om_UID (kc_Meta (nextCluster lib svc host kc)) = om_UID (kc_Meta kc)"
    using f(2) preparedCluster_ids(1) [OF assms(1)] by simp
  show live: "liveCluster lib req cluster (nextCluster lib svc host kc)"
    unfolding nextCluster_def
    by (rule liveCluster_next [OF assms(1,3)]) (use f assms(3) in \<open>auto simp: nextCluster_def liveCluster_def\<close>)
  show "acceptedService lib svc host (nextCluster lib svc host kc)"
    using assms(2) f(3) uid by (simp add: acceptedService_def)
  show "kcst_Phase (kc_Status (nextCluster lib svc host kc)) = KubernetesClusterPhaseProvisioned"
    using live f(5) by (simp add: nextCluster_def clusterPhaseOf_def liveCluster_def)
qed

lemma nextCluster_stable:
  assumes "kube_contract lib" and "acceptedService lib svc host kc"
  shows "nextCluster lib svc host (nextCluster lib svc host kc) = nextCluster lib svc host kc"
proof -
  let ?n = "nextCluster lib svc host kc"
  note f = accepted_step [OF assms]
  have prep: "preparedCluster lib ?n = ?n"
    unfolding nextCluster_def by (rule prepared_phase_idem [OF assms(1)]) (use f(2,4) in \<open>simp_all add: nextCluster_def\<close>)
  have "\<not> APIEndpoint_IsZero (kcs_ControlPlaneEndpoint (kc_Spec ?n))"
    using f(3) assms(2) by (simp add: APIEndpoint_IsZero_def acceptedService_def)
  then have "endpointStep host (servicePortOf svc) ?n = setClusterReady ?n"
    using f(3) by (simp add: endpointStep_def Let_def)
  also have "\<dots> = ?n" using f(5) by (simp add: setClusterReady_def)
  finally show ?thesis
    unfolding nextCluster_def [of lib svc host ?n] prep by (simp add: nextCluster_def reconcilePhase_idem)
qed

subsection \<open>The loop\<close>

definition clusterLoopReady ::
  "kube_lib \<Rightarrow> 'w kube_client \<Rightarrow> NamespacedName \<Rightarrow> ('w \<Rightarrow> cluster_stored) \<Rightarrow> Cluster \<Rightarrow> Service \<Rightarrow> string \<Rightarrow> cluster_stored \<Rightarrow> bool"
  where
  "clusterLoopReady lib cli req view cluster svc host v \<longleftrightarrow>
     kube_contract lib \<and> clusterServer cli req view cluster \<and> liveCluster lib req cluster (fst v) \<and>
     acceptedService lib svc host (fst v) \<and> snd v = Some svc"

interpretation cluster_loop: control_loop "cluster_Reconcile lib cli req" "\<lambda>s. view (fst s)" "apfst (nextCluster lib svc host)"
  "clusterLoopReady lib cli req view cluster svc host" "(noRequeue, None)" 1
  for lib cli req view cluster svc host
proof
  show "\<exists>s'. cluster_Reconcile lib cli req s = ((noRequeue, None), s') \<and>
      view (fst s') = apfst (nextCluster lib svc host) (view (fst s))"
    if ok: "clusterLoopReady lib cli req view cluster svc host (view (fst s))" for s
  proof -
    obtain kc where v: "view (fst s) = (kc, Some svc)" and h: "kube_contract lib" "clusterServer cli req view cluster"
        "liveCluster lib req cluster kc" "acceptedService lib svc host kc"
      using ok by (cases "view (fst s)") (auto simp: clusterLoopReady_def)
    show ?thesis
      by (rule round_found [OF h(1,2,3) v accepted_step(1) [OF h(1,4)]]) (simp add: v nextCluster_def)
  qed
  show "clusterLoopReady lib cli req view cluster svc host (apfst (nextCluster lib svc host) v)"
    if "clusterLoopReady lib cli req view cluster svc host v" for v
    using that nextCluster_live(1,2) by (cases v) (auto simp: clusterLoopReady_def)
  show "apfst (nextCluster lib svc host) ((apfst (nextCluster lib svc host) ^^ 1) v) = (apfst (nextCluster lib svc host) ^^ 1) v"
    if "clusterLoopReady lib cli req view cluster svc host v" for v
    using that nextCluster_stable by (cases v) (auto simp: clusterLoopReady_def)
qed

text \<open>From the first reconcile on, every reconcile of \<open>s\<close> returns without an error and leaves the cluster
  \<open>settled\<close>, which is ready, provisioned and not failed.\<close>

definition settlesProvisioned ::
  "kube_lib \<Rightarrow> 'w kube_client \<Rightarrow> NamespacedName \<Rightarrow> ('w \<Rightarrow> cluster_stored) \<Rightarrow> 'w st \<Rightarrow> Service \<Rightarrow> KubernetesCluster \<Rightarrow> bool" where
  "settlesProvisioned lib cli req view s svc settled \<longleftrightarrow>
     (\<forall>n. \<exists>s'. loopRounds (cluster_Reconcile lib cli req) (n + 1) s = (replicate (n + 1) (noRequeue, None), s') \<and>
        view (fst s') = (settled, Some svc)) \<and>
     kcst_Ready (kc_Status settled) \<and> kcst_Phase (kc_Status settled) = KubernetesClusterPhaseProvisioned \<and>
     \<not> clusterFailed settled"

lemma cluster_settles:
  assumes "kube_contract lib" and "clusterServer cli req view cluster" and "liveCluster lib req cluster kc"
    and "acceptedService lib svc host kc" and "view (fst s) = (kc, Some svc)"
  shows "settlesProvisioned lib cli req view s svc (nextCluster lib svc host kc)"
proof -
  have "clusterLoopReady lib cli req view cluster svc host (view (fst s))" using assms by (simp add: clusterLoopReady_def)
  from cluster_loop.rounds_settle [of lib cli req view cluster svc host s, OF this]
  have "\<exists>s'. loopRounds (cluster_Reconcile lib cli req) (n + 1) s = (replicate (n + 1) (noRequeue, None), s') \<and>
      view (fst s') = (nextCluster lib svc host kc, Some svc)" for n
    using assms(5) by simp
  then show ?thesis
    using nextCluster_live [OF assms(1,4,3)] accepted_step(5) [OF assms(1,4)]
    unfolding settlesProvisioned_def by (simp add: liveCluster_def)
qed

subsection \<open>From nothing to a provisioned cluster\<close>

text \<open>What the cloud provider makes of a Service: it may give it addresses.\<close>

definition serviceGiven :: "Service \<Rightarrow> Service \<Rightarrow> bool" where
  "serviceGiven svc svc' \<longleftrightarrow> om_OwnerReferences (svc_Meta svc') = om_OwnerReferences (svc_Meta svc) \<and>
     svc_Type svc' = svc_Type svc \<and> svc_Ports svc' = svc_Ports svc"

definition desiredPortOf :: "KubernetesCluster \<Rightarrow> int32" where
  "desiredPortOf kc = (if ep_Port (kcs_ControlPlaneEndpoint (kc_Spec kc)) = 0 then 443
     else ep_Port (kcs_ControlPlaneEndpoint (kc_Spec kc)))"

lemma given_service:
  assumes "kube_contract lib" and "liveCluster lib req cluster kc"
  obtains meta where "lib_SetControllerReference lib KubernetesClusterKind (kc_Meta (preparedCluster lib kc))
      (svc_Meta (desiredService cluster (preparedCluster lib kc))) = Inr meta"
    "\<And>svc'. serviceGiven ((desiredService cluster (preparedCluster lib kc))\<lparr>svc_Meta := meta\<rparr>) svc' \<Longrightarrow>
       controlledBy lib (svc_Meta svc') (om_UID (kc_Meta kc)) \<and> servicePortOf svc' = desiredPortOf kc"
proof -
  let ?kc = "preparedCluster lib kc"
  let ?m = "svc_Meta (desiredService cluster ?kc)"
  have "lib_GetControllerOf lib ?m = lib_GetControllerOf lib emptyObjectMeta"
    by (rule kube_contract.controller_of [OF assms(1)]) (simp add: desiredService_def Let_def)
  then obtain meta where meta: "lib_SetControllerReference lib KubernetesClusterKind (kc_Meta ?kc) ?m = Inr meta"
    using assms(2) unfolding liveCluster_def by metis
  have own: "controlledBy lib m (om_UID (kc_Meta kc))" if "om_OwnerReferences m = om_OwnerReferences meta" for m
    using kube_contract.controller_of [OF assms(1) that] kube_contract.set_controller_uid [OF assms(1) meta]
      preparedCluster_ids(1) [OF assms(1)] by (auto simp: controlledBy_def)
  have "servicePortOf svc' = desiredPortOf kc" if "svc_Ports svc' = svc_Ports (desiredService cluster ?kc)" for svc'
    using that by (simp add: servicePortOf_def desiredService_def Let_def desiredPortOf_def defaultClusterLoadBalancerPort_def)
  then show thesis using that [OF meta] own by (simp add: serviceGiven_def)
qed

lemma waiting_round:
  assumes "kube_contract lib" and "clusterServer cli req view cluster" and "liveCluster lib req cluster kc"
    and "controlledBy lib (svc_Meta svc) (om_UID (kc_Meta kc))" and "serviceHost svc = None"
    and "kc = cluster_reconcilePhase (preparedCluster lib kc0)" and "view (fst s) = (kc, Some svc)"
  shows "\<exists>s'. cluster_Reconcile lib cli req s = ((\<lparr>res_RequeueAfter = 1000000000\<rparr>, None), s') \<and> view (fst s') = (kc, Some svc)"
proof -
  have prep: "preparedCluster lib kc = kc" unfolding assms(6) by (rule prepared_phase_idem [OF assms(1)]) simp_all
  have phase: "cluster_reconcilePhase kc = kc" using assms(6) reconcilePhase_idem by simp
  have "serviceStep lib svc (preparedCluster lib kc) = ((\<lparr>res_RequeueAfter = 1000000000\<rparr>, None), kc)"
    using assms(4,5) by (simp add: prep serviceStep_def loadBalancerIngressRequeueAfter_def)
  from round_found [OF assms(1,2,3,7) this] phase show ?thesis by metis
qed

text \<open>
  C15. From nothing to a provisioned cluster: the next reconcile of a live cluster without a Service
  creates it and stores it. However the world goes on, as long as that Service, a load balancer, has
  no address every reconcile asks to be run again after a second and changes nothing; once the Service
  has an address the next reconcile makes the cluster ready and \<open>Provisioned\<close> with that address and the
  port that was asked for (443 if none was), and further reconciles keep it so. If the endpoint was
  complete before, the address must be the one it has.
\<close>

theorem cluster_bring_up:
  assumes "kube_contract lib" and "clusterServer cli req view cluster" and "liveCluster lib req cluster kc"
    and "view (fst s) = (kc, None)"
  shows "\<exists>svc kc1 s1. cluster_Reconcile lib cli req s = ((noRequeue, None), s1) \<and> view (fst s1) = (kc1, Some svc) \<and>
    EvCreateService svc None \<in> set (snd s1) \<and> \<not> clusterFailed kc1 \<and>
    (\<forall>svc' s2. serviceGiven svc svc' \<and> view (fst s2) = (kc1, Some svc') \<longrightarrow>
      (serviceHost svc' = None \<longrightarrow>
        (\<exists>s'. cluster_Reconcile lib cli req s2 = ((\<lparr>res_RequeueAfter = 1000000000\<rparr>, None), s') \<and> view (fst s') = view (fst s2))) \<and>
      (\<forall>host. serviceHost svc' = Some host \<and> host \<noteq> [] \<and>
           (APIEndpoint_IsZero (kcs_ControlPlaneEndpoint (kc_Spec kc)) \<or> ep_Host (kcs_ControlPlaneEndpoint (kc_Spec kc)) = host) \<longrightarrow>
        (\<exists>settled. settlesProvisioned lib cli req view s2 svc' settled \<and>
           kcs_ControlPlaneEndpoint (kc_Spec settled) = \<lparr>ep_Host = host, ep_Port = desiredPortOf kc\<rparr>)))"
proof -
  let ?p = "preparedCluster lib kc" and ?kc1 = "cluster_reconcilePhase (preparedCluster lib kc)"
  obtain meta where meta: "lib_SetControllerReference lib KubernetesClusterKind (kc_Meta ?p) (svc_Meta (desiredService cluster ?p)) = Inr meta"
    and given: "\<And>svc'. serviceGiven ((desiredService cluster ?p)\<lparr>svc_Meta := meta\<rparr>) svc' \<Longrightarrow>
       controlledBy lib (svc_Meta svc') (om_UID (kc_Meta kc)) \<and> servicePortOf svc' = desiredPortOf kc"
    by (rule given_service [OF assms(1,3)]) blast
  let ?svc = "(desiredService cluster ?p)\<lparr>svc_Meta := meta\<rparr>"
  obtain s1 where run: "cluster_Reconcile lib cli req s = ((noRequeue, None), s1)" "view (fst s1) = (?kc1, Some ?svc)"
      "EvCreateService ?svc None \<in> set (snd s1)"
    by (rule round_creates [OF assms(1-4) meta refl])
  have live: "liveCluster lib req cluster ?kc1"
    by (rule liveCluster_next [OF assms(1,3)]) (use assms(3) in \<open>simp_all add: liveCluster_def\<close>)
  have uid: "om_UID (kc_Meta ?kc1) = om_UID (kc_Meta kc)" using preparedCluster_ids(1) [OF assms(1)] by simp
  have wait: "\<exists>s'. cluster_Reconcile lib cli req s2 = ((\<lparr>res_RequeueAfter = 1000000000\<rparr>, None), s') \<and> view (fst s') = view (fst s2)"
    if "serviceGiven ?svc svc'" "view (fst s2) = (?kc1, Some svc')" "serviceHost svc' = None" for svc' s2
    using waiting_round [OF assms(1,2) live _ that(3) refl that(2)] given [OF that(1)] uid that(2) by simp
  have accept: "\<exists>settled. settlesProvisioned lib cli req view s2 svc' settled \<and>
      kcs_ControlPlaneEndpoint (kc_Spec settled) = \<lparr>ep_Host = host, ep_Port = desiredPortOf kc\<rparr>"
    if h: "serviceGiven ?svc svc'" "view (fst s2) = (?kc1, Some svc')" "serviceHost svc' = Some host" "host \<noteq> []"
      "APIEndpoint_IsZero (kcs_ControlPlaneEndpoint (kc_Spec kc)) \<or> ep_Host (kcs_ControlPlaneEndpoint (kc_Spec kc)) = host" for svc' s2 host
  proof -
    have acc: "acceptedService lib svc' host ?kc1"
      using h(3,4,5) given [OF h(1)] uid
      by (cases "kcs_ControlPlaneEndpoint (kc_Spec kc)") (auto simp: acceptedService_def desiredPortOf_def APIEndpoint_IsZero_def)
    then show ?thesis
      using cluster_settles [OF assms(1,2) live acc h(2)] accepted_step(3) [OF assms(1) acc] given [OF h(1)] by auto
  qed
  show ?thesis using run live wait accept by (intro exI [of _ ?svc] exI [of _ ?kc1] exI [of _ s1]) (auto simp: liveCluster_def)
qed

text \<open>An API server of two objects.\<close>

definition clusterStoreClient :: "cluster_stored kube_client" where
  "clusterStoreClient = emptyClient\<lparr>
     cli_GetKubernetesCluster := (\<lambda>_ w. (Inr (fst w), w)),
     cli_PatchCluster := (\<lambda>a b w. (None, (b, snd w))),
     cli_GetOwnerCluster := (\<lambda>_ w. (Inr (Some sampleCluster), w)),
     cli_GetService := (\<lambda>k w. (case snd w of None \<Rightarrow> Inl (StatusNotFound (nn_Name k)) | Some x \<Rightarrow> Inr x, w)),
     cli_CreateService := (\<lambda>x w. (None, (fst w, Some x)))\<rparr>"

definition giveAddress :: "Service \<Rightarrow> Service" where
  "giveAddress svc = svc\<lparr>svc_ClusterIP := ''10.0.0.1'', svc_Ingress := [\<lparr>in_Hostname = [], in_IP = ''10.0.0.1''\<rparr>]\<rparr>"

lemma sample_cluster_server: "clusterServer clusterStoreClient clusterKey (\<lambda>w. w) sampleCluster"
  by (auto simp: clusterServer_def serves_def serviceAnswer_def clusterStoreClient_def emptyClient_def split: option.splits)

lemma sample_cluster_live: "liveCluster refLib clusterKey sampleCluster newKC"
proof -
  have "\<exists>m'. refSetController kind owner m = Inr m'" if "find isController (om_OwnerReferences m) = None" for kind owner m
    using that by (simp add: refSetController_def)
  moreover have "find isController (om_OwnerReferences emptyObjectMeta) = None" by (simp add: emptyObjectMeta_def)
  moreover have "keyOf (kc_Meta newKC) = clusterKey" by (simp add: keyOf_def clusterKey_def newKC_def sampleMeta_def)
  moreover have "om_Namespace (cl_Meta sampleCluster) = nn_Namespace clusterKey" by (simp add: clusterKey_def sampleCluster_def sampleMeta_def)
  ultimately show ?thesis by (simp add: liveCluster_def timeIsZero_def) (simp add: sampleCluster_def)
qed

theorem cluster_bring_up_witness:
  "\<exists>svc kc1 s1 settled.
     cluster_Reconcile refLib clusterStoreClient clusterKey ((newKC, None), []) = ((noRequeue, None), s1) \<and>
     fst s1 = (kc1, Some svc) \<and>
     settlesProvisioned refLib clusterStoreClient clusterKey (\<lambda>w. w) ((kc1, Some (giveAddress svc)), [])
       (giveAddress svc) settled \<and>
     kcs_ControlPlaneEndpoint (kc_Spec settled) = \<lparr>ep_Host = ''10.0.0.1'', ep_Port = 443\<rparr>"
proof -
  obtain svc kc1 s1 where run: "cluster_Reconcile refLib clusterStoreClient clusterKey ((newKC, None), []) = ((noRequeue, None), s1)"
      "fst s1 = (kc1, Some svc)"
    and goes_on: "\<And>svc' s2 host. serviceGiven svc svc' \<Longrightarrow> fst s2 = (kc1, Some svc') \<Longrightarrow> serviceHost svc' = Some host \<Longrightarrow> host \<noteq> [] \<Longrightarrow>
       \<exists>settled. settlesProvisioned refLib clusterStoreClient clusterKey (\<lambda>w. w) s2 svc' settled \<and>
         kcs_ControlPlaneEndpoint (kc_Spec settled) = \<lparr>ep_Host = host, ep_Port = desiredPortOf newKC\<rparr>"
    using cluster_bring_up [OF ref.kube_contract_axioms sample_cluster_server sample_cluster_live, of "((newKC, None), [])"]
    by (auto simp: APIEndpoint_IsZero_def)
  let ?svc = "giveAddress svc"
  have "serviceGiven svc ?svc" "serviceHost ?svc = Some ''10.0.0.1''" by (simp_all add: serviceGiven_def serviceHost_def giveAddress_def)
  moreover have "desiredPortOf newKC = 443" by (simp add: desiredPortOf_def)
  ultimately show ?thesis using run goes_on [of ?svc "((kc1, Some ?svc), [])" "''10.0.0.1''"] by auto
qed

end
