(* ===== verification/Fleet.thy ===== *)
theory Fleet
  imports Scopes Call_Steps Machine_Converge Cluster_Converge
begin

text \<open>
  Many machines and clusters on one API server. A locale of loops that leave each other's objects alone
  (\<open>loop_family\<close>) carries what is known of one loop over to any interleaving of all of them; it is
  interpreted on both controllers, whose reconciles stay in the scope of the object they were asked for.
\<close>

subsection \<open>Loops in any order\<close>

primrec interleave :: "('i \<Rightarrow> 's \<Rightarrow> 'r \<times> 's) \<Rightarrow> 'i list \<Rightarrow> 's \<Rightarrow> 'r list \<times> 's" where
  "interleave reconcile [] s = ([], s)"
| "interleave reconcile (i # is) s =
     (case reconcile i s of (r, s1) \<Rightarrow> case interleave reconcile is s1 of (rs, s2) \<Rightarrow> (r # rs, s2))"

locale loop_family =
  fixes reconcile :: "'i \<Rightarrow> 's \<Rightarrow> 'r \<times> 's" and view :: "'i \<Rightarrow> 's \<Rightarrow> 'v" and follow :: "'i \<Rightarrow> 'v \<Rightarrow> 'v" and ok :: "'i \<Rightarrow> 'v \<Rightarrow> bool"
    and quiet :: 'r and bound :: "'i \<Rightarrow> nat"
  assumes member: "control_loop (reconcile i) (view i) (follow i) (ok i) quiet (bound i)"
    and apart: "ok i (view i s) \<Longrightarrow> reconcile i s = (r, s') \<Longrightarrow> k \<noteq> i \<Longrightarrow> view k s' = view k s"

sublocale loop_family \<subseteq> loop: control_loop "reconcile i" "view i" "follow i" "ok i" quiet "bound i" for i
  by (rule member)

context loop_family
begin

lemma one_request:
  assumes "\<And>k. ok k (view k s)"
  obtains s' where "reconcile i s = (quiet, s')" "\<And>k. view k s' = (if k = i then follow k (view k s) else view k s)"
    "\<And>k. ok k (view k s')"
proof -
  obtain s' where s': "reconcile i s = (quiet, s')" "view i s' = follow i (view i s)" using loop.round [OF assms] by blast
  have "view k s' = (if k = i then follow k (view k s) else view k s)" for k
    using s' apart [OF assms s'(1)] by simp
  moreover from this have "ok k (view k s')" for k using assms loop.follow_ok by simp
  ultimately show thesis using that s'(1) by blast
qed

lemma requests:
  assumes "\<And>k. ok k (view k s)"
  shows "\<exists>s'. interleave reconcile is s = (replicate (length is) quiet, s') \<and>
    (\<forall>k. view k s' = (follow k ^^ count_list is k) (view k s))"
  using assms
proof (induction "is" arbitrary: s)
  case (Cons i "is")
  obtain s1 where s1: "reconcile i s = (quiet, s1)" "\<And>k. view k s1 = (if k = i then follow k (view k s) else view k s)"
      "\<And>k. ok k (view k s1)"
    by (rule one_request [OF Cons.prems, where i = i]) (rule that)
  obtain s' where "interleave reconcile is s1 = (replicate (length is) quiet, s')"
      "\<And>k. view k s' = (follow k ^^ count_list is k) (view k s1)"
    using Cons.IH [OF s1(3)] by blast
  then show ?case using s1(1,2) by (auto simp: funpow_swap1)
qed simp

lemma requests_settle:
  assumes "\<And>k. ok k (view k s)"
  shows "\<exists>s'. interleave reconcile is s = (replicate (length is) quiet, s') \<and>
    (\<forall>k. bound k \<le> count_list is k \<longrightarrow> view k s' = (follow k ^^ bound k) (view k s))"
proof -
  have "(follow k ^^ count_list is k) (view k s) = (follow k ^^ bound k) (view k s)" if "bound k \<le> count_list is k" for k
    using loop.follow_settles [of k "view k s" "count_list is k - bound k", OF assms] that by simp
  then show ?thesis using requests [OF assms] by metis
qed

end

subsection \<open>What the API server keeps apart\<close>

text \<open>The calls that may change a machine or its Pod, and those that may change a cluster or its Service.\<close>

record cluster_environment =
  ce_key :: NamespacedName
  ce_cluster :: Cluster
  ce_service :: Service
  ce_host :: string

fun touchesMachine :: "environment \<Rightarrow> event \<Rightarrow> bool" where
  "touchesMachine en (EvPatchMachine a b _) \<longleftrightarrow> keyOf (km_Meta a) = en_key en"
| "touchesMachine en (EvCreatePod pod _) \<longleftrightarrow> keyOf (pod_Meta pod) = podKeyOf en"
| "touchesMachine en (EvDeletePod pod _) \<longleftrightarrow> keyOf (pod_Meta pod) = podKeyOf en"
| "touchesMachine en _ \<longleftrightarrow> False"

fun touchesCluster :: "cluster_environment \<Rightarrow> event \<Rightarrow> bool" where
  "touchesCluster ce (EvPatchCluster a b _) \<longleftrightarrow> keyOf (kc_Meta a) = ce_key ce"
| "touchesCluster ce (EvCreateService svc _) \<longleftrightarrow> keyOf (svc_Meta svc) = serviceKeyOf (ce_key ce) (ce_cluster ce)"
| "touchesCluster ce _ \<longleftrightarrow> False"

definition isolates :: "'w kube_client \<Rightarrow> ('w \<Rightarrow> 'v) \<Rightarrow> (event \<Rightarrow> bool) \<Rightarrow> bool" where
  "isolates cli view touches \<longleftrightarrow> (\<forall>e w w'. answered cli e w w' \<and> \<not> touches e \<longrightarrow> view w' = view w)"

text \<open>The server of a fleet: it serves every machine and every cluster, its answers bear the names asked for, a call
  changes only the object it is about, and the objects have keys of their own.\<close>

definition fleetServer ::
  "'w kube_client \<Rightarrow> ('i \<Rightarrow> 'w \<Rightarrow> stored) \<Rightarrow> ('i \<Rightarrow> environment) \<Rightarrow> ('j \<Rightarrow> 'w \<Rightarrow> cluster_stored) \<Rightarrow> ('j \<Rightarrow> cluster_environment) \<Rightarrow> bool"
  where
  "fleetServer cli mview me cview ce \<longleftrightarrow>
     (\<forall>i. apiServer cli (en_key (me i)) (mview i) (me i)) \<and>
     (\<forall>j. clusterServer cli (ce_key (ce j)) (cview j) (ce_cluster (ce j))) \<and>
     (\<forall>e w w'. answered cli e w w' \<longrightarrow> named e) \<and>
     (\<forall>i. isolates cli (mview i) (touchesMachine (me i))) \<and>
     (\<forall>j. isolates cli (cview j) (touchesCluster (ce j))) \<and>
     inj (\<lambda>i. en_key (me i)) \<and> inj (\<lambda>j. ce_key (ce j)) \<and>
     inj (\<lambda>j. serviceKeyOf (ce_key (ce j)) (ce_cluster (ce j)))"

lemma fleetServerD:
  assumes "fleetServer cli mview me cview ce"
  shows "apiServer cli (en_key (me i)) (mview i) (me i)"
    and "clusterServer cli (ce_key (ce j)) (cview j) (ce_cluster (ce j))"
    and "answered cli e w w' \<Longrightarrow> named e"
    and "isolates cli (mview i) (touchesMachine (me i))" and "isolates cli (cview j) (touchesCluster (ce j))"
    and "en_key (me i) = en_key (me i') \<Longrightarrow> i = i'" and "ce_key (ce j) = ce_key (ce j') \<Longrightarrow> j = j'"
    and "serviceKeyOf (ce_key (ce j)) (ce_cluster (ce j)) = serviceKeyOf (ce_key (ce j')) (ce_cluster (ce j')) \<Longrightarrow> j = j'"
  using assms unfolding fleetServer_def by (blast | (auto dest: injD)[1])+

text \<open>The events of a log that were answered.\<close>

lemma steps_answered:
  assumes "steps cli s s'" and "snd s' = snd s @ evs"
  shows "\<forall>e \<in> set evs. \<exists>w w'. answered cli e w w'"
proof -
  have "\<exists>n. snd s' = snd s @ n \<and> (\<forall>e \<in> set n. \<exists>w w'. answered cli e w w')"
  proof (rule steps_invariant [OF assms(1),
        where J = "\<lambda>t. \<exists>n. snd t = snd s @ n \<and> (\<forall>e \<in> set n. \<exists>w w'. answered cli e w w')"])
    fix a b e rest
    assume "\<exists>n. snd a = snd s @ n \<and> (\<forall>e \<in> set n. \<exists>w w'. answered cli e w w')"
      and "answered cli e (fst a) (fst b)" and "snd b = snd a @ [e]"
    then show "\<exists>n. snd b = snd s @ n \<and> (\<forall>e \<in> set n. \<exists>w w'. answered cli e w w')" by auto blast
  qed simp
  then show ?thesis using assms(2) by simp
qed

lemma steps_isolated:
  assumes "steps cli s s'" and "isolates cli view touches" and "snd s' = snd s @ evs" and "list_all (\<lambda>e. \<not> touches e) evs"
  shows "view (fst s') = view (fst s)"
proof -
  have "view (fst s') = view (fst s) \<and> (\<exists>n. snd s' = snd s @ n)"
  proof (rule steps_invariant [OF assms(1), where J = "\<lambda>t. view (fst t) = view (fst s) \<and> (\<exists>n. snd t = snd s @ n)"])
    show "view (fst s) = view (fst s) \<and> (\<exists>n. snd s = snd s @ n)" by simp
  next
    fix a b e rest
    assume J: "view (fst a) = view (fst s) \<and> (\<exists>n. snd a = snd s @ n)" and step: "answered cli e (fst a) (fst b)" "snd b = snd a @ [e]"
      and rest: "snd s' = snd a @ e # rest"
    then have "e \<in> set evs" using assms(3) by auto
    then have "\<not> touches e" using assms(4) by (simp add: list_all_iff)
    then show "view (fst b) = view (fst s) \<and> (\<exists>n. snd b = snd s @ n)"
      using J step assms(2) by (auto simp: isolates_def)
  qed
  then show ?thesis by simp
qed

lemma fleet_named:
  assumes "fleetServer cli mview me cview ce" and "steps cli s s'" and "snd s' = snd s @ evs"
  shows "list_all named evs"
  using steps_answered [OF assms(2,3)] fleetServerD(3) [OF assms(1)] by (fastforce simp: list_all_iff)

lemma served_answer: "serves view call P \<Longrightarrow> P (view w) (fst (call w))"
  by (simp add: serves_def)

text \<open>A machine's Pod has the key of the machine, for the owner is found in its namespace.\<close>

lemma fleet_podKey:
  assumes "fleetServer cli mview me cview ce"
  shows "podKeyOf (me i) = en_key (me i)"
proof -
  let ?m = "emptyObjectMeta\<lparr>om_Namespace := nn_Namespace (en_key (me i)), om_Name := nn_Name (en_key (me i))\<rparr>"
  fix w
  have "keyOf ?m = en_key (me i)" by (simp add: keyOf_def)
  from served_answer [OF apiServerD(4) [OF fleetServerD(1) [OF assms] this], of w]
  have "answered cli (EvGetOwnerMachine ?m (Inr (Some (en_machine (me i))))) w (snd (cli_GetOwnerMachine cli ?m w))"
    by (simp add: prod_eq_iff)
  then have "om_Namespace (mc_Meta (en_machine (me i))) = nn_Namespace (en_key (me i))"
    using fleetServerD(3) [OF assms] by fastforce
  then show ?thesis by (simp add: podKeyOf_def)
qed

subsection \<open>Reconciles leave the others alone\<close>

lemma machineScope_apart:
  assumes "fleetServer cli mview me cview ce" and "machineScope (en_key (me i)) e"
  shows "k \<noteq> i \<Longrightarrow> \<not> touchesMachine (me k) e" and "\<not> touchesCluster c e"
  using assms(2) fleet_podKey [OF assms(1), of k] fleetServerD(6) [OF assms(1), of k i] by (cases e; auto)+

lemma machine_reconcile_apart:
  assumes "kube_contract lib" and "fleetServer cli mview me cview ce"
    and "machine_Reconcile lib cloud cli (en_key (me i)) s = (out, s')"
  shows "k \<noteq> i \<Longrightarrow> mview k (fst s') = mview k (fst s)" and "cview j (fst s') = cview j (fst s)"
proof -
  note steps = machine_Reconcile_steps [OF assms(3)]
  obtain evs where log: "snd s' = snd s @ evs" and run: "reconcileRun lib cloud (en_key (me i)) evs out"
    using machine_Reconcile_run [OF assms(1,3)] by blast
  have scope: "list_all (machineScope (en_key (me i))) evs"
    by (rule reconcileRun_scope [OF assms(1) run fleet_named [OF assms(2) steps log]])
  show "mview k (fst s') = mview k (fst s)" if "k \<noteq> i"
    by (rule steps_isolated [OF steps fleetServerD(4) [OF assms(2)] log])
      (use scope machineScope_apart(1) [OF assms(2) _ that] in \<open>auto simp: list_all_iff\<close>)
  show "cview j (fst s') = cview j (fst s)"
    by (rule steps_isolated [OF steps fleetServerD(5) [OF assms(2)] log])
      (use scope machineScope_apart(2) [OF assms(2)] in \<open>auto simp: list_all_iff\<close>)
qed

lemma clusterScope_apart:
  assumes "fleetServer cli mview me cview ce"
    and "clusterScope (ce_key (ce j)) (\<lambda>n. n = clusterServiceName (ce_cluster (ce j))) e"
  shows "\<not> touchesMachine m e" and "k \<noteq> j \<Longrightarrow> \<not> touchesCluster (ce k) e"
  using assms(2) fleetServerD(7,8) [OF assms(1), of k j] by (cases e; auto simp: keyOf_def serviceKeyOf_def)+

lemma cluster_reconcile_apart:
  assumes "kube_contract lib" and "fleetServer cli mview me cview ce"
    and "cluster_Reconcile lib cli (ce_key (ce j)) s = (ret, s')"
  shows "mview i (fst s') = mview i (fst s)" and "k \<noteq> j \<Longrightarrow> cview k (fst s') = cview k (fst s)"
proof -
  note steps = cluster_Reconcile_steps [OF assms(3)]
  obtain evs where log: "snd s' = snd s @ evs" and run: "clusterRun lib (ce_key (ce j)) evs ret"
    using cluster_Reconcile_run [OF assms(3)] by blast
  note named = fleet_named [OF assms(2) steps log]
  have owner: "clusterServiceName cluster = clusterServiceName (ce_cluster (ce j))"
    if ev: "EvGetOwnerCluster m (Inr (Some cluster)) \<in> set evs" for m cluster
  proof -
    obtain w w' where "cli_GetOwnerCluster cli m w = (Inr (Some cluster), w')"
      using steps_answered [OF steps log] ev by fastforce
    moreover have "keyOf m = ce_key (ce j)" by (rule clusterRun_owner [OF run named ev])
    ultimately show ?thesis
      using clusterServerD(4) [OF fleetServerD(2) [OF assms(2)], of m j "cview j w"] by (auto simp: answers_def)
  qed
  have scope: "list_all (clusterScope (ce_key (ce j)) (\<lambda>n. n = clusterServiceName (ce_cluster (ce j)))) evs"
    by (rule clusterRun_scope [OF assms(1) run named]) (rule owner)
  show "mview i (fst s') = mview i (fst s)"
    by (rule steps_isolated [OF steps fleetServerD(4) [OF assms(2)] log])
      (use scope clusterScope_apart(1) [OF assms(2)] in \<open>auto simp: list_all_iff\<close>)
  show "cview k (fst s') = cview k (fst s)" if "k \<noteq> j"
    by (rule steps_isolated [OF steps fleetServerD(5) [OF assms(2)] log])
      (use scope clusterScope_apart(2) [OF assms(2) _ that] in \<open>auto simp: list_all_iff\<close>)
qed

subsection \<open>The family of all loops\<close>

text \<open>A request names a machine or a cluster.\<close>

definition fleetReconcile ::
  "kube_lib \<Rightarrow> cloud_lib \<Rightarrow> 'w kube_client \<Rightarrow> ('i \<Rightarrow> environment) \<Rightarrow> ('j \<Rightarrow> cluster_environment) \<Rightarrow> 'i + 'j \<Rightarrow> 'w st \<Rightarrow>
   ReconcileReturn outcome \<times> 'w st" where
  "fleetReconcile lib cloud cli me ce x =
     (case x of Inl i \<Rightarrow> machine_Reconcile lib cloud cli (en_key (me i))
      | Inr j \<Rightarrow> apfst Returned \<circ> cluster_Reconcile lib cli (ce_key (ce j)))"

definition fleetView ::
  "('i \<Rightarrow> 'w \<Rightarrow> stored) \<Rightarrow> ('j \<Rightarrow> 'w \<Rightarrow> cluster_stored) \<Rightarrow> 'i + 'j \<Rightarrow> 'w st \<Rightarrow> stored + cluster_stored" where
  "fleetView mview cview x s = (case x of Inl i \<Rightarrow> Inl (mview i (fst s)) | Inr j \<Rightarrow> Inr (cview j (fst s)))"

definition fleetFollow ::
  "kube_lib \<Rightarrow> ('i \<Rightarrow> environment) \<Rightarrow> ('j \<Rightarrow> cluster_environment) \<Rightarrow> 'i + 'j \<Rightarrow> stored + cluster_stored \<Rightarrow> stored + cluster_stored" where
  "fleetFollow lib me ce x =
     (case x of Inl i \<Rightarrow> map_sum (apfst (nextMachine lib (me i))) id
      | Inr j \<Rightarrow> map_sum id (apfst (nextCluster lib (ce_service (ce j)) (ce_host (ce j)))))"

definition fleetOk ::
  "kube_lib \<Rightarrow> cloud_lib \<Rightarrow> 'w kube_client \<Rightarrow> ('i \<Rightarrow> 'w \<Rightarrow> stored) \<Rightarrow> ('i \<Rightarrow> environment) \<Rightarrow> ('j \<Rightarrow> 'w \<Rightarrow> cluster_stored) \<Rightarrow>
   ('j \<Rightarrow> cluster_environment) \<Rightarrow> 'i + 'j \<Rightarrow> stored + cluster_stored \<Rightarrow> bool" where
  "fleetOk lib cloud cli mview me cview ce x v \<longleftrightarrow> kube_contract lib \<and> fleetServer cli mview me cview ce \<and>
     (case x of Inl i \<Rightarrow> \<exists>m. v = Inl m \<and> loopReady lib cloud cli (en_key (me i)) (mview i) (me i) m
      | Inr j \<Rightarrow> \<exists>c. v = Inr c \<and>
          clusterLoopReady lib cli (ce_key (ce j)) (cview j) (ce_cluster (ce j)) (ce_service (ce j)) (ce_host (ce j)) c)"

definition fleetBound :: "'i + 'j \<Rightarrow> nat" where
  "fleetBound x = (case x of Inl _ \<Rightarrow> 2 | Inr _ \<Rightarrow> 1)"

lemmas fleet_simps = fleetReconcile_def fleetView_def fleetFollow_def fleetOk_def fleetBound_def

lemma map_sum_funpow: "(map_sum f id ^^ n) (Inl v) = Inl ((f ^^ n) v)" "(map_sum id g ^^ n) (Inr c) = Inr ((g ^^ n) c)"
  for f :: "'a \<Rightarrow> 'a" and g :: "'b \<Rightarrow> 'b"
  by (induction n) simp_all

interpretation fleet: loop_family "fleetReconcile lib cloud cli me ce" "fleetView mview cview" "fleetFollow lib me ce"
  "fleetOk lib cloud cli mview me cview ce" "Returned (noRequeue, None)" fleetBound
  for lib cloud cli mview me cview ce
proof (rule loop_family.intro)
  fix x
  show "control_loop (fleetReconcile lib cloud cli me ce x) (fleetView mview cview x) (fleetFollow lib me ce x)
      (fleetOk lib cloud cli mview me cview ce x) (Returned (noRequeue, None)) (fleetBound x)"
  proof
    fix s
    assume "fleetOk lib cloud cli mview me cview ce x (fleetView mview cview x s)"
    then show "\<exists>s'. fleetReconcile lib cloud cli me ce x s = (Returned (noRequeue, None), s') \<and>
        fleetView mview cview x s' = fleetFollow lib me ce x (fleetView mview cview x s)"
      by (cases x) (fastforce simp: fleet_simps dest: machine_loop.round cluster_loop.round)+
  next
    fix v
    assume ok: "fleetOk lib cloud cli mview me cview ce x v"
    then show "fleetOk lib cloud cli mview me cview ce x (fleetFollow lib me ce x v)"
      by (cases x) (auto simp: fleet_simps dest: machine_loop.follow_ok cluster_loop.follow_ok)
    show "fleetFollow lib me ce x ((fleetFollow lib me ce x ^^ fleetBound x) v) = (fleetFollow lib me ce x ^^ fleetBound x) v"
      using ok by (cases x) (auto simp: fleet_simps map_sum_funpow dest: machine_loop.follow_stable cluster_loop.follow_stable)
  qed
next
  fix x k s r s'
  assume ok: "fleetOk lib cloud cli mview me cview ce x (fleetView mview cview x s)"
    and run: "fleetReconcile lib cloud cli me ce x s = (r, s')" and "k \<noteq> x"
  then have c: "kube_contract lib" "fleetServer cli mview me cview ce" by (simp_all add: fleetOk_def)
  show "fleetView mview cview k s' = fleetView mview cview k s"
  proof (cases x)
    case (Inl i)
    then have "machine_Reconcile lib cloud cli (en_key (me i)) s = (r, s')" using run by (simp add: fleet_simps)
    from machine_reconcile_apart [OF c this] show ?thesis
      using \<open>k \<noteq> x\<close> Inl by (cases k) (auto simp: fleet_simps)
  next
    case (Inr j)
    then obtain ret where "cluster_Reconcile lib cli (ce_key (ce j)) s = (ret, s')"
      using run by (cases "cluster_Reconcile lib cli (ce_key (ce j)) s") (auto simp: fleet_simps)
    from cluster_reconcile_apart [OF c this] show ?thesis
      using \<open>k \<noteq> x\<close> Inr by (cases k) (auto simp: fleet_simps)
  qed
qed

text \<open>
  C6. The controllers of a fleet settle together. On an API server that holds many machines and many clusters,
  let requests for any of them be reconciled in any order, one after the other. If the machines are
  live with running Pods and the clusters live with Services that have an address, every reconcile
  returns without an error and asks for no retry; a machine that was requested at least twice is
  ready and \<open>Running\<close>, a cluster that was requested at least once is ready and \<open>Provisioned\<close> with the
  endpoint of its Service; and what was not requested is as it was.
\<close>

theorem fleet_settles:
  fixes mview :: "'i \<Rightarrow> 'w \<Rightarrow> stored" and cview :: "'j \<Rightarrow> 'w \<Rightarrow> cluster_stored" and requests :: "('i + 'j) list"
  assumes "kube_contract lib" and "fleetServer cli mview me cview ce"
    and "\<And>i. healthyObjects lib cloud (fst (mview i (fst s))) (me i) \<and> snd (mview i (fst s)) = Some (en_pod (me i))"
    and "\<And>j. liveCluster lib (ce_key (ce j)) (ce_cluster (ce j)) (fst (cview j (fst s))) \<and>
      acceptedService lib (ce_service (ce j)) (ce_host (ce j)) (fst (cview j (fst s))) \<and>
      snd (cview j (fst s)) = Some (ce_service (ce j))"
  shows "\<exists>s'. interleave (fleetReconcile lib cloud cli me ce) requests s =
      (replicate (length requests) (Returned (noRequeue, None)), s') \<and>
    (\<forall>i. 2 \<le> count_list requests (Inl i) \<longrightarrow> (\<exists>km. mview i (fst s') = (km, Some (en_pod (me i))) \<and>
       kmst_Ready (km_Status km) \<and> kmst_Phase (km_Status km) = KubernetesMachinePhaseRunning \<and> \<not> machineFailed km)) \<and>
    (\<forall>j. 1 \<le> count_list requests (Inr j) \<longrightarrow> (\<exists>kc. cview j (fst s') = (kc, Some (ce_service (ce j))) \<and>
       kcst_Ready (kc_Status kc) \<and> kcst_Phase (kc_Status kc) = KubernetesClusterPhaseProvisioned \<and> \<not> clusterFailed kc \<and>
       kcs_ControlPlaneEndpoint (kc_Spec kc) = \<lparr>ep_Host = ce_host (ce j), ep_Port = servicePortOf (ce_service (ce j))\<rparr>)) \<and>
    (\<forall>i. Inl i \<notin> set requests \<longrightarrow> mview i (fst s') = mview i (fst s)) \<and>
    (\<forall>j. Inr j \<notin> set requests \<longrightarrow> cview j (fst s') = cview j (fst s))"
proof -
  let ?view = "fleetView mview cview" and ?follow = "fleetFollow lib me ce"
  have ok: "fleetOk lib cloud cli mview me cview ce x (?view x s)" for x
    using assms fleetServerD(1,2) [OF assms(2)]
    by (cases x) (simp_all add: fleet_simps loopReady_def clusterLoopReady_def)
  obtain s' where run: "interleave (fleetReconcile lib cloud cli me ce) requests s =
      (replicate (length requests) (Returned (noRequeue, None)), s')"
    and all: "\<And>x. ?view x s' = (?follow x ^^ count_list requests x) (?view x s)"
    using fleet.requests [OF ok] by blast
  have settled: "?view x s' = (?follow x ^^ fleetBound x) (?view x s)" if "fleetBound x \<le> count_list requests x" for x
    using fleet.requests_settle [OF ok, of requests] run that by simp
  have machine: "mview i (fst s') = (settledMachine lib (me i) (fst (mview i (fst s))), Some (en_pod (me i)))"
    if "2 \<le> count_list requests (Inl i)" for i
    using settled [of "Inl i"] that assms(3) [of i]
    by (cases "mview i (fst s)") (simp add: fleet_simps map_sum_funpow apfst_funpow settledMachine_def numeral_2_eq_2)
  have cluster: "cview j (fst s') =
      (nextCluster lib (ce_service (ce j)) (ce_host (ce j)) (fst (cview j (fst s))), Some (ce_service (ce j)))"
    if "1 \<le> count_list requests (Inr j)" for j
    using settled [of "Inr j"] that assms(4) [of j] by (cases "cview j (fst s)") (simp add: fleet_simps)
  have idle: "?view x s' = ?view x s" if "x \<notin> set requests" for x
    using all [of x] that by (simp add: count_list_0_iff)
  have "kmst_Ready (km_Status (settledMachine lib (me i) (fst (mview i (fst s)))))"
    "kmst_Phase (km_Status (settledMachine lib (me i) (fst (mview i (fst s))))) = KubernetesMachinePhaseRunning"
    "\<not> machineFailed (settledMachine lib (me i) (fst (mview i (fst s))))" for i
    using settledMachine_fields(1-3) [OF assms(1) healthyObjectsD(1) [OF conjunct1 [OF assms(3) [of i]]]] by simp_all
  note m = this
  have c: "kcst_Ready (kc_Status kc) \<and> kcst_Phase (kc_Status kc) = KubernetesClusterPhaseProvisioned \<and> \<not> clusterFailed kc \<and>
      kcs_ControlPlaneEndpoint (kc_Spec kc) = \<lparr>ep_Host = ce_host (ce j), ep_Port = servicePortOf (ce_service (ce j))\<rparr>"
    if kc: "kc = nextCluster lib (ce_service (ce j)) (ce_host (ce j)) (fst (cview j (fst s)))" for j kc
  proof -
    have live: "liveCluster lib (ce_key (ce j)) (ce_cluster (ce j)) (fst (cview j (fst s)))"
      and acc: "acceptedService lib (ce_service (ce j)) (ce_host (ce j)) (fst (cview j (fst s)))" using assms(4) by blast+
    have "\<not> clusterFailed kc" using accepted_step(6) [OF assms(1) acc] live kc by (simp add: liveCluster_def)
    then show ?thesis
      using nextCluster_live(3) [OF assms(1) acc live] accepted_step(3,5) [OF assms(1) acc] kc by blast
  qed
  show ?thesis
    using run machine m cluster c idle [of "Inl _"] idle [of "Inr _"] by (intro exI [of _ s']) (auto simp: fleetView_def)
qed

subsection \<open>Reconciles that overlap\<close>

text \<open>Something happens after every call: the client with the disturbance, over the same world.\<close>

definition disturb :: "('w \<Rightarrow> 'w) \<Rightarrow> ('w \<Rightarrow> 'r \<times> 'w) \<Rightarrow> 'w \<Rightarrow> 'r \<times> 'w" where
  "disturb act call w = apsnd act (call w)"

definition disturbed :: "('w \<Rightarrow> 'w) \<Rightarrow> 'w kube_client \<Rightarrow> 'w kube_client" where
  "disturbed act cli = \<lparr>
     cli_GetKubernetesMachine = (\<lambda>k. disturb act (cli_GetKubernetesMachine cli k)),
     cli_GetKubernetesCluster = (\<lambda>k. disturb act (cli_GetKubernetesCluster cli k)),
     cli_NewPatchHelper = disturb act (cli_NewPatchHelper cli),
     cli_PatchMachine = (\<lambda>a b. disturb act (cli_PatchMachine cli a b)),
     cli_PatchCluster = (\<lambda>a b. disturb act (cli_PatchCluster cli a b)),
     cli_GetOwnerMachine = (\<lambda>m. disturb act (cli_GetOwnerMachine cli m)),
     cli_GetClusterFromMetadata = (\<lambda>m. disturb act (cli_GetClusterFromMetadata cli m)),
     cli_GetOwnerCluster = (\<lambda>m. disturb act (cli_GetOwnerCluster cli m)),
     cli_GetPod = (\<lambda>k. disturb act (cli_GetPod cli k)),
     cli_CreatePod = (\<lambda>p. disturb act (cli_CreatePod cli p)),
     cli_DeletePod = (\<lambda>p. disturb act (cli_DeletePod cli p)),
     cli_ListPods = (\<lambda>ns sel. disturb act (cli_ListPods cli ns sel)),
     cli_GetSecret = (\<lambda>k. disturb act (cli_GetSecret cli k)),
     cli_CreateSecret = (\<lambda>x. disturb act (cli_CreateSecret cli x)),
     cli_GetClaim = (\<lambda>k. disturb act (cli_GetClaim cli k)),
     cli_CreateClaim = (\<lambda>ns c. disturb act (cli_CreateClaim cli ns c)),
     cli_GetService = (\<lambda>k. disturb act (cli_GetService cli k)),
     cli_CreateService = (\<lambda>x. disturb act (cli_CreateService cli x)),
     cli_ListMachines = (\<lambda>ns sel. disturb act (cli_ListMachines cli ns sel)),
     cli_Exec = (\<lambda>x. disturb act (cli_Exec cli x))\<rparr>"

lemma disturb_serves:
  assumes "\<And>w. view (act w) = view w" and "serves view call P"
  shows "serves view (disturb act call) P"
  using assms by (simp add: serves_def disturb_def)

text \<open>A disturbance that keeps a machine and its Pod does not matter to its loop.\<close>

lemma disturbed_server:
  assumes "\<And>w. view (act w) = view w" and "apiServer cli req view en"
  shows "apiServer (disturbed act cli) req view en"
  unfolding apiServer_def disturbed_def kube_client.simps
  by (intro conjI allI impI; (rule disturb_serves [of view act, OF assms(1)], rule apiServerD [OF assms(2)]; assumption?)?)
    (use apiServerD(3,8) [OF assms(2)] assms(1) in \<open>auto simp: disturb_def\<close>)

text \<open>Whole reconciles of the other machines and clusters may run between any two calls of a reconcile.\<close>

lemma fleet_overlaps:
  assumes "kube_contract lib" and "fleetServer cli mview me cview ce" and "x \<noteq> Inl i"
  shows "apiServer (disturbed (\<lambda>w. fst (snd (fleetReconcile lib cloud cli me ce x (w, [])))) cli) (en_key (me i)) (mview i) (me i)"
proof (rule disturbed_server [OF _ fleetServerD(1) [OF assms(2)]])
  fix w
  obtain r s' where run: "fleetReconcile lib cloud cli me ce x (w, []) = (r, s')" by (metis surj_pair)
  show "mview i (fst (snd (fleetReconcile lib cloud cli me ce x (w, [])))) = mview i w"
  proof (cases x)
    case (Inl k)
    then have m: "machine_Reconcile lib cloud cli (en_key (me k)) (w, []) = (r, s')" and "i \<noteq> k"
      using run assms(3) by (auto simp: fleet_simps)
    then show ?thesis using run machine_reconcile_apart(1) [OF assms(1,2) m] by simp
  next
    case (Inr j)
    then obtain ret where "cluster_Reconcile lib cli (ce_key (ce j)) (w, []) = (ret, s')"
      using run by (cases "cluster_Reconcile lib cli (ce_key (ce j)) (w, [])") (auto simp: fleet_simps)
    from cluster_reconcile_apart(1) [OF assms(1,2) this] show ?thesis using run by simp
  qed
qed

text \<open>So a machine settles although the others are reconciled in the middle of its reconciles.\<close>

lemma overlapped_machine_settles:
  assumes "kube_contract lib" and "fleetServer cli mview me cview ce" and "x \<noteq> Inl i"
    and "healthyObjects lib cloud km (me i)" and "mview i (fst s) = (km, Some (en_pod (me i)))"
  shows "settlesRunning lib cloud (disturbed (\<lambda>w. fst (snd (fleetReconcile lib cloud cli me ce x (w, [])))) cli)
    (en_key (me i)) (mview i) s (en_pod (me i)) (settledMachine lib (me i) km)"
  by (rule settles [OF assms(1) fleet_overlaps [OF assms(1-3)] assms(4,5)])

subsection \<open>An API server of two machines and a cluster\<close>

text \<open>The objects are kept under their keys: whatever is stored there bears the name of its key.\<close>

definition memberKey :: "bool \<Rightarrow> NamespacedName" where
  "memberKey b = \<lparr>nn_Namespace = ''ns'', nn_Name = if b then ''km'' else ''kw''\<rparr>"

definition memberOf :: "NamespacedName \<Rightarrow> bool option" where
  "memberOf k = (if k = memberKey True then Some True else if k = memberKey False then Some False else None)"

definition memberServiceKey :: NamespacedName where
  "memberServiceKey = serviceKeyOf clusterKey sampleCluster"

definition keyed :: "NamespacedName \<Rightarrow> ObjectMeta \<Rightarrow> ObjectMeta" where
  "keyed k m = m\<lparr>om_Namespace := nn_Namespace k, om_Name := nn_Name k\<rparr>"

record fleet_world =
  fw_machine :: "bool \<Rightarrow> stored"
  fw_cluster :: cluster_stored

definition memberView :: "bool \<Rightarrow> fleet_world \<Rightarrow> stored" where
  "memberView b w =
     ((fst (fw_machine w b))\<lparr>km_Meta := keyed (memberKey b) (km_Meta (fst (fw_machine w b)))\<rparr>,
      map_option (\<lambda>p. p\<lparr>pod_Meta := keyed (memberKey b) (pod_Meta p)\<rparr>) (snd (fw_machine w b)))"

definition memberClusterView :: "unit \<Rightarrow> fleet_world \<Rightarrow> cluster_stored" where
  "memberClusterView u w =
     ((fst (fw_cluster w))\<lparr>kc_Meta := keyed clusterKey (kc_Meta (fst (fw_cluster w)))\<rparr>,
      map_option (\<lambda>x. x\<lparr>svc_Meta := keyed memberServiceKey (svc_Meta x)\<rparr>) (snd (fw_cluster w)))"

definition fleetClient :: "fleet_world kube_client" where
  "fleetClient = emptyClient\<lparr>
     cli_GetKubernetesMachine := (\<lambda>k w. (case memberOf k of None \<Rightarrow> Inl (StatusNotFound (nn_Name k)) | Some b \<Rightarrow> Inr (fst (memberView b w)), w)),
     cli_PatchMachine := (\<lambda>a a' w. case memberOf (keyOf (km_Meta a)) of
         Some b \<Rightarrow> if keyOf (km_Meta a') = memberKey b
           then (None, w\<lparr>fw_machine := (fw_machine w)(b := (a', snd (fw_machine w b)))\<rparr>) else (Some (GoError ''immutable name''), w)
       | None \<Rightarrow> (Some (StatusNotFound (om_Name (km_Meta a))), w)),
     cli_GetOwnerMachine := (\<lambda>m w. (Inr (if om_Namespace m = ''ns'' then Some (sampleMachine (om_Name m = ''km'')) else None), w)),
     cli_GetClusterFromMetadata := (\<lambda>m w. (Inr (if om_Namespace m = ''ns'' then Some sampleCluster else None), w)),
     cli_GetKubernetesCluster := (\<lambda>k w. (if k = clusterKey then Inr (fst (memberClusterView () w)) else Inl (StatusNotFound (nn_Name k)), w)),
     cli_PatchCluster := (\<lambda>a a' w. if keyOf (kc_Meta a) = clusterKey \<and> keyOf (kc_Meta a') = clusterKey
       then (None, w\<lparr>fw_cluster := (a', snd (fw_cluster w))\<rparr>) else (Some (GoError ''no such cluster''), w)),
     cli_GetOwnerCluster := (\<lambda>m w. (Inr (if om_Namespace m = ''ns'' then Some sampleCluster else None), w)),
     cli_GetPod := (\<lambda>k w. (case memberOf k of None \<Rightarrow> Inl (StatusNotFound (nn_Name k))
       | Some b \<Rightarrow> (case snd (memberView b w) of None \<Rightarrow> Inl (StatusNotFound (nn_Name k)) | Some p \<Rightarrow> Inr p), w)),
     cli_CreatePod := (\<lambda>p w. case memberOf (keyOf (pod_Meta p)) of
         Some b \<Rightarrow> if snd (fw_machine w b) = None then (None, w\<lparr>fw_machine := (fw_machine w)(b := (fst (fw_machine w b), Some p))\<rparr>)
           else (Some (GoError ''exists''), w)
       | None \<Rightarrow> (Some (GoError ''no quota''), w)),
     cli_DeletePod := (\<lambda>p w. case memberOf (keyOf (pod_Meta p)) of
         Some b \<Rightarrow> (None, w\<lparr>fw_machine := (fw_machine w)(b := (fst (fw_machine w b), None))\<rparr>)
       | None \<Rightarrow> (Some (StatusNotFound (om_Name (pod_Meta p))), w)),
     cli_ListPods := (\<lambda>ns sel w. (Inr (if ns = ''ns'' then [samplePod running] else []), w)),
     cli_GetSecret := (\<lambda>k w. (Inr \<lparr>sec_Meta = keyed k emptyObjectMeta, sec_Data = [''value'' \<mapsto> sampleDoc],
       sec_StringData = Map.empty\<rparr>, w)),
     cli_GetService := (\<lambda>k w. (if k = memberServiceKey
       then (case snd (memberClusterView () w) of None \<Rightarrow> Inl (StatusNotFound (nn_Name k)) | Some x \<Rightarrow> Inr x)
       else Inl (StatusNotFound (nn_Name k)), w)),
     cli_CreateService := (\<lambda>x w. if keyOf (svc_Meta x) = memberServiceKey \<and> snd (fw_cluster w) = None
       then (None, w\<lparr>fw_cluster := (fst (fw_cluster w), Some x)\<rparr>) else (Some (GoError ''exists''), w))\<rparr>"

text \<open>The stored objects: two new machines with running Pods, and a cluster whose Service has an address.\<close>

definition memberUID :: "bool \<Rightarrow> string" where
  "memberUID b = (if b then ''u2'' else ''u5'')"

definition memberMachine :: "bool \<Rightarrow> KubernetesMachine" where
  "memberMachine b = (sampleKM [])\<lparr>km_Meta := sampleMeta (nn_Name (memberKey b)) (memberUID b)\<rparr>"

definition memberPod :: "bool \<Rightarrow> Pod" where
  "memberPod b = (samplePod running)\<lparr>pod_Meta := (sampleMeta (nn_Name (memberKey b)) (''pod'' @ memberUID b))\<lparr>om_OwnerReferences :=
     [ownerOf KubernetesMachineKind (km_Meta (memberMachine b))]\<rparr>\<rparr>"

definition memberEnvironment :: "bool \<Rightarrow> environment" where
  "memberEnvironment b = \<lparr>en_key = memberKey b, en_machine = sampleMachine b, en_cluster = sampleCluster,
     en_pod = memberPod b, en_doc = sampleDoc\<rparr>"

definition memberCluster :: "unit \<Rightarrow> cluster_environment" where
  "memberCluster u = \<lparr>ce_key = clusterKey, ce_cluster = sampleCluster,
     ce_service = sampleService\<lparr>svc_Meta := keyed memberServiceKey (svc_Meta sampleService)\<rparr>, ce_host = ''10.0.0.1''\<rparr>"

lemma keyed_simps [simp]:
  "keyOf (keyed k m) = k" "keyOf m = k \<Longrightarrow> keyed k m = m"
  "om_UID (keyed k m) = om_UID m" "om_OwnerReferences (keyed k m) = om_OwnerReferences m"
  "om_DeletionTimestamp (keyed k m) = om_DeletionTimestamp m" "om_Annotations (keyed k m) = om_Annotations m"
  "om_Namespace (keyed k m) = nn_Namespace k"
  by (auto simp: keyed_def keyOf_def)

lemma memberKey_inj [simp]: "memberKey a = memberKey b \<longleftrightarrow> a = b"
  by (simp add: memberKey_def)

lemma memberOf_simps [simp]: "memberOf (memberKey b) = Some b" "memberOf k = Some b \<longleftrightarrow> k = memberKey b"
  by (auto simp: memberOf_def split: if_splits)

lemma memberView_update [simp]:
  "keyOf (km_Meta a) = memberKey b \<Longrightarrow>
     memberView c (w\<lparr>fw_machine := (fw_machine w)(b := (a, snd (fw_machine w b)))\<rparr>) =
     (if c = b then (a, snd (memberView c w)) else memberView c w)"
  "keyOf (pod_Meta p) = memberKey b \<Longrightarrow>
     memberView c (w\<lparr>fw_machine := (fw_machine w)(b := (fst (fw_machine w b), Some p))\<rparr>) =
     (if c = b then (fst (memberView c w), Some p) else memberView c w)"
  "memberView c (w\<lparr>fw_machine := (fw_machine w)(b := (fst (fw_machine w b), None))\<rparr>) =
     (if c = b then (fst (memberView c w), None) else memberView c w)"
  "memberView c (w\<lparr>fw_cluster := v\<rparr>) = memberView c w"
  "memberClusterView u (w\<lparr>fw_machine := m\<rparr>) = memberClusterView u w"
  "keyOf (kc_Meta kc) = clusterKey \<Longrightarrow>
     memberClusterView u (w\<lparr>fw_cluster := (kc, snd (fw_cluster w))\<rparr>) = (kc, snd (memberClusterView u w))"
  "keyOf (svc_Meta x) = memberServiceKey \<Longrightarrow>
     memberClusterView u (w\<lparr>fw_cluster := (fst (fw_cluster w), Some x)\<rparr>) = (fst (memberClusterView u w), Some x)"
  "snd (memberView b w) = None \<longleftrightarrow> snd (fw_machine w b) = None"
  "snd (memberClusterView u w) = None \<longleftrightarrow> snd (fw_cluster w) = None"
  "keyOf (km_Meta (fst (memberView b w))) = memberKey b" "keyOf (kc_Meta (fst (memberClusterView u w))) = clusterKey"
  "snd (memberView b w) = Some p \<Longrightarrow> keyOf (pod_Meta p) = memberKey b"
  by (auto simp: memberView_def memberClusterView_def)

lemmas fleetClient_simps = fleetClient_def emptyClient_def

lemma fleet_answers_named: "answered fleetClient e w w' \<Longrightarrow> named e"
  by (cases e rule: named.cases)
    (auto simp: fleetClient_simps memberKey_def sampleMachine_def sampleCluster_def sampleMeta_def samplePod_def
      split: option.splits if_splits)

lemma memberEnvironment_simps [simp]:
  "en_key (memberEnvironment b) = memberKey b" "en_pod (memberEnvironment b) = memberPod b" "en_doc (memberEnvironment b) = sampleDoc"
  "podKeyOf (memberEnvironment b) = memberKey b"
  "en_machine (memberEnvironment b) = sampleMachine b" "en_cluster (memberEnvironment b) = sampleCluster"
  "ce_key (memberCluster u) = clusterKey" "ce_cluster (memberCluster u) = sampleCluster"
  "serviceKeyOf clusterKey sampleCluster = memberServiceKey"
  "infraKeyOf (memberEnvironment b) \<lparr>ref_Name = ''kc'', ref_Rest = []\<rparr> = clusterKey"
  "om_Namespace (mc_Meta (sampleMachine b)) = ''ns''" "om_Namespace (cl_Meta sampleCluster) = ''ns''"
  by (auto simp: memberEnvironment_def memberCluster_def memberKey_def podKeyOf_def infraKeyOf_def memberServiceKey_def
      sampleMachine_def sampleCluster_def sampleMeta_def clusterKey_def keyOf_def)

lemma member_names:
  "keyOf m = memberKey b \<Longrightarrow> om_Namespace m = ''ns'' \<and> (om_Name m = ''km'' \<longleftrightarrow> b)"
  "keyOf m = clusterKey \<Longrightarrow> om_Namespace m = ''ns''"
  by (auto simp: memberKey_def clusterKey_def keyOf_def)

lemma fleet_isolates:
  "isolates fleetClient (memberView b) (touchesMachine (memberEnvironment b))"
  "isolates fleetClient (memberClusterView u) (touchesCluster (memberCluster u))"
proof -
  have "memberView b w' = memberView b w"
    if "answered fleetClient e w w'" "\<not> touchesMachine (memberEnvironment b) e" for e w w'
    using that by (cases e)
      (auto simp: fleetClient_simps split: option.splits if_splits)
  then show "isolates fleetClient (memberView b) (touchesMachine (memberEnvironment b))" unfolding isolates_def by blast
  have "memberClusterView u w' = memberClusterView u w"
    if "answered fleetClient e w w'" "\<not> touchesCluster (memberCluster u) e" for e w w'
    using that by (cases e)
      (auto simp: fleetClient_simps split: option.splits if_splits)
  then show "isolates fleetClient (memberClusterView u) (touchesCluster (memberCluster u))" unfolding isolates_def by blast
qed

lemma fleet_cluster_server: "clusterServer fleetClient clusterKey (memberClusterView u) sampleCluster"
  unfolding clusterServer_def serves_def
  by (intro conjI allI impI)
    (simp_all add: fleetClient_simps serviceAnswer_def member_names(2) split: option.split,
     simp add: memberClusterView_def)

lemma fleet_api_server: "apiServer fleetClient (memberKey b) (memberView b) (memberEnvironment b)"
  unfolding apiServer_def serves_def
  by (intro conjI allI impI)
    (simp_all add: fleetClient_simps podAnswer_def member_names(1) split: option.split,
     simp flip: not_None_eq)

lemma member_fleet: "fleetServer fleetClient memberView memberEnvironment memberClusterView memberCluster"
  unfolding fleetServer_def memberEnvironment_simps(1,7,8,9)
proof (intro conjI allI impI)
  show "named e" if "answered fleetClient e w w'" for e w w' by (rule fleet_answers_named [OF that])
qed (rule fleet_api_server fleet_cluster_server fleet_isolates | simp add: inj_def)+

definition memberWorld :: fleet_world where
  "memberWorld = \<lparr>fw_machine = (\<lambda>b. (memberMachine b, Some (memberPod b))),
     fw_cluster = (newKC, Some (ce_service (memberCluster ())))\<rparr>"

lemma member_views:
  "memberView b memberWorld = (memberMachine b, Some (memberPod b))"
  "memberClusterView u memberWorld = (newKC, Some (ce_service (memberCluster ())))"
proof -
  have "keyOf (km_Meta (memberMachine b)) = memberKey b" "keyOf (pod_Meta (memberPod b)) = memberKey b"
    by (simp_all add: memberMachine_def memberPod_def sampleMeta_def keyOf_def memberKey_def)
  note k = keyed_simps(2) [OF this(1)] keyed_simps(2) [OF this(2)]
  show "memberView b memberWorld = (memberMachine b, Some (memberPod b))"
    by (simp only: memberView_def memberWorld_def fleet_world.simps fst_conv snd_conv option.map k) simp
  have "keyOf (kc_Meta newKC) = clusterKey" by (simp add: keyOf_def clusterKey_def newKC_def sampleMeta_def)
  note k' = keyed_simps(2) [OF this]
  show "memberClusterView u memberWorld = (newKC, Some (ce_service (memberCluster ())))"
    by (simp only: memberClusterView_def memberWorld_def memberCluster_def fleet_world.simps fst_conv snd_conv option.map k') simp
qed

lemma member_healthy: "healthyObjects refLib (sampleCloud []) (memberMachine b) (memberEnvironment b)"
proof -
  have "keyOf (km_Meta (memberMachine b)) = memberKey b"
    by (simp add: memberMachine_def sampleMeta_def keyOf_def memberKey_def)
  moreover have "om_Annotations (km_Meta (memberMachine b)) ''cluster.x-k8s.io/paused'' = None"
      "om_DeletionTimestamp (km_Meta (memberMachine b)) = None" "om_DeletionTimestamp (pod_Meta (memberPod b)) = None"
    by (simp_all add: memberMachine_def memberPod_def sampleMeta_def emptyObjectMeta_def)
  moreover have "km_Spec (memberMachine b) = km_Spec (sampleKM [])" "machineFailed (memberMachine b) = machineFailed (sampleKM [])"
    by (simp_all add: memberMachine_def machineFailed_def)
  ultimately have live: "liveObjects refLib (memberMachine b) (memberEnvironment b)"
    using sample_live by (simp add: liveObjects_def sampleEnvironment_def timeIsZero_def)
  have own: "controlledBy refLib (pod_Meta (memberPod b)) (om_UID (km_Meta (memberMachine b)))"
    by (simp add: memberPod_def controlledBy_def isController_def ownerOf_def)
  have status: "IsPodReady (memberPod b) = IsPodReady (samplePod running)" "pod_Status (memberPod b) = pod_Status (samplePod running)"
    by (simp_all add: IsPodReady_iff_find memberPod_def)
  have "\<exists>script. GenerateScript (sampleCloud []) sampleDoc = Returned (Inr script)" by (simp add: sampleDoc_script)
  then show ?thesis
    using live own status \<open>om_DeletionTimestamp (pod_Meta (memberPod b)) = None\<close>
    by (simp add: healthyObjects_def timeIsZero_def running_def)
qed

lemma member_cluster_accepted: "acceptedService refLib (ce_service (memberCluster u)) (ce_host (memberCluster u)) newKC"
proof -
  have "serviceHost (svc\<lparr>svc_Meta := m\<rparr>) = serviceHost svc" "servicePortOf (svc\<lparr>svc_Meta := m\<rparr>) = servicePortOf svc" for svc m
    by (simp_all add: serviceHost_def servicePortOf_def)
  moreover have "controlledBy refLib (keyed k m) uid = controlledBy refLib m uid" for k m uid by (simp add: controlledBy_def)
  ultimately show ?thesis by (simp add: acceptedService_def memberCluster_def APIEndpoint_IsZero_def)
qed

theorem fleet_settles_witness:
  "\<exists>s' km. interleave (fleetReconcile refLib (sampleCloud []) fleetClient memberEnvironment memberCluster)
       [Inl True, Inl False, Inr (), Inl True, Inl False] (memberWorld, []) =
       (replicate 5 (Returned (noRequeue, None)), s') \<and>
     memberView False (fst s') = (km, Some (memberPod False)) \<and> kmst_Phase (km_Status km) = KubernetesMachinePhaseRunning"
proof -
  have m: "healthyObjects refLib (sampleCloud []) (fst (memberView b (fst (memberWorld, [] :: event list)))) (memberEnvironment b) \<and>
      snd (memberView b (fst (memberWorld, [] :: event list))) = Some (en_pod (memberEnvironment b))" for b
    using member_healthy by (simp add: member_views)
  have c: "liveCluster refLib (ce_key (memberCluster u)) (ce_cluster (memberCluster u)) (fst (memberClusterView u (fst (memberWorld, [] :: event list)))) \<and>
      acceptedService refLib (ce_service (memberCluster u)) (ce_host (memberCluster u)) (fst (memberClusterView u (fst (memberWorld, [] :: event list)))) \<and>
      snd (memberClusterView u (fst (memberWorld, [] :: event list))) = Some (ce_service (memberCluster u))" for u
    using member_cluster_accepted sample_cluster_live by (simp add: member_views)
  let ?requests = "[Inl True, Inl False, Inr (), Inl True, Inl False]"
  obtain s' where "interleave (fleetReconcile refLib (sampleCloud []) fleetClient memberEnvironment memberCluster) ?requests (memberWorld, []) =
      (replicate (length ?requests) (Returned (noRequeue, None)), s')"
    and "2 \<le> count_list ?requests (Inl False) \<longrightarrow> (\<exists>km. memberView False (fst s') = (km, Some (en_pod (memberEnvironment False))) \<and>
       kmst_Ready (km_Status km) \<and> kmst_Phase (km_Status km) = KubernetesMachinePhaseRunning \<and> \<not> machineFailed km)"
    using fleet_settles [OF ref.kube_contract_axioms member_fleet m c, of ?requests] by blast
  moreover have "2 \<le> count_list ?requests (Inl False)" "length ?requests = 5" by simp_all
  ultimately show ?thesis unfolding memberEnvironment_simps(2) by metis
qed

subsection \<open>What a reconcile writes\<close>

text \<open>
  C12. The controllers write only what belongs to the object they are asked to reconcile. If the API server answers a request
  for an object with that object and finds owners in the namespace they are looked for in, then a
  reconcile of a machine patches that machine only, never renames it, creates and deletes no Pod but
  the one of its name, creates no Secret but the one named after it and no claim but those named
  after it, in its namespace, runs commands only in its own Pod or, with \<open>kubectl\<close>, in one of its
  namespace, and writes no cluster or Service; a reconcile of a cluster patches that cluster only, creates no
  Service but the one named after its owner in its namespace, and writes nothing else.
\<close>

theorem reconciles_stay_in_scope:
  assumes "kube_contract lib"
    and "machine_Reconcile lib cloud cli req (w, []) = (out, s')" and "\<forall>e \<in> set (snd s'). named e"
    and "cluster_Reconcile lib cli req' (w', []) = (ret, t')" and "\<forall>e \<in> set (snd t'). named e"
  shows "(\<forall>e \<in> set (snd s'). machineScope req e) \<and>
    (\<forall>e \<in> set (snd t'). clusterScope req'
       (\<lambda>n. \<exists>m cluster. EvGetOwnerCluster m (Inr (Some cluster)) \<in> set (snd t') \<and> n = clusterServiceName cluster) e)"
proof -
  have "reconcileRun lib cloud req (snd s') out" by (rule Reconcile_reconcileRun [OF assms(1,2)])
  from reconcileRun_scope [OF assms(1) this] have "\<forall>e \<in> set (snd s'). machineScope req e"
    using assms(3) by (simp add: list_all_iff)
  moreover have "clusterRun lib req' (snd t') ret" using cluster_Reconcile_run [OF assms(4)] by simp
  from clusterRun_scope [OF assms(1) this,
      of "\<lambda>n. \<exists>m cluster. EvGetOwnerCluster m (Inr (Some cluster)) \<in> set (snd t') \<and> n = clusterServiceName cluster"]
  have "\<forall>e \<in> set (snd t'). clusterScope req'
       (\<lambda>n. \<exists>m cluster. EvGetOwnerCluster m (Inr (Some cluster)) \<in> set (snd t') \<and> n = clusterServiceName cluster) e"
    using assms(5) by (auto simp: list_all_iff)
  ultimately show ?thesis by (rule conjI)
qed

theorem reconciles_stay_in_scope_witness:
  "\<exists>out s' ret t'. machine_Reconcile refLib (sampleCloud []) fleetClient (memberKey True) (memberWorld, []) = (out, s') \<and>
     cluster_Reconcile refLib fleetClient clusterKey (memberWorld, []) = (ret, t') \<and>
     (\<exists>e \<in> set (snd s'). mutates e) \<and> (\<forall>e \<in> set (snd s'). machineScope (memberKey True) e) \<and>
     (\<forall>e \<in> set (snd t'). clusterScope clusterKey
       (\<lambda>n. \<exists>m cluster. EvGetOwnerCluster m (Inr (Some cluster)) \<in> set (snd t') \<and> n = clusterServiceName cluster) e)"
proof -
  obtain out s' where m: "machine_Reconcile refLib (sampleCloud []) fleetClient (memberKey True) (memberWorld, []) = (out, s')"
    by (metis surj_pair)
  obtain ret t' where c: "cluster_Reconcile refLib fleetClient clusterKey (memberWorld, []) = (ret, t')" by (metis surj_pair)
  have named: "\<forall>e \<in> set (snd s'). named e" "\<forall>e \<in> set (snd t'). named e"
    using fleet_named [OF member_fleet machine_Reconcile_steps [OF m], of "snd s'"]
      fleet_named [OF member_fleet cluster_Reconcile_steps [OF c], of "snd t'"] by (simp_all add: list_all_iff)
  have "\<exists>e \<in> set (snd s'). mutates e"
    using Reconcile_reconcileRun [OF ref.kube_contract_axioms m] steps_answered [OF machine_Reconcile_steps [OF m], of "snd s'"]
    by (cases rule: reconcileRun.cases) (auto simp: fleetClient_simps)
  then show ?thesis using reconciles_stay_in_scope [OF ref.kube_contract_axioms m named(1) c named(2)] m c by blast
qed

end
