(* ===== verification/E2e_Bootstrap.thy ===== *)
theory E2e_Bootstrap
  imports Go_Strings
begin

text \<open>
  The package \<open>src/e2e/bootstrap\<close>: the kind cluster the end-to-end tests run their management cluster
  in. The file system, docker and the kind library are parameters (\<open>e2e_env\<close>) that answer every call
  and may change the world in any way; the calls are logged with their answers. A failed expectation
  of gomega ends the test the way a panic does, so the operations have outcomes. The verb \<open>%q\<close> quotes
  with the tables of Unicode the environment has.
\<close>

subsection \<open>The environment\<close>

record kindMount =
  kmo_HostPath :: string
  kmo_ContainerPath :: string

record kindNode =
  kn_Role :: string
  kn_ExtraMounts :: "kindMount list"

record kindConfig =
  kcfg_APIVersion :: string
  kcfg_Kind :: string
  kcfg_Nodes :: "kindNode list"
  kcfg_Rest :: string

datatype kindCreateOption =
    CreateWithKubeconfigPath string
  | CreateWithV1Alpha4Config kindConfig
  | CreateWithNodeImage string

datatype logArg = LogString string | LogError go_error

datatype e2e_event =
    EvTempFile "go_error + string"
  | EvKindCreate string "kindCreateOption list" "go_error option"
  | EvKindDelete string string "go_error option"
  | EvRemove string "go_error option"
  | EvTempDir "go_error + string"
  | EvRemoveAll string
  | EvDocker "string list" "string \<times> string \<times> go_error option"
  | EvListInternalNodes string "go_error + string list"
  | EvOpen string "go_error option"
  | EvLoadImageArchive string string "go_error option"
  | EvClose string
  | EvExists string bool
  | EvLogf string "logArg list"

record 'w e2e_env =
  env_TempFile :: "string \<Rightarrow> 'w \<Rightarrow> (go_error + string) \<times> 'w"
  env_TempDir :: "string \<Rightarrow> 'w \<Rightarrow> (go_error + string) \<times> 'w"
  env_Remove :: "string \<Rightarrow> 'w \<Rightarrow> go_error option \<times> 'w"
  env_RemoveAll :: "string \<Rightarrow> 'w \<Rightarrow> 'w"
  env_Open :: "string \<Rightarrow> 'w \<Rightarrow> go_error option \<times> 'w"
  env_Close :: "string \<Rightarrow> 'w \<Rightarrow> 'w"
  env_Exists :: "string \<Rightarrow> 'w \<Rightarrow> bool \<times> 'w"
  env_Docker :: "string list \<Rightarrow> 'w \<Rightarrow> (string \<times> string \<times> go_error option) \<times> 'w"
  env_KindCreate :: "string \<Rightarrow> kindCreateOption list \<Rightarrow> 'w \<Rightarrow> go_error option \<times> 'w"
  env_KindDelete :: "string \<Rightarrow> string \<Rightarrow> 'w \<Rightarrow> go_error option \<times> 'w"
  env_ListInternalNodes :: "string \<Rightarrow> 'w \<Rightarrow> (go_error + string list) \<times> 'w"
  env_LoadImageArchive :: "string \<Rightarrow> string \<Rightarrow> 'w \<Rightarrow> go_error option \<times> 'w"
  env_SetDefaultsCluster :: "kindConfig \<Rightarrow> kindConfig"
  env_Unicode :: unicode_tables

type_synonym 'w e2e = "'w \<times> e2e_event list"

definition act :: "('r \<Rightarrow> e2e_event) \<Rightarrow> ('w \<Rightarrow> 'r \<times> 'w) \<Rightarrow> 'w e2e \<Rightarrow> 'r \<times> 'w e2e" where
  "act ev call s = (case call (fst s) of (r, w) \<Rightarrow> (r, (w, snd s @ [ev r])))"

definition actQuietly :: "e2e_event \<Rightarrow> ('w \<Rightarrow> 'w) \<Rightarrow> 'w e2e \<Rightarrow> 'w e2e" where
  "actQuietly ev call s = (call (fst s), snd s @ [ev])"

definition Logf :: "string \<Rightarrow> logArg list \<Rightarrow> 'w e2e \<Rightarrow> 'w e2e" where
  "Logf format args s = (fst s, snd s @ [EvLogf (''INFO: '' @ format @ [CHR 0x0A]) args])"

text \<open>A failed expectation ends the test.\<close>

definition Expect :: "bool \<Rightarrow> string \<Rightarrow> ('w e2e \<Rightarrow> 'a outcome \<times> 'w e2e) \<Rightarrow> 'w e2e \<Rightarrow> 'a outcome \<times> 'w e2e" where
  "Expect holds message continue s = (if holds then continue s else (Panicked message, s))"

type_synonym go_context = "unit option"

subsection \<open>The provider of kind clusters\<close>

definition DefaultNodeImage :: string where
  "DefaultNodeImage = ''kindest/node:v1.19.1''"

record kindClusterProvider =
  kp_name :: string
  kp_withDockerSock :: bool
  kp_kubeconfigPath :: string
  kp_nodeImage :: string

type_synonym KindClusterOption = "kindClusterProvider \<Rightarrow> kindClusterProvider"

definition WithNodeImage :: "string \<Rightarrow> KindClusterOption" where
  "WithNodeImage img k = k\<lparr>kp_nodeImage := img\<rparr>"

definition WithDockerSockMount :: KindClusterOption where
  "WithDockerSockMount k = k\<lparr>kp_withDockerSock := True\<rparr>"

definition NewKindClusterProvider :: "string \<Rightarrow> KindClusterOption list \<Rightarrow> kindClusterProvider outcome" where
  "NewKindClusterProvider name options =
     (if name = [] then Panicked ''name is required for NewKindClusterProvider''
      else Returned (fold (\<lambda>opt k. opt k) options
        \<lparr>kp_name = name, kp_withDockerSock = False, kp_kubeconfigPath = [], kp_nodeImage = []\<rparr>))"

definition withDockerSockConfig :: "'w e2e_env \<Rightarrow> kindConfig" where
  "withDockerSockConfig env =
     (env_SetDefaultsCluster env
        \<lparr>kcfg_APIVersion = ''kind.x-k8s.io/v1alpha4'', kcfg_Kind = ''Cluster'', kcfg_Nodes = [], kcfg_Rest = []\<rparr>)
       \<lparr>kcfg_Nodes := [\<lparr>kn_Role = ''control-plane'', kn_ExtraMounts =
          [\<lparr>kmo_HostPath = ''/var/run/docker.sock'', kmo_ContainerPath = ''/var/run/docker.sock''\<rparr>]\<rparr>]\<rparr>"

definition kindCreateOptions :: "'w e2e_env \<Rightarrow> kindClusterProvider \<Rightarrow> kindCreateOption list" where
  "kindCreateOptions env k =
     [CreateWithKubeconfigPath (kp_kubeconfigPath k)] @
     (if kp_withDockerSock k then [CreateWithV1Alpha4Config (withDockerSockConfig env)] else []) @
     [CreateWithNodeImage (if kp_nodeImage k \<noteq> [] then kp_nodeImage k else DefaultNodeImage)]"

definition createKindCluster ::
  "'w e2e_env \<Rightarrow> kindClusterProvider \<Rightarrow> 'w e2e \<Rightarrow> unit outcome \<times> 'w e2e" where
  "createKindCluster env k s =
     (let options = kindCreateOptions env k
      in case act (EvKindCreate (kp_name k) options) (env_KindCreate env (kp_name k) options) s of
           (err, s1) \<Rightarrow> Expect (err = None) ''Failed to create the kind cluster %!q(MISSING)'' (Pair (Returned ())) s1)"

text \<open>\<open>Create\<close> sets the path of the kubeconfig file in the provider; it is returned with it.\<close>

definition kind_Create ::
  "'w e2e_env \<Rightarrow> kindClusterProvider \<Rightarrow> go_context \<Rightarrow> 'w e2e \<Rightarrow> kindClusterProvider outcome \<times> 'w e2e" where
  "kind_Create env k ctx =
     Expect (ctx \<noteq> None) ''ctx is required for Create'' (\<lambda>s.
       case act EvTempFile (env_TempFile env ''e2e-kind'') s of
         (Inl err, s1) \<Rightarrow>
           (Panicked (''Failed to create kubeconfig file for the kind cluster '' @ Quote (env_Unicode env) (kp_name k)), s1)
       | (Inr name, s1) \<Rightarrow>
           let k' = k\<lparr>kp_kubeconfigPath := name\<rparr>
           in case createKindCluster env k' s1 of
                (Panicked p, s2) \<Rightarrow> (Panicked p, s2)
              | (Returned _, s2) \<Rightarrow> (Returned k', s2))"

definition GetKubeconfigPath :: "kindClusterProvider \<Rightarrow> string" where
  "GetKubeconfigPath k = kp_kubeconfigPath k"

definition kind_Dispose ::
  "'w e2e_env \<Rightarrow> kindClusterProvider \<Rightarrow> go_context \<Rightarrow> 'w e2e \<Rightarrow> unit outcome \<times> 'w e2e" where
  "kind_Dispose env k ctx =
     Expect (ctx \<noteq> None) ''ctx is required for Dispose'' (\<lambda>s.
       case act (EvKindDelete (kp_name k) (kp_kubeconfigPath k)) (env_KindDelete env (kp_name k) (kp_kubeconfigPath k)) s of
         (err, s1) \<Rightarrow>
           let s2 = (if err \<noteq> None
                     then Logf ''Deleting the kind cluster %q failed. You may need to remove this by hand.''
                            [LogString (kp_name k)] s1 else s1)
           in case act (EvRemove (kp_kubeconfigPath k)) (env_Remove env (kp_kubeconfigPath k)) s2 of
                (err2, s3) \<Rightarrow>
                  (Returned (),
                   if err2 \<noteq> None
                   then Logf ''Deleting the kubeconfig file %q file. You may need to remove this by hand.''
                          [LogString (kp_kubeconfigPath k)] s3 else s3))"

subsection \<open>Loading images\<close>

datatype LoadBehavior = MustLoadImage | TryLoadImage | OtherLoadBehavior string

record ContainerImage =
  img_Name :: string
  img_LoadBehavior :: LoadBehavior

definition save_image :: "'w e2e_env \<Rightarrow> string \<Rightarrow> string \<Rightarrow> 'w e2e \<Rightarrow> go_error option \<times> 'w e2e" where
  "save_image env img dest s =
     (let args = [''save'', ''-o'', dest, img]
      in case act (EvDocker args) (env_Docker env args) s of
           ((sout, serr, err), s1) \<Rightarrow>
             (map_option (Wrapped (''stdout: '' @ Quote (env_Unicode env) sout @ '', stderr: '' @ Quote (env_Unicode env) serr)) err, s1))"

definition load_archive :: "'w e2e_env \<Rightarrow> string \<Rightarrow> string \<Rightarrow> 'w e2e \<Rightarrow> go_error option \<times> 'w e2e" where
  "load_archive env imageTarName node s =
     (case act (EvOpen imageTarName) (env_Open env imageTarName) s of
        (Some err, s1) \<Rightarrow> (Some (Wrapped ''failed to open image'' err), s1)
      | (None, s1) \<Rightarrow>
          (case act (EvLoadImageArchive node imageTarName) (env_LoadImageArchive env node imageTarName) s1 of
             (err, s2) \<Rightarrow> (err, actQuietly (EvClose imageTarName) (env_Close env imageTarName) s2)))"

fun loadNodes :: "'w e2e_env \<Rightarrow> string \<Rightarrow> string list \<Rightarrow> 'w e2e \<Rightarrow> go_error option \<times> 'w e2e" where
  "loadNodes env imageTarPath [] s = (None, s)"
| "loadNodes env imageTarPath (node # nodes) s =
     (case load_archive env imageTarPath node s of
        (Some err, s1) \<Rightarrow> (Some err, s1)
      | (None, s1) \<Rightarrow> loadNodes env imageTarPath nodes s1)"

text \<open>What runs between the creation of the directory and its deferred removal.\<close>

definition loadImageBody ::
  "'w e2e_env \<Rightarrow> string \<Rightarrow> string \<Rightarrow> string \<Rightarrow> 'w e2e \<Rightarrow> go_error option \<times> 'w e2e" where
  "loadImageBody env cluster img imageTarPath s =
     (case save_image env img imageTarPath s of
        (Some err, s1) \<Rightarrow> (Some err, s1)
      | (None, s1) \<Rightarrow>
          (case act (EvListInternalNodes cluster) (env_ListInternalNodes env cluster) s1 of
             (Inl err, s2) \<Rightarrow> (Some err, s2)
           | (Inr nodeList, s2) \<Rightarrow> loadNodes env imageTarPath nodeList s2))"

definition loadImage :: "'w e2e_env \<Rightarrow> string \<Rightarrow> string \<Rightarrow> 'w e2e \<Rightarrow> go_error option \<times> 'w e2e" where
  "loadImage env cluster img s =
     (case act EvTempDir (env_TempDir env ''image-tar'') s of
        (Inl err, s1) \<Rightarrow> (Some (Wrapped ''failed to create tempdir'' err), s1)
      | (Inr dir, s1) \<Rightarrow>
          (case loadImageBody env cluster img (path_Join [dir, ''image.tar'']) s1 of
             (err, s2) \<Rightarrow> (err, actQuietly (EvRemoveAll dir) (env_RemoveAll env dir) s2)))"

fun loadImagesLoop :: "'w e2e_env \<Rightarrow> string \<Rightarrow> ContainerImage list \<Rightarrow> 'w e2e \<Rightarrow> go_error option \<times> 'w e2e" where
  "loadImagesLoop env name [] s = (None, s)"
| "loadImagesLoop env name (img # images) s =
     (case loadImage env name (img_Name img) (Logf ''Loading image: %q'' [LogString (img_Name img)] s) of
        (None, s1) \<Rightarrow> loadImagesLoop env name images s1
      | (Some err, s1) \<Rightarrow>
          (case img_LoadBehavior img of
             MustLoadImage \<Rightarrow>
               (Some (Wrapped (''Failed to load image '' @ Quote (env_Unicode env) (img_Name img) @
                  '' into the kind cluster '' @ Quote (env_Unicode env) name) err), s1)
           | TryLoadImage \<Rightarrow>
               loadImagesLoop env name images
                 (Logf ''[WARNING] Unable to load image %q into the kind cluster %q: %v''
                    [LogString (img_Name img), LogString name, LogError err] s1)
           | OtherLoadBehavior _ \<Rightarrow> loadImagesLoop env name images s1))"

definition LoadImagesToKindCluster ::
  "'w e2e_env \<Rightarrow> go_context \<Rightarrow> string \<Rightarrow> ContainerImage list \<Rightarrow> 'w e2e \<Rightarrow> go_error option \<times> 'w e2e" where
  "LoadImagesToKindCluster env ctx name images s =
     (if ctx = None then (Some (GoError ''ctx is required for LoadImagesToKindCluster''), s)
      else if name = [] then
        (Some (GoError ''Invalid argument. Name can't be empty when calling LoadImagesToKindCluster''), s)
      else loadImagesLoop env name images s)"

subsection \<open>The bootstrap cluster\<close>

record CreateKindBootstrapClusterAndLoadImagesInput =
  cki_Name :: string
  cki_NodeImage :: string
  cki_RequiresDockerSock :: bool
  cki_Images :: "ContainerImage list"

definition bootstrapOptions :: "CreateKindBootstrapClusterAndLoadImagesInput \<Rightarrow> KindClusterOption list" where
  "bootstrapOptions input =
     (if cki_RequiresDockerSock input then [WithDockerSockMount] else []) @
     (if cki_NodeImage input \<noteq> [] then [WithNodeImage (cki_NodeImage input)] else [])"

text \<open>What follows once the provider has created its cluster.\<close>

definition loadIntoCluster ::
  "'w e2e_env \<Rightarrow> go_context \<Rightarrow> CreateKindBootstrapClusterAndLoadImagesInput \<Rightarrow> kindClusterProvider \<Rightarrow> 'w e2e \<Rightarrow>
   kindClusterProvider outcome \<times> 'w e2e" where
  "loadIntoCluster env ctx input k s =
     (case act (EvExists (GetKubeconfigPath k)) (env_Exists env (GetKubeconfigPath k)) s of
        (exists, s1) \<Rightarrow>
          Expect exists (''The kubeconfig file for the kind cluster with name '' @ Quote (env_Unicode env) (cki_Name input) @
              '' does not exists at '' @ Quote (env_Unicode env) (GetKubeconfigPath k) @ '' as expected'') (\<lambda>s2.
            case LoadImagesToKindCluster env ctx (cki_Name input) (cki_Images input)
                   (Logf ''The kubeconfig file for the kind cluster is %s'' [LogString (kp_kubeconfigPath k)] s2) of
              (None, s3) \<Rightarrow> (Returned k, s3)
            | (Some err, s3) \<Rightarrow>
                (case kind_Dispose env k ctx s3 of
                   (Panicked p, s4) \<Rightarrow> (Panicked p, s4)
                 | (Returned _, s4) \<Rightarrow> (Panicked ''Unexpected error'', s4))) s1)"

definition CreateKindBootstrapClusterAndLoadImages ::
  "'w e2e_env \<Rightarrow> go_context \<Rightarrow> CreateKindBootstrapClusterAndLoadImagesInput \<Rightarrow> 'w e2e \<Rightarrow>
   kindClusterProvider outcome \<times> 'w e2e" where
  "CreateKindBootstrapClusterAndLoadImages env ctx input =
     Expect (ctx \<noteq> None) ''ctx is required for CreateKindBootstrapClusterAndLoadImages''
      (Expect (cki_Name input \<noteq> [])
        ''Invalid argument. Name can't be empty when calling CreateKindBootstrapClusterAndLoadImages'' (\<lambda>s.
          let s1 = Logf ''Creating a kind cluster with name %q'' [LogString (cki_Name input)] s
          in case NewKindClusterProvider (cki_Name input) (bootstrapOptions input) of
               Panicked p \<Rightarrow> (Panicked p, s1)
             | Returned provider \<Rightarrow>
                 (case kind_Create env provider ctx s1 of
                    (Panicked p, s2) \<Rightarrow> (Panicked p, s2)
                  | (Returned k, s2) \<Rightarrow> loadIntoCluster env ctx input k s2)))"

end
