(* ===== verification/E2e_Correct.thy ===== *)
theory E2e_Correct
  imports E2e_Bootstrap "HOL-Library.Sublist"
begin

text \<open>
  What the bootstrap package holds on to. \<open>held\<close> reads off a log which temporary directories, open
  files, kubeconfig files and kind clusters a run has acquired and not given back; loading images
  gives back everything on every path, and a bootstrap cluster whose images cannot be loaded is
  disposed of before the failure is reported.
\<close>

subsection \<open>Resources\<close>

datatype resource = TempFolder string | OpenFile string | KubeconfigFile string | KindCluster string

fun holds :: "e2e_event \<Rightarrow> resource list \<Rightarrow> resource list" where
  "holds (EvTempDir (Inr d)) h = TempFolder d # h"
| "holds (EvRemoveAll d) h = remove1 (TempFolder d) h"
| "holds (EvOpen p None) h = OpenFile p # h"
| "holds (EvClose p) h = remove1 (OpenFile p) h"
| "holds (EvTempFile (Inr p)) h = KubeconfigFile p # OpenFile p # h"
| "holds (EvRemove p None) h = remove1 (KubeconfigFile p) h"
| "holds (EvKindCreate n _ None) h = KindCluster n # h"
| "holds (EvKindDelete n _ None) h = remove1 (KindCluster n) h"
| "holds _ h = h"

definition held :: "e2e_event list \<Rightarrow> resource list \<Rightarrow> resource list" where
  "held evs h = fold holds evs h"

lemma held_simps [simp]: "held [] h = h" "held (e # es) h = held es (holds e h)" "held (xs @ ys) h = held ys (held xs h)"
  by (simp_all add: held_def)

text \<open>Events that acquire nothing but what \<open>loadImage\<close> works with.\<close>

fun loading :: "e2e_event \<Rightarrow> bool" where
  "loading (EvKindCreate _ _ _) = False"
| "loading (EvKindDelete _ _ _) = False"
| "loading (EvTempFile _) = False"
| "loading (EvRemove _ _) = False"
| "loading (EvExists _ _) = False"
| "loading _ = True"

text \<open>\<open>tidy s s' evs\<close>: the run from \<open>s\<close> to \<open>s'\<close> made the calls \<open>evs\<close>, all of them part of loading images, and
  holds afterwards what it held before.\<close>

definition tidy :: "'w e2e \<Rightarrow> 'w e2e \<Rightarrow> e2e_event list \<Rightarrow> bool" where
  "tidy s s' evs \<longleftrightarrow> snd s' = snd s @ evs \<and> (\<forall>h. held evs h = h) \<and> list_all loading evs"

lemma tidy_refl: "tidy s s []"
  by (simp add: tidy_def)

lemma tidy_trans: "tidy s t xs \<Longrightarrow> tidy t u ys \<Longrightarrow> tidy s u (xs @ ys)"
  by (simp add: tidy_def)

lemma act_log: "act ev call s = (r, s') \<Longrightarrow> snd s' = snd s @ [ev r]"
  by (auto simp: act_def split: prod.splits)

lemma quiet_log [simp]: "snd (actQuietly ev call s) = snd s @ [ev]" "snd (Logf f as s) = snd s @ [EvLogf (''INFO: '' @ f @ [CHR 0x0A]) as]"
  by (simp_all add: actQuietly_def Logf_def)

lemma tidy_Logf: "tidy s (Logf f as s) [EvLogf (''INFO: '' @ f @ [CHR 0x0A]) as]"
  by (simp add: tidy_def)

subsection \<open>Loading an image\<close>

definition archiveLoaded :: "string \<Rightarrow> string \<Rightarrow> e2e_event list" where
  "archiveLoaded tar node = [EvOpen tar None, EvLoadImageArchive node tar None, EvClose tar]"

text \<open>The calls of an image that was loaded.\<close>

definition imageLoaded :: "string \<Rightarrow> string \<Rightarrow> e2e_event list \<Rightarrow> bool" where
  "imageLoaded cluster img evs \<longleftrightarrow> (\<exists>dir out nodes.
     let tar = path_Join [dir, ''image.tar'']
     in evs = [EvTempDir (Inr dir), EvDocker [''save'', ''-o'', tar, img] (fst out, snd out, None),
               EvListInternalNodes cluster (Inr nodes)] @ concat (map (archiveLoaded tar) nodes) @ [EvRemoveAll dir])"

lemma load_archive_tidy:
  assumes "load_archive env tar node s = (r, s')"
  shows "\<exists>evs. tidy s s' evs \<and> (r = None \<longrightarrow> evs = archiveLoaded tar node)"
proof -
  obtain o1 s1 where o: "act (EvOpen tar) (env_Open env tar) s = (o1, s1)" by (metis surj_pair)
  show ?thesis
  proof (cases o1)
    case None
    obtain r2 s2 where l: "act (EvLoadImageArchive node tar) (env_LoadImageArchive env node tar) s1 = (r2, s2)" by (metis surj_pair)
    then have "r = r2" "snd s' = snd s @ [EvOpen tar None, EvLoadImageArchive node tar r2, EvClose tar]"
      using assms o None act_log [OF o] act_log [OF l] by (auto simp: load_archive_def)
    then show ?thesis
      by (intro exI [of _ "[EvOpen tar None, EvLoadImageArchive node tar r2, EvClose tar]"]) (simp add: tidy_def archiveLoaded_def)
  next
    case (Some e)
    then show ?thesis
      using assms o act_log [OF o] by (intro exI [of _ "[EvOpen tar (Some e)]"]) (auto simp: load_archive_def tidy_def)
  qed
qed

lemma loadNodes_tidy:
  "loadNodes env tar nodes s = (r, s') \<Longrightarrow>
    \<exists>evs. tidy s s' evs \<and> (r = None \<longrightarrow> evs = concat (map (archiveLoaded tar) nodes))"
proof (induction nodes arbitrary: s)
  case Nil
  then show ?case by (simp add: tidy_refl)
next
  case (Cons node nodes)
  obtain r1 s1 where l: "load_archive env tar node s = (r1, s1)" by (metis surj_pair)
  obtain evs where evs: "tidy s s1 evs" "r1 = None \<longrightarrow> evs = archiveLoaded tar node" using load_archive_tidy [OF l] by blast
  show ?case
  proof (cases r1)
    case None
    then obtain evs' where "tidy s1 s' evs'" "r = None \<longrightarrow> evs' = concat (map (archiveLoaded tar) nodes)"
      using Cons.IH [of s1] Cons.prems l by auto
    then show ?thesis using tidy_trans [OF evs(1)] evs(2) None by (intro exI [of _ "evs @ evs'"]) auto
  qed (use Cons.prems l evs(1) in auto)
qed

lemma loadImageBody_tidy:
  assumes "loadImageBody env cluster img tar s = (r, s')"
  shows "\<exists>evs. tidy s s' evs \<and> (r = None \<longrightarrow> (\<exists>out nodes. evs =
    [EvDocker [''save'', ''-o'', tar, img] (fst out, snd out, None), EvListInternalNodes cluster (Inr nodes)] @
    concat (map (archiveLoaded tar) nodes)))"
proof -
  let ?args = "[''save'', ''-o'', tar, img]"
  obtain out err serr s1 where d: "act (EvDocker ?args) (env_Docker env ?args) s = ((out, serr, err), s1)" by (metis surj_pair)
  show ?thesis
  proof (cases err)
    case (Some e)
    then have "tidy s s' [EvDocker ?args (out, serr, err)]" "r \<noteq> None"
      using assms d act_log [OF d] by (auto simp: loadImageBody_def save_image_def Let_def tidy_def)
    then show ?thesis by blast
  next
    case None
    obtain ns s2 where l: "act (EvListInternalNodes cluster) (env_ListInternalNodes env cluster) s1 = (ns, s2)" by (metis surj_pair)
    have t2: "tidy s s2 [EvDocker ?args (out, serr, None), EvListInternalNodes cluster ns]"
      using act_log [OF d] act_log [OF l] None by (simp add: tidy_def)
    show ?thesis
    proof (cases ns)
      case (Inl e)
      then have "s' = s2" "r \<noteq> None" using assms d l None by (auto simp: loadImageBody_def save_image_def Let_def)
      then show ?thesis using t2 by blast
    next
      case (Inr nodes)
      then have "loadNodes env tar nodes s2 = (r, s')" using assms d l None by (simp add: loadImageBody_def save_image_def Let_def)
      then obtain evs where "tidy s2 s' evs" "r = None \<longrightarrow> evs = concat (map (archiveLoaded tar) nodes)"
        using loadNodes_tidy by blast
      then show ?thesis
        using tidy_trans [OF t2] Inr
        by (intro exI [of _ "[EvDocker ?args (out, serr, None), EvListInternalNodes cluster ns] @ evs"] conjI impI
            exI [of _ "(out, serr)"] exI [of _ nodes]) auto
    qed
  qed
qed

lemma loadImage_tidy:
  assumes "loadImage env cluster img s = (r, s')"
  shows "\<exists>evs. tidy s s' evs \<and> (r = None \<longrightarrow> imageLoaded cluster img evs)"
proof -
  obtain d s1 where t: "act EvTempDir (env_TempDir env ''image-tar'') s = (d, s1)" by (metis surj_pair)
  show ?thesis
  proof (cases d)
    case (Inl e)
    then show ?thesis using assms t act_log [OF t] by (intro exI [of _ "[EvTempDir d]"]) (auto simp: loadImage_def tidy_def)
  next
    case (Inr dir)
    let ?tar = "path_Join [dir, ''image.tar'']"
    obtain r2 s2 where b: "loadImageBody env cluster img ?tar s1 = (r2, s2)" by (metis surj_pair)
    obtain evs where evs: "tidy s1 s2 evs" "r2 = None \<longrightarrow> (\<exists>out nodes. evs =
        [EvDocker [''save'', ''-o'', ?tar, img] (fst out, snd out, None), EvListInternalNodes cluster (Inr nodes)] @
        concat (map (archiveLoaded ?tar) nodes))"
      using loadImageBody_tidy [OF b] by blast
    have s': "r = r2" "s' = actQuietly (EvRemoveAll dir) (env_RemoveAll env dir) s2"
      using assms t Inr b by (simp_all add: loadImage_def)
    have "tidy s s' (EvTempDir (Inr dir) # evs @ [EvRemoveAll dir])"
      using evs(1) s'(2) act_log [OF t] Inr by (simp add: tidy_def)
    moreover have "imageLoaded cluster img (EvTempDir (Inr dir) # evs @ [EvRemoveAll dir])" if "r = None"
      using that evs(2) s'(1) by (auto simp: imageLoaded_def Let_def)
    ultimately show ?thesis by blast
  qed
qed

subsection \<open>Loading all images\<close>

definition mustHaveLoaded :: "string \<Rightarrow> ContainerImage list \<Rightarrow> e2e_event list \<Rightarrow> bool" where
  "mustHaveLoaded cluster images evs \<longleftrightarrow>
     (\<forall>img \<in> set images. img_LoadBehavior img = MustLoadImage \<longrightarrow>
        (\<exists>part. imageLoaded cluster (img_Name img) part \<and> sublist part evs))"

lemma mustHaveLoaded_mono: "mustHaveLoaded cluster images evs \<Longrightarrow> mustHaveLoaded cluster images (xs @ evs @ ys)"
  unfolding mustHaveLoaded_def by (metis sublist_appendI sublist_order.order.trans)

lemma mustHaveLoaded_Cons:
  assumes "img_LoadBehavior img = MustLoadImage \<Longrightarrow> imageLoaded cluster (img_Name img) evs" and "mustHaveLoaded cluster images evs'"
  shows "mustHaveLoaded cluster (img # images) (xs @ evs @ evs')"
  using assms mustHaveLoaded_mono [OF assms(2), of "xs @ evs" "[]"] unfolding mustHaveLoaded_def by auto

lemma loadImagesLoop_tidy:
  "loadImagesLoop env name images s = (r, s') \<Longrightarrow> \<exists>evs. tidy s s' evs \<and> (r = None \<longrightarrow> mustHaveLoaded name images evs)"
proof (induction images arbitrary: s)
  case Nil
  then show ?case by (auto simp: mustHaveLoaded_def intro: tidy_refl)
next
  case (Cons img images)
  let ?log = "EvLogf (''INFO: '' @ ''Loading image: %q'' @ [CHR 0x0A]) [LogString (img_Name img)]"
  obtain r1 s1 where l: "loadImage env name (img_Name img) (Logf ''Loading image: %q'' [LogString (img_Name img)] s) = (r1, s1)"
    by (metis surj_pair)
  obtain evs where evs: "tidy (Logf ''Loading image: %q'' [LogString (img_Name img)] s) s1 evs"
      "r1 = None \<longrightarrow> imageLoaded name (img_Name img) evs"
    using loadImage_tidy [OF l] by blast
  have t1: "tidy s s1 ([?log] @ evs)" by (rule tidy_trans [OF tidy_Logf evs(1)])
  have onward: ?case
    if h: "loadImagesLoop env name images s2 = (r, s')" "tidy s1 s2 ws" "img_LoadBehavior img = MustLoadImage \<longrightarrow> r1 = None" for s2 ws
  proof -
    obtain evs' where e: "tidy s2 s' evs'" "r = None \<longrightarrow> mustHaveLoaded name images evs'" using Cons.IH [OF h(1)] by blast
    have "tidy s s' ([?log] @ evs @ ws @ evs')"
      using tidy_trans [OF t1 tidy_trans [OF h(2) e(1)]] by simp
    moreover have "mustHaveLoaded name (img # images) ([?log] @ evs @ ws @ evs')" if "r = None"
      by (rule mustHaveLoaded_Cons) (use that e(2) evs(2) h(3) mustHaveLoaded_mono [of name images evs' ws "[]"] in auto)
    ultimately show ?thesis by blast
  qed
  show ?case
  proof (cases r1)
    case None
    then show ?thesis using onward [of s1 "[]"] Cons.prems l by (simp add: tidy_refl)
  next
    case (Some err)
    note run = Cons.prems [unfolded loadImagesLoop.simps l Some]
    show ?thesis
    proof (cases "img_LoadBehavior img")
      case MustLoadImage
      then show ?thesis using run t1 by auto
    next
      case TryLoadImage
      then show ?thesis using onward [OF _ tidy_Logf] run by simp
    next
      case (OtherLoadBehavior b)
      then show ?thesis using onward [OF _ tidy_refl] run by simp
    qed
  qed
qed

lemma LoadImagesToKindCluster_tidy:
  assumes "LoadImagesToKindCluster env ctx name images s = (r, s')"
  shows "\<exists>evs. tidy s s' evs \<and> (r = None \<longrightarrow> mustHaveLoaded name images evs)"
proof (cases "ctx = None \<or> name = []")
  case True
  then have "s' = s" "r \<noteq> None" using assms by (auto simp: LoadImagesToKindCluster_def split: if_splits)
  then show ?thesis using tidy_refl [of s] by blast
next
  case False
  then show ?thesis using assms by (intro loadImagesLoop_tidy) (simp add: LoadImagesToKindCluster_def)
qed

subsection \<open>The bootstrap cluster\<close>

text \<open>The provider the input asks for, before its cluster is created.\<close>

definition requestedProvider :: "CreateKindBootstrapClusterAndLoadImagesInput \<Rightarrow> string \<Rightarrow> kindClusterProvider" where
  "requestedProvider input path = \<lparr>kp_name = cki_Name input, kp_withDockerSock = cki_RequiresDockerSock input,
     kp_kubeconfigPath = path, kp_nodeImage = cki_NodeImage input\<rparr>"

lemma bootstrap_provider:
  assumes "cki_Name input \<noteq> []"
  shows "NewKindClusterProvider (cki_Name input) (bootstrapOptions input) = Returned (requestedProvider input [])"
  using assms
  by (simp add: NewKindClusterProvider_def bootstrapOptions_def requestedProvider_def WithDockerSockMount_def WithNodeImage_def)

lemma kind_Create_log:
  assumes "kind_Create env (requestedProvider input []) ctx s = (out, s')"
  obtains (refused) p where "out = Panicked p" "s' = s"
  | (no_file) p e where "out = Panicked p" "snd s' = snd s @ [EvTempFile (Inl e)]"
  | (not_created) p path e where "out = Panicked p" "snd s' = snd s @ [EvTempFile (Inr path),
      EvKindCreate (cki_Name input) (kindCreateOptions env (requestedProvider input path)) (Some e)]"
  | (created) path where "out = Returned (requestedProvider input path)" "snd s' = snd s @ [EvTempFile (Inr path),
      EvKindCreate (cki_Name input) (kindCreateOptions env (requestedProvider input path)) None]"
proof (cases ctx)
  case None
  then show thesis using assms refused by (auto simp: kind_Create_def Expect_def)
next
  case (Some c)
  obtain f s1 where t: "act EvTempFile (env_TempFile env ''e2e-kind'') s = (f, s1)" by (metis surj_pair)
  show thesis
  proof (cases f)
    case (Inl e)
    then show thesis using assms t Some act_log [OF t] no_file by (auto simp: kind_Create_def Expect_def)
  next
    case (Inr path)
    let ?k = "requestedProvider input path"
    have k: "(requestedProvider input [])\<lparr>kp_kubeconfigPath := path\<rparr> = ?k" "kp_name ?k = cki_Name input"
      by (simp_all add: requestedProvider_def)
    let ?o = "kindCreateOptions env ?k"
    obtain e s2 where c: "act (EvKindCreate (cki_Name input) ?o) (env_KindCreate env (cki_Name input) ?o) s1 = (e, s2)"
      by (metis surj_pair)
    note run = assms [unfolded kind_Create_def Expect_def Some] and log = act_log [OF t] act_log [OF c]
    show thesis
    proof (cases e)
      case None
      then have "out = Returned ?k" "s' = s2"
        using run t Inr c by (simp_all add: k createKindCluster_def Expect_def Let_def)
      then show thesis using created log Inr None by simp
    next
      case (Some err)
      then have "panics out" "s' = s2"
        using run t Inr c by (simp_all add: k createKindCluster_def Expect_def Let_def) auto
      then show thesis using not_created log Inr Some by (cases out) auto
    qed
  qed
qed

lemma kind_Dispose_log:
  assumes "kind_Dispose env k (Some c) s = (out, s')"
  shows "out = Returned () \<and> (\<exists>e e' xs ys. snd s' = snd s @ EvKindDelete (kp_name k) (kp_kubeconfigPath k) e # xs @
    EvRemove (kp_kubeconfigPath k) e' # ys \<and> list_all loading xs \<and> list_all loading ys \<and> (\<forall>h. held xs h = h \<and> held ys h = h))"
proof -
  let ?n = "kp_name k" and ?p = "kp_kubeconfigPath k"
  obtain e s1 where d: "act (EvKindDelete ?n ?p) (env_KindDelete env ?n ?p) s = (e, s1)" by (metis surj_pair)
  let ?s2 = "if e \<noteq> None then Logf ''Deleting the kind cluster %q failed. You may need to remove this by hand.'' [LogString ?n] s1 else s1"
  obtain e' s3 where r: "act (EvRemove ?p) (env_Remove env ?p) ?s2 = (e', s3)" by (metis surj_pair)
  obtain xs where xs: "snd ?s2 = snd s1 @ xs" "list_all loading xs" "\<forall>h. held xs h = h"
    by (cases e) (auto intro: that [of "[]"])
  have s': "out = Returned ()" "s' = (if e' \<noteq> None then Logf ''Deleting the kubeconfig file %q file. You may need to remove this by hand.''
      [LogString ?p] s3 else s3)"
    using assms d r by (simp_all add: kind_Dispose_def Expect_def Let_def)
  then obtain ys where ys: "snd s' = snd s3 @ ys" "list_all loading ys" "\<forall>h. held ys h = h"
    by (cases e') (auto intro: that [of "[]"])
  show ?thesis
    using s'(1) xs ys act_log [OF d] act_log [OF r]
    by (intro conjI exI [of _ e] exI [of _ e'] exI [of _ xs] exI [of _ ys]) simp_all
qed

definition disposed :: "string \<Rightarrow> string \<Rightarrow> e2e_event list \<Rightarrow> bool" where
  "disposed name path evs \<longleftrightarrow> (\<exists>e e'. EvKindDelete name path e \<in> set evs \<and> EvRemove path e' \<in> set evs \<and>
     (e = None \<and> e' = None \<longrightarrow> (\<forall>h. held evs (KindCluster name # KubeconfigFile path # h) = h)))"

lemma dispose_events:
  assumes "kind_Dispose env k (Some c) s = (out, s')"
  shows "out = Returned () \<and> (\<exists>evs. snd s' = snd s @ evs \<and> disposed (kp_name k) (kp_kubeconfigPath k) evs \<and>
    (\<forall>p b. EvExists p b \<notin> set evs) \<and> (\<forall>n os e. EvKindCreate n os e \<notin> set evs))"
proof -
  obtain e e' xs ys where l: "out = Returned ()" "snd s' = snd s @ EvKindDelete (kp_name k) (kp_kubeconfigPath k) e # xs @
      EvRemove (kp_kubeconfigPath k) e' # ys" "list_all loading xs" "list_all loading ys" "\<forall>h. held xs h = h \<and> held ys h = h"
    using kind_Dispose_log [OF assms] by blast
  let ?evs = "EvKindDelete (kp_name k) (kp_kubeconfigPath k) e # xs @ EvRemove (kp_kubeconfigPath k) e' # ys"
  have "disposed (kp_name k) (kp_kubeconfigPath k) ?evs"
    unfolding disposed_def using l(5) by (intro exI [of _ e] exI [of _ e']) auto
  moreover have "EvExists p b \<notin> set ?evs" "EvKindCreate n os x \<notin> set ?evs" for p b n os x
    using l(3,4) by (auto simp: list_all_iff)
  ultimately show ?thesis using l(1,2) by blast
qed

lemma loadIntoCluster_log:
  assumes "loadIntoCluster env (Some c) input k s = (out, s')" and "kp_name k = cki_Name input"
  obtains (missing) "panics out" "snd s' = snd s @ [EvExists (kp_kubeconfigPath k) False]"
  | (loaded) evs where "out = Returned k" "snd s' = snd s @ EvExists (kp_kubeconfigPath k) True # evs"
      "list_all loading evs" "\<forall>h. held evs h = h" "mustHaveLoaded (cki_Name input) (cki_Images input) evs"
  | (failed) evs ds where "panics out" "snd s' = snd s @ EvExists (kp_kubeconfigPath k) True # evs @ ds"
      "list_all loading evs" "\<forall>h. held evs h = h" "disposed (cki_Name input) (kp_kubeconfigPath k) ds"
      "\<forall>p b. EvExists p b \<notin> set ds" "\<forall>n os e. EvKindCreate n os e \<notin> set ds"
proof -
  let ?p = "kp_kubeconfigPath k"
  obtain b s1 where x: "act (EvExists ?p) (env_Exists env ?p) s = (b, s1)" by (metis surj_pair)
  show thesis
  proof (cases b)
    case False
    then show thesis using assms(1) x act_log [OF x] missing by (auto simp: loadIntoCluster_def GetKubeconfigPath_def Expect_def)
  next
    case True
    let ?f = "''The kubeconfig file for the kind cluster is %s''"
    let ?s2 = "Logf ?f [LogString ?p] s1"
    obtain r s3 where l: "LoadImagesToKindCluster env (Some c) (cki_Name input) (cki_Images input) ?s2 = (r, s3)" by (metis surj_pair)
    obtain evs where evs: "tidy ?s2 s3 evs" "r = None \<longrightarrow> mustHaveLoaded (cki_Name input) (cki_Images input) evs"
      using LoadImagesToKindCluster_tidy [OF l] by blast
    let ?evs = "[EvLogf (''INFO: '' @ ?f @ [CHR 0x0A]) [LogString ?p]] @ evs"
    have t: "tidy s1 s3 ?evs" by (rule tidy_trans [OF tidy_Logf evs(1)])
    then have log: "snd s3 = snd s @ EvExists ?p True # ?evs" "list_all loading ?evs" "\<forall>h. held ?evs h = h"
      using act_log [OF x] True by (simp_all add: tidy_def)
    show thesis
    proof (cases r)
      case None
      then have "out = Returned k" "s' = s3"
        using assms(1) x True l by (simp_all add: loadIntoCluster_def GetKubeconfigPath_def Expect_def)
      moreover have "mustHaveLoaded (cki_Name input) (cki_Images input) ?evs"
        using evs(2) None mustHaveLoaded_mono [of "cki_Name input" "cki_Images input" evs
            "[EvLogf (''INFO: '' @ ?f @ [CHR 0x0A]) [LogString ?p]]" "[]"] by simp
      ultimately show thesis using loaded log by blast
    next
      case (Some err)
      obtain d s4 where dd: "kind_Dispose env k (Some c) s3 = (d, s4)" by (metis surj_pair)
      from dispose_events [OF dd] obtain ds where ds: "d = Returned ()" "snd s4 = snd s3 @ ds"
          "disposed (cki_Name input) ?p ds" "\<forall>p b. EvExists p b \<notin> set ds" "\<forall>n os e. EvKindCreate n os e \<notin> set ds"
        using assms(2) by auto
      have "panics out" "s' = s4"
        using assms(1) x True l Some dd ds(1) by (auto simp: loadIntoCluster_def GetKubeconfigPath_def Expect_def)
      then show thesis using failed [of ?evs ds] log ds by simp
    qed
  qed
qed

lemma failed_log:
  assumes "log = EvLogf f as # EvTempFile (Inr path) # EvKindCreate name os None # EvExists path True # evs @ ds"
    and "list_all loading evs" and "\<forall>h. held evs h = h" and "disposed name path ds"
    and "\<forall>p b. EvExists p b \<notin> set ds" and "\<forall>n os e. EvKindCreate n os e \<notin> set ds"
  shows "\<forall>p. EvExists p True \<in> set log \<longrightarrow> (\<exists>e e'. EvKindDelete name p e \<in> set log \<and> EvRemove p e' \<in> set log \<and>
      (e = None \<and> e' = None \<longrightarrow> held log [] = [OpenFile p]))"
    and "EvKindCreate n os' (Some x) \<notin> set log"
proof -
  obtain e e' where d: "EvKindDelete name path e \<in> set ds" "EvRemove path e' \<in> set ds"
      "e = None \<and> e' = None \<longrightarrow> (\<forall>h. held ds (KindCluster name # KubeconfigFile path # h) = h)"
    using assms(4) unfolding disposed_def by blast
  have "p = path" if "EvExists p True \<in> set log" for p
    using that assms(1,2,5) by (auto simp: list_all_iff)
  then show "\<forall>p. EvExists p True \<in> set log \<longrightarrow> (\<exists>e e'. EvKindDelete name p e \<in> set log \<and> EvRemove p e' \<in> set log \<and>
      (e = None \<and> e' = None \<longrightarrow> held log [] = [OpenFile p]))"
    using d assms(1,3) by fastforce
  show "EvKindCreate n os' (Some x) \<notin> set log" using assms(1,2,6) by (auto simp: list_all_iff)
qed

lemma bootstrap_resources:
  assumes "CreateKindBootstrapClusterAndLoadImages env ctx input (w, []) = (out, s')"
  shows "(\<forall>k. out = Returned k \<longrightarrow> (\<exists>path. k = requestedProvider input path \<and>
       EvKindCreate (cki_Name input) (kindCreateOptions env k) None \<in> set (snd s') \<and>
       mustHaveLoaded (cki_Name input) (cki_Images input) (snd s') \<and>
       held (snd s') [] = [KindCluster (cki_Name input), KubeconfigFile path, OpenFile path])) \<and>
    (panics out \<longrightarrow> (\<forall>path. EvExists path True \<in> set (snd s') \<longrightarrow>
       (\<exists>e e'. EvKindDelete (cki_Name input) path e \<in> set (snd s') \<and> EvRemove path e' \<in> set (snd s') \<and>
          (e = None \<and> e' = None \<longrightarrow> held (snd s') [] = [OpenFile path])))) \<and>
    (\<forall>os e path. EvTempFile (Inr path) \<in> set (snd s') \<and> EvKindCreate (cki_Name input) os (Some e) \<in> set (snd s') \<longrightarrow>
       panics out \<and> held (snd s') [] = [KubeconfigFile path, OpenFile path])"
proof (cases "ctx = None \<or> cki_Name input = []")
  case True
  then have "panics out" "snd s' = []"
    using assms by (auto simp: CreateKindBootstrapClusterAndLoadImages_def Expect_def split: if_splits)
  then show ?thesis by auto
next
  case False
  then obtain c where c: "ctx = Some c" "cki_Name input \<noteq> []" by auto
  let ?s1 = "Logf ''Creating a kind cluster with name %q'' [LogString (cki_Name input)] (w, [])"
  obtain out1 s2 where create: "kind_Create env (requestedProvider input []) ctx ?s1 = (out1, s2)" by (metis surj_pair)
  have run: "(out, s') = (case out1 of Panicked p \<Rightarrow> (Panicked p, s2) | Returned k \<Rightarrow> loadIntoCluster env ctx input k s2)"
    using assms c create bootstrap_provider [OF c(2)]
    by (cases out1) (auto simp: CreateKindBootstrapClusterAndLoadImages_def Expect_def Let_def)
  from create show ?thesis
  proof (cases rule: kind_Create_log)
    case (created path)
    let ?k = "requestedProvider input path"
    have k: "kp_name ?k = cki_Name input" "kp_kubeconfigPath ?k = path" by (simp_all add: requestedProvider_def)
    have load: "loadIntoCluster env (Some c) input ?k s2 = (out, s')" using run created(1) c(1) by simp
    from load k(1) show ?thesis
    proof (cases rule: loadIntoCluster_log)
      case missing
      then show ?thesis using created(2) by auto
    next
      case (loaded evs)
      have "mustHaveLoaded (cki_Name input) (cki_Images input) (snd s')"
        using mustHaveLoaded_mono [OF loaded(5), of "snd s2 @ [EvExists path True]" "[]"] loaded(2) k(2) by simp
      then show ?thesis using loaded created(2) k(2) by (auto simp: list_all_iff)
    next
      case (failed evs ds)
      have log: "snd s' = EvLogf (''INFO: '' @ ''Creating a kind cluster with name %q'' @ [CHR 0x0A]) [LogString (cki_Name input)] #
          EvTempFile (Inr path) # EvKindCreate (cki_Name input) (kindCreateOptions env ?k) None # EvExists path True # evs @ ds"
        using failed(2) created(2) k(2) by simp
      show ?thesis
        using failed(1) failed_log [OF log failed(3,4)] failed(5-7) k(2) by (cases out) simp_all
    qed
  qed (use run in auto)
qed


definition sampleE2e :: "unicode_tables \<Rightarrow> unit e2e_env" where
  "sampleE2e u = \<lparr>
     env_TempFile = (\<lambda>_ w. (Inr ''/tmp/e2e-kind1'', w)), env_TempDir = (\<lambda>_ w. (Inr ''/tmp/image-tar1'', w)),
     env_Remove = (\<lambda>_ w. (None, w)), env_RemoveAll = (\<lambda>_ w. w), env_Open = (\<lambda>_ w. (None, w)), env_Close = (\<lambda>_ w. w),
     env_Exists = (\<lambda>_ w. (True, w)), env_Docker = (\<lambda>_ w. (([], [], None), w)), env_KindCreate = (\<lambda>_ _ w. (None, w)),
     env_KindDelete = (\<lambda>_ _ w. (None, w)), env_ListInternalNodes = (\<lambda>_ w. (Inr [''capk-control-plane''], w)),
     env_LoadImageArchive = (\<lambda>_ _ w. (None, w)), env_SetDefaultsCluster = (\<lambda>c. c), env_Unicode = u\<rparr>"

definition sampleInput :: CreateKindBootstrapClusterAndLoadImagesInput where
  "sampleInput = \<lparr>cki_Name = ''capk'', cki_NodeImage = [], cki_RequiresDockerSock = True,
     cki_Images = [\<lparr>img_Name = ''manager:dev'', img_LoadBehavior = MustLoadImage\<rparr>]\<rparr>"


end
