(* ===== verification/E2e_Spec.thy ===== *)
theory E2e_Spec
  imports Go_Strings
begin

text \<open>
  The quick start test of \<open>src/e2e/common.go\<close> and \<open>src/e2e/quick_start.go\<close>: the functions ginkgo runs before,
  for and after the test, over the variables they share. The test framework of Cluster API is a
  parameter (\<open>framework\<close>); each of its calls may change the world and, since it has expectations of
  its own, may fail the test. The calls are logged in their order.
\<close>

subsection \<open>The framework\<close>

record e2eConfig =
  e2e_Variables :: "string \<rightharpoonup> string"
  e2e_GetVariable :: "string \<Rightarrow> string outcome"  \<comment> \<open>fails the test when there is none\<close>
  e2e_GetIntervals :: "string \<Rightarrow> string \<Rightarrow> string list"

record clusterProxy =
  px_Name :: string
  px_KubeconfigPath :: string

text \<open>A Cluster, as far as the test looks at it: its namespace and its name.\<close>

type_synonym clusterId = "string \<times> string"

record applyTemplateInput =
  ati_LogFolder :: string
  ati_ClusterctlConfigPath :: string
  ati_KubeconfigPath :: string
  ati_Namespace :: string
  ati_ClusterName :: string
  ati_KubernetesVersion :: string
  ati_ControlPlaneMachineCount :: int
  ati_WorkerMachineCount :: int
  ati_WaitForClusterIntervals :: "string list"
  ati_WaitForControlPlaneIntervals :: "string list"
  ati_WaitForMachineDeployments :: "string list"

datatype spec_event =
    EvBy string
  | EvMkdirAll string
  | EvCreateNamespaceAndWatchEvents string string
  | EvApplyClusterTemplateAndWait applyTemplateInput
  | EvCollectWorkloadClusterLogs string string string
  | EvDumpAllResources string string
  | EvDeleteAllClustersAndWait string "string list"
  | EvDeleteNamespace string
  | EvCancelWatches nat

record 'w framework =
  fw_Exists :: "string \<Rightarrow> 'w \<Rightarrow> bool"
  fw_MkdirAll :: "string \<Rightarrow> 'w \<Rightarrow> go_error option \<times> 'w"
  fw_RandomString :: "nat \<Rightarrow> 'w \<Rightarrow> string \<times> 'w"
  fw_CreateNamespaceAndWatchEvents :: "string \<Rightarrow> string \<Rightarrow> 'w \<Rightarrow> (string \<times> nat) outcome \<times> 'w"
    \<comment> \<open>the name of the namespace, and the function that cancels the watches\<close>
  fw_ApplyClusterTemplateAndWait :: "applyTemplateInput \<Rightarrow> 'w \<Rightarrow> clusterId option outcome \<times> 'w"
    \<comment> \<open>the Cluster of the result; the pointer to it may be nil\<close>
  fw_CollectWorkloadClusterLogs :: "string \<Rightarrow> string \<Rightarrow> string \<Rightarrow> 'w \<Rightarrow> unit outcome \<times> 'w"
  fw_DumpAllResources :: "string \<Rightarrow> string \<Rightarrow> 'w \<Rightarrow> unit outcome \<times> 'w"
  fw_DeleteAllClustersAndWait :: "string \<Rightarrow> string list \<Rightarrow> 'w \<Rightarrow> unit outcome \<times> 'w"
  fw_DeleteNamespace :: "string \<Rightarrow> 'w \<Rightarrow> unit outcome \<times> 'w"
  fw_CancelWatches :: "nat \<Rightarrow> 'w \<Rightarrow> unit outcome \<times> 'w"
  fw_Unicode :: unicode_tables

type_synonym 'w spec_state = "'w \<times> spec_event list"

text \<open>Calls one after the other, up to the first that fails the test.\<close>

fun runCalls :: "(spec_event \<times> ('w \<Rightarrow> unit outcome \<times> 'w)) list \<Rightarrow> 'w spec_state \<Rightarrow> unit outcome \<times> 'w spec_state" where
  "runCalls [] s = (Returned (), s)"
| "runCalls ((ev, call) # cs) s =
     (case call (fst s) of
        (Returned _, w) \<Rightarrow> runCalls cs (w, snd s @ [ev])
      | (Panicked p, w) \<Rightarrow> (Panicked p, (w, snd s @ [ev])))"

text \<open>\<open>Byf\<close> with the text it has been formatted to.\<close>

definition Byf :: "string \<Rightarrow> spec_event \<times> ('w \<Rightarrow> unit outcome \<times> 'w)" where
  "Byf msg = (EvBy msg, \<lambda>w. (Returned (), w))"

subsection \<open>Common steps\<close>

definition setupSpecNamespace ::
  "'w framework \<Rightarrow> string \<Rightarrow> clusterProxy \<Rightarrow> string \<Rightarrow> 'w spec_state \<Rightarrow> (string \<times> nat) outcome \<times> 'w spec_state" where
  "setupSpecNamespace fw specName proxy artifactFolder s =
     (case fw_RandomString fw 6 (fst s) of
        (rnd, w1) \<Rightarrow>
          let name = specName @ ''-'' @ rnd; folder = path_Join [artifactFolder, ''clusters'', px_Name proxy];
              log = snd s @ [EvBy (''Creating a namespace for hosting the '' @ Quote (fw_Unicode fw) specName @ '' test spec''),
                             EvCreateNamespaceAndWatchEvents name folder]
          in case fw_CreateNamespaceAndWatchEvents fw name folder w1 of (out, w2) \<Rightarrow> (out, (w2, log)))"

definition cleanupCalls ::
  "'w framework \<Rightarrow> string \<Rightarrow> string \<Rightarrow> clusterId \<Rightarrow> (string \<Rightarrow> string \<Rightarrow> string list) \<Rightarrow>
   (spec_event \<times> ('w \<Rightarrow> unit outcome \<times> 'w)) list" where
  "cleanupCalls fw specName namespace cluster intervalsGetter =
     (let intervals = intervalsGetter specName ''wait-delete-cluster''
      in [Byf (''Deleting cluster '' @ fst cluster @ ''/'' @ snd cluster),
          (EvDeleteAllClustersAndWait namespace intervals, fw_DeleteAllClustersAndWait fw namespace intervals),
          Byf (''Deleting namespace used for hosting the '' @ Quote (fw_Unicode fw) specName @ '' test spec''),
          (EvDeleteNamespace namespace, fw_DeleteNamespace fw namespace)])"

text \<open>The Cluster is reached through a pointer, and the namespace too.\<close>

definition dumpSpecResourcesAndCleanup ::
  "'w framework \<Rightarrow> string \<Rightarrow> clusterProxy \<Rightarrow> string \<Rightarrow> string option \<Rightarrow> nat option \<Rightarrow> clusterId option \<Rightarrow>
   (string \<Rightarrow> string \<Rightarrow> string list) \<Rightarrow> bool \<Rightarrow> 'w spec_state \<Rightarrow> unit outcome \<times> 'w spec_state" where
  "dumpSpecResourcesAndCleanup fw specName proxy artifactFolder namespace cancelWatches cluster intervalsGetter skipCleanup s =
     (case cluster of
        None \<Rightarrow> (Panicked ''nil pointer dereference'', s)
      | Some c \<Rightarrow>
          let logs = path_Join [artifactFolder, ''clusters'', snd c, ''machines''];
              collect = [Byf (''Dumping logs from the '' @ Quote (fw_Unicode fw) (snd c) @ '' workload cluster''),
                         (EvCollectWorkloadClusterLogs (fst c) (snd c) logs,
                          fw_CollectWorkloadClusterLogs fw (fst c) (snd c) logs)]
          in case runCalls collect s of
               (Panicked p, s1) \<Rightarrow> (Panicked p, s1)
             | (Returned _, s1) \<Rightarrow>
                 (case (namespace, cancelWatches) of
                    (Some ns, Some cancel) \<Rightarrow>
                      let folder = path_Join [artifactFolder, ''clusters'', px_Name proxy, ''resources'']
                      in runCalls
                           ([Byf (''Dumping all the Cluster API resources in the '' @ Quote (fw_Unicode fw) ns @ '' namespace''),
                             (EvDumpAllResources ns folder, fw_DumpAllResources fw ns folder)] @
                            (if \<not> skipCleanup then cleanupCalls fw specName ns c intervalsGetter else []) @
                            [(EvCancelWatches cancel, fw_CancelWatches fw cancel)]) s1
                  | _ \<Rightarrow> (Panicked ''nil pointer dereference'', s1)))"

subsection \<open>The quick start test\<close>

record QuickStartSpecInput =
  qi_E2EConfig :: "e2eConfig option"
  qi_ClusterctlConfigPath :: string
  qi_BootstrapClusterProxy :: "clusterProxy option"
  qi_ArtifactFolder :: string
  qi_SkipCleanup :: bool

text \<open>The variables the three functions share.\<close>

record quickStart =
  qs_input :: QuickStartSpecInput
  qs_namespace :: "string option"
  qs_cancelWatches :: "nat option"
  qs_clusterResources :: "clusterId option option"

definition KubernetesVersion :: string where
  "KubernetesVersion = ''KUBERNETES_VERSION''"

definition quickStartName :: string where
  "quickStartName = ''quick-start''"

definition quickStart_BeforeEach ::
  "'w framework \<Rightarrow> unit option \<Rightarrow> QuickStartSpecInput \<Rightarrow> quickStart \<Rightarrow> 'w spec_state \<Rightarrow>
   unit outcome \<times> quickStart \<times> 'w spec_state" where
  "quickStart_BeforeEach fw ctx input q s =
     (if ctx = None then (Panicked ''ctx is required for quick-start spec'', q, s)
      else
        let q1 = q\<lparr>qs_input := input\<rparr>
        in case (qi_E2EConfig input, qi_BootstrapClusterProxy input) of
             (None, _) \<Rightarrow> (Panicked ''Invalid argument. input.E2EConfig can't be nil when calling quick-start spec'', q1, s)
           | (Some config, proxy) \<Rightarrow>
               if \<not> fw_Exists fw (qi_ClusterctlConfigPath input) (fst s) then
                 (Panicked ''Invalid argument. input.ClusterctlConfigPath must be an existing file when calling quick-start spec'', q1, s)
               else
                 (case proxy of
                    None \<Rightarrow> (Panicked ''Invalid argument. input.BootstrapClusterProxy can't be nil when calling quick-start spec'', q1, s)
                  | Some px \<Rightarrow>
                      (case fw_MkdirAll fw (qi_ArtifactFolder input) (fst s) of
                         (err, w1) \<Rightarrow>
                           let s1 = (w1, snd s @ [EvMkdirAll (qi_ArtifactFolder input)])
                           in if err \<noteq> None then
                                (Panicked ''Invalid argument. input.ArtifactFolder can't be created for quick-start spec'', q1, s1)
                              else if e2e_Variables config KubernetesVersion = None then
                                (Panicked ''Expected the variables to have key KUBERNETES_VERSION'', q1, s1)
                              else
                                (case setupSpecNamespace fw quickStartName px (qi_ArtifactFolder input) s1 of
                                   (Panicked p, s2) \<Rightarrow> (Panicked p, q1, s2)
                                 | (Returned (ns, cancel), s2) \<Rightarrow>
                                     (Returned (), q1\<lparr>qs_namespace := Some ns, qs_cancelWatches := Some cancel\<rparr>, s2)))))"

definition applyInput :: "e2eConfig \<Rightarrow> clusterProxy \<Rightarrow> QuickStartSpecInput \<Rightarrow> string \<Rightarrow> string \<Rightarrow> string \<Rightarrow> applyTemplateInput" where
  "applyInput config px input ns rnd version =
     \<lparr>ati_LogFolder = path_Join [qi_ArtifactFolder input, ''clusters'', px_Name px],
      ati_ClusterctlConfigPath = qi_ClusterctlConfigPath input, ati_KubeconfigPath = px_KubeconfigPath px,
      ati_Namespace = ns, ati_ClusterName = quickStartName @ ''-'' @ rnd, ati_KubernetesVersion = version,
      ati_ControlPlaneMachineCount = 1, ati_WorkerMachineCount = 1,
      ati_WaitForClusterIntervals = e2e_GetIntervals config quickStartName ''wait-cluster'',
      ati_WaitForControlPlaneIntervals = e2e_GetIntervals config quickStartName ''wait-control-plane'',
      ati_WaitForMachineDeployments = e2e_GetIntervals config quickStartName ''wait-worker-nodes''\<rparr>"

definition quickStart_It ::
  "'w framework \<Rightarrow> quickStart \<Rightarrow> 'w spec_state \<Rightarrow> unit outcome \<times> quickStart \<times> 'w spec_state" where
  "quickStart_It fw q s =
     (let s1 = (fst s, snd s @ [EvBy ''Creating a workload cluster'']); input = qs_input q
      in case (qi_E2EConfig input, qi_BootstrapClusterProxy input, qs_namespace q) of
           (Some config, Some px, Some ns) \<Rightarrow>
             (case fw_RandomString fw 6 (fst s1) of
                (rnd, w1) \<Rightarrow>
                  (case e2e_GetVariable config KubernetesVersion of
                     Panicked p \<Rightarrow> (Panicked p, q, (w1, snd s1))
                   | Returned version \<Rightarrow>
                       let ai = applyInput config px input ns rnd version
                       in case fw_ApplyClusterTemplateAndWait fw ai w1 of
                            (Panicked p, w2) \<Rightarrow> (Panicked p, q, (w2, snd s1 @ [EvApplyClusterTemplateAndWait ai]))
                          | (Returned cluster, w2) \<Rightarrow>
                              (Returned (), q\<lparr>qs_clusterResources := Some cluster\<rparr>,
                               (w2, snd s1 @ [EvApplyClusterTemplateAndWait ai, EvBy ''PASSED!'']))))
         | _ \<Rightarrow> (Panicked ''nil pointer dereference'', q, s1))"

definition quickStart_AfterEach :: "'w framework \<Rightarrow> quickStart \<Rightarrow> 'w spec_state \<Rightarrow> unit outcome \<times> 'w spec_state" where
  "quickStart_AfterEach fw q s =
     (case (qs_clusterResources q, qi_E2EConfig (qs_input q), qi_BootstrapClusterProxy (qs_input q)) of
        (Some cluster, Some config, Some px) \<Rightarrow>
          dumpSpecResourcesAndCleanup fw quickStartName px (qi_ArtifactFolder (qs_input q)) (qs_namespace q)
            (qs_cancelWatches q) cluster (e2e_GetIntervals config) (qi_SkipCleanup (qs_input q)) s
      | _ \<Rightarrow> (Panicked ''nil pointer dereference'', s))"

text \<open>
  Ginkgo runs the function of \<open>It\<close> only if \<open>BeforeEach\<close> did not fail, and \<open>AfterEach\<close> in any case; the
  test has passed if none of the three failed.
\<close>

definition quickStart_run ::
  "'w framework \<Rightarrow> unit option \<Rightarrow> QuickStartSpecInput \<Rightarrow> quickStart \<Rightarrow> 'w \<Rightarrow> bool \<times> quickStart \<times> 'w spec_state" where
  "quickStart_run fw ctx input q0 w =
     (case quickStart_BeforeEach fw ctx input q0 (w, []) of
        (out1, q1, s1) \<Rightarrow>
          (case (if panics out1 then (out1, q1, s1) else quickStart_It fw q1 s1) of
             (out2, q2, s2) \<Rightarrow>
               (case quickStart_AfterEach fw q2 s2 of
                  (out3, s3) \<Rightarrow> (\<not> panics out2 \<and> \<not> panics out3, q2, s3))))"

subsection \<open>What is left behind\<close>

lemma runCalls_log:
  "runCalls cs s = (out, s') \<Longrightarrow>
    \<exists>n \<le> length cs. snd s' = snd s @ map fst (take n cs) \<and> (\<not> panics out \<longrightarrow> n = length cs)"
proof (induction cs arbitrary: s)
  case (Cons c cs)
  obtain ev call where c: "c = (ev, call)" by (metis surj_pair)
  obtain r w where r: "call (fst s) = (r, w)" by (metis surj_pair)
  show ?case
  proof (cases r)
    case (Returned u)
    then have "runCalls cs (w, snd s @ [ev]) = (out, s')" using Cons.prems c r by simp
    from Cons.IH [OF this] obtain n where "n \<le> length cs" "snd s' = snd s @ [ev] @ map fst (take n cs)"
        "\<not> panics out \<longrightarrow> n = length cs" by auto
    then show ?thesis using c by (intro exI [of _ "Suc n"]) auto
  next
    case (Panicked p)
    then show ?thesis using Cons.prems c r by (intro exI [of _ 1]) auto
  qed
qed simp

text \<open>The calls of a whole cleanup, in their order.\<close>

definition cleanupLog ::
  "'w framework \<Rightarrow> clusterProxy \<Rightarrow> string \<Rightarrow> string \<Rightarrow> nat \<Rightarrow> clusterId \<Rightarrow> (string \<Rightarrow> string \<Rightarrow> string list) \<Rightarrow> bool \<Rightarrow> spec_event list" where
  "cleanupLog fw px artifactFolder ns cancel c intervalsGetter skipCleanup =
     [EvBy (''Dumping logs from the '' @ Quote (fw_Unicode fw) (snd c) @ '' workload cluster''),
      EvCollectWorkloadClusterLogs (fst c) (snd c) (path_Join [artifactFolder, ''clusters'', snd c, ''machines'']),
      EvBy (''Dumping all the Cluster API resources in the '' @ Quote (fw_Unicode fw) ns @ '' namespace''),
      EvDumpAllResources ns (path_Join [artifactFolder, ''clusters'', px_Name px, ''resources''])] @
     (if skipCleanup then [] else
        [EvBy (''Deleting cluster '' @ fst c @ ''/'' @ snd c),
         EvDeleteAllClustersAndWait ns (intervalsGetter quickStartName ''wait-delete-cluster''),
         EvBy (''Deleting namespace used for hosting the '' @ Quote (fw_Unicode fw) quickStartName @ '' test spec''),
         EvDeleteNamespace ns]) @
     [EvCancelWatches cancel]"

text \<open>Wherever a cleanup ends, its calls were the first ones of a whole cleanup.\<close>

lemma runCalls_append:
  "runCalls (xs @ ys) s = (case runCalls xs s of (Returned _, s1) \<Rightarrow> runCalls ys s1 | (Panicked p, s1) \<Rightarrow> (Panicked p, s1))"
proof (induction xs arbitrary: s)
  case (Cons c xs)
  obtain ev call where c: "c = (ev, call)" by (metis surj_pair)
  show ?case using Cons.IH by (cases "call (fst s)") (auto simp: c split: outcome.splits)
qed simp

lemma dump_calls:
  "\<exists>calls. dumpSpecResourcesAndCleanup fw quickStartName px folder (Some ns) (Some cancel) (Some c) getter skip s = runCalls calls s \<and>
     map fst calls = cleanupLog fw px folder ns cancel c getter skip"
proof -
  let ?logs = "path_Join [folder, ''clusters'', snd c, ''machines'']" and ?res = "path_Join [folder, ''clusters'', px_Name px, ''resources'']"
  let ?collect = "[Byf (''Dumping logs from the '' @ Quote (fw_Unicode fw) (snd c) @ '' workload cluster''),
     (EvCollectWorkloadClusterLogs (fst c) (snd c) ?logs, fw_CollectWorkloadClusterLogs fw (fst c) (snd c) ?logs)]"
  let ?rest = "[Byf (''Dumping all the Cluster API resources in the '' @ Quote (fw_Unicode fw) ns @ '' namespace''),
       (EvDumpAllResources ns ?res, fw_DumpAllResources fw ns ?res)] @
      (if \<not> skip then cleanupCalls fw quickStartName ns c getter else []) @ [(EvCancelWatches cancel, fw_CancelWatches fw cancel)]"
  have "dumpSpecResourcesAndCleanup fw quickStartName px folder (Some ns) (Some cancel) (Some c) getter skip s = runCalls (?collect @ ?rest) s"
    unfolding runCalls_append dumpSpecResourcesAndCleanup_def
    by (simp add: Let_def del: runCalls.simps split: prod.splits outcome.splits)
  moreover have "map fst (?collect @ ?rest) = cleanupLog fw px folder ns cancel c getter skip"
    by (simp add: cleanupLog_def cleanupCalls_def Byf_def Let_def)
  ultimately show ?thesis by blast
qed

lemma dump_log:
  assumes "dumpSpecResourcesAndCleanup fw quickStartName px folder (Some ns) (Some cancel) (Some c) getter skip s = (out, s')"
  obtains n where "snd s' = snd s @ take n (cleanupLog fw px folder ns cancel c getter skip)"
    "\<not> panics out \<longrightarrow> n = length (cleanupLog fw px folder ns cancel c getter skip)"
proof -
  obtain calls where calls: "runCalls calls s = (out, s')" "map fst calls = cleanupLog fw px folder ns cancel c getter skip"
    using dump_calls [of fw px folder ns cancel c getter skip s] assms by auto
  from runCalls_log [OF calls(1)] obtain n where "snd s' = snd s @ map fst (take n calls)" "\<not> panics out \<longrightarrow> n = length calls"
    by blast
  then show thesis using that [of n] calls(2) by (auto simp flip: take_map length_map [of fst calls])
qed

fun cleaning :: "spec_event \<Rightarrow> bool" where
  "cleaning (EvDeleteNamespace _) = True"
| "cleaning (EvCancelWatches _) = True"
| "cleaning (EvDeleteAllClustersAndWait _ _) = True"
| "cleaning _ = False"

lemma BeforeEach_facts:
  assumes "quickStart_BeforeEach fw ctx input q s = (out, q', s')"
  shows "qs_clusterResources q' = qs_clusterResources q" "\<exists>evs. snd s' = snd s @ evs \<and> (\<forall>e \<in> set evs. \<not> cleaning e)"
    "\<not> panics out \<Longrightarrow> qs_input q' = input \<and> qs_namespace q' \<noteq> None \<and> qs_cancelWatches q' \<noteq> None"
  using assms
  by (auto simp: quickStart_BeforeEach_def setupSpecNamespace_def Let_def split: if_splits option.splits prod.splits outcome.splits)

lemma It_facts:
  assumes "quickStart_It fw q s = (out, q', s')"
  shows "\<exists>evs. snd s' = snd s @ evs \<and> (\<forall>e \<in> set evs. \<not> cleaning e)"
    "panics out \<Longrightarrow> q' = q"
    "\<not> panics out \<Longrightarrow> \<exists>c. q' = q\<lparr>qs_clusterResources := Some c\<rparr> \<and> qi_E2EConfig (qs_input q) \<noteq> None \<and>
       qi_BootstrapClusterProxy (qs_input q) \<noteq> None"
  using assms
  by (auto simp: quickStart_It_def Let_def split: option.splits prod.splits outcome.splits)

text \<open>
  C39. The cleanup of the quick start test. Whenever the cluster of the test came up, the test ends with
  the steps of its cleanup in their order: the logs of the machines are collected and the resources of
  the namespace are dumped, then the clusters and the namespace are deleted unless that is to be
  skipped, and at last the watches are cancelled. Nothing is deleted or cancelled before, a step that
  fails is the last one, and a test that passed has done them all.
\<close>

theorem quickStart_cleanup:
  assumes "quickStart_run fw ctx input q0 w = (passed, q, s')" and "qs_clusterResources q0 = None"
    and "passed \<or> (\<exists>c. qs_clusterResources q = Some (Some c))"
  shows "\<exists>before n config px ns cancel cluster. qi_E2EConfig input = Some config \<and> qi_BootstrapClusterProxy input = Some px \<and>
     qs_namespace q = Some ns \<and> qs_cancelWatches q = Some cancel \<and> qs_clusterResources q = Some (Some cluster) \<and>
     snd s' = before @ take n (cleanupLog fw px (qi_ArtifactFolder input) ns cancel cluster (e2e_GetIntervals config) (qi_SkipCleanup input)) \<and>
     (\<forall>e \<in> set before. \<not> cleaning e) \<and>
     (passed \<longrightarrow> n = length (cleanupLog fw px (qi_ArtifactFolder input) ns cancel cluster (e2e_GetIntervals config) (qi_SkipCleanup input)))"
proof -
  obtain o1 q1 s1 where b: "quickStart_BeforeEach fw ctx input q0 (w, []) = (o1, q1, s1)" by (metis surj_pair)
  obtain o2 q2 s2 where i: "(if panics o1 then (o1, q1, s1) else quickStart_It fw q1 s1) = (o2, q2, s2)" by (metis surj_pair)
  obtain o3 s3 where a: "quickStart_AfterEach fw q2 s2 = (o3, s3)" by (metis surj_pair)
  have run: "passed = (\<not> panics o2 \<and> \<not> panics o3)" "q = q2" "s' = s3" using assms(1) b i a by (simp_all add: quickStart_run_def)
  note before = BeforeEach_facts [OF b]
  have quiet: "\<forall>e \<in> set (snd s2). \<not> cleaning e"
    using i before(2) It_facts(1) [of fw q1 s1 o2 q2 s2] by (cases "panics o1") auto
  have o: "\<not> panics o1" "\<not> panics o2"
    using i It_facts(2) [of fw q1 s1 o2 q2 s2] before(1) assms(2,3) run(1,2) by (cases "panics o1"; cases "panics o2"; force)+
  then obtain r where r: "q2 = q1\<lparr>qs_clusterResources := Some r\<rparr>" "qi_E2EConfig (qs_input q1) \<noteq> None"
      "qi_BootstrapClusterProxy (qs_input q1) \<noteq> None"
    using It_facts(3) [of fw q1 s1 o2 q2 s2] i by auto
  then obtain config px ns cancel where known: "qi_E2EConfig input = Some config" "qi_BootstrapClusterProxy input = Some px"
      "qs_namespace q1 = Some ns" "qs_cancelWatches q1 = Some cancel" "qs_input q1 = input"
    using before(3) [OF o(1)] by auto
  have dump: "dumpSpecResourcesAndCleanup fw quickStartName px (qi_ArtifactFolder input) (Some ns) (Some cancel) r
      (e2e_GetIntervals config) (qi_SkipCleanup input) s2 = (o3, s3)"
    using a r(1) known by (simp add: quickStart_AfterEach_def)
  have "r \<noteq> None" using dump assms(3) run(1,2) r(1) by (cases r) (auto simp: dumpSpecResourcesAndCleanup_def)
  then obtain cluster where cluster: "r = Some cluster" by blast
  obtain n where "snd s3 = snd s2 @ take n (cleanupLog fw px (qi_ArtifactFolder input) ns cancel cluster (e2e_GetIntervals config) (qi_SkipCleanup input))"
      "\<not> panics o3 \<longrightarrow> n = length (cleanupLog fw px (qi_ArtifactFolder input) ns cancel cluster (e2e_GetIntervals config) (qi_SkipCleanup input))"
    by (rule dump_log [OF dump [unfolded cluster]])
  then show ?thesis using known r(1) cluster quiet run by (intro exI conjI) (assumption | simp)+
qed

text \<open>
  A test that failed before its cluster was there fails again while it cleans up, at the result that was
  never set: nothing is deleted and nothing cancelled, although its namespace may have been created.
\<close>

lemma quickStart_failed_early:
  assumes "quickStart_run fw ctx input q0 w = (passed, q, s')" and "qs_clusterResources q = None"
  shows "\<not> passed" and "\<forall>e \<in> set (snd s'). \<not> cleaning e"
proof -
  obtain o1 q1 s1 where b: "quickStart_BeforeEach fw ctx input q0 (w, []) = (o1, q1, s1)" by (metis surj_pair)
  obtain o2 q2 s2 where i: "(if panics o1 then (o1, q1, s1) else quickStart_It fw q1 s1) = (o2, q2, s2)" by (metis surj_pair)
  have "\<forall>e \<in> set (snd s2). \<not> cleaning e"
    using i BeforeEach_facts(2) [OF b] It_facts(1) [of fw q1 s1 o2 q2 s2] by (cases "panics o1") auto
  moreover have q: "q = q2" using assms(1) b i by (auto simp: quickStart_run_def split: prod.splits)
  have "quickStart_AfterEach fw q2 s2 = (Panicked ''nil pointer dereference'', s2)"
    using assms(2) q by (simp add: quickStart_AfterEach_def)
  then have "\<not> passed \<and> s' = s2" using assms(1) b i by (simp add: quickStart_run_def)
  ultimately show "\<not> passed" "\<forall>e \<in> set (snd s'). \<not> cleaning e" by simp_all
qed

text \<open>A framework whose cluster never comes up.\<close>

definition stuckFramework :: "unicode_tables \<Rightarrow> unit framework" where
  "stuckFramework u = \<lparr>fw_Exists = (\<lambda>_ _. True), fw_MkdirAll = (\<lambda>_ w. (None, w)), fw_RandomString = (\<lambda>_ w. (''abcdef'', w)),
     fw_CreateNamespaceAndWatchEvents = (\<lambda>n _ w. (Returned (n, 0), w)),
     fw_ApplyClusterTemplateAndWait = (\<lambda>_ w. (Panicked ''Timed out'', w)),
     fw_CollectWorkloadClusterLogs = (\<lambda>_ _ _ w. (Returned (), w)), fw_DumpAllResources = (\<lambda>_ _ w. (Returned (), w)),
     fw_DeleteAllClustersAndWait = (\<lambda>_ _ w. (Returned (), w)), fw_DeleteNamespace = (\<lambda>_ w. (Returned (), w)),
     fw_CancelWatches = (\<lambda>_ w. (Returned (), w)), fw_Unicode = u\<rparr>"

definition sampleSpecInput :: QuickStartSpecInput where
  "sampleSpecInput = \<lparr>qi_E2EConfig = Some \<lparr>e2e_Variables = [KubernetesVersion \<mapsto> ''v1.19.1''],
       e2e_GetVariable = (\<lambda>_. Returned ''v1.19.1''), e2e_GetIntervals = (\<lambda>_ _. [])\<rparr>,
     qi_ClusterctlConfigPath = ''/config'', qi_BootstrapClusterProxy = Some \<lparr>px_Name = ''bootstrap'', px_KubeconfigPath = ''/kubeconfig''\<rparr>,
     qi_ArtifactFolder = ''/artifacts'', qi_SkipCleanup = False\<rparr>"

text \<open>A framework whose cluster comes up; the clusters are deleted, or the wait for that times out.\<close>

definition readyFramework :: "unicode_tables \<Rightarrow> unit outcome \<Rightarrow> unit framework" where
  "readyFramework u deleted = (stuckFramework u)\<lparr>
     fw_ApplyClusterTemplateAndWait := (\<lambda>ai w. (Returned (Some (ati_Namespace ai, ati_ClusterName ai)), w)),
     fw_DeleteAllClustersAndWait := (\<lambda>_ _ w. (deleted, w))\<rparr>"

definition freshQuickStart :: quickStart where
  "freshQuickStart = \<lparr>qs_input = sampleSpecInput, qs_namespace = None, qs_cancelWatches = None, qs_clusterResources = None\<rparr>"

lemma ready_run:
  "\<exists>q s'. quickStart_run (readyFramework u deleted) (Some ()) sampleSpecInput freshQuickStart () = (\<not> panics deleted, q, s') \<and>
     qs_namespace q = Some ''quick-start-abcdef'' \<and> qs_cancelWatches q = Some 0 \<and>
     qs_clusterResources q = Some (Some (''quick-start-abcdef'', ''quick-start-abcdef''))"
  by (cases deleted)
    (simp_all add: quickStart_run_def quickStart_BeforeEach_def setupSpecNamespace_def quickStart_It_def quickStart_AfterEach_def
      dumpSpecResourcesAndCleanup_def cleanupCalls_def Byf_def applyInput_def
      Let_def readyFramework_def stuckFramework_def sampleSpecInput_def quickStartName_def freshQuickStart_def)

theorem quickStart_cleanup_witness:
  "\<exists>u q s' done. quickStart_run (readyFramework u (Returned ())) (Some ()) sampleSpecInput freshQuickStart () = (True, q, s') \<and>
     snd s' = done @ [EvDeleteNamespace ''quick-start-abcdef'', EvCancelWatches 0]"
proof -
  fix u
  obtain q s' where run: "quickStart_run (readyFramework u (Returned ())) (Some ()) sampleSpecInput freshQuickStart () = (True, q, s')"
      "qs_namespace q = Some ''quick-start-abcdef''" "qs_cancelWatches q = Some 0"
    using ready_run [of u "Returned ()"] by auto
  have "qs_clusterResources freshQuickStart = None" by (simp add: freshQuickStart_def)
  from quickStart_cleanup [OF run(1) this] run(2,3) obtain before folder px getter c where
      "snd s' = before @ cleanupLog (readyFramework u (Returned ())) px folder ''quick-start-abcdef'' 0 c getter (qi_SkipCleanup sampleSpecInput)"
    by fastforce
  moreover have "\<not> qi_SkipCleanup sampleSpecInput" by (simp add: sampleSpecInput_def)
  ultimately have "\<exists>done. snd s' = done @ [EvDeleteNamespace ''quick-start-abcdef'', EvCancelWatches 0]"
    by (simp add: cleanupLog_def)
  then show ?thesis using run(1) by blast
qed

end
