(* ===== verification/E2e_Suite.thy ===== *)
theory E2e_Suite
  imports E2e_Correct E2e_Spec
begin

text \<open>
  The suite of end-to-end tests, \<open>src/e2e/e2e_suite_test.go\<close> and \<open>src/e2e/quick_start_test.go\<close>: the functions
  ginkgo runs before and after all tests, over the variables they share with the quick start test.
  It composes the bootstrap package and that test; their calls become part of one log. What the suite uses of
  the framework beyond them is a parameter (\<open>suite_env\<close>).
\<close>

subsection \<open>The environment\<close>

text \<open>The test configuration, with what only the suite reads.\<close>

record suiteConfig = e2eConfig +
  sc_ManagementClusterName :: string
  sc_HasDockerProvider :: bool
  sc_Images :: "ContainerImage list"
  sc_InfrastructureProviders :: "string list"

record createRepositoryInput =
  cri_Config :: suiteConfig
  cri_RepositoryFolder :: string
  cri_FileTransformations :: "(string \<times> string) list"

record initClusterInput =
  ici_Proxy :: clusterProxy
  ici_ClusterctlConfigPath :: string
  ici_InfrastructureProviders :: "string list"
  ici_LogFolder :: string
  ici_Intervals :: "string list"

datatype suite_event =
    EvSuiteBy string
  | EvSuiteMkdirAll string
  | EvLoadE2EConfig string
  | EvRegisterTransformation string string
  | EvCreateRepository string
  | EvBootstrap e2e_event
  | EvNewClusterProxy string string
  | EvInitManagementCluster initClusterInput
  | EvSpec spec_event
  | EvProxyDispose clusterProxy

record ('w, 'sch) suite_env =
  se_boot :: "'w e2e_env"
  se_fw :: "'w framework"
  se_NewScheme :: 'sch
  se_TryAddDefaultSchemes :: "'sch \<Rightarrow> 'sch"
  se_LoadE2EConfig :: "string \<Rightarrow> 'w \<Rightarrow> suiteConfig option outcome \<times> 'w"
  se_RegisterTransformation :: "string \<Rightarrow> string \<Rightarrow> createRepositoryInput \<Rightarrow> 'w \<Rightarrow> createRepositoryInput outcome \<times> 'w"
  se_CreateRepository :: "createRepositoryInput \<Rightarrow> 'w \<Rightarrow> string outcome \<times> 'w"
  se_NewClusterProxy :: "string \<Rightarrow> string \<Rightarrow> 'sch \<Rightarrow> 'w \<Rightarrow> clusterProxy option outcome \<times> 'w"
  se_InitManagementCluster :: "initClusterInput \<Rightarrow> 'w \<Rightarrow> unit outcome \<times> 'w"
  se_ProxyDispose :: "clusterProxy \<Rightarrow> 'w \<Rightarrow> unit outcome \<times> 'w"

text \<open>The flags and the variables the functions of the suite share.\<close>

record e2eSuite =
  su_configPath :: string
  su_useExistingCluster :: bool
  su_artifactFolder :: string
  su_skipCleanup :: bool
  su_e2eConfig :: "suiteConfig option"
  su_clusterctlConfigPath :: string
  su_bootstrapClusterProvider :: "kindClusterProvider option"
  su_bootstrapClusterProxy :: "clusterProxy option"

text \<open>The values before the flags are parsed.\<close>

definition suite_init :: e2eSuite where
  "suite_init = \<lparr>su_configPath = [], su_useExistingCluster = False, su_artifactFolder = [], su_skipCleanup = False,
     su_e2eConfig = None, su_clusterctlConfigPath = [], su_bootstrapClusterProvider = None, su_bootstrapClusterProxy = None\<rparr>"

text \<open>The world, the log and the variables; a failure keeps what was assigned before it.\<close>

type_synonym 'w suite_state = "'w \<times> suite_event list \<times> e2eSuite"

text \<open>A step of the suite: it returns or fails the test. \<open>suiteThen\<close> goes on only after it returned.\<close>

type_synonym ('a, 'w) suite_step = "'w suite_state \<Rightarrow> 'a outcome \<times> 'w suite_state"

definition suiteThen :: "('a, 'w) suite_step \<Rightarrow> ('a \<Rightarrow> ('b, 'w) suite_step) \<Rightarrow> ('b, 'w) suite_step" where
  "suiteThen step continue s =
     (case step s of (Returned a, s1) \<Rightarrow> continue a s1 | (Panicked p, s1) \<Rightarrow> (Panicked p, s1))"

definition suiteReturn :: "'a \<Rightarrow> ('a, 'w) suite_step" where
  "suiteReturn a s = (Returned a, s)"

definition suiteExpect :: "bool \<Rightarrow> string \<Rightarrow> (unit, 'w) suite_step" where
  "suiteExpect expected message s = (if expected then Returned () else Panicked message, s)"

definition suiteExists :: "('w, 'sch) suite_env \<Rightarrow> string \<Rightarrow> string \<Rightarrow> (unit, 'w) suite_step" where
  "suiteExists env path message s = suiteExpect (fw_Exists (se_fw env) path (fst s)) message s"

definition suiteCall :: "suite_event \<Rightarrow> ('w \<Rightarrow> 'a outcome \<times> 'w) \<Rightarrow> ('a, 'w) suite_step" where
  "suiteCall ev call s = (case s of (w, log, su) \<Rightarrow> case call w of (out, w') \<Rightarrow> (out, (w', log @ [ev], su)))"

definition suiteBy :: "string \<Rightarrow> (unit, 'w) suite_step" where
  "suiteBy msg = suiteCall (EvSuiteBy msg) (Pair (Returned ()))"

definition suiteAssign :: "(e2eSuite \<Rightarrow> e2eSuite) \<Rightarrow> (unit, 'w) suite_step" where
  "suiteAssign f s = (case s of (w, log, su) \<Rightarrow> (Returned (), (w, log, f su)))"

text \<open>The bootstrap package keeps a log of its own.\<close>

definition bootstrapCall :: "('w e2e \<Rightarrow> 'a outcome \<times> 'w e2e) \<Rightarrow> ('a, 'w) suite_step" where
  "bootstrapCall call s = (case s of (w, log, su) \<Rightarrow> case call (w, []) of (out, (w', evs)) \<Rightarrow>
     (out, (w', log @ map EvBootstrap evs, su)))"

subsection \<open>Setting up\<close>

definition CNIPath :: string where
  "CNIPath = ''CNI''"

definition CNIResources :: string where
  "CNIResources = ''CNI_RESOURCES''"

definition initScheme :: "('w, 'sch) suite_env \<Rightarrow> 'sch" where
  "initScheme env = se_TryAddDefaultSchemes env (se_NewScheme env)"

definition loadE2EConfig :: "('w, 'sch) suite_env \<Rightarrow> string \<Rightarrow> (suiteConfig, 'w) suite_step" where
  "loadE2EConfig env configPath =
     suiteThen (suiteCall (EvLoadE2EConfig configPath) (se_LoadE2EConfig env configPath)) (\<lambda>config.
       case config of
         None \<Rightarrow> (\<lambda>s. (Panicked (''Failed to load E2E config from '' @ configPath), s))
       | Some c \<Rightarrow> suiteReturn c)"

definition createClusterctlLocalRepository ::
  "('w, 'sch) suite_env \<Rightarrow> suiteConfig \<Rightarrow> string \<Rightarrow> (string, 'w) suite_step" where
  "createClusterctlLocalRepository env config repositoryFolder =
     (let input = \<lparr>cri_Config = config, cri_RepositoryFolder = repositoryFolder, cri_FileTransformations = []\<rparr>
      in suiteThen (suiteExpect (e2e_Variables config CNIPath \<noteq> None) (''Missing '' @ CNIPath @ '' variable in the config'')) (\<lambda>_.
         suiteThen (\<lambda>s. (e2e_GetVariable config CNIPath, s)) (\<lambda>cniPath.
         suiteThen (suiteExists env cniPath (''The '' @ CNIPath @ '' variable should resolve to an existing file'')) (\<lambda>_.
         suiteThen (suiteCall (EvRegisterTransformation cniPath CNIResources)
             (se_RegisterTransformation env cniPath CNIResources input)) (\<lambda>input1.
         suiteThen (suiteCall (EvCreateRepository repositoryFolder) (se_CreateRepository env input1)) (\<lambda>clusterctlConfig.
         suiteThen (suiteExists env clusterctlConfig
             (''The clusterctl config file does not exists in the local repository '' @ repositoryFolder)) (\<lambda>_.
         suiteReturn clusterctlConfig)))))))"

text \<open>The provider of the bootstrap cluster is nil for an existing cluster.\<close>

definition setupBootstrapCluster ::
  "('w, 'sch) suite_env \<Rightarrow> suiteConfig \<Rightarrow> 'sch \<Rightarrow> bool \<Rightarrow> (kindClusterProvider option \<times> clusterProxy, 'w) suite_step" where
  "setupBootstrapCluster env config scheme useExistingCluster =
     suiteThen
       (if \<not> useExistingCluster then
          suiteThen (bootstrapCall (CreateKindBootstrapClusterAndLoadImages (se_boot env) (Some ())
              \<lparr>cki_Name = sc_ManagementClusterName config, cki_NodeImage = [],
               cki_RequiresDockerSock = sc_HasDockerProvider config, cki_Images = sc_Images config\<rparr>)) (\<lambda>k.
          suiteThen (suiteExists env (GetKubeconfigPath k) ''Failed to get the kubeconfig file for the bootstrap cluster'') (\<lambda>_.
          suiteReturn (Some k, GetKubeconfigPath k)))
        else suiteReturn (None, [])) (\<lambda>(clusterProvider, kubeconfigPath).
     suiteThen (suiteCall (EvNewClusterProxy ''bootstrap'' kubeconfigPath)
         (se_NewClusterProxy env ''bootstrap'' kubeconfigPath scheme)) (\<lambda>clusterProxy.
       case clusterProxy of
         None \<Rightarrow> (\<lambda>s. (Panicked ''Failed to get a bootstrap cluster proxy'', s))
       | Some px \<Rightarrow> suiteReturn (clusterProvider, px)))"

definition initBootstrapCluster ::
  "('w, 'sch) suite_env \<Rightarrow> clusterProxy \<Rightarrow> suiteConfig \<Rightarrow> string \<Rightarrow> string \<Rightarrow> (unit, 'w) suite_step" where
  "initBootstrapCluster env px config clusterctlConfig artifactFolder =
     (let input = \<lparr>ici_Proxy = px, ici_ClusterctlConfigPath = clusterctlConfig,
         ici_InfrastructureProviders = sc_InfrastructureProviders config,
         ici_LogFolder = path_Join [artifactFolder, ''clusters'', px_Name px],
         ici_Intervals = e2e_GetIntervals config (px_Name px) ''wait-controllers''\<rparr>
      in suiteCall (EvInitManagementCluster input) (se_InitManagementCluster env input))"

text \<open>The proxy goes first; a proxy that cannot be disposed of keeps its cluster.\<close>

definition tearDown ::
  "('w, 'sch) suite_env \<Rightarrow> kindClusterProvider option \<Rightarrow> clusterProxy option \<Rightarrow> (unit, 'w) suite_step" where
  "tearDown env provider proxy =
     suiteThen (case proxy of
         Some px \<Rightarrow> suiteCall (EvProxyDispose px) (se_ProxyDispose env px)
       | None \<Rightarrow> suiteReturn ()) (\<lambda>_.
       case provider of
         Some k \<Rightarrow> bootstrapCall (kind_Dispose (se_boot env) k (Some ()))
       | None \<Rightarrow> suiteReturn ())"

subsection \<open>The suite\<close>

text \<open>The functions ginkgo runs before and after all tests.\<close>

definition suiteMkdirAll :: "('w, 'sch) suite_env \<Rightarrow> string \<Rightarrow> (unit, 'w) suite_step" where
  "suiteMkdirAll env folder =
     suiteThen (suiteCall (EvSuiteMkdirAll folder) (\<lambda>w. apfst Returned (fw_MkdirAll (se_fw env) folder w))) (\<lambda>err.
       suiteExpect (err = None) (''Invalid test suite argument. Can't create e2e.artifacts-folder '' @
         Quote (fw_Unicode (se_fw env)) folder))"

definition BeforeSuite :: "('w, 'sch) suite_env \<Rightarrow> e2eSuite \<Rightarrow> (unit, 'w) suite_step" where
  "BeforeSuite env flags =
     (let folder = su_artifactFolder flags; quote = Quote (fw_Unicode (se_fw env)); scheme = initScheme env
      in suiteThen (suiteExists env (su_configPath flags)
           ''Invalid test suite argument. e2e.config should be an existing file.'') (\<lambda>_.
         suiteThen (suiteMkdirAll env folder) (\<lambda>_.
         suiteThen (suiteBy ''Initializing a runtime.Scheme with all the GVK relevant for this test'') (\<lambda>_.
         suiteThen (suiteBy (''Loading the e2e test configuration from '' @ quote (su_configPath flags))) (\<lambda>_.
         suiteThen (loadE2EConfig env (su_configPath flags)) (\<lambda>config.
         suiteThen (suiteAssign (su_e2eConfig_update (\<lambda>_. Some config))) (\<lambda>_.
         suiteThen (suiteBy (''Creating a clusterctl local repository into '' @ quote folder)) (\<lambda>_.
         suiteThen (createClusterctlLocalRepository env config (path_Join [folder, ''repository''])) (\<lambda>clusterctlConfigPath.
         suiteThen (suiteAssign (su_clusterctlConfigPath_update (\<lambda>_. clusterctlConfigPath))) (\<lambda>_.
         suiteThen (suiteBy ''Setting up the bootstrap cluster'') (\<lambda>_.
         suiteThen (setupBootstrapCluster env config scheme (su_useExistingCluster flags)) (\<lambda>(provider, px).
         suiteThen (suiteAssign (\<lambda>su. su\<lparr>su_bootstrapClusterProvider := provider, su_bootstrapClusterProxy := Some px\<rparr>)) (\<lambda>_.
         suiteThen (suiteBy ''Initializing the bootstrap cluster'') (\<lambda>_.
         initBootstrapCluster env px config clusterctlConfigPath folder))))))))))))))"

definition AfterSuite :: "('w, 'sch) suite_env \<Rightarrow> e2eSuite \<Rightarrow> (unit, 'w) suite_step" where
  "AfterSuite env su =
     suiteThen (suiteBy ''Tearing down the management cluster'') (\<lambda>_.
       if \<not> su_skipCleanup su then tearDown env (su_bootstrapClusterProvider su) (su_bootstrapClusterProxy su)
       else suiteReturn ())"

text \<open>The quick start test reads its input from the variables when it runs.\<close>

definition quickStartInput :: "e2eSuite \<Rightarrow> QuickStartSpecInput" where
  "quickStartInput su = \<lparr>qi_E2EConfig = map_option e2eConfig.truncate (su_e2eConfig su),
     qi_ClusterctlConfigPath = su_clusterctlConfigPath su, qi_BootstrapClusterProxy = su_bootstrapClusterProxy su,
     qi_ArtifactFolder = su_artifactFolder su, qi_SkipCleanup = su_skipCleanup su\<rparr>"

definition noQuickStart :: quickStart where
  "noQuickStart = \<lparr>qs_input = \<lparr>qi_E2EConfig = None, qi_ClusterctlConfigPath = [], qi_BootstrapClusterProxy = None,
     qi_ArtifactFolder = [], qi_SkipCleanup = False\<rparr>, qs_namespace = None, qs_cancelWatches = None, qs_clusterResources = None\<rparr>"

definition quickStartTest :: "('w, 'sch) suite_env \<Rightarrow> 'w suite_state \<Rightarrow> bool \<times> 'w suite_state" where
  "quickStartTest env s = (case s of (w, log, su) \<Rightarrow>
     case quickStart_run (se_fw env) (Some ()) (quickStartInput su) noQuickStart w of
       (passed, _, (w', evs)) \<Rightarrow> (passed, (w', log @ map EvSpec evs, su)))"

text \<open>
  Ginkgo runs the tests only if \<open>BeforeSuite\<close> did not fail, and \<open>AfterSuite\<close> in any case; the suite has
  passed if nothing failed. \<open>flags\<close> are the variables after the flags have been parsed.
\<close>

definition TestE2E :: "('w, 'sch) suite_env \<Rightarrow> e2eSuite \<Rightarrow> 'w \<Rightarrow> bool \<times> 'w suite_state" where
  "TestE2E env flags w =
     (case BeforeSuite env flags (w, [], flags) of
        (out1, s1) \<Rightarrow>
          (case (if panics out1 then (False, s1) else quickStartTest env s1) of
             (passed, s2) \<Rightarrow>
               (case AfterSuite env (snd (snd s2)) s2 of
                  (out3, s3) \<Rightarrow> (passed \<and> \<not> panics out3, s3))))"

subsection \<open>What the steps lead to\<close>

text \<open>A step that returns \<open>a\<close> leads to a state of \<open>Q a\<close>, and one that fails to one of \<open>E\<close>.\<close>

fun endsIn :: "('a \<Rightarrow> 'w suite_state \<Rightarrow> bool) \<Rightarrow> ('w suite_state \<Rightarrow> bool) \<Rightarrow> 'a outcome \<times> 'w suite_state \<Rightarrow> bool" where
  "endsIn Q E (Returned a, s) = Q a s"
| "endsIn Q E (Panicked p, s) = E s"

lemma step_cases:
  obtains (returned) a t where "r = (Returned a, t)" | (failed) p t where "r = (Panicked p, t)"
  by (cases r; cases "fst r") auto

lemma endsIn_then [simp]: "endsIn Q E (suiteThen step continue s) = endsIn (\<lambda>a s'. endsIn Q E (continue a s')) E (step s)"
  by (cases "step s" rule: step_cases) (simp_all add: suiteThen_def)

lemma endsIn_mono: "endsIn Q E r \<Longrightarrow> (\<And>a s. Q a s \<Longrightarrow> Q' a s) \<Longrightarrow> (\<And>s. E s \<Longrightarrow> E' s) \<Longrightarrow> endsIn Q' E' r"
  by (cases r rule: step_cases) auto

lemma endsIn_simps [simp]:
  "endsIn Q E (suiteReturn a s) = Q a s"
  "endsIn Q' E (suiteExpect ok msg s) = (if ok then Q' () s else E s)"
  "endsIn Q' E (suiteAssign f (w, log, su)) = Q' () (w, log, f su)"
  "endsIn Q' E (suiteBy msg (w, log, su)) = Q' () (w, log @ [EvSuiteBy msg], su)"
  by (simp_all add: suiteReturn_def suiteExpect_def suiteAssign_def suiteBy_def suiteCall_def)

named_theorems suite_rules \<open>what holds after a step of the suite\<close>

lemma call_ends [suite_rules]:
  "(\<And>a w'. Q a (w', log @ [ev], su)) \<Longrightarrow> (\<And>w'. E (w', log @ [ev], su)) \<Longrightarrow> endsIn Q E (suiteCall ev call (w, log, su))"
  by (cases "call w" rule: prod.exhaust, rename_tac out w', case_tac out) (simp_all add: suiteCall_def)

lemma exists_ends [suite_rules]: "Q () s \<Longrightarrow> E s \<Longrightarrow> endsIn Q E (suiteExists env path msg s)"
  by (simp add: suiteExists_def)

text \<open>Events that have nothing to do with the bootstrap cluster and its proxy.\<close>

fun quiet :: "suite_event \<Rightarrow> bool" where
  "quiet (EvBootstrap _) = False"
| "quiet (EvNewClusterProxy _ _) = False"
| "quiet (EvProxyDispose _) = False"
| "quiet (EvInitManagementCluster _) = False"
| "quiet _ = True"

text \<open>A step that only makes quiet calls and assigns nothing.\<close>

definition quietly :: "('a, 'w) suite_step \<Rightarrow> bool" where
  "quietly step \<longleftrightarrow> (\<forall>w log su. let r = \<lambda>s'. \<exists>w' evs. s' = (w', log @ evs, su) \<and> list_all quiet evs
     in endsIn (\<lambda>_. r) r (step (w, log, su)))"

lemma quietly_ends [suite_rules]:
  assumes "quietly step" and "\<And>a w' evs. list_all quiet evs \<Longrightarrow> Q a (w', log @ evs, su)"
    and "\<And>w' evs. list_all quiet evs \<Longrightarrow> E (w', log @ evs, su)"
  shows "endsIn Q E (step (w, log, su))"
  by (rule endsIn_mono [OF assms(1) [unfolded quietly_def Let_def, rule_format]]) (auto intro: assms(2,3))

lemma quietly_then: "quietly step \<Longrightarrow> (\<And>a. quietly (continue a)) \<Longrightarrow> quietly (suiteThen step continue)"
  unfolding quietly_def [of "suiteThen step continue"] Let_def
  by (auto intro!: quietly_ends [of step] quietly_ends [of "continue _"])

lemma quietly_basic:
  "quietly (suiteReturn a)" "quietly (suiteExpect ok msg)" "quietly (suiteExists env path msg)" "quietly (\<lambda>s. (out, s))"
  "quiet ev \<Longrightarrow> quietly (suiteCall ev call)" "quietly (suiteBy msg)"
  by (auto simp: quietly_def suiteExists_def Let_def suiteBy_def intro!: call_ends) (cases out; simp)

lemma quietly_loadE2EConfig: "quietly (loadE2EConfig env path)"
  unfolding loadE2EConfig_def by (intro quietly_then quietly_basic) (auto intro!: quietly_basic split: option.splits)

lemma quietly_repository: "quietly (createClusterctlLocalRepository env config folder)"
  unfolding createClusterctlLocalRepository_def Let_def by (intro quietly_then quietly_basic) simp_all

lemma quietly_mkdir: "quietly (suiteMkdirAll env folder)"
  unfolding suiteMkdirAll_def by (intro quietly_then quietly_basic) simp_all

subsection \<open>The bootstrap cluster of the suite\<close>

text \<open>The calls of the bootstrap package.\<close>

fun bootEvents :: "suite_event list \<Rightarrow> e2e_event list" where
  "bootEvents [] = []"
| "bootEvents (EvBootstrap e # log) = e # bootEvents log"
| "bootEvents (_ # log) = bootEvents log"

lemma bootEvents_append [simp]: "bootEvents (xs @ ys) = bootEvents xs @ bootEvents ys"
  by (induction xs rule: bootEvents.induct) auto

lemma bootEvents_map [simp]: "bootEvents (map EvBootstrap evs) = evs"
  by (induction evs) auto

lemma bootEvents_quiet [simp]: "list_all quiet evs \<Longrightarrow> bootEvents evs = []"
  by (induction evs rule: bootEvents.induct) auto

definition bootstrapInput :: "suiteConfig \<Rightarrow> CreateKindBootstrapClusterAndLoadImagesInput" where
  "bootstrapInput config = \<lparr>cki_Name = sc_ManagementClusterName config, cki_NodeImage = [],
     cki_RequiresDockerSock = sc_HasDockerProvider config, cki_Images = sc_Images config\<rparr>"

text \<open>The kind cluster of \<open>config\<close> is there, with its kubeconfig file at \<open>path\<close>, which is open, and nothing else is held.\<close>

definition clusterHeld :: "suiteConfig \<Rightarrow> string \<Rightarrow> suite_event list \<Rightarrow> bool" where
  "clusterHeld config path log \<longleftrightarrow>
     held (bootEvents log) [] = [KindCluster (sc_ManagementClusterName config), KubeconfigFile path, OpenFile path]"

lemma create_ends:
  assumes "bootEvents log = []"
    and "\<And>path w' evs. clusterHeld config path (log @ map EvBootstrap evs) \<Longrightarrow>
      Q (requestedProvider (bootstrapInput config) path) (w', log @ map EvBootstrap evs, su)"
    and "\<And>w' evs. E (w', log @ map EvBootstrap evs, su)"
  shows "endsIn Q E (bootstrapCall (CreateKindBootstrapClusterAndLoadImages env (Some ()) (bootstrapInput config)) (w, log, su))"
proof -
  obtain out w' evs where run: "CreateKindBootstrapClusterAndLoadImages env (Some ()) (bootstrapInput config) (w, []) = (out, (w', evs))"
    by (metis surj_pair)
  show ?thesis
  proof (cases out)
    case (Returned k)
    then obtain path where "k = requestedProvider (bootstrapInput config) path"
        "held evs [] = [KindCluster (sc_ManagementClusterName config), KubeconfigFile path, OpenFile path]"
      using bootstrap_resources [OF run] by (auto simp: bootstrapInput_def)
    then show ?thesis using run Returned assms(1,2) by (simp add: bootstrapCall_def clusterHeld_def)
  next
    case (Panicked p)
    then show ?thesis using run assms(3) by (simp add: bootstrapCall_def)
  qed
qed

text \<open>What setting up the bootstrap cluster leads to, and what it leaves when it fails.\<close>

lemma setup_ends:
  assumes "bootEvents log = []" and "\<And>n p. EvNewClusterProxy n p \<notin> set log"
    and made: "\<And>k px w' evs. if existing then k = None \<and> bootEvents evs = []
        else (\<exists>path. k = Some (requestedProvider (bootstrapInput config) path) \<and> clusterHeld config path (log @ evs)) \<Longrightarrow>
        Q (k, px) (w', log @ evs, su)"
    and failed: "\<And>w' evs. if existing then bootEvents evs = []
        else (\<forall>n p. EvNewClusterProxy n p \<in> set evs \<longrightarrow> (\<exists>path. clusterHeld config path (log @ evs))) \<Longrightarrow>
        E (w', log @ evs, su)"
  shows "endsIn Q E (setupBootstrapCluster env config scheme existing (w, log, su))"
proof -
  have proxy: "endsIn Q E (suiteThen (suiteCall (EvNewClusterProxy ''bootstrap'' kube)
        (se_NewClusterProxy env ''bootstrap'' kube scheme)) (\<lambda>clusterProxy.
       case clusterProxy of
         None \<Rightarrow> (\<lambda>s. (Panicked ''Failed to get a bootstrap cluster proxy'', s))
       | Some px \<Rightarrow> suiteReturn (k, px)) (w', log @ evs, su))"
    if h: "if existing then k = None \<and> bootEvents evs = []
        else (\<exists>path. k = Some (requestedProvider (bootstrapInput config) path) \<and> clusterHeld config path (log @ evs))" for k kube w' evs
  proof -
    let ?evs = "evs @ [EvNewClusterProxy ''bootstrap'' kube]"
    have "clusterHeld config path (log @ ?evs) = clusterHeld config path (log @ evs)" for path by (simp add: clusterHeld_def)
    then have "Q (k, px) (w'', log @ ?evs, su)" "E (w'', log @ ?evs, su)" for px w''
      using h by (intro made failed; auto)+
    then show ?thesis by (auto split: option.splits intro!: call_ends)
  qed
  show ?thesis
  proof (cases existing)
    case True
    then show ?thesis using proxy [of None "[]"] by (simp add: setupBootstrapCluster_def)
  next
    case False
    have kube: "E (w', log @ map EvBootstrap evs, su)" for w' evs by (rule failed) (use False in auto)
    have input: "\<lparr>cki_Name = sc_ManagementClusterName config, cki_NodeImage = [],
         cki_RequiresDockerSock = sc_HasDockerProvider config, cki_Images = sc_Images config\<rparr> = bootstrapInput config"
      by (simp add: bootstrapInput_def)
    show ?thesis
      unfolding setupBootstrapCluster_def input
      using False by (auto intro!: create_ends [OF assms(1)] exists_ends kube proxy [unfolded endsIn_then])
  qed
qed

text \<open>The variables and the log once \<open>BeforeSuite\<close> has returned or failed.\<close>

definition freshSuite :: "e2eSuite \<Rightarrow> bool" where
  "freshSuite su \<longleftrightarrow> su_e2eConfig su = None \<and> su_bootstrapClusterProvider su = None \<and> su_bootstrapClusterProxy su = None"

definition ownsCluster :: "e2eSuite \<Rightarrow> suite_event list \<Rightarrow> e2eSuite \<Rightarrow> bool" where
  "ownsCluster flags log su \<longleftrightarrow> (\<exists>config px. su_e2eConfig su = Some config \<and> su_bootstrapClusterProxy su = Some px \<and>
     (if su_useExistingCluster flags then su_bootstrapClusterProvider su = None \<and> bootEvents log = []
      else \<exists>path. su_bootstrapClusterProvider su = Some (requestedProvider (bootstrapInput config) path) \<and> clusterHeld config path log))"

definition lacksCluster :: "e2eSuite \<Rightarrow> suite_event list \<Rightarrow> e2eSuite \<Rightarrow> bool" where
  "lacksCluster flags log su \<longleftrightarrow> su_bootstrapClusterProvider su = None \<and> su_bootstrapClusterProxy su = None \<and>
     (if su_useExistingCluster flags then bootEvents log = []
      else \<forall>n p. EvNewClusterProxy n p \<in> set log \<longrightarrow> (\<exists>config path. clusterHeld config path log))"

definition sameFlags :: "e2eSuite \<Rightarrow> e2eSuite \<Rightarrow> bool" where
  "sameFlags flags su \<longleftrightarrow> su_configPath su = su_configPath flags \<and> su_useExistingCluster su = su_useExistingCluster flags \<and>
     su_artifactFolder su = su_artifactFolder flags \<and> su_skipCleanup su = su_skipCleanup flags"

abbreviation startedWell :: "e2eSuite \<Rightarrow> unit \<Rightarrow> 'w suite_state \<Rightarrow> bool" where
  "startedWell flags \<equiv> \<lambda>_ (w, log, su). sameFlags flags su \<and> ownsCluster flags log su \<and>
     (\<exists>i. EvInitManagementCluster i \<in> set log \<and> Some (ici_Proxy i) = su_bootstrapClusterProxy su)"

abbreviation startedBadly :: "e2eSuite \<Rightarrow> 'w suite_state \<Rightarrow> bool" where
  "startedBadly flags \<equiv> \<lambda>(w, log, su). sameFlags flags su \<and> (ownsCluster flags log su \<or> lacksCluster flags log su)"

lemma early_failure:
  assumes "freshSuite flags" and "list_all quiet log"
  shows "startedBadly flags (w, log, flags)" and "startedBadly flags (w, log, flags\<lparr>su_e2eConfig := c\<rparr>)"
  using assms by (auto simp: lacksCluster_def freshSuite_def sameFlags_def list_all_iff)

lemma start_ends:
  assumes "freshSuite flags" and "list_all quiet log"
  shows "endsIn (startedWell flags) (startedBadly flags)
    (suiteThen (setupBootstrapCluster env config scheme (su_useExistingCluster flags)) (\<lambda>(provider, px).
     suiteThen (suiteAssign (\<lambda>su. su\<lparr>su_bootstrapClusterProvider := provider, su_bootstrapClusterProxy := Some px\<rparr>)) (\<lambda>_.
     suiteThen (suiteBy msg) (\<lambda>_. initBootstrapCluster env px config path folder)))
     (w, log, flags\<lparr>su_e2eConfig := Some config, su_clusterctlConfigPath := path\<rparr>))"
proof -
  have none: "bootEvents log = []" "\<And>n p. EvNewClusterProxy n p \<notin> set log" using assms(2) by (auto simp: list_all_iff)
  show ?thesis
    unfolding endsIn_then
  proof (rule setup_ends [OF none, where config = config], goal_cases)
    case (1 k px w' evs)
    let ?su = "flags\<lparr>su_e2eConfig := Some config, su_clusterctlConfigPath := path, su_bootstrapClusterProvider := k,
        su_bootstrapClusterProxy := Some px\<rparr>"
    let ?log = "\<lambda>i. log @ evs @ [EvSuiteBy msg, EvInitManagementCluster i]"
    have "sameFlags flags ?su" "ownsCluster flags (?log i) ?su" for i
      using 1 none(1) by (auto simp: sameFlags_def ownsCluster_def clusterHeld_def split: if_splits)
    then show ?case by (auto simp: initBootstrapCluster_def Let_def intro!: call_ends)
  next
    case (2 w' evs)
    then show ?case
      using assms(1) none by (auto simp: lacksCluster_def freshSuite_def sameFlags_def split: if_splits)
  qed
qed

lemma BeforeSuite_ends:
  assumes "freshSuite flags"
  shows "endsIn (startedWell flags) (startedBadly flags) (BeforeSuite env flags (w, [], flags))"
  unfolding BeforeSuite_def Let_def endsIn_then
  by (rule exists_ends, rule quietly_ends [OF quietly_mkdir], simp only: endsIn_simps,
      rule quietly_ends [OF quietly_loadE2EConfig], simp only: endsIn_simps,
      rule quietly_ends [OF quietly_repository], simp only: endsIn_simps,
      rule start_ends [OF assms, unfolded endsIn_then]; (rule early_failure [OF assms])?; simp)

subsection \<open>Tearing down\<close>

lemma bootEvents_spec [simp]: "bootEvents (map EvSpec evs) = []"
  by (induction evs) auto

lemma clusterHeld_append [simp]: "bootEvents evs = [] \<Longrightarrow> clusterHeld config path (log @ evs) = clusterHeld config path log"
  by (simp add: clusterHeld_def)

text \<open>What the end of the suite makes of a bootstrap cluster it owns.\<close>

definition clusterDisposed :: "suiteConfig \<Rightarrow> string \<Rightarrow> suite_event list \<Rightarrow> bool" where
  "clusterDisposed config path log \<longleftrightarrow> (\<exists>e e'.
     EvBootstrap (EvKindDelete (sc_ManagementClusterName config) path e) \<in> set log \<and> EvBootstrap (EvRemove path e') \<in> set log \<and>
     (e = None \<and> e' = None \<longrightarrow> held (bootEvents log) [] = [OpenFile path]))"

lemma dispose_ends:
  assumes "clusterHeld config path log"
    and "\<And>w' evs. clusterDisposed config path (log @ map EvBootstrap evs) \<Longrightarrow> Q () (w', log @ map EvBootstrap evs, su)"
  shows "endsIn Q E (bootstrapCall (kind_Dispose env (requestedProvider (bootstrapInput config) path) (Some ())) (w, log, su))"
proof -
  let ?k = "requestedProvider (bootstrapInput config) path"
  have k: "kp_name ?k = sc_ManagementClusterName config" "kp_kubeconfigPath ?k = path"
    by (simp_all add: requestedProvider_def bootstrapInput_def)
  obtain out w' evs where run: "kind_Dispose env ?k (Some ()) (w, []) = (out, (w', evs))" by (metis surj_pair)
  have d: "out = Returned ()" "disposed (sc_ManagementClusterName config) path evs" using dispose_events [OF run] k by auto
  then have "clusterDisposed config path (log @ map EvBootstrap evs)"
    using assms(1) unfolding disposed_def clusterDisposed_def clusterHeld_def by fastforce
  then show ?thesis using run d(1) assms(2) by (simp add: bootstrapCall_def)
qed

text \<open>The state the suite ends in, when it owned a bootstrap cluster.\<close>

definition tornDown :: "bool \<Rightarrow> suiteConfig \<Rightarrow> clusterProxy \<Rightarrow> string \<Rightarrow> suite_event list \<Rightarrow> bool" where
  "tornDown skip config px path log \<longleftrightarrow>
     (if skip then clusterHeld config path log
      else EvProxyDispose px \<in> set log \<and>
        (last log = EvProxyDispose px \<and> clusterHeld config path log \<or> clusterDisposed config path log))"

lemma AfterSuite_owned:
  assumes "su_bootstrapClusterProvider su = Some (requestedProvider (bootstrapInput config) path)"
    and "su_bootstrapClusterProxy su = Some px" and "clusterHeld config path log"
  shows "endsIn
    (\<lambda>_ (w', log', su'). su' = su \<and> set log \<subseteq> set log' \<and> tornDown (su_skipCleanup su) config px path log' \<and>
       (\<not> su_skipCleanup su \<longrightarrow> clusterDisposed config path log'))
    (\<lambda>(w', log', su'). su' = su \<and> set log \<subseteq> set log' \<and> tornDown (su_skipCleanup su) config px path log')
    (AfterSuite env su (w, log, su))"
  using assms by (auto simp: AfterSuite_def tearDown_def tornDown_def intro!: call_ends dispose_ends)

lemma AfterSuite_none:
  assumes "su_bootstrapClusterProvider su = None"
  defines "ended \<equiv> \<lambda>log (w' :: 'w, log', su'). su' = su \<and>
    (\<exists>evs. log' = log @ evs \<and> bootEvents evs = [] \<and> (\<forall>n p. EvNewClusterProxy n p \<notin> set evs))"
  shows "endsIn (\<lambda>_. ended log) (ended log) (AfterSuite env su (w, log, su))"
  using assms(1) by (auto simp: ended_def AfterSuite_def tearDown_def split: option.splits intro!: call_ends)

lemma quickStartTest_log:
  assumes "quickStartTest env (w, log, su) = (passed, s')"
  shows "\<exists>w' evs. s' = (w', log @ map EvSpec evs, su)"
  using assms by (auto simp: quickStartTest_def split: prod.splits)

text \<open>
  C40. What the end-to-end suite leaves behind. With an existing cluster it never calls the bootstrap package. A suite that
  passed has loaded its configuration and initialized the cluster behind the proxy its tests used. Once
  the bootstrap cluster and its proxy are in the variables of the suite, whether the rest of the
  setup and the tests pass or fail, the end of the suite keeps the cluster if cleanup is skipped and
  otherwise disposes of the proxy and then deletes the cluster and its kubeconfig file, unless disposing of
  the proxy fails, which fails the suite and keeps the cluster. But a cluster whose proxy could not be made is never put into the
  variables: the suite fails and leaves it behind.
\<close>

theorem suite_cleanup:
  assumes "TestE2E env flags w = (passed, (w', log, su))" and "freshSuite flags"
  shows "(su_useExistingCluster flags \<longrightarrow> bootEvents log = []) \<and>
    (passed \<longrightarrow> (\<exists>config i. su_e2eConfig su = Some config \<and> EvInitManagementCluster i \<in> set log \<and>
       su_bootstrapClusterProxy su = Some (ici_Proxy i))) \<and>
    (\<forall>k. su_bootstrapClusterProvider su = Some k \<longrightarrow> (\<exists>config px path.
       su_e2eConfig su = Some config \<and> su_bootstrapClusterProxy su = Some px \<and>
       k = requestedProvider (bootstrapInput config) path \<and> tornDown (su_skipCleanup flags) config px path log \<and>
       (passed \<and> \<not> su_skipCleanup flags \<longrightarrow> clusterDisposed config path log))) \<and>
    (su_bootstrapClusterProvider su = None \<and> \<not> su_useExistingCluster flags \<longrightarrow>
       \<not> passed \<and> (\<forall>n p. EvNewClusterProxy n p \<in> set log \<longrightarrow> (\<exists>config path. clusterHeld config path log)))"
proof -
  obtain o1 s1 where b: "BeforeSuite env flags (w, [], flags) = (o1, s1)" by (metis surj_pair)
  obtain p2 s2 where t: "(if panics o1 then (False, s1) else quickStartTest env s1) = (p2, s2)" by (metis surj_pair)
  obtain o3 s3 where a: "AfterSuite env (snd (snd s2)) s2 = (o3, s3)" by (metis surj_pair)
  have run: "passed = (p2 \<and> \<not> panics o3)" "s3 = (w', log, su)" using assms(1) b t a by (simp_all add: TestE2E_def)
  obtain w1 log1 su1 where s1: "s1 = (w1, log1, su1)" by (metis surj_pair)
  have before: "startedBadly flags s1" and good: "\<not> panics o1 \<Longrightarrow> startedWell flags () s1"
    using BeforeSuite_ends [OF assms(2), of env w] b by (cases o1; auto simp: s1)+
  obtain w2 evs where s2: "s2 = (w2, log1 @ map EvSpec evs, su1)"
    using t quickStartTest_log [of env w1 log1 su1 p2 s2] s1 by (cases "panics o1") (auto intro: that [of _ "[]"])
  have p2: "p2 \<Longrightarrow> \<not> panics o1" using t by auto
  have flags: "su_skipCleanup su1 = su_skipCleanup flags" using before s1 by (simp add: sameFlags_def)
  show ?thesis
  proof (cases "ownsCluster flags log1 su1 \<and> \<not> su_useExistingCluster flags")
    case True
    then obtain config px path where own: "su_e2eConfig su1 = Some config" "su_bootstrapClusterProxy su1 = Some px"
        "su_bootstrapClusterProvider su1 = Some (requestedProvider (bootstrapInput config) path)" "clusterHeld config path (log1 @ map EvSpec evs)"
      by (auto simp: ownsCluster_def)
    have e: "su = su1" "set (log1 @ map EvSpec evs) \<subseteq> set log" "tornDown (su_skipCleanup flags) config px path log"
        "\<not> panics o3 \<Longrightarrow> \<not> su_skipCleanup flags \<Longrightarrow> clusterDisposed config path log"
      using AfterSuite_owned [OF own(3,2,4), where env = env and w = w2] a run(2) s2 flags by (cases o3; auto)+
    then show ?thesis using True own p2 run(1) good s1 by auto
  next
    case False
    then have none: "su_bootstrapClusterProvider su1 = None" "su_useExistingCluster flags \<or> lacksCluster flags log1 su1"
      using before s1 by (auto simp: ownsCluster_def lacksCluster_def)
    obtain evs' where e: "su = su1" "log = log1 @ map EvSpec evs @ evs'" "bootEvents evs' = []" "\<And>n p. EvNewClusterProxy n p \<notin> set evs'"
      using AfterSuite_none [OF none(1), where env = env and w = w2 and log = "log1 @ map EvSpec evs"] a run(2) s2
      by (cases o3) auto
    have boot: "bootEvents log = bootEvents log1" using e(2,3) by simp
    have passing: "ownsCluster flags log1 su1 \<and> (\<exists>i. EvInitManagementCluster i \<in> set log \<and> su_bootstrapClusterProxy su1 = Some (ici_Proxy i))"
      if passed using that run(1) p2 good s1 e(2) by fastforce
    have kept: "\<exists>config path. clusterHeld config path log"
      if "EvNewClusterProxy n p \<in> set log" "\<not> su_useExistingCluster flags" for n p
    proof -
      have "EvNewClusterProxy n p \<in> set log1" using that(1) e(2,4) by auto
      then show ?thesis using none(2) that(2) boot unfolding lacksCluster_def clusterHeld_def by auto
    qed
    have old: "bootEvents log1 = []" if "su_useExistingCluster flags"
      using that before s1 by (auto simp: ownsCluster_def lacksCluster_def)
    show ?thesis using False none(1) e(1) boot old passing kept by (auto simp: ownsCluster_def)
  qed
qed

text \<open>A suite whose test fails, since the workload cluster never comes up.\<close>

definition sampleConfig :: suiteConfig where
  "sampleConfig = \<lparr>e2e_Variables = [KubernetesVersion \<mapsto> ''v1.19.1'', CNIPath \<mapsto> ''/cni.yaml''],
     e2e_GetVariable = (\<lambda>v. Returned ''/cni.yaml''), e2e_GetIntervals = (\<lambda>_ _. []), sc_ManagementClusterName = ''capk'',
     sc_HasDockerProvider = True, sc_Images = [], sc_InfrastructureProviders = [''kubernetes'']\<rparr>"

definition sampleSuite :: "unicode_tables \<Rightarrow> (unit, unit) suite_env" where
  "sampleSuite u = \<lparr>se_boot = sampleE2e u, se_fw = stuckFramework u, se_NewScheme = (), se_TryAddDefaultSchemes = (\<lambda>x. x),
     se_LoadE2EConfig = (\<lambda>_ w. (Returned (Some sampleConfig), w)), se_RegisterTransformation = (\<lambda>_ _ i w. (Returned i, w)),
     se_CreateRepository = (\<lambda>_ w. (Returned ''/artifacts/repository/config'', w)),
     se_NewClusterProxy = (\<lambda>n k _ w. (Returned (Some \<lparr>px_Name = n, px_KubeconfigPath = k\<rparr>), w)),
     se_InitManagementCluster = (\<lambda>_ w. (Returned (), w)), se_ProxyDispose = (\<lambda>_ w. (Returned (), w))\<rparr>"

definition sampleFlags :: e2eSuite where
  "sampleFlags = suite_init\<lparr>su_configPath := ''/e2e.yaml'', su_artifactFolder := ''/artifacts''\<rparr>"

theorem suite_cleanup_witness:
  "\<exists>u w log su folder path px. TestE2E (sampleSuite u) sampleFlags () = (False, (w, log, su)) \<and>
     EvSpec (EvCreateNamespaceAndWatchEvents ''quick-start-abcdef'' folder) \<in> set log \<and>
     su_bootstrapClusterProvider su \<noteq> None \<and> tornDown False sampleConfig px path log"
proof -
  fix u
  have fresh: "freshSuite sampleFlags" by (simp add: freshSuite_def sampleFlags_def suite_init_def)
  obtain passed w log su where run: "TestE2E (sampleSuite u) sampleFlags () = (passed, (w, log, su))" by (metis surj_pair)
  then have "\<exists>folder. \<not> passed \<and> su_bootstrapClusterProvider su \<noteq> None \<and> su_e2eConfig su = Some sampleConfig \<and> 
     EvSpec (EvCreateNamespaceAndWatchEvents ''quick-start-abcdef'' folder) \<in> set log"
    by (simp add: TestE2E_def BeforeSuite_def AfterSuite_def suiteThen_def suiteExists_def suiteExpect_def suiteBy_def suiteCall_def
      suiteMkdirAll_def suiteAssign_def Let_def loadE2EConfig_def createClusterctlLocalRepository_def setupBootstrapCluster_def
      bootstrapCall_def initBootstrapCluster_def tearDown_def quickStartTest_def sampleSuite_def suiteReturn_def initScheme_def
      CreateKindBootstrapClusterAndLoadImages_def Expect_def sampleE2e_def sampleConfig_def
        bootstrapOptions_def NewKindClusterProvider_def kind_Create_def act_def createKindCluster_def loadIntoCluster_def
        LoadImagesToKindCluster_def Logf_def kind_Dispose_def actQuietly_def
      quickStart_run_def quickStart_BeforeEach_def setupSpecNamespace_def quickStart_It_def quickStart_AfterEach_def
        stuckFramework_def quickStartName_def sampleFlags_def suite_init_def CNIPath_def KubernetesVersion_def GetKubeconfigPath_def
      quickStartInput_def e2eConfig.defs noQuickStart_def WithDockerSockMount_def) auto
  then obtain k folder where ends: "\<not> passed" "su_bootstrapClusterProvider su = Some k" "su_e2eConfig su = Some sampleConfig"
      "EvSpec (EvCreateNamespaceAndWatchEvents ''quick-start-abcdef'' folder) \<in> set log" by blast
  have "\<not> su_skipCleanup sampleFlags" by (simp add: sampleFlags_def suite_init_def)
  then obtain px path where "tornDown False sampleConfig px path log"
    using suite_cleanup [OF run fresh, THEN conjunct2, THEN conjunct2, THEN conjunct1, rule_format, OF ends(2)] ends(3) by auto
  moreover have "TestE2E (sampleSuite u) sampleFlags () = (False, (w, log, su))" "su_bootstrapClusterProvider su \<noteq> None"
    using run ends(1,2) by simp_all
  ultimately show ?thesis using ends(4) by blast
qed

end
