(* ===== verification/Spec2Isabelle.thy ===== *)
theory Spec2Isabelle
  imports Capk_Convert Deep_Copy_Correct Stale_Reads Life_Cycles Machine_Faults Machine_Bounds Fleet E2e_Suite
begin

text \<open>
  A model of the Kubernetes infrastructure provider for Cluster API, a controller that runs the
  machines of a cluster as Pods of another cluster, with the theorems that make it correct.

  \<^bold>\<open>The program.\<close> \<open>src/main.go\<close> starts a manager, which runs either two controllers or the webhook
  server. The cluster controller (\<open>src/controllers/kubernetescluster_controller.go\<close>) gives every
  KubernetesCluster a Service and records its address as the control plane endpoint. The machine
  controller (\<open>kubernetesmachine_controller.go\<close> with \<open>kubernetesmachine_utils.go\<close>) gives every
  KubernetesMachine a Pod with a kind container, its volumes and a Secret with a bootstrap script; it
  runs commands in the container, patches the provider ID into the node and reports the machine ready.
  The script is made from a cloud-config document by \<open>src/pkg/cloudinit\<close>, commands are run by
  \<open>src/pkg/pod\<close>, and \<open>src/pkg/utils\<close> reads the status and the service class of Pods. \<open>src/api\<close> holds the
  custom resources in two versions, with defaulting and conversion. \<open>src/e2e\<close> holds the end-to-end test and
  the kind cluster it runs in.

  \<^bold>\<open>How code becomes HOL.\<close> A struct is a record with the fields of the code, behind a prefix; fields that
  the code only carries along are folded into one \<open>Rest\<close> field. A nil pointer is \<open>None\<close>. A handler that
  writes through a pointer takes the object and returns it changed. An error is a value of \<open>go_error\<close>,
  a result with an error a sum, a panic the constructor \<open>Panicked\<close> of \<open>outcome\<close>. \<open>int32\<close> is a
  32-bit word, strings are byte lists. A request to the API server or a command in a container goes
  through \<open>perform\<close>, which asks the client, a parameter over an arbitrary world \<open>'w\<close>, and appends the
  request with its answer to a log; the theorems on \<open>Reconcile\<close> are statements about that log and so
  hold for every behaviour of the API server, including errors at every point. Logging is left out.

  \<^bold>\<open>The theories.\<close>
  \<^item> \<open>Capk_Prelude\<close>, \<open>Kube_Objects\<close>, \<open>Kube_Client\<close>: shared lemmas and collections; the objects of the
    API; the client, the log, and the helper functions of controller-runtime, cluster-api and
    apimachinery as the parameter \<open>kube_lib\<close> with their documented behaviour as the locale
    \<open>kube_contract\<close>, which the reference helpers \<open>refLib\<close> meet.
  \<^item> \<open>Go_Strings\<close>, \<open>Go_Base64\<close>, \<open>Go_Json\<close>: what the code uses of Go's standard library. The JSON
    parser descends on fuel; \<open>parse_enough\<close> shows that the fuel it is given, twice the length of the text,
    never is the reason of a failure. The decoder of base64 is proved to invert the encoder.
  \<^item> \<open>Capk_Types\<close>, \<open>Capk_Convert\<close>: the custom resources of \<open>src/api\<close>, their methods, defaulting, and the
    conversions; nothing is lost on the way to the old version and back (locale \<open>lossless_hub\<close>).
  \<^item> \<open>Go_Heap\<close>, \<open>Deep_Copy\<close>, \<open>Deep_Copy_Correct\<close>: the generated deep copies, over a heap in which structs can
    share strings and arrays. They meet the contract of a deep copy (locale \<open>copyable\<close>), provided that the
    copies of the structs of Kubernetes do (locale \<open>deep_contract\<close>). Everywhere else values are immutable.
  \<^item> \<open>Pod_Status\<close>, \<open>Pod_Qos\<close>: \<open>src/pkg/utils\<close>; \<open>GetPodQOS\<close> compares totals over the
    containers; for Pods whose requests do not exceed their limits it gives the documented class.
  \<^item> \<open>Machine_Storage\<close>, \<open>Machine_Pod\<close>, \<open>Machine_Pod_Correct\<close>: the claims, volumes and Pods of a machine.
    Additions to lists by name follow the locale \<open>adds_missing\<close>. Created Pods are well formed, owned,
    labelled, never of the best effort class, and hold the kind container the controller asks for.
  \<^item> \<open>Pod_Exec\<close>: commands in a container; the stream to the container is a request to the client.
  \<^item> \<open>Cloud_Init\<close>, \<open>Cloud_Init_Correct\<close>: the scanner of cloud-config documents, refined from a cut into
    fragments, and the script of every module. Lines longer than 65535 bytes stop the scanner with an
    error, as \<open>bufio.Scanner\<close> does with its default buffer. YAML and gzip are parameters.
  \<^item> \<open>Machine_Reconcile\<close>, \<open>Machine_Runs\<close>, \<open>Machine_Correct\<close>, \<open>Machine_Properties\<close>: the machine
    controller as functions; its complete runs as inductive relations that cover the functions; lemmas
    on the runs; safety properties of \<open>Reconcile\<close>.
  \<^item> \<open>Cluster_Reconcile\<close>, \<open>Cluster_Correct\<close>, \<open>Cluster_Properties\<close>: the same for the cluster controller.
  \<^item> \<open>Call_Steps\<close>, \<open>Machine_Bounds\<close>: a reconcile as a run of single calls, for invariants that every call
    keeps; and how many calls a reconcile makes.
  \<^item> \<open>Control_Loop\<close>, \<open>Machine_Progress\<close>, \<open>Machine_Converge\<close>, \<open>Cluster_Converge\<close>: what reconciling again
    and again leads to (locale \<open>control_loop\<close>: a reconcile whose result is a function of what is
    stored, and a bound after which that no longer changes). The API server is stated as a contract
    over a view of the world, \<open>apiServer\<close> and \<open>clusterServer\<close>, which promises something only for the calls
    about the one object with the given key and for patches of an object that is not being deleted, and
    the loops of both controllers are proved to reach their goal and to settle there, after two
    reconciles. \<open>deletionServer\<close> is the contract while a machine is being deleted: it is gone with its last
    finalizer, and the patch that takes that away may be answered by an error.
  \<^item> \<open>Machine_Faults\<close>: what makes a machine fail, and the loop after any number of reconciles in which calls failed
    (\<open>flakyServer\<close>).
  \<^item> \<open>Scopes\<close>, \<open>Fleet\<close>: which objects a reconcile writes; and many machines and clusters on one API server
    (\<open>fleetServer\<close>), whose loops the locale \<open>loop_family\<close> runs in any order. It is interpreted on
    both controllers together; that a reconcile leaves the other objects alone follows from its scope.
  \<^item> \<open>Watch_Map\<close>, \<open>Manager\<close>: which requests an event on a watched object enqueues (locale
    \<open>owner_mapper\<close>), and \<open>main\<close> with the scheme and the set-up of both controllers and the webhooks.
  \<^item> \<open>System\<close>, \<open>Histories\<close>: the Service against the Pods it has to reach, the volumes of a Pod against
    the Secret that fills them, and the life of a resource over any sequence of reconciles and edits by
    others (locale \<open>object_history\<close>), with the invariants of its status.
  \<^item> \<open>Life_Cycles\<close>: the state machines that the stored objects refine (locale \<open>refined_history\<close>).
  \<^item> \<open>Stale_Reads\<close>: the life of a machine when reconciles start from versions of any age and the API server
    merges their patches (locale \<open>stale_history\<close>, contract \<open>merge_contract\<close>).
  \<^item> \<open>E2e_Bootstrap\<close>, \<open>E2e_Correct\<close>, \<open>E2e_Spec\<close>, \<open>E2e_Suite\<close>: the kind cluster of the end-to-end tests, which of the
    resources it takes it gives back, the quick start test with its cleanup, and the suite around both,
    from the parsed flags to the end. Docker, kind, the file system and the test framework are parameters.
  \<^item> \<open>Spec2Isabelle\<close>: what a client of the older API version sees of the life of the resources.

  \<^bold>\<open>What the theorems show.\<close> A machine is reported ready only after its own, ready
  Pod was bootstrapped; in a healthy environment a machine without a Pod gets one and, once that has
  started, is running after two reconciles and stays as it is, whatever failed on the way, and any number
  of machines and clusters do so together; the next reconcile of a deleted machine takes its finalizer
  away, and if that was the last one the machine is gone and further reconciles return at once; a cluster
  gets its Service and, once that has an address, its endpoint; Pods are created only when they are
  missing and deleted only when they have terminated; failures, provider IDs and endpoints are never
  taken back; a finalizer is kept until the node has left its cluster; no error of the API server makes a
  machine fail; the phases are the states of a life cycle; a reconcile is bounded in its calls, writes
  only objects named after its own and ends with one patch, even when it panics. The end-to-end test
  saves its logs before it deletes anything and ends with its whole cleanup if it passed. The places
  where the code does something else than it seems to mean are proved too, as lemmas beside the
  properties: a sidecar that is overwritten, content that is never unzipped, items and references that
  make it panic, requests for objects with another name, a Pod whose containers differ but balance
  (\<open>balanced_containers\<close>), a test that does not clean up when it failed before its cluster
  was there (\<open>quickStart_failed_early\<close>).

  \<^bold>\<open>Assumptions.\<close> Histories assume that nobody but the controller writes the status, the provider ID or the
  endpoint. Those in \<open>Histories\<close> assume that the object a reconcile read is the stored one when its patch
  arrives; \<open>Stale_Reads\<close> does without that for what a machine must keep, while the phase may then lag
  behind the other fields until the next reconcile. Settling is shown for an environment that keeps
  answering from some point on: what failed before does no harm, but no fairness of the answers is modelled. In a fleet
  one reconcile runs after the other; that they may also overlap is shown for the machines, between whose calls
  whole reconciles of other objects may run (\<open>overlapped_machine_settles\<close>). A Go map that the code
  iterates over is a list of entries in some order; the theorems hold for every order.

  \<^bold>\<open>Not modelled.\<close> Logging and the names of its fields (\<open>src/controllers/common_consts.go\<close>); the
  annotations that generate manifests; the parsing of command line flags; the work queue and the caches of
  controller-runtime, of which only the requests made to them are modelled. A slice is its elements: spare capacity and overlapping slices are left out.
\<close>

section \<open>The older API version\<close>

text \<open>The phases of \<open>v1alpha2\<close>, with what an object has to show in each.\<close>

definition machineHonest_v1alpha2 :: "KubernetesMachine_v1alpha2 \<Rightarrow> bool" where
  "machineHonest_v1alpha2 m \<longleftrightarrow>
     (kmst2_Ready (km2_Status m) \<longrightarrow> kms2_ProviderID (km2_Spec m) \<noteq> None) \<and>
     (kmst2_Phase (km2_Status m) = [] \<or>
      kmst2_Phase (km2_Status m) = KubernetesMachinePhasePending_v1alpha2 \<or>
      kmst2_Phase (km2_Status m) = KubernetesMachinePhaseProvisioning_v1alpha2 \<and> \<not> kmst2_Ready (km2_Status m) \<or>
      kmst2_Phase (km2_Status m) = KubernetesMachinePhaseRunning_v1alpha2 \<and> kmst2_Ready (km2_Status m) \<or>
      kmst2_Phase (km2_Status m) = KubernetesMachinePhaseFailed_v1alpha2 \<and>
        (kmst2_ErrorReason (km2_Status m) \<noteq> None \<or> kmst2_ErrorMessage (km2_Status m) \<noteq> None) \<or>
      kmst2_Phase (km2_Status m) = KubernetesMachinePhaseDeleting_v1alpha2 \<and>
        \<not> timeIsZero (om_DeletionTimestamp (km2_Meta m)))"

definition clusterHonest_v1alpha2 :: "KubernetesCluster_v1alpha2 \<Rightarrow> bool" where
  "clusterHonest_v1alpha2 c \<longleftrightarrow>
     kcst2_Phase (kc2_Status c) = [] \<and> \<not> kcst2_Ready (kc2_Status c) \<or>
     kcst2_Phase (kc2_Status c) = KubernetesClusterPhaseProvisioning_v1alpha2 \<and> \<not> kcst2_Ready (kc2_Status c) \<or>
     kcst2_Phase (kc2_Status c) = KubernetesClusterPhaseProvisioned_v1alpha2 \<and> kcst2_Ready (kc2_Status c) \<or>
     kcst2_Phase (kc2_Status c) = KubernetesClusterPhaseFailed_v1alpha2 \<and>
       (kcst2_ErrorReason (kc2_Status c) \<noteq> None \<or> kcst2_ErrorMessage (kc2_Status c) \<noteq> None) \<or>
     kcst2_Phase (kc2_Status c) = KubernetesClusterPhaseDeleting_v1alpha2 \<and>
       \<not> timeIsZero (om_DeletionTimestamp (kc2_Meta c))"

lemma fromHub_honest:
  "machineHonest km \<Longrightarrow> machineHonest_v1alpha2 (machine_fromHub d km)"
  "clusterHonest kc \<Longrightarrow> clusterHonest_v1alpha2 (cluster_fromHub e kc)"
  by (auto simp: machineHonest_def machineHonest_v1alpha2_def machine_fromHub_def machineFailed_def)
    (auto simp: clusterHonest_def clusterHonest_v1alpha2_def cluster_fromHub_def clusterFailed_def Let_def)

lemma fromHub_finalizers:
  "KubernetesMachineFinalizer_v1alpha2 \<in> set (om_Finalizers (km2_Meta (machine_fromHub d km))) \<longleftrightarrow>
     KubernetesMachineFinalizer \<in> set (om_Finalizers (km_Meta km))"
  "KubernetesClusterFinalizer_v1alpha2 \<in> set (om_Finalizers (kc2_Meta (cluster_fromHub e kc))) \<longleftrightarrow>
     KubernetesClusterFinalizer \<in> set (om_Finalizers (kc_Meta kc))"
  by (simp_all add: machine_fromHub_def cluster_fromHub_def Let_def KubernetesMachineFinalizer_v1alpha2_def
      KubernetesMachineFinalizer_def KubernetesClusterFinalizer_v1alpha2_def KubernetesClusterFinalizer_def)

text \<open>
  C35. What a client of \<open>v1alpha2\<close> sees. At every point of the life of a KubernetesMachine and of a
  KubernetesCluster, the conversion webhook serves an object whose phase is one of the phases of that
  version or still empty and holds only while the other fields of the served object say so; and
  the served object carries the finalizer of that version exactly when the stored one has that of the
  controller.
\<close>

theorem life_in_v1alpha2:
  assumes "kube_contract lib"
    and "history (machinePatched lib cloud cli) machineEdited km0 km"
    and "\<not> kmst_Ready (km_Status km0)" and "kmst_Phase (km_Status km0) = []"
    and "history (clusterPatched lib cli') clusterEdited kc0 kc"
    and "\<not> kcst_Ready (kc_Status kc0)" and "kcst_Phase (kc_Status kc0) = []"
  shows "\<exists>m c. machine_ConvertFrom d (HubMachine km) = Returned m \<and> machineHonest_v1alpha2 m \<and>
    (KubernetesMachineFinalizer_v1alpha2 \<in> set (om_Finalizers (km2_Meta m)) \<longleftrightarrow>
       KubernetesMachineFinalizer \<in> set (om_Finalizers (km_Meta km))) \<and>
    cluster_ConvertFrom e (HubCluster kc) = Returned c \<and> clusterHonest_v1alpha2 c \<and>
    (KubernetesClusterFinalizer_v1alpha2 \<in> set (om_Finalizers (kc2_Meta c)) \<longleftrightarrow>
       KubernetesClusterFinalizer \<in> set (om_Finalizers (kc_Meta kc)))"
proof -
  have "machineHonest km0" "clusterHonest kc0" using assms(3,4,6,7) by (simp_all add: machineHonest_def clusterHonest_def)
  then have "machineHonest km" "clusterHonest kc"
    using machine_life.history_good [of lib cloud cli km0 km] cluster_life.history_good [of lib cli' kc0 kc] assms(1,2,5)
    by simp_all
  then show ?thesis
    by (simp add: machine_ConvertFrom_def cluster_ConvertFrom_def fromHub_honest fromHub_finalizers)
qed

theorem life_in_v1alpha2_witness:
  "\<exists>km kc. machinePatched refLib (sampleCloud []) (podClient readyKM running) readyKM km \<and> kmst_Ready (km_Status km) \<and>
     clusterPatched refLib (clusterClient newKC sampleService) newKC kc \<and> kcst_Ready (kc_Status kc) \<and>
     (\<forall>d e. \<exists>m c. machine_ConvertFrom d (HubMachine km) = Returned m \<and> machineHonest_v1alpha2 m \<and>
        cluster_ConvertFrom e (HubCluster kc) = Returned c \<and> clusterHonest_v1alpha2 c)"
proof -
  let ?mstep = "machinePatched refLib (sampleCloud []) (podClient readyKM running)"
  let ?cstep = "clusterPatched refLib (clusterClient newKC sampleService)"
  obtain km where km: "?mstep readyKM km" "kmst_Ready (km_Status km)" by (rule sample_life)
  obtain kc where kc: "?cstep newKC kc" "kcst_Ready (kc_Status kc)" by (rule sample_cluster_life)
  have "history ?mstep machineEdited readyKM km" using history_patched [of ?mstep machineEdited] history_start km(1) by metis
  moreover have "history ?cstep clusterEdited newKC kc" using history_patched [of ?cstep clusterEdited] history_start kc(1) by metis
  ultimately show ?thesis
    using life_in_v1alpha2 [OF ref.kube_contract_axioms _ readyKM_created _ newKC_created] km kc by meson
qed

end
